(* ===== verification/Prelude.thy ===== *)
theory Prelude
  imports Main "HOL-Library.Word"
begin

text \<open>
  Shared vocabulary of the development: C integer types as words of their width, C arrays as
  lists, block moves, the little-endian memory view of a CAN frame's payload, and the record of
  Zephyr byte-order and CAN helper functions the code calls.  Those helpers belong to Zephyr, not
  to this repository: they are a parameter (\<open>byteorder\<close>), and what the code relies on is
  the named hypothesis \<open>byteorder_ok\<close>.
\<close>

unbundle bit_operations_syntax

section \<open>C integers and arrays\<close>

type_synonym u8 = "8 word"
type_synonym u16 = "16 word"
type_synonym u32 = "32 word"
type_synonym u64 = "64 word"
type_synonym bytes = "8 word list"

named_theorems mem_simps \<open>reading a byte array after a block write\<close>

text \<open>
  A block write of \<open>xs\<close> at offset \<open>off\<close> of an array: what memcpy, memmove and memset do when the
  block lies inside the array (the only case in which C defines them).
\<close>

definition mem_put :: "nat \<Rightarrow> 'a list \<Rightarrow> 'a list \<Rightarrow> 'a list" where
  "mem_put off xs buf = take off buf @ xs @ drop (off + length xs) buf"

lemma length_mem_put [simp, mem_simps]:
  "off + length xs \<le> length buf \<Longrightarrow> length (mem_put off xs buf) = length buf"
  by (simp add: mem_put_def)

lemma nth_mem_put [mem_simps]:
  assumes "off + length xs \<le> length buf" and "j < length buf"
  shows "mem_put off xs buf ! j =
    (if off \<le> j \<and> j < off + length xs then xs ! (j - off) else buf ! j)"
  using assms by (auto simp: mem_put_def nth_append min_def)

lemma take_mem_put_before [simp, mem_simps]:
  "n \<le> off \<Longrightarrow> off \<le> length buf \<Longrightarrow> take n (mem_put off xs buf) = take n buf"
  by (simp add: mem_put_def min_def)

lemma mem_put_nil [simp, mem_simps]: "mem_put off [] buf = buf"
  by (simp add: mem_put_def)

lemma drop_mem_put_same [simp, mem_simps]:
  "off \<le> length buf \<Longrightarrow> drop off (mem_put off xs buf) = xs @ drop (off + length xs) buf"
  by (simp add: mem_put_def)

lemma mem_put_full:
  "length xs = length buf \<Longrightarrow> mem_put 0 xs buf = xs"
  by (simp add: mem_put_def)

lemma mem_put_twice:
  "off + length xs \<le> length buf \<Longrightarrow> mem_put (off + length xs) ys (mem_put off xs buf) = mem_put off (xs @ ys) buf"
  by (cases "xs = []") (simp_all add: mem_put_def min_absorb2 ac_simps)

lemma unat_plus_one:
  fixes x y :: "'a::len word"
  assumes "x < y"
  shows "unat (x + 1) = Suc (unat x)"
proof -
  have "Suc (unat x) < 2 ^ LENGTH('a)"
    using assms unsigned_less [of y, where ?'a = nat] unfolding word_less_nat_alt by linarith
  then show ?thesis by (simp add: unat_word_ariths)
qed

lemma nat_in_u8: "n < 256 \<Longrightarrow> unat (of_nat n :: u8) = n"
  by (simp add: unat_of_nat)

lemma unat_eqD: "unat x = n \<Longrightarrow> x = of_nat n" for x :: "'a::len word"
  using unsigned_less [of x, where ?'a = nat] by (simp add: word_unat_eq_iff unat_of_nat)

lemma xor_right_cancel: "x XOR z = y XOR z \<longleftrightarrow> x = y" for x y z :: "'a::len word"
  by (metis xor.assoc xor_self_eq xor.right_neutral)

lemma xor_left_cancel: "z XOR x = z XOR y \<longleftrightarrow> x = y" for x y z :: "'a::len word"
  by (metis xor.assoc xor_self_eq xor.left_neutral)

section \<open>Little-endian memory view\<close>

text \<open>
  The targets (STM32, Cortex-M) are little-endian: the union member data_32 of a CAN frame and a
  memcpy of an integer into a byte buffer read and write the least significant byte first.
\<close>

definition le32_bytes :: "u32 \<Rightarrow> bytes" where
  "le32_bytes x = [ucast x, ucast (drop_bit 8 x), ucast (drop_bit 16 x), ucast (drop_bit 24 x)]"

definition le32_at :: "nat \<Rightarrow> bytes \<Rightarrow> u32" where
  "le32_at off bs = ucast (bs ! off) OR push_bit 8 (ucast (bs ! (off + 1)))
     OR push_bit 16 (ucast (bs ! (off + 2))) OR push_bit 24 (ucast (bs ! (off + 3)))"

lemma length_le32_bytes [simp]: "length (le32_bytes x) = 4"
  by (simp add: le32_bytes_def)

lemma bit_recombine [mem_simps]:
  fixes x :: "'a::len word"
  shows "bit (ucast (ucast (drop_bit k x) :: u8) :: 'a word) n \<longleftrightarrow> n < 8 \<and> bit x (k + n)"
  using bit_imp_le_length [of x "k + n"] by (auto simp: bit_ucast_iff bit_drop_bit_eq)

lemma le32_recombine:
  fixes x :: u32
  shows "ucast (ucast x :: u8) OR push_bit 8 (ucast (ucast (drop_bit 8 x) :: u8))
     OR push_bit 16 (ucast (ucast (drop_bit 16 x) :: u8))
     OR push_bit 24 (ucast (ucast (drop_bit 24 x) :: u8)) = x" (is "?l = x")
proof (rule bit_word_eqI)
  fix n assume n: "n < LENGTH(32)"
  have 0: "bit (ucast (ucast x :: u8) :: u32) n \<longleftrightarrow> n < 8 \<and> bit x n"
    using bit_recombine [of 0 x n] by simp
  show "bit ?l n = bit x n"
    using n unfolding bit_or_iff bit_push_bit_iff bit_recombine 0 by (cases "n < 8"; cases "n < 16"; cases "n < 24") auto
qed

lemma le32_at_bytes [simp]: "le32_at 0 (le32_bytes x @ rest) = x"
  by (simp add: le32_at_def le32_bytes_def le32_recombine)

lemma le32_at_bytes4 [simp]:
  "length pre = 4 \<Longrightarrow> le32_at 4 (pre @ le32_bytes x @ rest) = x"
  by (auto simp: le32_at_def le32_bytes_def nth_append le32_recombine)

lemma le32_at_bytes4' [simp]: "le32_at 4 (le32_bytes y @ le32_bytes x) = x"
  using le32_at_bytes4 [of "le32_bytes y" x "[]"] by simp

section \<open>CAN frames\<close>

record can_frame =
  can_id :: u32
  can_dlc :: u8
  can_data :: bytes

text \<open>frame->data_32[i]: the i-th word of the eight payload bytes.\<close>

definition data_32 :: "can_frame \<Rightarrow> nat \<Rightarrow> u32" where
  "data_32 f i = le32_at (4 * i) (can_data f)"

section \<open>Zephyr helper functions used by the code\<close>

text \<open>
  Reading accessors take the bytes from the pointer on; writing accessors return the bytes they
  store.  cpu_to_be32 and be32_to_cpu are the byte swaps of sys/byteorder.h, dlc_to_bytes and
  bytes_to_dlc those of drivers/can.h.
\<close>

record byteorder =
  get_le16 :: "bytes \<Rightarrow> u16"
  get_le32 :: "bytes \<Rightarrow> u32"
  get_be16 :: "bytes \<Rightarrow> u16"
  get_be32 :: "bytes \<Rightarrow> u32"
  put_le32 :: "u32 \<Rightarrow> bytes"
  put_be16 :: "u16 \<Rightarrow> bytes"
  put_be32 :: "u32 \<Rightarrow> bytes"
  cpu_to_be32 :: "u32 \<Rightarrow> u32"
  be32_to_cpu :: "u32 \<Rightarrow> u32"
  dlc_to_bytes :: "u8 \<Rightarrow> u8"
  bytes_to_dlc :: "u8 \<Rightarrow> u8"

definition byteorder_ok :: "byteorder \<Rightarrow> bool" where
  "byteorder_ok bo \<longleftrightarrow>
     (\<forall>x. length (put_le32 bo x) = 4) \<and> (\<forall>x. length (put_be16 bo x) = 2) \<and>
     (\<forall>x. length (put_be32 bo x) = 4) \<and>
     (\<forall>x r. get_le32 bo (put_le32 bo x @ r) = x) \<and>
     (\<forall>x r. get_be16 bo (put_be16 bo x @ r) = x) \<and>
     (\<forall>x r. get_be32 bo (put_be32 bo x @ r) = x) \<and>
     (\<forall>x. be32_to_cpu bo (cpu_to_be32 bo x) = x) \<and>
     (\<forall>n. n \<le> 8 \<longrightarrow> dlc_to_bytes bo n = n \<and> bytes_to_dlc bo n = n)"

lemma byteorder_okD:
  assumes "byteorder_ok bo"
  shows "length (put_le32 bo x) = 4" and "length (put_be16 bo h) = 2"
    and "length (put_be32 bo x) = 4"
    and "get_le32 bo (put_le32 bo x @ r) = x"
    and "get_be16 bo (put_be16 bo h @ r) = h"
    and "get_be32 bo (put_be32 bo x @ r) = x"
    and "be32_to_cpu bo (cpu_to_be32 bo x) = x"
    and "n \<le> 8 \<Longrightarrow> dlc_to_bytes bo n = n"
    and "n \<le> 8 \<Longrightarrow> bytes_to_dlc bo n = n"
  using assms by (auto simp: byteorder_ok_def)

lemma put_be32_inj:
  assumes "byteorder_ok bo" and "put_be32 bo x = put_be32 bo y"
  shows "x = y"
  using byteorder_okD(6) [OF assms(1), of x "[]"] byteorder_okD(6) [OF assms(1), of y "[]"] assms(2)
  by simp

text \<open>A well-formed classic CAN frame carries at most its eight data bytes.\<close>

definition frame_wf :: "byteorder \<Rightarrow> can_frame \<Rightarrow> bool" where
  "frame_wf bo f \<longleftrightarrow> length (can_data f) = 8 \<and> unat (dlc_to_bytes bo (can_dlc f)) \<le> 8"

definition payload :: "byteorder \<Rightarrow> can_frame \<Rightarrow> bytes" where
  "payload bo f = take (unat (dlc_to_bytes bo (can_dlc f))) (can_data f)"

text \<open>
  The documented behaviour can hold: a concrete instance, used by the witnesses only.
\<close>

definition std_byteorder :: byteorder where
  "std_byteorder = \<lparr>
     get_le16 = (\<lambda>bs. ucast (bs ! 0) OR push_bit 8 (ucast (bs ! 1))),
     get_le32 = le32_at 0,
     get_be16 = (\<lambda>bs. ucast (bs ! 1) OR push_bit 8 (ucast (bs ! 0))),
     get_be32 = (\<lambda>bs. le32_at 0 (rev (take 4 bs))),
     put_le32 = le32_bytes,
     put_be16 = (\<lambda>x. [ucast (drop_bit 8 x), ucast x]),
     put_be32 = (\<lambda>x. rev (le32_bytes x)),
     cpu_to_be32 = (\<lambda>x. le32_at 0 (rev (le32_bytes x))),
     be32_to_cpu = (\<lambda>x. le32_at 0 (rev (le32_bytes x))),
     dlc_to_bytes = (\<lambda>n. if n \<le> 8 then n else 8),
     bytes_to_dlc = (\<lambda>n. if n \<le> 8 then n else 8)\<rparr>"

lemma std_dlc [simp]:
  "dlc_to_bytes std_byteorder n = (if n \<le> 8 then n else 8)"
  "bytes_to_dlc std_byteorder n = (if n \<le> 8 then n else 8)"
  by (simp_all add: std_byteorder_def)

lemma le16_recombine:
  fixes x :: u16
  shows "ucast (ucast x :: u8) OR push_bit 8 (ucast (ucast (drop_bit 8 x) :: u8)) = x" (is "?l = x")
proof (rule bit_word_eqI)
  fix n assume n: "n < LENGTH(16)"
  have 0: "bit (ucast (ucast x :: u8) :: u16) n \<longleftrightarrow> n < 8 \<and> bit x n"
    using bit_recombine [of 0 x n] by simp
  show "bit ?l n = bit x n"
    using n unfolding bit_or_iff bit_push_bit_iff bit_recombine 0 by (cases "n < 8") auto
qed

lemma le32_bytes_at:
  assumes "length bs = 4"
  shows "le32_bytes (le32_at 0 bs) = bs"
proof -
  from assms obtain a b c d where bs: "bs = [a, b, c, d]"
    by (auto simp: length_Suc_conv numeral_eq_Suc)
  let ?w = "(ucast a OR push_bit 8 (ucast b) OR push_bit 16 (ucast c) OR push_bit 24 (ucast d)) :: u32"
  have 1: "(ucast ?w :: u8) = a" "(ucast (drop_bit 8 ?w) :: u8) = b"
    "(ucast (drop_bit 16 ?w) :: u8) = c" "(ucast (drop_bit 24 ?w) :: u8) = d"
    by (rule bit_word_eqI;
        simp add: bit_or_iff bit_push_bit_iff bit_ucast_iff bit_drop_bit_eq;
        auto dest: bit_imp_le_length)+
  show ?thesis
    using 1 by (simp add: bs le32_bytes_def le32_at_def numeral_eq_Suc)
qed

lemma std_byteorder_ok: "byteorder_ok std_byteorder"
proof -
  have swap: "le32_at 0 (rev (le32_bytes (le32_at 0 (rev (le32_bytes x))))) = x" for x
    using le32_at_bytes [of x "[]"] by (simp add: le32_bytes_at)
  show ?thesis
    by (simp add: byteorder_ok_def std_byteorder_def swap le16_recombine
        le32_at_bytes [where rest = "[]", simplified])
qed

section \<open>printf("%d") of a non-negative number\<close>

fun dec_string :: "nat \<Rightarrow> string" where
  "dec_string n =
     (if n < 10 then [char_of (48 + n)] else dec_string (n div 10) @ [char_of (48 + n mod 10)])"

declare dec_string.simps [simp del]

definition int_string :: "int \<Rightarrow> string" where
  "int_string i = (if i < 0 then ''-'' @ dec_string (nat (- i)) else dec_string (nat i))"

definition char_bytes :: "string \<Rightarrow> bytes" where
  "char_bytes s = map of_char s"

lemma length_char_bytes [simp]: "length (char_bytes s) = length s"
  by (simp add: char_bytes_def)

text \<open>
  A character array of \<open>n\<close> bytes after snprintf(buf, n, ...) produced the text \<open>s\<close>: at most
  \<open>n - 1\<close> characters and the terminator.  snprintf returns the length of \<open>s\<close> itself.
\<close>

definition snprintf_buf :: "nat \<Rightarrow> string \<Rightarrow> bytes" where
  "snprintf_buf n s = take (n - 1) (char_bytes s) @ [0]"

lemma take_snprintf_buf:
  "length s < n \<Longrightarrow> take (length s) (snprintf_buf n s @ rest) = char_bytes s"
  by (simp add: snprintf_buf_def min_def)

text \<open>The bit a shift register puts out after \<open>j\<close> shifts.\<close>

lemma high_bit: "(push_bit j b AND 0x80 \<noteq> 0) = bit b (7 - j)" if "j < 8" for b :: u8
proof -
  have "(0x80 :: u8) = 2 ^ 7" by simp
  then have "(push_bit j b AND 0x80 \<noteq> 0) = bit (push_bit j b) 7" by (simp only: and_exp_eq_0_iff_not_bit not_not)
  also have "\<dots> = bit b (7 - j)" using that by (simp only: bit_push_bit_iff) (simp add: possible_bit_word)
  finally show ?thesis .
qed

section \<open>Sums and extrema computed by a fold\<close>

lemma sum_list_upper: "m \<in> set xs \<Longrightarrow> \<forall>v \<in> set xs. v \<le> u \<Longrightarrow> sum_list xs \<le> (m :: int) + (int (length xs) - 1) * u"
proof (induction xs)
  case (Cons x xs)
  have all: "sum_list xs \<le> int (length xs) * u" using sum_list_mono [of xs "\<lambda>x. x" "\<lambda>_. u"] Cons.prems(2)
    by (simp add: sum_list_triv)
  show ?case
  proof (cases "m = x")
    case True then show ?thesis using all by simp
  next
    case False
    then have "sum_list xs \<le> m + (int (length xs) - 1) * u" using Cons by simp
    moreover have "x \<le> u" using Cons.prems(2) by simp
    ultimately show ?thesis by (simp add: algebra_simps)
  qed
qed simp

lemma sum_list_lower: "m \<in> set xs \<Longrightarrow> \<forall>v \<in> set xs. l \<le> v \<Longrightarrow> (m :: int) + (int (length xs) - 1) * l \<le> sum_list xs"
proof -
  assume "m \<in> set xs" "\<forall>v \<in> set xs. l \<le> v"
  then have "sum_list (map uminus xs) \<le> - m + (int (length (map uminus xs)) - 1) * - l" by (intro sum_list_upper) auto
  moreover have "sum_list (map uminus xs) = - sum_list xs" by (induction xs) simp_all
  ultimately show ?thesis by simp
qed

lemma fold_min_le: "\<forall>v \<in> insert m (set xs). fold (\<lambda>v m. if v < m then v else m) xs (m :: int) \<le> v"
proof (induction xs arbitrary: m)
  case (Cons x xs)
  from Cons [of "if x < m then x else m"] show ?case by (auto split: if_splits)
qed simp

lemma fold_max_ge: "\<forall>v \<in> insert m (set xs). v \<le> fold (\<lambda>v m. if v > m then v else m) xs (m :: int)"
proof (induction xs arbitrary: m)
  case (Cons x xs)
  from Cons [of "if x > m then x else m"] show ?case by (auto split: if_splits)
qed simp

lemma fold_pick:
  assumes "\<And>v m. f v m = v \<or> f v m = m"
  shows "fold f xs m \<in> insert m (set xs)"
proof (induction xs arbitrary: m)
  case (Cons x xs)
  then show ?case using assms [of x m] by fastforce
qed simp

lemma fold_sum: "fold (\<lambda>v s. s + v) xs (a :: int) = a + sum_list xs"
  by (induction xs arbitrary: a) simp_all

section \<open>Values in memory and names of settings\<close>

text \<open>A 16-bit integer as its two bytes, the low one first.\<close>

definition u16_mem :: "u16 \<Rightarrow> bytes" where
  "u16_mem x = [ucast x, ucast (drop_bit 8 x)]"

lemma length_u16_mem [simp]: "length (u16_mem x) = 2"
  by (simp add: u16_mem_def)

definition mem_u16 :: "bytes \<Rightarrow> u16" where
  "mem_u16 b = ucast (b ! 0) OR push_bit 8 (ucast (b ! 1))"

lemma mem_u16_mem [simp]: "mem_u16 (u16_mem x) = x"
  using le16_recombine [of x] by (simp add: mem_u16_def u16_mem_def)

text \<open>The characters before the terminator.\<close>

definition c_string :: "bytes \<Rightarrow> string" where
  "c_string b = map (\<lambda>x. char_of (unat x)) (takeWhile (\<lambda>x. x \<noteq> 0) b)"

lemma c_string_char_bytes [simp]:
  assumes "CHR 0x00 \<notin> set s"
  shows "c_string (char_bytes s) = s"
proof -
  have un: "unat (of_char c :: u8) = of_char c" for c
  proof -
    have "(of_char c :: nat) < 256" using of_char_mod_256 [of c, where ?'a = nat] by (metis mod_less_divisor zero_less_numeral)
    then have "unat (of_nat (of_char c) :: u8) = of_char c" by (rule nat_in_u8)
    then show ?thesis by (simp add: of_nat_of_char)
  qed
  have nz: "(of_char c :: u8) \<noteq> 0" if "c \<in> set s" for c
  proof
    assume "(of_char c :: u8) = 0"
    then have "(of_char c :: nat) = 0" using un [of c] by simp
    then have "char_of (of_char c :: nat) = char_of (0 :: nat)" by (rule arg_cong)
    then have "c = char_of (0 :: nat)" by (simp only: char_of_char)
    then have "c = CHR 0x00" by (simp add: char_of_def)
    then show False using assms that by simp
  qed
  then have tw: "takeWhile (\<lambda>x. x \<noteq> 0) (char_bytes s) = char_bytes s"
    by (auto simp: char_bytes_def takeWhile_eq_all_conv)
  show ?thesis unfolding c_string_def tw by (simp add: char_bytes_def comp_def un)
qed

text \<open>
  settings_name_next of the kernel: the length of the first part of a name, and what follows its separator.
\<close>

definition names_ok :: "(string \<Rightarrow> nat \<times> string option) \<Rightarrow> bool" where
  "names_ok nxt \<longleftrightarrow> (\<forall>s. CHR ''/'' \<notin> set s \<and> CHR ''='' \<notin> set s \<longrightarrow> nxt s = (length s, None))"

end
