(* ===== verification/Crypt.thy ===== *)
theory Crypt
  imports Prelude
begin

text \<open>
  The link-layer cipher of the nRF24L01+ driver, \<open>drivers/nrf24l01p/nrf24_crypt.c\<close>: the XXTEA
  block function on two words, the counter-mode keystream, sealing and opening a frame in the
  driver's buffer, and the receiver's sliding window.  The module's static variables are the
  record \<open>crypt\<close>; each radio has its own instance.
\<close>

section \<open>XXTEA\<close>

definition XXTEA_DELTA :: u32 where
  "XXTEA_DELTA = 0x9E3779B9"

text \<open>The mixing expression of the two updates of a round.\<close>

definition xxtea_mx :: "u32 list \<Rightarrow> u32 \<Rightarrow> u32 \<Rightarrow> u32 \<Rightarrow> u8 \<Rightarrow> u8 \<Rightarrow> u32" where
  "xxtea_mx key y z sm p e =
     ((drop_bit 5 z XOR push_bit 2 y) + (drop_bit 3 y XOR push_bit 4 z)) XOR
     ((sm XOR y) + (key ! unat ((p AND 3) XOR e) XOR z))"

text \<open>One turn of the do-while loop, for a block of \<open>n\<close> words; the C code fixes \<open>n = 2\<close>.\<close>

definition xxtea_round :: "u32 list \<Rightarrow> nat \<Rightarrow> u32 list \<times> u32 \<times> u32 \<Rightarrow> u32 list \<times> u32 \<times> u32" where
  "xxtea_round key n = (\<lambda>(v, z, sm).
     let sm = sm + XXTEA_DELTA;
         e = (ucast (drop_bit 2 sm AND 3) :: u8);
         (v, z) = fold (\<lambda>p (v, z).
             let y = v ! (p + 1);
                 z = v ! p + xxtea_mx key y z sm (of_nat p) e
             in (v[p := z], z)) [0..<n - 1] (v, z);
         y = v ! 0;
         z = v ! (n - 1) + xxtea_mx key y z sm (of_nat (n - 1)) e
     in (v[n - 1 := z], z, sm))"

definition xxtea_encrypt_block :: "u32 list \<Rightarrow> u32 list \<Rightarrow> u32 list" where
  "xxtea_encrypt_block v key =
     (let n = 2; rounds = 6 + 52 div 2
      in fst ((xxtea_round key n ^^ rounds) (v, v ! (n - 1), 0)))"

section \<open>Module state\<close>

record crypt =
  crypt_key :: "u32 list"
  tx_counter :: u32
  rx_counter :: u32
  rx_initialized :: bool

definition RX_WINDOW :: u8 where
  "RX_WINDOW = 32"

definition NRF24_CRYPT_ADDR_LEN :: nat where
  "NRF24_CRYPT_ADDR_LEN = 5"

definition nrf24_crypt_set_key :: "byteorder \<Rightarrow> bytes \<Rightarrow> crypt \<Rightarrow> crypt" where
  "nrf24_crypt_set_key bo addr st =
     (let kbytes = map (\<lambda>i. addr ! (i mod NRF24_CRYPT_ADDR_LEN)) [0..<16]
      in st\<lparr>crypt_key := map (\<lambda>i. get_be32 bo (drop (i * 4) kbytes)) [0..<4],
            tx_counter := 0,
            rx_initialized := False\<rparr>)"

definition nrf24_crypt_rx_reset :: "crypt \<Rightarrow> crypt" where
  "nrf24_crypt_rx_reset st = st\<lparr>rx_initialized := False\<rparr>"

section \<open>Counter mode\<close>

text \<open>The eight keystream bytes of one block.\<close>

definition ctr_block :: "byteorder \<Rightarrow> u32 list \<Rightarrow> u32 \<Rightarrow> bytes" where
  "ctr_block bo key counter =
     (let block = xxtea_encrypt_block [counter, NOT counter] key
      in put_be32 bo (block ! 0) @ put_be32 bo (block ! 1))"

text \<open>The inner loop: \<open>chunk\<close> bytes of the buffer from \<open>off\<close> on are XORed with the block.\<close>

definition xor_chunk :: "bytes \<Rightarrow> nat \<Rightarrow> nat \<Rightarrow> bytes \<Rightarrow> bytes" where
  "xor_chunk ks chunk off buf =
     fold (\<lambda>i b. b[off + i := b ! (off + i) XOR ks ! i]) [0..<chunk] buf"

text \<open>The while loop of ctr_xor, from offset \<open>off\<close> with the counter already advanced.\<close>

function ctr_xor_from :: "byteorder \<Rightarrow> u32 list \<Rightarrow> nat \<Rightarrow> nat \<Rightarrow> u32 \<Rightarrow> bytes \<Rightarrow> bytes" where
  "ctr_xor_from bo key len off counter buf =
     (if off < len then
        let ks = ctr_block bo key counter;
            chunk = (if len - off < 8 then len - off else 8)
        in ctr_xor_from bo key len (off + chunk) (counter + 1) (xor_chunk ks chunk off buf)
      else buf)"
  by pat_completeness auto
termination
  by (relation "measure (\<lambda>(bo, key, len, off, counter, buf). len - off)") auto

declare ctr_xor_from.simps [simp del]

definition ctr_xor :: "byteorder \<Rightarrow> u32 list \<Rightarrow> bytes \<Rightarrow> u8 \<Rightarrow> u32 \<Rightarrow> bytes" where
  "ctr_xor bo key buf len counter = ctr_xor_from bo key (unat len) 0 counter buf"

section \<open>Sealing and opening a frame\<close>

text \<open>Both work in place on the caller's buffer and return the new length, 0 for a refusal.\<close>

definition nrf24_crypt_seal :: "byteorder \<Rightarrow> bytes \<Rightarrow> u8 \<Rightarrow> crypt \<Rightarrow> u8 \<times> bytes \<times> crypt" where
  "nrf24_crypt_seal bo buf plaintext_len st =
     (if plaintext_len < 2 \<or> plaintext_len > 31 then (0, buf, st)
      else
        let ctr = tx_counter st;
            st = st\<lparr>tx_counter := tx_counter st + 1\<rparr>;
            ctr_byte = (ucast (ctr AND 0xFF) :: u8);
            buf = mem_put 1 (take (unat plaintext_len) buf) buf;
            buf = take 1 buf @ ctr_xor bo (crypt_key st) (drop 1 buf) plaintext_len ctr;
            buf = buf[0 := ctr_byte]
        in (plaintext_len + 1, buf, st))"

definition nrf24_crypt_open :: "byteorder \<Rightarrow> bytes \<Rightarrow> u8 \<Rightarrow> crypt \<Rightarrow> u8 \<times> bytes \<times> crypt" where
  "nrf24_crypt_open bo buf frame_len st =
     (if frame_len < 3 \<or> frame_len > 32 then (0, buf, st)
      else
        let ctr_byte = buf ! 0;
            rx_low = (ucast (rx_counter st AND 0xFF) :: u8);
            diff = ctr_byte - rx_low
        in if rx_initialized st \<and> (diff = 0 \<or> diff > RX_WINDOW) then (0, buf, st)
           else
             let ctr = (if \<not> rx_initialized st then ucast ctr_byte
                        else if ctr_byte < rx_low
                        then (rx_counter st AND NOT 0xFF) + 256 + ucast ctr_byte
                        else (rx_counter st AND NOT 0xFF) + ucast ctr_byte);
                 buf = take 1 buf @ ctr_xor bo (crypt_key st) (drop 1 buf) (frame_len - 1) ctr;
                 buf = mem_put 0 (take (unat (frame_len - 1)) (drop 1 buf)) buf
             in (frame_len - 1, buf, st\<lparr>rx_counter := ctr, rx_initialized := True\<rparr>))"

text \<open>
  The whole-frame view the callers have: the frame that leaves the radio for a payload, and the
  payload handed on for a received frame (\<open>None\<close> when it is refused).
\<close>

definition seal_frame :: "byteorder \<Rightarrow> crypt \<Rightarrow> bytes \<Rightarrow> bytes \<times> crypt" where
  "seal_frame bo st p =
     (case nrf24_crypt_seal bo (p @ replicate (32 - length p) 0) (of_nat (length p)) st of
        (n, buf, st') \<Rightarrow> (take (unat n) buf, st'))"

definition open_frame :: "byteorder \<Rightarrow> crypt \<Rightarrow> bytes \<Rightarrow> bytes option \<times> crypt" where
  "open_frame bo st f =
     (case nrf24_crypt_open bo (f @ replicate (32 - length f) 0) (of_nat (length f)) st of
        (n, buf, st') \<Rightarrow> (if n = 0 then None else Some (take (unat n) buf), st'))"

section \<open>The keystream in closed form\<close>

lemma length_xor_chunk [simp]: "length (xor_chunk ks chunk off buf) = length buf"
proof -
  have "length (fold (\<lambda>i b. b[off + i := b ! (off + i) XOR ks ! i]) is buf) = length buf" for "is"
    by (induction "is" arbitrary: buf) auto
  then show ?thesis by (simp add: xor_chunk_def)
qed

lemma xor_chunk_nth:
  "off + chunk \<le> length buf \<Longrightarrow>
   xor_chunk ks chunk off buf ! j =
     (if off \<le> j \<and> j < off + chunk then buf ! j XOR ks ! (j - off) else buf ! j)"
proof (induction chunk)
  case 0
  then show ?case by (auto simp: xor_chunk_def)
next
  case (Suc n)
  have step: "xor_chunk ks (Suc n) off buf =
      (xor_chunk ks n off buf)[off + n := xor_chunk ks n off buf ! (off + n) XOR ks ! n]"
    by (simp add: xor_chunk_def)
  show ?case
    using Suc by (auto simp: step nth_list_update less_Suc_eq)
qed

definition ctr_byte_at :: "byteorder \<Rightarrow> u32 list \<Rightarrow> u32 \<Rightarrow> nat \<Rightarrow> u8" where
  "ctr_byte_at bo key counter j = ctr_block bo key (counter + of_nat (j div 8)) ! (j mod 8)"

lemma length_ctr_xor_from [simp]: "length (ctr_xor_from bo key len off c buf) = length buf"
proof (induction bo key len off c buf rule: ctr_xor_from.induct)
  case (1 bo key len off c buf)
  then show ?case
    by (subst ctr_xor_from.simps) (simp add: Let_def)
qed

lemma ctr_byte_at_shift:
  "8 \<le> j \<Longrightarrow> ctr_byte_at bo key (c + 1) (j - 8) = ctr_byte_at bo key c j"
proof -
  assume "8 \<le> j"
  then obtain k where "j = k + 8" by (metis le_add_diff_inverse2)
  moreover have "(k + 8) div 8 = k div 8 + 1" by simp
  ultimately show ?thesis by (simp add: ctr_byte_at_def algebra_simps)
qed

lemma ctr_xor_from_nth:
  "len \<le> length buf \<Longrightarrow> j < length buf \<Longrightarrow>
   ctr_xor_from bo key len off c buf ! j =
     (if off \<le> j \<and> j < len then buf ! j XOR ctr_byte_at bo key c (j - off) else buf ! j)"
proof (induction bo key len off c buf arbitrary: j rule: ctr_xor_from.induct)
  case (1 bo key len off c buf)
  show ?case
  proof (cases "off < len")
    case False
    then show ?thesis by (subst ctr_xor_from.simps) auto
  next
    case True
    define chunk where "chunk = (if len - off < 8 then len - off else 8)"
    define buf' where "buf' = xor_chunk (ctr_block bo key c) chunk off buf"
    have chunk: "off + chunk \<le> len" "off + chunk \<le> length buf" "chunk \<le> 8"
      using True "1.prems" by (auto simp: chunk_def)
    have unf: "ctr_xor_from bo key len off c buf = ctr_xor_from bo key len (off + chunk) (c + 1) buf'"
      using True by (subst ctr_xor_from.simps) (simp add: Let_def chunk_def buf'_def)
    have IH: "ctr_xor_from bo key len (off + chunk) (c + 1) buf' ! j =
        (if off + chunk \<le> j \<and> j < len
         then buf' ! j XOR ctr_byte_at bo key (c + 1) (j - (off + chunk)) else buf' ! j)"
      using "1.IH" [OF True refl refl, folded chunk_def, folded buf'_def] "1.prems"
      by (simp add: buf'_def)
    have first: "ctr_byte_at bo key c k = ctr_block bo key c ! k" if "k < chunk" for k
      using that chunk(3) by (simp add: ctr_byte_at_def)
    have nxt: "ctr_byte_at bo key (c + 1) (j - (off + chunk)) = ctr_byte_at bo key c (j - off)"
      if "off + chunk \<le> j" "j < len"
    proof -
      from that have "chunk = 8" by (auto simp: chunk_def split: if_splits)
      then show ?thesis
        using ctr_byte_at_shift [of "j - off" bo key c] that by (simp add: diff_diff_left)
    qed
    show ?thesis
      using chunk(1,2) unfolding unf IH
      by (auto simp: buf'_def xor_chunk_nth first nxt)
  qed
qed

lemma length_ctr_xor [simp]: "length (ctr_xor bo key buf len c) = length buf"
  by (simp add: ctr_xor_def)

lemma ctr_xor_nth:
  "unat len \<le> length buf \<Longrightarrow> j < length buf \<Longrightarrow>
   ctr_xor bo key buf len c ! j =
     (if j < unat len then buf ! j XOR ctr_byte_at bo key c j else buf ! j)"
  by (simp add: ctr_xor_def ctr_xor_from_nth)

text \<open>The loop is the XOR of the buffer's prefix with the keystream, byte by byte.\<close>

definition stream_xor :: "byteorder \<Rightarrow> u32 list \<Rightarrow> u32 \<Rightarrow> bytes \<Rightarrow> bytes" where
  "stream_xor bo key c p = map (\<lambda>j. p ! j XOR ctr_byte_at bo key c j) [0..<length p]"

lemma length_stream_xor [simp]: "length (stream_xor bo key c p) = length p"
  by (simp add: stream_xor_def)

lemma stream_xor_nth [simp]:
  "j < length p \<Longrightarrow> stream_xor bo key c p ! j = p ! j XOR ctr_byte_at bo key c j"
  by (simp add: stream_xor_def)

lemma ctr_xor_stream:
  assumes "unat len \<le> length buf"
  shows "ctr_xor bo key buf len c = stream_xor bo key c (take (unat len) buf) @ drop (unat len) buf"
  using assms by (intro nth_equalityI) (auto simp: ctr_xor_nth nth_append)

lemma xor_cancel_word: "(a XOR b) XOR b = (a :: 'a::len word)"
  by (simp add: xor.assoc)

lemma stream_xor_involution [simp]:
  "stream_xor bo key c (stream_xor bo key c p) = p"
  by (intro nth_equalityI) (auto simp: xor_cancel_word)

section \<open>Frames in closed form\<close>

lemma low_byte: "ucast ((c :: u32) AND 0xFF) = (ucast c :: u8)"
proof -
  have "c AND 0xFF = take_bit 8 c"
    by (simp add: take_bit_eq_mask mask_eq_exp_minus_1)
  then show ?thesis
    by (intro bit_word_eqI) (auto simp: bit_ucast_iff bit_take_bit_iff)
qed

lemma seal_frame_eq:
  assumes "2 \<le> length p" and "length p \<le> 31"
  shows "seal_frame bo st p =
    (ucast (tx_counter st) # stream_xor bo (crypt_key st) (tx_counter st) p,
     st\<lparr>tx_counter := tx_counter st + 1\<rparr>)"
proof -
  let ?n = "of_nat (length p) :: u8"
  let ?b = "p @ replicate (32 - length p) 0"
  have un: "unat ?n = length p" using assms by (simp add: nat_in_u8)
  have un1: "unat (?n + 1) = Suc (length p)"
  proof -
    have "?n + 1 = of_nat (Suc (length p))" by simp
    also have "unat \<dots> = Suc (length p)" using assms by (intro nat_in_u8) simp
    finally show ?thesis .
  qed
  have g: "\<not> (?n < 2 \<or> ?n > 31)"
    using assms un by (simp add: word_less_nat_alt)
  obtain x xs where b: "?b = x # xs" and xs: "31 \<le> length xs"
    using assms by (cases ?b) (auto dest: arg_cong [of _ _ length])
  have put: "mem_put 1 p (x # xs) = x # p @ drop (length p) xs"
    by (simp add: mem_put_def)
  have tk: "take (length p) ?b = p" by simp
  show ?thesis
    unfolding seal_frame_def nrf24_crypt_seal_def if_not_P [OF g] Let_def un tk
    by (simp add: un1 put b ctr_xor_stream un low_byte)
qed

definition rx_accepts :: "crypt \<Rightarrow> u8 \<Rightarrow> bool" where
  "rx_accepts st b \<longleftrightarrow>
     rx_initialized st \<longrightarrow>
       (let d = b - ucast (rx_counter st) in d \<noteq> 0 \<and> d \<le> RX_WINDOW)"

definition rx_infer :: "crypt \<Rightarrow> u8 \<Rightarrow> u32" where
  "rx_infer st b =
     (if rx_initialized st then rx_counter st + ucast (b - ucast (rx_counter st)) else ucast b)"

lemma ucast_sub_u8:
  fixes b l :: u8
  shows "(ucast (b - l) :: u32) = (if b < l then 256 + ucast b - ucast l else ucast b - ucast l)"
proof (cases "b < l")
  case True
  have "unat l < 2 ^ LENGTH(8)" by (rule unsigned_less)
  then have l256: "unat l \<le> 256 + unat b" by simp
  from True have lt: "unat b < unat l" by (simp add: word_less_nat_alt)
  then have "unat (b - l) = 256 + unat b - unat l"
    using unat_sub_if_size [of b l] by (simp add: word_size)
  then have "(of_nat (unat (b - l)) :: u32) = of_nat (256 + unat b - unat l)" by simp
  also have "\<dots> = 256 + of_nat (unat b) - of_nat (unat l)"
    using l256 by (subst of_nat_diff) auto
  finally show ?thesis using True by (simp flip: unsigned_of_nat)
next
  case False
  then have le: "unat l \<le> unat b" by (simp add: word_less_nat_alt)
  then have "unat (b - l) = unat b - unat l" by (simp add: unat_sub word_le_nat_alt)
  then have "(of_nat (unat (b - l)) :: u32) = of_nat (unat b - unat l)" by (rule arg_cong)
  also have "\<dots> = of_nat (unat b) - of_nat (unat l)" using le by (rule of_nat_diff)
  finally have "(of_nat (unat (b - l)) :: u32) = of_nat (unat b) - of_nat (unat l)" .
  then show ?thesis using False by simp
qed

lemma high_part: "(rc :: u32) AND NOT 0xFF = rc - ucast (ucast rc :: u8)"
proof -
  have "rc AND 0xFF = ucast (ucast rc :: u8)"
  proof -
    have "rc AND 0xFF = take_bit 8 rc"
      by (simp add: take_bit_eq_mask mask_eq_exp_minus_1)
    then show ?thesis
      by (intro bit_word_eqI) (auto simp: bit_ucast_iff bit_take_bit_iff)
  qed
  moreover have "(rc AND 0xFF) + (rc AND NOT 0xFF) = rc"
    by (subst disjunctive_add) (auto simp: bit_simps intro!: bit_word_eqI)
  ultimately show ?thesis by (simp add: algebra_simps)
qed

lemma open_frame_eq:
  assumes "2 \<le> length q" and "length q \<le> 31"
  shows "open_frame bo st (b # q) =
    (if rx_accepts st b
     then (Some (stream_xor bo (crypt_key st) (rx_infer st b) q),
           st\<lparr>rx_counter := rx_infer st b, rx_initialized := True\<rparr>)
     else (None, st))"
proof -
  let ?n = "of_nat (length (b # q)) :: u8"
  let ?b = "(b # q) @ replicate (32 - length (b # q)) 0"
  let ?pad = "replicate (31 - length q) (0 :: u8)"
  have un: "unat ?n = Suc (length q)"
    using assms nat_in_u8 [of "Suc (length q)"] by simp
  have un1: "unat (?n - 1) = length q"
  proof -
    have "?n - 1 = of_nat (length q)" by simp
    then show ?thesis using assms by (simp add: nat_in_u8)
  qed
  have g: "\<not> (?n < 3 \<or> ?n > 32)"
    using assms un by (simp add: word_less_nat_alt)
  have nz: "?n - 1 \<noteq> 0" using un1 assms by (metis not_numeral_le_zero unat_0)
  have hd: "?b ! 0 = b" by simp
  have bb: "take 1 ?b = [b]" "drop 1 ?b = q @ ?pad" by simp_all
  have xo: "ctr_xor bo key (q @ ?pad) (?n - 1) c = stream_xor bo key c q @ ?pad" for key c
    using un1 by (subst ctr_xor_stream) auto
  have mv: "take (length q) (mem_put 0 (take (length q) (drop 1 ([b] @ xs @ ?pad))) ([b] @ xs @ ?pad)) = xs"
    if "length xs = length q" for xs :: bytes
    using that by (simp add: mem_put_def)
  have ctr: "(if \<not> rx_initialized st then ucast b
        else if b < ucast (rx_counter st)
        then (rx_counter st AND NOT 0xFF) + 256 + ucast b
        else (rx_counter st AND NOT 0xFF) + ucast b) = rx_infer st b"
    by (auto simp: rx_infer_def high_part [simplified] ucast_sub_u8)
  have acc: "(rx_initialized st \<and> (b - ucast (rx_counter st) = 0 \<or> b - ucast (rx_counter st) > RX_WINDOW))
      = (\<not> rx_accepts st b)"
    by (auto simp: rx_accepts_def Let_def not_le)
  show ?thesis
    unfolding open_frame_def nrf24_crypt_open_def if_not_P [OF g] Let_def low_byte hd acc ctr bb xo un1
    using mv [of "stream_xor bo (crypt_key st) (rx_infer st b) q"] nz un1 by auto
qed

end
