(* ===== verification/Lossy_Link.thy ===== *)
theory Lossy_Link
  imports Prelude
begin

text \<open>
  The interface between a sealing transmitter and an opening receiver over a radio that loses and
  duplicates frames: what \<open>nrf24_crypt.h\<close> promises to the link layers of the gateway and of the
  handset.  \<open>lag t r d\<close> says that the receiver has missed exactly the last \<open>d\<close> frames the
  transmitter sealed.  The client lemma is about whole runs.
\<close>

text \<open>What happens to a frame on the air; ARQ retransmits a frame whose acknowledgement was lost.\<close>

datatype fate = Lost | Delivered | Duplicated

fun run_link :: "('t \<Rightarrow> 'p \<Rightarrow> 'f \<times> 't) \<Rightarrow> ('r \<Rightarrow> 'f \<Rightarrow> 'p option \<times> 'r) \<Rightarrow>
    't \<Rightarrow> 'r \<Rightarrow> ('p \<times> fate) list \<Rightarrow> 'p list" where
  "run_link send recv t r [] = []"
| "run_link send recv t r ((p, fate) # evs) =
     (case send t p of (f, t') \<Rightarrow>
       (case fate of
          Lost \<Rightarrow> run_link send recv t' r evs
        | Delivered \<Rightarrow>
            (case recv r f of (q, r') \<Rightarrow>
              (case q of None \<Rightarrow> [] | Some x \<Rightarrow> [x]) @ run_link send recv t' r' evs)
        | Duplicated \<Rightarrow>
            (case recv r f of (q, r') \<Rightarrow>
              (case recv r' f of (q2, r'') \<Rightarrow>
                (case q of None \<Rightarrow> [] | Some x \<Rightarrow> [x]) @ (case q2 of None \<Rightarrow> [] | Some x \<Rightarrow> [x]) @
                run_link send recv t' r'' evs))))"

text \<open>No burst of losses reaches the window; \<open>d\<close> frames are missing at the start.\<close>

fun bursts_below :: "nat \<Rightarrow> nat \<Rightarrow> ('p \<times> fate) list \<Rightarrow> bool" where
  "bursts_below w d [] = True"
| "bursts_below w d ((p, fate) # evs) =
     (if fate = Lost then bursts_below w (Suc d) evs else d < w \<and> bursts_below w 0 evs)"

locale lossy_link =
  fixes send :: "'t \<Rightarrow> 'p \<Rightarrow> 'f \<times> 't"
    and recv :: "'r \<Rightarrow> 'f \<Rightarrow> 'p option \<times> 'r"
    and lag :: "'t \<Rightarrow> 'r \<Rightarrow> nat \<Rightarrow> bool"
    and valid :: "'p \<Rightarrow> bool"
    and window :: nat
  assumes send_lag:
      "lag t r d \<Longrightarrow> valid p \<Longrightarrow> send t p = (f, t') \<Longrightarrow> lag t' r (Suc d)"
    and accept:
      "lag t r d \<Longrightarrow> valid p \<Longrightarrow> d < window \<Longrightarrow> send t p = (f, t') \<Longrightarrow>
       \<exists>r'. recv r f = (Some p, r') \<and> lag t' r' 0"
    and no_replay:
      "lag t r d \<Longrightarrow> valid p \<Longrightarrow> d < window \<Longrightarrow> send t p = (f, t') \<Longrightarrow>
       recv r f = (Some p, r') \<Longrightarrow> recv r' f = (None, r')"
begin

lemma run_delivers:
  "lag t r d \<Longrightarrow> list_all (\<lambda>(p, _). valid p) evs \<Longrightarrow> bursts_below window d evs \<Longrightarrow>
   run_link send recv t r evs = map fst (filter (\<lambda>(p, fate). fate \<noteq> Lost) evs)"
proof (induction evs arbitrary: t r d)
  case Nil
  then show ?case by simp
next
  case (Cons e evs)
  obtain p fate where e: "e = (p, fate)" by (cases e)
  obtain f t' where s: "send t p = (f, t')" by fastforce
  from Cons.prems e have v: "valid p" and vs: "list_all (\<lambda>(p, _). valid p) evs" by auto
  show ?case
  proof (cases "fate = Lost")
    case True
    have "lag t' r (Suc d)" using Cons.prems(1) v s by (rule send_lag)
    then show ?thesis using Cons.IH [OF _ vs] Cons.prems(3) True e s by simp
  next
    case False
    with Cons.prems e have d: "d < window" and b: "bursts_below window 0 evs" by auto
    from accept [OF Cons.prems(1) v d s] obtain r' where
      r: "recv r f = (Some p, r')" and l: "lag t' r' 0" by blast
    note dup = no_replay [OF Cons.prems(1) v d s r]
    show ?thesis
      using Cons.IH [OF l vs b] False e s r dup by (cases fate) auto
  qed
qed

end

end
