(* ===== verification/Crypt_Link.thy ===== *)
theory Crypt_Link
  imports Crypt Lossy_Link
begin

text \<open>
  What sealing and opening achieve together: XXTEA is injective, so different counters give
  different keystream blocks; frames travel correctly while fewer than 32 are lost in a row (the
  interface of theory Lossy_Link); and where the receiver's 8-bit counter inference and the
  per-frame counter step fall short of what the comments of the file promise.
\<close>

section \<open>XXTEA is injective\<close>

text \<open>A round on two words whose running value \<open>z\<close> is the last word, as in every turn of the loop.\<close>

definition xxtea_e :: "u32 \<Rightarrow> u8" where
  "xxtea_e sm = ucast (drop_bit 2 sm AND 3)"

lemma xxtea_round_two:
  "xxtea_round key 2 ([a, b], b, s) =
     (let s' = s + XXTEA_DELTA;
          a' = a + xxtea_mx key b b s' 0 (xxtea_e s');
          b' = b + xxtea_mx key a' a' s' 1 (xxtea_e s')
      in ([a', b'], b', s'))"
  by (simp add: xxtea_round_def Let_def xxtea_e_def)

lemma xxtea_rounds_two:
  "\<exists>a' b' s'. (xxtea_round key 2 ^^ n) ([a, b], b, s) = ([a', b'], b', s')"
  by (induction n) (auto simp: xxtea_round_two Let_def)

lemma xxtea_rounds_inj:
  "(xxtea_round key 2 ^^ n) ([a, b], b, s) = (xxtea_round key 2 ^^ n) ([c, d], d, s) \<Longrightarrow> a = c \<and> b = d"
proof (induction n arbitrary: a b c d s)
  case 0
  then show ?case by simp
next
  case (Suc n)
  define s' where "s' = s + XXTEA_DELTA"
  define a' where "a' = a + xxtea_mx key b b s' 0 (xxtea_e s')"
  define c' where "c' = c + xxtea_mx key d d s' 0 (xxtea_e s')"
  define b' where "b' = b + xxtea_mx key a' a' s' 1 (xxtea_e s')"
  define d' where "d' = d + xxtea_mx key c' c' s' 1 (xxtea_e s')"
  have "xxtea_round key 2 ([a, b], b, s) = ([a', b'], b', s')"
    "xxtea_round key 2 ([c, d], d, s) = ([c', d'], d', s')"
    by (simp_all add: xxtea_round_two Let_def s'_def a'_def b'_def c'_def d'_def)
  then have "(xxtea_round key 2 ^^ n) ([a', b'], b', s') = (xxtea_round key 2 ^^ n) ([c', d'], d', s')"
    using Suc.prems by (simp add: funpow_Suc_right del: funpow.simps)
  then have "a' = c'" "b' = d'" using Suc.IH by blast+
  then have "b = d" by (simp add: b'_def d'_def)
  with \<open>a' = c'\<close> show ?case by (simp add: a'_def c'_def)
qed

lemma xxtea_encrypt_block_two:
  "\<exists>a' b'. xxtea_encrypt_block [a, b] key = [a', b']"
  using xxtea_rounds_two [of 32 key a b 0] by (auto simp: xxtea_encrypt_block_def Let_def)

lemma xxtea_block_inj:
  assumes "xxtea_encrypt_block [a, b] key = xxtea_encrypt_block [c, d] key"
  shows "a = c \<and> b = d"
proof -
  obtain a' b' s' where 1: "(xxtea_round key 2 ^^ 32) ([a, b], b, 0) = ([a', b'], b', s')"
    using xxtea_rounds_two by blast
  obtain c' d' t' where 2: "(xxtea_round key 2 ^^ 32) ([c, d], d, 0) = ([c', d'], d', t')"
    using xxtea_rounds_two by blast
  have sums: "snd (snd ((xxtea_round key 2 ^^ n) ([a, b], b, 0))) =
      snd (snd ((xxtea_round key 2 ^^ n) ([c, d], d, 0)))" for n
  proof (induction n)
    case (Suc n)
    obtain a1 b1 s1 where x: "(xxtea_round key 2 ^^ n) ([a, b], b, 0) = ([a1, b1], b1, s1)"
      using xxtea_rounds_two by blast
    obtain c1 d1 t1 where y: "(xxtea_round key 2 ^^ n) ([c, d], d, 0) = ([c1, d1], d1, t1)"
      using xxtea_rounds_two by blast
    from Suc x y show ?case by (simp add: xxtea_round_two Let_def)
  qed simp
  have "a' = c'" "b' = d'"
    using assms 1 2 by (simp_all add: xxtea_encrypt_block_def Let_def)
  moreover have "s' = t'" using sums [of 32] 1 2 by simp
  ultimately show ?thesis
    using xxtea_rounds_inj [of 32 key a b 0 c d] 1 2 by simp
qed

lemma ctr_block_inj:
  assumes bo: "byteorder_ok bo" and eq: "ctr_block bo key c = ctr_block bo key c'"
  shows "c = c'"
proof -
  obtain a b where x: "xxtea_encrypt_block [c, NOT c] key = [a, b]"
    using xxtea_encrypt_block_two by blast
  obtain a' b' where y: "xxtea_encrypt_block [c', NOT c'] key = [a', b']"
    using xxtea_encrypt_block_two by blast
  have "put_be32 bo a @ put_be32 bo b = put_be32 bo a' @ put_be32 bo b'"
    using eq x y by (simp add: ctr_block_def Let_def)
  then have "put_be32 bo a = put_be32 bo a'" "put_be32 bo b = put_be32 bo b'"
    using byteorder_okD(3) [OF bo] by (simp_all add: append_eq_append_conv)
  then have "a = a'" "b = b'" using put_be32_inj [OF bo] by blast+
  then show ?thesis using x y xxtea_block_inj by metis
qed

lemma length_ctr_block: "byteorder_ok bo \<Longrightarrow> length (ctr_block bo key c) = 8"
  by (simp add: ctr_block_def Let_def byteorder_okD)

lemma xor_twice_same:
  fixes x a b :: "'a::len word"
  assumes "x = (x XOR a) XOR b"
  shows "a = b"
proof (rule bit_word_eqI)
  fix n
  have "bit x n = bit ((x XOR a) XOR b) n" using assms by (rule arg_cong)
  then show "bit a n = bit b n" by (auto simp: bit_xor_iff)
qed

text \<open>Decrypting with another counter spoils at least one of the first eight bytes.\<close>

lemma stream_xor_wrong_counter:
  assumes bo: "byteorder_ok bo" and ne: "c \<noteq> c'" and len: "8 \<le> length p"
  shows "stream_xor bo key c' (stream_xor bo key c p) \<noteq> p"
proof
  assume eq: "stream_xor bo key c' (stream_xor bo key c p) = p"
  have "ctr_block bo key c ! j = ctr_block bo key c' ! j" if j: "j < 8" for j
  proof -
    have "p ! j = (p ! j XOR ctr_byte_at bo key c j) XOR ctr_byte_at bo key c' j"
      using arg_cong [OF eq, of "\<lambda>xs. xs ! j"] j len by simp
    then have "ctr_byte_at bo key c j = ctr_byte_at bo key c' j"
      by (rule xor_twice_same)
    then show ?thesis using j by (simp add: ctr_byte_at_def)
  qed
  then have "ctr_block bo key c = ctr_block bo key c'"
    by (rule nth_equalityI [rotated]) (simp_all only: length_ctr_block [OF bo])
  with ne show False using ctr_block_inj [OF bo] by blast
qed

section \<open>The receiver's inference\<close>

lemma ucast_add_u8: "(ucast (a + b :: u32) :: u8) = ucast a + ucast b"
proof transfer
  fix a b :: int
  have "take_bit 8 (take_bit 32 a + take_bit 32 b) = take_bit 8 (a + b)"
    by (subst (1 2) take_bit_add [symmetric]) (simp add: min_def)
  then show "take_bit LENGTH(8) (take_bit LENGTH(32) (a + b)) =
      take_bit LENGTH(8) (take_bit LENGTH(32) a + take_bit LENGTH(32) b)"
    by (simp add: min_def)
qed

lemma ucast_of_nat_u8: "(ucast (of_nat n :: u32) :: u8) = of_nat n"
  by transfer (simp add: min_def)

lemma ucast_of_nat_u32: "(ucast (of_nat n :: u8) :: u32) = of_nat (n mod 256)"
  by transfer (simp add: take_bit_eq_mod zmod_int)

definition crypt_lag :: "crypt \<Rightarrow> crypt \<Rightarrow> nat \<Rightarrow> bool" where
  "crypt_lag t r d \<longleftrightarrow> crypt_key t = crypt_key r \<and>
     tx_counter t = (if rx_initialized r then rx_counter r + 1 else 0) + of_nat d"

text \<open>The counter the receiver infers is the sender's, up to a multiple of 256.\<close>

lemma infer_lag:
  assumes lag: "crypt_lag t r d"
  shows "rx_infer r (ucast (tx_counter t)) =
    (if rx_initialized r then rx_counter r + of_nat (Suc d mod 256) else of_nat (d mod 256))"
proof -
  have "(ucast (tx_counter t) :: u8) - ucast (rx_counter r) = of_nat (Suc d)" if "rx_initialized r"
    using lag that by (simp add: crypt_lag_def ucast_add_u8 ucast_of_nat_u8)
  moreover have "(ucast (tx_counter t) :: u8) = of_nat d" if "\<not> rx_initialized r"
    using lag that by (simp add: crypt_lag_def ucast_of_nat_u8)
  ultimately show ?thesis
    by (cases "rx_initialized r")
      (simp_all only: rx_infer_def ucast_of_nat_u32 if_True if_False not_False_eq_True simp_thms)
qed

lemma accepts_lag:
  assumes lag: "crypt_lag t r d"
  shows "rx_accepts r (ucast (tx_counter t)) \<longleftrightarrow>
    (rx_initialized r \<longrightarrow> 1 \<le> Suc d mod 256 \<and> Suc d mod 256 \<le> 32)"
proof (cases "rx_initialized r")
  case True
  have diff: "(ucast (tx_counter t) :: u8) - ucast (rx_counter r) = of_nat (Suc d)"
    using lag True by (simp add: crypt_lag_def ucast_add_u8 ucast_of_nat_u8)
  have "unat (of_nat (Suc d) :: u8) = Suc d mod 256"
    by (simp only: unat_of_nat) simp
  moreover have "unat (32 :: u8) = 32" by simp
  ultimately have "(of_nat (Suc d) :: u8) \<noteq> 0 \<longleftrightarrow> 1 \<le> Suc d mod 256"
    "(of_nat (Suc d) :: u8) \<le> 32 \<longleftrightarrow> Suc d mod 256 \<le> 32"
    by (metis One_nat_def Suc_leI bot_nat_0.not_eq_extremum not_one_le_zero unat_eq_zero,
        metis word_le_nat_alt)
  then show ?thesis
    using True diff by (simp only: rx_accepts_def Let_def RX_WINDOW_def)
qed (simp add: rx_accepts_def)

lemma window_mod: "1 \<le> Suc d mod 256 \<and> Suc d mod 256 \<le> 32 \<longleftrightarrow> d mod 256 < 32"
  by (auto simp: mod_Suc)

lemma Suc_mod_window: "d mod 256 < 32 \<Longrightarrow> Suc d mod 256 = Suc (d mod 256)"
  by (simp add: mod_Suc)

text \<open>The receiver's step on a frame of a sender that is \<open>d\<close> frames ahead.\<close>

definition frame_ok :: "bytes \<Rightarrow> bool" where
  "frame_ok p \<longleftrightarrow> 2 \<le> length p \<and> length p \<le> 31"

lemma infer_mod:
  assumes "crypt_lag t r d" and "rx_initialized r \<longrightarrow> d mod 256 < 32"
  shows "tx_counter t = rx_infer r (ucast (tx_counter t)) + of_nat (256 * (d div 256))"
proof -
  have split: "of_nat d = (of_nat (d mod 256) :: u32) + of_nat (256 * (d div 256))"
    by (metis add.commute mult_div_mod_eq of_nat_add)
  have tx: "tx_counter t = (if rx_initialized r then rx_counter r + 1 else 0) + of_nat d"
    using assms(1) by (simp add: crypt_lag_def)
  show ?thesis
  proof (cases "rx_initialized r")
    case True
    with assms(2) have "Suc d mod 256 = Suc (d mod 256)" by (simp add: Suc_mod_window)
    then have "rx_infer r (ucast (tx_counter t)) = rx_counter r + 1 + of_nat (d mod 256)"
      using True by (simp add: infer_lag [OF assms(1)])
    then show ?thesis
      by (simp only: tx split True if_True add.assoc)
  next
    case False
    then have "rx_infer r (ucast (tx_counter t)) = of_nat (d mod 256)"
      by (simp add: infer_lag [OF assms(1)])
    then show ?thesis using False by (simp only: tx split if_False add_0)
  qed
qed

lemma open_lagging:
  assumes "crypt_lag t r d" and "frame_ok p" and "rx_initialized r \<longrightarrow> d mod 256 < 32"
  shows "open_frame bo r (fst (seal_frame bo t p)) =
    (Some (stream_xor bo (crypt_key r) (rx_infer r (ucast (tx_counter t)))
             (stream_xor bo (crypt_key r) (tx_counter t) p)),
     r\<lparr>rx_counter := rx_infer r (ucast (tx_counter t)), rx_initialized := True\<rparr>)"
proof -
  have "rx_accepts r (ucast (tx_counter t))"
    using assms(3) window_mod by (simp add: accepts_lag [OF assms(1)])
  then show ?thesis
    using assms by (simp add: seal_frame_eq open_frame_eq frame_ok_def crypt_lag_def)
qed

lemma open_refused:
  assumes "crypt_lag t r d" and "frame_ok p" and "rx_initialized r" and "\<not> d mod 256 < 32"
  shows "open_frame bo r (fst (seal_frame bo t p)) = (None, r)"
proof -
  have "\<not> rx_accepts r (ucast (tx_counter t))"
    using assms(3,4) window_mod by (simp add: accepts_lag [OF assms(1)])
  then show ?thesis
    using assms by (simp add: seal_frame_eq open_frame_eq frame_ok_def)
qed

lemma open_in_window:
  assumes "crypt_lag t r d" and "frame_ok p" and "d < 32"
  shows "open_frame bo r (fst (seal_frame bo t p)) =
    (Some p, r\<lparr>rx_counter := tx_counter t, rx_initialized := True\<rparr>)"
proof -
  have "tx_counter t = rx_infer r (ucast (tx_counter t))"
    using infer_mod [OF assms(1)] assms(3) by simp
  then show ?thesis
    using open_lagging [OF assms(1,2), of bo] assms(3) by simp
qed

lemma open_twice_refused:
  assumes "length q = length p" and "frame_ok p"
  shows "open_frame bo (r\<lparr>rx_counter := c, rx_initialized := True\<rparr>) (ucast c # q) =
    (None, r\<lparr>rx_counter := c, rx_initialized := True\<rparr>)"
  using assms by (simp add: open_frame_eq frame_ok_def rx_accepts_def)

lemma seal_frame_lag:
  assumes "crypt_lag t r d" and "frame_ok p" and "seal_frame bo t p = (f, t')"
  shows "crypt_lag t' r (Suc d)"
  using assms by (auto simp: seal_frame_eq frame_ok_def crypt_lag_def)

interpretation rf24_link: lossy_link "seal_frame bo" "open_frame bo" crypt_lag frame_ok 32 for bo
proof
  fix t r d p f t'
  assume lag: "crypt_lag t r d" and ok: "frame_ok p" and s: "seal_frame bo t p = (f, t')"
  then show "crypt_lag t' r (Suc d)" by (rule seal_frame_lag)
next
  fix t r d p f t'
  assume lag: "crypt_lag t r d" and ok: "frame_ok p" and d: "d < 32"
    and s: "seal_frame bo t p = (f, t')"
  have "open_frame bo r f = (Some p, r\<lparr>rx_counter := tx_counter t, rx_initialized := True\<rparr>)"
    using open_in_window [OF lag ok d, of bo] s by simp
  moreover have "crypt_lag t' (r\<lparr>rx_counter := tx_counter t, rx_initialized := True\<rparr>) 0"
    using s ok lag by (auto simp: seal_frame_eq frame_ok_def crypt_lag_def)
  ultimately show "\<exists>r'. open_frame bo r f = (Some p, r') \<and> crypt_lag t' r' 0" by blast
next
  fix t r d p f t' r'
  assume lag: "crypt_lag t r d" and ok: "frame_ok p" and d: "d < 32"
    and s: "seal_frame bo t p = (f, t')" and o: "open_frame bo r f = (Some p, r')"
  have r': "r' = r\<lparr>rx_counter := tx_counter t, rx_initialized := True\<rparr>"
    using open_in_window [OF lag ok d, of bo] s o by simp
  have f: "f = ucast (tx_counter t) # stream_xor bo (crypt_key t) (tx_counter t) p"
    using s ok by (simp add: seal_frame_eq frame_ok_def)
  show "open_frame bo r' f = (None, r')"
    unfolding r' f by (rule open_twice_refused [OF _ ok]) simp
qed

section \<open>Properties\<close>

text \<open>
  C1: two radios keyed with the same address, from then on in step, deliver every payload that
  is not lost, once and in order, whatever frames are lost or retransmitted, as long as fewer than
  32 frames in a row are lost.
\<close>

theorem crypt_link_delivers:
  assumes "list_all (\<lambda>(p, _). frame_ok p) evs" and "bursts_below 32 0 evs"
  shows "run_link (seal_frame bo) (open_frame bo)
      (nrf24_crypt_set_key bo addr t0) (nrf24_crypt_set_key bo addr r0) evs =
    map fst (filter (\<lambda>(p, fate). fate \<noteq> Lost) evs)"
  using assms
  by (intro rf24_link.run_delivers) (simp_all add: crypt_lag_def nrf24_crypt_set_key_def Let_def)

theorem crypt_link_delivers_witness:
  "run_link (seal_frame std_byteorder) (open_frame std_byteorder)
      (nrf24_crypt_set_key std_byteorder [1, 2, 3, 4, 5] \<lparr>crypt_key = [], tx_counter = 7, rx_counter = 0, rx_initialized = True\<rparr>)
      (nrf24_crypt_set_key std_byteorder [1, 2, 3, 4, 5] \<lparr>crypt_key = [], tx_counter = 9, rx_counter = 3, rx_initialized = True\<rparr>)
      [([1, 2, 3], Delivered), ([4, 5], Lost), ([6, 7, 8], Duplicated)] = [[1, 2, 3], [6, 7, 8]]"
  by (subst crypt_link_delivers) (simp_all add: frame_ok_def)

text \<open>
  C2: the receiver's verdict on an intact frame, for every number \<open>d\<close> of frames lost since
  the last accepted one.  Below 32 the payload comes out.  Otherwise the frame is refused unless \<open>d\<close>
  falls again into the window modulo 256, and then the frame is accepted with a wrong counter: a
  payload of eight bytes or more comes out changed.
\<close>

theorem open_verdict:
  assumes "byteorder_ok bo" and lag: "crypt_lag t r d" and ini: "rx_initialized r"
    and ok: "frame_ok p" and d: "d < 2 ^ 32"
  shows "case open_frame bo r (fst (seal_frame bo t p)) of (q, r') \<Rightarrow>
      if d < 32 then q = Some p \<and> crypt_lag (snd (seal_frame bo t p)) r' 0
      else if d mod 256 \<ge> 32 then q = None \<and> r' = r
      else \<exists>g. q = Some g \<and> (8 \<le> length p \<longrightarrow> g \<noteq> p)"
proof -
  have "rx_infer r (ucast (tx_counter t)) \<noteq> tx_counter t" if "\<not> d < 32" "d mod 256 < 32"
  proof
    assume "rx_infer r (ucast (tx_counter t)) = tx_counter t"
    then have "(of_nat (256 * (d div 256)) :: u32) = 0"
      using infer_mod [OF lag] that(2) by simp
    moreover have "256 * (d div 256) < 2 ^ LENGTH(32)" using d by simp
    ultimately have "256 * (d div 256) = 0"
      by (metis of_nat_0 of_nat_inverse unsigned_0 zero_less_numeral zero_less_power)
    with that show False by auto
  qed
  note wrong = this
  consider (win) "d < 32" | (missed) "\<not> d < 32" "d mod 256 \<ge> 32" | (wrapped) "\<not> d < 32" "d mod 256 < 32"
    by fastforce
  then show ?thesis
  proof cases
    case win
    then show ?thesis
      using open_in_window [OF lag ok, of bo] ok lag
      by (simp add: seal_frame_eq frame_ok_def crypt_lag_def)
  next
    case missed
    then show ?thesis using open_refused [OF lag ok ini, of bo] by simp
  next
    case wrapped
    then show ?thesis
      using open_lagging [OF lag ok, of bo] stream_xor_wrong_counter [OF assms(1)] wrong [OF wrapped]
      by (simp add: not_le)
  qed
qed

theorem open_verdict_witness:
  "\<exists>g. fst (open_frame std_byteorder \<lparr>crypt_key = [1, 2, 3, 4], tx_counter = 0, rx_counter = 9, rx_initialized = True\<rparr>
      (fst (seal_frame std_byteorder \<lparr>crypt_key = [1, 2, 3, 4], tx_counter = 270, rx_counter = 0, rx_initialized = False\<rparr>
        [1, 2, 3, 4, 5, 6, 7, 8]))) = Some g \<and> g \<noteq> [1, 2, 3, 4, 5, 6, 7, 8]"
  using open_verdict [OF std_byteorder_ok, of
      "\<lparr>crypt_key = [1, 2, 3, 4], tx_counter = 270, rx_counter = 0, rx_initialized = False\<rparr>"
      "\<lparr>crypt_key = [1, 2, 3, 4], tx_counter = 0, rx_counter = 9, rx_initialized = True\<rparr>"
      260 "[1, 2, 3, 4, 5, 6, 7, 8]"]
  by (simp add: crypt_lag_def frame_ok_def split: prod.splits)

text \<open>
  resetting the receiver's window alone does not resynchronise a link whose sender has
  sent 256 frames or more: the next frame is accepted, and a payload of eight bytes or more comes
  out changed.
\<close>

theorem rx_reset_garbles:
  assumes "byteorder_ok bo" and "crypt_key t = crypt_key r" and "tx_counter t \<ge> 256"
    and "frame_ok p" and "8 \<le> length p"
  shows "\<exists>g r'. open_frame bo (nrf24_crypt_rx_reset r) (fst (seal_frame bo t p)) = (Some g, r') \<and> g \<noteq> p"
proof -
  let ?r = "nrf24_crypt_rx_reset r"
  have lag: "crypt_lag t ?r (unat (tx_counter t))"
    using assms(2) by (simp add: crypt_lag_def nrf24_crypt_rx_reset_def)
  have inf: "rx_infer ?r (ucast (tx_counter t)) = ucast (ucast (tx_counter t) :: u8)"
    by (simp add: rx_infer_def nrf24_crypt_rx_reset_def)
  have "unat (ucast (tx_counter t) :: u8) < 2 ^ LENGTH(8)" by (rule unsigned_less)
  then have "ucast (ucast (tx_counter t) :: u8) < (256 :: u32)"
    by (simp add: word_less_nat_alt unsigned_ucast_eq unsigned_take_bit_eq)
  then have "tx_counter t \<noteq> rx_infer ?r (ucast (tx_counter t))"
    using assms(3) inf by auto
  then show ?thesis
    using open_lagging [OF lag assms(4), of bo] stream_xor_wrong_counter [OF assms(1) _ assms(5)]
    by (simp add: nrf24_crypt_rx_reset_def)
qed

theorem rx_reset_garbles_witness:
  "\<exists>g r'. open_frame std_byteorder
      (nrf24_crypt_rx_reset \<lparr>crypt_key = [1, 2, 3, 4], tx_counter = 0, rx_counter = 299, rx_initialized = True\<rparr>)
      (fst (seal_frame std_byteorder \<lparr>crypt_key = [1, 2, 3, 4], tx_counter = 300, rx_counter = 0, rx_initialized = False\<rparr>
        [1, 2, 3, 4, 5, 6, 7, 8])) = (Some g, r') \<and> g \<noteq> [1, 2, 3, 4, 5, 6, 7, 8]"
  by (rule rx_reset_garbles [OF std_byteorder_ok]) (simp_all add: frame_ok_def)

text \<open>
  C3: consecutive frames share keystream: the second block of a frame and the first block of
  the next are encrypted with the same eight bytes, so the XOR of the two ciphertexts is the XOR
  of the two plaintexts.
\<close>

theorem keystream_reuse:
  assumes "frame_ok p1" and "frame_ok p2"
    and "seal_frame bo st p1 = (f1, st1)" and "seal_frame bo st1 p2 = (f2, st2)"
    and "j < length p2" and "j + 8 < length p1"
  shows "f1 ! (j + 9) XOR f2 ! (j + 1) = p1 ! (j + 8) XOR p2 ! j"
proof -
  have "ctr_byte_at bo k c (8 + j) = ctr_byte_at bo k (c + 1) j" for k c
    using ctr_byte_at_shift [of "8 + j" bo k c] by simp
  then have "f1 ! (j + 9) = p1 ! (8 + j) XOR ctr_byte_at bo (crypt_key st) (tx_counter st + 1) j"
    "f2 ! (j + 1) = p2 ! j XOR ctr_byte_at bo (crypt_key st) (tx_counter st + 1) j"
    using assms by (auto simp: seal_frame_eq frame_ok_def add.commute)
  then show ?thesis by (simp add: xor.assoc xor.left_commute xor.commute add.commute)
qed

theorem keystream_reuse_witness:
  "\<exists>f1 st1 f2 st2.
     seal_frame std_byteorder \<lparr>crypt_key = [1, 2, 3, 4], tx_counter = 5, rx_counter = 0, rx_initialized = False\<rparr>
       [1, 2, 3, 4, 5, 6, 7, 8, 9, 10] = (f1, st1) \<and>
     seal_frame std_byteorder st1 [0, 0, 0] = (f2, st2) \<and> f1 ! 9 XOR f2 ! 1 = 9"
proof -
  let ?s = "\<lparr>crypt_key = [1, 2, 3, 4], tx_counter = 5, rx_counter = 0, rx_initialized = False\<rparr>"
  obtain f1 st1 where 1: "seal_frame std_byteorder ?s [1, 2, 3, 4, 5, 6, 7, 8, 9, 10] = (f1, st1)"
    by fastforce
  obtain f2 st2 where 2: "seal_frame std_byteorder st1 [0, 0, 0] = (f2, st2)" by fastforce
  have "f1 ! 9 XOR f2 ! 1 = 9"
    using keystream_reuse [OF _ _ 1 2, of 0] by (simp add: frame_ok_def)
  with 1 2 show ?thesis by blast
qed

text \<open>
  replay protection: every accepted frame moves the receiver's counter forward by 1 to
  32, and the frame just accepted is refused when it comes again.
\<close>

theorem open_advances:
  assumes "rx_initialized r" and "length f \<le> 32" and "open_frame bo r f = (Some q, r')"
  shows "(\<exists>k \<in> {1..32}. rx_counter r' = rx_counter r + of_nat k) \<and> open_frame bo r' f = (None, r')"
proof -
  have "3 \<le> length f"
  proof (rule ccontr)
    assume "\<not> 3 \<le> length f"
    then have "(of_nat (length f) :: u8) < 3"
      by (simp add: word_less_nat_alt nat_in_u8)
    then show False using assms(3) by (simp add: open_frame_def nrf24_crypt_open_def)
  qed
  then obtain b p where f: "f = b # p" and p: "frame_ok p"
    using assms(2) by (cases f) (auto simp: frame_ok_def)
  let ?d = "b - ucast (rx_counter r)"
  from assms p f have acc: "rx_accepts r b"
    and r': "r' = r\<lparr>rx_counter := rx_infer r b, rx_initialized := True\<rparr>"
    by (auto simp: open_frame_eq frame_ok_def split: if_splits)
  from acc assms(1) have d: "?d \<noteq> 0" "?d \<le> 32"
    by (simp_all add: rx_accepts_def Let_def RX_WINDOW_def)
  have k: "unat ?d \<in> {1..32}"
    using d by (auto simp: word_le_nat_alt unat_gt_0 Suc_le_eq)
  have c: "rx_infer r b = rx_counter r + of_nat (unat ?d)"
    using assms(1) by (simp add: rx_infer_def)
  have b: "b = ucast (rx_infer r b)"
  proof -
    have "(ucast (ucast x :: u32) :: u8) = x" for x :: u8
      by (rule ucast_up_ucast_id) (simp add: is_up)
    then show ?thesis using assms(1) by (simp add: rx_infer_def ucast_add_u8)
  qed
  have "open_frame bo r' f = (None, r')"
    unfolding r' f by (subst b) (rule open_twice_refused [OF _ p], simp)
  moreover have "rx_counter r' = rx_counter r + of_nat (unat ?d)"
    unfolding r' c [symmetric] by simp
  ultimately show ?thesis using k by blast
qed

theorem open_advances_witness:
  "\<exists>q r'. open_frame std_byteorder \<lparr>crypt_key = [1, 2, 3, 4], tx_counter = 0, rx_counter = 254, rx_initialized = True\<rparr>
      [2, 7, 7] = (Some q, r') \<and> open_frame std_byteorder r' [2, 7, 7] = (None, r')"
proof -
  let ?r = "\<lparr>crypt_key = [1, 2, 3, 4], tx_counter = 0, rx_counter = 254, rx_initialized = True\<rparr>"
  have "rx_accepts ?r 2" by (simp add: rx_accepts_def RX_WINDOW_def)
  then obtain q r' where 1: "open_frame std_byteorder ?r [2, 7, 7] = (Some q, r')"
    by (simp add: open_frame_eq)
  with open_advances [OF _ _ 1] show ?thesis by auto
qed

text \<open>
  for one key, different counters give different keystream blocks: XXTEA maps different
  blocks to different blocks.
\<close>

theorem keystream_blocks_distinct:
  assumes "byteorder_ok bo"
  shows "ctr_block bo key c = ctr_block bo key c' \<longleftrightarrow> c = c'"
  using ctr_block_inj [OF assms] by blast

theorem keystream_blocks_distinct_witness:
  "ctr_block std_byteorder [1, 2, 3, 4] 5 \<noteq> ctr_block std_byteorder [1, 2, 3, 4] 6"
  using keystream_blocks_distinct [OF std_byteorder_ok] by simp

end
