(* ===== verification/Handler_Registry.thy ===== *)
theory Handler_Registry
  imports Prelude "HOL-Library.Multiset"
begin

text \<open>
  The table of application callbacks that \<open>libs/can_fw_upgrade\<close> and \<open>libs/udp_fw_upgrade\<close> both
  keep: a fixed array of slots, filled at the first free place, cleared at the first match, and
  walked in order for every message the library does not handle itself.  The loops are the same in
  the two files and are modelled once; the libraries' own functions are in Can_Fw and Udp_Fw.
\<close>

text \<open>A callback pointer is an option, NULL being \<open>None\<close>; so is the pointer passed through to it.\<close>

record ('c, 'u) slot =
  cb :: "'c option"
  user_data :: "'u option"

definition free_slot :: "('c, 'u) slot" where
  "free_slot = \<lparr>cb = None, user_data = None\<rparr>"

text \<open>The registration loop: the first slot without a callback takes it; \<open>None\<close> when all are used.\<close>

fun store_handler :: "'c \<Rightarrow> 'u option \<Rightarrow> ('c, 'u) slot list \<Rightarrow> ('c, 'u) slot list option" where
  "store_handler c u [] = None"
| "store_handler c u (x # xs) =
     (if cb x = None then Some (x\<lparr>cb := Some c, user_data := u\<rparr> # xs)
      else map_option ((#) x) (store_handler c u xs))"

text \<open>The removal loop: the first slot whose callback equals the argument is cleared.\<close>

fun clear_handler :: "'c option \<Rightarrow> ('c, 'u) slot list \<Rightarrow> ('c, 'u) slot list option" where
  "clear_handler c [] = None"
| "clear_handler c (x # xs) =
     (if cb x = c then Some (x\<lparr>cb := None, user_data := None\<rparr> # xs)
      else map_option ((#) x) (clear_handler c xs))"

text \<open>
  The broadcast loop: every registered callback runs, in slot order, on the application's state;
  the result says whether one of them handled the message.
\<close>

fun broadcast :: "('c \<Rightarrow> 'm \<Rightarrow> 'u option \<Rightarrow> 'a \<Rightarrow> bool \<times> 'a) \<Rightarrow> ('c, 'u) slot list \<Rightarrow> 'm \<Rightarrow>
    bool \<Rightarrow> 'a \<Rightarrow> bool \<times> 'a" where
  "broadcast invoke [] m handled a = (handled, a)"
| "broadcast invoke (x # xs) m handled a =
     (case cb x of
        None \<Rightarrow> broadcast invoke xs m handled a
      | Some c \<Rightarrow>
          (case invoke c m (user_data x) a of
             (h, a') \<Rightarrow> broadcast invoke xs m (handled \<or> h) a'))"

definition registered :: "('c, 'u) slot list \<Rightarrow> ('c \<times> 'u option) list" where
  "registered xs = map (\<lambda>x. (the (cb x), user_data x)) (filter (\<lambda>x. cb x \<noteq> None) xs)"

definition free_slots :: "('c, 'u) slot list \<Rightarrow> nat" where
  "free_slots xs = length (filter (\<lambda>x. cb x = None) xs)"

lemma registered_simps [simp]:
  "registered [] = []"
  "registered (x # xs) = (case cb x of None \<Rightarrow> [] | Some c \<Rightarrow> [(c, user_data x)]) @ registered xs"
  by (auto simp: registered_def split: option.splits)

lemma free_slots_simps [simp]:
  "free_slots [] = 0"
  "free_slots (x # xs) = (if cb x = None then Suc (free_slots xs) else free_slots xs)"
  by (auto simp: free_slots_def)

lemma store_handler_Some:
  "store_handler c u xs = Some ys \<Longrightarrow>
   length ys = length xs \<and> mset (registered ys) = add_mset (c, u) (mset (registered xs)) \<and>
   free_slots xs = Suc (free_slots ys)"
  by (induction xs arbitrary: ys) (auto split: if_splits option.splits)

lemma store_handler_None: "store_handler c u xs = None \<longleftrightarrow> free_slots xs = 0"
  by (induction xs) auto

lemma clear_handler_Some:
  "clear_handler (Some c) xs = Some ys \<Longrightarrow>
   length ys = length xs \<and> free_slots ys = Suc (free_slots xs) \<and>
   (\<exists>u. mset (registered xs) = add_mset (c, u) (mset (registered ys)))"
proof (induction xs arbitrary: ys)
  case (Cons x xs)
  then show ?case
    by (cases "cb x = Some c") (auto split: option.splits)
qed simp

lemma clear_handler_None:
  "clear_handler (Some c) xs = None \<longleftrightarrow> c \<notin> fst ` set (registered xs)"
  by (induction xs) (auto split: option.splits)

text \<open>The broadcast in terms of the registered callbacks alone.\<close>

lemma broadcast_fold:
  "broadcast invoke xs m h a =
     fold (\<lambda>(c, u) (h, a). case invoke c m u a of (h', a') \<Rightarrow> (h \<or> h', a')) (registered xs) (h, a)"
  by (induction xs arbitrary: h a) (auto split: option.splits prod.splits)

section \<open>The interface\<close>

text \<open>
  What an application may rely on: \<open>add\<close> and \<open>remove\<close> of a library's state \<open>'s\<close>, with the
  callbacks that the next unhandled message reaches as the abstraction.
\<close>

locale handler_registry =
  fixes slots :: "'s \<Rightarrow> ('c, 'u) slot list"
    and add :: "'c \<Rightarrow> 'u option \<Rightarrow> 's \<Rightarrow> 's"
    and remove :: "'c \<Rightarrow> 's \<Rightarrow> 's"
  assumes slots_add:
      "slots (add c u s) = (case store_handler c u (slots s) of None \<Rightarrow> slots s | Some ys \<Rightarrow> ys)"
    and slots_remove:
      "slots (remove c s) = (case clear_handler (Some c) (slots s) of None \<Rightarrow> slots s | Some ys \<Rightarrow> ys)"
begin

lemma capacity_add [simp]: "length (slots (add c u s)) = length (slots s)"
  by (auto simp: slots_add dest: store_handler_Some split: option.splits)

lemma capacity_remove [simp]: "length (slots (remove c s)) = length (slots s)"
  by (auto simp: slots_remove dest: clear_handler_Some split: option.splits)

lemma registered_add:
  "mset (registered (slots (add c u s))) =
     (if free_slots (slots s) = 0 then mset (registered (slots s))
      else add_mset (c, u) (mset (registered (slots s))))"
proof (cases "store_handler c u (slots s)")
  case None
  then show ?thesis by (simp add: slots_add flip: store_handler_None [of c u])
next
  case (Some ys)
  then have "free_slots (slots s) \<noteq> 0" using store_handler_None [of c u "slots s"] by simp
  with Some store_handler_Some [OF Some] show ?thesis by (simp add: slots_add)
qed

lemma registered_remove:
  "c \<in> fst ` set (registered (slots s)) \<Longrightarrow>
   \<exists>u. mset (registered (slots s)) = add_mset (c, u) (mset (registered (slots (remove c s))))"
  using clear_handler_None [of c "slots s"] clear_handler_Some [of c "slots s"]
  by (cases "clear_handler (Some c) (slots s)") (auto simp: slots_remove)

lemma free_slots_remove:
  "c \<in> fst ` set (registered (slots s)) \<Longrightarrow> free_slots (slots (remove c s)) = Suc (free_slots (slots s))"
  using clear_handler_None [of c "slots s"] clear_handler_Some [of c "slots s"]
  by (cases "clear_handler (Some c) (slots s)") (auto simp: slots_remove)

lemma add_remove_add:
  assumes "c \<in> fst ` set (registered (slots s))"
  shows "(c', u) \<in> set (registered (slots (add c' u (remove c s))))"
proof -
  have "free_slots (slots (remove c s)) \<noteq> 0" using free_slots_remove [OF assms] by simp
  then have "mset (registered (slots (add c' u (remove c s)))) =
      add_mset (c', u) (mset (registered (slots (remove c s))))"
    by (simp add: registered_add)
  then have "(c', u) \<in># mset (registered (slots (add c' u (remove c s))))" by simp
  then show ?thesis by simp
qed

end

end
