(* ===== verification/Upgrade_Session.thy ===== *)
theory Upgrade_Session
  imports Prelude
begin

text \<open>
  Zephyr's image-writing interface as the upgrade libraries use it, and the contract an upgrade
  session owes to the device: the second slot is touched only between a start command and the
  command that ends the session.
\<close>

section \<open>Zephyr's flash image, flash area and MCUboot calls\<close>

text \<open>
  Each call returns its C result and the new state \<open>'d\<close> of the device.  The flash area is
  slot 1; erasing erases all of it.
\<close>

record 'd dfu_api =
  area_open :: "'d \<Rightarrow> int \<times> 'd"
  area_erase :: "'d \<Rightarrow> int \<times> 'd"
  area_read :: "nat \<Rightarrow> nat \<Rightarrow> 'd \<Rightarrow> (int \<times> bytes) \<times> 'd"
  img_init :: "'d \<Rightarrow> int \<times> 'd"
  img_write :: "bytes \<Rightarrow> bool \<Rightarrow> 'd \<Rightarrow> int \<times> 'd"
  img_written :: "'d \<Rightarrow> nat"
  boot_request :: "int \<Rightarrow> 'd \<Rightarrow> int \<times> 'd"

text \<open>
  The documented behaviour a successful upload relies on, for an abstraction \<open>img\<close> of the
  device: the stream of bytes accepted since flash_img_init.
\<close>

definition dfu_stream_ok :: "'d dfu_api \<Rightarrow> ('d \<Rightarrow> bytes) \<Rightarrow> bool" where
  "dfu_stream_ok api img \<longleftrightarrow>
     (\<forall>d. fst (img_init api d) = 0 \<longrightarrow> img (snd (img_init api d)) = []) \<and>
     (\<forall>d bs fl. fst (img_write api bs fl d) = 0 \<longrightarrow> img (snd (img_write api bs fl d)) = img d @ bs) \<and>
     (\<forall>d p. img (snd (boot_request api p d)) = img d)"

text \<open>No call fails (the hypothesis of the success theorems only).\<close>

definition dfu_reliable :: "'d dfu_api \<Rightarrow> bool" where
  "dfu_reliable api \<longleftrightarrow>
     (\<forall>d. fst (area_open api d) = 0) \<and> (\<forall>d. fst (img_init api d) = 0) \<and>
     (\<forall>bs fl d. fst (img_write api bs fl d) = 0) \<and> (\<forall>p d. fst (boot_request api p d) = 0) \<and>
     (\<forall>k n d. fst (fst (area_read api k n d)) = 0)"

text \<open>An instance for the witnesses: an in-memory device that logs the boot requests.\<close>

record mem_dev =
  md_image :: bytes
  md_boot :: "int list"

definition mem_dfu :: "mem_dev dfu_api" where
  "mem_dfu = \<lparr>
     area_open = (\<lambda>d. (0, d)),
     area_erase = (\<lambda>d. (0, d\<lparr>md_image := []\<rparr>)),
     area_read = (\<lambda>k n d. ((0, take n (drop k (md_image d))), d)),
     img_init = (\<lambda>d. (0, d\<lparr>md_image := []\<rparr>)),
     img_write = (\<lambda>bs fl d. (0, d\<lparr>md_image := md_image d @ bs\<rparr>)),
     img_written = (\<lambda>d. length (md_image d)),
     boot_request = (\<lambda>p d. (0, d\<lparr>md_boot := md_boot d @ [p]\<rparr>))\<rparr>"

lemma mem_dfu_ok: "dfu_stream_ok mem_dfu md_image" and mem_dfu_reliable: "dfu_reliable mem_dfu"
  by (simp_all add: dfu_stream_ok_def dfu_reliable_def mem_dfu_def)

section \<open>The session contract\<close>

fun run_events :: "('e \<Rightarrow> 's \<Rightarrow> 's) \<Rightarrow> 'e list \<Rightarrow> 's \<Rightarrow> 's" where
  "run_events step [] s = s"
| "run_events step (e # es) s = run_events step es (step e s)"

lemma run_events_append [simp]:
  "run_events step (es @ fs) s = run_events step fs (run_events step es s)"
  by (induction es arbitrary: s) auto

locale upgrade_session =
  fixes step :: "'e \<Rightarrow> 's \<Rightarrow> 's"
    and started :: "'s \<Rightarrow> bool"
    and device :: "'s \<Rightarrow> 'd"
    and is_start :: "'e \<Rightarrow> bool"
    and is_end :: "'e \<Rightarrow> bool"
  assumes idle_untouched: "\<not> started s \<Longrightarrow> \<not> is_start e \<Longrightarrow> device (step e s) = device s"
    and idle_stays: "\<not> started s \<Longrightarrow> \<not> is_start e \<Longrightarrow> \<not> started (step e s)"
    and end_ends: "is_end e \<Longrightarrow> \<not> started (step e s)"
begin

lemma run_idle:
  "\<not> started s \<Longrightarrow> \<forall>e \<in> set es. \<not> is_start e \<Longrightarrow>
   \<not> started (run_events step es s) \<and> device (run_events step es s) = device s"
  by (induction es arbitrary: s) (auto simp: idle_untouched idle_stays)

text \<open>After a session ended, the device stays as it is until the next start command.\<close>

lemma run_after_end:
  assumes "is_end e" and "\<forall>e \<in> set es. \<not> is_start e"
  shows "device (run_events step (e # es) s) = device (step e s)"
  using run_idle [OF end_ends [OF assms(1)] assms(2)] by simp

end

end
