(* ===== verification/Can_Fw.thy ===== *)
theory Can_Fw
  imports Handler_Registry Upgrade_Session
begin

text \<open>
  \<open>libs/can_fw_upgrade/can_fw_upgrade.c\<close>: the firmware upgrade over CAN.  The static variables of
  the file are the record \<open>can_fw\<close>; \<open>can_out\<close> records the frames handed to can_send in order and
  \<open>rebooted\<close> a call of sys_reboot, which does not return.  The device, the image-writing calls and
  the application callbacks are parameters; so are the generated key hash (absent when no signature
  key is configured), the version numbers and the memory that follows the version buffer on the
  stack.
\<close>

section \<open>Protocol constants\<close>

definition CAN_FW_PLATFORM_RX :: u32 where "CAN_FW_PLATFORM_RX = 0x101"
definition CAN_FW_PLATFORM_TX :: u32 where "CAN_FW_PLATFORM_TX = 0x102"
definition CAN_FW_FW_DATA_RX :: u32 where "CAN_FW_FW_DATA_RX = 0x103"
definition CAN_FW_KEYHASH_RX :: u32 where "CAN_FW_KEYHASH_RX = 0x104"
definition CAN_FW_VERSION_TX :: u32 where "CAN_FW_VERSION_TX = 0x105"

definition FW_KEYHASH_KEY_LEN :: nat where "FW_KEYHASH_KEY_LEN = 32"
definition CAN_FW_KEYHASH_CHUNK_BYTES :: nat where "CAN_FW_KEYHASH_CHUNK_BYTES = 7"

definition CAN_FW_KEYHASH_CHUNKS :: nat where
  "CAN_FW_KEYHASH_CHUNKS =
     (FW_KEYHASH_KEY_LEN + CAN_FW_KEYHASH_CHUNK_BYTES - 1) div CAN_FW_KEYHASH_CHUNK_BYTES"

definition CAN_FW_KEYHASH_FULL_MASK :: u32 where
  "CAN_FW_KEYHASH_FULL_MASK = push_bit CAN_FW_KEYHASH_CHUNKS 1 - 1"

text \<open>The enumerations fw_cmd and fw_code, as the integers the frames carry.\<close>

definition FW_CMD_START_UPDATE :: u32 where "FW_CMD_START_UPDATE = 0"
definition FW_CMD_CONFIRM :: u32 where "FW_CMD_CONFIRM = 1"
definition FW_CMD_VERSION :: u32 where "FW_CMD_VERSION = 2"
definition FW_CMD_REBOOT :: u32 where "FW_CMD_REBOOT = 3"

datatype fw_code = FW_CODE_OFFSET | FW_CODE_UPDATE_SUCCESS | FW_CODE_VERSION | FW_CODE_CONFIRM
  | FW_CODE_FLASH_ERROR | FW_CODE_TRANFER_ERROR | FW_CODE_KEYHASH_ERROR

fun fw_code_val :: "fw_code \<Rightarrow> u32" where
  "fw_code_val FW_CODE_OFFSET = 0"
| "fw_code_val FW_CODE_UPDATE_SUCCESS = 1"
| "fw_code_val FW_CODE_VERSION = 2"
| "fw_code_val FW_CODE_CONFIRM = 3"
| "fw_code_val FW_CODE_FLASH_ERROR = 4"
| "fw_code_val FW_CODE_TRANFER_ERROR = 5"
| "fw_code_val FW_CODE_KEYHASH_ERROR = 6"

named_theorems can_consts \<open>the frame identifiers and command codes\<close>

lemmas can_const_defs [can_consts] =
  CAN_FW_PLATFORM_RX_def CAN_FW_PLATFORM_TX_def CAN_FW_FW_DATA_RX_def CAN_FW_KEYHASH_RX_def
  CAN_FW_VERSION_TX_def FW_CMD_START_UPDATE_def FW_CMD_CONFIRM_def FW_CMD_VERSION_def
  FW_CMD_REBOOT_def

section \<open>State and configuration\<close>

record can_fw_cfg =
  fw_keyhash :: "bytes option"
  app_version :: "nat \<times> nat \<times> nat"
  fw_git_version :: string
  past_ver :: bytes

record ('d, 'c, 'u, 'a) can_fw =
  can_handlers :: "('c, 'u) slot list"
  can_flash :: 'd
  fw_img_initialized :: bool
  fw_written :: u32
  fw_total_size :: u32
  rx_keybuf :: bytes
  key_chunk_mask :: u8
  can_rx_filter :: bool
  can_out :: "can_frame list"
  rebooted :: bool
  can_app :: 'a

section \<open>Replies\<close>

definition fw_can_reply :: "byteorder \<Rightarrow> fw_code \<Rightarrow> u32 \<Rightarrow> ('d, 'c, 'u, 'a) can_fw \<Rightarrow> ('d, 'c, 'u, 'a) can_fw" where
  "fw_can_reply bo code offset s =
     s\<lparr>can_out := can_out s @
        [\<lparr>can_id = CAN_FW_PLATFORM_TX, can_dlc = bytes_to_dlc bo 8,
          can_data = le32_bytes (fw_code_val code) @ le32_bytes offset\<rparr>]\<rparr>"

text \<open>
  One frame of the version text: the sequence number, up to seven characters, zero padding.  \<open>mem\<close> is
  the memory from the start of the version buffer on.
\<close>

definition version_frame :: "byteorder \<Rightarrow> bytes \<Rightarrow> u8 \<Rightarrow> u8 \<Rightarrow> u8 \<Rightarrow> can_frame" where
  "version_frame bo mem len off seq =
     (let chunk = (if 7 < unat len - unat off then 7 else unat len - unat off)
      in \<lparr>can_id = CAN_FW_VERSION_TX, can_dlc = bytes_to_dlc bo 8,
          can_data = seq # take chunk (drop (unat off) mem) @ replicate (7 - chunk) 0\<rparr>)"

text \<open>
  The loop counts in eight bits, so whether it stops is not plain from its text: it is a partial
  function whose value is \<open>None\<close> where it runs forever.
\<close>

partial_function (option) version_loop ::
    "byteorder \<Rightarrow> bytes \<Rightarrow> u8 \<Rightarrow> u8 \<Rightarrow> u8 \<Rightarrow> can_frame list \<Rightarrow> can_frame list option" where
  "version_loop bo mem len off seq sent =
     (if off < len
      then version_loop bo mem len (off + 7) (seq + 1) (sent @ [version_frame bo mem len off seq])
      else Some sent)"

definition fw_can_send_version_string ::
    "byteorder \<Rightarrow> bytes \<Rightarrow> u8 \<Rightarrow> ('d, 'c, 'u, 'a) can_fw \<Rightarrow> ('d, 'c, 'u, 'a) can_fw option" where
  "fw_can_send_version_string bo mem len s =
     map_option (\<lambda>sent. s\<lparr>can_out := can_out s @ sent\<rparr>) (version_loop bo mem len 0 0 [])"

definition version_string :: "can_fw_cfg \<Rightarrow> string" where
  "version_string cfg =
     (case app_version cfg of (major, minor, patch) \<Rightarrow>
        ''v'' @ dec_string major @ ''.'' @ dec_string minor @ ''.'' @ dec_string patch @ ''_'' @
        fw_git_version cfg)"

section \<open>The command frame 0x101\<close>

text \<open>START_UPDATE: size check, optional key check, erase and initialise once, first offset reply.\<close>

definition start_update :: "byteorder \<Rightarrow> 'd dfu_api \<Rightarrow> can_fw_cfg \<Rightarrow> can_frame \<Rightarrow>
    ('d, 'c, 'u, 'a) can_fw \<Rightarrow> ('d, 'c, 'u, 'a) can_fw" where
  "start_update bo api cfg frame s =
     (if dlc_to_bytes bo (can_dlc frame) \<noteq> 8 then fw_can_reply bo FW_CODE_FLASH_ERROR 0 s
      else
        let full = (ucast (key_chunk_mask s) AND CAN_FW_KEYHASH_FULL_MASK = CAN_FW_KEYHASH_FULL_MASK);
            check = (case fw_keyhash cfg of None \<Rightarrow> False | Some _ \<Rightarrow> full);
            s = (if check then s\<lparr>key_chunk_mask := 0\<rparr> else s)
        in if check \<and> rx_keybuf s \<noteq> the (fw_keyhash cfg)
           then fw_can_reply bo FW_CODE_KEYHASH_ERROR 0 s
           else
             let accepted = (\<lambda>s. fw_can_reply bo FW_CODE_OFFSET 0 (s\<lparr>fw_total_size := data_32 frame 1\<rparr>))
             in if fw_img_initialized s then accepted s
                else
                  case area_open api (can_flash s) of (err, d) \<Rightarrow>
                    if err \<noteq> 0 then fw_can_reply bo FW_CODE_FLASH_ERROR 0 (s\<lparr>can_flash := d\<rparr>)
                    else
                      case img_init api (snd (area_erase api d)) of (err, d) \<Rightarrow>
                        if err \<noteq> 0 then fw_can_reply bo FW_CODE_FLASH_ERROR 0 (s\<lparr>can_flash := d\<rparr>)
                        else accepted (s\<lparr>can_flash := d, fw_img_initialized := True, fw_written := 0\<rparr>))"

text \<open>CONFIRM: flush, end the session, compare the sizes, ask MCUboot for the swap.\<close>

definition confirm_update :: "byteorder \<Rightarrow> 'd dfu_api \<Rightarrow> can_frame \<Rightarrow>
    ('d, 'c, 'u, 'a) can_fw \<Rightarrow> ('d, 'c, 'u, 'a) can_fw" where
  "confirm_update bo api frame s =
     (if \<not> fw_img_initialized s then fw_can_reply bo FW_CODE_TRANFER_ERROR 0 s
      else
        let permanent = data_32 frame 1;
            d = snd (img_write api [] True (can_flash s));
            s = s\<lparr>can_flash := d, fw_img_initialized := False\<rparr>
        in if fw_written s \<noteq> fw_total_size s then fw_can_reply bo FW_CODE_TRANFER_ERROR 0 s
           else
             case boot_request api (sint permanent) d of (ret, d) \<Rightarrow>
               if ret = 0 then fw_can_reply bo FW_CODE_CONFIRM 0x55AA55AA (s\<lparr>can_flash := d\<rparr>)
               else fw_can_reply bo FW_CODE_TRANFER_ERROR 0 (s\<lparr>can_flash := d\<rparr>))"

text \<open>VERSION: announce the length, then the text in frames of seven characters.\<close>

definition report_version :: "byteorder \<Rightarrow> can_fw_cfg \<Rightarrow>
    ('d, 'c, 'u, 'a) can_fw \<Rightarrow> ('d, 'c, 'u, 'a) can_fw option" where
  "report_version bo cfg s =
     (let text = version_string cfg;
          ver = snprintf_buf 24 text;
          vlen = length text;
          s = fw_can_reply bo FW_CODE_VERSION (of_nat vlen) s
      in fw_can_send_version_string bo (ver @ past_ver cfg) (of_nat vlen) s)"

definition handle_platform_rx :: "byteorder \<Rightarrow> 'd dfu_api \<Rightarrow> can_fw_cfg \<Rightarrow> can_frame \<Rightarrow>
    ('d, 'c, 'u, 'a) can_fw \<Rightarrow> ('d, 'c, 'u, 'a) can_fw option" where
  "handle_platform_rx bo api cfg frame s =
     (let cmd = data_32 frame 0
      in if cmd = FW_CMD_START_UPDATE then Some (start_update bo api cfg frame s)
         else if cmd = FW_CMD_CONFIRM then Some (confirm_update bo api frame s)
         else if cmd = FW_CMD_VERSION then report_version bo cfg s
         else if cmd = FW_CMD_REBOOT then Some (s\<lparr>rebooted := True\<rparr>)
         else Some s)"

section \<open>Key hash frames 0x104 and data frames 0x103\<close>

definition handle_keyhash_frame :: "byteorder \<Rightarrow> can_frame \<Rightarrow>
    ('d, 'c, 'u, 'a) can_fw \<Rightarrow> ('d, 'c, 'u, 'a) can_fw" where
  "handle_keyhash_frame bo frame s =
     (let seq = can_data frame ! 0;
          rem = (word_of_int (int FW_KEYHASH_KEY_LEN - int (unat seq) * int CAN_FW_KEYHASH_CHUNK_BYTES) :: u8);
          chunk = min (unat rem) CAN_FW_KEYHASH_CHUNK_BYTES;
          n = dlc_to_bytes bo (can_dlc frame)
      in if unat seq \<ge> CAN_FW_KEYHASH_CHUNKS \<or> unat n < 1 + chunk then s
         else s\<lparr>rx_keybuf := mem_put (unat seq * CAN_FW_KEYHASH_CHUNK_BYTES)
                               (take chunk (drop 1 (can_data frame))) (rx_keybuf s),
                key_chunk_mask := key_chunk_mask s OR push_bit (unat seq) 1\<rparr>)"

definition handle_fw_data :: "byteorder \<Rightarrow> 'd dfu_api \<Rightarrow> can_frame \<Rightarrow>
    ('d, 'c, 'u, 'a) can_fw \<Rightarrow> ('d, 'c, 'u, 'a) can_fw" where
  "handle_fw_data bo api frame s =
     (if \<not> fw_img_initialized s then fw_can_reply bo FW_CODE_TRANFER_ERROR 0 s
      else
        let n = dlc_to_bytes bo (can_dlc frame)
        in case img_write api (take (unat n) (can_data frame)) False (can_flash s) of (err, d) \<Rightarrow>
             if err \<noteq> 0 then fw_can_reply bo FW_CODE_FLASH_ERROR 0 (s\<lparr>can_flash := d\<rparr>)
             else
               let s = s\<lparr>can_flash := d, fw_written := fw_written s + ucast n\<rparr>
               in if fw_written s = fw_total_size s
                  then fw_can_reply bo FW_CODE_UPDATE_SUCCESS (fw_total_size s) s
                  else if fw_written s mod 64 = 0 then fw_can_reply bo FW_CODE_OFFSET (fw_written s) s
                  else s)"

section \<open>The receive thread and the public functions\<close>

text \<open>One turn of the RX thread; \<open>None\<close> when it never comes back for the next frame.\<close>

definition can_fw_rx :: "byteorder \<Rightarrow> 'd dfu_api \<Rightarrow> can_fw_cfg \<Rightarrow>
    ('c \<Rightarrow> can_frame \<Rightarrow> 'u option \<Rightarrow> 'a \<Rightarrow> bool \<times> 'a) \<Rightarrow> can_frame \<Rightarrow>
    ('d, 'c, 'u, 'a) can_fw \<Rightarrow> ('d, 'c, 'u, 'a) can_fw option" where
  "can_fw_rx bo api cfg invoke frame s =
     (if can_id frame = CAN_FW_PLATFORM_RX then handle_platform_rx bo api cfg frame s
      else if can_id frame = CAN_FW_FW_DATA_RX then Some (handle_fw_data bo api frame s)
      else if can_id frame = CAN_FW_KEYHASH_RX \<and> fw_keyhash cfg \<noteq> None
      then Some (handle_keyhash_frame bo frame s)
      else Some (s\<lparr>can_app := snd (broadcast invoke (can_handlers s) frame False (can_app s))\<rparr>))"

text \<open>Results: the CAN device (\<open>True\<close>) or NULL for the first, 0 or -ENOENT for the second.\<close>

definition can_fw_set_app_handler :: "'c option \<Rightarrow> 'u option \<Rightarrow>
    ('d, 'c, 'u, 'a) can_fw \<Rightarrow> bool \<times> ('d, 'c, 'u, 'a) can_fw" where
  "can_fw_set_app_handler c u s =
     (case c of None \<Rightarrow> (True, s)
      | Some f \<Rightarrow>
          (case store_handler f u (can_handlers s) of
             Some xs \<Rightarrow> (True, s\<lparr>can_handlers := xs\<rparr>)
           | None \<Rightarrow> (False, s)))"

definition ENOENT :: int where "ENOENT = 2"

definition can_fw_remove_handler :: "'c option \<Rightarrow>
    ('d, 'c, 'u, 'a) can_fw \<Rightarrow> int \<times> ('d, 'c, 'u, 'a) can_fw" where
  "can_fw_remove_handler c s =
     (case clear_handler c (can_handlers s) of
        Some xs \<Rightarrow> (0, s\<lparr>can_handlers := xs\<rparr>)
      | None \<Rightarrow> (- ENOENT, s))"

text \<open>
  The start-up hook: whether the device is ready and what the driver answers for the bit rate and the
  start are arguments; \<open>can_rx_filter\<close> says that the accept-all filter feeds the message queue.
\<close>

definition ENODEV :: int where "ENODEV = 19"

definition can_fw_init :: "bool \<Rightarrow> int \<Rightarrow> int \<Rightarrow> ('d, 'c, 'u, 'a) can_fw \<Rightarrow> int \<times> ('d, 'c, 'u, 'a) can_fw" where
  "can_fw_init ready set_bitrate start s =
     (if \<not> ready then (- ENODEV, s)
      else if set_bitrate \<noteq> 0 then (set_bitrate, s)
      else if start \<noteq> 0 then (start, s)
      else (0, s\<lparr>can_rx_filter := True\<rparr>))"

text \<open>Static initialisation: everything zero, \<open>n\<close> empty handler slots.\<close>

definition can_fw_boot :: "nat \<Rightarrow> 'd \<Rightarrow> 'a \<Rightarrow> ('d, 'c, 'u, 'a) can_fw" where
  "can_fw_boot n d a = \<lparr>can_handlers = replicate n free_slot, can_flash = d, fw_img_initialized = False,
     fw_written = 0, fw_total_size = 0, rx_keybuf = replicate FW_KEYHASH_KEY_LEN 0, key_chunk_mask = 0,
     can_rx_filter = False, can_out = [], rebooted = False, can_app = a\<rparr>"

interpretation can_registry: handler_registry can_handlers
  "\<lambda>c u s. snd (can_fw_set_app_handler (Some c) u s)"
  "\<lambda>c s. snd (can_fw_remove_handler (Some c) s)"
  by unfold_locales
    (auto simp: can_fw_set_app_handler_def can_fw_remove_handler_def split: option.splits)

end
