(* ===== verification/Can_Fw_Props.thy ===== *)
theory Can_Fw_Props
  imports Can_Fw
begin

text \<open>
  Correctness of the CAN upgrade library: its loops stop, the version text and the key hash
  survive being cut into frames, the session contract of theory Upgrade_Session holds, and an
  upload is confirmed exactly when the announced number of bytes arrived in one uninterrupted
  session.
\<close>

section \<open>The version frames\<close>

declare version_loop.simps [code]

lemma version_loop_stops_at: "off = of_nat (7 * (73 - m)) \<Longrightarrow> m \<le> 73 \<Longrightarrow>
    \<exists>fs. version_loop bo mem len off seq sent = Some fs"
proof (induction m arbitrary: off seq sent)
  case 0
  then have "off = 255" by simp
  moreover have "\<not> (255 :: u8) < len"
    using unsigned_less [of len, where 'a = nat] by (simp add: word_less_nat_alt)
  ultimately show ?case by (simp add: version_loop.simps)
next
  case (Suc m)
  have "7 * (73 - m) = 7 * (73 - Suc m) + 7" using Suc.prems(2) by simp
  then have "off + 7 = of_nat (7 * (73 - m))" using Suc.prems(1) by simp
  then show ?case
    using Suc.IH [of "off + 7"] Suc.prems(2) by (subst version_loop.simps) auto
qed

lemma version_loop_stops: "\<exists>fs. version_loop bo mem len 0 0 sent = Some fs"
  using version_loop_stops_at [of 0 73] by simp

definition frame_text :: "can_frame \<Rightarrow> bytes" where
  "frame_text f = drop 1 (can_data f)"

text \<open>Up to 252 characters the loop's counter does not wrap, and the pieces are the text.\<close>

lemma version_loop_pieces:
  assumes "unat len \<le> 252" and "unat len \<le> length mem"
  shows "unat off = 7 * k \<Longrightarrow> k \<le> 36 \<Longrightarrow>
    \<exists>fs. version_loop bo mem len off seq sent = Some (sent @ fs) \<and>
      take (unat len - 7 * k) (concat (map frame_text fs)) = drop (7 * k) (take (unat len) mem) \<and>
      unat len - 7 * k \<le> length (concat (map frame_text fs)) \<and>
      map (\<lambda>f. can_data f ! 0) fs = map (\<lambda>i. seq + of_nat i) [0..<length fs] \<and>
      list_all (\<lambda>f. can_id f = CAN_FW_VERSION_TX \<and> length (can_data f) = 8) fs"
proof (induction "36 - k" arbitrary: k off seq sent)
  case 0
  then have "\<not> off < len" using assms(1) by (simp add: word_less_nat_alt)
  moreover have "\<not> 7 * k < unat len" using 0 assms(1) by simp
  ultimately show ?case by (intro exI [of _ "[]"]) (simp add: version_loop.simps)
next
  case (Suc m)
  show ?case
  proof (cases "off < len")
    case False
    then have "\<not> 7 * k < unat len" using Suc.prems by (simp add: word_less_nat_alt)
    with False show ?thesis by (intro exI [of _ "[]"]) (simp add: version_loop.simps)
  next
    case True
    have k: "k < 36" using Suc.hyps(2) by simp
    have off7: "unat (off + 7) = 7 * Suc k"
    proof -
      have "unat off + unat (7 :: u8) < 2 ^ LENGTH(8)" using Suc.prems k by simp
      then show ?thesis using Suc.prems by (subst unat_add_lem [THEN iffD1]) simp_all
    qed
    let ?f = "version_frame bo mem len off seq"
    let ?chunk = "min 7 (unat len - 7 * k)"
    have lt: "7 * k < unat len" using True Suc.prems by (simp add: word_less_nat_alt)
    have f: "can_data ?f = seq # take ?chunk (drop (7 * k) mem) @ replicate (7 - ?chunk) 0"
      "can_id ?f = CAN_FW_VERSION_TX"
      using Suc.prems by (auto simp: version_frame_def Let_def min_def)
    have flen: "length (can_data ?f) = 8"
      using assms(2) lt unfolding f by (cases "7 \<le> unat len - 7 * k") auto
    have m: "m = 36 - Suc k" and k': "Suc k \<le> 36" using Suc.hyps(2) k by simp_all
    from Suc.hyps(1) [OF m off7 k', of "seq + 1" "sent @ [?f]"]
    obtain fs where fs: "version_loop bo mem len (off + 7) (seq + 1) (sent @ [?f]) = Some ((sent @ [?f]) @ fs)"
      "take (unat len - 7 * Suc k) (concat (map frame_text fs)) = drop (7 * Suc k) (take (unat len) mem)"
      "unat len - 7 * Suc k \<le> length (concat (map frame_text fs))"
      "map (\<lambda>f. can_data f ! 0) fs = map (\<lambda>i. seq + 1 + of_nat i) [0..<length fs]"
      "list_all (\<lambda>f. can_id f = CAN_FW_VERSION_TX \<and> length (can_data f) = 8) fs"
      by blast
    have ft: "frame_text ?f = take ?chunk (drop (7 * k) mem) @ replicate (7 - ?chunk) 0"
      "length (frame_text ?f) = 7"
      using flen by (simp_all add: frame_text_def f)
    have split: "take (unat len - 7 * k) (concat (map frame_text (?f # fs))) = drop (7 * k) (take (unat len) mem)"
    proof (cases "7 \<le> unat len - 7 * k")
      case True
      let ?T = "drop (7 * k) (take (unat len) mem)"
      have "take 7 (drop (7 * k) mem) = take 7 ?T" using True by (simp add: drop_take)
      moreover have "drop (7 * Suc k) (take (unat len) mem) = drop 7 ?T" by (simp add: add.commute)
      moreover have "take (unat len - 7 * k) (concat (map frame_text (?f # fs))) =
          take 7 (drop (7 * k) mem) @ drop (7 * Suc k) (take (unat len) mem)"
        using True ft fs(2) assms(2) by (simp add: min_def diff_diff_left add.commute)
      ultimately show ?thesis by (simp only: append_take_drop_id)
    next
      case False
      then have "length (take (unat len - 7 * k) (drop (7 * k) mem)) = unat len - 7 * k"
        using assms(2) by simp
      moreover have "?chunk = unat len - 7 * k" using False by simp
      ultimately show ?thesis using ft(1) by (simp add: drop_take)
    qed
    have "map (\<lambda>f. can_data f ! 0) (?f # fs) = map (\<lambda>i. seq + of_nat i) [0..<length (?f # fs)]"
      using fs(4) by (simp add: f upt_conv_Cons map_Suc_upt [symmetric] add.assoc del: upt_Suc)
    moreover have "version_loop bo mem len off seq sent = Some (sent @ ?f # fs)"
      using True fs(1) by (subst version_loop.simps) simp
    moreover have "unat len - 7 * k \<le> length (concat (map frame_text (?f # fs)))"
      using fs(3) ft(2) by simp
    moreover have "list_all (\<lambda>f. can_id f = CAN_FW_VERSION_TX \<and> length (can_data f) = 8) (?f # fs)"
      using fs(5) flen f(2) by simp
    ultimately show ?thesis using split by blast
  qed
qed

section \<open>Key hash frames\<close>

lemma key_chunks: "CAN_FW_KEYHASH_CHUNKS = 5"
  by (simp add: CAN_FW_KEYHASH_CHUNKS_def FW_KEYHASH_KEY_LEN_def CAN_FW_KEYHASH_CHUNK_BYTES_def)

lemma key_full_mask: "CAN_FW_KEYHASH_FULL_MASK = 31"
  by (simp add: CAN_FW_KEYHASH_FULL_MASK_def key_chunks push_bit_eq_mult)

text \<open>The frame a host sends for piece \<open>i\<close> of the hash \<open>h\<close>: sequence number and seven bytes, padded.\<close>

definition hash_frame :: "bytes \<Rightarrow> nat \<Rightarrow> can_frame" where
  "hash_frame h i = \<lparr>can_id = CAN_FW_KEYHASH_RX, can_dlc = 8,
     can_data = of_nat i # take 7 (drop (7 * i) h @ replicate 7 0)\<rparr>"

lemma handle_hash_frame:
  assumes bo: "byteorder_ok bo" and h: "length h = 32" and i: "i < 5"
  shows "handle_keyhash_frame bo (hash_frame h i) s =
    s\<lparr>rx_keybuf := mem_put (7 * i) (take 7 (drop (7 * i) h)) (rx_keybuf s),
      key_chunk_mask := key_chunk_mask s OR push_bit i 1\<rparr>"
proof -
  have un: "unat (of_nat i :: u8) = i" using i by (simp add: unat_of_nat)
  have dlc: "dlc_to_bytes bo 8 = 8" using byteorder_okD(8) [OF bo, of 8] by simp
  have "i = 0 \<or> i = 1 \<or> i = 2 \<or> i = 3 \<or> i = 4" using i by auto
  then show ?thesis
    using h by (elim disjE)
      (simp_all add: handle_keyhash_frame_def hash_frame_def Let_def dlc key_chunks
        FW_KEYHASH_KEY_LEN_def CAN_FW_KEYHASH_CHUNK_BYTES_def min_def)
qed

definition pieces_in :: "bytes \<Rightarrow> nat set \<Rightarrow> ('d, 'c, 'u, 'a) can_fw \<Rightarrow> bool" where
  "pieces_in h S s \<longleftrightarrow> length (rx_keybuf s) = 32 \<and>
     (\<forall>i \<in> S. bit (key_chunk_mask s) i \<and> take 7 (drop (7 * i) (rx_keybuf s)) = take 7 (drop (7 * i) h))"

lemma piece_put:
  assumes "length buf = 32" and "length h = 32" and "i < 5" and "j < 5"
  shows "take 7 (drop (7 * j) (mem_put (7 * i) (take 7 (drop (7 * i) h)) buf)) =
    take 7 (drop (7 * j) (if i = j then h else buf))"
proof -
  let ?x = "take 7 (drop (7 * i) h)"
  have fit: "7 * i + length ?x \<le> length buf" using assms by simp
  have len: "length (mem_put (7 * i) ?x buf) = 32"
    using length_mem_put [OF fit] assms(1) by simp
  have nth: "mem_put (7 * i) ?x buf ! m = (if 7 * i \<le> m \<and> m < 7 * i + 7 then h ! m else buf ! m)"
    if "m < 32" for m
    using nth_mem_put [OF fit] that assms(1,2) by auto
  show ?thesis
  proof (rule nth_equalityI)
    show "length (take 7 (drop (7 * j) (mem_put (7 * i) ?x buf))) =
        length (take 7 (drop (7 * j) (if i = j then h else buf)))"
      unfolding length_take length_drop len using assms by simp
  next
    fix k assume "k < length (take 7 (drop (7 * j) (mem_put (7 * i) ?x buf)))"
    then have k: "k < 7" "7 * j + k < 32" unfolding length_take length_drop len by auto
    have c: "(7 * i \<le> 7 * j + k \<and> 7 * j + k < 7 * i + 7) = (i = j)"
      using k(1) by (cases i j rule: linorder_cases) auto
    have "mem_put (7 * i) ?x buf ! (7 * j + k) = (if i = j then h else buf) ! (7 * j + k)"
      unfolding nth [OF k(2)] c by simp
    then show "take 7 (drop (7 * j) (mem_put (7 * i) ?x buf)) ! k =
        take 7 (drop (7 * j) (if i = j then h else buf)) ! k"
      using k len assms(1,2) by (simp add: nth_drop)
  qed
qed

lemma handle_hash_pieces:
  assumes "byteorder_ok bo" and "length h = 32" and "i < 5" and "S \<subseteq> {0..<5}" and "pieces_in h S s"
  shows "pieces_in h (insert i S) (handle_keyhash_frame bo (hash_frame h i) s)"
proof -
  have b: "bit ((2 :: u8) ^ i) j \<longleftrightarrow> j = i" if "j < 5" for j
    using that assms(3) by (auto simp: bit_exp_iff possible_bit_word)
  have "length (mem_put (7 * i) (take 7 (drop (7 * i) h)) (rx_keybuf s)) = 32"
    using assms by (simp add: pieces_in_def)
  moreover have "j < 5" if "j \<in> insert i S" for j
    using that assms(3,4) by auto
  ultimately show ?thesis
    using assms(5) piece_put [OF _ assms(2,3), of "rx_keybuf s"]
    by (auto simp: pieces_in_def handle_hash_frame [OF assms(1-3)] bit_or_iff b)
qed

lemma handle_hash_run:
  assumes "byteorder_ok bo" and "length h = 32"
  shows "set is \<subseteq> {0..<5} \<Longrightarrow> S \<subseteq> {0..<5} \<Longrightarrow> pieces_in h S s \<Longrightarrow>
    pieces_in h (S \<union> set is) (run_events (handle_keyhash_frame bo) (map (hash_frame h) is) s)"
proof (induction "is" arbitrary: S s)
  case (Cons i "is")
  then have "pieces_in h (insert i S) (handle_keyhash_frame bo (hash_frame h i) s)"
    using handle_hash_pieces [OF assms] by auto
  with Cons.IH [of "insert i S"] Cons.prems show ?case by auto
qed auto

lemma pieces_all:
  assumes "pieces_in h {0..<5} s" and "length h = 32"
  shows "rx_keybuf s = h" and "ucast (key_chunk_mask s) AND CAN_FW_KEYHASH_FULL_MASK = CAN_FW_KEYHASH_FULL_MASK"
proof -
  have len: "length (rx_keybuf s) = 32" using assms(1) by (simp add: pieces_in_def)
  have nth: "rx_keybuf s ! j = h ! j" if "j < 32" for j
  proof -
    have "take 7 (drop (7 * (j div 7)) (rx_keybuf s)) ! (j mod 7) = take 7 (drop (7 * (j div 7)) h) ! (j mod 7)"
      using assms(1) that by (simp add: pieces_in_def)
    moreover have "7 * (j div 7) + j mod 7 = j" by simp
    ultimately show ?thesis using len assms(2) that by (simp add: nth_drop)
  qed
  show "rx_keybuf s = h" using len assms(2) nth by (intro nth_equalityI) auto
  have m: "(31 :: u32) = mask 5" by (simp add: mask_eq_exp_minus_1)
  have "bit (key_chunk_mask s) n" if "n < 5" for n
    using assms(1) that by (simp add: pieces_in_def)
  then show "ucast (key_chunk_mask s) AND CAN_FW_KEYHASH_FULL_MASK = CAN_FW_KEYHASH_FULL_MASK"
    unfolding key_full_mask m by (intro bit_word_eqI) (auto simp: bit_and_iff bit_mask_iff bit_ucast_iff)
qed

section \<open>Sessions\<close>

text \<open>A turn of the RX thread always ends, so the thread is a function on states.\<close>

lemma report_version_returns: "\<exists>s'. report_version bo cfg s = Some s'"
  using version_loop_stops
  by (fastforce simp: report_version_def fw_can_send_version_string_def Let_def)

lemma can_fw_rx_Some: "\<exists>s'. can_fw_rx bo api cfg invoke frame s = Some s'"
  using report_version_returns [of bo cfg s]
  by (auto simp: can_fw_rx_def handle_platform_rx_def Let_def)

definition can_fw_step :: "byteorder \<Rightarrow> 'd dfu_api \<Rightarrow> can_fw_cfg \<Rightarrow>
    ('c \<Rightarrow> can_frame \<Rightarrow> 'u option \<Rightarrow> 'a \<Rightarrow> bool \<times> 'a) \<Rightarrow> can_frame \<Rightarrow>
    ('d, 'c, 'u, 'a) can_fw \<Rightarrow> ('d, 'c, 'u, 'a) can_fw" where
  "can_fw_step bo api cfg invoke frame s = the (can_fw_rx bo api cfg invoke frame s)"

definition is_start_frame :: "can_frame \<Rightarrow> bool" where
  "is_start_frame f \<longleftrightarrow> can_id f = CAN_FW_PLATFORM_RX \<and> data_32 f 0 = FW_CMD_START_UPDATE"

definition is_confirm_frame :: "can_frame \<Rightarrow> bool" where
  "is_confirm_frame f \<longleftrightarrow> can_id f = CAN_FW_PLATFORM_RX \<and> data_32 f 0 = FW_CMD_CONFIRM"

lemma fw_can_reply_frame [simp]:
  "fw_img_initialized (fw_can_reply bo c x s) = fw_img_initialized s"
  "can_flash (fw_can_reply bo c x s) = can_flash s"
  "fw_written (fw_can_reply bo c x s) = fw_written s"
  "fw_total_size (fw_can_reply bo c x s) = fw_total_size s"
  "rx_keybuf (fw_can_reply bo c x s) = rx_keybuf s"
  "key_chunk_mask (fw_can_reply bo c x s) = key_chunk_mask s"
  by (simp_all add: fw_can_reply_def)

lemma report_version_frame:
  assumes "report_version bo cfg s = Some s'"
  shows "fw_img_initialized s' = fw_img_initialized s" and "can_flash s' = can_flash s"
  using assms by (auto simp: report_version_def fw_can_send_version_string_def Let_def)

lemma handle_keyhash_frame_frame [simp]:
  "fw_img_initialized (handle_keyhash_frame bo f s) = fw_img_initialized s"
  "can_flash (handle_keyhash_frame bo f s) = can_flash s"
  by (simp_all add: handle_keyhash_frame_def Let_def)

lemma confirm_update_ends [simp]: "\<not> fw_img_initialized (confirm_update bo api f s)"
  by (simp add: confirm_update_def Let_def split: prod.split)

lemma can_fw_step_idle:
  assumes "\<not> fw_img_initialized s" and "\<not> is_start_frame f"
  shows "can_flash (can_fw_step bo api cfg invoke f s) = can_flash s \<and>
    \<not> fw_img_initialized (can_fw_step bo api cfg invoke f s)"
proof -
  obtain v where v: "report_version bo cfg s = Some v" using report_version_returns by blast
  note vf = report_version_frame [OF v]
  show ?thesis
    using assms vf v
    by (auto simp: can_fw_step_def can_fw_rx_def handle_platform_rx_def Let_def is_start_frame_def
        confirm_update_def handle_fw_data_def)
qed

interpretation can_session: upgrade_session "can_fw_step bo api cfg invoke"
  fw_img_initialized can_flash is_start_frame is_confirm_frame
  for bo api cfg invoke
proof
  fix s :: "('a, 'b, 'c, 'd) can_fw" and e
  assume "\<not> fw_img_initialized s" "\<not> is_start_frame e"
  then show "can_flash (can_fw_step bo api cfg invoke e s) = can_flash s"
    "\<not> fw_img_initialized (can_fw_step bo api cfg invoke e s)"
    using can_fw_step_idle [of s e bo api cfg invoke] by simp_all
next
  fix s :: "('a, 'b, 'c, 'd) can_fw" and e
  assume "is_confirm_frame e"
  then show "\<not> fw_img_initialized (can_fw_step bo api cfg invoke e s)"
    by (simp add: can_fw_step_def can_fw_rx_def handle_platform_rx_def is_confirm_frame_def
        FW_CMD_START_UPDATE_def FW_CMD_CONFIRM_def Let_def)
qed

section \<open>Uploads\<close>

definition total_len :: "byteorder \<Rightarrow> can_frame list \<Rightarrow> nat" where
  "total_len bo fs = length (concat (map (payload bo) fs))"

lemma handle_fw_data_ok:
  assumes "dfu_stream_ok api img" and "dfu_reliable api" and "fw_img_initialized s" and "frame_wf bo f"
  shows "let s' = handle_fw_data bo api f s in
    fw_img_initialized s' \<and> img (can_flash s') = img (can_flash s) @ payload bo f \<and>
    fw_written s' = fw_written s + of_nat (length (payload bo f)) \<and> fw_total_size s' = fw_total_size s"
proof -
  have n: "ucast (dlc_to_bytes bo (can_dlc f)) = (of_nat (length (payload bo f)) :: u32)"
    using assms(4) by (simp add: payload_def frame_wf_def)
  obtain d where w: "img_write api (payload bo f) False (can_flash s) = (0, d)"
    using assms(2) by (metis dfu_reliable_def prod.collapse)
  moreover have "img d = img (can_flash s) @ payload bo f"
    using assms(1) w unfolding dfu_stream_ok_def by (metis fst_conv snd_conv)
  ultimately show ?thesis
    using assms(3) by (simp add: handle_fw_data_def Let_def n payload_def)
qed

definition data_frame :: "byteorder \<Rightarrow> can_frame \<Rightarrow> bool" where
  "data_frame bo f \<longleftrightarrow> can_id f = CAN_FW_FW_DATA_RX \<and> frame_wf bo f"

lemma can_fw_step_data:
  "data_frame bo f \<Longrightarrow> can_fw_step bo api cfg invoke f s = handle_fw_data bo api f s"
  by (simp add: can_fw_step_def can_fw_rx_def data_frame_def can_const_defs)

lemma data_run:
  assumes "dfu_stream_ok api img" and "dfu_reliable api"
  shows "list_all (data_frame bo) fs \<Longrightarrow> fw_img_initialized s \<Longrightarrow>
    (let s' = run_events (can_fw_step bo api cfg invoke) fs s in
      fw_img_initialized s' \<and> img (can_flash s') = img (can_flash s) @ concat (map (payload bo) fs) \<and>
      fw_written s' = fw_written s + of_nat (total_len bo fs) \<and> fw_total_size s' = fw_total_size s)"
proof (induction fs arbitrary: s)
  case Nil
  then show ?case by (simp add: total_len_def)
next
  case (Cons f fs)
  let ?s = "handle_fw_data bo api f s"
  have f: "frame_wf bo f" and step: "can_fw_step bo api cfg invoke f s = ?s"
    using Cons.prems(1) by (simp_all add: data_frame_def can_fw_step_data)
  from handle_fw_data_ok [OF assms Cons.prems(2) f]
  have s: "fw_img_initialized ?s" "img (can_flash ?s) = img (can_flash s) @ payload bo f"
    "fw_written ?s = fw_written s + of_nat (length (payload bo f))" "fw_total_size ?s = fw_total_size s"
    by (simp_all add: Let_def)
  show ?case
    using Cons.IH [of ?s] Cons.prems(1) s by (simp add: step Let_def total_len_def add.assoc)
qed

text \<open>What the host's last view is: the last frame sent is the reply with this code and value.\<close>

definition last_reply :: "('d, 'c, 'u, 'a) can_fw \<Rightarrow> fw_code \<Rightarrow> u32 \<Rightarrow> bool" where
  "last_reply s code x \<longleftrightarrow> can_out s \<noteq> [] \<and> can_id (last (can_out s)) = CAN_FW_PLATFORM_TX \<and>
     data_32 (last (can_out s)) 0 = fw_code_val code \<and> data_32 (last (can_out s)) 1 = x"

lemma last_reply_can_reply [simp]: "last_reply (fw_can_reply bo code x s) code x"
  by (simp add: last_reply_def fw_can_reply_def data_32_def)

lemma can_fw_step_start:
  "is_start_frame f \<Longrightarrow> can_fw_step bo api cfg invoke f s = start_update bo api cfg f s"
  by (simp add: can_fw_step_def can_fw_rx_def handle_platform_rx_def is_start_frame_def)

lemma can_fw_step_confirm:
  "is_confirm_frame f \<Longrightarrow> can_fw_step bo api cfg invoke f s = confirm_update bo api f s"
  by (simp add: can_fw_step_def can_fw_rx_def handle_platform_rx_def is_confirm_frame_def
      FW_CMD_START_UPDATE_def FW_CMD_CONFIRM_def)

text \<open>The host either sent no complete key, or the right one.\<close>

definition key_admits :: "can_fw_cfg \<Rightarrow> ('d, 'c, 'u, 'a) can_fw \<Rightarrow> bool" where
  "key_admits cfg s \<longleftrightarrow>
     (case fw_keyhash cfg of None \<Rightarrow> True
      | Some h \<Rightarrow> ucast (key_chunk_mask s) AND CAN_FW_KEYHASH_FULL_MASK \<noteq> CAN_FW_KEYHASH_FULL_MASK
                  \<or> rx_keybuf s = h)"

lemma start_update_fresh:
  assumes "dfu_stream_ok api img" and "dfu_reliable api" and "\<not> fw_img_initialized s"
    and "dlc_to_bytes bo (can_dlc f) = 8" and "key_admits cfg s"
  shows "let s' = start_update bo api cfg f s in fw_img_initialized s' \<and> img (can_flash s') = [] \<and>
    fw_written s' = 0 \<and> fw_total_size s' = data_32 f 1"
proof -
  obtain d where o: "area_open api (can_flash s) = (0, d)"
    using assms(2) by (metis dfu_reliable_def prod.collapse)
  obtain d' where i: "img_init api (snd (area_erase api d)) = (0, d')"
    using assms(2) by (metis dfu_reliable_def prod.collapse)
  have "img d' = []" using assms(1) i unfolding dfu_stream_ok_def by (metis fst_conv snd_conv)
  with assms o i show ?thesis
    by (auto simp: start_update_def Let_def key_admits_def split: option.splits)
qed

lemma start_update_again:
  assumes "fw_img_initialized s" and "dlc_to_bytes bo (can_dlc f) = 8" and "key_admits cfg s"
  shows "let s' = start_update bo api cfg f s in fw_img_initialized s' \<and> can_flash s' = can_flash s \<and>
    fw_written s' = fw_written s \<and> fw_total_size s' = data_32 f 1 \<and> last_reply s' FW_CODE_OFFSET 0"
  using assms by (auto simp: start_update_def Let_def key_admits_def split: option.splits)

lemma confirm_update_complete:
  assumes "dfu_stream_ok api img" and "dfu_reliable api" and "fw_img_initialized s"
    and "fw_written s = fw_total_size s"
  shows "let s' = confirm_update bo api f s in img (can_flash s') = img (can_flash s) \<and>
    can_flash s' = snd (boot_request api (sint (data_32 f 1)) (snd (img_write api [] True (can_flash s)))) \<and>
    last_reply s' FW_CODE_CONFIRM 0x55AA55AA"
proof -
  let ?d = "snd (img_write api [] True (can_flash s))"
  obtain d' where b: "boot_request api (sint (data_32 f 1)) ?d = (0, d')"
    using assms(2) by (metis dfu_reliable_def prod.collapse)
  have "img d' = img ?d" using assms(1) b unfolding dfu_stream_ok_def by (metis snd_conv)
  moreover have "fst (img_write api [] True (can_flash s)) = 0" using assms(2) by (simp add: dfu_reliable_def)
  then have "img ?d = img (can_flash s)"
    using assms(1) unfolding dfu_stream_ok_def by (metis append_Nil2)
  ultimately show ?thesis
    using assms(3,4) b by (simp add: confirm_update_def Let_def)
qed

lemma confirm_update_short:
  assumes "fw_img_initialized s \<longrightarrow> fw_written s \<noteq> fw_total_size s"
  shows "can_flash (confirm_update bo api f s) =
      (if fw_img_initialized s then snd (img_write api [] True (can_flash s)) else can_flash s) \<and>
    last_reply (confirm_update bo api f s) FW_CODE_TRANFER_ERROR 0"
  using assms by (simp add: confirm_update_def Let_def)

section \<open>Properties\<close>

text \<open>
  the version reply always comes back, and when the version text fits its buffer the host that
  concatenates the seven text bytes of the 0x105 frames, in sequence order, and cuts at the
  announced length reads exactly the version text.
\<close>

theorem version_text_roundtrip:
  assumes "length (version_string cfg) \<le> 23"
  shows "\<exists>s' reply fs. handle_platform_rx bo api cfg
      \<lparr>can_id = CAN_FW_PLATFORM_RX, can_dlc = 8, can_data = le32_bytes FW_CMD_VERSION @ le32_bytes 0\<rparr> s = Some s' \<and>
    can_out s' = can_out s @ reply # fs \<and>
    data_32 reply 1 = of_nat (length (version_string cfg)) \<and>
    map (\<lambda>f. can_data f ! 0) fs = map of_nat [0..<length fs] \<and>
    take (length (version_string cfg)) (concat (map frame_text fs)) = char_bytes (version_string cfg)"
proof -
  let ?t = "version_string cfg"
  let ?mem = "snprintf_buf 24 ?t @ past_ver cfg"
  have un: "unat (of_nat (length ?t) :: u8) = length ?t" using assms by (simp add: unat_of_nat)
  have mem: "take (length ?t) ?mem = char_bytes ?t"
    by (rule take_snprintf_buf) (use assms in simp)
  then have "length ?t \<le> length ?mem" by (metis length_char_bytes length_take min.bounded_iff order_refl)
  then obtain fs where fs: "version_loop bo ?mem (of_nat (length ?t)) 0 0 [] = Some fs"
    "take (length ?t) (concat (map frame_text fs)) = char_bytes ?t"
    "map (\<lambda>f. can_data f ! 0) fs = map of_nat [0..<length fs]"
    using version_loop_pieces [of "of_nat (length ?t)" ?mem 0 0 bo 0 "[]"] assms mem by (auto simp: un)
  show ?thesis
    using fs
    by (simp add: handle_platform_rx_def can_const_defs report_version_def fw_can_send_version_string_def
        Let_def fw_can_reply_def data_32_def)
qed

theorem version_text_roundtrip_witness:
  "\<exists>s' reply fs. handle_platform_rx std_byteorder mem_dfu
      \<lparr>fw_keyhash = None, app_version = (0, 1, 0), fw_git_version = ''6e199a'', past_ver = []\<rparr>
      \<lparr>can_id = CAN_FW_PLATFORM_RX, can_dlc = 8, can_data = le32_bytes FW_CMD_VERSION @ le32_bytes 0\<rparr>
      (can_fw_boot 2 \<lparr>md_image = [], md_boot = []\<rparr> () :: (mem_dev, nat, nat, unit) can_fw) = Some s' \<and>
    can_out s' = reply # fs \<and> data_32 reply 1 = 13 \<and>
    take 13 (concat (map frame_text fs)) = char_bytes ''v0.1.0_6e199a''"
proof -
  let ?cfg = "\<lparr>fw_keyhash = None, app_version = (0, 1, 0), fw_git_version = ''6e199a'', past_ver = []\<rparr>"
  have v: "version_string ?cfg = ''v0.1.0_6e199a''"
    by (simp add: version_string_def dec_string.simps) code_simp
  let ?s = "can_fw_boot 2 \<lparr>md_image = [], md_boot = []\<rparr> () :: (mem_dev, nat, nat, unit) can_fw"
  have o: "can_out ?s = []" by (simp add: can_fw_boot_def)
  have l: "length ''v0.1.0_6e199a'' = 13" by simp
  have "length (version_string ?cfg) \<le> 23" unfolding v by simp
  from version_text_roundtrip [OF this, of std_byteorder mem_dfu ?s]
  obtain s' reply fs where
    "handle_platform_rx std_byteorder mem_dfu ?cfg
      \<lparr>can_id = CAN_FW_PLATFORM_RX, can_dlc = 8, can_data = le32_bytes FW_CMD_VERSION @ le32_bytes 0\<rparr> ?s = Some s'"
    "can_out s' = can_out ?s @ reply # fs" "data_32 reply 1 = of_nat (length ''v0.1.0_6e199a'')"
    "take (length ''v0.1.0_6e199a'') (concat (map frame_text fs)) = char_bytes ''v0.1.0_6e199a''"
    unfolding v by blast
  then show ?thesis unfolding o l by (intro exI [of _ s'] exI [of _ reply] exI [of _ fs]) simp
qed



text \<open>
  C5: an upload in one piece: from a library that is not receiving, with a device whose calls
  succeed, a start of \<open>n\<close> bytes, any well-formed data frames and a confirm: the image is exactly
  the concatenated payload; if its length is \<open>n\<close> the boot request is made with the host's flag and
  confirmed, and otherwise no boot request is made and the host is told.
\<close>

theorem can_upload:
  assumes "dfu_stream_ok api img" and "dfu_reliable api" and "\<not> fw_img_initialized s" and "key_admits cfg s"
    and "is_start_frame f" and "dlc_to_bytes bo (can_dlc f) = 8"
    and "list_all (data_frame bo) fs" and "is_confirm_frame c"
  shows "let s1 = run_events (can_fw_step bo api cfg invoke) (f # fs) s;
             s2 = can_fw_step bo api cfg invoke c s1;
             flushed = snd (img_write api [] True (can_flash s1)) in
    img (can_flash s1) = concat (map (payload bo) fs) \<and>
    (if (of_nat (total_len bo fs) :: u32) = data_32 f 1
     then can_flash s2 = snd (boot_request api (sint (data_32 c 1)) flushed) \<and>
       last_reply s2 FW_CODE_CONFIRM 0x55AA55AA
     else can_flash s2 = flushed \<and> last_reply s2 FW_CODE_TRANFER_ERROR 0)"
proof -
  let ?s0 = "start_update bo api cfg f s"
  let ?s1 = "run_events (can_fw_step bo api cfg invoke) fs ?s0"
  from start_update_fresh [OF assms(1-3) assms(6) assms(4)]
  have 0: "fw_img_initialized ?s0" "img (can_flash ?s0) = []" "fw_written ?s0 = 0" "fw_total_size ?s0 = data_32 f 1"
    by (simp_all add: Let_def)
  from data_run [OF assms(1,2,7) 0(1), of cfg invoke] 0
  have 1: "fw_img_initialized ?s1" "img (can_flash ?s1) = concat (map (payload bo) fs)"
    "fw_written ?s1 = of_nat (total_len bo fs)" "fw_total_size ?s1 = data_32 f 1"
    by (simp_all add: Let_def)
  show ?thesis
    using 1 confirm_update_complete [OF assms(1,2) 1(1), of bo c] confirm_update_short [of ?s1 bo api c]
    by (auto simp: Let_def can_fw_step_start [OF assms(5)] can_fw_step_confirm [OF assms(8)])
qed

theorem can_upload_witness:
  "\<exists>s2. run_events (can_fw_step std_byteorder mem_dfu
        \<lparr>fw_keyhash = None, app_version = (0, 1, 0), fw_git_version = ''6e199a'', past_ver = []\<rparr> (\<lambda>_ _ _ a. (False, a)))
      [\<lparr>can_id = 0x101, can_dlc = 8, can_data = le32_bytes 0 @ le32_bytes 10\<rparr>,
       \<lparr>can_id = 0x103, can_dlc = 8, can_data = [1, 2, 3, 4, 5, 6, 7, 8]\<rparr>,
       \<lparr>can_id = 0x103, can_dlc = 2, can_data = [9, 10, 0, 0, 0, 0, 0, 0]\<rparr>,
       \<lparr>can_id = 0x101, can_dlc = 8, can_data = le32_bytes 1 @ le32_bytes 1\<rparr>]
      (can_fw_boot 2 \<lparr>md_image = [], md_boot = []\<rparr> () :: (mem_dev, nat, nat, unit) can_fw) = s2 \<and>
    last_reply s2 FW_CODE_CONFIRM 0x55AA55AA"
proof -
  let ?cfg = "\<lparr>fw_keyhash = None, app_version = (0, 1, 0), fw_git_version = ''6e199a'', past_ver = []\<rparr>"
  let ?s = "can_fw_boot 2 \<lparr>md_image = [], md_boot = []\<rparr> () :: (mem_dev, nat, nat, unit) can_fw"
  let ?f = "\<lparr>can_id = 0x101, can_dlc = 8, can_data = le32_bytes 0 @ le32_bytes 10\<rparr>"
  let ?c = "\<lparr>can_id = 0x101, can_dlc = 8, can_data = le32_bytes 1 @ le32_bytes 1\<rparr>"
  let ?fs = "[\<lparr>can_id = 0x103, can_dlc = 8, can_data = [1, 2, 3, 4, 5, 6, 7, 8]\<rparr>,
       \<lparr>can_id = 0x103, can_dlc = 2, can_data = [9, 10, 0, 0, 0, 0, 0, 0]\<rparr>]"
  have f: "is_start_frame ?f" "dlc_to_bytes std_byteorder (can_dlc ?f) = 8" "data_32 ?f (Suc 0) = 10"
    by (simp_all add: is_start_frame_def can_const_defs data_32_def)
  have c: "is_confirm_frame ?c" by (simp add: is_confirm_frame_def can_const_defs data_32_def)
  have fs: "list_all (data_frame std_byteorder) ?fs" "total_len std_byteorder ?fs = 10"
    by (simp_all add: data_frame_def frame_wf_def can_const_defs total_len_def payload_def)
  have s: "\<not> fw_img_initialized ?s" "key_admits ?cfg ?s" by (simp_all add: can_fw_boot_def key_admits_def)
  show ?thesis
    using can_upload [OF mem_dfu_ok mem_dfu_reliable s f(1,2) fs(1) c, of "\<lambda>_ _ _ a. (False, a)"]
    by (simp add: Let_def fs(2) f(3))
qed

text \<open>
  outside a session the flash is out of reach: after a confirm frame, and from a library that
  is not receiving, no sequence of frames without a start frame changes the device.
\<close>

theorem can_flash_untouched:
  assumes "is_confirm_frame c" and "\<forall>f \<in> set fs. \<not> is_start_frame f"
  shows "can_flash (run_events (can_fw_step bo api cfg invoke) (c # fs) s) =
    can_flash (can_fw_step bo api cfg invoke c s)"
  using assms by (rule can_session.run_after_end)

theorem can_flash_untouched_witness:
  "can_flash (run_events (can_fw_step std_byteorder mem_dfu
        \<lparr>fw_keyhash = None, app_version = (0, 1, 0), fw_git_version = ''6e199a'', past_ver = []\<rparr> (\<lambda>_ _ _ a. (False, a)))
      [\<lparr>can_id = 0x101, can_dlc = 8, can_data = le32_bytes 1 @ le32_bytes 1\<rparr>,
       \<lparr>can_id = 0x103, can_dlc = 2, can_data = [9, 10, 0, 0, 0, 0, 0, 0]\<rparr>]
      (can_fw_boot 2 \<lparr>md_image = [5], md_boot = []\<rparr> () :: (mem_dev, nat, nat, unit) can_fw)) =
    \<lparr>md_image = [5], md_boot = []\<rparr>"
proof -
  let ?c = "\<lparr>can_id = 0x101, can_dlc = 8, can_data = le32_bytes 1 @ le32_bytes 1\<rparr>"
  have c: "is_confirm_frame ?c" by (simp add: is_confirm_frame_def can_const_defs data_32_def)
  show ?thesis
    by (subst can_flash_untouched [OF c])
      (simp_all add: is_start_frame_def can_const_defs can_fw_step_confirm [OF c] confirm_update_def can_fw_boot_def)
qed

text \<open>
  a start command while an upload is under way is acknowledged with offset 0 but does not
  restart the byte count: the host that then sends the whole image again, of the size it announced,
  is refused at the confirm, and its bytes were appended to the earlier ones.
\<close>

theorem can_restart_refused:
  assumes "dfu_stream_ok api img" and "dfu_reliable api" and "fw_img_initialized s" and "fw_written s \<noteq> 0"
    and "key_admits cfg s" and "is_start_frame f" and "dlc_to_bytes bo (can_dlc f) = 8"
    and "list_all (data_frame bo) fs" and "of_nat (total_len bo fs) = data_32 f 1" and "is_confirm_frame c"
  shows "let s0 = can_fw_step bo api cfg invoke f s;
             s1 = run_events (can_fw_step bo api cfg invoke) fs s0 in
    last_reply s0 FW_CODE_OFFSET 0 \<and>
    img (can_flash s1) = img (can_flash s) @ concat (map (payload bo) fs) \<and>
    last_reply (can_fw_step bo api cfg invoke c s1) FW_CODE_TRANFER_ERROR 0"
proof -
  let ?s0 = "start_update bo api cfg f s"
  let ?s1 = "run_events (can_fw_step bo api cfg invoke) fs ?s0"
  from start_update_again [OF assms(3,7,5), of api]
  have 0: "fw_img_initialized ?s0" "can_flash ?s0 = can_flash s" "fw_written ?s0 = fw_written s"
    "fw_total_size ?s0 = data_32 f 1" "last_reply ?s0 FW_CODE_OFFSET 0"
    by (simp_all add: Let_def)
  from data_run [OF assms(1,2,8) 0(1), of cfg invoke] 0 assms(9)
  have 1: "img (can_flash ?s1) = img (can_flash s) @ concat (map (payload bo) fs)"
    "fw_written ?s1 = fw_written s + fw_total_size ?s1"
    by (simp_all add: Let_def)
  from 1(2) assms(4) have "fw_written ?s1 \<noteq> fw_total_size ?s1" by simp
  then show ?thesis
    using 0 1 confirm_update_short [of ?s1 bo api c]
    by (simp add: Let_def can_fw_step_start [OF assms(6)] can_fw_step_confirm [OF assms(10)])
qed

theorem can_restart_refused_witness:
  "last_reply (run_events (can_fw_step std_byteorder mem_dfu
        \<lparr>fw_keyhash = None, app_version = (0, 1, 0), fw_git_version = ''6e199a'', past_ver = []\<rparr> (\<lambda>_ _ _ a. (False, a)))
      [\<lparr>can_id = 0x101, can_dlc = 8, can_data = le32_bytes 0 @ le32_bytes 2\<rparr>,
       \<lparr>can_id = 0x103, can_dlc = 2, can_data = [9, 10, 0, 0, 0, 0, 0, 0]\<rparr>,
       \<lparr>can_id = 0x101, can_dlc = 8, can_data = le32_bytes 1 @ le32_bytes 1\<rparr>]
      (can_fw_boot 2 \<lparr>md_image = [5], md_boot = []\<rparr> ()
         \<lparr>fw_img_initialized := True, fw_written := 1, fw_total_size := 2\<rparr> :: (mem_dev, nat, nat, unit) can_fw))
    FW_CODE_TRANFER_ERROR 0"
proof -
  let ?cfg = "\<lparr>fw_keyhash = None, app_version = (0, 1, 0), fw_git_version = ''6e199a'', past_ver = []\<rparr>"
  let ?s = "can_fw_boot 2 \<lparr>md_image = [5], md_boot = []\<rparr> ()
    \<lparr>fw_img_initialized := True, fw_written := 1, fw_total_size := 2\<rparr> :: (mem_dev, nat, nat, unit) can_fw"
  let ?f = "\<lparr>can_id = 0x101, can_dlc = 8, can_data = le32_bytes 0 @ le32_bytes 2\<rparr>"
  let ?c = "\<lparr>can_id = 0x101, can_dlc = 8, can_data = le32_bytes 1 @ le32_bytes 1\<rparr>"
  let ?fs = "[\<lparr>can_id = 0x103, can_dlc = 2, can_data = [9, 10, 0, 0, 0, 0, 0, 0]\<rparr>]"
  have f: "is_start_frame ?f" "dlc_to_bytes std_byteorder (can_dlc ?f) = 8" "data_32 ?f (Suc 0) = 2"
    by (simp_all add: is_start_frame_def can_const_defs data_32_def)
  have c: "is_confirm_frame ?c" by (simp add: is_confirm_frame_def can_const_defs data_32_def)
  have fs: "list_all (data_frame std_byteorder) ?fs" "of_nat (total_len std_byteorder ?fs) = data_32 ?f 1"
    by (simp_all add: data_frame_def frame_wf_def can_const_defs total_len_def payload_def f(3))
  have s: "fw_img_initialized ?s" "fw_written ?s \<noteq> 0" "key_admits ?cfg ?s"
    by (simp_all add: can_fw_boot_def key_admits_def)
  show ?thesis
    using can_restart_refused [OF mem_dfu_ok mem_dfu_reliable s f(1,2) fs c, of "\<lambda>_ _ _ a. (False, a)"]
    by (simp add: Let_def)
qed

end
