(* ===== verification/Udp_Fw.thy ===== *)
theory Udp_Fw
  imports Handler_Registry Upgrade_Session
begin

text \<open>
  \<open>libs/udp_fw_upgrade/udp_fw_upgrade.c\<close>: the firmware upgrade over the UDP configuration port.
  The static variables are the record \<open>udp_fw\<close>; \<open>udp_out\<close> records the datagrams handed to sendto,
  with their destinations, and \<open>udp_rebooted\<close> a call of sys_reboot.  What the network stack
  answers about the local interface is the argument \<open>net\<close> of each turn of the receive thread; the
  flash calls and the CRC routine of Zephyr are parameters.  Ports are kept as numbers, not in
  network byte order.
\<close>

section \<open>Constants and configuration\<close>

definition UFW_CMD_START :: u8 where "UFW_CMD_START = 1"
definition UFW_CMD_DATA :: u8 where "UFW_CMD_DATA = 2"
definition UFW_CMD_END :: u8 where "UFW_CMD_END = 3"
definition UFW_CMD_GET_VERSION :: u8 where "UFW_CMD_GET_VERSION = 4"
definition UFW_CMD_REBOOT :: u8 where "UFW_CMD_REBOOT = 5"

definition FW_START_ERR_FAIL :: u8 where "FW_START_ERR_FAIL = 0"
definition FW_START_OK :: u8 where "FW_START_OK = 1"
definition FW_START_ERR_KEYHASH :: u8 where "FW_START_ERR_KEYHASH = 2"

definition FW_CRC_CHUNK :: nat where "FW_CRC_CHUNK = 64"

named_theorems udp_consts \<open>command codes and status bytes\<close>

lemmas udp_const_defs [udp_consts] =
  UFW_CMD_START_def UFW_CMD_DATA_def UFW_CMD_END_def UFW_CMD_GET_VERSION_def UFW_CMD_REBOOT_def
  FW_START_ERR_FAIL_def FW_START_OK_def FW_START_ERR_KEYHASH_def

record sockaddr =
  sin_addr :: u32
  sin_port :: u16

definition INADDR_BROADCAST :: u32 where "INADDR_BROADCAST = 0xFFFFFFFF"

text \<open>The default interface (is there one), its preferred global IPv4 address and the netmask of it.\<close>

record net_view =
  has_iface :: bool
  local_addr :: "u32 option"
  netmask :: u32

record udp_fw_cfg =
  udp_keyhash :: "bytes option"
  udp_version :: "nat \<times> nat \<times> nat"
  udp_git_version :: string
  udp_past_ver :: bytes
  config_port :: u16
  bcast_restrict :: bool
  max_bcast_cmds :: nat

section \<open>State\<close>

record ('d, 'c, 'u, 'a) udp_fw =
  udp_handlers :: "('c, 'u) slot list"
  config_sock :: int
  config_remote_addr :: sockaddr
  bcast_allowed_cmds :: bytes
  bcast_allowed_cnt :: nat
  udp_flash :: 'd
  fw_started :: bool
  fw_size :: u32
  fw_received :: u32
  udp_fw_started :: bool
  udp_out :: "(sockaddr \<times> bytes) list"
  udp_rebooted :: bool
  udp_app :: 'a

section \<open>Broadcast allowlist, subnet test, replies\<close>

definition bcast_cmd_allowed :: "u8 \<Rightarrow> ('d, 'c, 'u, 'a) udp_fw \<Rightarrow> bool" where
  "bcast_cmd_allowed cmd s = list_ex (\<lambda>i. bcast_allowed_cmds s ! i = cmd) [0..<bcast_allowed_cnt s]"

definition udp_fw_allow_broadcast_cmd :: "udp_fw_cfg \<Rightarrow> u8 \<Rightarrow>
    ('d, 'c, 'u, 'a) udp_fw \<Rightarrow> ('d, 'c, 'u, 'a) udp_fw" where
  "udp_fw_allow_broadcast_cmd cfg cmd s =
     (if \<not> bcast_restrict cfg then s
      else if list_ex (\<lambda>i. bcast_allowed_cmds s ! i = cmd) [0..<bcast_allowed_cnt s] then s
      else if bcast_allowed_cnt s < max_bcast_cmds cfg
      then s\<lparr>bcast_allowed_cmds := (bcast_allowed_cmds s)[bcast_allowed_cnt s := cmd],
             bcast_allowed_cnt := bcast_allowed_cnt s + 1\<rparr>
      else s)"

definition is_same_subnet :: "net_view \<Rightarrow> u32 \<Rightarrow> bool" where
  "is_same_subnet net sender_ip =
     (if \<not> has_iface net then True
      else case local_addr net of
             None \<Rightarrow> True
           | Some local_ip \<Rightarrow> sender_ip AND netmask net = local_ip AND netmask net)"

text \<open>\<open>data\<close> is the memory from the caller's pointer on.\<close>

definition udp_fw_reply :: "udp_fw_cfg \<Rightarrow> net_view \<Rightarrow> u8 \<Rightarrow> bytes \<Rightarrow> u8 \<Rightarrow>
    ('d, 'c, 'u, 'a) udp_fw \<Rightarrow> ('d, 'c, 'u, 'a) udp_fw" where
  "udp_fw_reply cfg net cmd data len s =
     (if config_sock s < 0 then s
      else
        let buf = (replicate 64 0)[0 := cmd];
            fits = (len > 0 \<and> unat len \<le> 64 - 1);
            buf = (if fits then mem_put 1 (take (unat len) data) buf else buf);
            send_len = (if fits then 1 + unat len else 1);
            dst = (if is_same_subnet net (sin_addr (config_remote_addr s))
                   then config_remote_addr s
                   else \<lparr>sin_addr = INADDR_BROADCAST, sin_port = config_port cfg + 1\<rparr>)
        in s\<lparr>udp_out := udp_out s @ [(dst, take send_len buf)]\<rparr>)"

section \<open>CRC of the written image\<close>

text \<open>The read-back loop of fw_verify_crc; \<open>None\<close> when a read fails.\<close>

function crc_loop :: "'d dfu_api \<Rightarrow> (u16 \<Rightarrow> bytes \<Rightarrow> u16) \<Rightarrow> nat \<Rightarrow> nat \<Rightarrow> u16 \<Rightarrow> 'd \<Rightarrow> u16 option \<times> 'd" where
  "crc_loop api crc written off calc_crc d =
     (if off < written then
        let len = (if written - off < FW_CRC_CHUNK then written - off else FW_CRC_CHUNK)
        in case area_read api off len d of ((err, buf), d) \<Rightarrow>
             if err \<noteq> 0 then (None, d)
             else crc_loop api crc written (off + FW_CRC_CHUNK) (crc calc_crc buf) d
      else (Some calc_crc, d))"
  by pat_completeness auto
termination
  by (relation "measure (\<lambda>(api, crc, written, off, c, d). written - off)") (auto simp: FW_CRC_CHUNK_def)

declare crc_loop.simps [simp del]

definition fw_verify_crc :: "'d dfu_api \<Rightarrow> (u16 \<Rightarrow> bytes \<Rightarrow> u16) \<Rightarrow> u16 \<Rightarrow> 'd \<Rightarrow> bool \<times> 'd" where
  "fw_verify_crc api crc recv_crc d =
     (case area_open api d of (err, d) \<Rightarrow>
        if err \<noteq> 0 then (False, d)
        else case crc_loop api crc (img_written api d) 0 0 d of
               (None, d) \<Rightarrow> (False, d)
             | (Some calc_crc, d) \<Rightarrow> (calc_crc = recv_crc, d))"

section \<open>Firmware commands\<close>

definition build_version_string :: "udp_fw_cfg \<Rightarrow> string" where
  "build_version_string cfg =
     (case udp_version cfg of (major, minor, patch) \<Rightarrow>
        ''v'' @ dec_string major @ ''.'' @ dec_string minor @ ''.'' @ dec_string patch @ ''_'' @
        udp_git_version cfg)"

definition fw_start_cmd :: "byteorder \<Rightarrow> 'd dfu_api \<Rightarrow> udp_fw_cfg \<Rightarrow> net_view \<Rightarrow> u8 \<Rightarrow> bytes \<Rightarrow>
    ('d, 'c, 'u, 'a) udp_fw \<Rightarrow> ('d, 'c, 'u, 'a) udp_fw" where
  "fw_start_cmd bo api cfg net cmd data s =
     (let reply = (\<lambda>status s. udp_fw_reply cfg net cmd [status] 1 s)
      in if \<not> fw_started s \<and> length data \<ge> 4 then
           let s = s\<lparr>fw_size := get_le32 bo data\<rparr>;
               mismatch = (case udp_keyhash cfg of None \<Rightarrow> False
                           | Some h \<Rightarrow> length data = 4 + 32 \<and> take 32 (drop 4 data) \<noteq> h)
           in if mismatch then reply FW_START_ERR_KEYHASH s
              else
                case area_open api (udp_flash s) of (err, d) \<Rightarrow>
                  if err \<noteq> 0 then reply FW_START_ERR_FAIL (s\<lparr>udp_flash := d\<rparr>)
                  else
                    case img_init api (snd (area_erase api d)) of (err, d) \<Rightarrow>
                      if err \<noteq> 0 then reply FW_START_ERR_FAIL (s\<lparr>udp_flash := d\<rparr>)
                      else reply FW_START_OK
                             (s\<lparr>udp_flash := d, fw_started := True, fw_received := 0\<rparr>)
         else reply FW_START_ERR_FAIL s)"

definition fw_data_cmd :: "byteorder \<Rightarrow> 'd dfu_api \<Rightarrow> udp_fw_cfg \<Rightarrow> net_view \<Rightarrow> u8 \<Rightarrow> bytes \<Rightarrow>
    ('d, 'c, 'u, 'a) udp_fw \<Rightarrow> ('d, 'c, 'u, 'a) udp_fw" where
  "fw_data_cmd bo api cfg net cmd data s =
     (let reply = (\<lambda>off s. udp_fw_reply cfg net cmd off 4 s)
      in if fw_started s \<and> length data > 0 then
           case img_write api data False (udp_flash s) of (err, d) \<Rightarrow>
             if err = 0 then
               let s = s\<lparr>udp_flash := d, fw_received := fw_received s + of_nat (length data)\<rparr>
               in reply (put_le32 bo (fw_received s)) s
             else reply [0, 0, 0, 0] (s\<lparr>udp_flash := d, fw_started := False\<rparr>)
         else reply [0, 0, 0, 0] s)"

definition fw_end_cmd :: "byteorder \<Rightarrow> 'd dfu_api \<Rightarrow> (u16 \<Rightarrow> bytes \<Rightarrow> u16) \<Rightarrow> udp_fw_cfg \<Rightarrow> net_view \<Rightarrow>
    u8 \<Rightarrow> bytes \<Rightarrow> ('d, 'c, 'u, 'a) udp_fw \<Rightarrow> ('d, 'c, 'u, 'a) udp_fw" where
  "fw_end_cmd bo api crc cfg net cmd data s =
     (let reply = (\<lambda>result s. udp_fw_reply cfg net cmd [result] 1 s)
      in if fw_started s \<and> length data \<ge> 3 then
           let test_mode = data ! 0;
               recv_crc = get_le16 bo (drop 1 data);
               d = snd (img_write api [] True (udp_flash s))
           in case fw_verify_crc api crc recv_crc d of (good, d) \<Rightarrow>
                if good then
                  case boot_request api (if test_mode \<noteq> 0 then 0 else 1) d of (ret, d) \<Rightarrow>
                    reply (if ret = 0 then 1 else 0) (s\<lparr>udp_flash := d, fw_started := False\<rparr>)
                else reply 0 (s\<lparr>udp_flash := d, fw_started := False\<rparr>)
         else reply 0 s)"

definition handle_fw_cmd :: "byteorder \<Rightarrow> 'd dfu_api \<Rightarrow> (u16 \<Rightarrow> bytes \<Rightarrow> u16) \<Rightarrow> udp_fw_cfg \<Rightarrow> net_view \<Rightarrow>
    u8 \<Rightarrow> bytes \<Rightarrow> ('d, 'c, 'u, 'a) udp_fw \<Rightarrow> bool \<times> ('d, 'c, 'u, 'a) udp_fw" where
  "handle_fw_cmd bo api crc cfg net cmd data s =
     (if cmd = UFW_CMD_START then (True, fw_start_cmd bo api cfg net cmd data s)
      else if cmd = UFW_CMD_DATA then (True, fw_data_cmd bo api cfg net cmd data s)
      else if cmd = UFW_CMD_END then (True, fw_end_cmd bo api crc cfg net cmd data s)
      else if cmd = UFW_CMD_GET_VERSION then
        let text = build_version_string cfg;
            ver = snprintf_buf 24 text;
            vlen = length text
        in (True, udp_fw_reply cfg net cmd (ver @ udp_past_ver cfg) (of_nat vlen) s)
      else if cmd = UFW_CMD_REBOOT then (True, (udp_fw_reply cfg net cmd [] 0 s)\<lparr>udp_rebooted := True\<rparr>)
      else (False, s))"

section \<open>The receive thread\<close>

text \<open>
  A datagram with its source address.  An application callback answers whether it handled the
  command; the replies it sends through udp_fw_reply are collected beside its own state.
\<close>

record datagram =
  dg_src :: sockaddr
  dg_bytes :: bytes

definition send_replies :: "udp_fw_cfg \<Rightarrow> net_view \<Rightarrow> (u8 \<times> bytes \<times> u8) list \<Rightarrow>
    ('d, 'c, 'u, 'a) udp_fw \<Rightarrow> ('d, 'c, 'u, 'a) udp_fw" where
  "send_replies cfg net rs s = fold (\<lambda>(cmd, data, len). udp_fw_reply cfg net cmd data len) rs s"

definition udp_fw_rx :: "byteorder \<Rightarrow> 'd dfu_api \<Rightarrow> (u16 \<Rightarrow> bytes \<Rightarrow> u16) \<Rightarrow> udp_fw_cfg \<Rightarrow>
    ('c \<Rightarrow> u8 \<times> bytes \<Rightarrow> 'u option \<Rightarrow> 'a \<times> (u8 \<times> bytes \<times> u8) list \<Rightarrow>
      bool \<times> 'a \<times> (u8 \<times> bytes \<times> u8) list) \<Rightarrow>
    net_view \<times> datagram \<Rightarrow> ('d, 'c, 'u, 'a) udp_fw \<Rightarrow> ('d, 'c, 'u, 'a) udp_fw" where
  "udp_fw_rx bo api crc cfg invoke = (\<lambda>(net, dg) s.
     case dg_bytes dg of
       [] \<Rightarrow> s
     | cmd # data \<Rightarrow>
         let s = s\<lparr>config_remote_addr := dg_src dg\<rparr>
         in if bcast_restrict cfg \<and> \<not> is_same_subnet net (sin_addr (dg_src dg)) \<and> \<not> bcast_cmd_allowed cmd s
            then s
            else
              case handle_fw_cmd bo api crc cfg net cmd data s of
                (True, s) \<Rightarrow> s
              | (False, s) \<Rightarrow>
                  (case broadcast invoke (udp_handlers s) (cmd, data) False (udp_app s, []) of
                     (handled, a, replies) \<Rightarrow> send_replies cfg net replies (s\<lparr>udp_app := a\<rparr>)))"

section \<open>Start-up and registration\<close>

text \<open>socket() and bind() answer \<open>sock\<close> and \<open>bound\<close>; a closed socket is -1 again.\<close>

definition udp_fw_start :: "int \<Rightarrow> int \<Rightarrow> ('d, 'c, 'u, 'a) udp_fw \<Rightarrow> ('d, 'c, 'u, 'a) udp_fw" where
  "udp_fw_start sock bound s =
     (if udp_fw_started s then s
      else if sock < 0 then s\<lparr>config_sock := sock\<rparr>
      else if bound < 0 then s\<lparr>config_sock := -1\<rparr>
      else s\<lparr>config_sock := sock, udp_fw_started := True\<rparr>)"

text \<open>The network-event callback, and the initialisation that installs it if the interface is not up yet.\<close>

definition if_up_handler :: "bool \<Rightarrow> int \<Rightarrow> int \<Rightarrow> ('d, 'c, 'u, 'a) udp_fw \<Rightarrow> ('d, 'c, 'u, 'a) udp_fw" where
  "if_up_handler event_is_if_up sock bound s = (if event_is_if_up then udp_fw_start sock bound s else s)"

definition udp_fw_init :: "bool \<Rightarrow> int \<Rightarrow> int \<Rightarrow> ('d, 'c, 'u, 'a) udp_fw \<Rightarrow> bool \<times> ('d, 'c, 'u, 'a) udp_fw" where
  "udp_fw_init oper_up sock bound s =
     (if oper_up then (False, udp_fw_start sock bound s) else (True, s))"

definition udp_fw_set_app_handler :: "'c option \<Rightarrow> 'u option \<Rightarrow>
    ('d, 'c, 'u, 'a) udp_fw \<Rightarrow> ('d, 'c, 'u, 'a) udp_fw" where
  "udp_fw_set_app_handler c u s =
     (case c of None \<Rightarrow> s
      | Some f \<Rightarrow>
          (case store_handler f u (udp_handlers s) of
             Some xs \<Rightarrow> s\<lparr>udp_handlers := xs\<rparr>
           | None \<Rightarrow> s))"

definition udp_fw_remove_handler :: "'c option \<Rightarrow>
    ('d, 'c, 'u, 'a) udp_fw \<Rightarrow> int \<times> ('d, 'c, 'u, 'a) udp_fw" where
  "udp_fw_remove_handler c s =
     (case clear_handler c (udp_handlers s) of
        Some xs \<Rightarrow> (0, s\<lparr>udp_handlers := xs\<rparr>)
      | None \<Rightarrow> (- 2, s))"

definition udp_fw_boot :: "nat \<Rightarrow> nat \<Rightarrow> 'd \<Rightarrow> 'a \<Rightarrow> ('d, 'c, 'u, 'a) udp_fw" where
  "udp_fw_boot n_handlers n_bcast d a = \<lparr>udp_handlers = replicate n_handlers free_slot, config_sock = -1,
     config_remote_addr = \<lparr>sin_addr = 0, sin_port = 0\<rparr>, bcast_allowed_cmds = replicate n_bcast 0,
     bcast_allowed_cnt = 0, udp_flash = d, fw_started = False, fw_size = 0, fw_received = 0,
     udp_fw_started = False, udp_out = [], udp_rebooted = False, udp_app = a\<rparr>"

interpretation udp_registry: handler_registry udp_handlers
  "\<lambda>c u s. udp_fw_set_app_handler (Some c) u s"
  "\<lambda>c s. snd (udp_fw_remove_handler (Some c) s)"
  by unfold_locales
    (auto simp: udp_fw_set_app_handler_def udp_fw_remove_handler_def split: option.splits)

end
