(* ===== verification/Udp_Fw_Props.thy ===== *)
theory Udp_Fw_Props
  imports Udp_Fw
begin

text \<open>
  Correctness of the UDP upgrade library: replies fit their buffer and go where the subnet test
  says, the chunked read-back computes the CRC of the whole image, foreign subnets reach only the
  commands on the allowlist, the session contract of theory Upgrade_Session holds, and an upload
  is activated exactly when the CRC agrees.
\<close>

section \<open>Replies\<close>

lemma udp_fw_reply_frame [simp]:
  "udp_flash (udp_fw_reply cfg net cmd data len s) = udp_flash s"
  "fw_started (udp_fw_reply cfg net cmd data len s) = fw_started s"
  "fw_received (udp_fw_reply cfg net cmd data len s) = fw_received s"
  "fw_size (udp_fw_reply cfg net cmd data len s) = fw_size s"
  "config_sock (udp_fw_reply cfg net cmd data len s) = config_sock s"
  "config_remote_addr (udp_fw_reply cfg net cmd data len s) = config_remote_addr s"
  "bcast_allowed_cmds (udp_fw_reply cfg net cmd data len s) = bcast_allowed_cmds s"
  "bcast_allowed_cnt (udp_fw_reply cfg net cmd data len s) = bcast_allowed_cnt s"
  "udp_handlers (udp_fw_reply cfg net cmd data len s) = udp_handlers s"
  "udp_app (udp_fw_reply cfg net cmd data len s) = udp_app s"
  by (simp_all add: udp_fw_reply_def Let_def)

definition reply_dst :: "udp_fw_cfg \<Rightarrow> net_view \<Rightarrow> sockaddr \<Rightarrow> sockaddr" where
  "reply_dst cfg net remote =
     (if is_same_subnet net (sin_addr remote) then remote
      else \<lparr>sin_addr = INADDR_BROADCAST, sin_port = config_port cfg + 1\<rparr>)"

lemma take_reply_buf:
  "length d = n \<Longrightarrow> take (Suc n) (mem_put (Suc 0) d ((replicate 64 0)[0 := cmd])) = cmd # d"
  by (simp add: mem_put_def numeral_eq_Suc)

lemma udp_fw_reply_out:
  assumes "0 \<le> config_sock s" and "unat len \<le> length data" and "unat len \<le> 63"
  shows "udp_out (udp_fw_reply cfg net cmd data len s) =
    udp_out s @ [(reply_dst cfg net (config_remote_addr s), cmd # take (unat len) data)]"
proof (cases "len = 0")
  case True
  then show ?thesis using assms by (auto simp: udp_fw_reply_def Let_def reply_dst_def numeral_eq_Suc)
next
  case False
  then have "len > 0" by (simp add: word_neq_0_conv)
  moreover have "take (Suc (unat len)) (mem_put (Suc 0) (take (unat len) data) ((replicate 64 0)[0 := cmd]))
      = cmd # take (unat len) data"
    using assms(2) by (intro take_reply_buf) simp
  ultimately show ?thesis
    using assms by (simp add: udp_fw_reply_def Let_def reply_dst_def)
qed

lemma reply_1:
  "0 \<le> config_sock s \<Longrightarrow> udp_out (udp_fw_reply cfg net cmd [x] 1 s) =
    udp_out s @ [(reply_dst cfg net (config_remote_addr s), [cmd, x])]"
  by (subst udp_fw_reply_out) auto

lemma send_replies_flash [simp]:
  "udp_flash (send_replies cfg net rs s) = udp_flash s"
  "fw_started (send_replies cfg net rs s) = fw_started s"
  by (induction rs arbitrary: s) (auto simp: send_replies_def)

section \<open>The read-back loop\<close>

text \<open>What the code relies on: reads return the written image's bytes, and the CRC routine can be continued.\<close>

definition flash_reads :: "'d dfu_api \<Rightarrow> 'd \<Rightarrow> bytes \<Rightarrow> bool" where
  "flash_reads api d im \<longleftrightarrow>
     area_open api d = (0, d) \<and> img_written api d = length im \<and>
     (\<forall>k n. k + n \<le> length im \<longrightarrow> area_read api k n d = ((0, take n (drop k im)), d))"

definition crc_continues :: "(u16 \<Rightarrow> bytes \<Rightarrow> u16) \<Rightarrow> bool" where
  "crc_continues crc \<longleftrightarrow> (\<forall>c xs ys. crc (crc c xs) ys = crc c (xs @ ys)) \<and> (\<forall>c. crc c [] = c)"

lemma crc_loop_eq:
  assumes "flash_reads api d im" and "crc_continues crc"
  shows "c = crc 0 (take off im) \<Longrightarrow> crc_loop api crc (length im) off c d = (Some (crc 0 im), d)"
proof (induction "length im - off" arbitrary: off c rule: less_induct)
  case less
  show ?case
  proof (cases "off < length im")
    case False
    then show ?thesis using less.prems by (subst crc_loop.simps) simp
  next
    case True
    define len where "len = (if length im - off < FW_CRC_CHUNK then length im - off else FW_CRC_CHUNK)"
    have fit: "off + len \<le> length im" using True by (auto simp: len_def)
    have rd: "area_read api off len d = ((0, take len (drop off im)), d)"
      using assms(1) fit by (simp add: flash_reads_def)
    have unf: "crc_loop api crc (length im) off c d =
        crc_loop api crc (length im) (off + FW_CRC_CHUNK) (crc c (take len (drop off im))) d"
      using True rd by (subst crc_loop.simps) (simp add: Let_def flip: len_def)
    have "take off im @ take len (drop off im) = take (off + FW_CRC_CHUNK) im"
      by (auto simp: len_def take_add [symmetric])
    then have "crc c (take len (drop off im)) = crc 0 (take (off + FW_CRC_CHUNK) im)"
      using assms(2) less.prems by (simp add: crc_continues_def)
    then show ?thesis
      unfolding unf using True by (intro less.hyps) (auto simp: FW_CRC_CHUNK_def)
  qed
qed

lemma fw_verify_crc_eq:
  assumes "flash_reads api d im" and "crc_continues crc"
  shows "fw_verify_crc api crc recv d = (crc 0 im = recv, d)"
  using assms crc_loop_eq [OF assms, of 0 0]
  by (simp add: fw_verify_crc_def flash_reads_def crc_continues_def)

section \<open>Sessions\<close>

definition udp_cmd :: "net_view \<times> datagram \<Rightarrow> u8 \<Rightarrow> bool" where
  "udp_cmd e c \<longleftrightarrow> dg_bytes (snd e) \<noteq> [] \<and> hd (dg_bytes (snd e)) = c"

definition is_start_dg :: "net_view \<times> datagram \<Rightarrow> bool" where
  "is_start_dg e \<longleftrightarrow> udp_cmd e UFW_CMD_START"

text \<open>An END that the library acts on: from the own subnet, with the test flag and the CRC.\<close>

definition is_end_dg :: "net_view \<times> datagram \<Rightarrow> bool" where
  "is_end_dg e \<longleftrightarrow> udp_cmd e UFW_CMD_END \<and> length (dg_bytes (snd e)) \<ge> 4 \<and>
     is_same_subnet (fst e) (sin_addr (dg_src (snd e)))"

lemma fw_end_cmd_ends:
  assumes "length data \<ge> 3"
  shows "\<not> fw_started (fw_end_cmd bo api crc cfg net cmd data s)"
  using assms by (simp add: fw_end_cmd_def Let_def split: prod.split)

lemma handle_fw_cmd_idle:
  assumes "\<not> fw_started s" and "cmd \<noteq> UFW_CMD_START"
  shows "udp_flash (snd (handle_fw_cmd bo api crc cfg net cmd data s)) = udp_flash s \<and>
    \<not> fw_started (snd (handle_fw_cmd bo api crc cfg net cmd data s))"
  using assms by (simp add: handle_fw_cmd_def fw_data_cmd_def fw_end_cmd_def Let_def)

lemma udp_fw_rx_same:
  assumes "dg_bytes dg = cmd # data" and "is_same_subnet net (sin_addr (dg_src dg))"
    and "cmd \<in> {UFW_CMD_START, UFW_CMD_DATA, UFW_CMD_END}"
  shows "udp_fw_rx bo api crc cfg invoke (net, dg) s =
    snd (handle_fw_cmd bo api crc cfg net cmd data (s\<lparr>config_remote_addr := dg_src dg\<rparr>))"
  using assms by (auto simp: udp_fw_rx_def Let_def handle_fw_cmd_def)

interpretation udp_session: upgrade_session "udp_fw_rx bo api crc cfg invoke"
  fw_started udp_flash is_start_dg is_end_dg
  for bo api crc cfg invoke
proof
  fix s :: "('a, 'b, 'c, 'd) udp_fw" and e
  assume idle: "\<not> fw_started s" and e: "\<not> is_start_dg e"
  let ?s = "s\<lparr>config_remote_addr := dg_src (snd e)\<rparr>"
  have "udp_flash (udp_fw_rx bo api crc cfg invoke e s) = udp_flash s \<and>
    \<not> fw_started (udp_fw_rx bo api crc cfg invoke e s)"
    using handle_fw_cmd_idle [of ?s "hd (dg_bytes (snd e))" bo api crc cfg "fst e" "tl (dg_bytes (snd e))"] idle e
    by (auto simp: udp_fw_rx_def is_start_dg_def udp_cmd_def Let_def
        split: prod.split list.split bool.split)
  then show "udp_flash (udp_fw_rx bo api crc cfg invoke e s) = udp_flash s"
    "\<not> fw_started (udp_fw_rx bo api crc cfg invoke e s)" by simp_all
next
  fix s :: "('a, 'b, 'c, 'd) udp_fw" and e :: "net_view \<times> datagram"
  assume "is_end_dg e"
  then obtain net dg data where e: "e = (net, dg)" "dg_bytes dg = UFW_CMD_END # data" "length data \<ge> 3"
    "is_same_subnet net (sin_addr (dg_src dg))"
    by (cases e; cases "dg_bytes (snd e)") (auto simp: is_end_dg_def udp_cmd_def)
  then show "\<not> fw_started (udp_fw_rx bo api crc cfg invoke e s)"
    using fw_end_cmd_ends [OF e(3)]
    by (simp add: udp_fw_rx_same handle_fw_cmd_def udp_const_defs)
qed

section \<open>Uploads\<close>

lemma fw_start_cmd_ok:
  assumes "dfu_stream_ok api img" and "dfu_reliable api" and "\<not> fw_started s" and "length data \<ge> 4"
    and "length data = 36 \<longrightarrow> udp_keyhash cfg = None \<or> udp_keyhash cfg = Some (drop 4 data)"
    and "0 \<le> config_sock s"
  shows "let s' = fw_start_cmd bo api cfg net UFW_CMD_START data s in fw_started s' \<and>
    img (udp_flash s') = [] \<and> fw_received s' = 0 \<and> config_sock s' = config_sock s \<and>
    udp_out s' = udp_out s @
      [(reply_dst cfg net (config_remote_addr s), [UFW_CMD_START, FW_START_OK])]"
proof -
  obtain d where o: "area_open api (udp_flash s) = (0, d)"
    using assms(2) by (metis dfu_reliable_def prod.collapse)
  obtain d' where i: "img_init api (snd (area_erase api d)) = (0, d')"
    using assms(2) by (metis dfu_reliable_def prod.collapse)
  have "img d' = []" using assms(1) i unfolding dfu_stream_ok_def by (metis fst_conv snd_conv)
  moreover have "\<not> (case udp_keyhash cfg of None \<Rightarrow> False
      | Some h \<Rightarrow> length data = 4 + 32 \<and> take 32 (drop 4 data) \<noteq> h)"
    using assms(5) by (auto split: option.splits)
  ultimately show ?thesis
    using assms(3,4,6) o i by (simp add: fw_start_cmd_def Let_def reply_1)
qed

lemma fw_start_cmd_wrong_key:
  assumes "\<not> fw_started s" and "length data = 36" and "udp_keyhash cfg = Some h" and "h \<noteq> drop 4 data"
    and "0 \<le> config_sock s"
  shows "let s' = fw_start_cmd bo api cfg net UFW_CMD_START data s in \<not> fw_started s' \<and>
    udp_flash s' = udp_flash s \<and> udp_out s' = udp_out s @
      [(reply_dst cfg net (config_remote_addr s), [UFW_CMD_START, FW_START_ERR_KEYHASH])]"
  using assms by (auto simp: fw_start_cmd_def Let_def reply_1)

lemma fw_data_cmd_ok:
  assumes "dfu_stream_ok api img" and "dfu_reliable api" and "byteorder_ok bo" and "fw_started s" and "p \<noteq> []"
    and "0 \<le> config_sock s"
  shows "let s' = fw_data_cmd bo api cfg net UFW_CMD_DATA p s in fw_started s' \<and>
    img (udp_flash s') = img (udp_flash s) @ p \<and> fw_received s' = fw_received s + of_nat (length p) \<and>
    config_sock s' = config_sock s \<and>
    udp_out s' = udp_out s @ [(reply_dst cfg net (config_remote_addr s),
      UFW_CMD_DATA # put_le32 bo (fw_received s + of_nat (length p)))]"
proof -
  obtain d where w: "img_write api p False (udp_flash s) = (0, d)"
    using assms(2) by (metis dfu_reliable_def prod.collapse)
  moreover have "img d = img (udp_flash s) @ p"
    using assms(1) w unfolding dfu_stream_ok_def by (metis fst_conv snd_conv)
  ultimately show ?thesis
    using assms(4-6) byteorder_okD(1) [OF assms(3)]
    by (simp add: fw_data_cmd_def Let_def udp_fw_reply_out)
qed

text \<open>The offsets acknowledged while the pieces \<open>ps\<close> arrive.\<close>

fun offset_replies :: "byteorder \<Rightarrow> sockaddr \<Rightarrow> u32 \<Rightarrow> bytes list \<Rightarrow> (sockaddr \<times> bytes) list" where
  "offset_replies bo dst n [] = []"
| "offset_replies bo dst n (p # ps) =
     (dst, UFW_CMD_DATA # put_le32 bo (n + of_nat (length p))) #
     offset_replies bo dst (n + of_nat (length p)) ps"

definition cmd_from :: "net_view \<Rightarrow> sockaddr \<Rightarrow> u8 \<Rightarrow> bytes \<Rightarrow> net_view \<times> datagram" where
  "cmd_from net src cmd data = (net, \<lparr>dg_src = src, dg_bytes = cmd # data\<rparr>)"

lemma udp_fw_rx_cmd:
  assumes "is_same_subnet net (sin_addr src)" and "cmd \<in> {UFW_CMD_START, UFW_CMD_DATA, UFW_CMD_END}"
  shows "udp_fw_rx bo api crc cfg invoke (cmd_from net src cmd data) s =
    snd (handle_fw_cmd bo api crc cfg net cmd data (s\<lparr>config_remote_addr := src\<rparr>))"
  unfolding cmd_from_def by (subst udp_fw_rx_same) (use assms in auto)

lemma udp_data_run:
  assumes "dfu_stream_ok api img" and "dfu_reliable api" and "byteorder_ok bo"
    and "is_same_subnet net (sin_addr src)"
  shows "[] \<notin> set ps \<Longrightarrow> fw_started s \<Longrightarrow> 0 \<le> config_sock s \<Longrightarrow>
    (let s' = run_events (udp_fw_rx bo api crc cfg invoke) (map (cmd_from net src UFW_CMD_DATA) ps) s in
      fw_started s' \<and> img (udp_flash s') = img (udp_flash s) @ concat ps \<and> 0 \<le> config_sock s' \<and>
      udp_out s' = udp_out s @ offset_replies bo src (fw_received s) ps)"
proof (induction ps arbitrary: s)
  case Nil
  then show ?case by simp
next
  case (Cons p ps)
  let ?a = "s\<lparr>config_remote_addr := src\<rparr>"
  let ?s = "fw_data_cmd bo api cfg net UFW_CMD_DATA p ?a"
  have step: "udp_fw_rx bo api crc cfg invoke (cmd_from net src UFW_CMD_DATA p) s = ?s"
    by (subst udp_fw_rx_cmd [OF assms(4)]) (simp_all add: handle_fw_cmd_def udp_const_defs)
  have s: "fw_started ?s" "img (udp_flash ?s) = img (udp_flash s) @ p" "0 \<le> config_sock ?s"
    "fw_received ?s = fw_received s + of_nat (length p)"
    "udp_out ?s = udp_out s @ [(src, UFW_CMD_DATA # put_le32 bo (fw_received s + of_nat (length p)))]"
    using fw_data_cmd_ok [OF assms(1-3), of ?a p cfg net] Cons.prems assms(4)
    by (auto simp: Let_def reply_dst_def)
  show ?case
    using Cons.IH [of ?s] Cons.prems s by (simp add: step Let_def)
qed

text \<open>What a completed upload relies on besides: the reads of END see the flushed image.\<close>

definition image_readable :: "'d dfu_api \<Rightarrow> ('d \<Rightarrow> bytes) \<Rightarrow> bool" where
  "image_readable api img \<longleftrightarrow> (\<forall>d. flash_reads api d (img d))"

lemma fw_end_cmd_verdict:
  assumes "dfu_stream_ok api img" and "dfu_reliable api" and "image_readable api img" and "crc_continues crc"
    and "fw_started s" and "length data \<ge> 3" and "0 \<le> config_sock s"
  shows "let s' = fw_end_cmd bo api crc cfg net UFW_CMD_END data s;
             flushed = snd (img_write api [] True (udp_flash s));
             good = (crc 0 (img (udp_flash s)) = get_le16 bo (drop 1 data)) in
    udp_flash s' = (if good then snd (boot_request api (if data ! 0 \<noteq> 0 then 0 else 1) flushed) else flushed) \<and>
    img (udp_flash s') = img (udp_flash s) \<and>
    udp_out s' = udp_out s @ [(reply_dst cfg net (config_remote_addr s), [UFW_CMD_END, of_bool good])]"
proof -
  let ?d = "snd (img_write api [] True (udp_flash s))"
  have w: "fst (img_write api [] True (udp_flash s)) = 0" using assms(2) by (simp add: dfu_reliable_def)
  then have i: "img ?d = img (udp_flash s)" using assms(1) unfolding dfu_stream_ok_def by (metis append_Nil2)
  have v: "fw_verify_crc api crc (get_le16 bo (drop 1 data)) ?d =
      (crc 0 (img (udp_flash s)) = get_le16 bo (drop 1 data), ?d)"
    using fw_verify_crc_eq [OF assms(3) [unfolded image_readable_def, rule_format] assms(4)]
    by (simp add: i)
  define fl :: int where "fl = (if data ! 0 \<noteq> 0 then 0 else 1)"
  obtain d' where b: "boot_request api fl ?d = (0, d')"
    using assms(2) by (metis dfu_reliable_def prod.collapse)
  have "img d' = img ?d" using assms(1) b unfolding dfu_stream_ok_def by (metis snd_conv)
  then show ?thesis
    using assms(5-7) b i unfolding fw_end_cmd_def Let_def fl_def [symmetric] v by (simp add: reply_1)
qed

section \<open>The broadcast allowlist\<close>

lemma allow_inv:
  assumes "bcast_restrict cfg" and "max_bcast_cmds cfg = length (bcast_allowed_cmds s)"
    and "bcast_allowed_cnt s \<le> length (bcast_allowed_cmds s)"
  shows "let s' = udp_fw_allow_broadcast_cmd cfg c s in
    length (bcast_allowed_cmds s') = length (bcast_allowed_cmds s) \<and>
    bcast_allowed_cnt s' \<le> length (bcast_allowed_cmds s') \<and>
    take (bcast_allowed_cnt s') (bcast_allowed_cmds s') =
      (let xs = take (bcast_allowed_cnt s) (bcast_allowed_cmds s)
       in if c \<in> set xs \<or> bcast_allowed_cnt s = length (bcast_allowed_cmds s) then xs else xs @ [c])"
proof -
  have m: "list_ex (\<lambda>i. bcast_allowed_cmds s ! i = c) [0..<bcast_allowed_cnt s] \<longleftrightarrow>
      c \<in> set (take (bcast_allowed_cnt s) (bcast_allowed_cmds s))"
    using assms(3) by (auto simp: list_ex_iff in_set_conv_nth)
  show ?thesis
    using assms unfolding udp_fw_allow_broadcast_cmd_def m
    by (auto simp: Let_def take_Suc_conv_app_nth)
qed

lemma bcast_cmd_allowed_iff:
  assumes "bcast_allowed_cnt s \<le> length (bcast_allowed_cmds s)"
  shows "bcast_cmd_allowed c s \<longleftrightarrow> c \<in> set (take (bcast_allowed_cnt s) (bcast_allowed_cmds s))"
  using assms by (auto simp: bcast_cmd_allowed_def list_ex_iff in_set_conv_nth)

text \<open>The specification of the list: the first \<open>n\<close> different commands, in order.\<close>

fun allow_spec :: "nat \<Rightarrow> 'a list \<Rightarrow> 'a list \<Rightarrow> 'a list" where
  "allow_spec n xs [] = xs"
| "allow_spec n xs (c # cs) =
     allow_spec n (if c \<in> set xs \<or> length xs = n then xs else xs @ [c]) cs"

lemma allow_run:
  assumes "bcast_restrict cfg" and "max_bcast_cmds cfg = length (bcast_allowed_cmds s)"
    and "bcast_allowed_cnt s \<le> length (bcast_allowed_cmds s)"
  shows "let s' = run_events (udp_fw_allow_broadcast_cmd cfg) cs s in
    length (bcast_allowed_cmds s') = length (bcast_allowed_cmds s) \<and>
    bcast_allowed_cnt s' \<le> length (bcast_allowed_cmds s') \<and>
    take (bcast_allowed_cnt s') (bcast_allowed_cmds s') =
      allow_spec (max_bcast_cmds cfg) (take (bcast_allowed_cnt s) (bcast_allowed_cmds s)) cs"
  using assms
proof (induction cs arbitrary: s)
  case Nil
  then show ?case by simp
next
  case (Cons c cs)
  let ?s = "udp_fw_allow_broadcast_cmd cfg c s"
  have s: "length (bcast_allowed_cmds ?s) = length (bcast_allowed_cmds s)"
    "bcast_allowed_cnt ?s \<le> length (bcast_allowed_cmds ?s)"
    "take (bcast_allowed_cnt ?s) (bcast_allowed_cmds ?s) =
      (let xs = take (bcast_allowed_cnt s) (bcast_allowed_cmds s)
       in if c \<in> set xs \<or> bcast_allowed_cnt s = length (bcast_allowed_cmds s) then xs else xs @ [c])"
    using allow_inv [OF Cons.prems, of c] by (simp_all add: Let_def)
  show ?case
    using Cons.IH [of ?s] Cons.prems s by (simp add: Let_def min_def)
qed

lemma allow_spec_subset: "set (allow_spec n xs cs) \<subseteq> set xs \<union> set cs"
  by (induction n xs cs rule: allow_spec.induct) (auto split: if_splits)

lemma allow_spec_all:
  "card (set xs \<union> set cs) \<le> n \<Longrightarrow> distinct xs \<Longrightarrow> set (allow_spec n xs cs) = set xs \<union> set cs"
proof (induction n xs cs rule: allow_spec.induct)
  case (2 n xs c cs)
  let ?u = "set xs \<union> set (c # cs)"
  have full: "c \<in> set xs" if "length xs = n"
  proof -
    have "card ?u \<le> card (set xs)" using 2(2,3) that by (simp add: distinct_card)
    then have "set xs = ?u" by (intro card_seteq) auto
    then show ?thesis by auto
  qed
  show ?case
  proof (cases "c \<in> set xs")
    case True
    then have "?u = set xs \<union> set cs" by auto
    with True 2 show ?thesis by simp
  next
    case False
    then have "length xs \<noteq> n" using full by blast
    moreover have "?u = set (xs @ [c]) \<union> set cs" by auto
    ultimately show ?thesis using False 2 by simp
  qed
qed simp

section \<open>Properties\<close>


text \<open>A concrete CRC-like checksum for the witnesses.\<close>

definition sum16 :: "u16 \<Rightarrow> bytes \<Rightarrow> u16" where
  "sum16 c xs = fold (\<lambda>b c. c + ucast b) xs c"

lemma sum16_continues: "crc_continues sum16"
  by (simp add: crc_continues_def sum16_def)

lemma mem_dfu_readable: "image_readable mem_dfu md_image"
  by (simp add: image_readable_def flash_reads_def mem_dfu_def)

definition demo_udp_cfg :: udp_fw_cfg where
  "demo_udp_cfg = \<lparr>udp_keyhash = Some (replicate 32 7), udp_version = (0, 1, 0), udp_git_version = ''6e199a'',
     udp_past_ver = [], config_port = 8600, bcast_restrict = True, max_bcast_cmds = 4\<rparr>"

definition demo_net :: net_view where
  "demo_net = \<lparr>has_iface = True, local_addr = Some 0xC0A8010A, netmask = 0xFFFFFF00\<rparr>"

definition demo_src :: sockaddr where
  "demo_src = \<lparr>sin_addr = 0xC0A80102, sin_port = 5000\<rparr>"

definition demo_udp :: "(mem_dev, nat, nat, unit) udp_fw" where
  "demo_udp = udp_fw_start 3 0 (udp_fw_boot 2 4 \<lparr>md_image = [5], md_boot = []\<rparr> ())"

lemma demo_facts [simp]:
  "is_same_subnet demo_net (sin_addr demo_src)" "\<not> fw_started demo_udp" "0 \<le> config_sock demo_udp"
  "udp_out demo_udp = []" "udp_flash demo_udp = \<lparr>md_image = [5], md_boot = []\<rparr>"
  by (simp_all add: is_same_subnet_def demo_net_def demo_src_def demo_udp_def udp_fw_start_def udp_fw_boot_def)


text \<open>
  a START that carries a key hash other than the device's is answered with the key-hash status
  and neither erases the slot nor opens a session, so the data that follows is not written either.
\<close>

theorem udp_wrong_key_refused:
  assumes "\<not> fw_started s" and "0 \<le> config_sock s" and "is_same_subnet net (sin_addr src)"
    and "length st = 36" and "udp_keyhash cfg = Some h" and "h \<noteq> drop 4 st" and "\<forall>e \<in> set es. \<not> is_start_dg e"
  shows "let s1 = udp_fw_rx bo api crc cfg invoke (cmd_from net src UFW_CMD_START st) s in
    udp_out s1 = udp_out s @ [(src, [UFW_CMD_START, FW_START_ERR_KEYHASH])] \<and>
    udp_flash (run_events (udp_fw_rx bo api crc cfg invoke) es s1) = udp_flash s"
proof -
  let ?a = "s\<lparr>config_remote_addr := src\<rparr>"
  let ?s1 = "fw_start_cmd bo api cfg net UFW_CMD_START st ?a"
  have "udp_fw_rx bo api crc cfg invoke (cmd_from net src UFW_CMD_START st) s = ?s1"
    by (subst udp_fw_rx_cmd [OF assms(3)]) (simp_all add: handle_fw_cmd_def)
  moreover have 1: "\<not> fw_started ?s1" "udp_flash ?s1 = udp_flash s"
    "udp_out ?s1 = udp_out s @ [(src, [UFW_CMD_START, FW_START_ERR_KEYHASH])]"
    using fw_start_cmd_wrong_key [of ?a st cfg h bo api net] assms by (simp_all add: Let_def reply_dst_def)
  ultimately show ?thesis
    using udp_session.run_idle [OF 1(1) assms(7), of bo api crc cfg invoke] by (simp add: Let_def)
qed

theorem udp_wrong_key_refused_witness:
  "udp_flash (run_events (udp_fw_rx std_byteorder mem_dfu sum16 demo_udp_cfg (\<lambda>_ _ _ a. (False, a)))
      [cmd_from demo_net demo_src UFW_CMD_DATA [1, 2]]
      (udp_fw_rx std_byteorder mem_dfu sum16 demo_udp_cfg (\<lambda>_ _ _ a. (False, a))
        (cmd_from demo_net demo_src UFW_CMD_START (replicate 36 0)) demo_udp)) =
    \<lparr>md_image = [5], md_boot = []\<rparr>"
proof -
  have k: "udp_keyhash demo_udp_cfg = Some (replicate 32 7)" "replicate 32 (7 :: u8) \<noteq> drop 4 (replicate 36 0)"
    by (simp_all add: demo_udp_cfg_def replicate_eq_replicate)
  have e: "\<forall>e \<in> set [cmd_from demo_net demo_src UFW_CMD_DATA [1, 2]]. \<not> is_start_dg e"
    by (simp add: is_start_dg_def udp_cmd_def cmd_from_def udp_const_defs)
  show ?thesis
    using udp_wrong_key_refused [OF demo_facts(2,3,1) _ k e,
        of std_byteorder mem_dfu sum16 "\<lambda>_ _ _ a. (False, a)"]
    by (simp add: Let_def)
qed

text \<open>
  C7: with the broadcast restriction, a datagram from another subnet is dropped without a reply,
  a callback or a flash access unless its command was put on the allowlist; and every command put
  there gets through the filter as long as no more different ones were added than the list holds.
\<close>

theorem udp_foreign_filtered:
  assumes "bcast_restrict cfg" and "max_bcast_cmds cfg = length (bcast_allowed_cmds s)"
    and "bcast_allowed_cnt s = 0" and "\<not> is_same_subnet net (sin_addr (dg_src dg))" and "dg_bytes dg = c # data"
  shows "let s1 = run_events (udp_fw_allow_broadcast_cmd cfg) cs s in
    (c \<notin> set cs \<longrightarrow>
      udp_fw_rx bo api crc cfg invoke (net, dg) s1 = s1\<lparr>config_remote_addr := dg_src dg\<rparr>) \<and>
    (card (set cs) \<le> max_bcast_cmds cfg \<longrightarrow> (bcast_cmd_allowed c s1 \<longleftrightarrow> c \<in> set cs))"
proof -
  let ?s1 = "run_events (udp_fw_allow_broadcast_cmd cfg) cs s"
  have 1: "bcast_allowed_cnt ?s1 \<le> length (bcast_allowed_cmds ?s1)"
    "take (bcast_allowed_cnt ?s1) (bcast_allowed_cmds ?s1) = allow_spec (max_bcast_cmds cfg) [] cs"
    using allow_run [OF assms(1,2), of cs] assms(3) by (simp_all add: Let_def)
  have al: "bcast_cmd_allowed c ?s1 \<longleftrightarrow> c \<in> set (allow_spec (max_bcast_cmds cfg) [] cs)"
    using bcast_cmd_allowed_iff [OF 1(1)] 1(2) by simp
  have "bcast_cmd_allowed c (?s1\<lparr>config_remote_addr := a\<rparr>) = bcast_cmd_allowed c ?s1" for a
    by (simp add: bcast_cmd_allowed_def)
  then have "udp_fw_rx bo api crc cfg invoke (net, dg) ?s1 = ?s1\<lparr>config_remote_addr := dg_src dg\<rparr>"
    if "c \<notin> set cs"
    using that allow_spec_subset [of "max_bcast_cmds cfg" "[]" cs] assms(1,4,5)
    by (auto simp: udp_fw_rx_def Let_def al)
  moreover have "set (allow_spec (max_bcast_cmds cfg) [] cs) = set cs" if "card (set cs) \<le> max_bcast_cmds cfg"
    using allow_spec_all [of "[]" cs "max_bcast_cmds cfg"] that by simp
  ultimately show ?thesis by (simp add: Let_def al)
qed

theorem udp_foreign_filtered_witness:
  "let s1 = run_events (udp_fw_allow_broadcast_cmd demo_udp_cfg) [4, 9, 4] demo_udp in
    udp_fw_rx std_byteorder mem_dfu sum16 demo_udp_cfg (\<lambda>_ _ _ a. (False, a))
      (demo_net, \<lparr>dg_src = \<lparr>sin_addr = 0x0A000001, sin_port = 5\<rparr>, dg_bytes = [5]\<rparr>) s1 =
    s1\<lparr>config_remote_addr := \<lparr>sin_addr = 0x0A000001, sin_port = 5\<rparr>\<rparr>"
proof -
  have a: "bcast_restrict demo_udp_cfg" "max_bcast_cmds demo_udp_cfg = length (bcast_allowed_cmds demo_udp)"
    "bcast_allowed_cnt demo_udp = 0"
    by (simp_all add: demo_udp_cfg_def demo_udp_def udp_fw_start_def udp_fw_boot_def)
  show ?thesis
    using udp_foreign_filtered [OF a, of demo_net
        "\<lparr>dg_src = \<lparr>sin_addr = 0x0A000001, sin_port = 5\<rparr>, dg_bytes = [5]\<rparr>" 5 "[]" "[4, 9, 4]"
        std_byteorder mem_dfu sum16 "\<lambda>_ _ _ a. (False, a)"]
    by (simp add: Let_def is_same_subnet_def demo_net_def)
qed

text \<open>
  after an END that the library acts on, no sequence of datagrams without a START changes
  the flash, whatever their source and content.
\<close>

theorem udp_flash_untouched:
  assumes "is_end_dg e" and "\<forall>e \<in> set es. \<not> is_start_dg e"
  shows "udp_flash (run_events (udp_fw_rx bo api crc cfg invoke) (e # es) s) =
    udp_flash (udp_fw_rx bo api crc cfg invoke e s)"
  using assms by (rule udp_session.run_after_end)

theorem udp_flash_untouched_witness:
  "udp_flash (run_events (udp_fw_rx std_byteorder mem_dfu sum16 demo_udp_cfg (\<lambda>_ _ _ a. (False, a)))
      [cmd_from demo_net demo_src UFW_CMD_END [0, 6, 0], cmd_from demo_net demo_src UFW_CMD_DATA [1, 2]] demo_udp) =
    \<lparr>md_image = [5], md_boot = []\<rparr>"
proof -
  have c: "is_end_dg (cmd_from demo_net demo_src UFW_CMD_END [0, 6, 0])"
    by (simp add: is_end_dg_def udp_cmd_def cmd_from_def)
  have e: "\<forall>e \<in> set [cmd_from demo_net demo_src UFW_CMD_DATA [1, 2]]. \<not> is_start_dg e"
    by (simp add: is_start_dg_def udp_cmd_def cmd_from_def udp_const_defs)
  show ?thesis
    by (subst udp_flash_untouched [OF c e])
      (simp add: udp_fw_rx_cmd handle_fw_cmd_def fw_end_cmd_def udp_const_defs)
qed

text \<open>
  whatever is replied, one datagram goes out that starts with the command, has at most 64
  bytes and carries the payload unless it is longer than 63 bytes, in which case it carries none;
  a host of the same subnet gets it at its own address, any other as a broadcast to the port
  after the configuration port.
\<close>

theorem udp_reply_bounds:
  assumes "0 \<le> config_sock s" and "unat len \<le> length data"
  shows "let payload = (if unat len \<le> 63 then take (unat len) data else []);
             dst = (if is_same_subnet net (sin_addr (config_remote_addr s)) then config_remote_addr s
                    else \<lparr>sin_addr = INADDR_BROADCAST, sin_port = config_port cfg + 1\<rparr>) in
    udp_out (udp_fw_reply cfg net cmd data len s) = udp_out s @ [(dst, cmd # payload)] \<and>
    length (cmd # payload) \<le> 64"
proof (cases "unat len \<le> 63")
  case True
  then show ?thesis
    using udp_fw_reply_out [OF assms True, of cfg net cmd] by (simp add: reply_dst_def)
next
  case False
  then show ?thesis
    using assms(1) by (simp add: udp_fw_reply_def Let_def numeral_eq_Suc)
qed

theorem udp_reply_bounds_witness:
  "udp_out (udp_fw_reply demo_udp_cfg \<lparr>has_iface = False, local_addr = None, netmask = 0\<rparr> 4 (replicate 100 1) 70
      demo_udp) = [(\<lparr>sin_addr = 0, sin_port = 0\<rparr>, [4])]"
  using udp_reply_bounds [OF demo_facts(3), of 70 "replicate 100 1"
      "\<lparr>has_iface = False, local_addr = None, netmask = 0\<rparr>" demo_udp_cfg 4]
  by (simp add: Let_def is_same_subnet_def demo_udp_def udp_fw_start_def udp_fw_boot_def)

end
