(* ===== verification/Bootloader.thy ===== *)
theory Bootloader
  imports Upgrade_Session
begin

text \<open>
  \<open>applications/stm32_bootloader\<close>: the upgrade engine (\<open>src/fw_upgrade.c\<close>), its CAN transport
  (\<open>src/fw_can.c\<close>) and the boot decision (\<open>src/main.c\<close>).  The static variables are the record
  \<open>boot\<close>.  C leaves a store outside \<open>flash_buffer\<close> undefined: it is the value \<open>Inl Overrun\<close>; a
  start command whose erase loop does not end is \<open>None\<close>.
\<close>

section \<open>Zephyr's flash driver, memory-mapped\<close>

text \<open>
  Offsets are the 32-bit values the code passes.  \<open>page_info\<close> answers error, start and size of a
  page, \<open>flash_read\<close> the bytes or \<open>None\<close> when the driver refuses (the destination then keeps its
  contents), \<open>mapped_word\<close> a word read through a pointer.
\<close>

record 'd flash_api =
  page_info :: "u32 \<Rightarrow> int \<times> u32 \<times> u32"
  flash_erase :: "u32 \<Rightarrow> u32 \<Rightarrow> 'd \<Rightarrow> int \<times> 'd"
  flash_write :: "u32 \<Rightarrow> bytes \<Rightarrow> 'd \<Rightarrow> int \<times> 'd"
  flash_read :: "u32 \<Rightarrow> nat \<Rightarrow> 'd \<Rightarrow> bytes option"
  mapped_word :: "u32 \<Rightarrow> 'd \<Rightarrow> u32"

section \<open>Constants and state\<close>

definition FLASH_APP_START_ADDR :: u32 where "FLASH_APP_START_ADDR = 0x08010000"
definition FLASH_APP_END_ADDR :: u32 where "FLASH_APP_END_ADDR = 0x08040000"
definition FLASH_FLAG_ADDR :: u32 where "FLASH_FLAG_ADDR = 0x0803F800"
definition UPGRADE_FLAG_VALUE :: u32 where "UPGRADE_FLAG_VALUE = 0x55AADEAD"
definition APP_START_ADDR :: u32 where "APP_START_ADDR = 0x08010000"

definition CAN_ID_PLATFORM_RX :: u32 where "CAN_ID_PLATFORM_RX = 0x101"
definition CAN_ID_PLATFORM_TX :: u32 where "CAN_ID_PLATFORM_TX = 0x102"
definition CAN_ID_FW_DATA_RX :: u32 where "CAN_ID_FW_DATA_RX = 0x103"

definition FLASH_BUFFER_SIZE :: nat where "FLASH_BUFFER_SIZE = 64"

named_theorems boot_consts \<open>addresses and CAN identifiers of the bootloader\<close>

lemmas boot_const_defs [boot_consts] =
  FLASH_APP_START_ADDR_def FLASH_APP_END_ADDR_def FLASH_FLAG_ADDR_def UPGRADE_FLAG_VALUE_def
  APP_START_ADDR_def CAN_ID_PLATFORM_RX_def CAN_ID_PLATFORM_TX_def CAN_ID_FW_DATA_RX_def

datatype fw_error_code =
  FW_CODE_OFFSET | FW_CODE_UPDATE_SUCCESS | FW_CODE_VERSION | FW_CODE_CONFIRM |
  FW_CODE_FLASH_ERROR | FW_CODE_TRANFER_ERROR

fun code_val :: "fw_error_code \<Rightarrow> u32" where
  "code_val FW_CODE_OFFSET = 0"
| "code_val FW_CODE_UPDATE_SUCCESS = 1"
| "code_val FW_CODE_VERSION = 2"
| "code_val FW_CODE_CONFIRM = 3"
| "code_val FW_CODE_FLASH_ERROR = 4"
| "code_val FW_CODE_TRANFER_ERROR = 5"

definition BOARD_START_UPDATE :: u32 where "BOARD_START_UPDATE = 0"
definition BOARD_CONFIRM :: u32 where "BOARD_CONFIRM = 1"
definition BOARD_VERSION :: u32 where "BOARD_VERSION = 2"
definition BOARD_REBOOT :: u32 where "BOARD_REBOOT = 3"

lemmas board_defs [boot_consts] =
  BOARD_START_UPDATE_def BOARD_CONFIRM_def BOARD_VERSION_def BOARD_REBOOT_def

datatype wire = Can_tx can_frame | Uart_tx bytes

datatype boot_fault = Overrun

text \<open>
  \<open>boot_jump\<close> holds vector table, stack pointer and program counter once the application runs;
  \<open>boot_out\<close> what the transports sent.
\<close>

record 'd boot =
  boot_flash :: 'd
  flash_buffer :: bytes
  flash_buffer_index :: u16
  current_flash_addr :: u32
  total_fw_size :: u32
  received_fw_size :: u32
  response_cb :: "(u32 \<Rightarrow> u32 \<Rightarrow> wire) option"
  boot_out :: "wire list"
  boot_jump :: "(u32 \<times> u32 \<times> u32) option"
  boot_reset :: bool
  led1 :: bool
  led2 :: bool

definition fw_set_response_cb :: "(u32 \<Rightarrow> u32 \<Rightarrow> wire) \<Rightarrow> 'd boot \<Rightarrow> 'd boot" where
  "fw_set_response_cb c s = s\<lparr>response_cb := Some c\<rparr>"

definition fw_send_response :: "fw_error_code \<Rightarrow> u32 \<Rightarrow> 'd boot \<Rightarrow> 'd boot" where
  "fw_send_response code v s =
     (case response_cb s of
        None \<Rightarrow> s
      | Some c \<Rightarrow> s\<lparr>boot_out := boot_out s @ [c (code_val code) v]\<rparr>)"

section \<open>The upgrade engine\<close>

definition JumpToApp :: "'d flash_api \<Rightarrow> u32 \<Rightarrow> 'd boot \<Rightarrow> 'd boot" where
  "JumpToApp fl app_addr s =
     (let jump_addr = mapped_word fl (app_addr + 4) (boot_flash s);
          msp = mapped_word fl app_addr (boot_flash s)
      in s\<lparr>boot_jump := Some (app_addr, msp, jump_addr)\<rparr>)"

text \<open>The erase loop of the start command; the flag says whether no driver call failed.\<close>

partial_function (option) erase_loop ::
  "'d flash_api \<Rightarrow> u32 \<Rightarrow> u32 \<Rightarrow> 'd \<Rightarrow> (bool \<times> 'd) option" where
  "erase_loop fl erase_size erase_addr d =
     (if erase_size > 0 then
        (case page_info fl erase_addr of (err, start_offset, psize) \<Rightarrow>
           if err \<noteq> 0 then Some (False, d)
           else
             (case flash_erase fl start_offset psize d of (err, d) \<Rightarrow>
                if err \<noteq> 0 then Some (False, d)
                else erase_loop fl (if psize \<le> erase_size then erase_size - psize else 0) (erase_addr + psize) d))
      else Some (True, d))"

definition clamp_erase :: "u32 \<Rightarrow> u32" where
  "clamp_erase n =
     (if n > FLASH_APP_END_ADDR - FLASH_APP_START_ADDR
      then FLASH_APP_END_ADDR - FLASH_APP_START_ADDR else n)"

definition start_upgrade :: "'d flash_api \<Rightarrow> u32 \<Rightarrow> can_frame \<Rightarrow> 'd boot \<Rightarrow> (int \<times> 'd boot) option" where
  "start_upgrade fl nbytes frame s =
     (if nbytes \<noteq> 8 then Some (- 1, fw_send_response FW_CODE_FLASH_ERROR 0 s)
      else
        let s = s\<lparr>total_fw_size := data_32 frame 1, received_fw_size := 0,
                  current_flash_addr := FLASH_APP_START_ADDR, flash_buffer_index := 0\<rparr>
        in case erase_loop fl (clamp_erase (total_fw_size s)) FLASH_APP_START_ADDR (boot_flash s) of
             None \<Rightarrow> None
           | Some (erased, d) \<Rightarrow>
               let s = s\<lparr>boot_flash := d\<rparr>
               in Some (if erased then (0, fw_send_response FW_CODE_OFFSET 0 s)
                        else (- 1, fw_send_response FW_CODE_FLASH_ERROR 0 s)))"

definition flush_buffer :: "'d flash_api \<Rightarrow> 'd boot \<Rightarrow> int \<times> 'd boot" where
  "flush_buffer fl s =
     (case flash_write fl (current_flash_addr s) (take (unat (flash_buffer_index s)) (flash_buffer s))
             (boot_flash s) of (err, d) \<Rightarrow> (err, s\<lparr>boot_flash := d\<rparr>))"

definition advance :: "'d boot \<Rightarrow> 'd boot" where
  "advance s = s\<lparr>current_flash_addr := current_flash_addr s + ucast (flash_buffer_index s),
                 flash_buffer_index := 0\<rparr>"

definition confirm_upgrade :: "'d flash_api \<Rightarrow> 'd boot \<Rightarrow> int \<times> 'd boot" where
  "confirm_upgrade fl s =
     (let s = (if flash_buffer_index s > 0 then advance (snd (flush_buffer fl s)) else s)
      in if received_fw_size s \<noteq> total_fw_size s
         then (- 1, fw_send_response FW_CODE_TRANFER_ERROR (received_fw_size s) s)
         else (0, JumpToApp fl APP_START_ADDR (fw_send_response FW_CODE_CONFIRM 0x55AA55AA s)))"

text \<open>The response after a block was written: success, nothing at multiples of 4096, or the offset.\<close>

definition block_response :: "'d boot \<Rightarrow> 'd boot" where
  "block_response s =
     (if received_fw_size s \<ge> total_fw_size s
      then fw_send_response FW_CODE_UPDATE_SUCCESS (received_fw_size s) s
      else if received_fw_size s mod 4096 = 0 then s
      else if received_fw_size s mod 64 = 0
      then fw_send_response FW_CODE_OFFSET (received_fw_size s) s
      else s)"

function fw_data_loop :: "'d flash_api \<Rightarrow> bytes \<Rightarrow> nat \<Rightarrow> nat \<Rightarrow> 'd boot \<Rightarrow> boot_fault + int \<times> 'd boot" where
  "fw_data_loop fl data nbytes i s =
     (if i < nbytes \<and> received_fw_size s < total_fw_size s then
        if unat (flash_buffer_index s) \<ge> FLASH_BUFFER_SIZE \<or> i \<ge> length data then Inl Overrun
        else
          let s = s\<lparr>flash_buffer := (flash_buffer s)[unat (flash_buffer_index s) := data ! i],
                    flash_buffer_index := flash_buffer_index s + 1,
                    received_fw_size := received_fw_size s + 1\<rparr>
          in if unat (flash_buffer_index s) \<ge> FLASH_BUFFER_SIZE \<or> received_fw_size s \<ge> total_fw_size s then
               case flush_buffer fl s of (err, s) \<Rightarrow>
                 if err \<noteq> 0
                 then Inr (- 1, fw_send_response FW_CODE_FLASH_ERROR (received_fw_size s) s)
                 else fw_data_loop fl data nbytes (i + 1) (block_response (advance s))
             else fw_data_loop fl data nbytes (i + 1) s
      else Inr (0, s))"
  by pat_completeness auto
termination
  by (relation "measure (\<lambda>(fl, data, nbytes, i, s). nbytes - i)") auto

declare fw_data_loop.simps [simp del]

definition fw_update :: "byteorder \<Rightarrow> 'd flash_api \<Rightarrow> u32 \<Rightarrow> can_frame \<Rightarrow> 'd boot \<Rightarrow>
    (boot_fault + int \<times> 'd boot) option" where
  "fw_update bo fl app_version frame s =
     (let nbytes = ucast (dlc_to_bytes bo (can_dlc frame))
      in if can_id frame = CAN_ID_PLATFORM_RX then
           if data_32 frame 0 = BOARD_START_UPDATE then map_option Inr (start_upgrade fl nbytes frame s)
           else if data_32 frame 0 = BOARD_CONFIRM then Some (Inr (confirm_upgrade fl s))
           else if data_32 frame 0 = BOARD_VERSION
           then Some (Inr (0, fw_send_response FW_CODE_VERSION app_version s))
           else if data_32 frame 0 = BOARD_REBOOT then Some (Inr (0, s\<lparr>boot_reset := True\<rparr>))
           else Some (Inr (0, s))
         else if can_id frame = CAN_ID_FW_DATA_RX then
           if received_fw_size s \<ge> total_fw_size s then Some (Inr (- 1, s))
           else Some (fw_data_loop fl (can_data frame) (unat nbytes) 0 s)
         else Some (Inr (0, s)))"

section \<open>Boot decision\<close>

definition word_or_zero :: "bytes option \<Rightarrow> u32" where
  "word_or_zero r = (case r of None \<Rightarrow> 0 | Some bs \<Rightarrow> le32_at 0 bs)"

definition VerifyAppFirmware :: "'d flash_api \<Rightarrow> 'd \<Rightarrow> bool" where
  "VerifyAppFirmware fl d =
     (let app_stack_ptr = word_or_zero (flash_read fl FLASH_APP_START_ADDR 4 d);
          app_reset_vec = word_or_zero (flash_read fl (FLASH_APP_START_ADDR + 4) 4 d)
      in app_stack_ptr \<ge> 0x20000000 \<and> app_stack_ptr < 0x2000C000 \<and>
         app_reset_vec \<ge> FLASH_APP_START_ADDR \<and> app_reset_vec < FLASH_APP_END_ADDR)"

definition CheckUpgradeFlag :: "'d flash_api \<Rightarrow> 'd \<Rightarrow> bool" where
  "CheckUpgradeFlag fl d = (word_or_zero (flash_read fl FLASH_FLAG_ADDR 4 d) = UPGRADE_FLAG_VALUE)"

definition ClearUpgradeFlag :: "'d flash_api \<Rightarrow> 'd \<Rightarrow> 'd" where
  "ClearUpgradeFlag fl d =
     (case page_info fl FLASH_FLAG_ADDR of (_, start_offset, psize) \<Rightarrow>
        snd (flash_erase fl start_offset psize d))"

text \<open>\<open>key\<close> is what gpio_pin_get_dt answers for the key: its logical level.\<close>

definition enter_upgrade_mode :: "'d flash_api \<Rightarrow> int \<Rightarrow> 'd \<Rightarrow> bool \<times> 'd" where
  "enter_upgrade_mode fl key d =
     (if key = 0 then (True, d)
      else if CheckUpgradeFlag fl d then (True, ClearUpgradeFlag fl d)
      else (False, d))"

definition boot_main :: "'d flash_api \<Rightarrow> int \<Rightarrow> bool \<Rightarrow> bool \<Rightarrow> 'd boot \<Rightarrow> 'd boot" where
  "boot_main fl key led1_ready led2_ready s =
     (let s = s\<lparr>led1 := (if led1_ready then False else led1 s), led2 := (if led2_ready then False else led2 s)\<rparr>
      in case enter_upgrade_mode fl key (boot_flash s) of (upgrade, d) \<Rightarrow>
           let s = s\<lparr>boot_flash := d\<rparr>
           in if upgrade then (if led1_ready then s\<lparr>led1 := True\<rparr> else s)
              else if VerifyAppFirmware fl d then JumpToApp fl APP_START_ADDR s
              else (if led2_ready then s\<lparr>led2 := True\<rparr> else s))"

definition boot_reset_state :: "'d \<Rightarrow> 'd boot" where
  "boot_reset_state d = \<lparr>boot_flash = d, flash_buffer = replicate FLASH_BUFFER_SIZE 0, flash_buffer_index = 0,
     current_flash_addr = FLASH_APP_START_ADDR, total_fw_size = 0, received_fw_size = 0,
     response_cb = None, boot_out = [], boot_jump = None, boot_reset = False, led1 = False, led2 = False\<rparr>"

section \<open>The CAN transport\<close>

definition fw_can_send_response :: "byteorder \<Rightarrow> u32 \<Rightarrow> u32 \<Rightarrow> wire" where
  "fw_can_send_response bo code v =
     Can_tx \<lparr>can_id = CAN_ID_PLATFORM_TX, can_dlc = bytes_to_dlc bo 8, can_data = le32_bytes code @ le32_bytes v\<rparr>"

definition fw_canrx_msg_handler :: "byteorder \<Rightarrow> 'd flash_api \<Rightarrow> u32 \<Rightarrow> can_frame \<Rightarrow> 'd boot \<Rightarrow>
    (boot_fault + int \<times> 'd boot) option" where
  "fw_canrx_msg_handler bo fl app_version frame s =
     (let s = fw_set_response_cb (fw_can_send_response bo) s
      in if can_id frame = CAN_ID_PLATFORM_RX \<or> can_id frame = CAN_ID_FW_DATA_RX
         then fw_update bo fl app_version frame s
         else Some (Inr (0, s)))"

text \<open>The thread's set-up calls, in order; it serves messages only when all of them succeeded.\<close>

definition fw_can_setup :: "int \<Rightarrow> int \<Rightarrow> int \<Rightarrow> int \<Rightarrow> bool" where
  "fw_can_setup set_bitrate start add_cmd add_data =
     (if set_bitrate \<noteq> 0 then False
      else if start \<noteq> 0 then False
      else if add_cmd < 0 then False
      else if add_data < 0 then False
      else True)"

end
