(* ===== verification/Boot_Uart.thy ===== *)
theory Boot_Uart
  imports Bootloader
begin

text \<open>
  \<open>applications/stm32_bootloader/src/fw_uart.c\<close>: the framed serial transport of the bootloader.
  The receive interrupt is a seven-state parser, one byte per step, that hands checked frames to a
  queue of eight messages; the thread turns each into a CAN frame for the upgrade engine.
\<close>

section \<open>CRC\<close>

definition crc16_bit :: "u16 \<Rightarrow> u16" where
  "crc16_bit crc = (if crc AND 1 \<noteq> 0 then drop_bit 1 crc XOR 0xA001 else drop_bit 1 crc)"

definition crc16_byte :: "u8 \<Rightarrow> u16 \<Rightarrow> u16" where
  "crc16_byte b crc = (crc16_bit ^^ 8) (crc XOR ucast b)"

definition crc16_ccitt :: "bytes \<Rightarrow> u16" where
  "crc16_ccitt data = fold crc16_byte data 0xFFFF"

section \<open>Sending\<close>

definition UART_FRAME_HEAD :: u8 where "UART_FRAME_HEAD = 0xAA"
definition UART_FRAME_TAIL :: u8 where "UART_FRAME_TAIL = 0x55"
definition UART_FRAME_CMD :: u8 where "UART_FRAME_CMD = 1"
definition UART_FRAME_DATA :: u8 where "UART_FRAME_DATA = 2"

lemmas uart_const_defs = UART_FRAME_HEAD_def UART_FRAME_TAIL_def UART_FRAME_CMD_def UART_FRAME_DATA_def

definition uart_send_frame :: "u8 \<Rightarrow> bytes \<Rightarrow> bytes" where
  "uart_send_frame type data =
     (let crc = crc16_ccitt data
      in [UART_FRAME_HEAD, type, 0, of_nat (length data)] @ data @
         [ucast (drop_bit 8 crc AND 0xFF), ucast (crc AND 0xFF), UART_FRAME_TAIL])"

definition fw_uart_send_response :: "u32 \<Rightarrow> u32 \<Rightarrow> wire" where
  "fw_uart_send_response code v = Uart_tx (uart_send_frame UART_FRAME_CMD (le32_bytes code @ le32_bytes v))"

section \<open>The receive interrupt\<close>

datatype uart_rx_state =
  UART_STATE_IDLE | UART_STATE_TYPE | UART_STATE_LEN_H | UART_STATE_LEN_L |
  UART_STATE_DATA | UART_STATE_CRC_H | UART_STATE_CRC_L

record uart_frame =
  uf_type :: u8
  uf_data :: bytes

record uart_rx =
  rx_state :: uart_rx_state
  rx_type :: u8
  rx_len :: u8
  rx_index :: u8
  rx_buffer :: bytes
  rx_crc :: u16
  uart_msgq :: "uart_frame list"

definition UART_MSGQ_MAX :: nat where "UART_MSGQ_MAX = 8"

text \<open>k_msgq_put without waiting: a full queue refuses the message.\<close>

definition msgq_put :: "uart_frame \<Rightarrow> uart_frame list \<Rightarrow> uart_frame list" where
  "msgq_put m q = (if length q < UART_MSGQ_MAX then q @ [m] else q)"

definition uart_isr_byte :: "u8 \<Rightarrow> uart_rx \<Rightarrow> uart_rx" where
  "uart_isr_byte byte s =
     (case rx_state s of
        UART_STATE_IDLE \<Rightarrow>
          (if byte = UART_FRAME_HEAD then s\<lparr>rx_state := UART_STATE_TYPE\<rparr> else s)
      | UART_STATE_TYPE \<Rightarrow>
          (if byte = UART_FRAME_CMD \<or> byte = UART_FRAME_DATA
           then s\<lparr>rx_type := byte, rx_index := 0, rx_state := UART_STATE_LEN_H\<rparr>
           else s\<lparr>rx_state := UART_STATE_IDLE\<rparr>)
      | UART_STATE_LEN_H \<Rightarrow>
          s\<lparr>rx_len := ucast (push_bit 8 (ucast byte :: u32)), rx_state := UART_STATE_LEN_L\<rparr>
      | UART_STATE_LEN_L \<Rightarrow>
          (let s = s\<lparr>rx_len := rx_len s OR byte\<rparr>
           in if rx_len s \<le> 8
              then s\<lparr>rx_state := (if rx_len s > 0 then UART_STATE_DATA else UART_STATE_CRC_H)\<rparr>
              else s\<lparr>rx_state := UART_STATE_IDLE\<rparr>)
      | UART_STATE_DATA \<Rightarrow>
          (let s = s\<lparr>rx_buffer := (rx_buffer s)[unat (rx_index s) := byte], rx_index := rx_index s + 1\<rparr>
           in if rx_index s \<ge> rx_len s then s\<lparr>rx_state := UART_STATE_CRC_H\<rparr> else s)
      | UART_STATE_CRC_H \<Rightarrow>
          s\<lparr>rx_crc := push_bit 8 (ucast byte), rx_state := UART_STATE_CRC_L\<rparr>
      | UART_STATE_CRC_L \<Rightarrow>
          (let s = s\<lparr>rx_crc := rx_crc s OR ucast byte\<rparr>;
               data = take (unat (rx_len s)) (rx_buffer s);
               s = (if crc16_ccitt data = rx_crc s
                    then s\<lparr>uart_msgq := msgq_put \<lparr>uf_type = rx_type s, uf_data = data\<rparr> (uart_msgq s)\<rparr>
                    else s)
           in s\<lparr>rx_state := UART_STATE_IDLE\<rparr>))"

text \<open>One interrupt reads the bytes the fifo holds.\<close>

definition uart_isr :: "bytes \<Rightarrow> uart_rx \<Rightarrow> uart_rx" where
  "uart_isr fifo s = fold uart_isr_byte fifo s"

definition uart_rx_boot :: uart_rx where
  "uart_rx_boot = \<lparr>rx_state = UART_STATE_IDLE, rx_type = 0, rx_len = 0, rx_index = 0,
     rx_buffer = replicate 8 0, rx_crc = 0, uart_msgq = []\<rparr>"

section \<open>The process thread\<close>

definition uart_can_frame :: "byteorder \<Rightarrow> uart_frame \<Rightarrow> can_frame" where
  "uart_can_frame bo m =
     \<lparr>can_id = (if uf_type m = UART_FRAME_CMD then CAN_ID_PLATFORM_RX
                else if uf_type m = UART_FRAME_DATA then CAN_ID_FW_DATA_RX else 0),
      can_dlc = bytes_to_dlc bo (of_nat (length (uf_data m))),
      can_data = mem_put 0 (uf_data m) (replicate 8 0)\<rparr>"

text \<open>One turn: take the oldest message, if there is one, and run the engine on it.\<close>

definition fw_uart_process :: "byteorder \<Rightarrow> 'd flash_api \<Rightarrow> u32 \<Rightarrow> uart_rx \<times> 'd boot \<Rightarrow>
    (boot_fault + uart_rx \<times> 'd boot) option" where
  "fw_uart_process bo fl app_version = (\<lambda>(u, s).
     case uart_msgq u of
       [] \<Rightarrow> Some (Inr (u, s))
     | m # q \<Rightarrow>
         let s = fw_set_response_cb fw_uart_send_response s
         in map_option (map_sum id (\<lambda>(_, s). (u\<lparr>uart_msgq := q\<rparr>, s)))
              (fw_update bo fl app_version (uart_can_frame bo m) s))"

section \<open>The CRC sees every error confined to one byte\<close>

lemma ucast_u8_u16_inj: "(ucast b :: u16) = ucast b' \<longleftrightarrow> b = b'" for b b' :: u8
proof
  assume "(ucast b :: u16) = ucast b'"
  then have "unat (ucast b :: u16) = unat (ucast b' :: u16)" by simp
  moreover have "unat (ucast c :: u16) = unat c" for c :: u8
    using unsigned_less [of c, where ?'a = nat] by (simp add: unsigned_ucast_eq take_bit_nat_eq_self)
  ultimately show "b = b'" by (simp add: word_unat_eq_iff)
qed simp

lemma crc16_bit_inj: "inj crc16_bit"
proof (rule injI)
  fix x y assume eq: "crc16_bit x = crc16_bit y"
  have and1: "z AND 1 \<noteq> 0 \<longleftrightarrow> bit z 0" for z :: u16
    by (simp add: and_one_eq bit_0 odd_iff_mod_2_eq_one)
  have top: "bit (crc16_bit z) 15 \<longleftrightarrow> bit z 0" for z :: u16
  proof -
    have "\<not> bit z 16" using bit_imp_le_length [of z 16] by auto
    then show ?thesis by (auto simp: crc16_bit_def and1 bit_xor_iff bit_drop_bit_eq)
  qed
  have low: "bit x 0 = bit y 0" using top [of x] top [of y] eq by simp
  have "drop_bit 1 x = drop_bit 1 y"
    using eq low by (auto simp: crc16_bit_def and1 xor_right_cancel split: if_splits)
  then have "bit x (Suc n) = bit y (Suc n)" for n
    by (metis bit_drop_bit_eq comp_apply plus_1_eq_Suc)
  with low have "bit x n = bit y n" for n by (cases n) auto
  then show "x = y" by (intro bit_eqI) auto
qed

lemma crc16_eight_inj: "(crc16_bit ^^ 8) x = (crc16_bit ^^ 8) y \<longleftrightarrow> x = y"
  using inj_fn [OF crc16_bit_inj, of 8] by (auto dest: injD)

lemma crc16_fold_inj: "fold crc16_byte xs c = fold crc16_byte xs c' \<Longrightarrow> c = c'"
  by (induction xs arbitrary: c c')
    (auto dest!: simp: crc16_byte_def crc16_eight_inj xor_right_cancel, metis crc16_byte_def crc16_eight_inj xor_right_cancel)

lemma crc16_byte_detects: "crc16_byte b c = crc16_byte b' c \<Longrightarrow> b = b'"
  by (simp add: crc16_byte_def crc16_eight_inj xor_left_cancel ucast_u8_u16_inj)

lemma crc16_single:
  assumes "b \<noteq> b'"
  shows "crc16_ccitt (xs @ b # ys) \<noteq> crc16_ccitt (xs @ b' # ys)"
proof
  assume "crc16_ccitt (xs @ b # ys) = crc16_ccitt (xs @ b' # ys)"
  then have "crc16_byte b (fold crc16_byte xs 0xFFFF) = crc16_byte b' (fold crc16_byte xs 0xFFFF)"
    by (simp add: crc16_ccitt_def) (rule crc16_fold_inj)
  then show False using crc16_byte_detects assms by blast
qed

section \<open>Reception of a frame\<close>

lemma fold_bytes_data:
  assumes "rx_state s = UART_STATE_DATA" and "rx_index s < rx_len s" and "rx_len s \<le> 8"
    and "length (rx_buffer s) = 8" and "unat (rx_index s) + length data = unat (rx_len s)"
  shows "fold uart_isr_byte data s =
    s\<lparr>rx_buffer := mem_put (unat (rx_index s)) data (rx_buffer s), rx_index := rx_len s, rx_state := UART_STATE_CRC_H\<rparr>"
  using assms
proof (induction data arbitrary: s)
  case Nil
  then show ?case by (simp add: word_less_nat_alt)
next
  case (Cons b bs)
  have i: "unat (rx_index s + 1) = Suc (unat (rx_index s))"
    using Cons.prems(2) by (rule unat_plus_one)
  have put: "mem_put (Suc n) bs (buf[n := b]) = mem_put n (b # bs) buf" if "n < length buf" for n and buf :: bytes
    using that by (simp add: mem_put_def take_Suc_conv_app_nth)
  have n: "unat (rx_index s) < 8" using Cons.prems(2,3) by (simp add: word_less_nat_alt word_le_nat_alt)
  show ?case
  proof (cases bs)
    case Nil
    then have "rx_index s + 1 = rx_len s" using i Cons.prems(5) by (simp add: word_unat_eq_iff)
    then show ?thesis
      using Cons.prems(1,4) n Nil put [of "unat (rx_index s)" "rx_buffer s"]
      by (simp add: uart_isr_byte_def Let_def)
  next
    case (Cons c cs)
    let ?s = "s\<lparr>rx_buffer := (rx_buffer s)[unat (rx_index s) := b], rx_index := rx_index s + 1\<rparr>"
    have lt: "rx_index s + 1 < rx_len s" using i Cons.prems(5) Cons by (simp add: word_less_nat_alt)
    have step: "uart_isr_byte b s = ?s"
      using Cons.prems(1) lt by (simp add: uart_isr_byte_def Let_def)
    show ?thesis
      using Cons.IH [of ?s] Cons.prems lt i n put [of "unat (rx_index s)" "rx_buffer s"]
      by (simp add: step)
  qed
qed

lemma len_high_lost: "(ucast (push_bit 8 (ucast (b :: u8) :: u32)) :: u8) = 0"
  by (rule bit_word_eqI) (auto simp: bit_ucast_iff bit_push_bit_iff)

text \<open>The bytes of a frame with any length-high byte and any checksum bytes, from an idle parser.\<close>

lemma isr_raw:
  assumes "rx_state s = UART_STATE_IDLE" and "length (rx_buffer s) = 8"
    and "t = UART_FRAME_CMD \<or> t = UART_FRAME_DATA" and "length data \<le> 8"
  shows "\<exists>i buf n crc. length buf = 8 \<and>
    fold uart_isr_byte ([UART_FRAME_HEAD, t, h, of_nat (length data)] @ data @ [c1, c2]) s =
      s\<lparr>rx_type := t, rx_len := n, rx_index := i, rx_buffer := buf, rx_crc := crc,
        uart_msgq := (if crc16_ccitt data = push_bit 8 (ucast c1) OR ucast c2
          then msgq_put \<lparr>uf_type = t, uf_data = data\<rparr> (uart_msgq s) else uart_msgq s)\<rparr>"
proof -
  let ?n = "of_nat (length data) :: u8"
  have un: "unat ?n = length data" using assms(4) by (simp add: unat_of_nat)
  have n8: "?n \<le> 8" using assms(4) un by (simp add: word_le_nat_alt)
  let ?s4 = "s\<lparr>rx_type := t, rx_index := 0, rx_len := ?n,
      rx_state := (if ?n > 0 then UART_STATE_DATA else UART_STATE_CRC_H)\<rparr>"
  have head: "fold uart_isr_byte [UART_FRAME_HEAD, t, h, ?n] s = ?s4"
    using assms(1,3) n8 by (auto simp: uart_isr_byte_def Let_def len_high_lost uart_const_defs)
  let ?buf = "mem_put 0 data (rx_buffer s)"
  have body: "fold uart_isr_byte data ?s4 =
      s\<lparr>rx_type := t, rx_index := ?n, rx_len := ?n, rx_buffer := ?buf, rx_state := UART_STATE_CRC_H\<rparr>"
  proof (cases "data = []")
    case True
    then show ?thesis by simp
  next
    case False
    then have "?n > 0" using un by (simp add: word_less_nat_alt)
    then show ?thesis using assms(2) n8 un by (subst fold_bytes_data) simp_all
  qed
  have "take (length data) ?buf = data" by (simp add: mem_put_def)
  moreover have "length ?buf = 8" using assms(2,4) by simp
  ultimately show ?thesis
    unfolding fold_append comp_def head body using un assms(1)
    by (intro exI [of _ ?n] exI [of _ ?buf] exI [of _ "push_bit 8 (ucast c1) OR ucast c2"])
      (simp add: uart_isr_byte_def Let_def)
qed

lemma crc_bytes: "push_bit 8 (ucast (ucast (drop_bit 8 c AND 0xFF :: u16) :: u8))
    OR ucast (ucast (c AND 0xFF :: u16) :: u8) = (c :: u16)"
proof -
  have m: "(0xFF :: u16) = mask 8" by (simp add: mask_eq_exp_minus_1)
  show ?thesis
    unfolding m
    by (rule bit_word_eqI) (auto simp: bit_or_iff bit_push_bit_iff bit_ucast_iff bit_and_iff bit_mask_iff bit_drop_bit_eq)
qed

lemma tail_ignored:
  "rx_state s = UART_STATE_IDLE \<Longrightarrow> uart_isr_byte UART_FRAME_TAIL s = s"
  by (simp add: uart_isr_byte_def uart_const_defs)

lemma isr_frame:
  assumes "rx_state s = UART_STATE_IDLE" and "length (rx_buffer s) = 8"
    and "t = UART_FRAME_CMD \<or> t = UART_FRAME_DATA" and "length data \<le> 8"
  shows "let s' = uart_isr (uart_send_frame t data) s in
    rx_state s' = UART_STATE_IDLE \<and> length (rx_buffer s') = 8 \<and>
    uart_msgq s' = msgq_put \<lparr>uf_type = t, uf_data = data\<rparr> (uart_msgq s)"
proof -
  let ?c = "crc16_ccitt data"
  let ?c1 = "ucast (drop_bit 8 ?c AND 0xFF) :: u8" and ?c2 = "ucast (?c AND 0xFF) :: u8"
  obtain i buf n crc where r: "length buf = 8"
    "fold uart_isr_byte ([UART_FRAME_HEAD, t, 0, of_nat (length data)] @ data @ [?c1, ?c2]) s =
      s\<lparr>rx_type := t, rx_len := n, rx_index := i, rx_buffer := buf, rx_crc := crc,
        uart_msgq := (if ?c = push_bit 8 (ucast ?c1) OR ucast ?c2
          then msgq_put \<lparr>uf_type = t, uf_data = data\<rparr> (uart_msgq s) else uart_msgq s)\<rparr>"
    using isr_raw [OF assms, of 0 ?c1 ?c2] by blast
  have split: "uart_send_frame t data =
      ([UART_FRAME_HEAD, t, 0, of_nat (length data)] @ data @ [?c1, ?c2]) @ [UART_FRAME_TAIL]"
    by (simp add: uart_send_frame_def Let_def)
  have snoc: "uart_isr (xs @ [b]) s = uart_isr_byte b (fold uart_isr_byte xs s)" for xs b
    by (simp add: uart_isr_def)
  show ?thesis
    unfolding split snoc r(2) crc_bytes using r(1) assms(1) by (simp add: tail_ignored)
qed

section \<open>Parser invariant\<close>

definition uart_msg_ok :: "uart_frame \<Rightarrow> bool" where
  "uart_msg_ok m \<longleftrightarrow> length (uf_data m) \<le> 8 \<and> (uf_type m = UART_FRAME_CMD \<or> uf_type m = UART_FRAME_DATA)"

definition uart_inv :: "uart_rx \<Rightarrow> bool" where
  "uart_inv s \<longleftrightarrow> length (rx_buffer s) = 8 \<and> length (uart_msgq s) \<le> UART_MSGQ_MAX \<and>
     list_all uart_msg_ok (uart_msgq s) \<and>
     (rx_state s \<notin> {UART_STATE_IDLE, UART_STATE_TYPE} \<longrightarrow>
        rx_type s = UART_FRAME_CMD \<or> rx_type s = UART_FRAME_DATA) \<and>
     (rx_state s \<in> {UART_STATE_LEN_H, UART_STATE_LEN_L} \<longrightarrow> rx_index s = 0) \<and>
     (rx_state s = UART_STATE_DATA \<longrightarrow> rx_index s < rx_len s) \<and>
     (rx_state s \<in> {UART_STATE_DATA, UART_STATE_CRC_H, UART_STATE_CRC_L} \<longrightarrow> rx_len s \<le> 8)"

lemma msgq_put_ok:
  "length q \<le> UART_MSGQ_MAX \<Longrightarrow> list_all uart_msg_ok q \<Longrightarrow> uart_msg_ok m \<Longrightarrow>
   length (msgq_put m q) \<le> UART_MSGQ_MAX \<and> list_all uart_msg_ok (msgq_put m q)"
  by (simp add: msgq_put_def)

lemma uart_isr_byte_inv: "uart_inv s \<Longrightarrow> uart_inv (uart_isr_byte b s)"
proof (cases "rx_state s")
  case UART_STATE_DATA
  assume "uart_inv s"
  then show ?thesis using UART_STATE_DATA by (auto simp: uart_inv_def uart_isr_byte_def Let_def)
next
  case UART_STATE_CRC_L
  assume inv: "uart_inv s"
  then have "uart_msg_ok \<lparr>uf_type = rx_type s, uf_data = take (unat (rx_len s)) (rx_buffer s)\<rparr>"
    using UART_STATE_CRC_L by (auto simp: uart_inv_def uart_msg_ok_def word_le_nat_alt)
  then show ?thesis
    using inv UART_STATE_CRC_L msgq_put_ok [of "uart_msgq s"]
    by (auto simp: uart_inv_def uart_isr_byte_def Let_def)
qed (auto simp: uart_inv_def uart_isr_byte_def Let_def word_neq_0_conv)

lemma uart_isr_inv: "uart_inv s \<Longrightarrow> uart_inv (uart_isr bs s)"
  unfolding uart_isr_def by (induction bs arbitrary: s) (auto simp: uart_isr_byte_inv)

lemma uart_boot_inv: "uart_inv uart_rx_boot"
  by (simp add: uart_inv_def uart_rx_boot_def)

lemma isr_msg:
  assumes "rx_state s = UART_STATE_IDLE" and "length (rx_buffer s) = 8" and "uart_msg_ok m"
  shows "rx_state (uart_isr (uart_send_frame (uf_type m) (uf_data m)) s) = UART_STATE_IDLE"
    and "length (rx_buffer (uart_isr (uart_send_frame (uf_type m) (uf_data m)) s)) = 8"
    and "uart_msgq (uart_isr (uart_send_frame (uf_type m) (uf_data m)) s) = msgq_put m (uart_msgq s)"
proof -
  have m: "\<lparr>uf_type = uf_type m, uf_data = uf_data m\<rparr> = m" by simp
  have ok: "uf_type m = UART_FRAME_CMD \<or> uf_type m = UART_FRAME_DATA" "length (uf_data m) \<le> 8"
    using assms(3) by (auto simp: uart_msg_ok_def)
  note f = isr_frame [OF assms(1,2) ok, unfolded Let_def m]
  from f show "rx_state (uart_isr (uart_send_frame (uf_type m) (uf_data m)) s) = UART_STATE_IDLE"
    and "length (rx_buffer (uart_isr (uart_send_frame (uf_type m) (uf_data m)) s)) = 8"
    and "uart_msgq (uart_isr (uart_send_frame (uf_type m) (uf_data m)) s) = msgq_put m (uart_msgq s)"
    by blast+
qed

end
