(* ===== verification/Bootloader_Props.thy ===== *)
theory Bootloader_Props
  imports Boot_Uart
begin

text \<open>
  Correctness of the bootloader: an upload puts exactly the announced bytes at the application's
  address and answers block by block; the erase loop ends and covers the image; the serial
  transport delivers what was sent and nothing that was damaged in one byte; the upgrade flag works
  once.  Also the behaviour after a failed flash write, and with a driver whose offsets start at 0.
\<close>

section \<open>The flash driver\<close>

definition upd_block :: "u32 \<Rightarrow> bytes \<Rightarrow> (u32 \<Rightarrow> u8) \<Rightarrow> u32 \<Rightarrow> u8" where
  "upd_block a bs m = (\<lambda>x. if unat (x - a) < length bs then bs ! unat (x - a) else m x)"

text \<open>What the success theorems rely on, for the memory \<open>mem d\<close> of a device: no call fails.\<close>

definition flash_writes_ok :: "'d flash_api \<Rightarrow> ('d \<Rightarrow> u32 \<Rightarrow> u8) \<Rightarrow> bool" where
  "flash_writes_ok fl mem \<longleftrightarrow>
     (\<forall>a bs d. fst (flash_write fl a bs d) = 0 \<and> mem (snd (flash_write fl a bs d)) = upd_block a bs (mem d))"

definition flash_erases_ok :: "'d flash_api \<Rightarrow> ('d \<Rightarrow> u32 \<Rightarrow> u8) \<Rightarrow> bool" where
  "flash_erases_ok fl mem \<longleftrightarrow>
     (\<forall>a. fst (page_info fl a) = 0 \<and> 0 < snd (snd (page_info fl a))) \<and>
     (\<forall>a n d. fst (flash_erase fl a n d) = 0 \<and>
       mem (snd (flash_erase fl a n d)) = (\<lambda>x. if x - a < n then 0xFF else mem d x))"

lemma sub_of_nat_range:
  fixes y :: "'a::len word"
  assumes "k + n \<le> 2 ^ LENGTH('a)" and "0 < n"
  shows "unat (y - of_nat k) < n \<longleftrightarrow> k \<le> unat y \<and> unat y < k + n"
    and "k \<le> unat y \<Longrightarrow> unat (y - of_nat k) = unat y - k"
proof -
  have k: "unat (of_nat k :: 'a word) = k"
    using assms by (simp add: unat_of_nat)
  have y: "unat y < 2 ^ LENGTH('a)" by (rule unsigned_less)
  show ge: "unat (y - of_nat k) = unat y - k" if "k \<le> unat y"
    using that k by (simp add: unat_sub_if_size)
  have lt: "unat (y - of_nat k) = unat y + 2 ^ LENGTH('a) - k" if "\<not> k \<le> unat y"
    using that k by (simp add: unat_sub_if_size word_size)
  show "unat (y - of_nat k) < n \<longleftrightarrow> k \<le> unat y \<and> unat y < k + n"
    using ge lt y assms by (cases "k \<le> unat y") auto
qed

lemma upd_block_append:
  assumes "length xs + length ys \<le> 2 ^ 32"
  shows "upd_block (a + of_nat (length xs)) ys (upd_block a xs m) = upd_block a (xs @ ys) m"
proof (cases "ys = []")
  case True
  then show ?thesis by (simp add: upd_block_def)
next
  case False
  then have r: "unat (y - of_nat (length xs)) < length ys \<longleftrightarrow> length xs \<le> unat y \<and> unat y < length xs + length ys"
    "length xs \<le> unat y \<Longrightarrow> unat (y - of_nat (length xs)) = unat y - length xs" for y :: u32
    using sub_of_nat_range [of "length xs" "length ys" y] assms by auto
  have d: "x - (a + of_nat (length xs)) = x - a - of_nat (length xs)" for x by simp
  show ?thesis
    unfolding upd_block_def d using r by (intro ext) (auto simp: nth_append)
qed

section \<open>The data loop\<close>

definition block_resp :: "(u32 \<Rightarrow> u32 \<Rightarrow> wire) \<Rightarrow> nat \<Rightarrow> nat \<Rightarrow> wire list" where
  "block_resp c tot j =
     (if j = tot then [c (code_val FW_CODE_UPDATE_SUCCESS) (of_nat j)]
      else if j mod 64 = 0 \<and> j mod 4096 \<noteq> 0 then [c (code_val FW_CODE_OFFSET) (of_nat j)]
      else [])"

definition block_resps :: "(u32 \<Rightarrow> u32 \<Rightarrow> wire) \<Rightarrow> nat \<Rightarrow> nat \<Rightarrow> wire list" where
  "block_resps c tot n = concat (map (\<lambda>j. block_resp c tot (Suc j)) [0..<n])"

text \<open>
  The engine has received \<open>img\<close> since the start command: whole blocks are in flash, the rest is in
  the buffer, and the responses of \<open>block_resps\<close> went out after \<open>out0\<close>.
\<close>

definition boot_img :: "('d \<Rightarrow> u32 \<Rightarrow> u8) \<Rightarrow> (u32 \<Rightarrow> u8) \<Rightarrow> (u32 \<Rightarrow> u32 \<Rightarrow> wire) \<Rightarrow> wire list \<Rightarrow>
    bytes \<Rightarrow> 'd boot \<Rightarrow> bool" where
  "boot_img mem m0 c out0 img s \<longleftrightarrow>
     length (flash_buffer s) = 64 \<and> unat (received_fw_size s) = length img \<and>
     length img \<le> unat (total_fw_size s) \<and> response_cb s = Some c \<and>
     boot_out s = out0 @ block_resps c (unat (total_fw_size s)) (length img) \<and>
     (\<exists>k. k \<le> length img \<and> unat (flash_buffer_index s) = length img - k \<and> length img - k < 64 \<and>
        (length img = unat (total_fw_size s) \<or> k mod 64 = 0) \<and> (length img = unat (total_fw_size s) \<longrightarrow> k = length img) \<and>
        current_flash_addr s = FLASH_APP_START_ADDR + of_nat k \<and>
        take (length img - k) (flash_buffer s) = drop k img \<and>
        mem (boot_flash s) = upd_block FLASH_APP_START_ADDR (take k img) m0)"

definition put_byte :: "u8 \<Rightarrow> 'd boot \<Rightarrow> 'd boot" where
  "put_byte b s = s\<lparr>flash_buffer := (flash_buffer s)[unat (flash_buffer_index s) := b],
     flash_buffer_index := flash_buffer_index s + 1, received_fw_size := received_fw_size s + 1\<rparr>"

definition data_step :: "'d flash_api \<Rightarrow> u8 \<Rightarrow> 'd boot \<Rightarrow> 'd boot" where
  "data_step fl b s =
     (let s = put_byte b s
      in if unat (flash_buffer_index s) \<ge> FLASH_BUFFER_SIZE \<or> received_fw_size s \<ge> total_fw_size s
         then block_response (advance (snd (flush_buffer fl s)))
         else s)"

lemma flush_ok:
  assumes "flash_writes_ok fl mem"
  obtains d where "flush_buffer fl s = (0, s\<lparr>boot_flash := d\<rparr>)"
    and "mem d = upd_block (current_flash_addr s) (take (unat (flash_buffer_index s)) (flash_buffer s)) (mem (boot_flash s))"
proof -
  let ?w = "flash_write fl (current_flash_addr s) (take (unat (flash_buffer_index s)) (flash_buffer s)) (boot_flash s)"
  have "fst ?w = 0" "mem (snd ?w) = upd_block (current_flash_addr s)
      (take (unat (flash_buffer_index s)) (flash_buffer s)) (mem (boot_flash s))"
    using assms by (simp_all add: flash_writes_ok_def)
  moreover obtain e d where "?w = (e, d)" by fastforce
  ultimately show ?thesis using that [of "snd ?w"] by (simp add: flush_buffer_def)
qed

lemma u32_mod_conv:
  fixes x :: u32
  shows "x mod 4096 = 0 \<longleftrightarrow> unat x mod 4096 = 0" and "x mod 64 = 0 \<longleftrightarrow> unat x mod 64 = 0"
  by (simp_all add: word_unat_eq_iff unat_mod_distrib)

lemma block_response_out:
  assumes "response_cb s = Some c"
  shows "block_response s = s\<lparr>boot_out := boot_out s @
    (if received_fw_size s \<ge> total_fw_size s then [c (code_val FW_CODE_UPDATE_SUCCESS) (received_fw_size s)]
     else if unat (received_fw_size s) mod 64 = 0 \<and> unat (received_fw_size s) mod 4096 \<noteq> 0
     then [c (code_val FW_CODE_OFFSET) (received_fw_size s)] else [])\<rparr>"
  using assms by (auto simp: block_response_def fw_send_response_def u32_mod_conv)

lemma data_step_img:
  assumes "flash_writes_ok fl mem" and inv: "boot_img mem m0 c out0 img s"
    and more: "length img < unat (total_fw_size s)"
  shows "boot_img mem m0 c out0 (img @ [b]) (data_step fl b s)" (is ?img)
    and "total_fw_size (data_step fl b s) = total_fw_size s" (is ?total)
proof -
  let ?n = "length img" and ?t = "unat (total_fw_size s)"
  obtain k where buf: "length (flash_buffer s) = 64" and rec: "unat (received_fw_size s) = ?n"
    and cb: "response_cb s = Some c" and out: "boot_out s = out0 @ block_resps c ?t ?n"
    and k: "k \<le> ?n" "unat (flash_buffer_index s) = ?n - k" "?n - k < 64" "k mod 64 = 0"
      "current_flash_addr s = FLASH_APP_START_ADDR + of_nat k"
      "take (?n - k) (flash_buffer s) = drop k img"
      "mem (boot_flash s) = upd_block FLASH_APP_START_ADDR (take k img) m0"
    using inv more unfolding boot_img_def by auto
  let ?s = "put_byte b s"
  have idx: "unat (flash_buffer_index ?s) = Suc ?n - k"
    using k(1-3) unat_plus_one [of "flash_buffer_index s" 64] by (simp add: put_byte_def word_less_nat_alt)
  have rec': "unat (received_fw_size ?s) = Suc ?n"
    using rec more unat_plus_one [of "received_fw_size s" "total_fw_size s"]
    by (simp add: put_byte_def word_less_nat_alt)
  have recw: "received_fw_size ?s = of_nat (Suc ?n)" using rec' by (rule unat_eqD)
  have fin: "received_fw_size ?s \<ge> total_fw_size ?s \<longleftrightarrow> Suc ?n = ?t"
    using rec' more by (auto simp: put_byte_def word_le_nat_alt)
  have take': "take (Suc ?n - k) (flash_buffer ?s) = drop k (img @ [b])"
    using k buf by (simp add: put_byte_def Suc_diff_le take_Suc_conv_app_nth)
  have resps: "block_resps c ?t (Suc ?n) = block_resps c ?t ?n @ block_resp c ?t (Suc ?n)"
    by (simp add: block_resps_def)
  have same: "total_fw_size ?s = total_fw_size s" "response_cb ?s = Some c" "boot_out ?s = boot_out s"
    "current_flash_addr ?s = current_flash_addr s" "boot_flash ?s = boot_flash s" "length (flash_buffer ?s) = 64"
    using cb buf by (simp_all add: put_byte_def)
  have "?img \<and> ?total"
  proof (cases "64 \<le> Suc ?n - k \<or> Suc ?n = ?t")
    case True
    obtain d where d: "flush_buffer fl ?s = (0, ?s\<lparr>boot_flash := d\<rparr>)"
      "mem d = upd_block (FLASH_APP_START_ADDR + of_nat k) (drop k (img @ [b])) (upd_block FLASH_APP_START_ADDR (take k img) m0)"
      using flush_ok [OF assms(1), of ?s] unfolding idx take' same k(5,7) by blast
    have len: "length (take k img) = k" using k(1) by simp
    have "?t < 2 ^ 32" using unsigned_less [of "total_fw_size s", where ?'a = nat] by simp
    then have "length (take k img) + length (drop k (img @ [b])) \<le> 2 ^ 32" using more k(1) by simp
    from upd_block_append [OF this, of FLASH_APP_START_ADDR m0]
    have "mem d = upd_block FLASH_APP_START_ADDR (take k img @ drop k (img @ [b])) m0"
      unfolding d(2) len by simp
    moreover have "take k img @ drop k (img @ [b]) = img @ [b]"
      using k(1) append_take_drop_id [of k "img @ [b]"] by simp
    ultimately have "mem d = upd_block FLASH_APP_START_ADDR (img @ [b]) m0" by simp
    moreover have step: "data_step fl b s = block_response (advance (?s\<lparr>boot_flash := d\<rparr>))"
      using True d(1) idx fin by (simp add: data_step_def Let_def FLASH_BUFFER_SIZE_def)
    moreover have "Suc ?n = ?t \<or> Suc ?n mod 64 = 0"
      using True k(1,3,4) by presburger
    moreover have "unat (ucast (flash_buffer_index ?s) :: u32) = Suc ?n - k"
      using idx k(3) by (simp add: unsigned_ucast_eq take_bit_nat_eq_self)
    then have "ucast (flash_buffer_index ?s) = (of_nat (Suc ?n - k) :: u32)" by (rule unat_eqD)
    then have "FLASH_APP_START_ADDR + of_nat k + ucast (flash_buffer_index ?s) = FLASH_APP_START_ADDR + of_nat (Suc ?n)"
      using k(1) by (simp add: Suc_diff_le of_nat_diff)
    ultimately have adv: "mem d = upd_block FLASH_APP_START_ADDR (img @ [b]) m0"
      "data_step fl b s = block_response (advance (?s\<lparr>boot_flash := d\<rparr>))"
      "Suc ?n = ?t \<or> Suc ?n mod 64 = 0"
      "FLASH_APP_START_ADDR + of_nat k + ucast (flash_buffer_index ?s) = FLASH_APP_START_ADDR + of_nat (Suc ?n)"
      by auto
    define t where "t = advance (?s\<lparr>boot_flash := d\<rparr>)"
    have t: "flash_buffer t = flash_buffer ?s" "flash_buffer_index t = 0" "received_fw_size t = received_fw_size ?s"
      "total_fw_size t = total_fw_size s" "response_cb t = Some c" "boot_out t = boot_out s" "boot_flash t = d"
      "current_flash_addr t = FLASH_APP_START_ADDR + of_nat (Suc ?n)"
      using same adv(4) k(5) by (simp_all add: t_def advance_def)
    have resp: "data_step fl b s = t\<lparr>boot_out := boot_out s @ block_resp c ?t (Suc ?n)\<rparr>"
      unfolding adv(2) t_def [symmetric] block_response_out [OF t(5)] t(3,4,6) rec'
      using fin same(1) recw by (simp add: block_resp_def del: of_nat_Suc)
    show ?thesis
      unfolding resp boot_img_def using t same rec' more out adv(1,3)
      by (auto simp: resps simp del: of_nat_Suc intro!: exI [of _ "Suc ?n"])
  next
    case False
    then have "Suc ?n mod 64 \<noteq> 0" using k(1,4) by presburger
    moreover have "data_step fl b s = ?s"
      using False idx fin by (simp add: data_step_def Let_def FLASH_BUFFER_SIZE_def)
    ultimately show ?thesis
      using False same rec' k out take' idx more
      unfolding boot_img_def by (auto simp: resps block_resp_def intro!: exI [of _ k])
  qed
  then show ?img ?total by simp_all
qed

lemma fw_data_loop_step:
  assumes "flash_writes_ok fl mem" and "boot_img mem m0 c out0 img s" and "length img < unat (total_fw_size s)"
    and "i < n" and "i < length data"
  shows "fw_data_loop fl data n i s = fw_data_loop fl data n (Suc i) (data_step fl (data ! i) s)"
proof -
  have c: "received_fw_size s < total_fw_size s" "\<not> FLASH_BUFFER_SIZE \<le> unat (flash_buffer_index s)"
    using assms(2,3) by (auto simp: boot_img_def word_less_nat_alt FLASH_BUFFER_SIZE_def)
  obtain d where "flush_buffer fl (put_byte (data ! i) s) = (0, put_byte (data ! i) s\<lparr>boot_flash := d\<rparr>)"
    using flush_ok [OF assms(1)] by metis
  then show ?thesis
    using c assms(4,5) by (subst fw_data_loop.simps) (simp add: Let_def data_step_def flip: put_byte_def)
qed

lemma fw_data_loop_img:
  assumes "flash_writes_ok fl mem" and "n \<le> length data"
  shows "boot_img mem m0 c out0 img s \<Longrightarrow> \<exists>s'. fw_data_loop fl data n i s = Inr (0, s') \<and>
    total_fw_size s' = total_fw_size s \<and>
    boot_img mem m0 c out0 (img @ take (unat (total_fw_size s) - length img) (drop i (take n data))) s'"
proof (induction "n - i" arbitrary: i img s rule: less_induct)
  case less
  show ?case
  proof (cases "i < n \<and> length img < unat (total_fw_size s)")
    case False
    then have "\<not> (i < n \<and> received_fw_size s < total_fw_size s)"
      using less.prems by (auto simp: boot_img_def word_less_nat_alt)
    then have "fw_data_loop fl data n i s = Inr (0, s)" by (subst fw_data_loop.simps) (rule if_not_P)
    moreover have "take (unat (total_fw_size s) - length img) (drop i (take n data)) = []" using False by auto
    then have "img @ take (unat (total_fw_size s) - length img) (drop i (take n data)) = img" by simp
    ultimately show ?thesis using less.prems by (simp only: simp_thms)  auto
  next
    case True
    let ?s = "data_step fl (data ! i) s"
    note st = data_step_img [OF assms(1) less.prems conjunct2 [OF True], of "data ! i"]
    have "drop i (take n data) = data ! i # drop (Suc i) (take n data)"
      using True assms(2) by (metis Cons_nth_drop_Suc length_take min.absorb2 nth_take)
    moreover obtain m where "unat (total_fw_size s) - length img = Suc m" using True by (metis Suc_diff_Suc)
    moreover from this have "unat (total_fw_size s) - length (img @ [data ! i]) = m" by simp
    ultimately show ?thesis
      using less.hyps [of "Suc i" "img @ [data ! i]" ?s] st True assms(2)
        fw_data_loop_step [OF assms(1) less.prems, of i n data] by auto
  qed
qed

section \<open>Erasing\<close>

lemma erase_loop_stops:
  assumes "flash_erases_ok fl mem"
  shows "\<exists>d'. erase_loop fl n a d = Some (True, d')"
proof (induction "unat n" arbitrary: n a d rule: less_induct)
  case less
  obtain start p where i: "page_info fl a = (0, start, p)" "0 < p"
    using assms unfolding flash_erases_ok_def by (metis prod.collapse)
  obtain d' where e: "flash_erase fl start p d = (0, d')"
    using assms unfolding flash_erases_ok_def by (metis prod.collapse)
  show ?case
  proof (cases "n > 0")
    case True
    let ?m = "if p \<le> n then n - p else 0"
    have "unat ?m < unat n"
      using True i(2) by (auto simp: word_less_nat_alt word_le_nat_alt unat_sub)
    then show ?thesis using less [of ?m] True i e by (subst erase_loop.simps) simp
  next
    case False
    then show ?thesis by (subst erase_loop.simps) simp
  qed
qed

text \<open>Pages of \<open>2 ^ 11\<close> bytes, as the STM32F103xC's, from the application's address on.\<close>

definition pages_2k :: "'d flash_api \<Rightarrow> bool" where
  "pages_2k fl \<longleftrightarrow> (\<forall>k < 96. page_info fl (FLASH_APP_START_ADDR + of_nat (2048 * k)) =
     (0, FLASH_APP_START_ADDR + of_nat (2048 * k), 2048))"

definition round_2k :: "nat \<Rightarrow> nat" where
  "round_2k n = 2048 * ((n + 2047) div 2048)"

lemma round_2k_step: "0 < m \<Longrightarrow> round_2k m = 2048 + round_2k (m - 2048)"
proof (cases "m \<le> 2048")
  case True
  assume "0 < m"
  with True have "(m + 2047) div 2048 = 1" by (simp add: div_nat_eqI)
  with True show ?thesis by (simp add: round_2k_def)
next
  case False
  then obtain q where "m = q + 2048" by (metis add.commute le_add_diff_inverse nat_le_linear)
  moreover have "(q + 2048 + 2047) div 2048 = Suc ((q + 2047) div 2048)"
    using div_add_self2 [of 2048 "q + 2047"] by (simp add: add.commute add.left_commute)
  ultimately show ?thesis by (simp add: round_2k_def)
qed

lemma erase_loop_2k:
  assumes fl: "flash_erases_ok fl mem" and pages: "pages_2k fl"
  shows "2048 * k + unat n \<le> 2048 * 96 \<Longrightarrow>
    erase_loop fl n (FLASH_APP_START_ADDR + of_nat (2048 * k)) d = Some (r, d') \<Longrightarrow>
    mem d' = (\<lambda>x. if unat (x - (FLASH_APP_START_ADDR + of_nat (2048 * k))) < round_2k (unat n) then 0xFF else mem d x)"
proof (induction "unat n" arbitrary: n k d rule: less_induct)
  case less
  let ?a = "FLASH_APP_START_ADDR + of_nat (2048 * k) :: u32"
  show ?case
  proof (cases "n > 0")
    case False
    then have "n = 0" by (metis word_neq_0_conv)
    then show ?thesis using less.prems(2) by (simp add: erase_loop.simps round_2k_def)
  next
    case True
    then have n: "0 < unat n" by (simp add: word_less_nat_alt)
    have k: "k < 96" using less.prems(1) n by simp
    obtain d1 where e: "flash_erase fl ?a 2048 d = (0, d1)" "mem d1 = (\<lambda>x. if x - ?a < 2048 then 0xFF else mem d x)"
    proof -
      have "fst (flash_erase fl ?a 2048 d) = 0"
        "mem (snd (flash_erase fl ?a 2048 d)) = (\<lambda>x. if x - ?a < 2048 then 0xFF else mem d x)"
        using fl unfolding flash_erases_ok_def by blast+
      then show ?thesis using that by (cases "flash_erase fl ?a 2048 d") simp
    qed
    let ?m = "if 2048 \<le> n then n - 2048 else 0"
    have m: "unat ?m = unat n - 2048" by (auto simp: word_le_nat_alt unat_sub)
    have "2048 * Suc k + (unat n - 2048) \<le> 2048 * 96" using less.prems(1) k
      by (cases "unat n \<le> 2048") simp_all
    then have fits: "2048 * Suc k + unat ?m \<le> 2048 * 96" unfolding m .
    have a': "?a + 2048 = FLASH_APP_START_ADDR + of_nat (2048 * Suc k)" by simp
    have "page_info fl ?a = (0, ?a, 2048)" using pages k unfolding pages_2k_def by blast
    then have "erase_loop fl ?m (FLASH_APP_START_ADDR + of_nat (2048 * Suc k)) d1 = Some (r, d')"
      using less.prems(2) True e(1) unfolding a' [symmetric] by (subst (asm) erase_loop.simps) simp
    then have "mem d' = (\<lambda>x. if unat (x - (FLASH_APP_START_ADDR + of_nat (2048 * Suc k))) < round_2k (unat ?m)
        then 0xFF else mem d1 x)"
      by (intro less.hyps) (use n m fits in simp_all)
    moreover have "unat (x - (FLASH_APP_START_ADDR + of_nat (2048 * Suc k))) < round_2k (unat n - 2048) \<or> x - ?a < 2048
        \<longleftrightarrow> unat (x - ?a) < round_2k (unat n)" for x
    proof -
      have r: "round_2k (unat n) = 2048 + round_2k (unat n - 2048)" using n by (rule round_2k_step)
      have d: "x - (FLASH_APP_START_ADDR + of_nat (2048 * Suc k)) = x - ?a - of_nat 2048" by (simp add: algebra_simps)
      have "2048 + round_2k (unat n - 2048) \<le> 2 ^ LENGTH(32)"
        using less.prems(1) by (simp add: round_2k_def)
      then show ?thesis
        unfolding d r using sub_of_nat_range(1) [of 2048 "round_2k (unat n - 2048)" "x - ?a"]
        by (cases "round_2k (unat n - 2048) = 0") (auto simp: word_less_nat_alt)
    qed
    ultimately show ?thesis unfolding m e(2) by (auto simp: fun_eq_iff)
  qed
qed

section \<open>Uploads\<close>

text \<open>A sequence of turns of a transport thread: stops at a fault or at a turn that does not return.\<close>

fun boot_run :: "('e \<Rightarrow> 's \<Rightarrow> (boot_fault + int \<times> 's) option) \<Rightarrow> 'e list \<Rightarrow> 's \<Rightarrow> (boot_fault + 's) option" where
  "boot_run step [] s = Some (Inr s)"
| "boot_run step (e # es) s =
     (case step e s of
        None \<Rightarrow> None
      | Some (Inl f) \<Rightarrow> Some (Inl f)
      | Some (Inr (_, s')) \<Rightarrow> boot_run step es s')"

lemma boot_run_append:
  "boot_run step es s = Some (Inr s') \<Longrightarrow> boot_run step (es @ fs) s = boot_run step fs s'"
  by (induction es arbitrary: s) (auto split: option.splits sum.splits)

definition boot_data_frame :: "byteorder \<Rightarrow> can_frame \<Rightarrow> bool" where
  "boot_data_frame bo f \<longleftrightarrow> can_id f = CAN_ID_FW_DATA_RX \<and> frame_wf bo f"

definition boot_cmd_frame :: "byteorder \<Rightarrow> u32 \<Rightarrow> can_frame \<Rightarrow> bool" where
  "boot_cmd_frame bo cmd f \<longleftrightarrow> can_id f = CAN_ID_PLATFORM_RX \<and> dlc_to_bytes bo (can_dlc f) = 8 \<and> data_32 f 0 = cmd"

lemma boot_img_cb: "boot_img mem m0 c out0 img s \<Longrightarrow> fw_set_response_cb c s = s"
  by (simp add: boot_img_def fw_set_response_cb_def)

lemma data_turn:
  assumes "flash_writes_ok fl mem" and "boot_img mem m0 (fw_can_send_response bo) out0 img s" and "boot_data_frame bo f"
  shows "\<exists>r s'. fw_canrx_msg_handler bo fl v f s = Some (Inr (r, s')) \<and> total_fw_size s' = total_fw_size s \<and>
    boot_img mem m0 (fw_can_send_response bo) out0 (take (unat (total_fw_size s)) (img @ payload bo f)) s'"
proof -
  have len: "length img \<le> unat (total_fw_size s)" and rec: "unat (received_fw_size s) = length img"
    using assms(2) by (simp_all add: boot_img_def)
  have n: "unat (ucast (dlc_to_bytes bo (can_dlc f)) :: u32) = unat (dlc_to_bytes bo (can_dlc f))"
    using assms(3) by (simp add: boot_data_frame_def frame_wf_def unsigned_ucast_eq take_bit_nat_eq_self)
  have h: "fw_canrx_msg_handler bo fl v f s = fw_update bo fl v f s"
    using assms(3) boot_img_cb [OF assms(2)] by (simp add: fw_canrx_msg_handler_def Let_def boot_data_frame_def)
  have t: "take (unat (total_fw_size s)) (img @ payload bo f) =
      img @ take (unat (total_fw_size s) - length img) (payload bo f)"
    using len by simp
  show ?thesis
  proof (cases "received_fw_size s \<ge> total_fw_size s")
    case True
    then have "unat (total_fw_size s) - length img = 0" using rec by (simp add: word_le_nat_alt)
    then have "boot_img mem m0 (fw_can_send_response bo) out0 (take (unat (total_fw_size s)) (img @ payload bo f)) s"
      unfolding t using assms(2) by simp
    then show ?thesis
      unfolding h using True assms(3) by (auto simp: fw_update_def Let_def boot_data_frame_def boot_consts)
  next
    case False
    obtain s' where "fw_data_loop fl (can_data f) (unat (dlc_to_bytes bo (can_dlc f))) 0 s = Inr (0, s')"
      "total_fw_size s' = total_fw_size s"
      "boot_img mem m0 (fw_can_send_response bo) out0 (take (unat (total_fw_size s)) (img @ payload bo f)) s'"
      using fw_data_loop_img [OF assms(1) _ assms(2), of "unat (dlc_to_bytes bo (can_dlc f))" "can_data f" 0] assms(3)
      unfolding t by (auto simp: boot_data_frame_def frame_wf_def payload_def)
    then show ?thesis
      unfolding h using False assms(3) by (auto simp: fw_update_def Let_def boot_data_frame_def boot_consts n)
  qed
qed

lemma data_turns:
  assumes "flash_writes_ok fl mem"
  shows "boot_img mem m0 (fw_can_send_response bo) out0 img s \<Longrightarrow> list_all (boot_data_frame bo) fs \<Longrightarrow>
    \<exists>s'. boot_run (fw_canrx_msg_handler bo fl v) fs s = Some (Inr s') \<and> total_fw_size s' = total_fw_size s \<and>
      boot_img mem m0 (fw_can_send_response bo) out0
        (take (unat (total_fw_size s)) (img @ concat (map (payload bo) fs))) s'"
proof (induction fs arbitrary: img s)
  case Nil
  then have "take (unat (total_fw_size s)) img = img" by (simp add: boot_img_def)
  with Nil show ?case by simp
next
  case (Cons f fs)
  obtain r s' where s': "fw_canrx_msg_handler bo fl v f s = Some (Inr (r, s'))" "total_fw_size s' = total_fw_size s"
    "boot_img mem m0 (fw_can_send_response bo) out0 (take (unat (total_fw_size s)) (img @ payload bo f)) s'"
    using data_turn [OF assms Cons.prems(1)] Cons.prems(2) by fastforce
  have t: "take n (take n xs @ ys) = take n (xs @ ys)" for n and xs ys :: bytes
    by (cases "n \<le> length xs") auto
  have fs: "list_all (boot_data_frame bo) fs" using Cons.prems(2) by simp
  obtain s'' where "boot_run (fw_canrx_msg_handler bo fl v) fs s' = Some (Inr s'')" "total_fw_size s'' = total_fw_size s'"
    "boot_img mem m0 (fw_can_send_response bo) out0
      (take (unat (total_fw_size s')) ((img @ payload bo f) @ concat (map (payload bo) fs))) s''"
    using Cons.IH [OF s'(3) fs] unfolding s'(2) t by blast
  then show ?case using s'(1,2) by simp
qed

lemma start_turn:
  assumes "flash_erases_ok fl mem" and "boot_cmd_frame bo BOARD_START_UPDATE f" and "length (flash_buffer s) = 64"
  shows "\<exists>s'. fw_canrx_msg_handler bo fl v f s = Some (Inr (0, s')) \<and> total_fw_size s' = data_32 f 1 \<and>
    Some (True, boot_flash s') = erase_loop fl (clamp_erase (data_32 f 1)) FLASH_APP_START_ADDR (boot_flash s) \<and>
    boot_img mem (mem (boot_flash s')) (fw_can_send_response bo)
      (boot_out s @ [fw_can_send_response bo (code_val FW_CODE_OFFSET) 0]) [] s'"
proof -
  obtain d' where d: "erase_loop fl (clamp_erase (data_32 f 1)) FLASH_APP_START_ADDR (boot_flash s) = Some (True, d')"
    using erase_loop_stops [OF assms(1)] by blast
  have upd: "upd_block a [] m = m" for a m by (simp add: upd_block_def)
  show ?thesis
    using assms(2,3) d
    by (simp add: fw_canrx_msg_handler_def fw_update_def Let_def boot_cmd_frame_def boot_consts start_upgrade_def
        fw_set_response_cb_def fw_send_response_def boot_img_def block_resps_def upd)
qed

lemma confirm_turn:
  assumes "boot_img mem m0 (fw_can_send_response bo) out0 img s" and "length img = unat (total_fw_size s)"
    and "boot_cmd_frame bo BOARD_CONFIRM f"
  shows "\<exists>s'. fw_canrx_msg_handler bo fl v f s = Some (Inr (0, s')) \<and> boot_flash s' = boot_flash s \<and>
    boot_out s' = boot_out s @ [fw_can_send_response bo (code_val FW_CODE_CONFIRM) 0x55AA55AA] \<and>
    boot_jump s' = Some (APP_START_ADDR, mapped_word fl APP_START_ADDR (boot_flash s),
      mapped_word fl (APP_START_ADDR + 4) (boot_flash s))"
proof -
  have "unat (flash_buffer_index s) = 0" and r: "received_fw_size s = total_fw_size s" and "response_cb s = Some (fw_can_send_response bo)"
    using assms(1,2) by (auto simp: boot_img_def word_unat_eq_iff)
  then show ?thesis
    using assms(3) boot_img_cb [OF assms(1)]
    by (simp add: fw_canrx_msg_handler_def fw_update_def Let_def boot_cmd_frame_def boot_consts confirm_upgrade_def
        fw_send_response_def JumpToApp_def unat_eq_zero)
qed

section \<open>Properties\<close>


text \<open>A concrete flash for the witnesses: a memory whose calls succeed, with pages of 2048 bytes.\<close>

definition mem_flash :: "(u32 \<Rightarrow> u8) flash_api" where
  "mem_flash = \<lparr>page_info = (\<lambda>a. (0, a AND NOT 2047, 2048)),
     flash_erase = (\<lambda>a n m. (0, \<lambda>x. if x - a < n then 0xFF else m x)),
     flash_write = (\<lambda>a bs m. (0, upd_block a bs m)),
     flash_read = (\<lambda>a n m. Some (map (\<lambda>i. m (a + of_nat i)) [0..<n])),
     mapped_word = (\<lambda>a m. le32_at 0 (map (\<lambda>i. m (a + of_nat i)) [0..<4]))\<rparr>"

lemma mem_flash_ok: "flash_writes_ok mem_flash (\<lambda>m. m)" and mem_flash_erases: "flash_erases_ok mem_flash (\<lambda>m. m)"
  by (simp_all add: flash_writes_ok_def flash_erases_ok_def mem_flash_def)

definition demo_boot :: "(u32 \<Rightarrow> u8) boot" where
  "demo_boot = boot_reset_state (\<lambda>_. 0)"

lemma demo_boot_buf [simp]: "length (flash_buffer demo_boot) = 64" "boot_out demo_boot = []"
  by (simp_all add: demo_boot_def boot_reset_state_def FLASH_BUFFER_SIZE_def)


text \<open>
  C9: the erase loop of the start command ends; with pages of 2048 bytes it leaves exactly the
  pages that hold the image erased, never more than the application area, and changes no other byte.
\<close>

theorem boot_erase:
  assumes "flash_erases_ok fl mem" and "pages_2k fl" and "boot_cmd_frame bo BOARD_START_UPDATE f"
    and "length (flash_buffer s) = 64"
  shows "\<exists>s'. fw_canrx_msg_handler bo fl v f s = Some (Inr (0, s')) \<and>
    mem (boot_flash s') = (\<lambda>x. if unat (x - FLASH_APP_START_ADDR) < min (round_2k (unat (data_32 f 1))) 0x30000
      then 0xFF else mem (boot_flash s) x)"
proof -
  obtain s1 where 1: "fw_canrx_msg_handler bo fl v f s = Some (Inr (0, s1))"
    "erase_loop fl (clamp_erase (data_32 f 1)) FLASH_APP_START_ADDR (boot_flash s) = Some (True, boot_flash s1)"
    using start_turn [OF assms(1,3,4)] by metis
  have c: "unat (clamp_erase (data_32 f 1)) = min (unat (data_32 f 1)) 0x30000"
    by (auto simp: clamp_erase_def boot_consts word_less_nat_alt)
  then have le: "unat (clamp_erase (data_32 f 1)) \<le> 0x30000" by simp
  have r: "round_2k (min n 0x30000) = min (round_2k n) 0x30000" for n
  proof (cases "n \<le> 0x30000")
    case True
    then have "(n + 2047) div 2048 \<le> (0x30000 + 2047) div 2048" by (intro div_le_mono) simp
    with True show ?thesis by (simp add: round_2k_def)
  next
    case False
    then have "(0x30000 + 2047) div 2048 \<le> (n + 2047) div 2048" by (intro div_le_mono) simp
    with False show ?thesis by (simp add: round_2k_def)
  qed
  have "mem (boot_flash s1) = (\<lambda>x. if unat (x - FLASH_APP_START_ADDR) < round_2k (unat (clamp_erase (data_32 f 1)))
      then 0xFF else mem (boot_flash s) x)"
    using erase_loop_2k [OF assms(1,2), of 0 "clamp_erase (data_32 f 1)" "boot_flash s" True "boot_flash s1"] 1(2) le
    by simp
  then show ?thesis using 1(1) unfolding c r by blast
qed

lemma mem_flash_pages: "pages_2k mem_flash"
proof -
  have a: "(0x08010000 + 2048 * of_nat k :: u32) AND NOT 2047 = 0x08010000 + 2048 * of_nat k" for k
  proof -
    have "(0x08010000 + 2048 * of_nat k :: u32) = push_bit 11 (0x10020 + of_nat k)"
      by (simp add: push_bit_eq_mult algebra_simps)
    moreover have "(NOT 2047 :: u32) = NOT (mask 11)" by (simp add: mask_eq_exp_minus_1)
    moreover have "push_bit 11 w AND NOT (mask 11) = push_bit 11 (w :: u32)" for w
      by (rule bit_word_eqI) (auto simp: bit_and_iff bit_push_bit_iff bit_not_iff bit_mask_iff)
    ultimately show ?thesis by simp
  qed
  show ?thesis using a by (simp add: pages_2k_def mem_flash_def boot_consts)
qed

theorem boot_erase_witness:
  "\<exists>s'. fw_canrx_msg_handler std_byteorder mem_flash 0
      \<lparr>can_id = 0x101, can_dlc = 8, can_data = le32_bytes 0 @ le32_bytes 5000\<rparr> demo_boot = Some (Inr (0, s')) \<and>
    boot_flash s' 0x080117FF = 0xFF \<and> boot_flash s' 0x08011800 = 0"
proof -
  let ?f = "\<lparr>can_id = 0x101, can_dlc = 8, can_data = le32_bytes 0 @ le32_bytes 5000\<rparr>"
  have f: "boot_cmd_frame std_byteorder BOARD_START_UPDATE ?f"
    by (simp add: boot_cmd_frame_def boot_consts data_32_def)
  have n: "data_32 ?f 1 = 5000" by (simp add: data_32_def)
  obtain s' where s: "fw_canrx_msg_handler std_byteorder mem_flash 0 ?f demo_boot = Some (Inr (0, s'))"
    "boot_flash s' = (\<lambda>x. if unat (x - FLASH_APP_START_ADDR) < min (round_2k 5000) 0x30000
      then 0xFF else boot_flash demo_boot x)"
    using boot_erase [OF mem_flash_erases mem_flash_pages f demo_boot_buf(1), of 0] unfolding n
    by auto
  then show ?thesis
    by (intro exI [of _ s'])
      (simp add: round_2k_def boot_consts demo_boot_def boot_reset_state_def)
qed

text \<open>
  C10: the serial transport delivers: the bytes of any sequence of frames of at most eight data
  bytes, sent one after the other to an idle parser, put exactly those messages on the queue, in
  order, until the queue is full, and leave the parser idle.
\<close>

theorem uart_stream:
  assumes "rx_state u = UART_STATE_IDLE" and "length (rx_buffer u) = 8" and "list_all uart_msg_ok ms"
    and "length (uart_msgq u) \<le> UART_MSGQ_MAX"
  shows "let u' = uart_isr (concat (map (\<lambda>m. uart_send_frame (uf_type m) (uf_data m)) ms)) u in
    rx_state u' = UART_STATE_IDLE \<and> uart_msgq u' = take UART_MSGQ_MAX (uart_msgq u @ ms)"
  using assms
proof (induction ms arbitrary: u)
  case Nil
  then show ?case by (simp add: uart_isr_def)
next
  case (Cons m ms)
  let ?u = "uart_isr (uart_send_frame (uf_type m) (uf_data m)) u"
  have split: "uart_isr (xs @ ys) u = uart_isr ys (uart_isr xs u)" for xs ys by (simp add: uart_isr_def)
  have u: "rx_state ?u = UART_STATE_IDLE" "length (rx_buffer ?u) = 8" "uart_msgq ?u = msgq_put m (uart_msgq u)"
    using isr_msg [OF Cons.prems(1,2)] Cons.prems(3) by simp_all
  have "length (uart_msgq ?u) \<le> UART_MSGQ_MAX" using Cons.prems(4) u(3) by (simp add: msgq_put_def)
  moreover have "take UART_MSGQ_MAX (uart_msgq ?u @ ms) = take UART_MSGQ_MAX (uart_msgq u @ m # ms)"
    using Cons.prems(4) u(3) by (auto simp: msgq_put_def take_Cons' Suc_diff_Suc)
  ultimately show ?case using Cons.IH [OF u(1,2)] Cons.prems(3) by (simp add: Let_def split)
qed

theorem uart_stream_witness:
  "uart_msgq (uart_isr (uart_send_frame 1 [9, 8] @ uart_send_frame 2 []) uart_rx_boot) =
    [\<lparr>uf_type = 1, uf_data = [9, 8]\<rparr>, \<lparr>uf_type = 2, uf_data = []\<rparr>]"
  using uart_stream [of uart_rx_boot "[\<lparr>uf_type = 1, uf_data = [9, 8]\<rparr>, \<lparr>uf_type = 2, uf_data = []\<rparr>]"]
  by (simp add: uart_rx_boot_def uart_msg_ok_def uart_const_defs UART_MSGQ_MAX_def Let_def)

text \<open>
  C11: a frame damaged in any one of its data bytes is not delivered, and the parser is ready for
  the next frame, whose message arrives.
\<close>

theorem uart_damaged_dropped:
  assumes "rx_state u = UART_STATE_IDLE" and "length (rx_buffer u) = 8"
    and "t = UART_FRAME_CMD \<or> t = UART_FRAME_DATA" and "length (xs @ b # ys) \<le> 8" and "b \<noteq> b'"
    and "uart_msg_ok m"
  shows "let crc = crc16_ccitt (xs @ b # ys);
             wire = [UART_FRAME_HEAD, t, 0, of_nat (length (xs @ b # ys))] @ (xs @ b' # ys) @
               [ucast (drop_bit 8 crc AND 0xFF), ucast (crc AND 0xFF)] in
    uart_send_frame t (xs @ b # ys) = take (4 + length xs) wire @ b # drop (5 + length xs) wire @ [UART_FRAME_TAIL] \<and>
    uart_msgq (uart_isr (wire @ UART_FRAME_TAIL # uart_send_frame (uf_type m) (uf_data m)) u) = msgq_put m (uart_msgq u)"
proof -
  let ?crc = "crc16_ccitt (xs @ b # ys)"
  let ?c1 = "ucast (drop_bit 8 ?crc AND 0xFF) :: u8" and ?c2 = "ucast (?crc AND 0xFF) :: u8"
  let ?w = "[UART_FRAME_HEAD, t, 0, of_nat (length (xs @ b' # ys))] @ (xs @ b' # ys) @ [?c1, ?c2]"
  have len: "length (xs @ b' # ys) \<le> 8" using assms(4) by simp
  obtain i buf n crc where r: "length buf = 8" "fold uart_isr_byte ?w u =
      u\<lparr>rx_type := t, rx_len := n, rx_index := i, rx_buffer := buf, rx_crc := crc,
        uart_msgq := (if crc16_ccitt (xs @ b' # ys) = push_bit 8 (ucast ?c1) OR ucast ?c2
          then msgq_put \<lparr>uf_type = t, uf_data = xs @ b' # ys\<rparr> (uart_msgq u) else uart_msgq u)\<rparr>"
    using isr_raw [OF assms(1-3) len, of 0 ?c1 ?c2] by blast
  let ?u = "fold uart_isr_byte ?w u"
  have cons: "uart_isr (w @ x # r) u = uart_isr r (uart_isr_byte x (fold uart_isr_byte w u))" for w x r
    by (simp add: uart_isr_def)
  have bad: "crc16_ccitt (xs @ b' # ys) \<noteq> push_bit 8 (ucast ?c1) OR ucast ?c2"
    unfolding crc_bytes using crc16_single assms(5) by metis
  have u: "rx_state ?u = UART_STATE_IDLE" "length (rx_buffer ?u) = 8" "uart_msgq ?u = uart_msgq u"
    unfolding r(2) using r(1) bad assms(1) by simp_all
  have "uart_isr (?w @ UART_FRAME_TAIL # uart_send_frame (uf_type m) (uf_data m)) u =
      uart_isr (uart_send_frame (uf_type m) (uf_data m)) ?u"
    unfolding cons tail_ignored [OF u(1)] ..
  moreover have "uart_msgq (uart_isr (uart_send_frame (uf_type m) (uf_data m)) ?u) = msgq_put m (uart_msgq u)"
    using isr_msg(3) [OF u(1,2) assms(6)] u(3) by simp
  ultimately have arrives: "uart_msgq (uart_isr (?w @ UART_FRAME_TAIL # uart_send_frame (uf_type m) (uf_data m)) u) =
      msgq_put m (uart_msgq u)" by simp
  have same: "length (xs @ b' # ys) = length (xs @ b # ys)" by simp
  have "uart_send_frame t (xs @ b # ys) = take (4 + length xs) ?w @ b # drop (5 + length xs) ?w @ [UART_FRAME_TAIL]"
  proof -
    have e: "4 + length xs = Suc (Suc (Suc (Suc (length xs))))" "5 + length xs = Suc (Suc (Suc (Suc (Suc (length xs)))))"
      by simp_all
    show ?thesis unfolding e by (simp add: Let_def uart_send_frame_def)
  qed
  with arrives show ?thesis unfolding Let_def same by blast
qed

theorem uart_damaged_dropped_witness:
  "uart_msgq (uart_isr ([UART_FRAME_HEAD, 1, 0, 1] @ [5] @
       [ucast (drop_bit 8 (crc16_ccitt [4]) AND 0xFF), ucast (crc16_ccitt [4] AND 0xFF)] @
       UART_FRAME_TAIL # uart_send_frame 2 [7]) uart_rx_boot) =
    msgq_put \<lparr>uf_type = 2, uf_data = [7]\<rparr> []"
  using uart_damaged_dropped [of uart_rx_boot 1 "[]" 4 "[]" 5 "\<lparr>uf_type = 2, uf_data = [7]\<rparr>"]
  by (simp add: uart_rx_boot_def uart_msg_ok_def uart_const_defs Let_def)

text \<open>
  whatever bytes arrive, the interrupt stores inside its eight-byte buffer, keeps at most eight
  messages, and every message on the queue is a command or data frame of at most eight bytes.
\<close>

theorem uart_bounds:
  "let u = uart_isr bs uart_rx_boot in
    (rx_state u = UART_STATE_DATA \<longrightarrow> unat (rx_index u) < length (rx_buffer u)) \<and>
    (rx_state u = UART_STATE_CRC_L \<longrightarrow> unat (rx_len u) \<le> length (rx_buffer u)) \<and>
    length (uart_msgq u) \<le> UART_MSGQ_MAX \<and> list_all uart_msg_ok (uart_msgq u)"
  using uart_isr_inv [OF uart_boot_inv, of bs]
  by (auto simp: Let_def uart_inv_def word_less_nat_alt word_le_nat_alt)

theorem uart_bounds_witness:
  "length (uart_msgq (uart_isr [0xAA, 1, 0, 8] uart_rx_boot)) \<le> UART_MSGQ_MAX"
  using uart_bounds [of "[0xAA, 1, 0, 8]"] by (simp add: Let_def)

text \<open>
  a host that sends a command or data frame over the serial line reaches the upgrade engine
  exactly as one that sends the same payload, padded with zeros, in a CAN frame; only the response
  goes back over the serial line.
\<close>

theorem uart_transport:
  assumes "byteorder_ok bo" and "rx_state u = UART_STATE_IDLE" and "length (rx_buffer u) = 8"
    and "uart_msgq u = []" and "t = UART_FRAME_CMD \<or> t = UART_FRAME_DATA" and "length data \<le> 8"
  shows "\<exists>u'. rx_state u' = UART_STATE_IDLE \<and> uart_msgq u' = [] \<and>
    fw_uart_process bo fl v (uart_isr (uart_send_frame t data) u, s) =
    map_option (map_sum id (\<lambda>(_, s'). (u', s')))
      (fw_update bo fl v
        \<lparr>can_id = (if t = UART_FRAME_CMD then CAN_ID_PLATFORM_RX else CAN_ID_FW_DATA_RX),
         can_dlc = of_nat (length data), can_data = data @ replicate (8 - length data) 0\<rparr>
        (fw_set_response_cb fw_uart_send_response s))"
proof -
  let ?u = "uart_isr (uart_send_frame t data) u"
  have u: "rx_state ?u = UART_STATE_IDLE" "uart_msgq ?u = [\<lparr>uf_type = t, uf_data = data\<rparr>]"
    using isr_frame [OF assms(2,3,5,6)] assms(4) by (simp_all add: Let_def msgq_put_def UART_MSGQ_MAX_def)
  have "of_nat (length data) \<le> (8 :: u8)" using assms(6) by (simp add: word_le_nat_alt unat_of_nat)
  then have "bytes_to_dlc bo (of_nat (length data)) = of_nat (length data)"
    using byteorder_okD(9) [OF assms(1)] by blast
  moreover have "UART_FRAME_DATA \<noteq> UART_FRAME_CMD" by (simp add: uart_const_defs)
  ultimately have "uart_can_frame bo \<lparr>uf_type = t, uf_data = data\<rparr> =
      \<lparr>can_id = (if t = UART_FRAME_CMD then CAN_ID_PLATFORM_RX else CAN_ID_FW_DATA_RX),
       can_dlc = of_nat (length data), can_data = data @ replicate (8 - length data) 0\<rparr>"
    using assms(5) by (auto simp: uart_can_frame_def mem_put_def)
  then show ?thesis
    using u by (intro exI [of _ "?u\<lparr>uart_msgq := []\<rparr>"]) (simp add: fw_uart_process_def Let_def)
qed

theorem uart_transport_witness:
  "\<exists>u' s'. fw_uart_process std_byteorder mem_flash 7
      (uart_isr (uart_send_frame UART_FRAME_CMD (le32_bytes 2)) uart_rx_boot, demo_boot) = Some (Inr (u', s')) \<and>
    boot_out s' = [fw_uart_send_response 2 7]"
proof -
  have "rx_state uart_rx_boot = UART_STATE_IDLE" "length (rx_buffer uart_rx_boot) = 8" "uart_msgq uart_rx_boot = []"
    by (simp_all add: uart_rx_boot_def)
  from uart_transport [OF std_byteorder_ok this, of UART_FRAME_CMD "le32_bytes 2" mem_flash 7 demo_boot]
  show ?thesis
    by (auto simp: fw_update_def Let_def boot_consts data_32_def fw_send_response_def fw_set_response_cb_def)
qed

text \<open>
  C12: the upgrade flag works once: with the flag in flash and the key read as 1, the bootloader
  stays in upgrade mode and erases the flag; after the next reset it starts the application exactly
  when the application it had before is valid.
\<close>

theorem upgrade_flag_once:
  assumes "flash_erases_ok fl mem" and "page_info fl FLASH_FLAG_ADDR = (0, FLASH_FLAG_ADDR, 2048)"
    and "\<forall>a d. flash_read fl a 4 d = Some (map (\<lambda>i. mem d (a + of_nat i)) [0..<4])"
    and "CheckUpgradeFlag fl (boot_flash s)" and "key \<noteq> 0"
  shows "let s1 = boot_main fl key l1 l2 s; s2 = boot_main fl key l1 l2 (boot_reset_state (boot_flash s1)) in
    boot_jump s1 = boot_jump s \<and> \<not> CheckUpgradeFlag fl (boot_flash s1) \<and>
    (boot_jump s2 \<noteq> None \<longleftrightarrow> VerifyAppFirmware fl (boot_flash s))"
proof -
  let ?d = "ClearUpgradeFlag fl (boot_flash s)"
  have mem: "mem ?d = (\<lambda>x. if x - FLASH_FLAG_ADDR < 2048 then 0xFF else mem (boot_flash s) x)"
    using assms(1,2) by (simp add: ClearUpgradeFlag_def flash_erases_ok_def)
  have four: "[0..<4] = [0, 1, 2, 3 :: nat]" by (simp add: upt_rec)
  have read: "flash_read fl a 4 d = Some [mem d a, mem d (a + 1), mem d (a + 2), mem d (a + 3)]" for a d
    using assms(3) by (simp add: four)
  have cleared: "\<not> CheckUpgradeFlag fl ?d"
    by (simp add: CheckUpgradeFlag_def read word_or_zero_def mem boot_consts le32_at_def)
  have verify: "VerifyAppFirmware fl ?d = VerifyAppFirmware fl (boot_flash s)"
    by (simp add: VerifyAppFirmware_def read word_or_zero_def mem boot_consts)
  have 1: "boot_flash (boot_main fl key l1 l2 s) = ?d" "boot_jump (boot_main fl key l1 l2 s) = boot_jump s"
    using assms(4,5) by (simp_all add: boot_main_def enter_upgrade_mode_def Let_def)
  show ?thesis
    unfolding Let_def 1
    using cleared verify assms(5)
    by (auto simp: boot_main_def enter_upgrade_mode_def Let_def boot_reset_state_def JumpToApp_def)
qed

definition flag_mem :: "u32 \<Rightarrow> u8" where
  "flag_mem a = (if unat (a - FLASH_FLAG_ADDR) < 4 then [0xAD, 0xDE, 0xAA, 0x55] ! unat (a - FLASH_FLAG_ADDR) else 0)"

theorem upgrade_flag_once_witness:
  "\<not> CheckUpgradeFlag mem_flash (boot_flash (boot_main mem_flash 1 True True (boot_reset_state flag_mem)))"
proof -
  have four: "[0..<4] = [0, 1, 2, 3 :: nat]" by (simp add: upt_rec)
  have p: "page_info mem_flash FLASH_FLAG_ADDR = (0, FLASH_FLAG_ADDR, 2048)"
    by (simp add: mem_flash_def boot_consts)
  have r: "\<forall>a d. flash_read mem_flash a 4 d = Some (map (\<lambda>i. d (a + of_nat i)) [0..<4])"
    by (simp add: mem_flash_def)
  have "CheckUpgradeFlag mem_flash (boot_flash (boot_reset_state flag_mem))"
    by (simp add: CheckUpgradeFlag_def mem_flash_def boot_reset_state_def word_or_zero_def four flag_mem_def
        le32_at_def boot_consts)
  from upgrade_flag_once [OF mem_flash_erases p r this, of 1 True True] show ?thesis by (simp add: Let_def)
qed

text \<open>
  after a flash write that failed with the buffer full, the engine is left with its index past
  the buffer: it reports the error, and the next data byte is stored outside \<open>flash_buffer\<close>.
\<close>

theorem failed_write_overruns:
  assumes "\<forall>a bs d. fst (flash_write fl a bs d) \<noteq> 0" and "unat (flash_buffer_index s) = 63"
    and "unat (received_fw_size s) + 1 < unat (total_fw_size s)"
    and "boot_data_frame bo f" and "boot_data_frame bo g"
    and "0 < dlc_to_bytes bo (can_dlc f)" and "0 < dlc_to_bytes bo (can_dlc g)"
  shows "boot_run (fw_canrx_msg_handler bo fl v) [f, g] s = Some (Inl Overrun)"
proof -
  let ?s = "put_byte (can_data f ! 0) (fw_set_response_cb (fw_can_send_response bo) s)"
  have nf: "unat (ucast (dlc_to_bytes bo (can_dlc h)) :: u32) = unat (dlc_to_bytes bo (can_dlc h))"
    if "boot_data_frame bo h" for h
    using that by (simp add: boot_data_frame_def frame_wf_def unsigned_ucast_eq take_bit_nat_eq_self)
  have pos: "0 < unat (dlc_to_bytes bo (can_dlc f))" "0 < unat (dlc_to_bytes bo (can_dlc g))"
    using assms(6,7) by (simp_all add: word_less_nat_alt)
  have len: "length (can_data f) = 8" "length (can_data g) = 8"
    using assms(4,5) by (simp_all add: boot_data_frame_def frame_wf_def)
  have lt: "received_fw_size s < total_fw_size s" using assms(3) by (simp add: word_less_nat_alt)
  have rec: "unat (received_fw_size s + 1) = Suc (unat (received_fw_size s))" using lt by (rule unat_plus_one)
  then have lt': "received_fw_size s + 1 < total_fw_size s" using assms(3) by (simp add: word_less_nat_alt)
  have idx: "unat (flash_buffer_index s + 1) = 64"
    using assms(2) unat_plus_one [of "flash_buffer_index s" 64] by (simp add: word_less_nat_alt)
  have fail: "fst (flush_buffer fl ?s) \<noteq> 0"
    using assms(1) by (simp add: flush_buffer_def split: prod.split) (metis fst_conv)
  obtain e d where w: "flush_buffer fl ?s = (e, ?s\<lparr>boot_flash := d\<rparr>)" "e \<noteq> 0"
    using fail by (auto simp: flush_buffer_def split: prod.splits)
  let ?s' = "fw_send_response FW_CODE_FLASH_ERROR (received_fw_size ?s) (?s\<lparr>boot_flash := d\<rparr>)"
  have "fw_data_loop fl (can_data f) (unat (dlc_to_bytes bo (can_dlc f))) 0
      (fw_set_response_cb (fw_can_send_response bo) s) = Inr (- 1, ?s')"
    using pos(1) len(1) assms(2) lt w idx
    by (subst fw_data_loop.simps)
      (simp add: Let_def FLASH_BUFFER_SIZE_def fw_set_response_cb_def flip: put_byte_def; simp add: put_byte_def)
  then have 1: "fw_canrx_msg_handler bo fl v f s = Some (Inr (- 1, ?s'))"
    using assms(4) lt nf [OF assms(4)]
    by (simp add: fw_canrx_msg_handler_def fw_update_def Let_def boot_data_frame_def boot_consts fw_set_response_cb_def)
  let ?t = "fw_set_response_cb (fw_can_send_response bo) ?s'"
  have t: "flash_buffer_index ?t = flash_buffer_index s + 1" "received_fw_size ?t = received_fw_size s + 1"
    "total_fw_size ?t = total_fw_size s"
    by (simp_all add: fw_send_response_def put_byte_def fw_set_response_cb_def)
  have "fw_data_loop fl (can_data g) (unat (dlc_to_bytes bo (can_dlc g))) 0 ?t = Inl Overrun"
    using pos(2) lt' idx t by (subst fw_data_loop.simps) (simp add: FLASH_BUFFER_SIZE_def)
  then have "fw_canrx_msg_handler bo fl v g ?s' = Some (Inl Overrun)"
    using assms(5) lt' t nf [OF assms(5)]
    by (simp add: fw_canrx_msg_handler_def fw_update_def Let_def boot_data_frame_def boot_consts)
  with 1 show ?thesis by simp
qed

definition broken_flash :: "(u32 \<Rightarrow> u8) flash_api" where
  "broken_flash = mem_flash\<lparr>flash_write := \<lambda>a bs m. (- 5, m)\<rparr>"

theorem failed_write_overruns_witness:
  "boot_run (fw_canrx_msg_handler std_byteorder broken_flash 0)
      [\<lparr>can_id = 0x103, can_dlc = 8, can_data = [1, 2, 3, 4, 5, 6, 7, 8]\<rparr>,
       \<lparr>can_id = 0x103, can_dlc = 1, can_data = [1, 2, 3, 4, 5, 6, 7, 8]\<rparr>]
      (demo_boot\<lparr>flash_buffer_index := 63, received_fw_size := 63, total_fw_size := 100\<rparr>) = Some (Inl Overrun)"
  by (rule failed_write_overruns)
    (simp_all add: broken_flash_def boot_data_frame_def frame_wf_def boot_consts)

text \<open>
  the code passes absolute addresses; a driver that takes offsets into its device of
  \<open>0x40000\<close> bytes refuses them, and then every start command for a non-empty image is answered with
  a flash error and the bootloader never starts the application at reset.
\<close>

theorem absolute_addresses_refused:
  assumes "\<forall>a \<ge> 0x40000. fst (page_info fl a) \<noteq> 0 \<and> (\<forall>n d. flash_read fl a n d = None)"
    and "boot_cmd_frame bo BOARD_START_UPDATE f" and "data_32 f 1 \<noteq> 0"
  shows "(\<exists>s'. fw_canrx_msg_handler bo fl v f s = Some (Inr (- 1, s')) \<and> boot_flash s' = boot_flash s \<and>
      boot_out s' = boot_out s @ [fw_can_send_response bo (code_val FW_CODE_FLASH_ERROR) 0]) \<and>
    boot_jump (boot_main fl key l1 l2 s) = boot_jump s"
proof -
  have c: "clamp_erase (data_32 f 1) > 0"
    using assms(3) by (simp add: clamp_erase_def boot_consts word_neq_0_conv)
  have p: "fst (page_info fl FLASH_APP_START_ADDR) \<noteq> 0" "flash_read fl FLASH_APP_START_ADDR n d = None"
    "flash_read fl (FLASH_APP_START_ADDR + 4) n d = None" for n d
    using assms(1) by (simp_all add: boot_consts)
  have e: "erase_loop fl (clamp_erase (data_32 f 1)) FLASH_APP_START_ADDR d = Some (False, d)" for d
    using c p(1) by (subst erase_loop.simps) (auto split: prod.split)
  have "\<not> VerifyAppFirmware fl d" for d by (simp add: VerifyAppFirmware_def p word_or_zero_def)
  then have "boot_jump (boot_main fl key l1 l2 s) = boot_jump s"
    by (simp add: boot_main_def Let_def split: prod.split)
  then show ?thesis
    using assms(2) e
    by (simp add: fw_canrx_msg_handler_def fw_update_def Let_def boot_cmd_frame_def boot_consts start_upgrade_def
        fw_set_response_cb_def fw_send_response_def)
qed

theorem absolute_addresses_refused_witness:
  "boot_jump (boot_main (mem_flash\<lparr>page_info := \<lambda>a. (- 22, 0, 0), flash_read := \<lambda>a n m. None\<rparr>) 1 True True demo_boot) = None"
proof -
  let ?fl = "mem_flash\<lparr>page_info := \<lambda>a. (- 22, 0, 0), flash_read := \<lambda>a n m. None\<rparr>"
  let ?f = "\<lparr>can_id = 0x101, can_dlc = 8, can_data = le32_bytes 0 @ le32_bytes 5000\<rparr>"
  have f: "boot_cmd_frame std_byteorder BOARD_START_UPDATE ?f" "data_32 ?f 1 \<noteq> 0"
    by (simp_all add: boot_cmd_frame_def boot_consts data_32_def)
  have r: "\<forall>a \<ge> 0x40000. fst (page_info ?fl a) \<noteq> 0 \<and> (\<forall>n d. flash_read ?fl a n d = None)" by simp
  have j: "boot_jump demo_boot = None" by (simp add: demo_boot_def boot_reset_state_def)
  show ?thesis
    using conjunct2 [OF absolute_addresses_refused [OF r f, of 0 demo_boot 1 True True]] j by simp
qed

end
