(* ===== verification/Laser_Serial.thy ===== *)
theory Laser_Serial
  imports Upgrade_Session
begin

text \<open>
  \<open>applications/laser_ctrl\<close>, the part below the CAN commands: the status bits and the state of all
  its files (one record \<open>laser\<close>), the register file kept in flash (\<open>src/flash.c\<close>), the serial
  protocol of the laser head (\<open>src/laser_serial.c\<close>) and the encoder read-out of the FPGA
  (\<open>src/fpga_spi.c\<close>).  Answers of the environment are arguments: the events a wait returns, the
  bytes the UART delivers, the FPGA's messages and the uptime.
\<close>

section \<open>State\<close>

datatype laser_bit =
  LASER_DEVICE_STATUS | LASER_WRITE_MODE | LASER_NEED_CLOSE | LASER_ON | LASER_CON_MESURE | LASER_FW_UPDATE

record rx_buf =
  rb_len :: nat
  rb_data :: bytes

text \<open>The partition of the registers: open, read, flatten (erase) and write of the whole array.\<close>

record 'f cfg_api =
  cfg_open :: "'f \<Rightarrow> int"
  cfg_read :: "'f \<Rightarrow> u32 list option"
  cfg_flatten :: "'f \<Rightarrow> int \<times> 'f"
  cfg_write :: "u32 list \<Rightarrow> 'f \<Rightarrow> int \<times> 'f"

record encode_msg =
  em_timecount :: u32
  em_single_num :: u32
  em_mutli_num :: u16

record laser_encode_data =
  encode1 :: u32
  encode2 :: u32
  laser_val :: u32

record ('d, 'f) laser =
  laser_status :: "laser_bit \<Rightarrow> bool"
  cfg_dev :: 'f
  laser_fa :: bool
  laser_regs :: "u32 list"
  inited :: bool
  img_dev :: 'd
  msg_total_size :: u32
  msg_offset :: u32
  latest_fw_up_times :: u64
  SystemStatus :: u32
  LaserPeriod :: u32
  gcXaxisInitValue :: u16
  gcYaxisInitValue :: u16
  laser_out :: "can_frame list"
  laser_can_tx_seq :: u32
  delayed_work :: bool
  laser_filters :: "u32 list"
  laser_id :: u8
  first_on :: bool
  serial_out :: "string list"
  laser_event :: u32
  laser_serial_msgq :: "rx_buf list"
  uart_buf :: rx_buf
  local_previous_time :: u64
  fpga_previous_time1 :: u32
  fpga_previous_time2 :: u32
  laser_reboot :: bool

definition set_bit_of :: "laser_bit \<Rightarrow> bool \<Rightarrow> ('d, 'f) laser \<Rightarrow> ('d, 'f) laser" where
  "set_bit_of b v s = s\<lparr>laser_status := (laser_status s)(b := v)\<rparr>"

lemma set_bit_of_simps [simp]:
  "laser_status (set_bit_of b v s) = (laser_status s)(b := v)"
  "cfg_dev (set_bit_of b v s) = cfg_dev s" "laser_fa (set_bit_of b v s) = laser_fa s"
  "laser_regs (set_bit_of b v s) = laser_regs s" "inited (set_bit_of b v s) = inited s"
  "serial_out (set_bit_of b v s) = serial_out s" "laser_out (set_bit_of b v s) = laser_out s"
  "laser_id (set_bit_of b v s) = laser_id s" "img_dev (set_bit_of b v s) = img_dev s"
  "SystemStatus (set_bit_of b v s) = SystemStatus s" "LaserPeriod (set_bit_of b v s) = LaserPeriod s"
  by (simp_all add: set_bit_of_def)

section \<open>flash.c: the register file\<close>

definition LASER_REGS :: nat where "LASER_REGS = 50"

definition laser_flash_init :: "'f cfg_api \<Rightarrow> ('d, 'f) laser \<Rightarrow> int \<times> ('d, 'f) laser" where
  "laser_flash_init api s =
     (if cfg_open api (cfg_dev s) \<noteq> 0 then (- 1, s\<lparr>inited := False\<rparr>)
      else
        case cfg_read api (cfg_dev s) of
          None \<Rightarrow> (- 1, s\<lparr>laser_fa := False\<rparr>)
        | Some regs \<Rightarrow> (0, s\<lparr>laser_fa := True, laser_regs := regs, inited := True\<rparr>))"

definition laser_flash_read_mode :: "'f cfg_api \<Rightarrow> ('d, 'f) laser \<Rightarrow> int \<times> ('d, 'f) laser" where
  "laser_flash_read_mode api s =
     (case (if \<not> inited s then laser_flash_init api s else (0, s)) of (ret, s) \<Rightarrow>
        if ret \<noteq> 0 then (- 1, s) else (0, set_bit_of LASER_WRITE_MODE False s))"

definition laser_flash_write_mode :: "'f cfg_api \<Rightarrow> ('d, 'f) laser \<Rightarrow> int \<times> ('d, 'f) laser" where
  "laser_flash_write_mode api s =
     (case (if \<not> inited s then laser_flash_init api s else (0, s)) of (ret, s) \<Rightarrow>
        if ret \<noteq> 0 then (- 1, s) else (0, set_bit_of LASER_WRITE_MODE True s))"

definition laser_flash_write :: "'f cfg_api \<Rightarrow> u16 \<Rightarrow> u32 \<Rightarrow> ('d, 'f) laser \<Rightarrow> int \<times> ('d, 'f) laser" where
  "laser_flash_write api address val s =
     (if \<not> laser_status s LASER_WRITE_MODE \<or> laser_status s LASER_FW_UPDATE then (- 1, s)
      else if unat address \<ge> LASER_REGS then (- 1, s)
      else if laser_regs s ! unat address \<noteq> val then
        let s = s\<lparr>laser_regs := (laser_regs s)[unat address := val]\<rparr>
        in case cfg_flatten api (cfg_dev s) of (err, f) \<Rightarrow>
             if err = 0 then
               case cfg_write api (laser_regs s) f of (err, f) \<Rightarrow>
                 (if err = 0 then 0 else - 1, s\<lparr>cfg_dev := f\<rparr>)
             else (- 1, s\<lparr>cfg_dev := f\<rparr>)
      else (0, s))"

text \<open>The register read, or \<open>None\<close> when the destination is left alone.\<close>

definition laser_flash_read :: "u16 \<Rightarrow> ('d, 'f) laser \<Rightarrow> int \<times> u32 option" where
  "laser_flash_read address s =
     (if \<not> inited s then (- 1, None)
      else if unat address \<ge> LASER_REGS then (- 1, None)
      else (0, Some (laser_regs s ! unat address)))"

section \<open>Sending CAN frames\<close>

definition laser_can_send :: "can_frame \<Rightarrow> ('d, 'f) laser \<Rightarrow> ('d, 'f) laser" where
  "laser_can_send frame s =
     s\<lparr>laser_can_tx_seq := laser_can_tx_seq s + 1, laser_out := laser_out s @ [frame]\<rparr>"

section \<open>laser_serial.c: commands to the laser head\<close>

text \<open>printf("%d") of an int.\<close>

definition fmt_d :: "int \<Rightarrow> string" where
  "fmt_d n = (if n < 0 then ''-'' @ dec_string (nat (- n)) else dec_string (nat n))"

definition crlf :: string where "crlf = [char_of (13 :: nat), char_of (10 :: nat)]"

definition EVENT_LASER_STOP_ON :: u32 where "EVENT_LASER_STOP_ON = 1"
definition EVENT_LASER_ERROR :: u32 where "EVENT_LASER_ERROR = 2"
definition EVENT_LASER_MSG :: u32 where "EVENT_LASER_MSG = 4"
definition EVENT_LASER_OTHER :: u32 where "EVENT_LASER_OTHER = 8"

text \<open>\<open>ev sent mask\<close>: what k_event_wait returns within its second, after everything in \<open>sent\<close> went out.\<close>

type_synonym event_env = "string list \<Rightarrow> u32 \<Rightarrow> u32"

definition serial_send :: "event_env \<Rightarrow> string \<Rightarrow> u32 \<Rightarrow> ('d, 'f) laser \<Rightarrow> bool \<times> ('d, 'f) laser" where
  "serial_send ev data event s =
     (let s = s\<lparr>serial_out := serial_out s @ [data]\<rparr>;
          ret = ev (serial_out s) event
      in (ret AND event = event, s))"

definition laser_cmd :: "('d, 'f) laser \<Rightarrow> string \<Rightarrow> string" where
  "laser_cmd s t = ''s'' @ dec_string (unat (laser_id s)) @ t @ crlf"

definition laser_stopclear :: "event_env \<Rightarrow> ('d, 'f) laser \<Rightarrow> int \<times> ('d, 'f) laser" where
  "laser_stopclear ev s =
     (case serial_send ev (laser_cmd s ''c'') EVENT_LASER_STOP_ON s of (ok, s) \<Rightarrow>
        if \<not> ok then (- 1, s)
        else (0, set_bit_of LASER_CON_MESURE False (set_bit_of LASER_ON False s)))"

definition laser_on :: "event_env \<Rightarrow> ('d, 'f) laser \<Rightarrow> int \<times> ('d, 'f) laser" where
  "laser_on ev s =
     (case serial_send ev (laser_cmd s ''o'') EVENT_LASER_STOP_ON s of (ok, s) \<Rightarrow>
        if \<not> ok then (- 1, s) else (0, set_bit_of LASER_ON True s))"

definition laser_read_error :: "event_env \<Rightarrow> ('d, 'f) laser \<Rightarrow> bool \<times> ('d, 'f) laser" where
  "laser_read_error ev s = serial_send ev (laser_cmd s ''re'') EVENT_LASER_ERROR s"

definition laser_clear_error :: "event_env \<Rightarrow> ('d, 'f) laser \<Rightarrow> bool \<times> ('d, 'f) laser" where
  "laser_clear_error ev s = serial_send ev (laser_cmd s ''ce'') EVENT_LASER_ERROR s"

definition laser_con_measure :: "event_env \<Rightarrow> u32 \<Rightarrow> ('d, 'f) laser \<Rightarrow> int \<times> ('d, 'f) laser" where
  "laser_con_measure ev val s =
     (case laser_read_error ev s of (ok, s) \<Rightarrow>
        if \<not> ok then (- 1, s)
        else case laser_clear_error ev s of (ok, s) \<Rightarrow>
          if \<not> ok then (- 1, s)
          else case serial_send ev (laser_cmd s (''h+'' @ fmt_d (sint val))) EVENT_LASER_MSG s of (ok, s) \<Rightarrow>
            if \<not> ok then (- 1, s)
            else (0, set_bit_of LASER_DEVICE_STATUS True (set_bit_of LASER_CON_MESURE True s)))"

definition laser_setup :: "event_env \<Rightarrow> u32 \<Rightarrow> ('d, 'f) laser \<Rightarrow> int \<times> ('d, 'f) laser" where
  "laser_setup ev val s =
     (case laser_stopclear ev s of (ret, s) \<Rightarrow>
        if ret \<noteq> 0 then (- 1, s)
        else case laser_on ev s of (ret, s) \<Rightarrow>
          if ret \<noteq> 0 then (- 1, s)
          else case laser_con_measure ev val s of (ret, s) \<Rightarrow>
            if ret \<noteq> 0 then (- 1, s) else (0, s))"

section \<open>laser_serial.c: receiving\<close>

definition RX_BUF_SIZE :: nat where "RX_BUF_SIZE = 128"
definition LASER_MSGQ_MAX :: nat where "LASER_MSGQ_MAX = 3"

definition empty_rx :: rx_buf where
  "empty_rx = \<lparr>rb_len = 0, rb_data = replicate RX_BUF_SIZE 0\<rparr>"

definition rx_put :: "rx_buf \<Rightarrow> rx_buf list \<Rightarrow> rx_buf list" where
  "rx_put b q = (if length q < LASER_MSGQ_MAX then q @ [b] else q)"

text \<open>
  One turn of the interrupt's loop with the bytes uart_fifo_read delivered (at most the free space).
  \<open>has_rs485\<close> says whether the board's devicetree has the transmit-enable pin.
\<close>

definition uart_cb :: "bool \<Rightarrow> event_env \<Rightarrow> bytes \<Rightarrow> ('d, 'f) laser \<Rightarrow> ('d, 'f) laser" where
  "uart_cb has_rs485 ev chunk s =
     (let b = uart_buf s;
          b = \<lparr>rb_len = rb_len b + length chunk, rb_data = mem_put (rb_len b) chunk (rb_data b)\<rparr>;
          s = s\<lparr>uart_buf := b\<rparr>
      in if rb_len b \<ge> RX_BUF_SIZE then s\<lparr>uart_buf := empty_rx\<rparr>
         else if rb_len b > 2 then
           if rb_data b ! (rb_len b - 1) = 0x0A \<and> rb_data b ! (rb_len b - 2) = 0x0D then
             let s = (if has_rs485 \<and> laser_status s LASER_NEED_CLOSE
                      then snd (laser_stopclear ev (set_bit_of LASER_NEED_CLOSE False s))
                      else s\<lparr>laser_serial_msgq := rx_put b (laser_serial_msgq s)\<rparr>)
             in s\<lparr>uart_buf := empty_rx\<rparr>
           else if rb_data b ! 0 = 0xEA then s\<lparr>uart_buf := empty_rx\<rparr>
           else s
         else s)"

text \<open>strtol(p, NULL, 10) on the target: blanks, a sign, digits; the result saturates at 32 bits.\<close>

definition is_space :: "u8 \<Rightarrow> bool" where
  "is_space b = (b = 32 \<or> (9 \<le> b \<and> b \<le> 13))"

definition is_digit :: "u8 \<Rightarrow> bool" where
  "is_digit b = (48 \<le> b \<and> b \<le> 57)"

definition digits_val :: "bytes \<Rightarrow> int" where
  "digits_val ds = fold (\<lambda>d n. 10 * n + (uint d - 48)) ds 0"

definition strtol10 :: "bytes \<Rightarrow> int" where
  "strtol10 p =
     (let q = dropWhile is_space p;
          neg = (q \<noteq> [] \<and> hd q = 45);
          r = (if q \<noteq> [] \<and> (hd q = 45 \<or> hd q = 43) then tl q else q);
          v = digits_val (takeWhile is_digit r);
          v = (if neg then - v else v)
      in max (- (2 ^ 31)) (min (2 ^ 31 - 1) v))"

definition error_msg_list :: "(u16 \<times> string) list" where
  "error_msg_list =
     [(0, ''No Error''), (200, ''sensor boot''), (203, ''error command''),
      (210, ''sensors not in tracking mode''), (211, ''track time too short''),
      (212, ''fisrt run stop/clear then run this command''), (220, ''serail data error'')]"

definition get_error_desc :: "u16 \<Rightarrow> string" where
  "get_error_desc code = (case map_of error_msg_list code of Some d \<Rightarrow> d | None \<Rightarrow> ''Unknown error'')"

definition k_event_set :: "u32 \<Rightarrow> ('d, 'f) laser \<Rightarrow> ('d, 'f) laser" where
  "k_event_set e s = s\<lparr>laser_event := e\<rparr>"

section \<open>fpga_spi.c: encoder read-out\<close>

text \<open>Milliseconds between two stamps of a 31-bit counter, as the code computes them.\<close>

definition fpga_diff :: "u32 \<Rightarrow> u32 \<Rightarrow> u32" where
  "fpga_diff timecount previous =
     (if previous = 0 then 0
      else if timecount < previous then timecount + (push_bit 31 1 - previous)
      else timecount - previous)"

definition local_diff :: "u64 \<Rightarrow> u64 \<Rightarrow> u32" where
  "local_diff timestamp previous =
     (if previous = 0 then 0
      else if timestamp < previous then ucast (timestamp + (- 1 - previous) + 1)
      else ucast (timestamp - previous))"

definition postion :: "encode_msg \<Rightarrow> u32" where
  "postion m = scast (em_mutli_num m) * push_bit 17 1 + em_single_num m"

text \<open>The encoder fields are 20 bits wide.\<close>

definition encode_field :: "u32 \<Rightarrow> u32 \<Rightarrow> u32 \<Rightarrow> u32" where
  "encode_field diff_l diff_f pos =
     (if diff_l > diff_f \<and> diff_l - diff_f > 1000 then 0 else pos AND mask 20)"

definition laser_get_encode_data :: "u64 \<Rightarrow> encode_msg \<Rightarrow> encode_msg \<Rightarrow> ('d, 'f) laser \<Rightarrow>
    (u32 \<times> u32) \<times> ('d, 'f) laser" where
  "laser_get_encode_data timestamp msg1 msg2 s =
     (let diff_l = local_diff timestamp (local_previous_time s);
          e1 = encode_field diff_l (fpga_diff (em_timecount msg1) (fpga_previous_time1 s)) (postion msg1);
          e2 = encode_field diff_l (fpga_diff (em_timecount msg2) (fpga_previous_time2 s)) (postion msg2)
      in ((e1, e2), s\<lparr>fpga_previous_time1 := em_timecount msg1, fpga_previous_time2 := em_timecount msg2,
                      local_previous_time := timestamp\<rparr>))"

section \<open>laser_serial.c: the message thread\<close>

text \<open>The eight payload bytes: fields of 20, 20 and 24 bits, first field lowest, in memory order.\<close>

definition pack_encode :: "laser_encode_data \<Rightarrow> u64" where
  "pack_encode d =
     (ucast (encode1 d) AND mask 20) OR push_bit 20 (ucast (encode2 d) AND mask 20)
       OR push_bit 40 (ucast (laser_val d) AND mask 24)"

definition le64_bytes :: "u64 \<Rightarrow> bytes" where
  "le64_bytes w = map (\<lambda>i. ucast (drop_bit (8 * i) w)) [0..<8]"

record msg_env =
  env_f103 :: bool
  env_uptime :: u64
  env_msg1 :: encode_msg
  env_msg2 :: encode_msg

definition send_distance :: "byteorder \<Rightarrow> msg_env \<Rightarrow> int \<Rightarrow> ('d, 'f) laser \<Rightarrow> ('d, 'f) laser" where
  "send_distance bo env distance s =
     (if \<not> laser_status s LASER_FW_UPDATE then
        case (if env_f103 env then laser_get_encode_data (env_uptime env) (env_msg1 env) (env_msg2 env) s
              else ((0x12345, 0x67899), s)) of ((e1, e2), s) \<Rightarrow>
          laser_can_send \<lparr>can_id = 0x2E4, can_dlc = bytes_to_dlc bo 8,
            can_data = le64_bytes (pack_encode \<lparr>encode1 = e1, encode2 = e2, laser_val = word_of_int distance\<rparr>)\<rparr> s
      else if env_uptime env - latest_fw_up_times s > 10000 then set_bit_of LASER_FW_UPDATE False s
      else s)"

definition find_reply :: "u8 \<Rightarrow> rx_buf \<Rightarrow> nat option" where
  "find_reply i b =
     find (\<lambda>j. rb_data b ! j = of_char (CHR ''g'') \<and> rb_data b ! (j + 1) = i) [0..<rb_len b - 1]"

definition laser_msg_process :: "byteorder \<Rightarrow> msg_env \<Rightarrow> rx_buf \<Rightarrow> ('d, 'f) laser \<Rightarrow> ('d, 'f) laser" where
  "laser_msg_process bo env b s =
     (case find_reply (laser_id s) b of
        None \<Rightarrow> s
      | Some i \<Rightarrow>
          if i + 2 \<ge> rb_len b then s
          else
            let kind = rb_data b ! (i + 2);
                cut = (rb_data b)[rb_len b - 2 := 0]
            in if kind = of_char (CHR ''h'') then
                 let distance = strtol10 (drop (i + 3) cut);
                     s = (if first_on s then k_event_set EVENT_LASER_MSG (s\<lparr>first_on := False\<rparr>) else s)
                 in send_distance bo env distance s
               else if kind = of_char (CHR ''@'') \<and> i + 3 < rb_len b \<and> rb_data b ! (i + 3) = of_char (CHR ''E'') then
                 let s = (if \<not> laser_status s LASER_CON_MESURE then k_event_set EVENT_LASER_ERROR s else s)
                 in send_distance bo env 0 s
               else if kind = of_char (CHR ''?'') then
                 k_event_set EVENT_LASER_STOP_ON (s\<lparr>first_on := \<not> laser_status s LASER_CON_MESURE\<rparr>)
               else k_event_set EVENT_LASER_OTHER s)"

text \<open>One turn of the thread.\<close>

definition laser_msg_thread :: "byteorder \<Rightarrow> msg_env \<Rightarrow> ('d, 'f) laser \<Rightarrow> ('d, 'f) laser" where
  "laser_msg_thread bo env s =
     (case laser_serial_msgq s of
        [] \<Rightarrow> s
      | b # q \<Rightarrow> laser_msg_process bo env b (s\<lparr>laser_serial_msgq := q\<rparr>))"

end
