(* ===== verification/Laser_Can.thy ===== *)
theory Laser_Can
  imports Laser_Serial
begin

text \<open>
  \<open>applications/laser_ctrl\<close>, the CAN side: the command dispatcher (\<open>src/can.c\<close>) and the firmware
  upgrade (\<open>src/firmware.c\<close>).
\<close>

section \<open>Identifiers and commands\<close>

definition COB_ID1_RX :: u32 where "COB_ID1_RX = 0x664"
definition COB_ID1_TX :: u32 where "COB_ID1_TX = 0x5E4"
definition COB_ID2_RX :: u32 where "COB_ID2_RX = 0x665"
definition COB_ID2_TX :: u32 where "COB_ID2_TX = 0x5E5"
definition PLATFORM_RX :: u32 where "PLATFORM_RX = 0x101"
definition PLATFORM_TX :: u32 where "PLATFORM_TX = 0x102"
definition FW_DATA_RX :: u32 where "FW_DATA_RX = 0x103"

definition CANRECSDOREADXAXISREALVAL :: u32 where "CANRECSDOREADXAXISREALVAL = 0x40466200"
definition CANRECSDOREADYAXISREALVAL :: u32 where "CANRECSDOREADYAXISREALVAL = 0x40486200"
definition CANRECSDOREADYAXIS :: u32 where "CANRECSDOREADYAXIS = 0x40026200"
definition CANRECSDOWRITEYAXIS :: u32 where "CANRECSDOWRITEYAXIS = 0x22026200"
definition CANRECSDOREADXAXIS :: u32 where "CANRECSDOREADXAXIS = 0x40016200"
definition CANRECSDOWRITEXAXIS :: u32 where "CANRECSDOWRITEXAXIS = 0x22016200"
definition CANRECSDOREADCONWORD :: u32 where "CANRECSDOREADCONWORD = 0x40406200"
definition CANRECSDOWRITECONWORD :: u32 where "CANRECSDOWRITECONWORD = 0x22406200"
definition CANRECSDOWRITECONWORD_NEW :: u32 where "CANRECSDOWRITECONWORD_NEW = 0x23406200"
definition CANCMD_LASER_CTRL :: u32 where "CANCMD_LASER_CTRL = 0x22416200"
definition CANCMD_LASER_CTRL_NEW :: u32 where "CANCMD_LASER_CTRL_NEW = 0x23416200"
definition CANCMD_LASER_PEROID_CONF :: u32 where "CANCMD_LASER_PEROID_CONF = 0x22426200"
definition CANCMD_LASER_PEROID_CONFN :: u32 where "CANCMD_LASER_PEROID_CONFN = 0x23426200"
definition CANCMD_LASER_PEROID_GET :: u32 where "CANCMD_LASER_PEROID_GET = 0x40426200"
definition CANWRITESYSTEMSTATUS :: u32 where "CANWRITESYSTEMSTATUS = 0x22000000"
definition CANWRITESYSTEMSTATUS_NEW :: u32 where "CANWRITESYSTEMSTATUS_NEW = 0x23000000"
definition CANREADSYSTEMSTATUS :: u32 where "CANREADSYSTEMSTATUS = 0x40000000"

definition CAN_HOST_MASK :: u32 where "CAN_HOST_MASK = 0x00FFFFFF"
definition CAN_HOST_ACK_ID :: u32 where "CAN_HOST_ACK_ID = 0x60000000"
definition CAN_HOST_NOACK_ID :: u32 where "CAN_HOST_NOACK_ID = 0x80000000"
definition SYSTEMSTATUSWORKING :: u32 where "SYSTEMSTATUSWORKING = 1"
definition SYSTEMSTATUSEEPROM :: u32 where "SYSTEMSTATUSEEPROM = 0x10"

named_theorems laser_consts \<open>identifiers and commands of the laser controller\<close>

lemmas laser_id_defs [laser_consts] =
  COB_ID1_RX_def COB_ID1_TX_def COB_ID2_RX_def COB_ID2_TX_def PLATFORM_RX_def PLATFORM_TX_def FW_DATA_RX_def

lemmas laser_cmd_defs [laser_consts] =
  CANRECSDOREADXAXISREALVAL_def CANRECSDOREADYAXISREALVAL_def CANRECSDOREADYAXIS_def CANRECSDOWRITEYAXIS_def
  CANRECSDOREADXAXIS_def CANRECSDOWRITEXAXIS_def CANRECSDOREADCONWORD_def CANRECSDOWRITECONWORD_def
  CANRECSDOWRITECONWORD_NEW_def CANCMD_LASER_CTRL_def CANCMD_LASER_CTRL_NEW_def CANCMD_LASER_PEROID_CONF_def
  CANCMD_LASER_PEROID_CONFN_def CANCMD_LASER_PEROID_GET_def CANWRITESYSTEMSTATUS_def
  CANWRITESYSTEMSTATUS_NEW_def CANREADSYSTEMSTATUS_def CAN_HOST_MASK_def CAN_HOST_ACK_ID_def
  CAN_HOST_NOACK_ID_def SYSTEMSTATUSWORKING_def SYSTEMSTATUSEEPROM_def

section \<open>firmware.c\<close>

datatype laser_fw_code =
  FW_CODE_OFFSET | FW_CODE_UPDATE_SUCCESS | FW_CODE_VERSION | FW_CODE_CONFIRM |
  FW_CODE_FLASH_ERROR | FW_CODE_TRANFER_ERROR | FW_CODE_FPGA_VERSION

fun laser_code_val :: "laser_fw_code \<Rightarrow> u32" where
  "laser_code_val FW_CODE_OFFSET = 0"
| "laser_code_val FW_CODE_UPDATE_SUCCESS = 1"
| "laser_code_val FW_CODE_VERSION = 2"
| "laser_code_val FW_CODE_CONFIRM = 3"
| "laser_code_val FW_CODE_FLASH_ERROR = 4"
| "laser_code_val FW_CODE_TRANFER_ERROR = 5"
| "laser_code_val FW_CODE_FPGA_VERSION = 6"

definition fw_can_recevie :: "byteorder \<Rightarrow> laser_fw_code \<Rightarrow> u32 \<Rightarrow> ('d, 'f) laser \<Rightarrow> ('d, 'f) laser" where
  "fw_can_recevie bo code off =
     laser_can_send \<lparr>can_id = PLATFORM_TX, can_dlc = bytes_to_dlc bo 8,
       can_data = le32_bytes (laser_code_val code) @ le32_bytes off\<rparr>"

definition laser_fw_start :: "byteorder \<Rightarrow> 'd dfu_api \<Rightarrow> can_frame \<Rightarrow> ('d, 'f) laser \<Rightarrow> int \<times> ('d, 'f) laser" where
  "laser_fw_start bo api frame s =
     (let fail = (\<lambda>s. (- 1, set_bit_of LASER_FW_UPDATE False (fw_can_recevie bo FW_CODE_FLASH_ERROR 0 s)));
          s = set_bit_of LASER_FW_UPDATE True s
      in if dlc_to_bytes bo (can_dlc frame) \<noteq> 8 then fail s
         else
           let s = s\<lparr>msg_total_size := 0, msg_offset := 0\<rparr>
           in case img_init api (img_dev s) of (err, d) \<Rightarrow>
                let s = s\<lparr>img_dev := d\<rparr>
                in if err \<noteq> 0 then fail s
                   else case area_erase api (img_dev s) of (err, d) \<Rightarrow>
                     let s = s\<lparr>img_dev := d\<rparr>
                     in if err \<noteq> 0 then fail s
                        else (0, fw_can_recevie bo FW_CODE_OFFSET 0
                                (s\<lparr>msg_offset := 0, msg_total_size := data_32 frame 1\<rparr>)))"

definition laser_fw_confirm :: "byteorder \<Rightarrow> 'd dfu_api \<Rightarrow> can_frame \<Rightarrow> ('d, 'f) laser \<Rightarrow> int \<times> ('d, 'f) laser" where
  "laser_fw_confirm bo api frame s =
     (let s = s\<lparr>img_dev := snd (img_write api [] True (img_dev s))\<rparr>
      in if unat (msg_total_size s) \<noteq> img_written api (img_dev s)
         then (- 1, fw_can_recevie bo FW_CODE_TRANFER_ERROR (msg_offset s) s)
         else
           let s = s\<lparr>img_dev := snd (boot_request api (sint (data_32 frame 1)) (img_dev s))\<rparr>
           in (0, fw_can_recevie bo FW_CODE_CONFIRM 0x55AA55AA s))"

definition laser_fw_data :: "byteorder \<Rightarrow> 'd dfu_api \<Rightarrow> can_frame \<Rightarrow> ('d, 'f) laser \<Rightarrow> int \<times> ('d, 'f) laser" where
  "laser_fw_data bo api frame s =
     (let nbytes = dlc_to_bytes bo (can_dlc frame)
      in case img_write api (take (unat nbytes) (can_data frame)) False (img_dev s) of (err, d) \<Rightarrow>
           let s = s\<lparr>img_dev := d\<rparr>
           in if err \<noteq> 0 then (- 1, set_bit_of LASER_FW_UPDATE False (fw_can_recevie bo FW_CODE_FLASH_ERROR 0 s))
              else
                let s = s\<lparr>msg_offset := msg_offset s + ucast nbytes\<rparr>
                in (0, if msg_offset s = msg_total_size s
                       then set_bit_of LASER_FW_UPDATE False
                              (fw_can_recevie bo FW_CODE_UPDATE_SUCCESS (msg_total_size s) s)
                       else if msg_offset s mod 64 = 0
                       then fw_can_recevie bo FW_CODE_OFFSET (msg_offset s) s
                       else s))"

text \<open>\<open>app_version\<close> is the generated APPVERSION, \<open>fpga_version\<close> what the FPGA's register reads.\<close>

definition laser_fw_update :: "byteorder \<Rightarrow> 'd dfu_api \<Rightarrow> u32 \<Rightarrow> u32 \<Rightarrow> can_frame \<Rightarrow> ('d, 'f) laser \<Rightarrow>
    int \<times> ('d, 'f) laser" where
  "laser_fw_update bo api app_version fpga_version frame s =
     (if can_id frame = PLATFORM_RX then
        if data_32 frame 0 = 0 then laser_fw_start bo api frame s
        else if data_32 frame 0 = 1 then laser_fw_confirm bo api frame s
        else if data_32 frame 0 = 2 then (0, fw_can_recevie bo FW_CODE_VERSION app_version s)
        else if data_32 frame 0 = 4 then (0, fw_can_recevie bo FW_CODE_FPGA_VERSION fpga_version s)
        else if data_32 frame 0 = 3 then (0, s\<lparr>laser_reboot := True\<rparr>)
        else (0, s)
      else if can_id frame = FW_DATA_RX then laser_fw_data bo api frame s
      else (0, s))"

section \<open>can.c\<close>

definition cob_msg_send :: "byteorder \<Rightarrow> u32 \<Rightarrow> u32 \<Rightarrow> u32 \<Rightarrow> ('d, 'f) laser \<Rightarrow> ('d, 'f) laser" where
  "cob_msg_send bo data1 data2 i =
     laser_can_send \<lparr>can_id = i, can_dlc = bytes_to_dlc bo 8,
       can_data = le32_bytes (cpu_to_be32 bo data1) @ le32_bytes (cpu_to_be32 bo data2)\<rparr>"

definition ack_of :: "u32 \<Rightarrow> u32 \<Rightarrow> u32" where
  "ack_of cmd i = (cmd AND CAN_HOST_MASK) OR i"

definition laser_ctrl_cmd :: "byteorder \<Rightarrow> event_env \<Rightarrow> bool \<Rightarrow> u32 \<Rightarrow> ('d, 'f) laser \<Rightarrow> ('d, 'f) laser" where
  "laser_ctrl_cmd bo ev has_rs485 v s =
     (let ack = ack_of CANCMD_LASER_CTRL CAN_HOST_ACK_ID;
          noack = ack_of CANCMD_LASER_CTRL CAN_HOST_NOACK_ID
      in case (if v = 1 then
                 case laser_on ev s of (ret, s) \<Rightarrow>
                   if ret = 0 then
                     case laser_con_measure ev (LaserPeriod s) s of (ret, s) \<Rightarrow> (if ret = 0 then ack else noack, s)
                   else (noack, s)
               else if v = 0 then
                 if has_rs485 \<and> laser_status s LASER_ON \<and> laser_status s LASER_CON_MESURE
                 then (noack, set_bit_of LASER_NEED_CLOSE True s\<lparr>delayed_work := True\<rparr>)
                 else case laser_stopclear ev s of (ret, s) \<Rightarrow> (if ret = 0 then ack else noack, s)
               else (noack, s)) of
           (ack_cmd, s) \<Rightarrow> cob_msg_send bo ack_cmd v COB_ID1_TX s)"

definition cob_id1_cmd :: "byteorder \<Rightarrow> event_env \<Rightarrow> bool \<Rightarrow> 'f cfg_api \<Rightarrow> u32 \<Rightarrow> u32 \<Rightarrow> ('d, 'f) laser \<Rightarrow> ('d, 'f) laser" where
  "cob_id1_cmd bo ev has_rs485 cfg cmd v s =
     (let reply = (\<lambda>a b. cob_msg_send bo a b COB_ID1_TX)
      in if cmd = CANRECSDOREADCONWORD then
           reply 0x43406200 (of_bool (laser_status s LASER_DEVICE_STATUS)) s
         else if cmd = CANRECSDOWRITECONWORD \<or> cmd = CANRECSDOWRITECONWORD_NEW then
           reply 0x60406200 v (set_bit_of LASER_DEVICE_STATUS (v \<noteq> 0) s)
         else if cmd = CANRECSDOREADYAXISREALVAL \<or> cmd = CANRECSDOREADXAXISREALVAL then
           (if cmd = CANRECSDOREADXAXISREALVAL then reply 0x43466200 0x1234 s else reply 0x43486200 0x1234 s)
         else if cmd = CANRECSDOREADXAXIS then reply 0x43016200 (scast (gcXaxisInitValue s)) s
         else if cmd = CANRECSDOREADYAXIS then reply 0x43026200 (scast (gcYaxisInitValue s)) s
         else if cmd = CANRECSDOWRITEXAXIS then
           let s = s\<lparr>gcXaxisInitValue := ucast (v AND 0xFFFF)\<rparr>
           in reply 0x60016200 (scast (gcXaxisInitValue s)) s
         else if cmd = CANRECSDOWRITEYAXIS then
           let s = s\<lparr>gcYaxisInitValue := ucast (v AND 0xFFFF)\<rparr>
           in reply 0x60026200 (scast (gcYaxisInitValue s)) s
         else if cmd = CANREADSYSTEMSTATUS then
           let s = snd (laser_flash_read_mode cfg (s\<lparr>SystemStatus := SYSTEMSTATUSWORKING\<rparr>))
           in reply (SystemStatus s) CANREADSYSTEMSTATUS s
         else if cmd = CANWRITESYSTEMSTATUS \<or> cmd = CANWRITESYSTEMSTATUS_NEW then
           let s = snd (laser_flash_write_mode cfg (s\<lparr>SystemStatus := SYSTEMSTATUSEEPROM\<rparr>))
           in reply (SystemStatus s) CANWRITESYSTEMSTATUS s
         else if cmd = CANCMD_LASER_CTRL \<or> cmd = CANCMD_LASER_CTRL_NEW then laser_ctrl_cmd bo ev has_rs485 v s
         else if cmd = CANCMD_LASER_PEROID_CONF \<or> cmd = CANCMD_LASER_PEROID_CONFN then
           reply (ack_of CANCMD_LASER_PEROID_CONF CAN_HOST_ACK_ID) v (s\<lparr>LaserPeriod := v\<rparr>)
         else if cmd = CANCMD_LASER_PEROID_GET then
           reply (ack_of CANCMD_LASER_PEROID_GET CAN_HOST_ACK_ID) (LaserPeriod s) s
         else s)"

text \<open>\<open>garbage\<close> is what the uninitialised local of a failed register read holds.\<close>

definition cob_id2_cmd :: "byteorder \<Rightarrow> 'f cfg_api \<Rightarrow> u32 \<Rightarrow> can_frame \<Rightarrow> ('d, 'f) laser \<Rightarrow> ('d, 'f) laser" where
  "cob_id2_cmd bo cfg garbage frame s =
     (let d = can_data frame;
          address = unat (d ! 1) + unat (d ! 2) * 10;
          address = (if address = 0 then 1 else address);
          reply = (\<lambda>a b. cob_msg_send bo a b COB_ID2_TX)
      in if d ! 0 = 0x22 then
           let val = be32_to_cpu bo (data_32 frame 1)
           in case laser_flash_write cfg (of_nat (address - 1)) val s of (ret, s) \<Rightarrow>
                if ret \<noteq> 0 then reply 0x12 val s else reply 1 val s
         else if d ! 0 = 0x40 then
           case laser_flash_read (of_nat (address - 1)) s of (ret, r) \<Rightarrow>
             let val = (case r of None \<Rightarrow> garbage | Some v \<Rightarrow> v)
             in if ret \<noteq> 0 then reply 0x11 val s else reply 1 val s
         else s)"

record 'f laser_env =
  le_events :: event_env
  le_rs485 :: bool
  le_cfg :: "'f cfg_api"
  le_garbage :: u32
  le_uptime :: u64
  le_app_version :: u32
  le_fpga_version :: u32

definition laser_canrx_msg_handler :: "byteorder \<Rightarrow> 'd dfu_api \<Rightarrow> 'f laser_env \<Rightarrow> can_frame \<Rightarrow>
    ('d, 'f) laser \<Rightarrow> ('d, 'f) laser" where
  "laser_canrx_msg_handler bo api env frame s =
     (if can_id frame = COB_ID1_RX then
        cob_id1_cmd bo (le_events env) (le_rs485 env) (le_cfg env)
          (be32_to_cpu bo (data_32 frame 0)) (be32_to_cpu bo (data_32 frame 1)) s
      else if can_id frame = COB_ID2_RX then cob_id2_cmd bo (le_cfg env) (le_garbage env) frame s
      else if can_id frame = PLATFORM_RX \<or> can_id frame = FW_DATA_RX then
        snd (laser_fw_update bo api (le_app_version env) (le_fpga_version env) frame
              (s\<lparr>latest_fw_up_times := le_uptime env\<rparr>))
      else s)"

text \<open>The delayed work item of boards with an RS485 transmitter.\<close>

definition laser_stop_work_handler :: "event_env \<Rightarrow> ('d, 'f) laser \<Rightarrow> ('d, 'f) laser" where
  "laser_stop_work_handler ev s =
     (if laser_status s LASER_NEED_CLOSE
      then snd (laser_stopclear ev (set_bit_of LASER_NEED_CLOSE False s))
      else s)"

text \<open>
  The readiness loop: \<open>ready n\<close> is the answer to check \<open>n\<close>.  The counter is compared after the
  increment in the loop's condition, so success at the tenth check is reported as a failure.
\<close>

function can_ready_loop :: "nat \<Rightarrow> (nat \<Rightarrow> bool) \<Rightarrow> nat" where
  "can_ready_loop n ready =
     (if n < 10 then if ready n then n + 1 else can_ready_loop (n + 1) ready else n + 1)"
  by pat_completeness auto
termination by (relation "measure (\<lambda>(n, ready). 10 - n)") auto

declare can_ready_loop.simps [simp del]

definition laser_can_init :: "(nat \<Rightarrow> bool) \<Rightarrow> int \<Rightarrow> int \<Rightarrow> 'f cfg_api \<Rightarrow> ('d, 'f) laser \<Rightarrow> int \<times> ('d, 'f) laser" where
  "laser_can_init ready set_bitrate start cfg s =
     (if can_ready_loop 0 ready \<ge> 10 then (- 1, s)
      else if set_bitrate \<noteq> 0 then (set_bitrate, s)
      else if start \<noteq> 0 then (start, s)
      else
        let s = snd (laser_flash_read_mode cfg s)
        in (0, s\<lparr>laser_filters := laser_filters s @ [COB_ID1_RX, COB_ID2_RX, PLATFORM_RX, FW_DATA_RX]\<rparr>))"

definition laser_boot :: "'d \<Rightarrow> 'f \<Rightarrow> ('d, 'f) laser" where
  "laser_boot d f = \<lparr>laser_status = (\<lambda>_. False), cfg_dev = f, laser_fa = False,
     laser_regs = replicate LASER_REGS 0, inited = False, img_dev = d, msg_total_size = 0, msg_offset = 0,
     latest_fw_up_times = 0, SystemStatus = SYSTEMSTATUSWORKING, LaserPeriod = 100,
     gcXaxisInitValue = 0, gcYaxisInitValue = 0, laser_out = [], laser_can_tx_seq = 0, delayed_work = False,
     laser_filters = [],
     laser_id = 0, first_on = False, serial_out = [], laser_event = 0, laser_serial_msgq = [],
     uart_buf = empty_rx, local_previous_time = 0, fpga_previous_time1 = 0, fpga_previous_time2 = 0,
     laser_reboot = False\<rparr>"

end
