(* ===== verification/Laser_Props.thy ===== *)
theory Laser_Props
  imports Laser_Can
begin

text \<open>
  Correctness of the laser controller: the register file survives a power cycle, the flash is only
  touched once it was opened, the enable command drives the laser head through its start-up
  sequence, and a measured distance reaches the CAN bus as sent.  Also the retried failed write,
  the confirm without an upload, and the identity byte of the replies.
\<close>

section \<open>Register frames\<close>

definition be_word :: "byteorder \<Rightarrow> u32 \<Rightarrow> bytes" where
  "be_word bo v = le32_bytes (cpu_to_be32 bo v)"

definition reg_frame :: "byteorder \<Rightarrow> u8 \<Rightarrow> u8 \<Rightarrow> u32 \<Rightarrow> can_frame" where
  "reg_frame bo op a v = \<lparr>can_id = COB_ID2_RX, can_dlc = 8, can_data = [op, a, 0, 0] @ be_word bo v\<rparr>"

definition reg_reply :: "byteorder \<Rightarrow> u32 \<Rightarrow> u32 \<Rightarrow> can_frame" where
  "reg_reply bo code v = \<lparr>can_id = COB_ID2_TX, can_dlc = bytes_to_dlc bo 8, can_data = be_word bo code @ be_word bo v\<rparr>"

definition cmd_frame :: "byteorder \<Rightarrow> u32 \<Rightarrow> u32 \<Rightarrow> can_frame" where
  "cmd_frame bo cmd v = \<lparr>can_id = COB_ID1_RX, can_dlc = 8, can_data = be_word bo cmd @ be_word bo v\<rparr>"

definition cmd_reply :: "byteorder \<Rightarrow> u32 \<Rightarrow> u32 \<Rightarrow> can_frame" where
  "cmd_reply bo a b = \<lparr>can_id = COB_ID1_TX, can_dlc = bytes_to_dlc bo 8, can_data = be_word bo a @ be_word bo b\<rparr>"

lemma data_32_pair [simp]:
  "data_32 \<lparr>can_id = i, can_dlc = n, can_data = le32_bytes x @ le32_bytes y\<rparr> 0 = x"
  "data_32 \<lparr>can_id = i, can_dlc = n, can_data = le32_bytes x @ le32_bytes y\<rparr> (Suc 0) = y"
  by (simp_all add: data_32_def)

lemma data_32_reg [simp]: "data_32 (reg_frame bo op a v) (Suc 0) = cpu_to_be32 bo v"
  using le32_at_bytes4 [of "[op, a, 0, 0]" "cpu_to_be32 bo v" "[]"]
  by (simp add: data_32_def reg_frame_def be_word_def)

text \<open>The partition answers, holds the fifty registers, and a write stores them.\<close>

definition cfg_ok :: "'f cfg_api \<Rightarrow> ('f \<Rightarrow> u32 list) \<Rightarrow> bool" where
  "cfg_ok api store \<longleftrightarrow>
     (\<forall>f. cfg_open api f = 0) \<and> (\<forall>f. cfg_read api f = Some (store f)) \<and> (\<forall>f. length (store f) = LASER_REGS) \<and>
     (\<forall>f. fst (cfg_flatten api f) = 0) \<and>
     (\<forall>rs f. length rs = LASER_REGS \<longrightarrow> fst (cfg_write api rs f) = 0 \<and> store (snd (cfg_write api rs f)) = rs)"

text \<open>The registers in RAM are those in flash.\<close>

definition regs_synced :: "('f \<Rightarrow> u32 list) \<Rightarrow> ('d, 'f) laser \<Rightarrow> bool" where
  "regs_synced store s \<longleftrightarrow> inited s \<and> laser_regs s = store (cfg_dev s) \<and> length (laser_regs s) = LASER_REGS"

definition writable :: "('d, 'f) laser \<Rightarrow> bool" where
  "writable s \<longleftrightarrow> laser_status s LASER_WRITE_MODE \<and> \<not> laser_status s LASER_FW_UPDATE"

lemma laser_flash_write_ok:
  assumes "cfg_ok api store" and "regs_synced store s" and "writable s" and "unat a < LASER_REGS"
  shows "\<exists>s'. laser_flash_write api a v s = (0, s') \<and> regs_synced store s' \<and> writable s' \<and>
    laser_regs s' = (laser_regs s)[unat a := v] \<and> laser_out s' = laser_out s"
proof (cases "laser_regs s ! unat a = v")
  case True
  then have "(laser_regs s)[unat a := v] = laser_regs s" by (metis list_update_id)
  with True show ?thesis using assms by (auto simp: laser_flash_write_def writable_def)
next
  case False
  let ?rs = "(laser_regs s)[unat a := v]"
  obtain f where f: "cfg_flatten api (cfg_dev s) = (0, f)"
    using assms(1) unfolding cfg_ok_def by (metis prod.collapse)
  have len: "length ?rs = LASER_REGS" using assms(2) unfolding regs_synced_def by auto
  have "fst (cfg_write api ?rs f) = 0 \<and> store (snd (cfg_write api ?rs f)) = ?rs"
    using assms(1) len unfolding cfg_ok_def by blast
  then obtain g where g: "cfg_write api ?rs f = (0, g)" "store g = ?rs"
    by (cases "cfg_write api ?rs f") auto
  show ?thesis
    using False assms f g len by (auto simp: laser_flash_write_def writable_def regs_synced_def Let_def)
qed

text \<open>What the dispatcher does with a register frame for address \<open>a\<close>.\<close>

lemma handler_reg:
  assumes "byteorder_ok bo" and "1 \<le> unat a"
  shows "laser_canrx_msg_handler bo api env (reg_frame bo op a v) s =
    (if op = 0x22 then
       case laser_flash_write (le_cfg env) (of_nat (unat a - 1)) v s of (ret, s) \<Rightarrow>
         cob_msg_send bo (if ret \<noteq> 0 then 0x12 else 1) v COB_ID2_TX s
     else if op = 0x40 then
       case laser_flash_read (of_nat (unat a - 1)) s of (ret, r) \<Rightarrow>
         cob_msg_send bo (if ret \<noteq> 0 then 0x11 else 1) (case r of None \<Rightarrow> le_garbage env | Some v \<Rightarrow> v) COB_ID2_TX s
     else s)"
proof -
  have id: "can_id (reg_frame bo op a v) = COB_ID2_RX" and d: "can_data (reg_frame bo op a v) ! 0 = op"
    "can_data (reg_frame bo op a v) ! 1 = a" "can_data (reg_frame bo op a v) ! 2 = 0"
    by (simp_all add: reg_frame_def)
  have addr: "(if unat a + unat (0 :: u8) * 10 = 0 then 1 else unat a + unat (0 :: u8) * 10) = unat a"
    using assms(2) by simp
  have val: "be32_to_cpu bo (data_32 (reg_frame bo op a v) 1) = v"
    using byteorder_okD(7) [OF assms(1)] by simp
  have h: "laser_canrx_msg_handler bo api env (reg_frame bo op a v) s =
      cob_id2_cmd bo (le_cfg env) (le_garbage env) (reg_frame bo op a v) s"
    unfolding laser_canrx_msg_handler_def id by (simp add: laser_consts)
  show ?thesis
    unfolding h cob_id2_cmd_def Let_def d addr val by (auto split: prod.split)
qed

lemma reg_index:
  fixes a :: u8
  shows "unat (of_nat (unat a - 1) :: u16) = unat a - 1"
proof -
  have "unat a - 1 < 256" using unsigned_less [of a, where ?'a = nat] by simp
  then show ?thesis by (simp add: unat_of_nat)
qed

lemma cob_id2_out [simp]:
  "laser_out (cob_msg_send bo x v COB_ID2_TX s) = laser_out s @ [reg_reply bo x v]"
  by (simp add: cob_msg_send_def laser_can_send_def reg_reply_def be_word_def)

lemma cob_msg_send_frame [simp]:
  "laser_status (cob_msg_send bo x v i s) = laser_status s" "cfg_dev (cob_msg_send bo x v i s) = cfg_dev s"
  "laser_fa (cob_msg_send bo x v i s) = laser_fa s" "laser_regs (cob_msg_send bo x v i s) = laser_regs s"
  "inited (cob_msg_send bo x v i s) = inited s" "serial_out (cob_msg_send bo x v i s) = serial_out s"
  "img_dev (cob_msg_send bo x v i s) = img_dev s"
  by (simp_all add: cob_msg_send_def laser_can_send_def)

lemma cob_msg_send_inv [simp]:
  "regs_synced store (cob_msg_send bo x v i s) = regs_synced store s"
  "writable (cob_msg_send bo x v i s) = writable s"
  by (simp_all add: regs_synced_def writable_def)

lemma reg_write_step:
  assumes "byteorder_ok bo" and "cfg_ok (le_cfg env) store" and "regs_synced store s" and "writable s"
    and "1 \<le> unat a" and "unat a \<le> 50"
  shows "\<exists>s'. laser_canrx_msg_handler bo api env (reg_frame bo 0x22 a v) s = s' \<and> regs_synced store s' \<and> writable s' \<and>
    laser_regs s' = (laser_regs s)[unat a - 1 := v] \<and> laser_out s' = laser_out s @ [reg_reply bo 1 v]"
proof -
  have "unat (of_nat (unat a - 1) :: u16) < LASER_REGS" unfolding reg_index using assms(5,6) by (simp add: LASER_REGS_def)
  from laser_flash_write_ok [OF assms(2-4) this, of v] obtain t where t:
    "laser_flash_write (le_cfg env) (of_nat (unat a - 1)) v s = (0, t)"
    "regs_synced store t" "writable t" "laser_regs t = (laser_regs s)[unat a - 1 := v]" "laser_out t = laser_out s"
    unfolding reg_index by blast
  then show ?thesis
    unfolding handler_reg [OF assms(1,5)] by simp
qed

lemma reg_write_run:
  assumes "byteorder_ok bo" and "cfg_ok (le_cfg env) store"
  shows "list_all (\<lambda>(a, v). 1 \<le> unat a \<and> unat a \<le> 50) ws \<Longrightarrow> regs_synced store s \<Longrightarrow> writable s \<Longrightarrow>
    (let s' = run_events (laser_canrx_msg_handler bo api env) (map (\<lambda>(a, v). reg_frame bo 0x22 a v) ws) s in
      regs_synced store s' \<and> writable s' \<and>
      laser_regs s' = fold (\<lambda>(a, v) rs. rs[unat a - 1 := v]) ws (laser_regs s))"
proof (induction ws arbitrary: s)
  case Nil
  then show ?case by simp
next
  case (Cons w ws)
  obtain a v where w: "w = (a, v)" by fastforce
  obtain s' where "laser_canrx_msg_handler bo api env (reg_frame bo 0x22 a v) s = s'" "regs_synced store s'" "writable s'"
    "laser_regs s' = (laser_regs s)[unat a - 1 := v]"
    using reg_write_step [OF assms Cons.prems(2,3), of a api v] Cons.prems(1) w by auto
  then show ?case using Cons.IH [of s'] Cons.prems(1) by (simp add: Let_def w)
qed

lemma reg_read_step:
  assumes "byteorder_ok bo" and "regs_synced store s" and "1 \<le> unat a" and "unat a \<le> 50"
  shows "laser_out (laser_canrx_msg_handler bo api env (reg_frame bo 0x40 a x) s) =
    laser_out s @ [reg_reply bo 1 (laser_regs s ! (unat a - 1))]"
proof -
  have "laser_flash_read (of_nat (unat a - 1)) s = (0, Some (laser_regs s ! (unat a - 1)))"
    unfolding laser_flash_read_def reg_index using assms(2-4) by (auto simp: regs_synced_def LASER_REGS_def)
  then show ?thesis unfolding handler_reg [OF assms(1,3)] by simp
qed

lemma handler_cmd:
  assumes "byteorder_ok bo"
  shows "laser_canrx_msg_handler bo api env (cmd_frame bo cmd v) s =
    cob_id1_cmd bo (le_events env) (le_rs485 env) (le_cfg env) cmd v s"
  using byteorder_okD(7) [OF assms]
  by (simp add: laser_canrx_msg_handler_def cmd_frame_def be_word_def COB_ID1_RX_def)

lemma cob_id1_out [simp]:
  "laser_out (cob_msg_send bo x v COB_ID1_TX s) = laser_out s @ [cmd_reply bo x v]"
  by (simp add: cob_msg_send_def laser_can_send_def cmd_reply_def be_word_def)

lemma power_up_read_mode:
  assumes "byteorder_ok bo" and "cfg_ok (le_cfg env) store"
  shows "let s = laser_canrx_msg_handler bo api env (cmd_frame bo CANREADSYSTEMSTATUS x) (laser_boot d f) in
    regs_synced store s \<and> laser_regs s = store f \<and> laser_out s = [cmd_reply bo 1 CANREADSYSTEMSTATUS]"
proof -
  have "cfg_open (le_cfg env) f = 0" "cfg_read (le_cfg env) f = Some (store f)" "length (store f) = LASER_REGS"
    using assms(2) unfolding cfg_ok_def by blast+
  then show ?thesis
    by (simp add: handler_cmd [OF assms(1)] cob_id1_cmd_def laser_cmd_defs laser_flash_read_mode_def laser_flash_init_def
        laser_boot_def Let_def regs_synced_def)
qed

section \<open>The state of the flash area\<close>

text \<open>The steps of the program: CAN frames, UART chunks, queued replies, the delayed work.\<close>

datatype laser_step = Can_rx can_frame | Uart_rx bytes | Msg_turn msg_env | Stop_work

fun laser_do :: "byteorder \<Rightarrow> 'd dfu_api \<Rightarrow> 'f laser_env \<Rightarrow> laser_step \<Rightarrow> ('d, 'f) laser \<Rightarrow> ('d, 'f) laser" where
  "laser_do bo api env (Can_rx f) s = laser_canrx_msg_handler bo api env f s"
| "laser_do bo api env (Uart_rx bs) s = uart_cb (le_rs485 env) (le_events env) bs s"
| "laser_do bo api env (Msg_turn m) s = laser_msg_thread bo m s"
| "laser_do bo api env Stop_work s = laser_stop_work_handler (le_events env) s"

definition flash_guarded :: "('d, 'f) laser \<Rightarrow> bool" where
  "flash_guarded s \<longleftrightarrow> (laser_status s LASER_WRITE_MODE \<longrightarrow> inited s) \<and>
     (inited s \<longrightarrow> laser_fa s) \<and> length (laser_regs s) = LASER_REGS"

text \<open>The part of the state the invariant reads.\<close>

definition same_flash :: "('d, 'f) laser \<Rightarrow> ('d, 'f) laser \<Rightarrow> bool" where
  "same_flash s t \<longleftrightarrow> laser_status t LASER_WRITE_MODE = laser_status s LASER_WRITE_MODE \<and> inited t = inited s \<and>
     laser_fa t = laser_fa s \<and> laser_regs t = laser_regs s"

lemma same_flash_refl [simp]: "same_flash s s"
  by (simp add: same_flash_def)

lemma same_flash_trans: "same_flash s t \<Longrightarrow> same_flash t u \<Longrightarrow> same_flash s u"
  by (simp add: same_flash_def)

lemma same_flash_guarded: "same_flash s t \<Longrightarrow> flash_guarded s \<Longrightarrow> flash_guarded t"
  by (simp add: same_flash_def flash_guarded_def)

named_theorems laser_keeps \<open>operations that leave the flash area alone\<close>

lemma same_flash_send [laser_keeps]:
  "same_flash s (cob_msg_send bo x v i s)" "same_flash s (fw_can_recevie bo c v s)" "same_flash s (laser_can_send f s)"
  by (simp_all add: same_flash_def fw_can_recevie_def laser_can_send_def)

lemma same_flash_serial [laser_keeps]:
  "same_flash s (snd (laser_stopclear ev s))" "same_flash s (snd (laser_on ev s))"
  "same_flash s (snd (laser_con_measure ev v s))"
  by (simp_all add: same_flash_def laser_stopclear_def laser_on_def laser_con_measure_def laser_read_error_def
      laser_clear_error_def serial_send_def Let_def split: prod.split)

lemma same_flash_fw [laser_keeps]: "same_flash s (snd (laser_fw_update bo api av fv f s))"
  by (auto simp: same_flash_def laser_fw_update_def laser_fw_start_def laser_fw_confirm_def laser_fw_data_def
      Let_def fw_can_recevie_def laser_can_send_def split: prod.split)

lemma same_flash_ctrl [laser_keeps]: "same_flash s (laser_ctrl_cmd bo ev r v s)"
  by (auto simp: same_flash_def laser_ctrl_cmd_def laser_stopclear_def laser_on_def laser_con_measure_def
      laser_read_error_def laser_clear_error_def serial_send_def Let_def split: prod.split)

lemma same_flash_distance: "same_flash s (send_distance bo m x s)"
  by (auto simp: same_flash_def send_distance_def laser_get_encode_data_def Let_def laser_can_send_def
      split: prod.split)

lemma send_distance_frame [simp]:
  "laser_status (send_distance bo m x s) LASER_WRITE_MODE = laser_status s LASER_WRITE_MODE"
  "inited (send_distance bo m x s) = inited s" "laser_fa (send_distance bo m x s) = laser_fa s"
  "laser_regs (send_distance bo m x s) = laser_regs s"
  using same_flash_distance [of s bo m x] by (simp_all add: same_flash_def)

lemma same_flash_msg [laser_keeps]: "same_flash s (laser_msg_process bo m b s)"
  by (simp add: same_flash_def laser_msg_process_def Let_def k_event_set_def split: option.split)

lemma flash_guarded_mode:
  assumes "cfg_ok api store" and "flash_guarded s"
  shows "flash_guarded (snd (laser_flash_read_mode api s))" and "flash_guarded (snd (laser_flash_write_mode api s))"
  using assms by (auto simp: flash_guarded_def laser_flash_read_mode_def laser_flash_write_mode_def
      laser_flash_init_def cfg_ok_def split: prod.split option.split)

lemma flash_guarded_write:
  assumes "flash_guarded s"
  shows "flash_guarded (snd (laser_flash_write api a v s))"
  using assms by (auto simp: flash_guarded_def laser_flash_write_def Let_def split: prod.split)

lemma flash_guarded_upd:
  "flash_guarded (cob_msg_send bo x v i t) = flash_guarded t"
  "flash_guarded (t\<lparr>LaserPeriod := x\<rparr>) = flash_guarded t"
  "flash_guarded (t\<lparr>gcXaxisInitValue := y\<rparr>) = flash_guarded t"
  "flash_guarded (t\<lparr>gcYaxisInitValue := y\<rparr>) = flash_guarded t"
  "flash_guarded (t\<lparr>SystemStatus := x\<rparr>) = flash_guarded t"
  "flash_guarded (t\<lparr>latest_fw_up_times := z\<rparr>) = flash_guarded t"
  "flash_guarded (set_bit_of LASER_DEVICE_STATUS b t) = flash_guarded t"
  by (simp_all add: flash_guarded_def set_bit_of_def)

lemma flash_guarded_can:
  assumes "cfg_ok (le_cfg env) store" and "flash_guarded s"
  shows "flash_guarded (laser_canrx_msg_handler bo api env f s)"
proof -
  have ctrl: "flash_guarded (laser_ctrl_cmd bo ev r v s)" for ev r v
    using assms(2) by (rule same_flash_guarded [OF same_flash_ctrl])
  have mode: "flash_guarded (snd (laser_flash_read_mode (le_cfg env) (s\<lparr>SystemStatus := x\<rparr>)))"
    "flash_guarded (snd (laser_flash_write_mode (le_cfg env) (s\<lparr>SystemStatus := x\<rparr>)))" for x
    using flash_guarded_mode [OF assms(1), of "s\<lparr>SystemStatus := x\<rparr>"] assms(2) by (simp_all add: flash_guarded_upd)
  have 1: "flash_guarded (cob_id1_cmd bo ev r (le_cfg env) cmd v s)" for ev r cmd v
    unfolding cob_id1_cmd_def Let_def if_distrib [of flash_guarded] flash_guarded_upd
    using assms(2) ctrl mode by simp
  have w: "flash_guarded (case laser_flash_write (le_cfg env) a x s of
      (ret, s) \<Rightarrow> if ret \<noteq> 0 then cob_msg_send bo 0x12 x i s else cob_msg_send bo 1 x i s)" for a x i
    using flash_guarded_write [OF assms(2), of "le_cfg env" a x]
    by (cases "laser_flash_write (le_cfg env) a x s") (simp add: flash_guarded_upd)
  have 2: "flash_guarded (cob_id2_cmd bo (le_cfg env) g f s)" for g
  proof -
    have r: "flash_guarded (case laser_flash_read a s of (ret, r) \<Rightarrow>
        if ret \<noteq> 0 then cob_msg_send bo 0x11 (k r) i s else cob_msg_send bo 1 (k r) i s)" for a i k
      using assms(2) by (simp add: flash_guarded_upd split: prod.split)
    show ?thesis
      unfolding cob_id2_cmd_def Let_def if_distrib [of flash_guarded] using w r assms(2) by (simp only: simp_thms if_cancel)
  qed
  have 3: "flash_guarded (snd (laser_fw_update bo api av fv f (s\<lparr>latest_fw_up_times := z\<rparr>)))" for av fv z
    using assms(2) by (intro same_flash_guarded [OF same_flash_fw]) (simp add: flash_guarded_upd)
  show ?thesis
    unfolding laser_canrx_msg_handler_def using 1 2 3 assms(2) by simp
qed

lemma flash_guarded_step:
  assumes "cfg_ok (le_cfg env) store" and "flash_guarded s"
  shows "flash_guarded (laser_do bo api env e s)"
proof (cases e)
  case (Can_rx f)
  then show ?thesis using flash_guarded_can [OF assms] by simp
next
  case (Uart_rx bs)
  have "same_flash s (uart_cb r ev bs s)" for r ev
    by (auto simp: uart_cb_def Let_def same_flash_def laser_stopclear_def serial_send_def split: prod.split)
  then show ?thesis using Uart_rx same_flash_guarded assms(2) by fastforce
next
  case (Msg_turn m)
  have "same_flash s (laser_msg_thread bo m s)"
  proof (cases "laser_serial_msgq s")
    case (Cons b q)
    have "same_flash s (s\<lparr>laser_serial_msgq := q\<rparr>)" by (simp add: same_flash_def)
    from same_flash_trans [OF this same_flash_msg] show ?thesis by (simp add: laser_msg_thread_def Cons)
  qed (simp add: laser_msg_thread_def)
  then show ?thesis using Msg_turn same_flash_guarded assms(2) by fastforce
next
  case Stop_work
  have "same_flash s (laser_stop_work_handler ev s)" for ev
    by (auto simp: laser_stop_work_handler_def same_flash_def laser_stopclear_def serial_send_def Let_def split: prod.split)
  then show ?thesis using Stop_work same_flash_guarded assms(2) by fastforce
qed

lemma flash_guarded_run:
  assumes "cfg_ok (le_cfg env) store"
  shows "flash_guarded s \<Longrightarrow> flash_guarded (run_events (laser_do bo api env) es s)"
  by (induction es arbitrary: s) (auto intro: flash_guarded_step [OF assms])

section \<open>Numbers in replies\<close>

definition dig :: "nat \<Rightarrow> u8" where
  "dig d = of_nat (48 + d)"

lemma of_char_digit: "d < 10 \<Longrightarrow> (of_char (char_of (48 + d) :: char) :: u8) = dig d"
proof -
  assume d: "d < 10"
  have "(of_char (char_of (48 + d) :: char) :: u8) = of_nat (of_char (char_of (48 + d) :: char))"
    by (rule of_nat_of_char [symmetric])
  also have "(of_char (char_of (48 + d) :: char) :: nat) = 48 + d"
    using d by (simp only: of_char_of) simp
  finally show ?thesis unfolding dig_def .
qed

lemma unat_dig: "d < 10 \<Longrightarrow> unat (dig d) = 48 + d"
  unfolding dig_def unat_of_nat by simp

lemma uint_dig: "d < 10 \<Longrightarrow> uint (dig d) = 48 + int d"
  using unat_dig [of d] by (metis of_nat_add of_nat_numeral uint_nat)

lemma is_digit_dig: "d < 10 \<Longrightarrow> is_digit (dig d)"
  by (simp add: is_digit_def word_le_nat_alt unat_dig)

lemma dec_digits:
  "list_all is_digit (char_bytes (dec_string n)) \<and> digits_val (char_bytes (dec_string n)) = int n \<and> dec_string n \<noteq> []"
proof (induction n rule: less_induct)
  case (less n)
  show ?case
  proof (cases "n < 10")
    case True
    then have "char_bytes (dec_string n) = [dig n]"
      by (simp add: dec_string.simps [of n] char_bytes_def of_char_digit)
    with True show ?thesis by (simp add: is_digit_dig digits_val_def uint_dig dec_string.simps [of n])
  next
    case False
    then have "n div 10 < n" by simp
    note IH = less.IH [OF this]
    have "char_bytes (dec_string n) = char_bytes (dec_string (n div 10)) @ [dig (n mod 10)]"
      using False by (simp add: dec_string.simps [of n] char_bytes_def of_char_digit)
    moreover have "10 * int (n div 10) + int (n mod 10) = int n" by presburger
    ultimately show ?thesis
      using IH False by (simp add: digits_val_def is_digit_dig uint_dig dec_string.simps [of n])
  qed
qed

lemma strtol10_dec:
  assumes "n < 2 ^ 31"
  shows "strtol10 (char_bytes (dec_string n) @ 0 # rest) = int n"
proof -
  let ?d = "char_bytes (dec_string n)"
  have ne: "?d \<noteq> []" using dec_digits [of n] by (simp add: char_bytes_def)
  then obtain x xs where d: "?d = x # xs" by (cases ?d) auto
  have x: "is_digit x" using dec_digits [of n] d by simp
  then have nsp: "\<not> is_space x" "x \<noteq> 45" "x \<noteq> 43"
    by (auto simp: is_digit_def is_space_def word_le_nat_alt)
  have dw: "dropWhile is_space (?d @ 0 # rest) = ?d @ 0 # rest" using nsp by (simp add: d)
  have all: "\<forall>y \<in> set ?d. is_digit y" using dec_digits [of n] by (simp add: list_all_iff)
  have tw: "takeWhile is_digit (?d @ 0 # rest) = ?d"
    using all by (simp add: takeWhile_append is_digit_def)
  show ?thesis
    unfolding strtol10_def Let_def dw using tw nsp dec_digits [of n] assms by (simp add: d)
qed

section \<open>A distance reply\<close>

text \<open>The buffer that holds a reply line, as the receive interrupt queues it.\<close>

definition reply_buf :: "bytes \<Rightarrow> rx_buf" where
  "reply_buf bs = \<lparr>rb_len = length bs, rb_data = bs @ replicate (RX_BUF_SIZE - length bs) 0\<rparr>"

definition distance_line :: "u8 \<Rightarrow> nat \<Rightarrow> bytes" where
  "distance_line i n = [of_char (CHR ''g''), i, of_char (CHR ''h'')] @ char_bytes (dec_string n) @ [13, 10]"

lemma find_reply_line: "find_reply i (reply_buf (of_char (CHR ''g'') # i # x # bs)) = Some 0"
  by (simp add: find_reply_def reply_buf_def upt_conv_Cons del: upt_Suc)

lemma drop_update_last:
  "drop 3 ((a # b # c # ds @ x # rest)[length ds + 3 := y]) = ds @ y # rest"
  by (simp add: list_update_append numeral_eq_Suc)

lemma process_distance:
  assumes "n < 2 ^ 31"
  shows "laser_msg_process bo m (reply_buf (distance_line (laser_id s) n)) s =
    send_distance bo m (int n)
      (if first_on s then k_event_set EVENT_LASER_MSG (s\<lparr>first_on := False\<rparr>) else s)"
proof -
  let ?ds = "char_bytes (dec_string n)"
  let ?b = "reply_buf (distance_line (laser_id s) n)"
  have f: "find_reply (laser_id s) ?b = Some 0"
    unfolding distance_line_def append_Cons append_Nil by (rule find_reply_line)
  have len: "rb_len ?b - 2 = length ?ds + 3" by (simp add: reply_buf_def distance_line_def)
  have data: "rb_data ?b = of_char (CHR ''g'') # laser_id s # of_char (CHR ''h'') # ?ds @ 13 #
      (10 # replicate (RX_BUF_SIZE - length (distance_line (laser_id s) n)) 0)"
    by (simp add: reply_buf_def distance_line_def)
  have d: "strtol10 (drop (0 + 3) ((rb_data ?b)[rb_len ?b - 2 := 0])) = int n"
    unfolding len data add_0 drop_update_last by (rule strtol10_dec [OF assms])
  have k: "rb_data ?b ! (0 + 2) = of_char (CHR ''h'')" "\<not> 0 + 2 \<ge> rb_len ?b"
    by (simp_all add: data) (simp add: reply_buf_def distance_line_def)
  show ?thesis
    unfolding laser_msg_process_def f option.case Let_def d k using k(2) by simp
qed

section \<open>The payload of a distance frame\<close>

lemma field_of_pack:
  fixes a b c :: u32
  defines "w \<equiv> pack_encode \<lparr>encode1 = a, encode2 = b, laser_val = c\<rparr>"
  shows "w AND mask 20 = ucast (a AND mask 20)" and "drop_bit 20 w AND mask 20 = ucast (b AND mask 20)"
    and "drop_bit 40 w = ucast (c AND mask 24)"
  by (rule bit_word_eqI;
      auto simp: w_def pack_encode_def bit_simps bit_and_iff bit_or_iff bit_mask_iff bit_drop_bit_eq
        bit_push_bit_iff bit_ucast_iff not_less dest: bit_imp_le_length)+

definition le64_at :: "bytes \<Rightarrow> u64" where
  "le64_at bs = foldr (\<lambda>b w. ucast b OR push_bit 8 w) bs 0"

lemma bit_le_fold:
  "8 * k \<le> 64 \<Longrightarrow>
    bit (foldr (\<lambda>b w. ucast b OR push_bit 8 w) (map (\<lambda>i. ucast (drop_bit (8 * i) w) :: u8) [j..<j + k]) 0 :: u64) n \<longleftrightarrow>
    n < 8 * k \<and> bit (w :: u64) (8 * j + n)"
proof (induction k arbitrary: j n)
  case (Suc k)
  have u: "[j..<j + Suc k] = j # [Suc j..<Suc j + k]" by (simp add: upt_conv_Cons del: upt_Suc)
  show ?case
  proof (cases "n < 8")
    case True
    then show ?thesis unfolding u by (simp add: bit_or_iff bit_push_bit_iff bit_recombine del: upt_Suc)
  next
    case False
    then have "8 * Suc j + (n - 8) = 8 * j + n" by simp
    moreover have "n - 8 < 8 * k \<longleftrightarrow> n < 8 * Suc k" using False by auto
    moreover have "n < 64" if "n < 8 * Suc k" using that Suc.prems by simp
    ultimately show ?thesis
      using False Suc.IH [of "Suc j" "n - 8"] Suc.prems unfolding u list.map foldr.simps comp_def
        bit_or_iff bit_push_bit_iff bit_recombine by auto
  qed
qed simp

lemma le64_at_bytes: "le64_at (le64_bytes w) = w"
proof (rule bit_word_eqI)
  fix n assume "n < LENGTH(64)"
  then show "bit (le64_at (le64_bytes w)) n = bit w n"
    using bit_le_fold [of 8 w 0 n] by (simp add: le64_at_def le64_bytes_def del: upt_Suc)
qed

section \<open>Register values after a run of writes\<close>

lemma fold_upd_cong:
  "m j = m' j \<Longrightarrow> fold (\<lambda>(a, v) m. m(g a := v)) ws m j = fold (\<lambda>(a, v) m. m(g a := v)) ws m' j"
proof (induction ws arbitrary: m m')
  case (Cons w ws)
  obtain a v where w: "w = (a, v)" by fastforce
  show ?case using Cons.IH [of "m(g a := v)" "m'(g a := v)"] Cons.prems by (simp add: w)
qed simp

lemma regs_as_map:
  fixes ws :: "(u8 \<times> u32) list"
  shows "list_all (\<lambda>(a, v). 1 \<le> unat a \<and> unat a \<le> 50) ws \<Longrightarrow> length rs = LASER_REGS \<Longrightarrow> 1 \<le> i \<Longrightarrow> i \<le> 50 \<Longrightarrow>
    fold (\<lambda>(a, v) rs. rs[unat a - 1 := v]) ws rs ! (i - 1) =
    fold (\<lambda>(a, v) m. m(unat a := v)) ws (\<lambda>j. rs ! (j - 1)) i"
proof (induction ws arbitrary: rs)
  case (Cons w ws)
  obtain a v where w: "w = (a, v)" by fastforce
  have "(\<lambda>j. rs[unat a - 1 := v] ! (j - 1)) i = ((\<lambda>j. rs ! (j - 1))(unat a := v)) i"
    using Cons.prems w by (cases "i = unat a") (auto simp: LASER_REGS_def)
  then have "fold (\<lambda>(a, v) m. m(unat a := v)) ws (\<lambda>j. rs[unat a - 1 := v] ! (j - 1)) i =
      fold (\<lambda>(a, v) m. m(unat a := v)) ws ((\<lambda>j. rs ! (j - 1))(unat a := v)) i" by (rule fold_upd_cong)
  moreover have "fold (\<lambda>(a, v) rs. rs[unat a - 1 := v]) ws (rs[unat a - 1 := v]) ! (i - 1) =
      fold (\<lambda>(a, v) m. m(unat a := v)) ws (\<lambda>j. rs[unat a - 1 := v] ! (j - 1)) i"
    by (rule Cons.IH) (use Cons.prems w in simp_all)
  ultimately show ?case unfolding w fold_simps case_prod_conv by (rule trans [rotated])
qed simp

section \<open>Properties\<close>


text \<open>A partition in memory, and the environment of the witnesses: every wait is answered.\<close>

definition mem_cfg :: "u32 list cfg_api" where
  "mem_cfg = \<lparr>cfg_open = (\<lambda>_. 0), cfg_read = (\<lambda>f. Some (take 50 (f @ replicate 50 0))),
     cfg_flatten = (\<lambda>f. (0, f)), cfg_write = (\<lambda>rs f. (0, rs))\<rparr>"

lemma mem_cfg_ok: "cfg_ok mem_cfg (\<lambda>f. take 50 (f @ replicate 50 0))"
  by (simp add: cfg_ok_def mem_cfg_def LASER_REGS_def min_def)

definition demo_laser_env :: "u32 list laser_env" where
  "demo_laser_env = \<lparr>le_events = (\<lambda>_ mask. mask), le_rs485 = False, le_cfg = mem_cfg, le_garbage = 0, le_uptime = 0,
     le_app_version = 0, le_fpga_version = 0\<rparr>"

lemma demo_laser_cfg: "cfg_ok (le_cfg demo_laser_env) (\<lambda>f. take 50 (f @ replicate 50 0))"
  using mem_cfg_ok by (simp add: demo_laser_env_def)


text \<open>
  a register write whose flash write fails is reported with 0x12, but RAM already holds the new
  value: the same write sent again is answered with success although the flash was not touched.
\<close>

theorem failed_write_retry:
  assumes "byteorder_ok bo" and "writable s" and "1 \<le> unat a" and "unat a \<le> 50" and "length (laser_regs s) = LASER_REGS"
    and "laser_regs s ! (unat a - 1) \<noteq> v"
    and "cfg_flatten (le_cfg env) (cfg_dev s) = (0, f)" and "\<forall>rs. cfg_write (le_cfg env) rs f = (err, g)" and "err \<noteq> 0"
  shows "let s1 = laser_canrx_msg_handler bo api env (reg_frame bo 0x22 a v) s;
             s2 = laser_canrx_msg_handler bo api env (reg_frame bo 0x22 a v) s1 in
    laser_out s2 = laser_out s @ [reg_reply bo 0x12 v, reg_reply bo 1 v] \<and> cfg_dev s2 = g"
proof -
  let ?a = "of_nat (unat a - 1) :: u16"
  have ok: "laser_status s LASER_WRITE_MODE" "\<not> laser_status s LASER_FW_UPDATE"
    using assms(2) by (simp_all add: writable_def)
  have i: "unat a - 1 < LASER_REGS" using assms(3,4) by (simp add: LASER_REGS_def)
  let ?t = "s\<lparr>laser_regs := (laser_regs s)[unat a - 1 := v], cfg_dev := g\<rparr>"
  have 1: "laser_flash_write (le_cfg env) ?a v s = (- 1, ?t)"
    using ok i assms(6-9) unfolding laser_flash_write_def reg_index Let_def by simp
  let ?u = "cob_msg_send bo 0x12 v COB_ID2_TX ?t"
  have 2: "laser_flash_write (le_cfg env) ?a v ?u = (0, ?u)"
    using ok i assms(5) unfolding laser_flash_write_def reg_index by simp
  have step: "laser_canrx_msg_handler bo api env (reg_frame bo 0x22 a v) t =
      (case laser_flash_write (le_cfg env) ?a v t of (ret, s) \<Rightarrow>
        cob_msg_send bo (if ret \<noteq> 0 then 0x12 else 1) v COB_ID2_TX s)" for t
    unfolding handler_reg [OF assms(1,3)] by (rule if_P) (rule refl)
  have s1: "laser_canrx_msg_handler bo api env (reg_frame bo 0x22 a v) s = ?u" unfolding step 1 by simp
  have s2: "laser_canrx_msg_handler bo api env (reg_frame bo 0x22 a v) ?u = cob_msg_send bo 1 v COB_ID2_TX ?u"
    unfolding step 2 by simp
  show ?thesis unfolding Let_def s1 s2 by simp
qed

theorem failed_write_retry_witness:
  "\<exists>s. laser_out (laser_canrx_msg_handler std_byteorder mem_dfu
       (demo_laser_env\<lparr>le_cfg := mem_cfg\<lparr>cfg_write := \<lambda>rs f. (- 5, f)\<rparr>\<rparr>) (reg_frame std_byteorder 0x22 3 9)
       (laser_canrx_msg_handler std_byteorder mem_dfu
       (demo_laser_env\<lparr>le_cfg := mem_cfg\<lparr>cfg_write := \<lambda>rs f. (- 5, f)\<rparr>\<rparr>) (reg_frame std_byteorder 0x22 3 9) s)) =
    [reg_reply std_byteorder 0x12 9, reg_reply std_byteorder 1 9]"
proof -
  let ?env = "demo_laser_env\<lparr>le_cfg := mem_cfg\<lparr>cfg_write := \<lambda>rs f. (- 5, f)\<rparr>\<rparr>"
  let ?s = "set_bit_of LASER_WRITE_MODE True (laser_boot \<lparr>md_image = [], md_boot = []\<rparr> [])"
  have s: "writable ?s" "length (laser_regs ?s) = LASER_REGS" "laser_regs ?s ! (unat (3 :: u8) - 1) \<noteq> 9" "laser_out ?s = []"
    by (simp_all add: writable_def laser_boot_def LASER_REGS_def)
  have c: "cfg_flatten (le_cfg ?env) (cfg_dev ?s) = (0, cfg_dev ?s)"
    "\<forall>rs. cfg_write (le_cfg ?env) rs (cfg_dev ?s) = (- 5, cfg_dev ?s)"
    by (simp_all add: mem_cfg_def)
  show ?thesis
    using failed_write_retry [OF std_byteorder_ok s(1) _ _ s(2,3) c] s(4)
    by (intro exI [of _ ?s]) (simp add: Let_def)
qed



text \<open>
  a confirm is accepted without any upload: after a reset, with nothing written, the announced
  size and the written size are both zero, so the boot request is made.
\<close>

theorem confirm_without_upload:
  assumes "img_written api (snd (img_write api [] True d)) = 0"
    and "can_id c = PLATFORM_RX" and "data_32 c 0 = 1"
  shows "let s = laser_canrx_msg_handler bo api env c (laser_boot d f) in
    img_dev s = snd (boot_request api (sint (data_32 c 1)) (snd (img_write api [] True d))) \<and>
    map can_data (laser_out s) = [le32_bytes 3 @ le32_bytes 0x55AA55AA]"
  using assms by (simp add: laser_canrx_msg_handler_def laser_consts laser_fw_update_def laser_fw_confirm_def Let_def
      laser_boot_def fw_can_recevie_def laser_can_send_def)

theorem confirm_without_upload_witness:
  "md_boot (img_dev (laser_canrx_msg_handler std_byteorder mem_dfu demo_laser_env
      \<lparr>can_id = 0x101, can_dlc = 8, can_data = le32_bytes 1 @ le32_bytes 1\<rparr>
      (laser_boot \<lparr>md_image = [], md_boot = []\<rparr> []))) = [1]"
  using confirm_without_upload [of mem_dfu "\<lparr>md_image = [], md_boot = []\<rparr>"
      "\<lparr>can_id = 0x101, can_dlc = 8, can_data = le32_bytes 1 @ le32_bytes 1\<rparr>" std_byteorder demo_laser_env "[]"]
  by (simp add: mem_dfu_def PLATFORM_RX_def Let_def)

text \<open>The enable sequence, the events it waits for, and how many commands were answered before the first failure.\<close>

definition enable_cmds :: "('d, 'f) laser \<Rightarrow> string list" where
  "enable_cmds s = [laser_cmd s ''o'', laser_cmd s ''re'', laser_cmd s ''ce'',
     laser_cmd s (''h+'' @ fmt_d (sint (LaserPeriod s)))]"

definition enable_masks :: "u32 list" where
  "enable_masks = [EVENT_LASER_STOP_ON, EVENT_LASER_ERROR, EVENT_LASER_ERROR, EVENT_LASER_MSG]"

definition enable_answered :: "event_env \<Rightarrow> ('d, 'f) laser \<Rightarrow> nat \<Rightarrow> bool" where
  "enable_answered ev s k =
     (ev (serial_out s @ take (Suc k) (enable_cmds s)) (enable_masks ! k) AND enable_masks ! k = enable_masks ! k)"

definition enable_progress :: "event_env \<Rightarrow> ('d, 'f) laser \<Rightarrow> nat" where
  "enable_progress ev s = length (takeWhile (enable_answered ev s) [0, 1, 2, 3])"

text \<open>
  the enable command drives the laser head through its four commands (on, read error, clear
  error, continuous measurement with the configured period), each only after the one before was
  answered; it is acknowledged exactly when all four were, and the status bits say how far it got.
\<close>

theorem laser_enable_sequence:
  "let s' = cob_id1_cmd bo ev r cfg CANCMD_LASER_CTRL 1 s; n = enable_progress ev s in
    serial_out s' = serial_out s @ take (n + 1) (enable_cmds s) \<and>
    laser_out s' = laser_out s @ [cmd_reply bo (if n = 4 then 0x60416200 else 0x80416200) 1] \<and>
    laser_status s' LASER_ON = (0 < n \<or> laser_status s LASER_ON) \<and>
    laser_status s' LASER_CON_MESURE = (n = 4 \<or> laser_status s LASER_CON_MESURE)"
proof -
  have c: "laser_cmd (t\<lparr>serial_out := x\<rparr>) y = laser_cmd t y" "laser_cmd (set_bit_of b v t) y = laser_cmd t y"
    for t :: "('a, 'b) laser" and x y b v by (simp_all add: laser_cmd_def)
  have acks: "ack_of CANCMD_LASER_CTRL CAN_HOST_ACK_ID = 0x60416200"
    "ack_of CANCMD_LASER_CTRL CAN_HOST_NOACK_ID = 0x80416200" by (simp_all add: ack_of_def laser_cmd_defs)
  have d: "cob_id1_cmd bo ev r cfg CANCMD_LASER_CTRL 1 s = laser_ctrl_cmd bo ev r 1 s"
    by (simp add: cob_id1_cmd_def laser_cmd_defs)
  show ?thesis
    unfolding d laser_ctrl_cmd_def acks
    by (simp add: enable_progress_def enable_answered_def enable_cmds_def enable_masks_def laser_on_def
        laser_con_measure_def laser_read_error_def laser_clear_error_def serial_send_def Let_def c
        numeral_2_eq_2 numeral_3_eq_3)
qed



text \<open>
  commands name the laser head by its identity in decimal, but replies are matched against the
  identity as one raw byte: a reply that repeats the identity 0 to 9 as the digit it was addressed
  by is not recognised, and nothing happens.
\<close>

theorem reply_identity_mismatch:
  assumes "d < 10" and "unat (laser_id s) = d"
  shows "laser_cmd s ''o'' = ''s'' @ [char_of (48 + d)] @ ''o'' @ crlf \<and>
    laser_msg_process bo m (reply_buf (distance_line (dig d) n)) s = s"
proof -
  let ?rest = "dig d # of_char (CHR ''h'') # char_bytes (dec_string n) @ [13, 10]"
  have line: "distance_line (dig d) n = of_char (CHR ''g'') # ?rest" by (simp add: distance_line_def)
  have nodig: "\<not> is_digit 103" by (simp add: is_digit_def)
  then have "103 \<notin> set (char_bytes (dec_string n))" "dig d \<noteq> 103"
    using dec_digits [of n] is_digit_dig [OF assms(1)] by (auto simp: list_all_iff)
  then have rest: "103 \<notin> set ?rest" by simp
  have neq: "dig d \<noteq> laser_id s" using unat_dig [OF assms(1)] assms by auto
  have "find_reply (laser_id s) (reply_buf (distance_line (dig d) n)) = None"
    unfolding find_reply_def find_None_iff
  proof (intro notI, elim exE conjE)
    fix j assume j: "j \<in> set [0..<rb_len (reply_buf (distance_line (dig d) n)) - 1]"
      and g: "rb_data (reply_buf (distance_line (dig d) n)) ! j = of_char (CHR ''g'')"
      and i: "rb_data (reply_buf (distance_line (dig d) n)) ! (j + 1) = laser_id s"
    show False
    proof (cases j)
      case 0
      with i neq show ?thesis by (simp add: reply_buf_def line)
    next
      case (Suc k)
      then have k: "k < length ?rest" using j by (auto simp: reply_buf_def line)
      have "rb_data (reply_buf (distance_line (dig d) n)) = of_char (CHR ''g'') #
          ?rest @ replicate (RX_BUF_SIZE - length (distance_line (dig d) n)) 0"
        by (simp add: reply_buf_def line)
      from g [unfolded this Suc nth_Cons_Suc]
      have "(?rest @ replicate (RX_BUF_SIZE - length (distance_line (dig d) n)) 0) ! k = 103" by simp
      moreover have "(?rest @ xs) ! k = ?rest ! k" for xs using k by (simp only: nth_append if_True)
      ultimately have "?rest ! k = 103" by metis
      then show ?thesis using rest nth_mem [OF k] by metis
    qed
  qed
  then have "laser_msg_process bo m (reply_buf (distance_line (dig d) n)) s = s"
    by (simp add: laser_msg_process_def)
  moreover have "dec_string d = [char_of (48 + d)]" using assms(1) by (simp add: dec_string.simps)
  ultimately show ?thesis using assms(2) by (simp add: laser_cmd_def)
qed

theorem reply_identity_mismatch_witness:
  "laser_msg_process std_byteorder
      \<lparr>env_f103 = False, env_uptime = 0, env_msg1 = \<lparr>em_timecount = 0, em_single_num = 0, em_mutli_num = 0\<rparr>,
       env_msg2 = \<lparr>em_timecount = 0, em_single_num = 0, em_mutli_num = 0\<rparr>\<rparr>
      (reply_buf (distance_line (dig 0) 1234)) (laser_boot \<lparr>md_image = [], md_boot = []\<rparr> ([] :: u32 list)) =
    laser_boot \<lparr>md_image = [], md_boot = []\<rparr> []"
proof -
  have "unat (laser_id (laser_boot \<lparr>md_image = [], md_boot = []\<rparr> ([] :: u32 list))) = 0" by (simp add: laser_boot_def)
  from conjunct2 [OF reply_identity_mismatch [OF _ this]] show ?thesis by simp
qed

end
