(* ===== verification/C_Strtol.thy ===== *)
theory C_Strtol
  imports Prelude
begin

text \<open>
  strtol and strtoul of the C library, for the shell commands: blanks, a sign, for base 16 a prefix 0x, and as many
  digits as there are; what follows is ignored, a text without digits is 0.  A long has 32 bits on the targets.
  The text of a number in a base is read back as the number.
\<close>

definition isspace :: "char \<Rightarrow> bool" where
  "isspace c = (let n = of_char c :: nat in n = 32 \<or> 9 \<le> n \<and> n \<le> 13)"

text \<open>The value of a digit or letter; 36 for every other character.\<close>

definition digit_of :: "char \<Rightarrow> nat" where
  "digit_of c =
     (let n = of_char c
      in if 48 \<le> n \<and> n \<le> 57 then n - 48
         else if 97 \<le> n \<and> n \<le> 122 then n - 87
         else if 65 \<le> n \<and> n \<le> 90 then n - 55
         else 36)"

definition digits_number :: "nat \<Rightarrow> string \<Rightarrow> nat" where
  "digits_number base s = fold (\<lambda>c v. base * v + digit_of c) (takeWhile (\<lambda>c. digit_of c < base) s) 0"

definition hex_prefix :: "string \<Rightarrow> bool" where
  "hex_prefix s = (case s of a # x # d # _ \<Rightarrow> a = CHR ''0'' \<and> (x = CHR ''x'' \<or> x = CHR ''X'') \<and> digit_of d < 16 | _ \<Rightarrow> False)"

text \<open>The sign and the number behind it; base 0 lets the text say its base.\<close>

definition strto_parse :: "nat \<Rightarrow> string \<Rightarrow> bool \<times> nat" where
  "strto_parse base s =
     (let s = dropWhile isspace s;
          neg = (take 1 s = ''-'');
          s = (if neg \<or> take 1 s = ''+'' then drop 1 s else s);
          hex = ((base = 0 \<or> base = 16) \<and> hex_prefix s);
          base = (if base \<noteq> 0 then base else if hex then 16 else if take 1 s = ''0'' then 8 else 10);
          s = (if hex then drop 2 s else s)
      in (neg, digits_number base s))"

definition strtol :: "nat \<Rightarrow> string \<Rightarrow> int" where
  "strtol base s =
     (case strto_parse base s of (neg, n) \<Rightarrow>
        max (- (2 ^ 31)) (min (2 ^ 31 - 1) (if neg then - int n else int n)))"

definition strtoul :: "nat \<Rightarrow> string \<Rightarrow> u32" where
  "strtoul base s =
     (case strto_parse base s of (neg, n) \<Rightarrow>
        if n \<ge> 2 ^ 32 then - 1 else if neg then - of_nat n else of_nat n)"

section \<open>Numbers as text\<close>

definition digit_char :: "nat \<Rightarrow> char" where
  "digit_char d = char_of (if d < 10 then 48 + d else 87 + d)"

fun base_text :: "nat \<Rightarrow> nat \<Rightarrow> string" where
  "base_text b n = (if b < 2 \<or> n < b then [digit_char n] else base_text b (n div b) @ [digit_char (n mod b)])"

declare base_text.simps [simp del]

lemma digit_of_char: "d < 36 \<Longrightarrow> digit_of (digit_char d) = d"
  by (simp add: digit_of_def digit_char_def Let_def)

lemma digit_char_neither:
  assumes "d < 36"
  shows "\<not> isspace (digit_char d)" "digit_char d \<noteq> CHR ''-''" "digit_char d \<noteq> CHR ''+''"
proof -
  have n: "of_char (digit_char d) = (if d < 10 then 48 + d else 87 + d)" using assms by (simp add: digit_char_def)
  then show "\<not> isspace (digit_char d)" by (simp add: isspace_def)
  show "digit_char d \<noteq> CHR ''-''" using arg_cong [where f = "of_char :: char \<Rightarrow> nat" and x = "digit_char d" and y = "CHR ''-''"] n
    by (auto split: if_splits)
  show "digit_char d \<noteq> CHR ''+''" using arg_cong [where f = "of_char :: char \<Rightarrow> nat" and x = "digit_char d" and y = "CHR ''+''"] n
    by (auto split: if_splits)
qed

lemma base_text_digits:
  assumes "2 \<le> b" and "b \<le> 36"
  shows "\<exists>d ds. base_text b n = map digit_char (d # ds) \<and> (\<forall>x \<in> set (d # ds). x < b) \<and> fold (\<lambda>x v. b * v + x) (d # ds) 0 = n"
proof (induction n rule: less_induct)
  case (less n)
  show ?case
  proof (cases "n < b")
    case True
    then have "base_text b n = map digit_char [n]" by (simp add: base_text.simps)
    then show ?thesis using True by fastforce
  next
    case False
    then have lt: "n div b < n" using assms by simp
    from less.IH [OF lt] obtain d ds where ds: "base_text b (n div b) = map digit_char (d # ds)"
      "\<forall>x \<in> set (d # ds). x < b" "fold (\<lambda>x v. b * v + x) (d # ds) 0 = n div b" by blast
    have "base_text b n = map digit_char (d # (ds @ [n mod b]))" using ds(1) False assms by (simp add: base_text.simps [of b n])
    moreover have "\<forall>x \<in> set (d # (ds @ [n mod b])). x < b" using ds(2) assms by auto
    moreover have "fold (\<lambda>x v. b * v + x) (d # (ds @ [n mod b])) 0 = n" using ds(3) by simp
    ultimately show ?thesis by blast
  qed
qed

lemma digits_number_map:
  assumes "\<forall>x \<in> set ds. x < b" and "b \<le> 36"
  shows "digits_number b (map digit_char ds) = fold (\<lambda>x v. b * v + x) ds 0"
proof -
  have d: "digit_of (digit_char x) = x" if "x \<in> set ds" for x using that assms by (intro digit_of_char) auto
  then have tw: "takeWhile (\<lambda>c. digit_of c < b) (map digit_char ds) = map digit_char ds"
    using assms(1) by (auto simp: takeWhile_eq_all_conv)
  have "fold (\<lambda>c v. b * v + digit_of c) (map digit_char xs) v = fold (\<lambda>x v. b * v + x) xs v"
    if "set xs \<subseteq> set ds" for xs v
    using that d by (induction xs arbitrary: v) auto
  then show ?thesis by (simp only: digits_number_def tw)
qed

lemma no_hex_prefix:
  assumes "\<forall>x \<in> set ds. x < 16"
  shows "\<not> hex_prefix (map digit_char ds)"
proof
  assume h: "hex_prefix (map digit_char ds)"
  then obtain a x d r where ds: "ds = a # x # d # r"
    by (auto simp: hex_prefix_def map_eq_Cons_conv split: list.splits)
  have "digit_char x = CHR ''x'' \<or> digit_char x = CHR ''X''" using h ds by (simp add: hex_prefix_def)
  then have "digit_of (digit_char x) = 33" by (auto simp: digit_of_def Let_def)
  then show False using digit_of_char [of x] assms ds by simp
qed

lemma strto_parse_base:
  assumes "2 \<le> b" and "b \<le> 16"
  shows "strto_parse b (base_text b n) = (False, n)"
proof -
  obtain d ds where t: "base_text b n = map digit_char (d # ds)" "\<forall>x \<in> set (d # ds). x < b"
    "fold (\<lambda>x v. b * v + x) (d # ds) 0 = n"
    using base_text_digits [of b n] assms by auto
  have d: "d < 36" using t(2) assms by auto
  have "\<not> hex_prefix (map digit_char (d # ds))" by (rule no_hex_prefix) (use t(2) assms in fastforce)
  moreover have "digits_number b (map digit_char (d # ds)) = n" using digits_number_map [OF t(2)] t(3) assms by simp
  ultimately show ?thesis using digit_char_neither [OF d] assms
    by (simp add: strto_parse_def t(1) Let_def)
qed

text \<open>strtol reads the text of a number that a long holds.\<close>

lemma strtol_base: "2 \<le> b \<Longrightarrow> b \<le> 16 \<Longrightarrow> n < 2 ^ 31 \<Longrightarrow> strtol b (base_text b n) = int n"
  by (simp add: strtol_def strto_parse_base)

lemma strtol_bounds: "- (2 ^ 31) \<le> strtol base s \<and> strtol base s < 2 ^ 31"
  by (cases "strto_parse base s") (simp add: strtol_def min_def)

end
