(* ===== verification/Laser_Shell.thy ===== *)
theory Laser_Shell
  imports Laser_Props C_Strtol
begin

text \<open>
  What is left of \<open>applications/laser_ctrl\<close>: the shell commands of its files (flash.c, laser_serial.c, fpga_spi.c),
  the SPI transfers to the FPGA, the polled form of the receiver, and the start of the serial line and of the CAN
  thread.  Arguments are those behind the name of the command.
\<close>

section \<open>flash.c\<close>

definition cmd_lflash_mode :: "'f cfg_api \<Rightarrow> string \<Rightarrow> ('d, 'f) laser \<Rightarrow> int \<times> ('d, 'f) laser" where
  "cmd_lflash_mode api arg s =
     (if arg = ''0'' then (0, snd (laser_flash_read_mode api s))
      else if arg = ''1'' then (0, snd (laser_flash_write_mode api s))
      else (- 1, s))"

text \<open>The words of the command go to the registers from \<open>reg\<close> on, whatever each write answers.\<close>

fun lflash_write_loop :: "'f cfg_api \<Rightarrow> nat \<Rightarrow> string list \<Rightarrow> ('d, 'f) laser \<Rightarrow> ('d, 'f) laser" where
  "lflash_write_loop api reg [] s = s"
| "lflash_write_loop api reg (w # ws) s =
     lflash_write_loop api (reg + 1) ws (snd (laser_flash_write api (of_nat reg) (of_int (strtol 0 w)) s))"

definition cmd_lflash_write :: "'f cfg_api \<Rightarrow> string list \<Rightarrow> ('d, 'f) laser \<Rightarrow> int \<times> ('d, 'f) laser" where
  "cmd_lflash_write api args s =
     (0, lflash_write_loop api (unat (of_int (strtol 0 (args ! 0)) :: u8)) (drop 1 args) s)"

text \<open>
  The lines of cmd_lflash_read, a register's number and the value shown: a read that fails leaves the value of the
  one before, at first what the stack holds (\<open>junk\<close>).
\<close>

fun lflash_read_loop :: "nat \<Rightarrow> nat \<Rightarrow> u32 \<Rightarrow> ('d, 'f) laser \<Rightarrow> (nat \<times> u32) list" where
  "lflash_read_loop reg 0 val s = []"
| "lflash_read_loop reg (Suc n) val s =
     (let val = (case snd (laser_flash_read (of_nat reg) s) of None \<Rightarrow> val | Some v \<Rightarrow> v)
      in (reg, val) # lflash_read_loop (reg + 1) n val s)"

definition cmd_lflash_read :: "u32 \<Rightarrow> string list \<Rightarrow> ('d, 'f) laser \<Rightarrow> int \<times> (nat \<times> u32) list" where
  "cmd_lflash_read junk args s =
     (0, lflash_read_loop (unat (of_int (strtol 0 (args ! 0)) :: u8)) (nat (strtol 0 (args ! 1))) junk s)"

section \<open>laser_serial.c\<close>

definition cmd_laser_on :: "event_env \<Rightarrow> ('d, 'f) laser \<Rightarrow> int \<times> ('d, 'f) laser" where
  "cmd_laser_on ev s = (case laser_on ev s of (ret, s) \<Rightarrow> (if ret \<noteq> 0 then - 1 else 0, s))"

definition cmd_laser_stop :: "event_env \<Rightarrow> ('d, 'f) laser \<Rightarrow> int \<times> ('d, 'f) laser" where
  "cmd_laser_stop ev s = (case laser_stopclear ev s of (ret, s) \<Rightarrow> (if ret \<noteq> 0 then - 1 else 0, s))"

definition cmd_laser_mesure :: "event_env \<Rightarrow> ('d, 'f) laser \<Rightarrow> int \<times> ('d, 'f) laser" where
  "cmd_laser_mesure ev s = (case laser_con_measure ev 100 s of (ret, s) \<Rightarrow> (if ret \<noteq> 0 then - 1 else 0, s))"

text \<open>
  The text as it is typed, sent from a buffer of 256 bytes with the length that the text would have; \<open>None\<close> when
  this is more than the buffer.
\<close>

definition cmd_laser_write :: "event_env \<Rightarrow> string \<Rightarrow> ('d, 'f) laser \<Rightarrow> (int \<times> ('d, 'f) laser) option" where
  "cmd_laser_write ev arg s =
     (let text = arg @ crlf
      in if length text > 256 then None
         else if length text = 256 then Some (0, snd (serial_send ev (butlast text @ [CHR 0x00]) 0xf s))
         else Some (0, snd (serial_send ev text 0xf s)))"

definition cmd_laser_setup :: "event_env \<Rightarrow> string \<Rightarrow> ('d, 'f) laser \<Rightarrow> int \<times> ('d, 'f) laser" where
  "cmd_laser_setup ev arg s = (case laser_setup ev (strtoul 0 arg) s of (ret, s) \<Rightarrow> (if ret \<noteq> 0 then - 1 else 0, s))"

definition cmd_laser_id :: "string list \<Rightarrow> ('d, 'f) laser \<Rightarrow> int \<times> ('d, 'f) laser" where
  "cmd_laser_id args s = (0, case args of [] \<Rightarrow> s | a # _ \<Rightarrow> s\<lparr>laser_id := ucast (strtoul 0 a)\<rparr>)"

text \<open>A byte of the polled receiver, which boards without the UART's interrupt have.\<close>

definition laser_uart_poll :: "u8 \<Rightarrow> ('d, 'f) laser \<Rightarrow> ('d, 'f) laser" where
  "laser_uart_poll c s =
     (let b = uart_buf s;
          b = \<lparr>rb_len = rb_len b + 1, rb_data = (rb_data b)[rb_len b := c]\<rparr>;
          s = s\<lparr>uart_buf := b\<rparr>
      in if rb_len b \<ge> RX_BUF_SIZE then s\<lparr>uart_buf := empty_rx\<rparr>
         else if rb_len b > 2 then
           if rb_data b ! (rb_len b - 1) = 0x0A \<and> rb_data b ! (rb_len b - 2) = 0x0D then
             s\<lparr>laser_serial_msgq := rx_put b (laser_serial_msgq s), uart_buf := empty_rx\<rparr>
           else if rb_data b ! 0 = 0xEA then s\<lparr>uart_buf := empty_rx\<rparr>
           else s
         else s)"

text \<open>laser_serial_init, with the result of uart_configure; ENOSYS is 88 and ENOTSUP 134 there.\<close>

definition laser_serial_init :: "int \<Rightarrow> int" where
  "laser_serial_init ret = (if ret \<noteq> 0 \<and> ret \<noteq> - 88 \<and> ret \<noteq> - 134 then - 1 else 0)"

section \<open>fpga_spi.c\<close>

text \<open>A transfer on the FPGA's state: the bytes received, as many as were sent, or \<open>None\<close> on an error.\<close>

type_synonym 'p spi = "bytes \<Rightarrow> 'p \<Rightarrow> bytes option \<times> 'p"

definition VERSION_GET_REG :: u8 where "VERSION_GET_REG = 0"
definition ENCODE1_GET_REG :: u8 where "ENCODE1_GET_REG = 2"
definition ENCODE2_GET_REG :: u8 where "ENCODE2_GET_REG = 3"

definition fpga_uint32_version :: "'p spi \<Rightarrow> 'p \<Rightarrow> u32 \<times> 'p" where
  "fpga_uint32_version spi p =
     (case spi [VERSION_GET_REG, 0, 0, 0, 0] p of
        (None, p) \<Rightarrow> (- 1, p)
      | (Some rx, p) \<Rightarrow> (le32_at 0 (drop 1 rx), p))"

definition fpga_uint32_set :: "'p spi \<Rightarrow> u8 \<Rightarrow> u32 \<Rightarrow> 'p \<Rightarrow> u32 \<times> 'p" where
  "fpga_uint32_set spi reg val p =
     (case spi (reg # le32_bytes val) p of (None, p) \<Rightarrow> (- 1, p) | (Some rx, p) \<Rightarrow> (0, p))"

text \<open>The packed message behind its register byte: 31, 17 and 16 bits, the first lowest.\<close>

definition le64_of :: "bytes \<Rightarrow> u64" where
  "le64_of bs = foldr (\<lambda>b v. push_bit 8 v OR ucast b) bs 0"

definition encode_msg_of :: "bytes \<Rightarrow> encode_msg" where
  "encode_msg_of rx =
     (let v = le64_of (take 8 (drop 1 rx))
      in \<lparr>em_timecount = ucast (take_bit 31 v), em_single_num = ucast (take_bit 17 (drop_bit 31 v)),
          em_mutli_num = ucast (drop_bit 48 v)\<rparr>)"

text \<open>Of the message sent, only the register is set; \<open>junk\<close> are the eight bytes of the stack behind it.\<close>

definition encode_data_get :: "'p spi \<Rightarrow> bytes \<Rightarrow> u8 \<Rightarrow> 'p \<Rightarrow> encode_msg option \<times> 'p" where
  "encode_data_get spi junk reg p =
     (case spi (reg # junk) p of (None, p) \<Rightarrow> (None, p) | (Some rx, p) \<Rightarrow> (Some (encode_msg_of rx), p))"

text \<open>The result of shell_encode_get and the message it prints.\<close>

definition shell_encode_get :: "'p spi \<Rightarrow> bytes \<Rightarrow> string \<Rightarrow> 'p \<Rightarrow> int \<times> encode_msg option \<times> 'p" where
  "shell_encode_get spi junk arg p =
     (let n = strtol 0 arg
      in if n = 1 then (0, encode_data_get spi junk ENCODE1_GET_REG p)
         else if n = 2 then (0, encode_data_get spi junk ENCODE2_GET_REG p)
         else (- 1, None, p))"

section \<open>can.c\<close>

text \<open>The start of the CAN thread; without the controller it ends.  \<open>has_rs485\<close> as in theory Laser_Serial.\<close>

definition laser_can_thread_start :: "bool \<Rightarrow> (nat \<Rightarrow> bool) \<Rightarrow> int \<Rightarrow> int \<Rightarrow> 'f cfg_api \<Rightarrow> ('d, 'f) laser \<Rightarrow> bool \<times> ('d, 'f) laser" where
  "laser_can_thread_start has_rs485 ready set_bitrate start cfg s =
     (case laser_can_init ready set_bitrate start cfg s of (err, s) \<Rightarrow>
        if err \<noteq> 0 then (False, s) else (True, if has_rs485 then s\<lparr>delayed_work := True\<rparr> else s))"

section \<open>What the commands do\<close>

text \<open>The message of the FPGA is decoded as it was packed.\<close>

lemma le64_roundtrip: "le64_of (le64_bytes v) = v"
proof -
  have b: "bit (le64_of (le64_bytes v)) n = bit v n" if "n < 64" for n
  proof -
    have "n < 8 \<or> n < 16 \<and> 8 \<le> n \<or> n < 24 \<and> 16 \<le> n \<or> n < 32 \<and> 24 \<le> n \<or> n < 40 \<and> 32 \<le> n \<or> n < 48 \<and> 40 \<le> n \<or>
        n < 56 \<and> 48 \<le> n \<or> n < 64 \<and> 56 \<le> n" using that by linarith
    then show ?thesis
      by (elim disjE conjE) (auto simp: le64_of_def le64_bytes_def upt_rec bit_or_iff bit_push_bit_iff bit_ucast_iff bit_drop_bit_eq)
  qed
  show ?thesis by (rule bit_word_eqI) (use b in simp)
qed


lemma bit_above:
  fixes x :: u32
  assumes "unat x < 2 ^ k" and "k \<le> n"
  shows "\<not> bit x n"
proof -
  have "take_bit k (unat x) = unat x" using assms(1) by (simp add: take_bit_nat_eq_self)
  then have "\<not> bit (unat x) n" using assms(2) by (metis bit_take_bit_iff not_less)
  then show ?thesis using bit_imp_le_length [of x n] by (auto simp: bit_unsigned_iff)
qed

lemma encode_msg_decoded:
  assumes "unat (em_timecount m) < 2 ^ 31" and "unat (em_single_num m) < 2 ^ 17"
  shows "encode_msg_of (r # le64_bytes (ucast (em_timecount m) OR push_bit 31 (ucast (em_single_num m)) OR
    push_bit 48 (ucast (em_mutli_num m)))) = m"
proof -
  define v where "v = (ucast (em_timecount m) OR push_bit 31 (ucast (em_single_num m)) OR push_bit 48 (ucast (em_mutli_num m)) :: u64)"
  have above: "31 \<le> n \<Longrightarrow> bit (em_timecount m) n = False" "17 \<le> n \<Longrightarrow> bit (em_single_num m) n = False" for n
    using bit_above [OF assms(1)] bit_above [OF assms(2)] by blast+
  have "ucast (take_bit 31 v) = em_timecount m"
    by (rule bit_word_eqI) (auto simp: v_def bit_or_iff bit_push_bit_iff bit_ucast_iff bit_take_bit_iff above not_less)
  moreover have "ucast (take_bit 17 (drop_bit 31 v)) = em_single_num m"
    by (rule bit_word_eqI) (auto simp: v_def bit_or_iff bit_push_bit_iff bit_ucast_iff bit_take_bit_iff bit_drop_bit_eq above not_less)
  moreover have "ucast (drop_bit 48 v) = em_mutli_num m"
    by (rule bit_word_eqI) (auto simp: v_def bit_or_iff bit_push_bit_iff bit_ucast_iff bit_take_bit_iff bit_drop_bit_eq above not_less)
  moreover have "take 8 (le64_bytes v) = le64_bytes v" by (simp add: le64_bytes_def)
  ultimately show ?thesis unfolding v_def [symmetric] by (simp add: encode_msg_of_def le64_roundtrip Let_def)
qed

text \<open>The registers typed at the shell, in write mode, are those the CAN commands and a restart see.\<close>

lemma lflash_word_kept:
  assumes "laser_status s LASER_WRITE_MODE" and "\<not> laser_status s LASER_FW_UPDATE" and "length (laser_regs s) = LASER_REGS"
    and "strtol 0 r = int reg" and "reg < 50" and "strtol 0 w = int n"
  shows "laser_regs (snd (cmd_lflash_write api [r, w] s)) = (laser_regs s)[reg := of_nat n]"
proof -
  have "of_nat reg = (of_int (int reg) :: u8)" by simp
  moreover have "unat (of_nat reg :: u8) = reg" using assms(5) by (intro nat_in_u8) simp
  moreover have "unat (of_nat reg :: u16) = reg" using assms(5) by (simp add: unsigned_of_nat take_bit_nat_eq_self)
  ultimately show ?thesis using assms
    by (cases "laser_regs s ! reg = of_nat n")
      (auto simp: cmd_lflash_write_def laser_flash_write_def LASER_REGS_def Let_def split: prod.splits,
       metis list_update_id)
qed

section \<open>Where they go wrong\<close>

text \<open>A word above 0x7FFFFFFF is not a long: what is stored is 0x7FFFFFFF.\<close>

lemma word_saturates: "(of_int (strtol 0 ''0xFFFFFFFF'') :: u32) = 0x7FFFFFFF"
proof -
  have w: "dropWhile isspace ''0xFFFFFFFF'' = ''0xFFFFFFFF''" "hex_prefix ''0xFFFFFFFF''"
    "takeWhile (\<lambda>c. digit_of c < 16) ''FFFFFFFF'' = ''FFFFFFFF''" by code_simp+
  have "digits_number 16 ''FFFFFFFF'' = 0xFFFFFFFF" unfolding digits_number_def w(3) by (simp add: digit_of_def)
  then show ?thesis unfolding strtol_def strto_parse_def w(1) Let_def using w(2) by simp
qed

text \<open>A register that cannot be read is shown with the value of the one before.\<close>

lemma read_shows_neighbour:
  assumes "inited s" and "laser_regs s ! 49 = v"
  shows "cmd_lflash_read junk [''49'', ''2''] s = (0, [(49, v), (50, v)])"
proof -
  have n: "strtol 0 ''49'' = 49" "strtol 0 ''2'' = 2" by code_simp+
  have two: "nat 2 = Suc (Suc 0)" by simp
  then have two: "lflash_read_loop 49 (nat 2) junk s = [(49, v), (50, v)]"
    using assms by (simp only: two) (simp add: laser_flash_read_def LASER_REGS_def)
  have "unat (of_int 49 :: u8) = 49" by simp
  then show ?thesis by (simp only: cmd_lflash_read_def nth_Cons_0 nth_Cons_Suc One_nat_def n two)
qed

end
