(* ===== verification/Nrf24.thy ===== *)
theory Nrf24
  imports Prelude
begin

text \<open>
  The nRF24L01+ driver, \<open>drivers/nrf24l01p/nrf24l01p.c\<close>.  The device's data are the record \<open>nrf24\<close>;
  the chip behind the SPI bus and the supply pin is the parameter \<open>hw\<close>, its state the field
  \<open>nd_chip\<close>.  The mutex makes every public call one step; where a call releases it to wait
  (nrf24_send), what happens meanwhile is an argument.  C code that leaves a variable unassigned when
  a transfer fails keeps the value passed in here.
\<close>

section \<open>Commands, registers and bits (nrf24l01p_reg.h)\<close>

definition R_REGISTER :: u8 where "R_REGISTER = 0x00"
definition W_REGISTER :: u8 where "W_REGISTER = 0x20"
definition R_RX_PAYLOAD :: u8 where "R_RX_PAYLOAD = 0x61"
definition W_TX_PAYLOAD :: u8 where "W_TX_PAYLOAD = 0xA0"
definition FLUSH_TX :: u8 where "FLUSH_TX = 0xE1"
definition FLUSH_RX :: u8 where "FLUSH_RX = 0xE2"
definition R_RX_PL_WID :: u8 where "R_RX_PL_WID = 0x60"
definition NOP :: u8 where "NOP = 0xFF"

definition L01REG_CONFIG :: u8 where "L01REG_CONFIG = 0x00"
definition L01REG_ENAA :: u8 where "L01REG_ENAA = 0x01"
definition L01REG_EN_RXADDR :: u8 where "L01REG_EN_RXADDR = 0x02"
definition L01REG_SETUP_AW :: u8 where "L01REG_SETUP_AW = 0x03"
definition L01REG_SETUP_RETR :: u8 where "L01REG_SETUP_RETR = 0x04"
definition L01REG_RF_CH :: u8 where "L01REG_RF_CH = 0x05"
definition L01REG_RF_SETUP :: u8 where "L01REG_RF_SETUP = 0x06"
definition L01REG_STATUS :: u8 where "L01REG_STATUS = 0x07"
definition L01REG_OBSERVE_TX :: u8 where "L01REG_OBSERVE_TX = 0x08"
definition L01REG_RX_ADDR_P0 :: u8 where "L01REG_RX_ADDR_P0 = 0x0A"
definition L01REG_TX_ADDR :: u8 where "L01REG_TX_ADDR = 0x10"
definition L01REG_RX_PW_P0 :: u8 where "L01REG_RX_PW_P0 = 0x11"
definition L01REG_DYNPD :: u8 where "L01REG_DYNPD = 0x1C"
definition L01REG_FEATURE :: u8 where "L01REG_FEATURE = 0x1D"

definition BIT :: "nat \<Rightarrow> u8" where "BIT n = push_bit n 1"

definition EN_CRC :: nat where "EN_CRC = 3"
definition CRCO :: nat where "CRCO = 2"
definition PWR_UP :: nat where "PWR_UP = 1"
definition PRIM_RX :: nat where "PRIM_RX = 0"
definition ENAA_P0 :: nat where "ENAA_P0 = 0"
definition ERX_P0 :: nat where "ERX_P0 = 0"
definition AW_3BYTES :: u8 where "AW_3BYTES = 1"
definition AW_4BYTES :: u8 where "AW_4BYTES = 2"
definition AW_5BYTES :: u8 where "AW_5BYTES = 3"
definition RF_DR_LOW :: nat where "RF_DR_LOW = 5"
definition RF_DR_HIGH :: nat where "RF_DR_HIGH = 3"
definition PWR_N_18DB :: u8 where "PWR_N_18DB = push_bit 1 0"
definition PWR_N_12DB :: u8 where "PWR_N_12DB = push_bit 1 1"
definition PWR_N_6DB :: u8 where "PWR_N_6DB = push_bit 1 2"
definition PWR_N_0DB :: u8 where "PWR_N_0DB = push_bit 1 3"
definition RX_DR :: nat where "RX_DR = 6"
definition TX_DS :: nat where "TX_DS = 5"
definition MAX_RT :: nat where "MAX_RT = 4"
definition DPL_P0 :: nat where "DPL_P0 = 0"
definition EN_DPL :: nat where "EN_DPL = 2"
definition EN_ACK_PAY :: nat where "EN_ACK_PAY = 1"
definition IRQ_ALL :: u8 where "IRQ_ALL = push_bit RX_DR 1 OR push_bit TX_DS 1 OR push_bit MAX_RT 1"
definition NRF24_MAX_PAYLOAD :: nat where "NRF24_MAX_PAYLOAD = 32"

text \<open>ARD_US, the macro of the device tree value.\<close>

definition ARD_US :: "int \<Rightarrow> u8" where
  "ARD_US us = push_bit 4 (word_of_int (us div 250 - 1) AND 0x0F)"

named_theorems nrf_consts \<open>commands, registers and bits of the radio\<close>

lemmas nrf_cmd_defs [nrf_consts] =
  R_REGISTER_def W_REGISTER_def R_RX_PAYLOAD_def W_TX_PAYLOAD_def FLUSH_TX_def FLUSH_RX_def R_RX_PL_WID_def
  NOP_def NRF24_MAX_PAYLOAD_def

lemmas nrf_reg_defs [nrf_consts] =
  L01REG_CONFIG_def L01REG_ENAA_def L01REG_EN_RXADDR_def L01REG_SETUP_AW_def L01REG_SETUP_RETR_def
  L01REG_RF_CH_def L01REG_RF_SETUP_def L01REG_STATUS_def L01REG_OBSERVE_TX_def L01REG_RX_ADDR_P0_def
  L01REG_TX_ADDR_def L01REG_RX_PW_P0_def L01REG_DYNPD_def L01REG_FEATURE_def

lemmas nrf_bit_defs =
  BIT_def EN_CRC_def CRCO_def PWR_UP_def PRIM_RX_def ENAA_P0_def ERX_P0_def AW_3BYTES_def AW_4BYTES_def
  AW_5BYTES_def RF_DR_LOW_def RF_DR_HIGH_def PWR_N_18DB_def PWR_N_12DB_def PWR_N_6DB_def PWR_N_0DB_def
  RX_DR_def TX_DS_def MAX_RT_def DPL_P0_def EN_DPL_def EN_ACK_PAY_def IRQ_ALL_def

section \<open>Data\<close>

datatype nrf24_mode = NRF24_MODE_PTX | NRF24_MODE_PRX | NRF24_MODE_STANDBY | NRF24_MODE_POWER_DOWN
datatype nrf24_data_rate = NRF24_RATE_250K | NRF24_RATE_1M | NRF24_RATE_2M
datatype nrf24_tx_power = NRF24_PWR_18DBM | NRF24_PWR_12DBM | NRF24_PWR_6DBM | NRF24_PWR_0DBM
datatype nrf24_payload_mode = NRF24_PAYLOAD_DYNAMIC | NRF24_PAYLOAD_FIXED
datatype nrf24_crc_mode = NRF24_CRC_1_BYTE | NRF24_CRC_2_BYTE

text \<open>The configuration from the device tree, and the subset a caller of nrf24_configure gives.\<close>

record nrf24_config =
  nc_power_port :: bool
  nc_channel :: u8
  nc_data_rate :: string
  nc_tx_power :: string
  nc_address_width :: u8
  nc_payload_mode :: string
  nc_rx_payload_width :: u8
  nc_crc_mode :: string
  nc_ard :: u8
  nc_arc :: u8
  nc_tx_addr :: bytes

record nrf24_cfg =
  cfg_channel :: u8
  cfg_data_rate :: nrf24_data_rate
  cfg_tx_power :: nrf24_tx_power
  cfg_crc_mode :: nrf24_crc_mode
  cfg_address_width :: u8
  cfg_tx_addr :: "bytes option"

text \<open>
  A C structure initialised with some of its members has zero in the others; zero is the first
  enumerator.
\<close>

definition zero_cfg :: nrf24_cfg where
  "zero_cfg = \<lparr>cfg_channel = 0, cfg_data_rate = NRF24_RATE_250K, cfg_tx_power = NRF24_PWR_18DBM,
     cfg_crc_mode = NRF24_CRC_1_BYTE, cfg_address_width = 0, cfg_tx_addr = None\<rparr>"

record nrf24_tx_result =
  tx_acked :: bool
  tx_elapsed_ms :: u32
  tx_retransmits :: u8

text \<open>A message queue of the kernel: what it holds and how much it can.\<close>

record msgq =
  mq_max :: nat
  mq_items :: "bytes list"

definition k_msgq_put :: "bytes \<Rightarrow> msgq \<Rightarrow> msgq" where
  "k_msgq_put x q = (if length (mq_items q) < mq_max q then q\<lparr>mq_items := mq_items q @ [x]\<rparr> else q)"

text \<open>
  \<open>spi_xfer\<close> is one transfer: the error code and the bytes read.  \<open>power_configure\<close> is the result of
  configuring the supply pin, \<open>power_set\<close> its effect on the chip.
\<close>

record 'c nrf24_hw =
  spi_xfer :: "bytes \<Rightarrow> 'c \<Rightarrow> int \<times> bytes \<times> 'c"
  power_configure :: int
  power_set :: "bool \<Rightarrow> 'c \<Rightarrow> 'c"

text \<open>\<open>nd_rx_cb\<close> is the callback pointer with its user data; its calls are recorded.\<close>

record 'c nrf24 =
  nd_chip :: 'c
  nd_ce :: bool
  nd_irq_sem :: nat
  nd_tx_done_sem :: nat
  nd_last_status :: u8
  nd_last_observe_tx :: u8
  nd_rx_msgq :: "msgq option"
  nd_rx_cb :: "(nat \<times> nat) option"
  nd_rx_cb_calls :: "((nat \<times> nat) \<times> bytes) list"
  nd_fallback_msgq :: "msgq option"
  nd_mode :: nrf24_mode
  nd_ready :: bool

definition EIO :: int where "EIO = 5"
definition EAGAIN :: int where "EAGAIN = 11"
definition EINVAL :: int where "EINVAL = 22"
definition ENOTSUP :: int where "ENOTSUP = 134"
definition NODEV :: int where "NODEV = 19"

section \<open>Strings of the device tree\<close>

definition parse_data_rate :: "string \<Rightarrow> nrf24_data_rate" where
  "parse_data_rate s =
     (if s = ''250k'' then NRF24_RATE_250K else if s = ''2m'' then NRF24_RATE_2M else NRF24_RATE_1M)"

definition parse_tx_power :: "string \<Rightarrow> nrf24_tx_power" where
  "parse_tx_power s =
     (if s = ''-18dbm'' then NRF24_PWR_18DBM
      else if s = ''-12dbm'' then NRF24_PWR_12DBM
      else if s = ''-6dbm'' then NRF24_PWR_6DBM
      else NRF24_PWR_0DBM)"

definition parse_payload_mode :: "string \<Rightarrow> nrf24_payload_mode" where
  "parse_payload_mode s = (if s = ''fixed'' then NRF24_PAYLOAD_FIXED else NRF24_PAYLOAD_DYNAMIC)"

definition parse_crc_mode :: "string \<Rightarrow> nrf24_crc_mode" where
  "parse_crc_mode s = (if s = ''1-byte'' then NRF24_CRC_1_BYTE else NRF24_CRC_2_BYTE)"

fun data_rate_to_str :: "nrf24_data_rate \<Rightarrow> string" where
  "data_rate_to_str NRF24_RATE_250K = ''250k''"
| "data_rate_to_str NRF24_RATE_2M = ''2m''"
| "data_rate_to_str NRF24_RATE_1M = ''1m''"

fun tx_power_to_str :: "nrf24_tx_power \<Rightarrow> string" where
  "tx_power_to_str NRF24_PWR_18DBM = ''-18dbm''"
| "tx_power_to_str NRF24_PWR_12DBM = ''-12dbm''"
| "tx_power_to_str NRF24_PWR_6DBM = ''-6dbm''"
| "tx_power_to_str NRF24_PWR_0DBM = ''0dbm''"

definition crc_mode_to_str :: "nrf24_crc_mode \<Rightarrow> string" where
  "crc_mode_to_str c = (if c = NRF24_CRC_1_BYTE then ''1-byte'' else ''2-byte'')"

fun data_rate_bits :: "nrf24_data_rate \<Rightarrow> u8" where
  "data_rate_bits NRF24_RATE_250K = BIT RF_DR_LOW"
| "data_rate_bits NRF24_RATE_2M = BIT RF_DR_HIGH"
| "data_rate_bits NRF24_RATE_1M = 0"

fun tx_power_bits :: "nrf24_tx_power \<Rightarrow> u8" where
  "tx_power_bits NRF24_PWR_18DBM = PWR_N_18DB"
| "tx_power_bits NRF24_PWR_12DBM = PWR_N_12DB"
| "tx_power_bits NRF24_PWR_6DBM = PWR_N_6DB"
| "tx_power_bits NRF24_PWR_0DBM = PWR_N_0DB"

definition addr_aw_bits :: "u8 \<Rightarrow> u8" where
  "addr_aw_bits aw = (if aw = 3 then AW_3BYTES else if aw = 4 then AW_4BYTES else AW_5BYTES)"

lemma parse_data_rate_to_str [simp]: "parse_data_rate (data_rate_to_str r) = r"
  by (cases r) (simp_all add: parse_data_rate_def)

lemma parse_tx_power_to_str [simp]: "parse_tx_power (tx_power_to_str p) = p"
  by (cases p) (simp_all add: parse_tx_power_def)

lemma parse_crc_mode_to_str [simp]: "parse_crc_mode (crc_mode_to_str c) = c"
  by (cases c) (simp_all add: parse_crc_mode_def crc_mode_to_str_def)

section \<open>Transfers\<close>

definition nrf24_xfer :: "'c nrf24_hw \<Rightarrow> bytes \<Rightarrow> 'c nrf24 \<Rightarrow> int \<times> bytes \<times> 'c nrf24" where
  "nrf24_xfer hw tx d = (case spi_xfer hw tx (nd_chip d) of (ret, rx, c) \<Rightarrow> (ret, rx, d\<lparr>nd_chip := c\<rparr>))"

definition reg_read_locked :: "'c nrf24_hw \<Rightarrow> u8 \<Rightarrow> u8 \<Rightarrow> 'c nrf24 \<Rightarrow> int \<times> u8 \<times> 'c nrf24" where
  "reg_read_locked hw reg val d =
     (case nrf24_xfer hw [R_REGISTER OR (reg AND 0x1F), NOP] d of (ret, rx, d) \<Rightarrow>
        (ret, if ret = 0 then rx ! 1 else val, d))"

definition reg_write_locked :: "'c nrf24_hw \<Rightarrow> u8 \<Rightarrow> u8 \<Rightarrow> 'c nrf24 \<Rightarrow> int \<times> 'c nrf24" where
  "reg_write_locked hw reg val d =
     (case nrf24_xfer hw [W_REGISTER OR (reg AND 0x1F), val] d of (ret, rx, d) \<Rightarrow> (ret, d))"

definition reg_read_multi_locked :: "'c nrf24_hw \<Rightarrow> u8 \<Rightarrow> bytes \<Rightarrow> nat \<Rightarrow> 'c nrf24 \<Rightarrow>
    int \<times> bytes \<times> 'c nrf24" where
  "reg_read_multi_locked hw reg buf len d =
     (if len = 0 \<or> len > NRF24_MAX_PAYLOAD then (- EINVAL, buf, d)
      else case nrf24_xfer hw ((R_REGISTER OR (reg AND 0x1F)) # replicate len 0) d of (ret, rx, d) \<Rightarrow>
        (ret, if ret = 0 then mem_put 0 (take len (drop 1 rx)) buf else buf, d))"

definition reg_write_multi_locked :: "'c nrf24_hw \<Rightarrow> u8 \<Rightarrow> bytes \<Rightarrow> nat \<Rightarrow> 'c nrf24 \<Rightarrow> int \<times> 'c nrf24" where
  "reg_write_multi_locked hw reg buf len d =
     (if len = 0 \<or> len > NRF24_MAX_PAYLOAD then (- EINVAL, d)
      else case nrf24_xfer hw ((W_REGISTER OR (reg AND 0x1F)) # take len buf) d of (ret, rx, d) \<Rightarrow> (ret, d))"

definition cmd_locked :: "'c nrf24_hw \<Rightarrow> u8 \<Rightarrow> 'c nrf24 \<Rightarrow> int \<times> 'c nrf24" where
  "cmd_locked hw cmd d = (case nrf24_xfer hw [cmd] d of (ret, rx, d) \<Rightarrow> (ret, d))"

definition read_rx_pl_wid_locked :: "'c nrf24_hw \<Rightarrow> u8 \<Rightarrow> 'c nrf24 \<Rightarrow> int \<times> u8 \<times> 'c nrf24" where
  "read_rx_pl_wid_locked hw wid d =
     (case nrf24_xfer hw [R_RX_PL_WID, NOP] d of (ret, rx, d) \<Rightarrow> (ret, if ret = 0 then rx ! 1 else wid, d))"

definition read_rx_payload_locked :: "'c nrf24_hw \<Rightarrow> bytes \<Rightarrow> u8 \<Rightarrow> 'c nrf24 \<Rightarrow> int \<times> bytes \<times> 'c nrf24" where
  "read_rx_payload_locked hw buf len d =
     (case nrf24_xfer hw (R_RX_PAYLOAD # replicate (unat len) NOP) d of (ret, rx, d) \<Rightarrow>
        (ret, if ret = 0 then mem_put 0 (take (unat len) (drop 1 rx)) buf else buf, d))"

definition write_tx_payload_locked :: "'c nrf24_hw \<Rightarrow> bytes \<Rightarrow> u8 \<Rightarrow> 'c nrf24 \<Rightarrow> int \<times> 'c nrf24" where
  "write_tx_payload_locked hw buf len d =
     (case nrf24_xfer hw (W_TX_PAYLOAD # take (unat len) buf) d of (ret, rx, d) \<Rightarrow> (ret, d))"

definition ce_set :: "bool \<Rightarrow> 'c nrf24 \<Rightarrow> 'c nrf24" where
  "ce_set v d = d\<lparr>nd_ce := v\<rparr>"

definition nrf24_power_apply :: "'c nrf24_hw \<Rightarrow> nrf24_config \<Rightarrow> bool \<Rightarrow> 'c nrf24 \<Rightarrow> int \<times> 'c nrf24" where
  "nrf24_power_apply hw cfg enable d =
     (if \<not> nc_power_port cfg then (0, d)
      else if power_configure hw < 0 then (power_configure hw, d)
      else (0, d\<lparr>nd_chip := power_set hw enable (nd_chip d)\<rparr>))"

definition nrf24_irq_handler :: "'c nrf24 \<Rightarrow> 'c nrf24" where
  "nrf24_irq_handler d = d\<lparr>nd_irq_sem := nd_irq_sem d + 1\<rparr>"

section \<open>Configuration\<close>

text \<open>A register write of the configuration, and a run of them that stops at the first error.\<close>

datatype reg_op = Reg u8 u8 | Reg_multi u8 bytes nat

fun reg_op_locked :: "'c nrf24_hw \<Rightarrow> reg_op \<Rightarrow> 'c nrf24 \<Rightarrow> int \<times> 'c nrf24" where
  "reg_op_locked hw (Reg r v) d = reg_write_locked hw r v d"
| "reg_op_locked hw (Reg_multi r buf len) d = reg_write_multi_locked hw r buf len d"

fun reg_ops :: "'c nrf24_hw \<Rightarrow> reg_op list \<Rightarrow> 'c nrf24 \<Rightarrow> int \<times> 'c nrf24" where
  "reg_ops hw [] d = (0, d)"
| "reg_ops hw (op # ops) d =
     (case reg_op_locked hw op d of (ret, d) \<Rightarrow> if ret < 0 then (ret, d) else reg_ops hw ops d)"

definition config_aw :: "nrf24_config \<Rightarrow> u8" where
  "config_aw cfg = (if nc_address_width cfg \<ge> 3 \<and> nc_address_width cfg \<le> 5 then nc_address_width cfg else 5)"

definition config_byte :: "nrf24_config \<Rightarrow> bool \<Rightarrow> u8" where
  "config_byte cfg prim_rx =
     (BIT EN_CRC OR BIT PWR_UP)
       OR (if parse_crc_mode (nc_crc_mode cfg) = NRF24_CRC_2_BYTE then BIT CRCO else 0)
       OR (if prim_rx then BIT PRIM_RX else 0)"

definition rf_setup_byte :: "nrf24_config \<Rightarrow> u8" where
  "rf_setup_byte cfg =
     data_rate_bits (parse_data_rate (nc_data_rate cfg)) OR tx_power_bits (parse_tx_power (nc_tx_power cfg))"

definition payload_ops :: "nrf24_config \<Rightarrow> reg_op list" where
  "payload_ops cfg =
     (if parse_payload_mode (nc_payload_mode cfg) = NRF24_PAYLOAD_DYNAMIC then
        [Reg L01REG_DYNPD (BIT DPL_P0), Reg L01REG_FEATURE (BIT EN_DPL OR BIT EN_ACK_PAY)]
      else
        [Reg L01REG_DYNPD 0, Reg L01REG_FEATURE 0, Reg L01REG_RX_PW_P0 (nc_rx_payload_width cfg AND 0x3F)])"

definition config_ops :: "nrf24_config \<Rightarrow> bool \<Rightarrow> reg_op list" where
  "config_ops cfg prim_rx =
     [Reg L01REG_CONFIG 0,
      Reg L01REG_SETUP_AW (addr_aw_bits (config_aw cfg)),
      Reg L01REG_SETUP_RETR (nc_ard cfg OR (nc_arc cfg AND 0x0F)),
      Reg L01REG_RF_CH (nc_channel cfg AND 0x7F),
      Reg L01REG_RF_SETUP (rf_setup_byte cfg),
      Reg L01REG_ENAA (BIT ENAA_P0),
      Reg L01REG_EN_RXADDR (BIT ERX_P0),
      Reg L01REG_CONFIG (config_byte cfg prim_rx)] @
     payload_ops cfg @
     [Reg_multi L01REG_TX_ADDR (nc_tx_addr cfg) (unat (config_aw cfg)),
      Reg_multi L01REG_RX_ADDR_P0 (nc_tx_addr cfg) (unat (config_aw cfg))]"

definition apply_config_with :: "'c nrf24_hw \<Rightarrow> nrf24_config \<Rightarrow> bool \<Rightarrow> 'c nrf24 \<Rightarrow> int \<times> 'c nrf24" where
  "apply_config_with hw cfg prim_rx d =
     (case reg_ops hw (config_ops cfg prim_rx) d of (ret, d) \<Rightarrow>
        if ret < 0 then (ret, d)
        else
          let d = snd (cmd_locked hw FLUSH_TX d);
              d = snd (cmd_locked hw FLUSH_RX d);
              d = snd (reg_write_locked hw L01REG_STATUS IRQ_ALL d)
          in (0, d))"

definition nrf24_configure :: "'c nrf24_hw \<Rightarrow> nrf24_config \<Rightarrow> nrf24_cfg option \<Rightarrow> 'c nrf24 \<Rightarrow> int \<times> 'c nrf24" where
  "nrf24_configure hw dcfg cfg d =
     (let tmp = (case cfg of None \<Rightarrow> dcfg
        | Some c \<Rightarrow>
            let tmp = dcfg\<lparr>nc_channel := cfg_channel c, nc_data_rate := data_rate_to_str (cfg_data_rate c),
                           nc_tx_power := tx_power_to_str (cfg_tx_power c),
                           nc_crc_mode := crc_mode_to_str (cfg_crc_mode c)\<rparr>;
                tmp = (if cfg_address_width c \<ge> 3 \<and> cfg_address_width c \<le> 5
                       then tmp\<lparr>nc_address_width := cfg_address_width c\<rparr> else tmp)
            in case cfg_tx_addr c of None \<Rightarrow> tmp
               | Some a \<Rightarrow> tmp\<lparr>nc_tx_addr := mem_put 0 (take (unat (nc_address_width tmp)) a) (nc_tx_addr tmp)\<rparr>)
      in apply_config_with hw tmp (nd_mode d = NRF24_MODE_PRX) d)"

section \<open>Modes and power\<close>

fun mode_bits :: "nrf24_mode \<Rightarrow> u8" where
  "mode_bits NRF24_MODE_PRX = BIT PWR_UP OR BIT PRIM_RX"
| "mode_bits NRF24_MODE_PTX = BIT PWR_UP"
| "mode_bits NRF24_MODE_STANDBY = BIT PWR_UP"
| "mode_bits NRF24_MODE_POWER_DOWN = 0"

text \<open>The local variable \<open>config\<close> is only used when it was read.\<close>

definition set_mode_locked :: "'c nrf24_hw \<Rightarrow> nrf24_mode \<Rightarrow> 'c nrf24 \<Rightarrow> int \<times> 'c nrf24" where
  "set_mode_locked hw m d =
     (case reg_read_locked hw L01REG_CONFIG 0 d of (ret, config, d) \<Rightarrow>
        if ret < 0 then (ret, d)
        else
          let config = (config AND NOT (BIT PWR_UP OR BIT PRIM_RX)) OR mode_bits m
          in case reg_write_locked hw L01REG_CONFIG config d of (ret, d) \<Rightarrow>
               if ret < 0 then (ret, d)
               else (0, (ce_set (m = NRF24_MODE_PRX) d)\<lparr>nd_mode := m\<rparr>))"

definition nrf24_set_mode :: "'c nrf24_hw \<Rightarrow> nrf24_mode \<Rightarrow> 'c nrf24 \<Rightarrow> int \<times> 'c nrf24" where
  "nrf24_set_mode hw m d = set_mode_locked hw m d"

definition nrf24_power_enable :: "'c nrf24_hw \<Rightarrow> nrf24_config \<Rightarrow> bool \<Rightarrow> 'c nrf24 \<Rightarrow> int \<times> 'c nrf24" where
  "nrf24_power_enable hw cfg enable d =
     (if \<not> nc_power_port cfg then (0, d)
      else if enable then
        case nrf24_power_apply hw cfg True d of (ret, d) \<Rightarrow>
          case (if ret = 0 then apply_config_with hw cfg True d else (ret, d)) of (ret, d) \<Rightarrow>
            if ret = 0
            then (ret, (ce_set True (d\<lparr>nd_ready := True, nd_mode := NRF24_MODE_PRX\<rparr>))
                         \<lparr>nd_irq_sem := nd_irq_sem d + 1\<rparr>)
            else (ret, d\<lparr>nd_ready := False\<rparr>)
      else
        let d = (snd (set_mode_locked hw NRF24_MODE_POWER_DOWN d))\<lparr>nd_ready := False\<rparr>
        in (0, snd (nrf24_power_apply hw cfg False d)))"

definition nrf24_start_rx :: "'c nrf24_hw \<Rightarrow> 'c nrf24 \<Rightarrow> int \<times> 'c nrf24" where
  "nrf24_start_rx hw d = nrf24_set_mode hw NRF24_MODE_PRX d"

definition nrf24_read_reg :: "'c nrf24_hw \<Rightarrow> u8 \<Rightarrow> u8 \<Rightarrow> 'c nrf24 \<Rightarrow> int \<times> u8 \<times> 'c nrf24" where
  "nrf24_read_reg hw reg val d = reg_read_locked hw reg val d"

definition nrf24_write_reg :: "'c nrf24_hw \<Rightarrow> u8 \<Rightarrow> u8 \<Rightarrow> 'c nrf24 \<Rightarrow> int \<times> 'c nrf24" where
  "nrf24_write_reg hw reg val d = reg_write_locked hw reg val d"

definition nrf24_read_reg_multi :: "'c nrf24_hw \<Rightarrow> u8 \<Rightarrow> bytes \<Rightarrow> nat \<Rightarrow> 'c nrf24 \<Rightarrow> int \<times> bytes \<times> 'c nrf24" where
  "nrf24_read_reg_multi hw reg buf len d = reg_read_multi_locked hw reg buf len d"

definition nrf24_write_reg_multi :: "'c nrf24_hw \<Rightarrow> u8 \<Rightarrow> bytes \<Rightarrow> nat \<Rightarrow> 'c nrf24 \<Rightarrow> int \<times> 'c nrf24" where
  "nrf24_write_reg_multi hw reg buf len d = reg_write_multi_locked hw reg buf len d"

definition nrf24_rx_ready :: "'c nrf24_hw \<Rightarrow> 'c nrf24 \<Rightarrow> bool \<times> 'c nrf24" where
  "nrf24_rx_ready hw d =
     (case nrf24_read_reg hw L01REG_STATUS 0 d of (ret, status, d) \<Rightarrow>
        if ret < 0 then (False, d) else (status AND BIT RX_DR \<noteq> 0, d))"

section \<open>Sending\<close>

text \<open>
  \<open>wait\<close> is the time between releasing and taking the lock again: did k_sem_take get the semaphore
  within the timeout, how long did it take, and what did the interrupt thread do meanwhile.  The
  result is \<open>None\<close> where the code does not assign it.
\<close>

definition nrf24_send :: "'c nrf24_hw \<Rightarrow> ('c nrf24 \<Rightarrow> bool \<times> u32 \<times> 'c nrf24) \<Rightarrow> bytes \<Rightarrow> 'c nrf24 \<Rightarrow>
    int \<times> nrf24_tx_result option \<times> 'c nrf24" where
  "nrf24_send hw wait buf d =
     (if length buf = 0 \<or> length buf > NRF24_MAX_PAYLOAD then (- EINVAL, None, d)
      else
        case set_mode_locked hw NRF24_MODE_PTX (d\<lparr>nd_tx_done_sem := 0\<rparr>) of (ret, d) \<Rightarrow>
          if ret < 0 then (ret, None, d)
          else
            let d = snd (cmd_locked hw FLUSH_TX d);
                d = snd (reg_write_locked hw L01REG_STATUS (BIT TX_DS OR BIT MAX_RT) d)
            in case write_tx_payload_locked hw buf (of_nat (length buf)) d of (ret, d) \<Rightarrow>
                 if ret < 0 then (ret, None, snd (set_mode_locked hw NRF24_MODE_PRX d))
                 else
                   case wait (ce_set True d) of (taken, elapsed_ms, d) \<Rightarrow>
                     let d = ce_set False d
                     in if \<not> taken then
                          let d = snd (cmd_locked hw FLUSH_TX d);
                              d = snd (reg_write_locked hw L01REG_STATUS (BIT TX_DS OR BIT MAX_RT) d)
                          in (- EAGAIN, Some \<lparr>tx_acked = False, tx_elapsed_ms = elapsed_ms, tx_retransmits = 0\<rparr>,
                              snd (set_mode_locked hw NRF24_MODE_PRX d))
                        else
                          let max_rt = (nd_last_status d AND BIT MAX_RT \<noteq> 0);
                              d = (if max_rt then snd (cmd_locked hw FLUSH_TX d) else d)
                          in (if max_rt then - EIO else 0,
                              Some \<lparr>tx_acked = (\<not> max_rt), tx_elapsed_ms = elapsed_ms,
                                    tx_retransmits = nd_last_observe_tx d AND 0x0F\<rparr>,
                              snd (set_mode_locked hw NRF24_MODE_PRX d)))"

section \<open>Receiving\<close>

text \<open>\<open>buf\<close> holds the stack memory before the payload is read into it.\<close>

definition fetch_rx_payload_locked :: "'c nrf24_hw \<Rightarrow> nrf24_config \<Rightarrow> bytes \<Rightarrow> 'c nrf24 \<Rightarrow>
    u8 \<times> bytes \<times> 'c nrf24" where
  "fetch_rx_payload_locked hw cfg buf d =
     (let read = (\<lambda>plen d.
            case read_rx_payload_locked hw buf plen d of (ret, buf, d) \<Rightarrow>
              if ret < 0 then (0, buf, d) else (plen, buf, d))
      in if parse_payload_mode (nc_payload_mode cfg) = NRF24_PAYLOAD_DYNAMIC then
           case read_rx_pl_wid_locked hw 0 d of (ret, plen, d) \<Rightarrow>
             if ret < 0 then (0, buf, d)
             else if unat plen > NRF24_MAX_PAYLOAD then (0, buf, snd (cmd_locked hw FLUSH_RX d))
             else read plen d
         else read (if unat (nc_rx_payload_width cfg) \<le> NRF24_MAX_PAYLOAD then nc_rx_payload_width cfg
                    else of_nat NRF24_MAX_PAYLOAD) d)"

definition deliver :: "bytes \<Rightarrow> 'c nrf24 \<Rightarrow> 'c nrf24" where
  "deliver frame d =
     (case nd_rx_msgq d of
        Some q \<Rightarrow> d\<lparr>nd_rx_msgq := Some (k_msgq_put frame q)\<rparr>
      | None \<Rightarrow>
          (case nd_fallback_msgq d of
             Some q \<Rightarrow> d\<lparr>nd_fallback_msgq := Some (k_msgq_put frame q)\<rparr>
           | None \<Rightarrow>
               (case nd_rx_cb d of
                  Some cb \<Rightarrow> d\<lparr>nd_rx_cb_calls := nd_rx_cb_calls d @ [(cb, frame)]\<rparr>
                | None \<Rightarrow> d)))"

text \<open>A finished transmission: keep the status for the sender and wake it.\<close>

definition tx_complete :: "'c nrf24_hw \<Rightarrow> u8 \<Rightarrow> 'c nrf24 \<Rightarrow> 'c nrf24" where
  "tx_complete hw status d =
     (if status AND (BIT TX_DS OR BIT MAX_RT) \<noteq> 0 then
        let d = d\<lparr>nd_last_status := status\<rparr>
        in case reg_read_locked hw L01REG_OBSERVE_TX (nd_last_observe_tx d) d of (_, obs, d) \<Rightarrow>
             let d = d\<lparr>nd_last_observe_tx := obs\<rparr>;
                 d = snd (reg_write_locked hw L01REG_STATUS (BIT TX_DS OR BIT MAX_RT) d)
             in d\<lparr>nd_tx_done_sem := 1\<rparr>
      else d)"

text \<open>
  The receive loop of the interrupt thread.  It runs as long as the status it reads shows RX_DR, which
  need not end: then there is no result.
\<close>

partial_function (option) rx_drain ::
  "'c nrf24_hw \<Rightarrow> nrf24_config \<Rightarrow> bytes \<Rightarrow> u8 \<Rightarrow> 'c nrf24 \<Rightarrow> (u8 \<times> 'c nrf24) option" where
  "rx_drain hw cfg buf status d =
     (if status AND BIT RX_DR \<noteq> 0 then
        (case fetch_rx_payload_locked hw cfg buf d of (plen, buf, d) \<Rightarrow>
           let d = snd (cmd_locked hw FLUSH_RX d);
               d = snd (reg_write_locked hw L01REG_STATUS (BIT RX_DR) d);
               d = (if plen > 0 then deliver (take (unat plen) buf) d else d)
           in (case reg_read_locked hw L01REG_STATUS status d of (_, status, d) \<Rightarrow>
                 rx_drain hw cfg buf status d))
      else Some (status, d))"

text \<open>One turn of the interrupt thread after it was woken; \<open>stale\<close> is the uninitialised status.\<close>

definition nrf24_irq_turn :: "'c nrf24_hw \<Rightarrow> nrf24_config \<Rightarrow> u8 \<Rightarrow> bytes \<Rightarrow> 'c nrf24 \<Rightarrow> 'c nrf24 option" where
  "nrf24_irq_turn hw cfg stale buf d =
     (let d = d\<lparr>nd_irq_sem := nd_irq_sem d - 1\<rparr>
      in if \<not> nd_ready d then Some d
         else
           case reg_read_locked hw L01REG_STATUS stale d of (_, status, d) \<Rightarrow>
             (case rx_drain hw cfg buf status (tx_complete hw status d) of
                None \<Rightarrow> None
              | Some (status, d) \<Rightarrow> Some (tx_complete hw status d)))"

definition nrf24_recv :: "'c nrf24_hw \<Rightarrow> nat \<Rightarrow> 'c nrf24 \<Rightarrow> (int + bytes) \<times> 'c nrf24" where
  "nrf24_recv hw max_len d =
     (case (if nd_mode d \<noteq> NRF24_MODE_PRX then nrf24_start_rx hw d else (0, d)) of (ret, d) \<Rightarrow>
        if ret < 0 then (Inl ret, d)
        else
          case nd_fallback_msgq d of
            None \<Rightarrow> (Inl (- ENOTSUP), d)
          | Some q \<Rightarrow>
              (case mq_items q of
                 [] \<Rightarrow> (Inl (- EAGAIN), d)
               | f # fs \<Rightarrow> (Inr (take max_len f), d\<lparr>nd_fallback_msgq := Some (q\<lparr>mq_items := fs\<rparr>)\<rparr>)))"

definition nrf24_add_rx_msgq :: "msgq \<Rightarrow> 'c nrf24 \<Rightarrow> 'c nrf24" where
  "nrf24_add_rx_msgq q d = d\<lparr>nd_rx_msgq := Some q, nd_rx_cb := None\<rparr>"

definition nrf24_add_rx_callback :: "nat \<Rightarrow> nat \<Rightarrow> 'c nrf24 \<Rightarrow> 'c nrf24" where
  "nrf24_add_rx_callback cb user_data d = d\<lparr>nd_rx_msgq := None, nd_rx_cb := Some (cb, user_data)\<rparr>"

section \<open>Start-up\<close>

text \<open>The answers of the GPIO and SPI drivers, in the order of the calls.\<close>

record bus_env =
  be_spi_ready :: bool
  be_gpio_ready :: bool
  be_ce :: int
  be_irq :: int
  be_callback :: int
  be_interrupt :: int

definition nrf24_bus_init :: "bus_env \<Rightarrow> int" where
  "nrf24_bus_init env =
     (if \<not> be_spi_ready env then - NODEV
      else if \<not> be_gpio_ready env then - NODEV
      else if be_ce env < 0 then be_ce env
      else if be_irq env < 0 then be_irq env
      else if be_callback env < 0 then be_callback env
      else if be_interrupt env < 0 then be_interrupt env
      else 0)"

definition nrf24_init :: "'c nrf24_hw \<Rightarrow> nrf24_config \<Rightarrow> bus_env \<Rightarrow> 'c nrf24 \<Rightarrow> int \<times> 'c nrf24" where
  "nrf24_init hw cfg env d =
     (let d = d\<lparr>nd_irq_sem := 0, nd_tx_done_sem := 0, nd_mode := NRF24_MODE_STANDBY, nd_ready := False\<rparr>
      in case nrf24_power_apply hw cfg True d of (ret, d) \<Rightarrow>
           if ret < 0 then (ret, d)
           else if nrf24_bus_init env < 0 then (nrf24_bus_init env, d)
           else
             case apply_config_with hw cfg True (ce_set False d) of (ret, d) \<Rightarrow>
               if ret < 0 then (ret, d)
               else
                 case reg_read_locked hw L01REG_SETUP_AW 0 d of (_, _, d) \<Rightarrow>
                   (0, ce_set True (d\<lparr>nd_ready := True, nd_mode := NRF24_MODE_PRX\<rparr>)))"

text \<open>The static data of a device instance: the fallback queue of four frames always exists.\<close>

definition nrf24_static :: "'c \<Rightarrow> 'c nrf24" where
  "nrf24_static c = \<lparr>nd_chip = c, nd_ce = False, nd_irq_sem = 0, nd_tx_done_sem = 0, nd_last_status = 0,
     nd_last_observe_tx = 0, nd_rx_msgq = None, nd_rx_cb = None, nd_rx_cb_calls = [],
     nd_fallback_msgq = Some \<lparr>mq_max = 4, mq_items = []\<rparr>, nd_mode = NRF24_MODE_PTX, nd_ready = False\<rparr>"

end
