(* ===== verification/Rf24_Link.thy ===== *)
theory Rf24_Link
  imports Crypt_Link Nrf24
begin

text \<open>
  The 2.4 GHz link: what \<open>applications/gateway/src/rf24.c\<close> and \<open>applications/mod_handler/src/rf24.c\<close> have in
  common, framing, sealing, the retry loop and opening.  \<open>crypt_on\<close> is CONFIG_NRF24L01P_CRYPT; the uptime
  at each back-off is an argument.
\<close>

section \<open>Framing and the retry loop\<close>

definition RF24_PAYLOAD_MAX :: nat where "RF24_PAYLOAD_MAX = 32"
definition RF24_ID_SIZE :: nat where "RF24_ID_SIZE = 2"
definition RF24_TX_RETRIES :: nat where "RF24_TX_RETRIES = 5"
definition RF24_ADDR_LEN :: nat where "RF24_ADDR_LEN = 5"
definition RF24_FIXED_CH :: u8 where "RF24_FIXED_CH = 1"

definition COBID_HEATBEAT :: u16 where "COBID_HEATBEAT = 0x763"
definition TEST_FRAME :: u16 where "TEST_FRAME = 0x777"
definition HANDLER_STATE :: u16 where "HANDLER_STATE = 0x1E3"
definition OVERBREAK_LASER :: u16 where "OVERBREAK_LASER = 0x263"
definition COORD_XY :: u16 where "COORD_XY = 0x363"
definition COORD_Z :: u16 where "COORD_Z = 0x463"

named_theorems rf24_consts \<open>frame identifiers and sizes of the 2.4 GHz link\<close>

lemmas rf24_const_defs [rf24_consts] =
  RF24_PAYLOAD_MAX_def RF24_ID_SIZE_def RF24_TX_RETRIES_def RF24_ADDR_LEN_def RF24_FIXED_CH_def
  COBID_HEATBEAT_def TEST_FRAME_def HANDLER_STATE_def OVERBREAK_LASER_def COORD_XY_def COORD_Z_def

text \<open>The frame for the air, or \<open>None\<close> when the payload is refused.\<close>

definition rf24_pack :: "bool \<Rightarrow> byteorder \<Rightarrow> u16 \<Rightarrow> bytes \<Rightarrow> crypt \<Rightarrow> bytes option \<times> crypt" where
  "rf24_pack crypt_on bo cid data st =
     (if length data > RF24_PAYLOAD_MAX - RF24_ID_SIZE - (if crypt_on then 1 else 0) then (None, st)
      else
        let buf = mem_put RF24_ID_SIZE data (mem_put 0 (put_be16 bo cid) (replicate RF24_PAYLOAD_MAX 0));
            frame_len = (of_nat (length data + RF24_ID_SIZE) :: u8)
        in if crypt_on then
             case nrf24_crypt_seal bo buf frame_len st of (n, buf, st) \<Rightarrow>
               if n = 0 then (None, st) else (Some (take (unat n) buf), st)
           else (Some (take (unat frame_len) buf), st))"

text \<open>The queue of eight frames both applications register with the driver, empty until then.\<close>

definition rf24_rx_msgq :: "'c nrf24 \<Rightarrow> msgq" where
  "rf24_rx_msgq d = (case nd_rx_msgq d of None \<Rightarrow> \<lparr>mq_max = 8, mq_items = []\<rparr> | Some q \<Rightarrow> q)"

text \<open>What happens during a send: the wait of each attempt, the uptime at each back-off, the time at the end.\<close>

record 'c air =
  air_wait :: "nat \<Rightarrow> 'c nrf24 \<Rightarrow> bool \<times> u32 \<times> 'c nrf24"
  air_uptime :: "nat \<Rightarrow> u32"
  air_now :: u32

text \<open>
  The send loop from \<open>attempt\<close> on.  \<open>send\<close> is one call of nrf24_send on the state \<open>s\<close>; \<open>result\<close> is
  the structure it fills, \<open>None\<close> as long as no call has.  The result says what the last call returned,
  what the structure holds, the state, and the back-off times in between.
\<close>

function rf24_tx_loop :: "(nat \<Rightarrow> 's \<Rightarrow> int \<times> nrf24_tx_result option \<times> 's) \<Rightarrow> (nat \<Rightarrow> u32) \<Rightarrow> nat \<Rightarrow>
    nrf24_tx_result option \<Rightarrow> 's \<Rightarrow> int \<times> nrf24_tx_result option \<times> 's \<times> u32 list" where
  "rf24_tx_loop send uptime attempt result s =
     (case send attempt s of (ret, r, s) \<Rightarrow>
        let result = (case r of None \<Rightarrow> result | Some x \<Rightarrow> Some x)
        in if ret = 0 \<or> attempt \<ge> RF24_TX_RETRIES then (ret, result, s, [])
           else
             let backoff = 1 + uptime attempt mod (push_bit (attempt + 1) 1 + 1)
             in case rf24_tx_loop send uptime (attempt + 1) result s of
                  (ret, result, s, bs) \<Rightarrow> (ret, result, s, backoff # bs))"
  by pat_completeness auto
termination
  by (relation "measure (\<lambda>(send, up, attempt, result, s). RF24_TX_RETRIES - attempt)") auto

declare rf24_tx_loop.simps [simp del]

text \<open>A received frame in the clear, identifier first, or \<open>None\<close> when it is dropped.\<close>

definition rf24_unpack :: "bool \<Rightarrow> byteorder \<Rightarrow> bytes \<Rightarrow> crypt \<Rightarrow> bytes option \<times> crypt" where
  "rf24_unpack crypt_on bo f st =
     (if length f < RF24_ID_SIZE then (None, st)
      else if crypt_on then open_frame bo st f
      else (Some f, st))"

section \<open>Lemmas on framing\<close>

lemma tx_loop_bounds:
  "attempt \<le> RF24_TX_RETRIES \<Longrightarrow> rf24_tx_loop send up attempt res s = (ret, res', s', bs) \<Longrightarrow>
   attempt + length bs \<le> RF24_TX_RETRIES \<and> (ret \<noteq> 0 \<longrightarrow> attempt + length bs = RF24_TX_RETRIES)"
proof (induction send up attempt res s arbitrary: ret res' s' bs rule: rf24_tx_loop.induct)
  case (1 send up attempt res s)
  obtain r x t where e: "send attempt s = (r, x, t)" by (metis prod_cases3)
  define y where "y = (case x of None \<Rightarrow> res | Some z \<Rightarrow> Some z)"
  show ?case
  proof (cases "r = 0 \<or> attempt \<ge> RF24_TX_RETRIES")
    case True
    then show ?thesis using 1(2,3) by (subst (asm) rf24_tx_loop.simps) (auto simp: e)
  next
    case False
    obtain r' z u cs where l: "rf24_tx_loop send up (attempt + 1) y t = (r', z, u, cs)" by (metis prod_cases4)
    have "ret = r'" "length bs = Suc (length cs)"
      using 1(3) False l by (subst (asm) rf24_tx_loop.simps; simp add: e Let_def y_def; auto)+
    then show ?thesis
      using 1(1) [OF e [symmetric] refl y_def False refl _ l] False by auto
  qed
qed

text \<open>When the first attempt succeeds, there is no other.\<close>

lemma tx_loop_first:
  "send 0 s = (0, x, t) \<Longrightarrow>
   rf24_tx_loop send up 0 res s = (0, case x of None \<Rightarrow> res | Some z \<Rightarrow> Some z, t, [])"
  by (subst rf24_tx_loop.simps) simp

text \<open>What every attempt keeps, the loop keeps.\<close>

lemma tx_loop_inv:
  assumes "\<And>k s r x t. I s \<Longrightarrow> send k s = (r, x, t) \<Longrightarrow> I t"
  shows "I s \<Longrightarrow> rf24_tx_loop send up attempt res s = (ret, res', s', bs) \<Longrightarrow> I s'"
  using assms
proof (induction send up attempt res s arbitrary: ret res' s' bs rule: rf24_tx_loop.induct)
  case (1 send up attempt res s)
  obtain r x t where e: "send attempt s = (r, x, t)" by (metis prod_cases3)
  define y where "y = (case x of None \<Rightarrow> res | Some z \<Rightarrow> Some z)"
  have t: "I t" by (rule 1(4) [OF 1(2) e])
  show ?case
  proof (cases "r = 0 \<or> attempt \<ge> RF24_TX_RETRIES")
    case True
    then show ?thesis using 1(3) t by (subst (asm) rf24_tx_loop.simps) (auto simp: e)
  next
    case False
    obtain r' z u cs where l: "rf24_tx_loop send up (attempt + 1) y t = (r', z, u, cs)" by (metis prod_cases4)
    have "s' = u" using 1(3) False l by (subst (asm) rf24_tx_loop.simps) (auto simp: e Let_def y_def)
    then show ?thesis using 1(1) [OF e [symmetric] refl y_def False refl t l 1(4)] by simp
  qed
qed

lemma rf24_pack_sealed:
  assumes "byteorder_ok bo" and "length data \<le> 29"
  shows "rf24_pack True bo i data st =
    (Some (fst (seal_frame bo st (put_be16 bo i @ data))), snd (seal_frame bo st (put_be16 bo i @ data)))"
proof -
  let ?p = "put_be16 bo i @ data"
  have l2: "length (put_be16 bo i) = 2" using byteorder_okD(2) [OF assms(1)] by simp
  have buf: "mem_put RF24_ID_SIZE data (mem_put 0 (put_be16 bo i) (replicate RF24_PAYLOAD_MAX 0)) =
      ?p @ replicate (32 - length ?p) 0"
    using assms(2) l2 by (simp add: mem_put_def rf24_consts)
  have n: "(of_nat (length data + RF24_ID_SIZE) :: u8) = of_nat (length ?p)"
    using l2 by (simp add: rf24_consts add.commute)
  have un: "unat (of_nat (length ?p) :: u8) = length ?p" using assms(2) l2 by (intro nat_in_u8) simp
  have ok: "\<not> ((of_nat (length ?p) :: u8) < 2 \<or> (of_nat (length ?p) :: u8) > 31)"
    using assms(2) l2 un by (simp add: word_less_nat_alt)
  define L where "L = (of_nat (length ?p) :: u8)"
  have seal: "fst (nrf24_crypt_seal bo b L st) = L + 1" for b
    using ok by (simp add: nrf24_crypt_seal_def Let_def L_def)
  have "unat (L + 1) = Suc (length ?p)"
    using un assms(2) l2 unat_plus_one [of "of_nat (length ?p)" "32 :: u8"] by (simp add: word_less_nat_alt L_def)
  then have L: "L + 1 \<noteq> 0" by (metis nat.distinct(1) unat_0)
  obtain n b t where e: "nrf24_crypt_seal bo (?p @ replicate (32 - length ?p) 0) L st = (n, b, t)"
    by (metis prod_cases3)
  then have "n \<noteq> 0" using seal [of "?p @ replicate (32 - length ?p) 0"] L by simp
  moreover have "\<not> 29 < length data" using assms(2) by simp
  ultimately show ?thesis
    unfolding rf24_pack_def buf n Let_def seal_frame_def L_def [symmetric] e by (simp add: rf24_consts)
qed

lemma frame_ok_payload:
  assumes "byteorder_ok bo" and "length data \<le> 29"
  shows "frame_ok (put_be16 bo i @ data)"
  using assms byteorder_okD(2) [OF assms(1), of i] by (simp add: frame_ok_def)

section \<open>Frames on the air\<close>

text \<open>What a frame looks like on the air, and the sender's state after it.\<close>

definition on_air :: "bool \<Rightarrow> byteorder \<Rightarrow> crypt \<Rightarrow> bytes \<Rightarrow> bytes" where
  "on_air con bo t p = (if con then fst (seal_frame bo t p) else p)"

definition after_air :: "bool \<Rightarrow> byteorder \<Rightarrow> crypt \<Rightarrow> bytes \<Rightarrow> crypt" where
  "after_air con bo t p = (if con then snd (seal_frame bo t p) else t)"

lemma length_seal_frame: "frame_ok p \<Longrightarrow> length (fst (seal_frame bo t p)) = Suc (length p)"
  by (simp add: seal_frame_eq frame_ok_def)

lemma unpack_on_air:
  assumes "crypt_lag t r d" and "d < 32" and "frame_ok p"
  shows "\<exists>r'. rf24_unpack con bo (on_air con bo t p) r = (Some p, r') \<and>
    (con \<longrightarrow> crypt_lag (after_air con bo t p) r' 0) \<and> (\<not> con \<longrightarrow> r' = r)"
proof (cases "con")
  case True
  obtain f t' where s: "seal_frame bo t p = (f, t')" by fastforce
  obtain r' where "open_frame bo r f = (Some p, r')" "crypt_lag t' r' 0"
    using rf24_link.accept [OF assms(1,3,2) s] by blast
  then show ?thesis
    using True s length_seal_frame [OF assms(3), of bo t] assms(3)
    by (auto simp: rf24_unpack_def on_air_def after_air_def rf24_consts frame_ok_def)
next
  case False
  then show ?thesis using assms(3) by (simp add: rf24_unpack_def on_air_def rf24_consts frame_ok_def)
qed

lemma rf24_pack_on_air:
  assumes "byteorder_ok bo" and "length data \<le> 29"
  shows "rf24_pack con bo cid data st =
    (Some (on_air con bo st (put_be16 bo cid @ data)), after_air con bo st (put_be16 bo cid @ data))"
proof (cases "con")
  case True
  then show ?thesis using rf24_pack_sealed [OF assms] by (simp add: on_air_def after_air_def)
next
  case False
  have "length (put_be16 bo cid) = 2" using byteorder_okD(2) [OF assms(1)] by simp
  then show ?thesis
    using False assms(2) unat_plus_one
    by (simp add: rf24_pack_def on_air_def after_air_def mem_put_def rf24_consts nat_in_u8 Let_def flip: of_nat_Suc of_nat_add)
qed

end
