(* ===== verification/Rf24_Shell.thy ===== *)
theory Rf24_Shell
  imports Rf24_Link
begin

text \<open>
  The link test of \<open>rf24_shell.c\<close>, the same file in the gateway and the handset: the dispatch of test
  frames and the commands that send them.  \<open>send\<close> is the application's way to send a frame
  (gw_rf24_send, rf24_data_send) on its state \<open>'s\<close>; numbers on the command line come parsed.
\<close>

definition RF24_TEST_PING :: u8 where "RF24_TEST_PING = 1"
definition RF24_TEST_ECHO :: u8 where "RF24_TEST_ECHO = 2"
definition RF24_TEST_DATA :: u8 where "RF24_TEST_DATA = 3"
definition RF24_TEST_PAYLOAD_MAX :: nat where "RF24_TEST_PAYLOAD_MAX = NRF24_MAX_PAYLOAD - 2"

lemmas rf24_test_defs = RF24_TEST_PING_def RF24_TEST_ECHO_def RF24_TEST_DATA_def RF24_TEST_PAYLOAD_MAX_def

text \<open>\<open>heard\<close> are the texts printed in listen mode; the queue of echoes holds two.\<close>

record test_shell =
  ping_wait_seq :: u8
  listen_mode :: bool
  tx_seq :: u8
  ping_msgq :: bytes
  heard :: "bytes list"

definition test_shell_static :: test_shell where
  "test_shell_static = \<lparr>ping_wait_seq = 0, listen_mode = False, tx_seq = 0, ping_msgq = [], heard = []\<rparr>"

definition rf24_test_handle_rx :: "(u16 \<Rightarrow> bytes \<Rightarrow> 's \<Rightarrow> bool \<times> 's) \<Rightarrow> bytes \<Rightarrow> test_shell \<times> 's \<Rightarrow> test_shell \<times> 's" where
  "rf24_test_handle_rx send data = (\<lambda>(sh, s).
     if length data < 1 then (sh, s)
     else if data ! 0 = RF24_TEST_PING then
       let echo = [RF24_TEST_ECHO, if length data \<ge> 2 then data ! 1 else 0xFF, 0]
       in (sh, snd (send TEST_FRAME echo s))
     else if data ! 0 = RF24_TEST_ECHO then
       (if length data \<ge> 2 \<and> ping_wait_seq sh = data ! 1 \<and> length (ping_msgq sh) < 2
        then sh\<lparr>ping_msgq := ping_msgq sh @ [data ! 1]\<rparr> else sh, s)
     else if data ! 0 = RF24_TEST_DATA then
       (if listen_mode sh then
          let txt_len = (if length data \<ge> 2 then length data - 2 else 0);
              txt_len = (if txt_len > RF24_TEST_PAYLOAD_MAX then RF24_TEST_PAYLOAD_MAX else txt_len)
          in sh\<lparr>heard := heard sh @ [take txt_len (drop 2 data)]\<rparr>
        else sh, s)
     else (sh, s))"

text \<open>The arguments joined by spaces behind the two header bytes, cut at the end of the buffer.\<close>

fun put_args :: "string list \<Rightarrow> bytes \<Rightarrow> bytes" where
  "put_args [] p = p"
| "put_args (s # ss) p =
     (if length p < RF24_TEST_PAYLOAD_MAX
      then put_args ss (take RF24_TEST_PAYLOAD_MAX ((if length p > 2 then p @ [32] else p) @ char_bytes s))
      else p)"

definition cmd_rf24_send :: "bool \<Rightarrow> (u16 \<Rightarrow> bytes \<Rightarrow> 's \<Rightarrow> bool \<times> 's) \<Rightarrow> string list \<Rightarrow> test_shell \<times> 's \<Rightarrow>
    int \<times> test_shell \<times> 's" where
  "cmd_rf24_send ready send args = (\<lambda>(sh, s).
     if args = [] then (- EINVAL, sh, s)
     else if \<not> ready then (- EIO, sh, s)
     else
       let payload = put_args args [RF24_TEST_DATA, tx_seq sh];
           sh = sh\<lparr>tx_seq := tx_seq sh + 1\<rparr>
       in case send TEST_FRAME payload s of (ok, s) \<Rightarrow> (if ok then 0 else - EIO, sh, s))"

datatype ping_line = Tx_fail u8 | Rtt u8 u32 | Timeout u8

text \<open>
  The loop of cmd_rf24_ping from round \<open>i\<close> on.  \<open>air i\<close> is the wait for the echo of that round: the time it
  took and what the receive thread did in it.
\<close>

fun ping_loop :: "(u16 \<Rightarrow> bytes \<Rightarrow> 's \<Rightarrow> bool \<times> 's) \<Rightarrow> (nat \<Rightarrow> test_shell \<times> 's \<Rightarrow> u32 \<times> test_shell \<times> 's) \<Rightarrow>
    nat \<Rightarrow> nat \<Rightarrow> test_shell \<Rightarrow> 's \<Rightarrow> ping_line list \<times> test_shell \<times> 's" where
  "ping_loop send air i 0 sh s = ([], sh, s)"
| "ping_loop send air i (Suc n) sh s =
     (let seq = tx_seq sh;
          sh = sh\<lparr>tx_seq := seq + 1, ping_wait_seq := seq\<rparr>
      in case send TEST_FRAME [RF24_TEST_PING, seq] s of (tx_ok, s) \<Rightarrow>
           case (if \<not> tx_ok then (Tx_fail seq, sh\<lparr>ping_wait_seq := 0xFF\<rparr>, s)
                 else case air i (sh, s) of (rtt, sh, s) \<Rightarrow>
                   (case ping_msgq sh of
                      [] \<Rightarrow> (Timeout seq, sh\<lparr>ping_wait_seq := 0xFF\<rparr>, s)
                    | got # q \<Rightarrow> (if got = seq then Rtt seq rtt else Timeout seq,
                                sh\<lparr>ping_msgq := q, ping_wait_seq := 0xFF\<rparr>, s)))
           of (line, sh, s) \<Rightarrow>
             (case ping_loop send air (i + 1) n sh s of (ls, sh, s) \<Rightarrow> (line # ls, sh, s)))"

text \<open>What is printed at the end: answered pings, the sum, the largest and the smallest time.\<close>

definition ping_stats :: "ping_line list \<Rightarrow> nat \<times> u32 \<times> u32 \<times> u32" where
  "ping_stats ls = fold (\<lambda>l (ok, tot, mx, mn).
     case l of Rtt _ rtt \<Rightarrow> (ok + 1, tot + rtt, if rtt > mx then rtt else mx, if rtt < mn then rtt else mn)
     | _ \<Rightarrow> (ok, tot, mx, mn)) ls (0, 0, 0, - 1)"

definition cmd_rf24_ping :: "bool \<Rightarrow> (u16 \<Rightarrow> bytes \<Rightarrow> 's \<Rightarrow> bool \<times> 's) \<Rightarrow> (nat \<Rightarrow> test_shell \<times> 's \<Rightarrow> u32 \<times> test_shell \<times> 's) \<Rightarrow>
    int option \<Rightarrow> test_shell \<times> 's \<Rightarrow> int \<times> ping_line list \<times> (nat \<times> u32 \<times> u32 \<times> u32) \<times> test_shell \<times> 's" where
  "cmd_rf24_ping ready send air count_arg = (\<lambda>(sh, s).
     let count = (case count_arg of None \<Rightarrow> 5 | Some n \<Rightarrow> if n < 1 then 1 else if n > 100 then 100 else n)
     in if \<not> ready then (- EIO, [], (0, 0, 0, - 1), sh, s)
        else case ping_loop send air 0 (nat count) (sh\<lparr>ping_msgq := []\<rparr>) s of
               (ls, sh, s) \<Rightarrow> (0, ls, ping_stats ls, sh, s))"

definition cmd_rf24_listen :: "string option \<Rightarrow> test_shell \<Rightarrow> int \<times> test_shell" where
  "cmd_rf24_listen arg sh =
     (case arg of None \<Rightarrow> (0, sh)
      | Some s \<Rightarrow>
          if s = ''on'' then (0, sh\<lparr>listen_mode := True\<rparr>)
          else if s = ''off'' then (0, sh\<lparr>listen_mode := False\<rparr>)
          else (- EINVAL, sh))"

section \<open>Lemmas\<close>

lemma put_args_length: "length p \<le> RF24_TEST_PAYLOAD_MAX \<Longrightarrow> length (put_args args p) \<le> RF24_TEST_PAYLOAD_MAX"
  by (induction args p rule: put_args.induct) auto

end
