(* ===== verification/Gateway.thy ===== *)
theory Gateway
  imports Rf24_Shell Udp_Fw
begin

text \<open>
  The gateway application, \<open>applications/gateway\<close>: status lamps (led.c), the 2.4 GHz link (rf24.c, over the
  driver of theory Nrf24), forwarding and configuration over UDP (udp.c, a callback of the library of
  theory Udp_Fw), stored settings (persist.c, config.c) and the network set-up (main.c).  gw_params and the
  static variables are the record \<open>gateway\<close>; \<open>gw_env\<close> is what the build and the platform fix.
\<close>

section \<open>State\<close>

text \<open>The socket library's text form of addresses; an address is its four bytes in network order.\<close>

record inet_api =
  inet_pton :: "string \<Rightarrow> bytes option"
  inet_ntop :: "bytes \<Rightarrow> string"

record 'c gw_env =
  ge_bo :: byteorder
  ge_crypt :: bool
  ge_ready :: bool
  ge_hw :: "'c nrf24_hw"
  ge_dt :: nrf24_config
  ge_inet :: inet_api
  ge_config_port :: u16
  ge_name_next :: "string \<Rightarrow> nat \<times> string option"

record net_iface =
  ni_mac :: bytes
  ni_addr :: "bytes option"
  ni_mask :: "bytes option"
  ni_gw :: "bytes option"
  ni_up :: bool
  ni_dhcp :: bool

text \<open>
  Lamps are logical levels; a delayable work item is the delay it was scheduled with, or \<open>None\<close>.
  \<open>gw_store\<close> is the settings storage, \<open>gw_udp_out\<close> what went to the data socket.
\<close>

record 'c gateway =
  gw_rf24_addr :: bytes
  gw_ip_addr :: string
  gw_data_port :: u16
  gw_use_dhcp :: u8
  gw_host_ip :: string
  gw_host_port :: u16
  gw_running :: bool
  gw_store :: "string \<rightharpoonup> bytes"
  led_rf24 :: bool
  led_err :: bool
  led_sys :: bool
  led_blink_work :: "nat option"
  rf24_last_activity :: u32
  blinking :: bool
  error_latched :: bool
  err_selftest_work :: "nat option"
  gw_dev :: "'c nrf24"
  gw_crypt :: crypt
  gw_shell :: test_shell
  data_sock :: int
  gw_udp_out :: "(bytes \<times> u16 \<times> bytes) list"
  gw_net_link_up :: bool
  net_link_sem :: nat
  gw_iface :: "net_iface option"
  gw_log :: bool

section \<open>Status lamps (led.c)\<close>

definition RF24_BLINK_HALF_PERIOD_MS :: nat where "RF24_BLINK_HALF_PERIOD_MS = 100"
definition RF24_ACTIVITY_TIMEOUT_MS :: u32 where "RF24_ACTIVITY_TIMEOUT_MS = 400"
definition ERR_SELFTEST_MS :: nat where "ERR_SELFTEST_MS = 150"

definition err_selftest_work_handler :: "'c gateway \<Rightarrow> 'c gateway" where
  "err_selftest_work_handler g = g\<lparr>err_selftest_work := None, led_err := False\<rparr>"

definition gw_led_init :: "'c gateway \<Rightarrow> 'c gateway" where
  "gw_led_init g = g\<lparr>led_rf24 := True, led_err := True, led_sys := False, led_blink_work := None,
     blinking := False, err_selftest_work := Some ERR_SELFTEST_MS\<rparr>"

definition gw_led_sys_on :: "'c gateway \<Rightarrow> 'c gateway" where
  "gw_led_sys_on g = g\<lparr>led_sys := True\<rparr>"

definition gw_led_error_on :: "'c gateway \<Rightarrow> 'c gateway" where
  "gw_led_error_on g = g\<lparr>error_latched := True, led_err := True\<rparr>"

definition led_blink_work_handler :: "u32 \<Rightarrow> 'c gateway \<Rightarrow> 'c gateway" where
  "led_blink_work_handler now g =
     (if now - rf24_last_activity g < RF24_ACTIVITY_TIMEOUT_MS
      then g\<lparr>led_rf24 := (\<not> led_rf24 g), led_blink_work := Some RF24_BLINK_HALF_PERIOD_MS\<rparr>
      else g\<lparr>led_rf24 := True, blinking := False, led_blink_work := None\<rparr>)"

definition gw_led_rf24_activity :: "u32 \<Rightarrow> 'c gateway \<Rightarrow> 'c gateway" where
  "gw_led_rf24_activity now g =
     (let g = g\<lparr>rf24_last_activity := now\<rparr>
      in if \<not> blinking g
         then g\<lparr>blinking := True, led_rf24 := False, led_blink_work := Some RF24_BLINK_HALF_PERIOD_MS\<rparr>
         else g)"

datatype fatal_reason = K_ERR_CPU_EXCEPTION | K_ERR_SPURIOUS_IRQ | K_ERR_STACK_CHK_FAIL | K_ERR_KERNEL_OOPS
  | K_ERR_KERNEL_PANIC

definition k_sys_fatal_error_handler :: "fatal_reason \<Rightarrow> 'c gateway \<Rightarrow> 'c gateway" where
  "k_sys_fatal_error_handler reason g =
     (if reason = K_ERR_STACK_CHK_FAIL \<or> reason = K_ERR_CPU_EXCEPTION then gw_led_error_on g else g)"

section \<open>The 2.4 GHz link (rf24.c)\<close>

definition gw_rf24_set_config :: "'c gw_env \<Rightarrow> bytes \<Rightarrow> 'c gateway \<Rightarrow> 'c gateway" where
  "gw_rf24_set_config E addr g =
     (let g = g\<lparr>gw_rf24_addr := take RF24_ADDR_LEN addr\<rparr>;
          g = (if ge_crypt E then g\<lparr>gw_crypt := nrf24_crypt_set_key (ge_bo E) addr (gw_crypt g)\<rparr> else g)
      in if \<not> ge_ready E then g
         else
           let cfg = zero_cfg\<lparr>cfg_channel := RF24_FIXED_CH, cfg_address_width := of_nat RF24_ADDR_LEN,
                              cfg_tx_addr := Some (gw_rf24_addr g)\<rparr>;
               d = snd (nrf24_configure (ge_hw E) (ge_dt E) (Some cfg) (gw_dev g));
               d = snd (nrf24_start_rx (ge_hw E) d)
           in g\<lparr>gw_dev := d\<rparr>)"

definition gw_rf24_init :: "'c gw_env \<Rightarrow> 'c gateway \<Rightarrow> 'c gateway" where
  "gw_rf24_init E g =
     (if \<not> ge_ready E then gw_led_error_on g
      else
        let g = gw_rf24_set_config E (gw_rf24_addr g) g;
            d = nrf24_add_rx_msgq (rf24_rx_msgq (gw_dev g)) (gw_dev g)
        in case nrf24_start_rx (ge_hw E) d of (ret, d) \<Rightarrow>
             let g = g\<lparr>gw_dev := d\<rparr> in if ret \<noteq> 0 then gw_led_error_on g else g)"

definition gw_rf24_send :: "'c gw_env \<Rightarrow> 'c air \<Rightarrow> u16 \<Rightarrow> bytes \<Rightarrow> 'c gateway \<Rightarrow> bool \<times> 'c gateway" where
  "gw_rf24_send E air cid data g =
     (if \<not> ge_ready E then (False, g)
      else
        case rf24_pack (ge_crypt E) (ge_bo E) cid data (gw_crypt g) of
          (None, st) \<Rightarrow> (False, g\<lparr>gw_crypt := st\<rparr>)
        | (Some f, st) \<Rightarrow>
            (case rf24_tx_loop (\<lambda>k. nrf24_send (ge_hw E) (air_wait air k) f) (air_uptime air) 0 None (gw_dev g) of
               (ret, result, d, backoffs) \<Rightarrow>
                 let g = g\<lparr>gw_crypt := st, gw_dev := d\<rparr>
                 in if ret \<noteq> 0 then (False, g) else (True, gw_led_rf24_activity (air_now air) g)))"

section \<open>UDP (udp.c)\<close>

definition pack_host :: "'c gw_env \<Rightarrow> 'c gateway \<Rightarrow> bytes" where
  "pack_host E g =
     (case inet_pton (ge_inet E) (gw_host_ip g) of None \<Rightarrow> [0, 0, 0, 0] | Some a \<Rightarrow> a) @
     put_be16 (ge_bo E) (gw_host_port g)"

definition ip_is_valid :: "byteorder \<Rightarrow> bytes \<Rightarrow> bool" where
  "ip_is_valid bo addr =
     (let a = get_be32 bo addr; b0 = (ucast (drop_bit 24 a) :: u8)
      in if a = 0 then False
         else if a = 0xFFFFFFFF then False
         else if b0 = 127 then False
         else if b0 \<ge> 224 then False
         else True)"

definition gw_udp_send :: "'c gw_env \<Rightarrow> bytes \<Rightarrow> 'c gateway \<Rightarrow> 'c gateway" where
  "gw_udp_send E data g =
     (if data_sock g < 0 \<or> length data = 0 then g
      else if \<not> gw_net_link_up g then g
      else case inet_pton (ge_inet E) (gw_host_ip g) of
             None \<Rightarrow> g
           | Some a \<Rightarrow> g\<lparr>gw_udp_out := gw_udp_out g @ [(a, gw_host_port g, data)]\<rparr>)"

text \<open>One turn of the receive thread of the radio: the head of its queue, if there is one.\<close>

definition gw_rf24_rx :: "'c gw_env \<Rightarrow> 'c air \<Rightarrow> 'c gateway \<Rightarrow> 'c gateway" where
  "gw_rf24_rx E air g =
     (if \<not> ge_ready E then g
      else
        case nd_rx_msgq (gw_dev g) of
          None \<Rightarrow> g
        | Some q \<Rightarrow>
            (case mq_items q of
               [] \<Rightarrow> g
             | f # fs \<Rightarrow>
                 let g = g\<lparr>gw_dev := (gw_dev g)\<lparr>nd_rx_msgq := Some (q\<lparr>mq_items := fs\<rparr>)\<rparr>\<rparr>
                 in case rf24_unpack (ge_crypt E) (ge_bo E) f (gw_crypt g) of
                      (None, st) \<Rightarrow> g\<lparr>gw_crypt := st\<rparr>
                    | (Some p, st) \<Rightarrow>
                        let g = gw_led_rf24_activity (air_now air) (g\<lparr>gw_crypt := st\<rparr>);
                            cid = get_be16 (ge_bo E) p
                        in if cid = TEST_FRAME then
                             case rf24_test_handle_rx (gw_rf24_send E air) (drop RF24_ID_SIZE p) (gw_shell g, g) of
                               (sh, g) \<Rightarrow> g\<lparr>gw_shell := sh\<rparr>
                           else if cid \<noteq> HANDLER_STATE \<and> cid \<noteq> COBID_HEATBEAT then g
                           else gw_udp_send E p g))"

section \<open>Stored settings (persist.c, config.c)\<close>

text \<open>settings_save_one; the stored value of an integer is its memory.\<close>

definition save_one :: "string \<Rightarrow> bytes \<Rightarrow> 'c gateway \<Rightarrow> 'c gateway" where
  "save_one name val g = g\<lparr>gw_store := (gw_store g)(name \<mapsto> val)\<rparr>"

definition persist_save_rf24_config :: "'c gateway \<Rightarrow> 'c gateway" where
  "persist_save_rf24_config g = save_one ''gw/rf24_addr'' (gw_rf24_addr g) g"

definition persist_save_network_config :: "'c gateway \<Rightarrow> 'c gateway" where
  "persist_save_network_config g =
     (let g = save_one ''gw/ip_addr'' (char_bytes (gw_ip_addr g)) g;
          g = save_one ''gw/data_port'' (u16_mem (gw_data_port g)) g;
          g = save_one ''gw/use_dhcp'' [gw_use_dhcp g] g;
          g = save_one ''gw/host_ip'' (char_bytes (gw_host_ip g)) g;
          g = save_one ''gw/host_port'' (u16_mem (gw_host_port g)) g
      in g)"

definition gw_persist_export :: "'c gateway \<Rightarrow> (string \<times> bytes) list" where
  "gw_persist_export g =
     [(''gw/rf24_addr'', gw_rf24_addr g), (''gw/ip_addr'', char_bytes (gw_ip_addr g)),
      (''gw/data_port'', u16_mem (gw_data_port g)), (''gw/use_dhcp'', [gw_use_dhcp g]),
      (''gw/host_ip'', char_bytes (gw_host_ip g)), (''gw/host_port'', u16_mem (gw_host_port g))]"

text \<open>\<open>val\<close> is the stored value that read_cb copies from; the comparison is strncmp over the name's length.\<close>

definition gw_persist_set :: "'c gw_env \<Rightarrow> string \<Rightarrow> bytes \<Rightarrow> 'c gateway \<Rightarrow> int \<times> 'c gateway" where
  "gw_persist_set E name val g =
     (case ge_name_next E name of (name_len, nxt) \<Rightarrow>
        let is_key = (\<lambda>key. nxt = None \<and> take name_len name = take name_len key)
        in if is_key ''rf24_addr'' then
             (0, if length val = RF24_ADDR_LEN then g\<lparr>gw_rf24_addr := val\<rparr> else g)
           else if is_key ''ip_addr'' then
             (0, if length val < 16 then g\<lparr>gw_ip_addr := c_string val\<rparr> else g)
           else if is_key ''data_port'' then
             (0, if length val = 2 then g\<lparr>gw_data_port := mem_u16 val\<rparr> else g)
           else if is_key ''use_dhcp'' then
             (0, if length val = 1 then g\<lparr>gw_use_dhcp := val ! 0\<rparr> else g)
           else if is_key ''host_ip'' then
             (0, if length val < 16 then g\<lparr>gw_host_ip := c_string val\<rparr> else g)
           else if is_key ''host_port'' then
             (0, if length val = 2 then g\<lparr>gw_host_port := mem_u16 val\<rparr> else g)
           else (- 2, g))"

text \<open>settings_load hands the stored entries of the subtree to the handler, in the order of the backend.\<close>

definition load_entry :: "'c gw_env \<Rightarrow> string \<times> bytes \<Rightarrow> 'c gateway \<Rightarrow> 'c gateway" where
  "load_entry E = (\<lambda>(name, val) g.
     if take 3 name = ''gw/'' then snd (gw_persist_set E (drop 3 name) val g) else g)"

definition gw_config_load :: "'c gw_env \<Rightarrow> (string \<times> bytes) list \<Rightarrow> 'c gateway \<Rightarrow> 'c gateway" where
  "gw_config_load E stored g = fold (load_entry E) stored g"

definition gw_config_save :: "'c gateway \<Rightarrow> 'c gateway" where
  "gw_config_save g = persist_save_network_config (persist_save_rf24_config g)"

definition settings_backend_init :: "int \<Rightarrow> 'c gateway \<Rightarrow> int \<times> 'c gateway" where
  "settings_backend_init rc g =
     (if rc \<noteq> 0 then (rc, g)
      else (rc, g\<lparr>gw_store := (gw_store g)(''gw/netmask'' := None, ''gw/gateway'' := None, ''gw/rf24_channel'' := None)\<rparr>))"

section \<open>Configuration commands (udp.c)\<close>

definition UDP_CMD_SET_IP :: u8 where "UDP_CMD_SET_IP = 0x10"
definition UDP_CMD_GET_NET :: u8 where "UDP_CMD_GET_NET = 0x11"
definition UDP_CMD_SET_RF24 :: u8 where "UDP_CMD_SET_RF24 = 0x12"
definition UDP_CMD_GET_RF24 :: u8 where "UDP_CMD_GET_RF24 = 0x13"
definition UDP_CMD_SET_HOST :: u8 where "UDP_CMD_SET_HOST = 0x14"
definition UDP_CMD_DISCOVER :: u8 where "UDP_CMD_DISCOVER = 0x15"

lemmas gw_cmd_defs =
  UDP_CMD_SET_IP_def UDP_CMD_GET_NET_def UDP_CMD_SET_RF24_def UDP_CMD_GET_RF24_def UDP_CMD_SET_HOST_def
  UDP_CMD_DISCOVER_def

text \<open>Replies are the arguments of the calls of udp_fw_reply; \<open>live\<close> is gw_get_live_ipv4.\<close>

definition app_cmd_handler :: "'c gw_env \<Rightarrow> bytes option \<Rightarrow> u8 \<times> bytes \<Rightarrow> 'c gateway \<times> (u8 \<times> bytes \<times> u8) list \<Rightarrow>
    bool \<times> 'c gateway \<times> (u8 \<times> bytes \<times> u8) list" where
  "app_cmd_handler E live = (\<lambda>(cmd, data) (g, replies).
     let reply = (\<lambda>bs. replies @ [(cmd, bs, of_nat (length bs))])
     in if cmd = UDP_CMD_SET_IP then
          (if length data \<ge> 4 \<and> gw_use_dhcp g = 0 \<and> ip_is_valid (ge_bo E) (take 4 data)
           then (True, persist_save_network_config (g\<lparr>gw_ip_addr := inet_ntop (ge_inet E) (take 4 data)\<rparr>), reply [1])
           else (True, g, reply [0]))
        else if cmd = UDP_CMD_GET_NET then
          (True, g, reply (put_be16 (ge_bo E) (gw_data_port g) @ pack_host E g))
        else if cmd = UDP_CMD_SET_RF24 then
          (if length data \<ge> RF24_ADDR_LEN then
             let g = g\<lparr>gw_rf24_addr := take RF24_ADDR_LEN data\<rparr>;
                 g = persist_save_rf24_config g;
                 g = gw_rf24_set_config E (gw_rf24_addr g) g
             in (True, g, reply (gw_rf24_addr g))
           else (True, g, replies))
        else if cmd = UDP_CMD_GET_RF24 then (True, g, reply (gw_rf24_addr g))
        else if cmd = UDP_CMD_SET_HOST then
          (if length data \<ge> 6 then
             let g = g\<lparr>gw_host_ip := inet_ntop (ge_inet E) (take 4 data), gw_host_port := get_be16 (ge_bo E) (drop 4 data)\<rparr>;
                 g = persist_save_network_config g
             in (True, g, reply (pack_host E g))
           else (True, g, replies))
        else if cmd = UDP_CMD_DISCOVER then
          (let ip = (case live of Some a \<Rightarrow> a
                     | None \<Rightarrow> (case inet_pton (ge_inet E) (gw_ip_addr g) of Some a \<Rightarrow> a | None \<Rightarrow> [0, 0, 0, 0]))
           in (True, g, reply (ip @ put_be16 (ge_bo E) (ge_config_port E))))
        else (False, g, replies))"

text \<open>The data port: opening the socket, and a datagram on it (the buffer holds 512 bytes).\<close>

definition gw_data_open :: "int \<Rightarrow> int \<Rightarrow> 'c gateway \<Rightarrow> 'c gateway" where
  "gw_data_open sock bound g =
     (if sock < 0 then g\<lparr>data_sock := sock\<rparr>
      else if bound < 0 then g\<lparr>data_sock := -1\<rparr>
      else g\<lparr>data_sock := sock\<rparr>)"

definition udp_data_rx :: "'c gw_env \<Rightarrow> 'c air \<Rightarrow> bytes \<Rightarrow> 'c gateway \<Rightarrow> 'c gateway" where
  "udp_data_rx E air dg g =
     (let buf = take 512 dg
      in if length buf \<ge> 2 then
           let cid = get_be16 (ge_bo E) buf
           in if cid = OVERBREAK_LASER \<or> cid = COORD_XY \<or> cid = COORD_Z
              then snd (gw_rf24_send E air cid (drop 2 buf) g) else g
         else g)"

text \<open>Registration with the upgrade library; the callback is the only one the gateway has.\<close>

definition gw_udp_init :: "udp_fw_cfg \<Rightarrow> ('d, unit, unit, 'a) udp_fw \<Rightarrow> ('d, unit, unit, 'a) udp_fw" where
  "gw_udp_init cfg s = udp_fw_allow_broadcast_cmd cfg UDP_CMD_DISCOVER (udp_fw_set_app_handler (Some ()) None s)"

section \<open>Network set-up and start (main.c)\<close>

text \<open>\<open>uid\<close> is what hwinfo_get_device_id delivered.\<close>

definition derive_mac_from_uid :: "bytes \<Rightarrow> bytes" where
  "derive_mac_from_uid uid =
     [0x00, 0x08, 0xDC] @
     (if length uid \<ge> 12
      then [uid ! 0 XOR uid ! 3 XOR uid ! 6 XOR uid ! 9, uid ! 1 XOR uid ! 4 XOR uid ! 7 XOR uid ! 10,
            uid ! 2 XOR uid ! 5 XOR uid ! 8 XOR uid ! 11]
      else [1, 2, 3])"

text \<open>\<open>set_mac\<close> is the result of the request that sets the MAC address.\<close>

definition net_init :: "'c gw_env \<Rightarrow> bytes \<Rightarrow> int \<Rightarrow> 'c gateway \<Rightarrow> int \<times> 'c gateway" where
  "net_init E uid set_mac g =
     (case gw_iface g of
        None \<Rightarrow> (- NODEV, g)
      | Some i \<Rightarrow>
          let i = (if set_mac \<noteq> 0 then i else i\<lparr>ni_mac := derive_mac_from_uid uid\<rparr>)
          in if gw_use_dhcp g \<noteq> 0 then (0, g\<lparr>gw_iface := Some (i\<lparr>ni_up := True\<rparr>)\<rparr>)
             else
               case inet_pton (ge_inet E) (gw_ip_addr g) of
                 None \<Rightarrow> (- EINVAL, g\<lparr>gw_iface := Some i\<rparr>)
               | Some a \<Rightarrow> (0, g\<lparr>gw_iface := Some (i\<lparr>ni_addr := Some a, ni_mask := Some [0xFF, 0xFF, 0xFF, 0],
                              ni_gw := Some (a[3 := 1]), ni_up := True\<rparr>)\<rparr>))"

datatype if_event = NET_EVENT_IF_UP | NET_EVENT_IF_DOWN | Other_event

definition net_if_event_handler :: "if_event \<Rightarrow> 'c gateway \<Rightarrow> 'c gateway" where
  "net_if_event_handler ev g =
     (case ev of
        NET_EVENT_IF_UP \<Rightarrow>
          let g = g\<lparr>gw_net_link_up := True, net_link_sem := 1\<rparr>
          in if gw_use_dhcp g \<noteq> 0 then g\<lparr>gw_iface := map_option (\<lambda>i. i\<lparr>ni_dhcp := True\<rparr>) (gw_iface g)\<rparr> else g
      | NET_EVENT_IF_DOWN \<Rightarrow> g\<lparr>gw_net_link_up := False\<rparr>
      | Other_event \<Rightarrow> g)"

definition gw_defaults :: "'c gateway \<Rightarrow> 'c gateway" where
  "gw_defaults g = g\<lparr>gw_rf24_addr := replicate RF24_ADDR_LEN 0, gw_ip_addr := ''192.168.11.100'', gw_data_port := 9600,
     gw_use_dhcp := 0, gw_host_ip := ''192.168.11.150'', gw_host_port := 9602\<rparr>"

text \<open>main up to its idle loop: \<open>stored\<close> is what the settings hold.\<close>

definition gw_main :: "'c gw_env \<Rightarrow> (string \<times> bytes) list \<Rightarrow> bytes \<Rightarrow> int \<Rightarrow> 'c gateway \<Rightarrow> 'c gateway" where
  "gw_main E stored uid set_mac g =
     (let g = gw_config_load E stored (gw_defaults g);
          g = gw_led_init g;
          g = gw_rf24_init E g;
          g = snd (net_init E uid set_mac g)
      in gw_led_sys_on (g\<lparr>gw_running := True\<rparr>))"

text \<open>The static data before main.\<close>

definition gw_static :: "'c nrf24 \<Rightarrow> crypt \<Rightarrow> net_iface option \<Rightarrow> 'c gateway" where
  "gw_static d c i = \<lparr>gw_rf24_addr = replicate 5 0, gw_ip_addr = '''', gw_data_port = 0, gw_use_dhcp = 0, gw_host_ip = '''',
     gw_host_port = 0, gw_running = False, gw_store = Map.empty, led_rf24 = False, led_err = False, led_sys = False,
     led_blink_work = None, rf24_last_activity = 0, blinking = False, error_latched = False, err_selftest_work = None,
     gw_dev = d, gw_crypt = c, gw_shell = test_shell_static, data_sock = -1, gw_udp_out = [], gw_net_link_up = False,
     net_link_sem = 0, gw_iface = i, gw_log = False\<rparr>"

end
