(* ===== verification/Nrf24_Props.thy ===== *)
theory Nrf24_Props
  imports Nrf24
begin

text \<open>
  What the driver does to a chip that keeps its registers and FIFO as its data sheet says: programming
  a configuration, sending, receiving; and invariants of the driver's own state that need no
  assumption about the chip.
\<close>

section \<open>The chip as the data sheet describes it\<close>

text \<open>One-byte registers, address registers, the interrupt bits of STATUS, the receive and transmit FIFOs.\<close>

record chip =
  ch_reg :: "u8 \<Rightarrow> u8"
  ch_addr :: "u8 \<Rightarrow> bytes"
  ch_irq :: u8
  ch_rx :: "bytes list"
  ch_tx :: "bytes list"

definition byte_reg :: "u8 \<Rightarrow> bool" where
  "byte_reg r = (r < 7 \<or> r = L01REG_RX_PW_P0 \<or> r = L01REG_DYNPD \<or> r = L01REG_FEATURE)"

definition addr_reg :: "u8 \<Rightarrow> bool" where
  "addr_reg r = (r = L01REG_RX_ADDR_P0 \<or> r = L01REG_TX_ADDR)"

text \<open>\<open>a\<close> reads the data-sheet state off the chip; every transfer succeeds.\<close>

definition chip_ok :: "'c nrf24_hw \<Rightarrow> ('c \<Rightarrow> chip) \<Rightarrow> bool" where
  "chip_ok hw a = (
     (\<forall>c r b. byte_reg r \<longrightarrow> (\<exists>rx c'. spi_xfer hw [0x20 OR r, b] c = (0, rx, c') \<and>
        a c' = (a c)\<lparr>ch_reg := (ch_reg (a c))(r := b)\<rparr>)) \<and>
     (\<forall>c r bs. addr_reg r \<and> length bs \<le> 5 \<longrightarrow> (\<exists>rx c'. spi_xfer hw ((0x20 OR r) # bs) c = (0, rx, c') \<and>
        a c' = (a c)\<lparr>ch_addr := (ch_addr (a c))(r := bs @ drop (length bs) (ch_addr (a c) r))\<rparr>)) \<and>
     (\<forall>c b. \<exists>rx c'. spi_xfer hw [0x27, b] c = (0, rx, c') \<and>
        a c' = (a c)\<lparr>ch_irq := ch_irq (a c) AND NOT b\<rparr>) \<and>
     (\<forall>c r x. byte_reg r \<longrightarrow> (\<exists>st c'. spi_xfer hw [r, x] c = (0, [st, ch_reg (a c) r], c') \<and> a c' = a c)) \<and>
     (\<forall>c x. \<exists>st s c'. spi_xfer hw [7, x] c = (0, [st, s], c') \<and> s AND 0x70 = ch_irq (a c) \<and> a c' = a c) \<and>
     (\<forall>c x. \<exists>st s c'. spi_xfer hw [8, x] c = (0, [st, s], c') \<and> a c' = a c) \<and>
     (\<forall>c. \<exists>rx c'. spi_xfer hw [FLUSH_TX] c = (0, rx, c') \<and> a c' = (a c)\<lparr>ch_tx := []\<rparr>) \<and>
     (\<forall>c. \<exists>rx c'. spi_xfer hw [FLUSH_RX] c = (0, rx, c') \<and> a c' = (a c)\<lparr>ch_rx := []\<rparr>) \<and>
     (\<forall>c bs. \<exists>rx c'. spi_xfer hw (W_TX_PAYLOAD # bs) c = (0, rx, c') \<and>
        a c' = (a c)\<lparr>ch_tx := ch_tx (a c) @ [bs]\<rparr>) \<and>
     (\<forall>c x f fs. ch_rx (a c) = f # fs \<longrightarrow>
        (\<exists>st c'. spi_xfer hw [R_RX_PL_WID, x] c = (0, [st, of_nat (length f)], c') \<and> a c' = a c)) \<and>
     (\<forall>c xs f fs. ch_rx (a c) = f # fs \<and> length xs = length f \<longrightarrow>
        (\<exists>st c'. spi_xfer hw (R_RX_PAYLOAD # xs) c = (0, st # f, c') \<and> a c' = (a c)\<lparr>ch_rx := fs\<rparr>)))"

text \<open>Such a chip exists: the data-sheet state itself, with the transfers computed on it.\<close>

definition sim_xfer :: "bytes \<Rightarrow> chip \<Rightarrow> int \<times> bytes \<times> chip" where
  "sim_xfer tx c =
     (case tx of
        [] \<Rightarrow> (0, [], c)
      | cmd # bs \<Rightarrow>
          if cmd = FLUSH_RX then (0, [0], c\<lparr>ch_rx := []\<rparr>)
          else if cmd = FLUSH_TX then (0, [], c\<lparr>ch_tx := []\<rparr>)
          else if cmd = W_TX_PAYLOAD then (0, [], c\<lparr>ch_tx := ch_tx c @ [bs]\<rparr>)
          else if cmd = R_RX_PL_WID then (0, [0, of_nat (length (hd (ch_rx c)))], c)
          else if cmd = R_RX_PAYLOAD then (0, 0 # hd (ch_rx c), c\<lparr>ch_rx := tl (ch_rx c)\<rparr>)
          else if cmd = 7 then (0, [0, ch_irq c AND 0x70], c)
          else if cmd = 8 then (0, [0, 0], c)
          else if cmd = 0x27 then (0, [], c\<lparr>ch_irq := ch_irq c AND NOT (hd bs)\<rparr>)
          else if byte_reg cmd then (0, [0, ch_reg c cmd], c)
          else if byte_reg (cmd - 0x20) then (0, [], c\<lparr>ch_reg := (ch_reg c)(cmd - 0x20 := hd bs)\<rparr>)
          else (0, [], c\<lparr>ch_addr := (ch_addr c)(cmd - 0x20 := bs @ drop (length bs) (ch_addr c (cmd - 0x20)))\<rparr>))"

definition sim_hw :: "chip nrf24_hw" where
  "sim_hw = \<lparr>spi_xfer = sim_xfer, power_configure = 0, power_set = (\<lambda>_ c. c)\<rparr>"

definition sim_chip :: "u8 \<Rightarrow> bytes list \<Rightarrow> chip" where
  "sim_chip irq frames = \<lparr>ch_reg = (\<lambda>_. 0), ch_addr = (\<lambda>_. []), ch_irq = irq, ch_rx = frames, ch_tx = []\<rparr>"

text \<open>The gateway board's device tree.\<close>

definition board_config :: nrf24_config where
  "board_config = \<lparr>nc_power_port = False, nc_channel = 1, nc_data_rate = ''1m'', nc_tx_power = ''0dbm'',
     nc_address_width = 5, nc_payload_mode = ''dynamic'', nc_rx_payload_width = 32, nc_crc_mode = ''2-byte'',
     nc_ard = ARD_US 1500, nc_arc = 9, nc_tx_addr = [0xE7, 0xE7, 0xE7, 0xE7, 0xE7]\<rparr>"

definition sim_abs :: "chip \<Rightarrow> chip" where
  "sim_abs c = c\<lparr>ch_irq := ch_irq c AND 0x70\<rparr>"

lemma less_7_cases: "r < 7 \<Longrightarrow> r = 0 \<or> r = 1 \<or> r = 2 \<or> r = 3 \<or> r = 4 \<or> r = 5 \<or> r = 6" for r :: u8
proof -
  assume "r < 7"
  then have "unat r < 7" by (simp add: word_less_nat_alt)
  then have "unat r \<in> {0, 1, 2, 3, 4, 5, 6}" by auto
  then show ?thesis by (auto simp: unat_eq_0 dest: unat_eqD)
qed

lemma byte_reg_cases:
  "byte_reg r \<Longrightarrow> r = 0 \<or> r = 1 \<or> r = 2 \<or> r = 3 \<or> r = 4 \<or> r = 5 \<or> r = 6 \<or> r = 0x11 \<or> r = 0x1C \<or> r = 0x1D"
  using less_7_cases by (auto simp: byte_reg_def nrf_reg_defs)

lemma sim_chip_ok: "chip_ok sim_hw sim_abs"
proof -
  have w: "sim_xfer [0x20 OR r, b] c = (0, [], c\<lparr>ch_reg := (ch_reg c)(r := b)\<rparr>)" if "byte_reg r" for c r b
    using byte_reg_cases [OF that] that
    by (elim disjE) (simp_all add: sim_xfer_def nrf_cmd_defs nrf_reg_defs byte_reg_def)
  have ad: "sim_xfer ((0x20 OR r) # bs) c =
      (0, [], c\<lparr>ch_addr := (ch_addr c)(r := bs @ drop (length bs) (ch_addr c r))\<rparr>)" if "addr_reg r" for c r bs
    using that by (auto simp: addr_reg_def sim_xfer_def nrf_cmd_defs nrf_reg_defs byte_reg_def)
  have rd: "sim_xfer [r, x] c = (0, [0, ch_reg c r], c)" if "byte_reg r" for c r x
    using byte_reg_cases [OF that] that
    by (elim disjE) (simp_all add: sim_xfer_def nrf_cmd_defs nrf_reg_defs byte_reg_def)
  have other: "sim_xfer [0x27, b] c = (0, [], c\<lparr>ch_irq := ch_irq c AND NOT b\<rparr>)"
    "sim_xfer [7, x] c = (0, [0, ch_irq c AND 0x70], c)" "sim_xfer [8, x] c = (0, [0, 0], c)"
    "sim_xfer [FLUSH_TX] c = (0, [], c\<lparr>ch_tx := []\<rparr>)" "sim_xfer [FLUSH_RX] c = (0, [0], c\<lparr>ch_rx := []\<rparr>)"
    "sim_xfer (W_TX_PAYLOAD # bs) c = (0, [], c\<lparr>ch_tx := ch_tx c @ [bs]\<rparr>)"
    "sim_xfer [R_RX_PL_WID, x] c = (0, [0, of_nat (length (hd (ch_rx c)))], c)"
    "sim_xfer (R_RX_PAYLOAD # bs) c = (0, 0 # hd (ch_rx c), c\<lparr>ch_rx := tl (ch_rx c)\<rparr>)" for c b x bs
    by (simp_all add: sim_xfer_def nrf_cmd_defs)
  have irq: "ch_irq c AND NOT b AND 0x70 = (ch_irq c AND 0x70) AND NOT b" for c b
    by (simp add: ac_simps)
  show ?thesis
    unfolding chip_ok_def sim_hw_def nrf24_hw.simps
    by (intro conjI allI impI) (auto simp: w ad rd other sim_abs_def irq [unfolded and.assoc] and.assoc)
qed

section \<open>Transfers of a chip that answers\<close>

named_theorems chip_ops \<open>what the driver's transfers do to a chip that answers\<close>

lemma chip_okD:
  assumes "chip_ok hw a"
  shows "byte_reg r \<Longrightarrow>
     \<exists>rx c'. spi_xfer hw [0x20 OR r, b] c = (0, rx, c') \<and> a c' = (a c)\<lparr>ch_reg := (ch_reg (a c))(r := b)\<rparr>"
    "addr_reg r \<Longrightarrow> length bs \<le> 5 \<Longrightarrow>
     \<exists>rx c'. spi_xfer hw ((0x20 OR r) # bs) c = (0, rx, c') \<and>
     a c' = (a c)\<lparr>ch_addr := (ch_addr (a c))(r := bs @ drop (length bs) (ch_addr (a c) r))\<rparr>"
    "\<exists>rx c'. spi_xfer hw [0x27, b] c = (0, rx, c') \<and> a c' = (a c)\<lparr>ch_irq := ch_irq (a c) AND NOT b\<rparr>"
    "byte_reg r \<Longrightarrow>
     \<exists>st c'. spi_xfer hw [r, x] c = (0, [st, ch_reg (a c) r], c') \<and> a c' = a c"
    "\<exists>st s c'. spi_xfer hw [7, x] c = (0, [st, s], c') \<and> s AND 0x70 = ch_irq (a c) \<and> a c' = a c"
    "\<exists>st s c'. spi_xfer hw [8, x] c = (0, [st, s], c') \<and> a c' = a c"
    "\<exists>rx c'. spi_xfer hw [FLUSH_TX] c = (0, rx, c') \<and> a c' = (a c)\<lparr>ch_tx := []\<rparr>"
    "\<exists>rx c'. spi_xfer hw [FLUSH_RX] c = (0, rx, c') \<and> a c' = (a c)\<lparr>ch_rx := []\<rparr>"
    "\<exists>rx c'. spi_xfer hw (W_TX_PAYLOAD # bs) c = (0, rx, c') \<and> a c' = (a c)\<lparr>ch_tx := ch_tx (a c) @ [bs]\<rparr>"
    "ch_rx (a c) = f # fs \<Longrightarrow>
     \<exists>st c'. spi_xfer hw [R_RX_PL_WID, x] c = (0, [st, of_nat (length f)], c') \<and> a c' = a c"
    "ch_rx (a c) = f # fs \<Longrightarrow> length xs = length f \<Longrightarrow>
     \<exists>st c'. spi_xfer hw (R_RX_PAYLOAD # xs) c = (0, st # f, c') \<and> a c' = (a c)\<lparr>ch_rx := fs\<rparr>"
  using assms unfolding chip_ok_def by (elim conjE; simp)+

lemma byte_reg_masked: "byte_reg r \<Longrightarrow> r AND 0x1F = r"
  by (drule byte_reg_cases) (elim disjE; simp)

lemma addr_reg_masked: "addr_reg r \<Longrightarrow> r AND 0x1F = r"
  by (auto simp: addr_reg_def nrf_reg_defs)

lemma reg_write_ok [chip_ops]:
  assumes "chip_ok hw a" and "byte_reg r"
  shows "\<exists>c'. reg_write_locked hw r v d = (0, d\<lparr>nd_chip := c'\<rparr>) \<and>
    a c' = (a (nd_chip d))\<lparr>ch_reg := (ch_reg (a (nd_chip d)))(r := v)\<rparr>"
proof -
  obtain rx c' where "spi_xfer hw [0x20 OR r, v] (nd_chip d) = (0, rx, c')"
    and "a c' = (a (nd_chip d))\<lparr>ch_reg := (ch_reg (a (nd_chip d)))(r := v)\<rparr>"
    using chip_okD(1) [OF assms(1)] assms by blast
  then show ?thesis
    by (auto simp: reg_write_locked_def nrf24_xfer_def nrf_cmd_defs byte_reg_masked [OF assms(2)])
qed

lemma addr_write_ok [chip_ops]:
  assumes "chip_ok hw a" and "addr_reg r" and "0 < n" "n \<le> 5" "n \<le> length buf"
  shows "\<exists>c'. reg_write_multi_locked hw r buf n d = (0, d\<lparr>nd_chip := c'\<rparr>) \<and>
    a c' = (a (nd_chip d))\<lparr>ch_addr := (ch_addr (a (nd_chip d)))
      (r := take n buf @ drop n (ch_addr (a (nd_chip d)) r))\<rparr>"
proof -
  have l: "length (take n buf) = n" using assms(5) by simp
  then have "length (take n buf) \<le> 5" using assms(4) by simp
  then obtain rx c' where "spi_xfer hw ((0x20 OR r) # take n buf) (nd_chip d) = (0, rx, c')"
    and "a c' = (a (nd_chip d))\<lparr>ch_addr := (ch_addr (a (nd_chip d)))
      (r := take n buf @ drop (length (take n buf)) (ch_addr (a (nd_chip d)) r))\<rparr>"
    using chip_okD(2) [OF assms(1)] assms by blast
  then show ?thesis
    using assms(3,4)
    by (auto simp: reg_write_multi_locked_def nrf24_xfer_def nrf_cmd_defs addr_reg_masked [OF assms(2)]
        min_absorb2 [OF assms(5)])
qed

lemma status_write_ok [chip_ops]:
  assumes "chip_ok hw a"
  shows "\<exists>c'. reg_write_locked hw L01REG_STATUS v d = (0, d\<lparr>nd_chip := c'\<rparr>) \<and>
    a c' = (a (nd_chip d))\<lparr>ch_irq := ch_irq (a (nd_chip d)) AND NOT v\<rparr>"
proof -
  obtain rx c' where "spi_xfer hw [0x27, v] (nd_chip d) = (0, rx, c')"
    and "a c' = (a (nd_chip d))\<lparr>ch_irq := ch_irq (a (nd_chip d)) AND NOT v\<rparr>"
    using chip_okD(3) [OF assms] by blast
  then show ?thesis by (auto simp: reg_write_locked_def nrf24_xfer_def nrf_cmd_defs nrf_reg_defs)
qed

lemma reg_read_ok [chip_ops]:
  assumes "chip_ok hw a" and "byte_reg r"
  shows "\<exists>c'. reg_read_locked hw r x d = (0, ch_reg (a (nd_chip d)) r, d\<lparr>nd_chip := c'\<rparr>) \<and> a c' = a (nd_chip d)"
proof -
  obtain st c' where "spi_xfer hw [r, NOP] (nd_chip d) = (0, [st, ch_reg (a (nd_chip d)) r], c')"
    and "a c' = a (nd_chip d)"
    using chip_okD(4) [OF assms(1)] assms by blast
  then show ?thesis
    by (auto simp: reg_read_locked_def nrf24_xfer_def R_REGISTER_def byte_reg_masked [OF assms(2)])
qed

lemma status_read_ok [chip_ops]:
  assumes "chip_ok hw a"
  shows "\<exists>c' s. reg_read_locked hw L01REG_STATUS x d = (0, s, d\<lparr>nd_chip := c'\<rparr>) \<and>
    s AND 0x70 = ch_irq (a (nd_chip d)) \<and> a c' = a (nd_chip d)"
proof -
  obtain st s c' where "spi_xfer hw [7, NOP] (nd_chip d) = (0, [st, s], c')"
    and "s AND 0x70 = ch_irq (a (nd_chip d))" "a c' = a (nd_chip d)"
    using chip_okD(5) [OF assms] by blast
  then show ?thesis by (auto simp: reg_read_locked_def nrf24_xfer_def R_REGISTER_def nrf_reg_defs)
qed

lemma observe_read_ok [chip_ops]:
  assumes "chip_ok hw a"
  shows "\<exists>c' s. reg_read_locked hw L01REG_OBSERVE_TX x d = (0, s, d\<lparr>nd_chip := c'\<rparr>) \<and> a c' = a (nd_chip d)"
proof -
  obtain st s c' where "spi_xfer hw [8, NOP] (nd_chip d) = (0, [st, s], c')" and "a c' = a (nd_chip d)"
    using chip_okD(6) [OF assms] by blast
  then show ?thesis by (auto simp: reg_read_locked_def nrf24_xfer_def R_REGISTER_def nrf_reg_defs)
qed

lemma flush_tx_ok [chip_ops]:
  assumes "chip_ok hw a"
  shows "\<exists>c'. cmd_locked hw FLUSH_TX d = (0, d\<lparr>nd_chip := c'\<rparr>) \<and> a c' = (a (nd_chip d))\<lparr>ch_tx := []\<rparr>"
proof -
  obtain rx c' where "spi_xfer hw [FLUSH_TX] (nd_chip d) = (0, rx, c')" and "a c' = (a (nd_chip d))\<lparr>ch_tx := []\<rparr>"
    using chip_okD(7) [OF assms] by blast
  then show ?thesis by (auto simp: cmd_locked_def nrf24_xfer_def)
qed

lemma flush_rx_ok [chip_ops]:
  assumes "chip_ok hw a"
  shows "\<exists>c'. cmd_locked hw FLUSH_RX d = (0, d\<lparr>nd_chip := c'\<rparr>) \<and> a c' = (a (nd_chip d))\<lparr>ch_rx := []\<rparr>"
proof -
  obtain rx c' where "spi_xfer hw [FLUSH_RX] (nd_chip d) = (0, rx, c')" and "a c' = (a (nd_chip d))\<lparr>ch_rx := []\<rparr>"
    using chip_okD(8) [OF assms] by blast
  then show ?thesis by (auto simp: cmd_locked_def nrf24_xfer_def)
qed

lemma tx_payload_ok [chip_ops]:
  assumes "chip_ok hw a"
  shows "\<exists>c'. write_tx_payload_locked hw buf n d = (0, d\<lparr>nd_chip := c'\<rparr>) \<and>
    a c' = (a (nd_chip d))\<lparr>ch_tx := ch_tx (a (nd_chip d)) @ [take (unat n) buf]\<rparr>"
proof -
  obtain rx c' where "spi_xfer hw (W_TX_PAYLOAD # take (unat n) buf) (nd_chip d) = (0, rx, c')"
    and "a c' = (a (nd_chip d))\<lparr>ch_tx := ch_tx (a (nd_chip d)) @ [take (unat n) buf]\<rparr>"
    using chip_okD(9) [OF assms] by blast
  then show ?thesis by (auto simp: write_tx_payload_locked_def nrf24_xfer_def)
qed

text \<open>Fetching takes the head of the FIFO.\<close>

lemma fetch_ok:
  assumes "chip_ok hw a" and "ch_rx (a (nd_chip d)) = f # fs" and "length f \<le> 32" and "length buf = 32"
    and "parse_payload_mode (nc_payload_mode cfg) = NRF24_PAYLOAD_DYNAMIC"
  shows "\<exists>c' buf'. fetch_rx_payload_locked hw cfg buf d = (of_nat (length f), buf', d\<lparr>nd_chip := c'\<rparr>) \<and>
    take (length f) buf' = f \<and> length buf' = 32 \<and> a c' = (a (nd_chip d))\<lparr>ch_rx := fs\<rparr>"
proof -
  have u: "unat (of_nat (length f) :: u8) = length f" using assms(3) by (simp add: unat_of_nat)
  obtain st c1 where w: "spi_xfer hw [R_RX_PL_WID, NOP] (nd_chip d) = (0, [st, of_nat (length f)], c1)"
    and c1: "a c1 = a (nd_chip d)"
    using chip_okD(10) [OF assms(1,2)] by blast
  have "ch_rx (a c1) = f # fs" "length (replicate (length f) NOP) = length f" using assms(2) c1 by simp_all
  then obtain st' c2 where p: "spi_xfer hw (R_RX_PAYLOAD # replicate (length f) NOP) c1 = (0, st' # f, c2)"
    and c2: "a c2 = (a c1)\<lparr>ch_rx := fs\<rparr>"
    using chip_okD(11) [OF assms(1)] by blast
  have "take (length f) (mem_put 0 f buf) = f" by (simp add: mem_put_def)
  then show ?thesis
    using assms(3,4,5) c1 c2
    by (auto simp: fetch_rx_payload_locked_def read_rx_pl_wid_locked_def read_rx_payload_locked_def
        nrf24_xfer_def Let_def w p u NRF24_MAX_PAYLOAD_def)
qed

section \<open>Configuration and modes\<close>

fun op_view :: "reg_op \<Rightarrow> chip \<Rightarrow> chip" where
  "op_view (Reg r v) c = c\<lparr>ch_reg := (ch_reg c)(r := v)\<rparr>"
| "op_view (Reg_multi r buf n) c = c\<lparr>ch_addr := (ch_addr c)(r := take n buf @ drop n (ch_addr c r))\<rparr>"

fun op_ok :: "reg_op \<Rightarrow> bool" where
  "op_ok (Reg r v) = byte_reg r"
| "op_ok (Reg_multi r buf n) = (addr_reg r \<and> 0 < n \<and> n \<le> 5 \<and> n \<le> length buf)"

lemma reg_op_ok:
  assumes "chip_ok hw a" and "op_ok op"
  shows "\<exists>c'. reg_op_locked hw op d = (0, d\<lparr>nd_chip := c'\<rparr>) \<and> a c' = op_view op (a (nd_chip d))"
proof (cases op)
  case (Reg r v)
  then show ?thesis using reg_write_ok [OF assms(1)] assms(2) by simp
next
  case (Reg_multi r buf n)
  then show ?thesis using addr_write_ok [OF assms(1)] assms(2) by simp
qed

lemma reg_ops_ok:
  assumes "chip_ok hw a"
  shows "list_all op_ok ops \<Longrightarrow>
    \<exists>c'. reg_ops hw ops d = (0, d\<lparr>nd_chip := c'\<rparr>) \<and> a c' = fold op_view ops (a (nd_chip d))"
proof (induction ops arbitrary: d)
  case Nil
  show ?case by (rule exI [of _ "nd_chip d"]) simp
next
  case (Cons op ops)
  obtain c1 where c1: "reg_op_locked hw op d = (0, d\<lparr>nd_chip := c1\<rparr>)" "a c1 = op_view op (a (nd_chip d))"
    using reg_op_ok [OF assms] Cons.prems by fastforce
  then show ?case using Cons.IH [of "d\<lparr>nd_chip := c1\<rparr>"] Cons.prems by simp
qed

lemma config_aw_range: "3 \<le> unat (config_aw cfg) \<and> unat (config_aw cfg) \<le> 5"
  by (simp add: config_aw_def word_le_nat_alt)

lemma config_ops_ok: "unat (config_aw cfg) \<le> length (nc_tx_addr cfg) \<Longrightarrow> list_all op_ok (config_ops cfg p)"
  using config_aw_range [of cfg]
  by (simp add: config_ops_def payload_ops_def byte_reg_def addr_reg_def nrf_reg_defs)

lemma apply_config_ok:
  assumes "chip_ok hw a" and "unat (config_aw cfg) \<le> length (nc_tx_addr cfg)"
  shows "\<exists>c'. apply_config_with hw cfg p d = (0, d\<lparr>nd_chip := c'\<rparr>) \<and>
    a c' = (fold op_view (config_ops cfg p) (a (nd_chip d)))
      \<lparr>ch_rx := [], ch_tx := [], ch_irq := ch_irq (fold op_view (config_ops cfg p) (a (nd_chip d))) AND NOT IRQ_ALL\<rparr>"
proof -
  obtain c1 where c1: "reg_ops hw (config_ops cfg p) d = (0, d\<lparr>nd_chip := c1\<rparr>)"
    "a c1 = fold op_view (config_ops cfg p) (a (nd_chip d))"
    using reg_ops_ok [OF assms(1) config_ops_ok [OF assms(2)]] by blast
  obtain c2 where c2: "cmd_locked hw FLUSH_TX (d\<lparr>nd_chip := c1\<rparr>) = (0, d\<lparr>nd_chip := c2\<rparr>)"
    "a c2 = (a c1)\<lparr>ch_tx := []\<rparr>"
    using flush_tx_ok [OF assms(1), of "d\<lparr>nd_chip := c1\<rparr>"] by auto
  obtain c3 where c3: "cmd_locked hw FLUSH_RX (d\<lparr>nd_chip := c2\<rparr>) = (0, d\<lparr>nd_chip := c3\<rparr>)"
    "a c3 = (a c2)\<lparr>ch_rx := []\<rparr>"
    using flush_rx_ok [OF assms(1), of "d\<lparr>nd_chip := c2\<rparr>"] by auto
  obtain c4 where c4: "reg_write_locked hw L01REG_STATUS IRQ_ALL (d\<lparr>nd_chip := c3\<rparr>) = (0, d\<lparr>nd_chip := c4\<rparr>)"
    "a c4 = (a c3)\<lparr>ch_irq := ch_irq (a c3) AND NOT IRQ_ALL\<rparr>"
    using status_write_ok [OF assms(1), of IRQ_ALL "d\<lparr>nd_chip := c3\<rparr>"] by auto
  show ?thesis
    by (rule exI [of _ c4]) (simp add: apply_config_with_def c1 c2 c3 c4 Let_def)
qed

lemma set_mode_ok:
  assumes "chip_ok hw a"
  shows "\<exists>c'. set_mode_locked hw m d = (0, d\<lparr>nd_chip := c', nd_ce := (m = NRF24_MODE_PRX), nd_mode := m\<rparr>) \<and>
    a c' = (a (nd_chip d))\<lparr>ch_reg := (ch_reg (a (nd_chip d)))
      (L01REG_CONFIG := (ch_reg (a (nd_chip d)) L01REG_CONFIG AND NOT (BIT PWR_UP OR BIT PRIM_RX)) OR mode_bits m)\<rparr>"
proof -
  have b: "byte_reg L01REG_CONFIG" by (simp add: byte_reg_def nrf_reg_defs)
  obtain c1 where c1: "reg_read_locked hw L01REG_CONFIG 0 d =
      (0, ch_reg (a (nd_chip d)) L01REG_CONFIG, d\<lparr>nd_chip := c1\<rparr>)" "a c1 = a (nd_chip d)"
    using reg_read_ok [OF assms b] by blast
  let ?v = "(ch_reg (a (nd_chip d)) L01REG_CONFIG AND NOT (BIT PWR_UP OR BIT PRIM_RX)) OR mode_bits m"
  obtain c2 where c2: "reg_write_locked hw L01REG_CONFIG ?v (d\<lparr>nd_chip := c1\<rparr>) = (0, d\<lparr>nd_chip := c2\<rparr>)"
    "a c2 = (a c1)\<lparr>ch_reg := (ch_reg (a c1))(L01REG_CONFIG := ?v)\<rparr>"
    using reg_write_ok [OF assms b, of ?v "d\<lparr>nd_chip := c1\<rparr>"] by auto
  show ?thesis
    by (rule exI [of _ c2]) (simp add: set_mode_locked_def c1 c2(2) c2(1) [simplified] Let_def ce_set_def)
qed

text \<open>Reading the radio's settings back from its registers, as the data sheet codes them.\<close>

definition rate_of :: "u8 \<Rightarrow> nrf24_data_rate" where
  "rate_of rf_setup =
     (if rf_setup AND 0x20 \<noteq> 0 then NRF24_RATE_250K
      else if rf_setup AND 0x08 \<noteq> 0 then NRF24_RATE_2M else NRF24_RATE_1M)"

definition power_of :: "u8 \<Rightarrow> nrf24_tx_power" where
  "power_of rf_setup =
     (let p = rf_setup AND 6
      in if p = 0 then NRF24_PWR_18DBM else if p = 2 then NRF24_PWR_12DBM
         else if p = 4 then NRF24_PWR_6DBM else NRF24_PWR_0DBM)"

definition crc_of :: "u8 \<Rightarrow> nrf24_crc_mode" where
  "crc_of config = (if config AND 4 \<noteq> 0 then NRF24_CRC_2_BYTE else NRF24_CRC_1_BYTE)"

lemma rf_setup_decode:
  "rate_of (data_rate_bits r OR tx_power_bits p) = r" "power_of (data_rate_bits r OR tx_power_bits p) = p"
  by (cases r; cases p; simp add: rate_of_def nrf_bit_defs) (cases r; cases p; simp add: power_of_def nrf_bit_defs)

definition radio_cfg_ok :: "nrf24_config \<Rightarrow> nrf24_cfg \<Rightarrow> bytes \<Rightarrow> bool" where
  "radio_cfg_ok dcfg c addr \<longleftrightarrow> length (nc_tx_addr dcfg) = 5 \<and> 3 \<le> cfg_address_width c \<and> cfg_address_width c \<le> 5 \<and>
     cfg_tx_addr c = Some addr \<and> unat (cfg_address_width c) \<le> length addr"

text \<open>The radio's registers say these settings; \<open>prx\<close> is the direction.\<close>

definition radio_set :: "chip \<Rightarrow> nrf24_cfg \<Rightarrow> bytes \<Rightarrow> bool \<Rightarrow> bool" where
  "radio_set v c addr prx =
     (let g = ch_reg v; w = unat (cfg_address_width c) in
      g L01REG_RF_CH = cfg_channel c AND 0x7F \<and>
      rate_of (g L01REG_RF_SETUP) = cfg_data_rate c \<and> power_of (g L01REG_RF_SETUP) = cfg_tx_power c \<and>
      crc_of (g L01REG_CONFIG) = cfg_crc_mode c \<and>
      (g L01REG_CONFIG AND BIT PRIM_RX \<noteq> 0) = prx \<and>
      unat (g L01REG_SETUP_AW) = w - 2 \<and>
      take w (ch_addr v L01REG_TX_ADDR) = take w addr \<and>
      take w (ch_addr v L01REG_RX_ADDR_P0) = take w addr \<and>
      ch_rx v = [] \<and> ch_irq v AND IRQ_ALL = 0)"

lemma configure_ok:
  assumes "chip_ok hw a" and "radio_cfg_ok dcfg c addr"
  shows "\<exists>c'. nrf24_configure hw dcfg (Some c) d = (0, d\<lparr>nd_chip := c'\<rparr>) \<and>
    radio_set (a c') c addr (nd_mode d = NRF24_MODE_PRX)"
proof -
  let ?w = "unat (cfg_address_width c)"
  define tmp where "tmp = dcfg\<lparr>nc_channel := cfg_channel c, nc_data_rate := data_rate_to_str (cfg_data_rate c),
    nc_tx_power := tx_power_to_str (cfg_tx_power c), nc_crc_mode := crc_mode_to_str (cfg_crc_mode c),
    nc_address_width := cfg_address_width c, nc_tx_addr := mem_put 0 (take ?w addr) (nc_tx_addr dcfg)\<rparr>"
  have w: "3 \<le> ?w" "?w \<le> 5" and a5: "length (nc_tx_addr dcfg) = 5" "?w \<le> length addr"
    and some: "cfg_tx_addr c = Some addr" and width: "3 \<le> cfg_address_width c" "cfg_address_width c \<le> 5"
    using assms(2) by (simp_all add: radio_cfg_ok_def word_le_nat_alt)
  have aw: "config_aw tmp = cfg_address_width c" using width by (simp add: config_aw_def tmp_def)
  have conf: "nrf24_configure hw dcfg (Some c) d = apply_config_with hw tmp (nd_mode d = NRF24_MODE_PRX) d"
    using width by (simp add: nrf24_configure_def Let_def some tmp_def)
  have "unat (config_aw tmp) \<le> length (nc_tx_addr tmp)"
    using w a5 by (simp add: aw) (simp add: tmp_def)
  from apply_config_ok [OF assms(1) this, of "nd_mode d = NRF24_MODE_PRX" d]
  obtain c' where c': "apply_config_with hw tmp (nd_mode d = NRF24_MODE_PRX) d = (0, d\<lparr>nd_chip := c'\<rparr>)"
    and v: "a c' = (fold op_view (config_ops tmp (nd_mode d = NRF24_MODE_PRX)) (a (nd_chip d)))
      \<lparr>ch_rx := [], ch_tx := [], ch_irq := ch_irq (fold op_view (config_ops tmp (nd_mode d = NRF24_MODE_PRX)) (a (nd_chip d)))
        AND NOT IRQ_ALL\<rparr>" by blast
  have tk: "take ?w (nc_tx_addr tmp) = take ?w addr" using a5 by (simp add: tmp_def mem_put_def)
  have g: "ch_reg (a c') L01REG_RF_CH = cfg_channel c AND 0x7F"
    "ch_reg (a c') L01REG_RF_SETUP = data_rate_bits (cfg_data_rate c) OR tx_power_bits (cfg_tx_power c)"
    "ch_reg (a c') L01REG_CONFIG = config_byte tmp (nd_mode d = NRF24_MODE_PRX)"
    "ch_reg (a c') L01REG_SETUP_AW = addr_aw_bits (cfg_address_width c)"
    "ch_addr (a c') L01REG_TX_ADDR = take ?w addr @ drop ?w (ch_addr (a (nd_chip d)) L01REG_TX_ADDR)"
    "ch_addr (a c') L01REG_RX_ADDR_P0 = take ?w addr @ drop ?w (ch_addr (a (nd_chip d)) L01REG_RX_ADDR_P0)"
    "ch_rx (a c') = []" "ch_irq (a c') AND IRQ_ALL = 0"
    unfolding v config_ops_def payload_ops_def
    by (simp_all add: nrf_reg_defs aw tk rf_setup_byte_def) (simp_all add: tmp_def and.assoc)
  have cfgb: "crc_of (config_byte tmp p) = cfg_crc_mode c" "(config_byte tmp p AND BIT PRIM_RX \<noteq> 0) = p" for p
    by (cases "cfg_crc_mode c"; cases p; simp add: config_byte_def tmp_def crc_of_def nrf_bit_defs)+
  have "?w = 3 \<or> ?w = 4 \<or> ?w = 5" using w by arith
  then have "unat (addr_aw_bits (cfg_address_width c)) = ?w - 2"
    by (auto simp: addr_aw_bits_def nrf_bit_defs dest!: unat_eqD)
  then show ?thesis
    unfolding conf c' radio_set_def Let_def using a5 by (intro exI [of _ c']) (simp add: g rf_setup_decode cfgb)
qed

lemma set_mode_settings:
  assumes "chip_ok hw a" and "radio_set (a (nd_chip d)) c addr prx"
  shows "\<exists>c'. set_mode_locked hw m d = (0, d\<lparr>nd_chip := c', nd_ce := (m = NRF24_MODE_PRX), nd_mode := m\<rparr>) \<and>
    radio_set (a c') c addr (m = NRF24_MODE_PRX)"
proof -
  obtain c' where c': "set_mode_locked hw m d = (0, d\<lparr>nd_chip := c', nd_ce := (m = NRF24_MODE_PRX), nd_mode := m\<rparr>)"
    "a c' = (a (nd_chip d))\<lparr>ch_reg := (ch_reg (a (nd_chip d)))
      (L01REG_CONFIG := (ch_reg (a (nd_chip d)) L01REG_CONFIG AND NOT (BIT PWR_UP OR BIT PRIM_RX)) OR mode_bits m)\<rparr>"
    using set_mode_ok [OF assms(1)] by blast
  have "((x AND NOT (BIT PWR_UP OR BIT PRIM_RX)) OR mode_bits m) AND 4 = x AND 4"
    "((x AND NOT (BIT PWR_UP OR BIT PRIM_RX)) OR mode_bits m) AND BIT PRIM_RX = (if m = NRF24_MODE_PRX then 1 else 0)" for x
    by (cases m; simp add: nrf_bit_defs bit.conj_disj_distrib2 and.assoc)+
  then have "radio_set (a c') c addr (m = NRF24_MODE_PRX)"
    using assms(2) by (simp add: c'(2) radio_set_def Let_def crc_of_def nrf_reg_defs)
  then show ?thesis using c'(1) by blast
qed

text \<open>
  C16: nrf24_configure programs the radio: on a chip that answers, the channel, data rate, power, CRC
  length, address width and both addresses read back from its registers are the ones asked for, the
  receive FIFO and the interrupt flags are clear, and the driver's own state is unchanged.
\<close>

theorem configure_programs:
  assumes "chip_ok hw a" and "radio_cfg_ok dcfg c addr"
  shows "\<exists>c'. nrf24_configure hw dcfg (Some c) d = (0, d\<lparr>nd_chip := c'\<rparr>) \<and>
    (let g = ch_reg (a c'); w = unat (cfg_address_width c) in
      g L01REG_RF_CH = cfg_channel c AND 0x7F \<and>
      rate_of (g L01REG_RF_SETUP) = cfg_data_rate c \<and> power_of (g L01REG_RF_SETUP) = cfg_tx_power c \<and>
      crc_of (g L01REG_CONFIG) = cfg_crc_mode c \<and>
      (g L01REG_CONFIG AND BIT PRIM_RX \<noteq> 0) = (nd_mode d = NRF24_MODE_PRX) \<and>
      unat (g L01REG_SETUP_AW) = w - 2 \<and>
      take w (ch_addr (a c') L01REG_TX_ADDR) = take w addr \<and>
      take w (ch_addr (a c') L01REG_RX_ADDR_P0) = take w addr \<and>
      ch_rx (a c') = [] \<and> ch_irq (a c') AND IRQ_ALL = 0)"
  using configure_ok [OF assms, of d] by (simp add: radio_set_def Let_def)

theorem configure_programs_witness:
  "\<exists>c'. nrf24_configure sim_hw board_config
      (Some (zero_cfg\<lparr>cfg_channel := 7, cfg_address_width := 3, cfg_tx_addr := Some [9, 8, 7]\<rparr>))
      (nrf24_static (sim_chip 0 [[1]])) = (0, (nrf24_static (sim_chip 0 [[1]]))\<lparr>nd_chip := c'\<rparr>) \<and>
    power_of (ch_reg (sim_abs c') L01REG_RF_SETUP) = NRF24_PWR_18DBM"
proof -
  have "radio_cfg_ok board_config
      (zero_cfg\<lparr>cfg_channel := 7, cfg_address_width := 3, cfg_tx_addr := Some [9, 8, 7]\<rparr>) [9, 8, 7]"
    by (simp add: radio_cfg_ok_def board_config_def)
  from configure_programs [OF sim_chip_ok this, unfolded Let_def]
  show ?thesis by (auto simp: zero_cfg_def)
qed

section \<open>The interrupt thread and sending\<close>

lemma and_mask_sub: "x AND m = y \<Longrightarrow> m AND b = b \<Longrightarrow> x AND b = y AND b" for x y m b :: u8
  by (metis and.assoc)

lemma irq_bits:
  assumes "s AND 0x70 = ev"
  shows "s AND BIT RX_DR = ev AND BIT RX_DR" "s AND BIT MAX_RT = ev AND BIT MAX_RT"
    "s AND (BIT TX_DS OR BIT MAX_RT) = ev AND (BIT TX_DS OR BIT MAX_RT)"
  by (rule and_mask_sub [OF assms]; simp add: nrf_bit_defs)+

lemma tx_complete_ok:
  assumes "chip_ok hw a" and "status AND (BIT TX_DS OR BIT MAX_RT) \<noteq> 0"
  shows "\<exists>c' obs. tx_complete hw status d =
      d\<lparr>nd_chip := c', nd_last_status := status, nd_last_observe_tx := obs, nd_tx_done_sem := 1\<rparr> \<and>
    a c' = (a (nd_chip d))\<lparr>ch_irq := ch_irq (a (nd_chip d)) AND NOT (BIT TX_DS OR BIT MAX_RT)\<rparr>"
proof -
  let ?d = "d\<lparr>nd_last_status := status\<rparr>"
  obtain c1 obs where c1: "reg_read_locked hw L01REG_OBSERVE_TX (nd_last_observe_tx ?d) ?d =
      (0, obs, ?d\<lparr>nd_chip := c1\<rparr>)" "a c1 = a (nd_chip ?d)"
    using observe_read_ok [OF assms(1)] by blast
  let ?e = "?d\<lparr>nd_chip := c1, nd_last_observe_tx := obs\<rparr>"
  obtain c2 where c2: "reg_write_locked hw L01REG_STATUS (BIT TX_DS OR BIT MAX_RT) ?e = (0, ?e\<lparr>nd_chip := c2\<rparr>)"
    "a c2 = (a (nd_chip ?e))\<lparr>ch_irq := ch_irq (a (nd_chip ?e)) AND NOT (BIT TX_DS OR BIT MAX_RT)\<rparr>"
    using status_write_ok [OF assms(1)] by blast
  have "tx_complete hw status d = (?e\<lparr>nd_chip := c2\<rparr>)\<lparr>nd_tx_done_sem := 1\<rparr>"
    using assms(2) c1(1) c2(1) by (simp add: tx_complete_def Let_def)
  then show ?thesis using c1(2) c2(2) by (intro exI [of _ c2] exI [of _ obs]) simp
qed

lemma tx_complete_none: "status AND (BIT TX_DS OR BIT MAX_RT) = 0 \<Longrightarrow> tx_complete hw status d = d"
  by (simp add: tx_complete_def)

lemma rx_drain_none: "status AND BIT RX_DR = 0 \<Longrightarrow> rx_drain hw cfg buf status d = Some (status, d)"
  by (subst rx_drain.simps) simp

text \<open>A turn with nothing received.\<close>

lemma irq_turn_tx:
  assumes "chip_ok hw a" and "nd_ready d" and "ch_irq (a (nd_chip d)) = ev" and "ev AND BIT RX_DR = 0"
  shows "\<exists>d'. nrf24_irq_turn hw cfg stale buf d = Some d' \<and>
    nd_tx_done_sem d' = (if ev AND (BIT TX_DS OR BIT MAX_RT) \<noteq> 0 then 1 else nd_tx_done_sem d) \<and>
    (ev AND (BIT TX_DS OR BIT MAX_RT) \<noteq> 0 \<longrightarrow> nd_last_status d' AND BIT MAX_RT = ev AND BIT MAX_RT) \<and>
    a (nd_chip d') = (a (nd_chip d))\<lparr>ch_irq := ev AND NOT (BIT TX_DS OR BIT MAX_RT)\<rparr> \<and>
    nd_rx_msgq d' = nd_rx_msgq d \<and> nd_fallback_msgq d' = nd_fallback_msgq d \<and> nd_ready d' = nd_ready d"
proof -
  let ?d = "d\<lparr>nd_irq_sem := nd_irq_sem d - 1\<rparr>"
  obtain c1 s where c1: "reg_read_locked hw L01REG_STATUS stale ?d = (0, s, ?d\<lparr>nd_chip := c1\<rparr>)"
    and s: "s AND 0x70 = ev" and a1: "a c1 = a (nd_chip d)"
    using status_read_ok [OF assms(1), of stale ?d] assms(3) by auto
  have nr: "s AND BIT RX_DR = 0" using irq_bits(1) [OF s] assms(4) by simp
  have turn: "nrf24_irq_turn hw cfg stale buf d =
      Some (tx_complete hw s (tx_complete hw s (?d\<lparr>nd_chip := c1\<rparr>)))"
    using assms(2) c1 by (simp add: nrf24_irq_turn_def Let_def rx_drain_none [OF nr])
  show ?thesis
  proof (cases "ev AND (BIT TX_DS OR BIT MAX_RT) = 0")
    case True
    then have "s AND (BIT TX_DS OR BIT MAX_RT) = 0" using irq_bits(3) [OF s] by simp
    moreover have "ev AND NOT (BIT TX_DS OR BIT MAX_RT) = ev"
      using True by (metis and.comm_neutral bit.disj_cancel_right bit.conj_disj_distrib or.left_neutral)
    ultimately show ?thesis
      using True a1 assms(3) by (intro exI [of _ "?d\<lparr>nd_chip := c1\<rparr>"]) (simp add: turn tx_complete_none)
  next
    case False
    then have tx: "s AND (BIT TX_DS OR BIT MAX_RT) \<noteq> 0" using irq_bits(3) [OF s] by simp
    obtain c2 o2 where c2: "tx_complete hw s (?d\<lparr>nd_chip := c1\<rparr>) = (?d\<lparr>nd_chip := c1\<rparr>)
        \<lparr>nd_chip := c2, nd_last_status := s, nd_last_observe_tx := o2, nd_tx_done_sem := 1\<rparr>"
      "a c2 = (a c1)\<lparr>ch_irq := ch_irq (a c1) AND NOT (BIT TX_DS OR BIT MAX_RT)\<rparr>"
      using tx_complete_ok [OF assms(1) tx, of "?d\<lparr>nd_chip := c1\<rparr>"] by auto
    let ?e = "(?d\<lparr>nd_chip := c1\<rparr>)\<lparr>nd_chip := c2, nd_last_status := s, nd_last_observe_tx := o2, nd_tx_done_sem := 1\<rparr>"
    obtain c3 o3 where c3: "tx_complete hw s ?e = ?e
        \<lparr>nd_chip := c3, nd_last_status := s, nd_last_observe_tx := o3, nd_tx_done_sem := 1\<rparr>"
      "a c3 = (a c2)\<lparr>ch_irq := ch_irq (a c2) AND NOT (BIT TX_DS OR BIT MAX_RT)\<rparr>"
      using tx_complete_ok [OF assms(1) tx, of ?e] by auto
    have e: "ch_irq (a (nd_chip d)) = ev" by (rule assms(3))
    have turn2: "nrf24_irq_turn hw cfg stale buf d = Some (?e
        \<lparr>nd_chip := c3, nd_last_status := s, nd_last_observe_tx := o3, nd_tx_done_sem := 1\<rparr>)"
      unfolding turn c2(1) c3(1) ..
    show ?thesis
      using False c2(2) c3(2) a1 irq_bits(2) [OF s]
      by (intro exI [of _ "?e\<lparr>nd_chip := c3, nd_last_status := s, nd_last_observe_tx := o3, nd_tx_done_sem := 1\<rparr>"])
        (simp add: turn2 e and.assoc del: bit.de_Morgan_disj)
  qed
qed

text \<open>
  The wait of nrf24_send on a running system: the radio raises its interrupt flags, the interrupt
  thread takes one turn, and the semaphore says whether a transmission ended.
\<close>

definition irq_wait :: "'c nrf24_hw \<Rightarrow> nrf24_config \<Rightarrow> u8 \<Rightarrow> bytes \<Rightarrow> ('c \<Rightarrow> 'c) \<Rightarrow> u32 \<Rightarrow> 'c nrf24 \<Rightarrow>
    bool \<times> u32 \<times> 'c nrf24" where
  "irq_wait hw cfg stale buf radio t d =
     (case nrf24_irq_turn hw cfg stale buf (d\<lparr>nd_chip := radio (nd_chip d)\<rparr>) of
        None \<Rightarrow> (False, t, d)
      | Some d \<Rightarrow> (nd_tx_done_sem d > 0, t, d\<lparr>nd_tx_done_sem := nd_tx_done_sem d - 1\<rparr>))"

lemma send_outcome:
  assumes "chip_ok hw a" and "nd_ready d" and "0 < length buf" "length buf \<le> 32"
    and "\<And>c. ch_tx (a c) = [buf] \<Longrightarrow> ch_reg (a c) L01REG_CONFIG AND 3 = 2 \<Longrightarrow>
      a (radio c) = (a c)\<lparr>ch_irq := ev, ch_tx := left\<rparr>" and "ev AND BIT RX_DR = 0"
  shows "\<exists>r d'. nrf24_send hw (irq_wait hw cfg stale sbuf radio t) buf d =
      (if ev AND BIT MAX_RT \<noteq> 0 then - EIO else if ev AND BIT TX_DS \<noteq> 0 then 0 else - EAGAIN, Some r, d') \<and>
    tx_acked r = (ev AND BIT MAX_RT = 0 \<and> ev AND BIT TX_DS \<noteq> 0) \<and>
    nd_mode d' = NRF24_MODE_PRX \<and> nd_ce d' \<and>
    ch_reg (a (nd_chip d')) L01REG_CONFIG AND 3 = 3 \<and>
    ch_irq (a (nd_chip d')) AND (BIT TX_DS OR BIT MAX_RT) = 0 \<and>
    nd_rx_msgq d' = nd_rx_msgq d \<and> nd_fallback_msgq d' = nd_fallback_msgq d"
proof -
  note hw = assms(1)
  let ?m = "BIT TX_DS OR BIT MAX_RT"
  let ?d0 = "d\<lparr>nd_tx_done_sem := 0\<rparr>"
  obtain c1 where s1: "set_mode_locked hw NRF24_MODE_PTX ?d0 = (0, ?d0\<lparr>nd_chip := c1, nd_ce := False, nd_mode := NRF24_MODE_PTX\<rparr>)"
    and p1: "ch_reg (a c1) L01REG_CONFIG AND 3 = 2"
    using set_mode_ok [OF hw, of NRF24_MODE_PTX ?d0] by (auto simp: nrf_bit_defs bit.conj_disj_distrib2 and.assoc)
  define d1 where "d1 = ?d0\<lparr>nd_chip := c1, nd_ce := False, nd_mode := NRF24_MODE_PTX\<rparr>"
  obtain c2 where s2: "cmd_locked hw FLUSH_TX d1 = (0, d1\<lparr>nd_chip := c2\<rparr>)" "a c2 = (a (nd_chip d1))\<lparr>ch_tx := []\<rparr>"
    using flush_tx_ok [OF hw] by blast
  obtain c3 where s3: "reg_write_locked hw L01REG_STATUS ?m (d1\<lparr>nd_chip := c2\<rparr>) = (0, d1\<lparr>nd_chip := c3\<rparr>)"
    "a c3 = (a c2)\<lparr>ch_irq := ch_irq (a c2) AND NOT ?m\<rparr>"
    using status_write_ok [OF hw, of ?m "d1\<lparr>nd_chip := c2\<rparr>"] by auto
  have un: "unat (of_nat (length buf) :: u8) = length buf" using assms(4) by (intro nat_in_u8) simp
  obtain c4 where s4: "write_tx_payload_locked hw buf (of_nat (length buf)) (d1\<lparr>nd_chip := c3\<rparr>) = (0, d1\<lparr>nd_chip := c4\<rparr>)"
    "a c4 = (a c3)\<lparr>ch_tx := ch_tx (a c3) @ [buf]\<rparr>"
    using tx_payload_ok [OF hw, of buf "of_nat (length buf)" "d1\<lparr>nd_chip := c3\<rparr>"] by (auto simp: un)
  have full: "a (radio c4) = (a c4)\<lparr>ch_irq := ev, ch_tx := left\<rparr>"
    using p1 by (intro assms(5)) (simp_all add: s4(2) s3(2) s2(2) d1_def)
  define d4 where "d4 = ce_set True (d1\<lparr>nd_chip := c4\<rparr>)"
  let ?w = "d4\<lparr>nd_chip := radio (nd_chip d4)\<rparr>"
  have rdy: "nd_ready ?w" "ch_irq (a (nd_chip ?w)) = ev" "nd_tx_done_sem ?w = 0"
    "nd_rx_msgq ?w = nd_rx_msgq d" "nd_fallback_msgq ?w = nd_fallback_msgq d"
    using assms(2) by (simp_all add: d4_def d1_def ce_set_def full)
  from irq_turn_tx [OF hw rdy(1,2) assms(6), of cfg stale sbuf] rdy(3-5)
  obtain d5 where t5: "nrf24_irq_turn hw cfg stale sbuf ?w = Some d5"
    and sem: "nd_tx_done_sem d5 = (if ev AND ?m \<noteq> 0 then 1 else 0)"
    and last: "ev AND ?m \<noteq> 0 \<longrightarrow> nd_last_status d5 AND BIT MAX_RT = ev AND BIT MAX_RT"
    and irq5: "ch_irq (a (nd_chip d5)) = ev AND NOT ?m"
    and qs: "nd_rx_msgq d5 = nd_rx_msgq d" "nd_fallback_msgq d5 = nd_fallback_msgq d" by auto
  define x where "x = d5\<lparr>nd_tx_done_sem := nd_tx_done_sem d5 - 1\<rparr>"
  define d6 where "d6 = ce_set False x"
  have w: "irq_wait hw cfg stale sbuf radio t d4 = (ev AND ?m \<noteq> 0, t, x)"
    using t5 sem by (simp add: irq_wait_def x_def)
  have d6: "a (nd_chip d6) = a (nd_chip d5)" "nd_last_status d6 = nd_last_status d5"
    "nd_rx_msgq d6 = nd_rx_msgq d" "nd_fallback_msgq d6 = nd_fallback_msgq d"
    using qs by (simp_all add: d6_def x_def ce_set_def)
  have z: "(ev AND NOT ?m) AND ?m = 0" by (simp add: and.assoc del: bit.de_Morgan_disj)
  have bits: "ev AND ?m = 0 \<longleftrightarrow> ev AND BIT MAX_RT = 0 \<and> ev AND BIT TX_DS = 0"
    by (auto simp: bit.conj_disj_distrib or_eq_0_iff)
  have fin: "\<exists>d'. set_mode_locked hw NRF24_MODE_PRX e = (0, d') \<and> nd_mode d' = NRF24_MODE_PRX \<and> nd_ce d' \<and>
      ch_reg (a (nd_chip d')) L01REG_CONFIG AND 3 = 3 \<and> ch_irq (a (nd_chip d')) = ch_irq (a (nd_chip e)) \<and>
      nd_rx_msgq d' = nd_rx_msgq e \<and> nd_fallback_msgq d' = nd_fallback_msgq e" for e
    using set_mode_ok [OF hw, of NRF24_MODE_PRX e]
    by (auto simp: nrf_bit_defs bit.conj_disj_distrib2)
  have send: "nrf24_send hw (irq_wait hw cfg stale sbuf radio t) buf d =
      (if ev AND ?m = 0 then
         let d = snd (cmd_locked hw FLUSH_TX d6); d = snd (reg_write_locked hw L01REG_STATUS ?m d)
         in (- EAGAIN, Some \<lparr>tx_acked = False, tx_elapsed_ms = t, tx_retransmits = 0\<rparr>,
             snd (set_mode_locked hw NRF24_MODE_PRX d))
       else
         let max_rt = (nd_last_status d6 AND BIT MAX_RT \<noteq> 0);
             d = (if max_rt then snd (cmd_locked hw FLUSH_TX d6) else d6)
         in (if max_rt then - EIO else 0,
             Some \<lparr>tx_acked = (\<not> max_rt), tx_elapsed_ms = t, tx_retransmits = nd_last_observe_tx d AND 0x0F\<rparr>,
             snd (set_mode_locked hw NRF24_MODE_PRX d)))"
    unfolding nrf24_send_def NRF24_MAX_PAYLOAD_def Let_def
    using assms(3,4) by (simp add: s1 [folded d1_def] s2(1) s3(1) s4(1) d4_def [symmetric] w d6_def [symmetric])
  show ?thesis
  proof (cases "ev AND ?m = 0")
    case True
    obtain c7 where s7: "cmd_locked hw FLUSH_TX d6 = (0, d6\<lparr>nd_chip := c7\<rparr>)" using flush_tx_ok [OF hw] by blast
    obtain c8 where s8: "reg_write_locked hw L01REG_STATUS ?m (d6\<lparr>nd_chip := c7\<rparr>) = (0, d6\<lparr>nd_chip := c8\<rparr>)"
      and c8: "ch_irq (a c8) AND ?m = 0"
      using status_write_ok [OF hw, of ?m "d6\<lparr>nd_chip := c7\<rparr>"] by (auto simp: and.assoc simp del: bit.de_Morgan_disj)
    from fin [of "d6\<lparr>nd_chip := c8\<rparr>"] obtain d' where
      "set_mode_locked hw NRF24_MODE_PRX (d6\<lparr>nd_chip := c8\<rparr>) = (0, d')" "nd_mode d' = NRF24_MODE_PRX \<and> nd_ce d' \<and>
      ch_reg (a (nd_chip d')) L01REG_CONFIG AND 3 = 3 \<and> ch_irq (a (nd_chip d')) = ch_irq (a c8) \<and>
      nd_rx_msgq d' = nd_rx_msgq d \<and> nd_fallback_msgq d' = nd_fallback_msgq d" using d6(3,4) by auto
    then show ?thesis using True c8 bits by (simp add: send s7 s8)
  next
    case False
    define e where "e = (if nd_last_status d6 AND BIT MAX_RT \<noteq> 0 then snd (cmd_locked hw FLUSH_TX d6) else d6)"
    have e: "ch_irq (a (nd_chip e)) = ch_irq (a (nd_chip d6))" "nd_rx_msgq e = nd_rx_msgq d"
      "nd_fallback_msgq e = nd_fallback_msgq d"
      using flush_tx_ok [OF hw, of d6] d6 by (auto simp: e_def)
    have max: "nd_last_status d6 AND BIT MAX_RT = ev AND BIT MAX_RT" using False last d6(2) by simp
    obtain d' where "set_mode_locked hw NRF24_MODE_PRX e = (0, d')" "nd_mode d' = NRF24_MODE_PRX \<and> nd_ce d' \<and>
      ch_reg (a (nd_chip d')) L01REG_CONFIG AND 3 = 3 \<and> ch_irq (a (nd_chip d')) AND ?m = 0 \<and>
      nd_rx_msgq d' = nd_rx_msgq d \<and> nd_fallback_msgq d' = nd_fallback_msgq d"
      using fin [of e] e d6(1) irq5 z by auto
    then show ?thesis
      using False bits by (simp add: send Let_def e_def [symmetric] max [symmetric])
  qed
qed



section \<open>Receiving\<close>

text \<open>
  the interrupt thread loses frames the radio has acknowledged: however many frames wait in the
  receive FIFO, one turn hands the oldest to the registered queue and throws the others away.
\<close>

theorem irq_keeps_oldest_only:
  assumes "chip_ok hw a" and "nd_ready d" and "ch_irq (a (nd_chip d)) = BIT RX_DR"
    and "ch_rx (a (nd_chip d)) = f # fs" and "0 < length f" "length f \<le> 32" and "length buf = 32"
    and "parse_payload_mode (nc_payload_mode cfg) = NRF24_PAYLOAD_DYNAMIC" and "nd_rx_msgq d = Some q"
  shows "\<exists>d'. nrf24_irq_turn hw cfg stale buf d = Some d' \<and>
    nd_rx_msgq d' = Some (k_msgq_put f q) \<and> ch_rx (a (nd_chip d')) = [] \<and> ch_irq (a (nd_chip d')) = 0"
proof -
  note hw = assms(1)
  let ?d = "d\<lparr>nd_irq_sem := nd_irq_sem d - 1\<rparr>"
  obtain c1 s where c1: "reg_read_locked hw L01REG_STATUS stale ?d = (0, s, ?d\<lparr>nd_chip := c1\<rparr>)"
    and s: "s AND 0x70 = BIT RX_DR" and a1: "a c1 = a (nd_chip d)"
    using status_read_ok [OF hw, of stale ?d] assms(3) by auto
  define d1 where "d1 = ?d\<lparr>nd_chip := c1\<rparr>"
  have rx: "s AND BIT RX_DR \<noteq> 0" and tx: "s AND (BIT TX_DS OR BIT MAX_RT) = 0"
    using irq_bits [OF s] by (simp_all add: nrf_bit_defs)
  have "ch_rx (a (nd_chip d1)) = f # fs" using assms(4) a1 by (simp add: d1_def)
  from fetch_ok [OF hw this assms(6,7,8)] obtain c2 buf' where
    c2: "fetch_rx_payload_locked hw cfg buf d1 = (of_nat (length f), buf', d1\<lparr>nd_chip := c2\<rparr>)"
    and buf': "take (length f) buf' = f" and a2: "a c2 = (a (nd_chip d1))\<lparr>ch_rx := fs\<rparr>" by blast
  obtain c3 where c3: "cmd_locked hw FLUSH_RX (d1\<lparr>nd_chip := c2\<rparr>) = (0, d1\<lparr>nd_chip := c3\<rparr>)"
    and a3: "a c3 = (a c2)\<lparr>ch_rx := []\<rparr>" using flush_rx_ok [OF hw, of "d1\<lparr>nd_chip := c2\<rparr>"] by auto
  obtain c4 where c4: "reg_write_locked hw L01REG_STATUS (BIT RX_DR) (d1\<lparr>nd_chip := c3\<rparr>) = (0, d1\<lparr>nd_chip := c4\<rparr>)"
    and a4: "a c4 = (a c3)\<lparr>ch_irq := ch_irq (a c3) AND NOT (BIT RX_DR)\<rparr>"
    using status_write_ok [OF hw, of "BIT RX_DR" "d1\<lparr>nd_chip := c3\<rparr>"] by auto
  have a4': "ch_rx (a c4) = []" "ch_irq (a c4) = 0" using a1 a2 a3 a4 assms(3) by (simp_all add: d1_def)
  define d4 where "d4 = d1\<lparr>nd_chip := c4, nd_rx_msgq := Some (k_msgq_put f q)\<rparr>"
  have "unat (of_nat (length f) :: u8) = length f" using assms(6) by (simp add: unat_of_nat)
  then have put: "(if (of_nat (length f) :: u8) > 0
      then deliver (take (unat (of_nat (length f) :: u8)) buf') (d1\<lparr>nd_chip := c4\<rparr>) else d1\<lparr>nd_chip := c4\<rparr>) = d4"
    using assms(5,9) by (simp add: word_less_nat_alt buf' deliver_def d4_def d1_def)
  obtain c5 s5 where c5: "reg_read_locked hw L01REG_STATUS s d4 = (0, s5, d4\<lparr>nd_chip := c5\<rparr>)"
    and s5: "s5 AND 0x70 = 0" and a5: "a c5 = a c4"
    using status_read_ok [OF hw, of s d4] a4' by (auto simp: d4_def)
  have end5: "s5 AND BIT RX_DR = 0" "s5 AND (BIT TX_DS OR BIT MAX_RT) = 0" using irq_bits [OF s5] by simp_all
  have "rx_drain hw cfg buf s d1 = rx_drain hw cfg buf' s5 (d4\<lparr>nd_chip := c5\<rparr>)"
    by (subst rx_drain.simps) (simp only: rx c2 c3 c4 put c5 Let_def prod.case snd_conv simp_thms if_True)
  then have "nrf24_irq_turn hw cfg stale buf d = Some (d4\<lparr>nd_chip := c5\<rparr>)"
    using assms(2) c1 by (simp add: nrf24_irq_turn_def Let_def d1_def tx_complete_none tx end5 rx_drain_none)
  then show ?thesis using a5 a4' by (intro exI [of _ "d4\<lparr>nd_chip := c5\<rparr>"]) (simp add: d4_def)
qed

theorem irq_keeps_oldest_only_witness:
  "\<exists>d'. nrf24_irq_turn sim_hw board_config 0 (replicate 32 0)
      ((nrf24_static (sim_chip (BIT RX_DR) [[1], [2], [3]]))\<lparr>nd_ready := True, nd_rx_msgq := Some \<lparr>mq_max = 8, mq_items = []\<rparr>\<rparr>)
      = Some d' \<and> nd_rx_msgq d' = Some \<lparr>mq_max = 8, mq_items = [[1]]\<rparr> \<and> ch_rx (sim_abs (nd_chip d')) = []"
proof -
  let ?d = "(nrf24_static (sim_chip (BIT RX_DR) [[1], [2], [3]]))
    \<lparr>nd_ready := True, nd_rx_msgq := Some \<lparr>mq_max = 8, mq_items = []\<rparr>\<rparr>"
  have pre: "nd_ready ?d" "ch_irq (sim_abs (nd_chip ?d)) = BIT RX_DR" "ch_rx (sim_abs (nd_chip ?d)) = [1] # [[2], [3]]"
    "parse_payload_mode (nc_payload_mode board_config) = NRF24_PAYLOAD_DYNAMIC"
    "nd_rx_msgq ?d = Some \<lparr>mq_max = 8, mq_items = []\<rparr>"
    by (simp_all add: nrf24_static_def sim_chip_def sim_abs_def nrf_bit_defs board_config_def parse_payload_mode_def)
  from irq_keeps_oldest_only [OF sim_chip_ok pre(1-3) _ _ _ pre(4,5), of "replicate 32 0" 0]
  show ?thesis by (simp add: k_msgq_put_def) blast
qed

section \<open>Runs of the driver on any chip\<close>

text \<open>
  Every public operation, turns of the interrupt thread and whatever the chip does by itself; no
  transfer need succeed.
\<close>

inductive drv_step :: "'c nrf24_hw \<Rightarrow> nrf24_config \<Rightarrow> 'c nrf24 \<Rightarrow> 'c nrf24 \<Rightarrow> bool" for hw cfg where
  step_air: "drv_step hw cfg d (d\<lparr>nd_chip := c\<rparr>)"
| step_irq: "drv_step hw cfg d (nrf24_irq_handler d)"
| step_turn: "nrf24_irq_turn hw cfg stale buf d = Some d' \<Longrightarrow> drv_step hw cfg d d'"
| step_configure: "drv_step hw cfg d (snd (nrf24_configure hw cfg c d))"
| step_mode: "drv_step hw cfg d (snd (nrf24_set_mode hw m d))"
| step_power: "drv_step hw cfg d (snd (nrf24_power_enable hw cfg e d))"
| step_send: "drv_step hw cfg d (snd (snd (nrf24_send hw (irq_wait hw cfg stale sbuf radio t) buf d)))"
| step_recv: "drv_step hw cfg d (snd (nrf24_recv hw n d))"
| step_msgq: "drv_step hw cfg d (nrf24_add_rx_msgq q d)"
| step_callback: "drv_step hw cfg d (nrf24_add_rx_callback cb u d)"
| step_write: "drv_step hw cfg d (snd (nrf24_write_reg hw r v d))"
| step_write_multi: "drv_step hw cfg d (snd (nrf24_write_reg_multi hw r bs n d))"
| step_ready: "drv_step hw cfg d (snd (nrf24_rx_ready hw d))"

inductive drv_reach :: "'c nrf24_hw \<Rightarrow> nrf24_config \<Rightarrow> 'c nrf24 \<Rightarrow> bool" for hw cfg where
  reach_init: "drv_reach hw cfg (snd (nrf24_init hw cfg env (nrf24_static c)))"
| reach_step: "drv_reach hw cfg d \<Longrightarrow> drv_step hw cfg d d' \<Longrightarrow> drv_reach hw cfg d'"

text \<open>What every state of a run satisfies.\<close>

definition drv_inv :: "'c nrf24 \<Rightarrow> bool" where
  "drv_inv d \<longleftrightarrow> nd_fallback_msgq d \<noteq> None \<and> nd_rx_cb_calls d = [] \<and> (nd_ce d \<longleftrightarrow> nd_mode d = NRF24_MODE_PRX)"

text \<open>Nothing but the chip changes.\<close>

definition chip_only :: "'c nrf24 \<Rightarrow> 'c nrf24 \<Rightarrow> bool" where
  "chip_only d d' \<longleftrightarrow> (\<exists>c. d' = d\<lparr>nd_chip := c\<rparr>)"

lemma chip_only_refl [simp]: "chip_only d d"
  unfolding chip_only_def by (rule exI [of _ "nd_chip d"]) simp

lemma chip_only_trans: "chip_only d e \<Longrightarrow> chip_only e f \<Longrightarrow> chip_only d f"
  by (auto simp: chip_only_def)

lemma chip_only_fields:
  "chip_only d d' \<Longrightarrow> nd_ce d' = nd_ce d \<and> nd_mode d' = nd_mode d \<and> nd_fallback_msgq d' = nd_fallback_msgq d \<and>
    nd_rx_cb_calls d' = nd_rx_cb_calls d \<and> nd_rx_msgq d' = nd_rx_msgq d \<and> nd_ready d' = nd_ready d"
  by (auto simp: chip_only_def)

named_theorems drv_frames \<open>transfers change the chip only\<close>

lemma xfer_frames [drv_frames]:
  "nrf24_xfer hw tx d = (r, x, d') \<Longrightarrow> chip_only d d'"
  "reg_read_locked hw g v d = (r, y, d') \<Longrightarrow> chip_only d d'"
  "reg_write_locked hw g v d = (r, d') \<Longrightarrow> chip_only d d'"
  "reg_write_multi_locked hw g bs n d = (r, d') \<Longrightarrow> chip_only d d'"
  "cmd_locked hw cmd d = (r, d') \<Longrightarrow> chip_only d d'"
  "read_rx_pl_wid_locked hw v d = (r, y, d') \<Longrightarrow> chip_only d d'"
  "read_rx_payload_locked hw bs v d = (r, z, d') \<Longrightarrow> chip_only d d'"
  "write_tx_payload_locked hw bs v d = (r, d') \<Longrightarrow> chip_only d d'"
proof -
  have x: "nrf24_xfer hw tx d = (r, x, d') \<Longrightarrow> chip_only d d'" for tx r x d'
    by (auto simp: nrf24_xfer_def chip_only_def split: prod.splits)
  show "nrf24_xfer hw tx d = (r, x, d') \<Longrightarrow> chip_only d d'" by (rule x)
  show "reg_read_locked hw g v d = (r, y, d') \<Longrightarrow> chip_only d d'"
    by (auto simp: reg_read_locked_def dest: x split: prod.splits)
  show "reg_write_locked hw g v d = (r, d') \<Longrightarrow> chip_only d d'"
    by (auto simp: reg_write_locked_def dest: x split: prod.splits)
  show "reg_write_multi_locked hw g bs n d = (r, d') \<Longrightarrow> chip_only d d'"
    by (auto simp: reg_write_multi_locked_def dest: x split: prod.splits if_splits)
  show "cmd_locked hw cmd d = (r, d') \<Longrightarrow> chip_only d d'"
    by (auto simp: cmd_locked_def dest: x split: prod.splits)
  show "read_rx_pl_wid_locked hw v d = (r, y, d') \<Longrightarrow> chip_only d d'"
    by (auto simp: read_rx_pl_wid_locked_def dest: x split: prod.splits)
  show "read_rx_payload_locked hw bs v d = (r, z, d') \<Longrightarrow> chip_only d d'"
    by (auto simp: read_rx_payload_locked_def dest: x split: prod.splits)
  show "write_tx_payload_locked hw bs v d = (r, d') \<Longrightarrow> chip_only d d'"
    by (auto simp: write_tx_payload_locked_def dest: x split: prod.splits)
qed

lemma snd_frames [simp, drv_frames]:
  "chip_only d (snd (reg_write_locked hw g v d))" "chip_only d (snd (cmd_locked hw cmd d))"
  by (metis prod.collapse xfer_frames(3), metis prod.collapse xfer_frames(5))

lemma reg_ops_frame: "reg_ops hw ops d = (r, d') \<Longrightarrow> chip_only d d'"
proof (induction ops arbitrary: d)
  case Nil
  then show ?case by simp
next
  case (Cons op ops)
  have "chip_only d (snd (reg_op_locked hw op d))"
    by (cases op; simp; metis prod.collapse xfer_frames(3,4))
  then show ?case using Cons by (auto split: prod.splits if_splits intro: chip_only_trans)
qed

lemma apply_config_frame: "chip_only d (snd (apply_config_with hw cfg p d))"
proof -
  obtain r e where e: "reg_ops hw (config_ops cfg p) d = (r, e)" by fastforce
  let ?f = "snd (cmd_locked hw FLUSH_TX e)" and ?g = "snd (cmd_locked hw FLUSH_RX (snd (cmd_locked hw FLUSH_TX e)))"
  have "chip_only d e" "chip_only e ?f" "chip_only ?f ?g" using reg_ops_frame [OF e] by simp_all
  then have "chip_only d e" "chip_only d (snd (reg_write_locked hw L01REG_STATUS IRQ_ALL ?g))"
    by (blast intro: chip_only_trans snd_frames)+
  then show ?thesis by (simp add: apply_config_with_def e Let_def)
qed

lemma set_mode_cases:
  "(\<exists>c. snd (set_mode_locked hw m d) = d\<lparr>nd_chip := c\<rparr>) \<or>
   (\<exists>c. snd (set_mode_locked hw m d) = d\<lparr>nd_chip := c, nd_ce := (m = NRF24_MODE_PRX), nd_mode := m\<rparr>)"
proof -
  obtain r v e where e: "reg_read_locked hw L01REG_CONFIG 0 d = (r, v, e)" by (metis prod_cases3)
  obtain r' f where f: "reg_write_locked hw L01REG_CONFIG ((v AND NOT (BIT PWR_UP OR BIT PRIM_RX)) OR mode_bits m) e =
    (r', f)" by fastforce
  from xfer_frames(2) [OF e] xfer_frames(3) [OF f] obtain c c' where "e = d\<lparr>nd_chip := c\<rparr>" "f = d\<lparr>nd_chip := c'\<rparr>"
    by (auto simp: chip_only_def)
  then show ?thesis
    unfolding set_mode_locked_def e prod.case Let_def f by (auto simp: ce_set_def)
qed

lemma set_mode_success:
  assumes "set_mode_locked hw m d = (r, e)" and "\<not> r < 0"
  shows "\<exists>c. e = d\<lparr>nd_chip := c, nd_ce := (m = NRF24_MODE_PRX), nd_mode := m\<rparr>"
proof -
  obtain r1 v d1 where d1: "reg_read_locked hw L01REG_CONFIG 0 d = (r1, v, d1)" by (metis prod_cases3)
  obtain r2 d2 where d2: "reg_write_locked hw L01REG_CONFIG ((v AND NOT (BIT PWR_UP OR BIT PRIM_RX)) OR mode_bits m) d1 =
    (r2, d2)" by fastforce
  from xfer_frames(2) [OF d1] xfer_frames(3) [OF d2] obtain c c' where "d1 = d\<lparr>nd_chip := c\<rparr>" "d2 = d\<lparr>nd_chip := c'\<rparr>"
    by (auto simp: chip_only_def)
  then show ?thesis
    using assms unfolding set_mode_locked_def d1 prod.case Let_def d2 by (auto simp: ce_set_def split: if_splits)
qed

text \<open>What the interrupt thread leaves alone.\<close>

definition keeps :: "'c nrf24 \<Rightarrow> 'c nrf24 \<Rightarrow> bool" where
  "keeps d d' \<longleftrightarrow> nd_mode d' = nd_mode d \<and> nd_ce d' = nd_ce d \<and> nd_ready d' = nd_ready d \<and>
     (nd_fallback_msgq d \<noteq> None \<longrightarrow> nd_fallback_msgq d' \<noteq> None \<and> nd_rx_cb_calls d' = nd_rx_cb_calls d)"

lemma keeps_refl [simp]: "keeps d d" by (simp add: keeps_def)

lemma keeps_trans: "keeps d e \<Longrightarrow> keeps e f \<Longrightarrow> keeps d f" by (auto simp: keeps_def)

lemma chip_only_keeps: "chip_only d d' \<Longrightarrow> keeps d d'" by (auto simp: chip_only_def keeps_def)

lemma keeps_inv: "keeps d d' \<Longrightarrow> drv_inv d \<Longrightarrow> drv_inv d'" by (auto simp: keeps_def drv_inv_def)

lemma deliver_keeps: "keeps d (deliver f d)"
  by (auto simp: keeps_def deliver_def split: option.split)

lemma tx_complete_keeps: "keeps d (tx_complete hw st d)"
proof -
  let ?d = "d\<lparr>nd_last_status := st\<rparr>"
  obtain r o1 e where e: "reg_read_locked hw L01REG_OBSERVE_TX (nd_last_observe_tx ?d) ?d = (r, o1, e)"
    by (metis prod_cases3)
  let ?f = "snd (reg_write_locked hw L01REG_STATUS (BIT TX_DS OR BIT MAX_RT) (e\<lparr>nd_last_observe_tx := o1\<rparr>))"
  have "keeps d ?d" "keeps e (e\<lparr>nd_last_observe_tx := o1\<rparr>)" "keeps ?f (?f\<lparr>nd_tx_done_sem := 1\<rparr>)"
    by (simp_all add: keeps_def)
  moreover have "keeps ?d e" by (rule chip_only_keeps [OF xfer_frames(2) [OF e]])
  moreover have "keeps (e\<lparr>nd_last_observe_tx := o1\<rparr>) ?f" by (rule chip_only_keeps [OF snd_frames(1)])
  ultimately have "keeps d (?f\<lparr>nd_tx_done_sem := 1\<rparr>)" by (blast intro: keeps_trans)
  then show ?thesis unfolding tx_complete_def Let_def e prod.case by simp
qed

lemma fetch_keeps: "keeps d (snd (snd (fetch_rx_payload_locked hw cfg buf d)))"
proof -
  have r: "keeps e e'" if "read_rx_payload_locked hw bs n e = (r, z, e')" for bs n e r z e'
    by (rule chip_only_keeps [OF xfer_frames(7) [OF that]])
  have w: "keeps e e'" if "read_rx_pl_wid_locked hw v e = (r, z, e')" for v e r z e'
    by (rule chip_only_keeps [OF xfer_frames(6) [OF that]])
  have f: "keeps e (snd (cmd_locked hw FLUSH_RX e))" for e by (rule chip_only_keeps [OF snd_frames(2)])
  show ?thesis
    by (auto simp: fetch_rx_payload_locked_def Let_def split: prod.split dest!: r w intro: keeps_trans f)
qed

lemma rx_drain_keeps:
  assumes "rx_drain hw cfg buf st d = Some y"
  shows "keeps d (snd y)"
proof (rule rx_drain.raw_induct [where P = "\<lambda>hw cfg buf st d y. keeps d (snd y)", OF _ assms])
  fix drain hw cfg buf st d y
  assume ih: "\<And>hw cfg buf st d y. drain hw cfg buf st d = Some y \<Longrightarrow> keeps d (snd y)"
    and body: "(if st AND BIT RX_DR \<noteq> 0 then
        (case fetch_rx_payload_locked hw cfg buf d of (plen, buf, d) \<Rightarrow>
           let d = snd (cmd_locked hw FLUSH_RX d);
               d = snd (reg_write_locked hw L01REG_STATUS (BIT RX_DR) d);
               d = (if plen > 0 then deliver (take (unat plen) buf) d else d)
           in (case reg_read_locked hw L01REG_STATUS st d of (_, status, d) \<Rightarrow> drain hw cfg buf status d))
      else Some (st, d)) = Some y"
  show "keeps d (snd y)"
  proof (cases "st AND BIT RX_DR \<noteq> 0")
    case False
    then show ?thesis using body by auto
  next
    case True
    obtain n b e where e: "fetch_rx_payload_locked hw cfg buf d = (n, b, e)" by (metis prod_cases3)
    define f where "f = snd (reg_write_locked hw L01REG_STATUS (BIT RX_DR) (snd (cmd_locked hw FLUSH_RX e)))"
    define g where "g = (if n > 0 then deliver (take (unat n) b) f else f)"
    obtain r s h where h: "reg_read_locked hw L01REG_STATUS st g = (r, s, h)" by (metis prod_cases3)
    have "drain hw cfg b s h = Some y"
      using body unfolding if_P [OF True] e prod.case Let_def f_def [symmetric] g_def [symmetric] h by simp
    then have "keeps h (snd y)" by (rule ih)
    moreover have "keeps d e" using fetch_keeps [of d hw cfg buf] e by simp
    moreover have "chip_only e f" unfolding f_def by (blast intro: chip_only_trans snd_frames)
    moreover have "keeps f g" by (simp add: g_def deliver_keeps)
    moreover have "keeps g h" by (rule chip_only_keeps [OF xfer_frames(2) [OF h]])
    ultimately show ?thesis by (blast intro: keeps_trans chip_only_keeps)
  qed
qed

lemma irq_turn_keeps: "nrf24_irq_turn hw cfg stale buf d = Some d' \<Longrightarrow> keeps d d'"
proof -
  assume turn: "nrf24_irq_turn hw cfg stale buf d = Some d'"
  let ?d = "d\<lparr>nd_irq_sem := nd_irq_sem d - 1\<rparr>"
  have k0: "keeps d ?d" by (simp add: keeps_def)
  show ?thesis
  proof (cases "nd_ready ?d")
    case False
    then show ?thesis using turn k0 by (simp add: nrf24_irq_turn_def Let_def)
  next
    case True
    obtain r s e where e: "reg_read_locked hw L01REG_STATUS stale ?d = (r, s, e)" by (metis prod_cases3)
    obtain s' f where f: "rx_drain hw cfg buf s (tx_complete hw s e) = Some (s', f)" "d' = tx_complete hw s' f"
      using turn True unfolding nrf24_irq_turn_def Let_def e prod.case by (auto split: option.splits)
    show ?thesis
      using k0 chip_only_keeps [OF xfer_frames(2) [OF e]] tx_complete_keeps [of e hw s]
        rx_drain_keeps [OF f(1), unfolded snd_conv]
        tx_complete_keeps [of f hw s'] f(2) by (blast intro: keeps_trans)
  qed
qed

lemma power_apply_frame: "chip_only d (snd (nrf24_power_apply hw cfg b d))"
  by (auto simp: nrf24_power_apply_def chip_only_def intro: exI [of _ "nd_chip d"])

lemma set_mode_inv: "drv_inv d \<Longrightarrow> drv_inv (snd (set_mode_locked hw m d))"
  using set_mode_cases [of hw m d] by (auto simp: drv_inv_def)

lemma chip_only_inv: "chip_only d d' \<Longrightarrow> drv_inv d \<Longrightarrow> drv_inv d'"
  by (blast intro: chip_only_keeps keeps_inv)

lemma power_enable_inv:
  assumes "drv_inv d"
  shows "drv_inv (snd (nrf24_power_enable hw cfg b d))"
proof -
  obtain r e where e: "nrf24_power_apply hw cfg True d = (r, e)" by fastforce
  obtain r' f where f: "(if r = 0 then apply_config_with hw cfg True e else (r, e)) = (r', f)" by fastforce
  have "chip_only d e" using power_apply_frame [of d hw cfg True] e by simp
  moreover have "chip_only e f" using f apply_config_frame [of e hw cfg True] by (auto split: if_splits)
  ultimately have i: "drv_inv f" using assms by (blast intro: chip_only_inv)
  have on: "drv_inv (snd (nrf24_power_enable hw cfg True d))"
    using assms i unfolding nrf24_power_enable_def e prod.case f by (auto simp: drv_inv_def ce_set_def)
  define g where "g = (snd (set_mode_locked hw NRF24_MODE_POWER_DOWN d))\<lparr>nd_ready := False\<rparr>"
  have "drv_inv g" using set_mode_inv [OF assms, of hw NRF24_MODE_POWER_DOWN] by (simp add: g_def drv_inv_def)
  then have "drv_inv (snd (nrf24_power_apply hw cfg False g))" by (blast intro: chip_only_inv power_apply_frame)
  then have "drv_inv (snd (nrf24_power_enable hw cfg False d))"
    using assms unfolding nrf24_power_enable_def g_def Let_def by simp
  then show ?thesis using on by (cases b) simp_all
qed

lemma irq_wait_keeps: "irq_wait hw cfg stale sbuf radio t d = (taken, el, d') \<Longrightarrow> keeps d d'"
  by (auto simp: irq_wait_def keeps_def split: option.splits dest!: irq_turn_keeps)

lemma send_inv:
  assumes inv: "drv_inv d"
  shows "drv_inv (snd (snd (nrf24_send hw (irq_wait hw cfg stale sbuf radio t) buf d)))"
proof -
  obtain r d1 where d1: "set_mode_locked hw NRF24_MODE_PTX (d\<lparr>nd_tx_done_sem := 0\<rparr>) = (r, d1)" by fastforce
  have inv1: "drv_inv d1"
    using set_mode_inv [of "d\<lparr>nd_tx_done_sem := 0\<rparr>" hw NRF24_MODE_PTX] inv d1 by (simp add: drv_inv_def)
  define d2 where "d2 = snd (reg_write_locked hw L01REG_STATUS (BIT TX_DS OR BIT MAX_RT) (snd (cmd_locked hw FLUSH_TX d1)))"
  obtain r3 d3 where d3: "write_tx_payload_locked hw buf (of_nat (length buf)) d2 = (r3, d3)" by fastforce
  obtain tk el d4 where d4: "irq_wait hw cfg stale sbuf radio t (ce_set True d3) = (tk, el, d4)" by (metis prod_cases3)
  have "chip_only d1 d2" unfolding d2_def by (blast intro: chip_only_trans snd_frames)
  then have "chip_only d1 d3" using xfer_frames(8) [OF d3] by (rule chip_only_trans)
  then have inv3: "drv_inv d3" and m3: "nd_mode d3 = nd_mode d1"
    using chip_only_inv [OF _ inv1] chip_only_fields [of d1 d3] by blast+
  have inv5: "drv_inv (ce_set False d4)" if "\<not> r < 0"
    using set_mode_success [OF d1 that] m3 inv3 irq_wait_keeps [OF d4] by (auto simp: drv_inv_def keeps_def ce_set_def)
  have out: "drv_inv (snd (set_mode_locked hw NRF24_MODE_PRX e))" if "\<not> r < 0" "chip_only (ce_set False d4) e" for e
    by (rule set_mode_inv [OF chip_only_inv [OF that(2) inv5 [OF that(1)]]])
  have c: "chip_only (ce_set False d4) (snd (reg_write_locked hw L01REG_STATUS (BIT TX_DS OR BIT MAX_RT)
      (snd (cmd_locked hw FLUSH_TX (ce_set False d4)))))"
    by (blast intro: chip_only_trans snd_frames)
  show ?thesis
    using inv inv1 set_mode_inv [OF inv3, of hw NRF24_MODE_PRX] out [OF _ c] out [OF _ snd_frames(2)] out [OF _ chip_only_refl]
    unfolding nrf24_send_def Let_def d1 prod.case d2_def [symmetric] d3 d4 by (auto simp del: snd_frames)
qed

text \<open>Only nrf24_power_enable changes whether the radio is in use.\<close>

lemma set_mode_ready: "set_mode_locked hw m d = (r, d') \<Longrightarrow> nd_ready d' = nd_ready d"
  using set_mode_cases [of hw m d] by auto

lemma configure_ready: "nd_ready (snd (nrf24_configure hw dcfg c d)) = nd_ready d"
  by (simp add: nrf24_configure_def Let_def chip_only_fields [OF apply_config_frame])

lemma send_ready:
  assumes "\<And>d tk el d'. wait d = (tk, el, d') \<Longrightarrow> nd_ready d' = nd_ready d"
    and "nrf24_send hw wait buf d = (r, x, d')"
  shows "nd_ready d' = nd_ready d"
proof -
  have c: "nd_ready (snd (cmd_locked hw v e)) = nd_ready e" "nd_ready (snd (reg_write_locked hw g v e)) = nd_ready e"
    "nd_ready (snd (set_mode_locked hw m e)) = nd_ready e" "nd_ready (ce_set b e) = nd_ready e" for v g m e b
    using chip_only_fields [OF snd_frames(2)] chip_only_fields [OF snd_frames(1)] set_mode_ready [OF prod.collapse [symmetric]]
    by (blast, blast, blast, simp add: ce_set_def)
  obtain r1 d1 where d1: "set_mode_locked hw NRF24_MODE_PTX (d\<lparr>nd_tx_done_sem := 0\<rparr>) = (r1, d1)" by fastforce
  then have r1: "nd_ready d1 = nd_ready d" using set_mode_ready by fastforce
  define d2 where "d2 = snd (reg_write_locked hw L01REG_STATUS (BIT TX_DS OR BIT MAX_RT) (snd (cmd_locked hw FLUSH_TX d1)))"
  obtain r3 d3 where d3: "write_tx_payload_locked hw buf (of_nat (length buf)) d2 = (r3, d3)" by fastforce
  have r3: "nd_ready d3 = nd_ready d" using chip_only_fields [OF xfer_frames(8) [OF d3]] r1 by (simp add: d2_def c)
  obtain tk el d4 where d4: "wait (ce_set True d3) = (tk, el, d4)" by (metis prod_cases3)
  then have r4: "nd_ready d4 = nd_ready d" using assms(1) r3 by (metis c(4))
  show ?thesis
    using assms(2) r1 r3 r4 unfolding nrf24_send_def Let_def d1 prod.case d2_def [symmetric] d3 d4
    by (auto simp: c split: if_splits)
qed

lemma recv_inv: "drv_inv d \<Longrightarrow> drv_inv (snd (nrf24_recv hw n d))"
proof -
  assume inv: "drv_inv d"
  obtain r e where e: "(if nd_mode d \<noteq> NRF24_MODE_PRX then nrf24_start_rx hw d else (0, d)) = (r, e)" by fastforce
  have "drv_inv e"
    using e inv set_mode_inv [OF inv, of hw NRF24_MODE_PRX]
    by (auto simp: nrf24_start_rx_def nrf24_set_mode_def split: if_splits)
  then show ?thesis
    unfolding nrf24_recv_def e prod.case by (auto simp: drv_inv_def split: option.split list.split)
qed

lemma drv_step_inv: "drv_step hw cfg d d' \<Longrightarrow> drv_inv d \<Longrightarrow> drv_inv d'"
proof (induction rule: drv_step.induct)
  case (step_air d c)
  then show ?case by (simp add: drv_inv_def)
next
  case (step_irq d)
  then show ?case by (simp add: drv_inv_def nrf24_irq_handler_def)
next
  case (step_turn stale buf d d')
  then show ?case by (blast intro: keeps_inv irq_turn_keeps)
next
  case (step_configure d c)
  then show ?case unfolding nrf24_configure_def Let_def by (rule chip_only_inv [OF apply_config_frame])
next
  case (step_mode d m)
  then show ?case by (simp add: nrf24_set_mode_def set_mode_inv)
next
  case (step_power d e)
  then show ?case by (rule power_enable_inv)
next
  case (step_send d stale sbuf radio t buf)
  then show ?case by (rule send_inv)
next
  case (step_recv d n)
  then show ?case by (rule recv_inv)
next
  case (step_msgq d q)
  then show ?case by (simp add: drv_inv_def nrf24_add_rx_msgq_def)
next
  case (step_callback d cb u)
  then show ?case by (simp add: drv_inv_def nrf24_add_rx_callback_def)
next
  case (step_write d r v)
  then show ?case unfolding nrf24_write_reg_def by (rule chip_only_inv [OF snd_frames(1)])
next
  case (step_write_multi d r bs len)
  have "chip_only d (snd (reg_write_multi_locked hw r bs len d))" by (metis prod.collapse xfer_frames(4))
  then show ?case using step_write_multi unfolding nrf24_write_reg_multi_def by (rule chip_only_inv)
next
  case (step_ready d)
  have "chip_only d (snd (nrf24_rx_ready hw d))"
    by (auto simp: nrf24_rx_ready_def nrf24_read_reg_def dest!: xfer_frames(2) split: prod.split)
  then show ?case using step_ready by (rule chip_only_inv)
qed

lemma init_inv: "drv_inv (snd (nrf24_init hw cfg env (nrf24_static c)))"
proof -
  define d where "d = (nrf24_static c)\<lparr>nd_irq_sem := 0, nd_tx_done_sem := 0, nd_mode := NRF24_MODE_STANDBY, nd_ready := False\<rparr>"
  have i0: "drv_inv d" by (simp add: d_def drv_inv_def nrf24_static_def)
  obtain r e where e: "nrf24_power_apply hw cfg True d = (r, e)" by fastforce
  obtain r' f where f: "apply_config_with hw cfg True (ce_set False e) = (r', f)" by fastforce
  obtain r2 v g where g: "reg_read_locked hw L01REG_SETUP_AW 0 f = (r2, v, g)" by (metis prod_cases3)
  have c1: "chip_only d e" using power_apply_frame [of d hw cfg True] e by simp
  then have i1: "drv_inv e" and m: "nd_mode e \<noteq> NRF24_MODE_PRX"
    using chip_only_inv [OF c1 i0] chip_only_fields [OF c1] by (simp_all add: d_def nrf24_static_def)
  have "drv_inv (ce_set False e)" using i1 m by (simp add: drv_inv_def ce_set_def)
  then have i2: "drv_inv f" using apply_config_frame [of "ce_set False e" hw cfg True] f by (auto intro: chip_only_inv)
  then have i3: "drv_inv g" by (rule chip_only_inv [OF xfer_frames(2) [OF g]])
  show ?thesis
    using i1 i2 i3 unfolding nrf24_init_def Let_def d_def [symmetric] e prod.case f g
    by (auto simp: drv_inv_def ce_set_def)
qed

lemma drv_reach_inv: "drv_reach hw cfg d \<Longrightarrow> drv_inv d"
  by (induction rule: drv_reach.induct) (blast intro: init_inv drv_step_inv)+

text \<open>
  a callback registered with nrf24_add_rx_callback is never called, whatever the chip, its
  faults, the configuration and the calls are: every instance has a fallback queue and the interrupt
  thread looks at the callback only when there is none.
\<close>

theorem rx_callback_never_runs:
  assumes "drv_reach hw cfg d"
  shows "nd_rx_cb_calls d = []"
  using drv_reach_inv [OF assms] by (simp add: drv_inv_def)

text \<open>A run on the simulated radio, with a callback registered and a frame that arrives.\<close>

definition sim_start :: "chip nrf24" where
  "sim_start = snd (nrf24_init sim_hw board_config \<lparr>be_spi_ready = True, be_gpio_ready = True, be_ce = 0, be_irq = 0,
     be_callback = 0, be_interrupt = 0\<rparr> (nrf24_static (sim_chip 0 [])))"

definition sim_listen :: "chip nrf24" where
  "sim_listen = nrf24_irq_handler ((nrf24_add_rx_callback 1 2 sim_start)\<lparr>nd_chip := sim_chip (BIT RX_DR) [[7]]\<rparr>)"

lemma sim_listen_reach: "drv_reach sim_hw board_config sim_listen"
  unfolding sim_listen_def sim_start_def 
  by (intro drv_reach.reach_step [OF _ step_irq] drv_reach.reach_step [OF _ step_air]
    drv_reach.reach_step [OF _ step_callback] reach_init)

theorem rx_callback_never_runs_witness:
  "nd_rx_cb sim_listen = Some (1, 2) \<and> nd_rx_cb_calls sim_listen = []"
  using rx_callback_never_runs [OF sim_listen_reach] by (simp add: sim_listen_def nrf24_irq_handler_def nrf24_add_rx_callback_def)

text \<open>
  C18: between calls the enable pin is high exactly in receive mode: no sequence of calls, interrupts
  and failing transfers leaves the radio enabled outside receive mode or receiving with CE low.
\<close>

theorem ce_high_iff_receiving:
  assumes "drv_reach hw cfg d"
  shows "nd_ce d \<longleftrightarrow> nd_mode d = NRF24_MODE_PRX"
  using drv_reach_inv [OF assms] by (simp add: drv_inv_def)

theorem ce_high_iff_receiving_witness:
  "nd_ce sim_listen \<longleftrightarrow> nd_mode sim_listen = NRF24_MODE_PRX"
  by (rule ce_high_iff_receiving [OF sim_listen_reach])

end
