(* ===== verification/Settings.thy ===== *)
theory Settings
  imports Prelude "HOL-Library.Multiset"
begin

text \<open>
  What the applications rely on when they store parameters with the kernel's settings: the entries that the handler
  exports come back at the next start one by one, in whatever order the backend delivers them.  The interface is an
  application's \<open>export\<close> and the loading of one entry; \<open>restored g h\<close> is the started state \<open>h\<close> with the parameters
  of the saved state \<open>g\<close>.
\<close>

locale settings =
  fixes export :: "'s \<Rightarrow> (string \<times> bytes) list"
    and load :: "string \<times> bytes \<Rightarrow> 's \<Rightarrow> 's"
    and valid :: "'s \<Rightarrow> bool"
    and restored :: "'s \<Rightarrow> 's \<Rightarrow> 's"
  assumes entries_commute:
      "valid g \<Longrightarrow> x \<in> set (export g) \<Longrightarrow> y \<in> set (export g) \<Longrightarrow> load x (load y k) = load y (load x k)"
    and entries_restore: "valid g \<Longrightarrow> fold load (export g) h = restored g h"
begin

lemma load_any_order:
  assumes "valid g" and "mset stored = mset (export g)"
  shows "fold load stored h = fold load (export g) h"
proof -
  have stored: "set stored = set (export g)" using assms(2) by (metis set_mset_mset)
  have "fold load stored = fold load (export g)"
    by (rule fold_multiset_equiv [OF _ assms(2)]) (simp add: fun_eq_iff stored entries_commute [OF assms(1)])
  then show ?thesis by simp
qed

lemma load_restores: "valid g \<Longrightarrow> mset stored = mset (export g) \<Longrightarrow> fold load stored h = restored g h"
  using load_any_order [of g stored h] entries_restore [of g h] by simp

end

end
