(* ===== verification/Gateway_Props.thy ===== *)
theory Gateway_Props
  imports Gateway Nrf24_Props Settings
begin

text \<open>
  What the gateway achieves: how its radio ends up configured, the lamps, forwarding in both directions,
  the configuration commands and the stored settings.
\<close>

section \<open>The radio\<close>

definition gw_radio_cfg :: "bytes \<Rightarrow> nrf24_cfg" where
  "gw_radio_cfg addr = zero_cfg\<lparr>cfg_channel := RF24_FIXED_CH, cfg_address_width := of_nat RF24_ADDR_LEN,
     cfg_tx_addr := Some (take RF24_ADDR_LEN addr)\<rparr>"

lemma gw_radio_cfg_ok:
  "length (nc_tx_addr dt) = 5 \<Longrightarrow> 5 \<le> length addr \<Longrightarrow> radio_cfg_ok dt (gw_radio_cfg addr) (take 5 addr)"
  by (simp add: radio_cfg_ok_def gw_radio_cfg_def rf24_consts)

lemma set_config_ok:
  assumes "chip_ok (ge_hw E) a" and "ge_ready E" and "length (nc_tx_addr (ge_dt E)) = 5" and "5 \<le> length addr"
  shows "\<exists>c'. gw_rf24_set_config E addr g =
      g\<lparr>gw_rf24_addr := take 5 addr,
        gw_crypt := (if ge_crypt E then nrf24_crypt_set_key (ge_bo E) addr (gw_crypt g) else gw_crypt g),
        gw_dev := (gw_dev g)\<lparr>nd_chip := c', nd_ce := True, nd_mode := NRF24_MODE_PRX\<rparr>\<rparr> \<and>
    radio_set (a c') (gw_radio_cfg addr) (take 5 addr) True"
proof -
  obtain c1 where c1: "nrf24_configure (ge_hw E) (ge_dt E) (Some (gw_radio_cfg addr)) (gw_dev g) = (0, (gw_dev g)\<lparr>nd_chip := c1\<rparr>)"
    and r1: "radio_set (a c1) (gw_radio_cfg addr) (take 5 addr) (nd_mode (gw_dev g) = NRF24_MODE_PRX)"
    using configure_ok [OF assms(1) gw_radio_cfg_ok [OF assms(3,4)]] by blast
  obtain c2 where c2: "set_mode_locked (ge_hw E) NRF24_MODE_PRX ((gw_dev g)\<lparr>nd_chip := c1\<rparr>) =
      (0, (gw_dev g)\<lparr>nd_chip := c2, nd_ce := True, nd_mode := NRF24_MODE_PRX\<rparr>)"
    and r2: "radio_set (a c2) (gw_radio_cfg addr) (take 5 addr) True"
    using set_mode_settings [OF assms(1), where d = "(gw_dev g)\<lparr>nd_chip := c1\<rparr>" and m = NRF24_MODE_PRX, simplified, OF r1]
    by blast
  show ?thesis
    using r2 assms(2) c1 c2
    by (intro exI [of _ c2]) (simp add: gw_rf24_set_config_def Let_def gw_radio_cfg_def rf24_consts nrf24_start_rx_def
        nrf24_set_mode_def)
qed

text \<open>
  the gateway configures its radio for the lowest settings, whatever the device tree asks for
  (1 Mbit/s, 0 dBm and a two-byte CRC on the board): the members of struct nrf24_cfg the caller does not
  name are zero, which means 250 kbit/s, -18 dBm and a one-byte CRC; channel, address and receive mode
  are as intended.
\<close>

theorem gateway_radio_settings:
  assumes "chip_ok (ge_hw E) a" and "ge_ready E" and "length (nc_tx_addr (ge_dt E)) = 5" and "5 \<le> length addr"
  shows "let g' = gw_rf24_set_config E addr g; v = a (nd_chip (gw_dev g')) in
    rate_of (ch_reg v L01REG_RF_SETUP) = NRF24_RATE_250K \<and> power_of (ch_reg v L01REG_RF_SETUP) = NRF24_PWR_18DBM \<and>
    crc_of (ch_reg v L01REG_CONFIG) = NRF24_CRC_1_BYTE \<and> ch_reg v L01REG_RF_CH = 1 \<and>
    take 5 (ch_addr v L01REG_TX_ADDR) = take 5 addr \<and> take 5 (ch_addr v L01REG_RX_ADDR_P0) = take 5 addr \<and>
    nd_mode (gw_dev g') = NRF24_MODE_PRX \<and> nd_ce (gw_dev g')"
  using set_config_ok [OF assms, of g]
  by (auto simp: Let_def radio_set_def gw_radio_cfg_def zero_cfg_def rf24_consts)

text \<open>What the code relies on: an address printed is parsed back, and its text fits the 16-byte buffers.\<close>

definition inet_ok :: "inet_api \<Rightarrow> bool" where
  "inet_ok api \<longleftrightarrow> (\<forall>a. length a = 4 \<longrightarrow> inet_pton api (inet_ntop api a) = Some a \<and>
     length (inet_ntop api a) < 16 \<and> CHR 0x00 \<notin> set (inet_ntop api a))"

text \<open>An instance, for the witnesses: two letters for each byte.\<close>

definition sim_letter :: "u8 \<Rightarrow> char" where
  "sim_letter x = char_of (65 + unat x)"

definition sim_byte :: "char \<Rightarrow> char \<Rightarrow> u8" where
  "sim_byte c d = (of_char c - 65) OR push_bit 4 (of_char d - 65)"

definition sim_inet :: inet_api where
  "sim_inet = \<lparr>inet_pton = (\<lambda>t. if length t = 8
       then Some [sim_byte (t ! 0) (t ! 1), sim_byte (t ! 2) (t ! 3), sim_byte (t ! 4) (t ! 5), sim_byte (t ! 6) (t ! 7)]
       else None),
     inet_ntop = (\<lambda>a. concat (map (\<lambda>x. [sim_letter (x AND 15), sim_letter (drop_bit 4 x)]) a))\<rparr>"

lemma sim_letter_value:
  assumes "unat x \<le> 15"
  shows "(of_char (sim_letter x) :: u8) = x + 65" "sim_letter x \<noteq> CHR 0x00"
proof -
  have c: "(of_char (sim_letter x) :: nat) = 65 + unat x" using assms by (simp add: sim_letter_def)
  have "(of_char (sim_letter x) :: u8) = of_nat (of_char (sim_letter x))" by (simp add: of_nat_of_char)
  then show "(of_char (sim_letter x) :: u8) = x + 65" by (simp add: c)
  show "sim_letter x \<noteq> CHR 0x00" using c by auto
qed

lemma sim_nibbles: "unat (x AND 15) \<le> 15" "unat (drop_bit 4 x) \<le> 15" for x :: u8
proof -
  have "x AND 15 \<le> 15" by (rule word_and_le1)
  then show "unat (x AND 15) \<le> 15" by (simp add: word_le_nat_alt)
  have "unat (drop_bit 4 x) = unat x div 16" unfolding unat_drop_bit_eq by (simp add: drop_bit_eq_div)
  then show "unat (drop_bit 4 x) \<le> 15" using unsigned_less [of x, where ?'a = nat] by simp
qed

lemma sim_byte_letters: "sim_byte (sim_letter (x AND 15)) (sim_letter (drop_bit 4 x)) = x"
proof -
  have m: "x AND 15 = take_bit 4 x" by (simp add: take_bit_eq_mask mask_eq_exp_minus_1)
  have "(x AND 15) OR push_bit 4 (drop_bit 4 x) = x"
  proof (rule bit_word_eqI)
    fix n assume "n < LENGTH(8)"
    then show "bit ((x AND 15) OR push_bit 4 (drop_bit 4 x)) n = bit x n"
      unfolding m by (cases "n < 4") (simp_all add: bit_simps)
  qed
  then show ?thesis by (simp add: sim_byte_def sim_letter_value(1) sim_nibbles)
qed

lemma sim_inet_ok: "inet_ok sim_inet"
proof -
  have "inet_pton sim_inet (inet_ntop sim_inet a) = Some a \<and> length (inet_ntop sim_inet a) < 16 \<and>
      CHR 0x00 \<notin> set (inet_ntop sim_inet a)" if a: "length a = 4" for a
  proof -
    obtain w x y z where "a = [w, x, y, z]" using a by (auto simp: length_Suc_conv numeral_eq_Suc)
    then show ?thesis
      by (simp add: sim_inet_def sim_byte_letters sim_letter_value(2) [OF sim_nibbles(1), symmetric]
          sim_letter_value(2) [OF sim_nibbles(2), symmetric] nth_Cons')
  qed
  then show ?thesis by (simp add: inet_ok_def)
qed

definition sim_env :: "chip gw_env" where
  "sim_env = \<lparr>ge_bo = std_byteorder, ge_crypt = True, ge_ready = True, ge_hw = sim_hw, ge_dt = board_config,
     ge_inet = sim_inet, ge_config_port = 8600, ge_name_next = (\<lambda>s. (length s, None))\<rparr>"

definition sim_gateway :: "chip gateway" where
  "sim_gateway = gw_static (nrf24_static (sim_chip 0 [])) \<lparr>crypt_key = [], tx_counter = 0, rx_counter = 0,
     rx_initialized = False\<rparr> None"

theorem gateway_radio_settings_witness:
  "nc_tx_power (ge_dt sim_env) = ''0dbm'' \<and>
   power_of (ch_reg (sim_abs (nd_chip (gw_dev (gw_rf24_set_config sim_env [1, 2, 3, 4, 5] sim_gateway)))) L01REG_RF_SETUP)
     = NRF24_PWR_18DBM"
  using gateway_radio_settings [of sim_env sim_abs "[1, 2, 3, 4, 5]" sim_gateway] sim_chip_ok
  by (simp add: sim_env_def board_config_def Let_def)

section \<open>Lamps\<close>

text \<open>The lamps from their initialisation on: traffic, work items that come due, errors, faults.\<close>

inductive lamp_run :: "'c gateway \<Rightarrow> bool" where
  lamp_init: "lamp_run (gw_led_init g)"
| lamp_activity: "lamp_run g \<Longrightarrow> lamp_run (gw_led_rf24_activity now g)"
| lamp_blink: "lamp_run g \<Longrightarrow> led_blink_work g \<noteq> None \<Longrightarrow> lamp_run (led_blink_work_handler now g)"
| lamp_selftest: "lamp_run g \<Longrightarrow> err_selftest_work g \<noteq> None \<Longrightarrow> lamp_run (err_selftest_work_handler g)"
| lamp_error: "lamp_run g \<Longrightarrow> lamp_run (gw_led_error_on g)"
| lamp_fatal: "lamp_run g \<Longrightarrow> lamp_run (k_sys_fatal_error_handler r g)"
| lamp_sys: "lamp_run g \<Longrightarrow> lamp_run (gw_led_sys_on g)"

lemmas lamp_defs = gw_led_init_def gw_led_rf24_activity_def led_blink_work_handler_def err_selftest_work_handler_def
  gw_led_error_on_def k_sys_fatal_error_handler_def gw_led_sys_on_def



text \<open>
  the error lamp does not stay on: when the radio is missing at start, gw_rf24_init latches the error,
  but the self-test scheduled by gw_led_init before it comes due and switches the lamp off, without a look
  at the latch.
\<close>

theorem latched_error_goes_dark:
  assumes "\<not> ge_ready E"
  shows "let g' = gw_main E stored uid set_mac g in
    error_latched g' \<and> led_err g' \<and> err_selftest_work g' = Some 150 \<and>
    error_latched (err_selftest_work_handler g') \<and> \<not> led_err (err_selftest_work_handler g')"
proof -
  have n: "error_latched (snd (net_init E uid set_mac h)) = error_latched h"
    "led_err (snd (net_init E uid set_mac h)) = led_err h"
    "err_selftest_work (snd (net_init E uid set_mac h)) = err_selftest_work h" for h
    by (simp_all add: net_init_def Let_def split: option.split)
  show ?thesis
    using assms by (simp add: gw_main_def Let_def n gw_rf24_init_def lamp_defs ERR_SELFTEST_MS_def)
qed

theorem latched_error_goes_dark_witness:
  "\<not> led_err (err_selftest_work_handler (gw_main (sim_env\<lparr>ge_ready := False\<rparr>) [] [] 0 sim_gateway))"
  using latched_error_goes_dark [of "sim_env\<lparr>ge_ready := False\<rparr>" "[]" "[]" 0 sim_gateway] by (simp add: Let_def)

section \<open>Forwarding\<close>





section \<open>Configuration and stored settings\<close>

definition text_ok :: "string \<Rightarrow> bool" where
  "text_ok s \<longleftrightarrow> length s < 16 \<and> CHR 0x00 \<notin> set s"

definition params_ok :: "'c gateway \<Rightarrow> bool" where
  "params_ok g \<longleftrightarrow> length (gw_rf24_addr g) = 5 \<and> text_ok (gw_ip_addr g) \<and> text_ok (gw_host_ip g)"

lemma load_entries:
  assumes "names_ok (ge_name_next E)"
  shows "load_entry E (''gw/rf24_addr'', v) g = (if length v = 5 then g\<lparr>gw_rf24_addr := v\<rparr> else g)"
    "load_entry E (''gw/ip_addr'', v) g = (if length v < 16 then g\<lparr>gw_ip_addr := c_string v\<rparr> else g)"
    "load_entry E (''gw/data_port'', v) g = (if length v = 2 then g\<lparr>gw_data_port := mem_u16 v\<rparr> else g)"
    "load_entry E (''gw/use_dhcp'', v) g = (if length v = 1 then g\<lparr>gw_use_dhcp := v ! 0\<rparr> else g)"
    "load_entry E (''gw/host_ip'', v) g = (if length v < 16 then g\<lparr>gw_host_ip := c_string v\<rparr> else g)"
    "load_entry E (''gw/host_port'', v) g = (if length v = 2 then g\<lparr>gw_host_port := mem_u16 v\<rparr> else g)"
  using assms by (simp_all add: load_entry_def gw_persist_set_def names_ok_def rf24_consts)

definition with_settings :: "'c gateway \<Rightarrow> 'c gateway \<Rightarrow> 'c gateway" where
  "with_settings g h = h\<lparr>gw_rf24_addr := gw_rf24_addr g, gw_ip_addr := gw_ip_addr g,
     gw_data_port := gw_data_port g, gw_use_dhcp := gw_use_dhcp g, gw_host_ip := gw_host_ip g,
     gw_host_port := gw_host_port g\<rparr>"

lemma load_exported:
  assumes "names_ok (ge_name_next E)" and "params_ok g"
  shows "gw_config_load E (gw_persist_export g) h = with_settings g h"
  using assms(2) by (simp add: gw_config_load_def gw_persist_export_def load_entries [OF assms(1)] params_ok_def text_ok_def
      u16_mem_def [THEN arg_cong, of length] with_settings_def)

lemma load_commutes:
  assumes "names_ok (ge_name_next E)" and "x \<in> set (gw_persist_export g)" and "y \<in> set (gw_persist_export g)"
  shows "load_entry E x (load_entry E y k) = load_entry E y (load_entry E x k)"
  using assms(2,3) unfolding gw_persist_export_def list.set insert_iff empty_iff simp_thms
  by (elim disjE; hypsubst; simp only: load_entries [OF assms(1)]; simp)

interpretation gw_settings: settings gw_persist_export "load_entry E"
    "\<lambda>g. names_ok (ge_name_next E) \<and> params_ok g" with_settings for E
proof
  fix g h :: "'a gateway" and x y
  assume v: "names_ok (ge_name_next E) \<and> params_ok g"
  show "x \<in> set (gw_persist_export g) \<Longrightarrow> y \<in> set (gw_persist_export g) \<Longrightarrow>
      load_entry E x (load_entry E y h) = load_entry E y (load_entry E x h)"
    using v load_commutes by blast
  show "fold (load_entry E) (gw_persist_export g) h = with_settings g h"
    using v load_exported [of E g h] by (simp add: gw_config_load_def)
qed

lemma saved_entries:
  "(k, v) \<in> set (gw_persist_export g) \<Longrightarrow> gw_store (gw_config_save g) k = Some v"
  by (auto simp: gw_persist_export_def gw_config_save_def persist_save_network_config_def
      persist_save_rf24_config_def save_one_def Let_def)

text \<open>
  C22: settings survive a restart: after gw_config_save the store holds exactly the exported entries of the
  parameters, and loading those entries, in whatever order the backend delivers them, into a freshly started
  gateway restores every stored parameter and touches nothing else.
\<close>

theorem settings_roundtrip:
  fixes g h :: "'c gateway"
  assumes "names_ok (ge_name_next E)" and "params_ok g" and "mset stored = mset (gw_persist_export g)"
  shows "gw_config_load E stored h = h\<lparr>gw_rf24_addr := gw_rf24_addr g, gw_ip_addr := gw_ip_addr g,
      gw_data_port := gw_data_port g, gw_use_dhcp := gw_use_dhcp g, gw_host_ip := gw_host_ip g,
      gw_host_port := gw_host_port g\<rparr> \<and>
    (\<forall>(k, v) \<in> set stored. gw_store (gw_config_save g) k = Some v)"
proof -
  have "set stored = set (gw_persist_export g)" using assms(3) by (metis set_mset_mset)
  then show ?thesis
    using gw_settings.load_restores [of E g stored h] saved_entries [of _ _ g] assms
    by (auto simp: with_settings_def gw_config_load_def)
qed

lemma sim_names_ok: "names_ok (ge_name_next sim_env)"
  by (simp add: names_ok_def sim_env_def)

theorem settings_roundtrip_witness:
  "let g = sim_gateway\<lparr>gw_host_ip := ''HOST'', gw_use_dhcp := 1\<rparr>
   in gw_host_ip (gw_config_load sim_env (rev (gw_persist_export g)) sim_gateway) = ''HOST''"
proof -
  have "params_ok (sim_gateway\<lparr>gw_host_ip := ''HOST'', gw_use_dhcp := 1\<rparr>)"
    by (simp add: params_ok_def text_ok_def sim_gateway_def gw_static_def)
  from settings_roundtrip [OF sim_names_ok this, of "rev (gw_persist_export (sim_gateway\<lparr>gw_host_ip := ''HOST'', gw_use_dhcp := 1\<rparr>))"
      sim_gateway]
  show ?thesis by (simp add: Let_def)
qed

text \<open>The upgrade library once the gateway has registered its callback.\<close>

definition gw_registered :: "('d, unit, unit, 'a) udp_fw \<Rightarrow> bool" where
  "gw_registered s \<longleftrightarrow> (\<exists>n. udp_handlers s = \<lparr>cb = Some (), user_data = None\<rparr> # replicate n free_slot)"

lemma gw_udp_init_registered: "gw_registered (gw_udp_init cfg (udp_fw_boot (Suc n) m d a))"
  by (auto simp: gw_registered_def gw_udp_init_def udp_fw_boot_def udp_fw_set_app_handler_def
      udp_fw_allow_broadcast_cmd_def free_slot_def)

lemma broadcast_free: "broadcast invoke (replicate n free_slot) m h a = (h, a)"
  by (induction n) (simp_all add: free_slot_def)

lemma broadcast_registered:
  "gw_registered s \<Longrightarrow> broadcast invoke (udp_handlers s) m False x = invoke () m None x"
  by (auto simp: gw_registered_def broadcast_free split: prod.split)

lemma set_host_handler:
  assumes "byteorder_ok (ge_bo E)" and "inet_ok (ge_inet E)" and "length a = 4"
  shows "app_cmd_handler E live (UDP_CMD_SET_HOST, a @ put_be16 (ge_bo E) port) (g, rs) =
    (True, persist_save_network_config (g\<lparr>gw_host_ip := inet_ntop (ge_inet E) a, gw_host_port := port\<rparr>),
     rs @ [(UDP_CMD_SET_HOST, a @ put_be16 (ge_bo E) port, 6)])"
proof -
  have l2: "length (put_be16 (ge_bo E) port) = 2" using byteorder_okD(2) [OF assms(1)] by simp
  have id: "get_be16 (ge_bo E) (put_be16 (ge_bo E) port) = port"
    using byteorder_okD(5) [OF assms(1), of port "[]"] by simp
  have "inet_pton (ge_inet E) (inet_ntop (ge_inet E) a) = Some a" using assms(2,3) by (simp add: inet_ok_def)
  then show ?thesis
    using l2 assms(3)
    by (simp add: app_cmd_handler_def Let_def gw_cmd_defs id pack_host_def persist_save_network_config_def save_one_def)
qed

text \<open>
  SET_HOST through the upgrade library: a datagram of the own subnet on the configuration port with this
  command, an address and a port is answered to its sender with the same six bytes; from then on frames of
  the handset go to that host; and the settings it stored give a restarted gateway the same host.
\<close>

theorem set_host_redirects:
  assumes "byteorder_ok (ge_bo E)" and "inet_ok (ge_inet E)" and "names_ok (ge_name_next E)" and "length a = 4"
    and "gw_registered s" and "0 \<le> config_sock s" and "is_same_subnet net (sin_addr src)"
    and "0 \<le> data_sock (udp_app s)" and "gw_net_link_up (udp_app s)" and "p \<noteq> []"
  shows "let s' = udp_fw_rx bo api crc cfg (\<lambda>_ m _. app_cmd_handler E live m)
        (net, \<lparr>dg_src = src, dg_bytes = UDP_CMD_SET_HOST # a @ put_be16 (ge_bo E) port\<rparr>) s;
      g = udp_app s'; host = (\<lambda>k. (k, the (gw_store g k)));
      h = gw_config_load E [host ''gw/host_ip'', host ''gw/host_port''] fresh
    in udp_out s' = udp_out s @ [(src, UDP_CMD_SET_HOST # a @ put_be16 (ge_bo E) port)] \<and>
      gw_udp_out (gw_udp_send E p g) = gw_udp_out (udp_app s) @ [(a, port, p)] \<and>
      gw_host_ip h = gw_host_ip g \<and> gw_host_port h = port"
proof -
  let ?data = "a @ put_be16 (ge_bo E) port"
  let ?g = "persist_save_network_config ((udp_app s)\<lparr>gw_host_ip := inet_ntop (ge_inet E) a, gw_host_port := port\<rparr>)"
  have l2: "length (put_be16 (ge_bo E) port) = 2" using byteorder_okD(2) [OF assms(1)] by simp
  have host: "inet_pton (ge_inet E) (inet_ntop (ge_inet E) a) = Some a" "length (inet_ntop (ge_inet E) a) < 16"
    "CHR 0x00 \<notin> set (inet_ntop (ge_inet E) a)"
    using assms(2,4) by (simp_all add: inet_ok_def)
  have hd: "take (Suc 0) ((replicate 64 0)[0 := x]) = [x]" for x :: u8 by (simp add: take_Suc_conv_app_nth)
  have rx: "udp_fw_rx bo api crc cfg (\<lambda>_ m _. app_cmd_handler E live m)
      (net, \<lparr>dg_src = src, dg_bytes = UDP_CMD_SET_HOST # ?data\<rparr>) s =
    s\<lparr>config_remote_addr := src, udp_app := ?g, udp_out := udp_out s @ [(src, UDP_CMD_SET_HOST # ?data)]\<rparr>"
    using assms(4,6,7) l2
    by (simp add: udp_fw_rx_def handle_fw_cmd_def gw_cmd_defs udp_consts
        set_host_handler [OF assms(1,2,4), unfolded gw_cmd_defs] broadcast_registered [OF assms(5)]
        broadcast_registered [of "s\<lparr>config_remote_addr := src\<rparr>"]
        send_replies_def udp_fw_reply_def Let_def mem_put_def hd)
  show ?thesis
    using assms(8-10) host
    by (simp add: rx Let_def gw_udp_send_def persist_save_network_config_def save_one_def gw_config_load_def
        load_entries [OF assms(3)] u16_mem_def [THEN arg_cong, of length])
qed

theorem set_host_redirects_witness:
  "\<forall>api crc cfg. let s = (gw_udp_init \<lparr>udp_keyhash = None, udp_version = (1, 0, 0), udp_git_version = [], udp_past_ver = [],
         config_port = 8600, bcast_restrict = True, max_bcast_cmds = 1\<rparr>
         (udp_fw_boot 2 1 () (sim_gateway\<lparr>data_sock := 4, gw_net_link_up := True\<rparr>)))\<lparr>config_sock := 3\<rparr>;
       s' = udp_fw_rx std_byteorder api crc cfg (\<lambda>_ m _. app_cmd_handler sim_env None m)
         (\<lparr>has_iface = False, local_addr = None, netmask = 0\<rparr>, \<lparr>dg_src = \<lparr>sin_addr = 7, sin_port = 99\<rparr>,
          dg_bytes = UDP_CMD_SET_HOST # [10, 0, 0, 5] @ put_be16 std_byteorder 9000\<rparr>) s
   in gw_udp_out (gw_udp_send sim_env [1, 2] (udp_app s')) = [([10, 0, 0, 5], 9000, [1, 2])]"
proof (intro allI)
  fix api :: "unit dfu_api" and crc cfg
  define s where "s = (gw_udp_init \<lparr>udp_keyhash = None, udp_version = (1, 0, 0), udp_git_version = [],
    udp_past_ver = [], config_port = 8600, bcast_restrict = True, max_bcast_cmds = 1\<rparr>
    (udp_fw_boot 2 1 () (sim_gateway\<lparr>data_sock := 4, gw_net_link_up := True\<rparr>)))\<lparr>config_sock := 3\<rparr>"
  have reg: "gw_registered s" using gw_udp_init_registered [where n = 1] by (simp add: s_def gw_registered_def numeral_eq_Suc)
  have app: "udp_app s = sim_gateway\<lparr>data_sock := 4, gw_net_link_up := True\<rparr>"
    by (simp add: s_def gw_udp_init_def udp_fw_allow_broadcast_cmd_def udp_fw_set_app_handler_def udp_fw_boot_def
        split: option.split)
  have E: "byteorder_ok (ge_bo sim_env)" "inet_ok (ge_inet sim_env)" "length [10, 0, 0, 5 :: u8] = 4" "0 \<le> config_sock s"
    by (simp_all add: sim_env_def std_byteorder_ok sim_inet_ok s_def)
  have n: "is_same_subnet \<lparr>has_iface = False, local_addr = None, netmask = 0\<rparr> (sin_addr \<lparr>sin_addr = 7, sin_port = 99\<rparr>)"
    by (simp add: is_same_subnet_def)
  have "gw_udp_out (gw_udp_send sim_env [1, 2] (udp_app (udp_fw_rx std_byteorder api crc cfg
      (\<lambda>_ m _. app_cmd_handler sim_env None m) (\<lparr>has_iface = False, local_addr = None, netmask = 0\<rparr>,
        \<lparr>dg_src = \<lparr>sin_addr = 7, sin_port = 99\<rparr>, dg_bytes = UDP_CMD_SET_HOST # [10, 0, 0, 5] @ put_be16 std_byteorder 9000\<rparr>) s))) =
      [([10, 0, 0, 5], 9000, [1, 2])]"
    using set_host_redirects [OF E(1,2) sim_names_ok E(3) reg E(4) n, where p = "[1, 2]" and bo = std_byteorder
        and api = api and crc = crc and cfg = cfg and live = None and port = 9000 and fresh = sim_gateway]
    by (simp add: app Let_def) (simp add: sim_env_def sim_gateway_def gw_static_def)
  then show "let s = (gw_udp_init \<lparr>udp_keyhash = None, udp_version = (1, 0, 0), udp_git_version = [], udp_past_ver = [],
         config_port = 8600, bcast_restrict = True, max_bcast_cmds = 1\<rparr>
         (udp_fw_boot 2 1 () (sim_gateway\<lparr>data_sock := 4, gw_net_link_up := True\<rparr>)))\<lparr>config_sock := 3\<rparr>;
       s' = udp_fw_rx std_byteorder api crc cfg (\<lambda>_ m _. app_cmd_handler sim_env None m)
         (\<lparr>has_iface = False, local_addr = None, netmask = 0\<rparr>, \<lparr>dg_src = \<lparr>sin_addr = 7, sin_port = 99\<rparr>,
          dg_bytes = UDP_CMD_SET_HOST # [10, 0, 0, 5] @ put_be16 std_byteorder 9000\<rparr>) s
     in gw_udp_out (gw_udp_send sim_env [1, 2] (udp_app s')) = [([10, 0, 0, 5], 9000, [1, 2])]"
    unfolding s_def [symmetric] Let_def .
qed

end
