(* ===== verification/Handset.thy ===== *)
theory Handset
  imports Rf24_Shell
begin

text \<open>
  The handset application, \<open>applications/mod_handler\<close>: its state (global_params and the static variables of
  the files), the links (rf24.c, can.c, common.c) and the settings (persist.c).  Buttons, power, sleep and the
  analogue inputs are in theory Handset_Power.  Drawing is recorded as the call made, see \<open>disp\<close>.
\<close>

section \<open>State\<close>

datatype battery_status = BATTERY_STATUS_UNKNOWN | BATTERY_STATUS_FULL | BATTERY_STATUS_CHARGING
  | BATTERY_STATUS_NOT_CHARGING | BATTERY_STATUS_DISCHARGING

record scanner_data =
  overbreak_valid :: int
  overbreak_value :: int
  laser_valid :: int
  laser_distance :: int
  coord_xy_valid :: int
  coord_x :: int
  coord_y :: int
  coord_z_valid :: int
  coord_z :: int

definition CAN_TYPE :: u8 where "CAN_TYPE = 1"
definition RF24_TYPE :: u8 where "RF24_TYPE = 2"
definition REPORT_PERIOD_MS :: u32 where "REPORT_PERIOD_MS = 800"
definition RF24_CONFIG_CMD :: u32 where "RF24_CONFIG_CMD = 0x110"
definition RF24_CONFIG_RESP :: u32 where "RF24_CONFIG_RESP = 0x111"
definition RF24_CMD_GET_CONFIG :: u8 where "RF24_CMD_GET_CONFIG = 2"

datatype display_call = Show_rf24 u8 | Show_can | Show_battery u32 battery_status | Show_scanner scanner_data
  | Show_all | Reinit

text \<open>
  Events are the bits of the event object; a delayable work item is the delay it was scheduled with.
  \<open>can_tx\<close> are the frames can_send took, \<open>stop_forced\<close> a successful pm_state_force.
\<close>

record 'c handset =
  x_degree :: int
  y_degree :: int
  h_button :: u8
  power_mv :: u32
  connect_type :: u8
  report_period :: u32
  battery :: battery_status
  scanner :: scanner_data
  rssi :: u8
  sleeping :: bool
  ev_wake :: bool
  ev_can :: bool
  ev_rf24 :: bool
  hs_log :: bool
  hs_addr :: bytes
  rf24_quality :: int
  can_dev :: bool
  can_tx :: "can_frame list"
  disp :: "display_call list"
  can_power :: bool
  dis_power :: bool
  handler_power :: bool
  waking :: bool
  btn_display_work :: "nat option"
  linksw_work :: "nat option"
  sleep_work :: "nat option"
  stop_forced :: bool
  last_activity_time :: u32
  hs_store :: "string \<rightharpoonup> bytes"
  hs_dev :: "'c nrf24"
  hs_crypt :: crypt
  hs_shell :: test_shell

record 'c hs_env =
  he_bo :: byteorder
  he_crypt :: bool
  he_ready :: bool
  he_hw :: "'c nrf24_hw"
  he_dt :: nrf24_config
  he_can_send :: "can_frame \<Rightarrow> int"
  he_name_next :: "string \<Rightarrow> nat \<times> string option"

definition draw :: "display_call \<Rightarrow> 'c handset \<Rightarrow> 'c handset" where
  "draw c h = h\<lparr>disp := disp h @ [c]\<rparr>"

section \<open>Signal quality (rf24.c)\<close>

definition RF24_QUAL_ALPHA_NUM :: int where "RF24_QUAL_ALPHA_NUM = 1"
definition RF24_QUAL_ALPHA_DEN :: int where "RF24_QUAL_ALPHA_DEN = 8"
definition RF24_QUAL_FAIL_DROP :: int where "RF24_QUAL_FAIL_DROP = 2 * RF24_QUAL_ALPHA_DEN"
definition RF24_QUAL_INIT :: int where "RF24_QUAL_INIT = 4 * RF24_QUAL_ALPHA_DEN"

lemmas qual_defs = RF24_QUAL_ALPHA_NUM_def RF24_QUAL_ALPHA_DEN_def RF24_QUAL_FAIL_DROP_def RF24_QUAL_INIT_def

definition rf24_tx_level :: "bool \<Rightarrow> u8 \<Rightarrow> u8" where
  "rf24_tx_level acked retrans =
     (if \<not> acked then 0
      else if retrans \<le> 1 then 4
      else if retrans \<le> 4 then 3
      else if retrans \<le> 9 then 2
      else 1)"

text \<open>The division is of a non-negative number; the variable is an int16_t.\<close>

definition next_quality :: "bool \<Rightarrow> u8 \<Rightarrow> int \<Rightarrow> int" where
  "next_quality acked retrans q =
     (let lv = uint (rf24_tx_level acked retrans);
          q = (lv * RF24_QUAL_ALPHA_DEN * RF24_QUAL_ALPHA_NUM + q * (RF24_QUAL_ALPHA_DEN - RF24_QUAL_ALPHA_NUM))
                div RF24_QUAL_ALPHA_DEN
      in if \<not> acked then (if q - RF24_QUAL_FAIL_DROP < 0 then 0 else q - RF24_QUAL_FAIL_DROP) else q)"

definition quality_level :: "int \<Rightarrow> u8" where
  "quality_level q = (if q \<ge> 28 then 4 else if q \<ge> 20 then 3 else if q \<ge> 12 then 2 else if q \<ge> 4 then 1 else 0)"

definition rf24_update_rssi :: "bool \<Rightarrow> u8 \<Rightarrow> 'c handset \<Rightarrow> 'c handset" where
  "rf24_update_rssi acked retrans h =
     (let h = h\<lparr>rf24_quality := next_quality acked retrans (rf24_quality h)\<rparr>;
          level = quality_level (rf24_quality h)
      in if rssi h \<noteq> level then draw (Show_rf24 level) (h\<lparr>rssi := level\<rparr>) else h)"

section \<open>The radio (rf24.c)\<close>

definition rf24_cfg :: "'c handset \<Rightarrow> nrf24_cfg" where
  "rf24_cfg h = zero_cfg\<lparr>cfg_channel := RF24_FIXED_CH, cfg_address_width := of_nat RF24_ADDR_LEN,
     cfg_tx_addr := Some (hs_addr h)\<rparr>"

definition rf24_init :: "'c hs_env \<Rightarrow> 'c handset \<Rightarrow> 'c handset" where
  "rf24_init E h =
     (if \<not> he_ready E then h
      else
        let d = snd (nrf24_power_enable (he_hw E) (he_dt E) True (hs_dev h));
            c = (if he_crypt E then nrf24_crypt_rx_reset (nrf24_crypt_set_key (he_bo E) (hs_addr h) (hs_crypt h))
                 else hs_crypt h);
            d = snd (nrf24_configure (he_hw E) (he_dt E) (Some (rf24_cfg h)) d);
            d = nrf24_add_rx_msgq (rf24_rx_msgq d) d
        in case nrf24_start_rx (he_hw E) d of (ret, d) \<Rightarrow>
             let h = h\<lparr>hs_dev := d, hs_crypt := c\<rparr>
             in if ret \<noteq> 0 then h else h\<lparr>rf24_quality := RF24_QUAL_INIT\<rparr>)"

definition rf24_deinit :: "'c hs_env \<Rightarrow> 'c handset \<Rightarrow> 'c handset" where
  "rf24_deinit E h =
     (if \<not> he_ready E then h else h\<lparr>hs_dev := snd (nrf24_power_enable (he_hw E) (he_dt E) False (hs_dev h))\<rparr>)"

text \<open>\<open>junk\<close> is what the uninitialised result structure holds, used where no attempt assigned it.\<close>

definition rf24_data_send :: "'c hs_env \<Rightarrow> 'c air \<Rightarrow> nrf24_tx_result \<Rightarrow> u16 \<Rightarrow> bytes \<Rightarrow> 'c handset \<Rightarrow>
    bool \<times> 'c handset" where
  "rf24_data_send E air junk cid data h =
     (if \<not> he_ready E then (False, h)
      else
        case rf24_pack (he_crypt E) (he_bo E) cid data (hs_crypt h) of
          (None, st) \<Rightarrow> (False, h\<lparr>hs_crypt := st\<rparr>)
        | (Some f, st) \<Rightarrow>
            (case rf24_tx_loop (\<lambda>k. nrf24_send (he_hw E) (air_wait air k) f) (air_uptime air) 0 None (hs_dev h) of
               (ret, result, d, backoffs) \<Rightarrow>
                 let r = (case result of None \<Rightarrow> junk | Some r \<Rightarrow> r);
                     h = rf24_update_rssi (tx_acked r) (tx_retransmits r) (h\<lparr>hs_crypt := st, hs_dev := d\<rparr>)
                 in (ret = 0, h)))"

definition rf24_get_link_status :: bool where "rf24_get_link_status = True"

section \<open>CAN (can.c)\<close>

definition mod_can_send :: "'c hs_env \<Rightarrow> can_frame \<Rightarrow> 'c handset \<Rightarrow> int \<times> 'c handset" where
  "mod_can_send E f h =
     (if \<not> can_dev h then (- NODEV, h)
      else let ret = he_can_send E f in (ret, if ret = 0 then h\<lparr>can_tx := can_tx h @ [f]\<rparr> else h))"

text \<open>A scanner frame; the data are the eight bytes of struct can_frame.\<close>

definition mod_can_parse_scanner :: "'c hs_env \<Rightarrow> can_frame \<Rightarrow> 'c handset \<Rightarrow> 'c handset" where
  "mod_can_parse_scanner E f h =
     (let s = scanner h; d = can_data f; be32 = (\<lambda>i. sint (get_be32 (he_bo E) (drop i d)))
      in if can_id f = ucast OVERBREAK_LASER then
           let s = s\<lparr>overbreak_valid := (if d ! 0 AND 1 \<noteq> 0 then 1 else - 1),
                     laser_valid := (if d ! 0 AND 2 \<noteq> 0 then 1 else - 1),
                     overbreak_value := sint (get_be16 (he_bo E) (drop 2 d)),
                     laser_distance := be32 4\<rparr>
           in draw (Show_scanner s) (h\<lparr>scanner := s\<rparr>)
         else if can_id f = ucast COORD_XY then
           h\<lparr>scanner := s\<lparr>coord_x := be32 0, coord_y := be32 4, coord_xy_valid := 1\<rparr>\<rparr>
         else if can_id f = ucast COORD_Z then
           let v = (if d ! 4 AND 1 \<noteq> 0 then 1 else - 1)
           in h\<lparr>scanner := s\<lparr>coord_z := be32 0, coord_z_valid := v, coord_xy_valid := v\<rparr>\<rparr>
         else h)"

definition rf24_send_config_resp :: "'c hs_env \<Rightarrow> u8 \<Rightarrow> 'c handset \<Rightarrow> 'c handset" where
  "rf24_send_config_resp E cmd h =
     (let buf = (replicate 8 0)[0 := cmd];
          buf = mem_put 1 (take RF24_ADDR_LEN (hs_addr h)) buf;
          resp = \<lparr>can_id = RF24_CONFIG_RESP, can_dlc = bytes_to_dlc (he_bo E) 8, can_data = buf\<rparr>
      in snd (mod_can_send E resp h))"

definition mod_can_rf24_config :: "'c hs_env \<Rightarrow> can_frame \<Rightarrow> 'c handset \<Rightarrow> 'c handset" where
  "mod_can_rf24_config E f h =
     (if can_dlc f < 1 then h
      else if can_data f ! 0 = RF24_CMD_GET_CONFIG then rf24_send_config_resp E (can_data f ! 0) h
      else h)"

definition mod_can_app_rx :: "'c hs_env \<Rightarrow> can_frame \<Rightarrow> 'c handset \<Rightarrow> bool \<times> 'c handset" where
  "mod_can_app_rx E f h =
     (if can_id f = ucast OVERBREAK_LASER \<or> can_id f = ucast COORD_XY \<or> can_id f = ucast COORD_Z
      then (True, mod_can_parse_scanner E f h)
      else if can_id f = RF24_CONFIG_CMD then (True, mod_can_rf24_config E f h)
      else (False, h))"

text \<open>\<open>dev\<close> says whether can_fw_set_app_handler returned a device.\<close>

definition mod_can_init :: "bool \<Rightarrow> 'c handset \<Rightarrow> 'c handset" where
  "mod_can_init dev h = h\<lparr>can_dev := dev\<rparr>"

section \<open>Receiving (rf24.c)\<close>

text \<open>
  One turn of the receive thread.  memcpy puts \<open>data_len\<close> bytes into the eight of a frame on the stack:
  \<open>Inl n\<close> is a copy that runs \<open>n\<close> bytes past its end, after which the program's behaviour is undefined.
\<close>

definition rf24_rx :: "'c hs_env \<Rightarrow> 'c air \<Rightarrow> nrf24_tx_result \<Rightarrow> 'c handset \<Rightarrow> nat + 'c handset" where
  "rf24_rx E air junk h =
     (if \<not> he_ready E \<or> sleeping h \<or> \<not> ev_rf24 h then Inr h
      else
        let q = rf24_rx_msgq (hs_dev h)
        in case mq_items q of
             [] \<Rightarrow> Inr h
           | f # fs \<Rightarrow>
               let h = h\<lparr>hs_dev := (hs_dev h)\<lparr>nd_rx_msgq := Some (q\<lparr>mq_items := fs\<rparr>)\<rparr>\<rparr>
               in (case rf24_unpack (he_crypt E) (he_bo E) f (hs_crypt h) of
                     (None, st) \<Rightarrow> Inr (h\<lparr>hs_crypt := st\<rparr>)
                   | (Some p, st) \<Rightarrow>
                       let h = h\<lparr>hs_crypt := st\<rparr>;
                           cid = get_be16 (he_bo E) p;
                           data = drop RF24_ID_SIZE p
                       in if cid = TEST_FRAME then
                            case rf24_test_handle_rx (rf24_data_send E air junk) data (hs_shell h, h) of
                              (sh, h) \<Rightarrow> Inr (h\<lparr>hs_shell := sh\<rparr>)
                          else if cid \<noteq> OVERBREAK_LASER \<and> cid \<noteq> COORD_XY \<and> cid \<noteq> COORD_Z then Inr h
                          else if length data > 8 then Inl (length data - 8)
                          else
                            let cf = \<lparr>can_id = ucast cid, can_dlc = bytes_to_dlc (he_bo E) (of_nat (length data)),
                                      can_data = mem_put 0 data (replicate 8 0)\<rparr>
                            in Inr (mod_can_parse_scanner E cf h)))"

section \<open>Sending on the selected link (common.c)\<close>

definition EBUSY :: int where "EBUSY = 16"

text \<open>A frame whose data array holds \<open>data\<close> and, beyond, zeros of its initialisation.\<close>

definition data_frame :: "'c hs_env \<Rightarrow> u16 \<Rightarrow> bytes \<Rightarrow> can_frame" where
  "data_frame E cid data = \<lparr>can_id = ucast cid, can_dlc = bytes_to_dlc (he_bo E) (of_nat (length data)),
     can_data = mem_put 0 data (replicate 8 0)\<rparr>"

definition send_handler_state :: "'c hs_env \<Rightarrow> 'c air \<Rightarrow> nrf24_tx_result \<Rightarrow> bytes \<Rightarrow> 'c handset \<Rightarrow>
    int \<times> 'c handset" where
  "send_handler_state E air junk data h =
     (if sleeping h then (- EBUSY, h)
      else if connect_type h = CAN_TYPE then mod_can_send E (data_frame E HANDLER_STATE data) h
      else case rf24_data_send E air junk HANDLER_STATE data h of (ok, h) \<Rightarrow> (if ok then 0 else - EIO, h))"

text \<open>One turn of the heartbeat thread, when one of the link events is set.\<close>

definition heart_turn :: "'c hs_env \<Rightarrow> 'c air \<Rightarrow> nrf24_tx_result \<Rightarrow> 'c handset \<Rightarrow> 'c handset" where
  "heart_turn E air junk h =
     (if \<not> (ev_can h \<or> ev_rf24 h) \<or> sleeping h then h
      else if connect_type h = CAN_TYPE then snd (mod_can_send E (data_frame E COBID_HEATBEAT [5]) h)
      else snd (rf24_data_send E air junk COBID_HEATBEAT [5] h))"

section \<open>Settings (persist.c)\<close>

definition hs_persist_set :: "'c hs_env \<Rightarrow> string \<Rightarrow> bytes \<Rightarrow> 'c handset \<Rightarrow> int \<times> 'c handset" where
  "hs_persist_set E name val h =
     (case he_name_next E name of (name_len, nxt) \<Rightarrow>
        let is_key = (\<lambda>key. nxt = None \<and> take name_len name = take name_len key)
        in if is_key ''connect_type'' then
             (0, if length val = 1 \<and> (val ! 0 = CAN_TYPE \<or> val ! 0 = RF24_TYPE)
                 then h\<lparr>connect_type := val ! 0\<rparr> else h)
           else if is_key ''rf24_addr'' then
             (0, if length val = RF24_ADDR_LEN then h\<lparr>hs_addr := val\<rparr> else h)
           else (- 2, h))"

definition hs_persist_export :: "'c handset \<Rightarrow> (string \<times> bytes) list" where
  "hs_persist_export h = [(''persist/connect_type'', [connect_type h]), (''persist/rf24_addr'', hs_addr h)]"

definition hs_settings_init :: "int \<Rightarrow> 'c handset \<Rightarrow> int \<times> 'c handset" where
  "hs_settings_init rc h =
     (rc, if rc \<noteq> 0 then h else h\<lparr>hs_store := (hs_store h)(''persist/rf24_channel'' := None)\<rparr>)"

definition persist_save_connect_type :: "'c handset \<Rightarrow> 'c handset" where
  "persist_save_connect_type h = h\<lparr>hs_store := (hs_store h)(''persist/connect_type'' \<mapsto> [connect_type h])\<rparr>"

definition hs_save_rf24_config :: "'c handset \<Rightarrow> 'c handset" where
  "hs_save_rf24_config h = h\<lparr>hs_store := (hs_store h)(''persist/rf24_addr'' \<mapsto> hs_addr h)\<rparr>"

text \<open>The handset's commands of the link test (rf24_shell.c); \<open>b\<close> are the parsed arguments.\<close>

definition rf24_apply_config :: "'c hs_env \<Rightarrow> 'c handset \<Rightarrow> 'c handset" where
  "rf24_apply_config E h =
     (let d = snd (nrf24_configure (he_hw E) (he_dt E) (Some (rf24_cfg h)) (hs_dev h))
      in h\<lparr>hs_dev := snd (nrf24_start_rx (he_hw E) d)\<rparr>)"

text \<open>The loop stores each byte before it looks at the next.\<close>

fun store_addr :: "int list \<Rightarrow> nat \<Rightarrow> bytes \<Rightarrow> bool \<times> bytes" where
  "store_addr [] i a = (True, a)"
| "store_addr (v # vs) i a =
     (if v < 0 \<or> v > 0xFF then (False, a) else store_addr vs (i + 1) (a[i := of_int v]))"

definition hs_cmd_rf24_addr :: "'c hs_env \<Rightarrow> int list \<Rightarrow> 'c handset \<Rightarrow> int \<times> 'c handset" where
  "hs_cmd_rf24_addr E b h =
     (if length b < 5 then (- EINVAL, h)
      else if \<not> he_ready E then (- EIO, h)
      else
        case store_addr (take RF24_ADDR_LEN b) 0 (hs_addr h) of
          (False, a) \<Rightarrow> (- EINVAL, h\<lparr>hs_addr := a\<rparr>)
        | (True, a) \<Rightarrow> (0, rf24_apply_config E (h\<lparr>hs_addr := a\<rparr>)))"

end
