(* ===== verification/Handset_Power.thy ===== *)
theory Handset_Power
  imports Handset "HOL-Library.Signed_Division"
begin

text \<open>
  Buttons, link switch, supplies, sleeping and waking of the handset (gpio.c, main.c) and its analogue inputs
  (adc.c).  Pin levels, times and answers of drivers are arguments; system_sleep and system_wake are split
  where they sleep themselves, since other threads run then.
\<close>

section \<open>Supplies and the selected link (gpio.c)\<close>

definition can_power_enable :: "bool \<Rightarrow> 'c handset \<Rightarrow> 'c handset" where
  "can_power_enable up h = h\<lparr>can_power := up\<rparr>"

definition dis_power_enable :: "bool \<Rightarrow> 'c handset \<Rightarrow> 'c handset" where
  "dis_power_enable up h = h\<lparr>dis_power := up\<rparr>"

definition handler_power_enable :: "bool \<Rightarrow> 'c handset \<Rightarrow> 'c handset" where
  "handler_power_enable up h = h\<lparr>handler_power := up\<rparr>"

definition connect_switch :: "'c hs_env \<Rightarrow> 'c handset \<Rightarrow> 'c handset" where
  "connect_switch E h =
     (let h = (if connect_type h = CAN_TYPE then
                 let h = rf24_deinit E (h\<lparr>ev_rf24 := False\<rparr>);
                     h = can_power_enable True h
                 in draw Show_can (h\<lparr>ev_can := True\<rparr>)
               else
                 let h = can_power_enable False (h\<lparr>ev_can := False\<rparr>);
                     h = rf24_init E h
                 in draw (Show_rf24 (rssi h)) (h\<lparr>ev_rf24 := True\<rparr>))
      in persist_save_connect_type h)"

text \<open>\<open>pin\<close> is the level of the switch when the work item runs.\<close>

definition linksw_work_handler :: "'c hs_env \<Rightarrow> int \<Rightarrow> 'c handset \<Rightarrow> 'c handset" where
  "linksw_work_handler E pin h =
     (let h = h\<lparr>linksw_work := None\<rparr>
      in if pin = 0
         then connect_switch E (h\<lparr>connect_type := (if connect_type h = CAN_TYPE then RF24_TYPE else CAN_TYPE)\<rparr>)
         else h)"

text \<open>The eight bytes of a state report.\<close>

definition state_report :: "'c hs_env \<Rightarrow> 'c handset \<Rightarrow> bytes" where
  "state_report E h = put_be16 (he_bo E) (of_int (x_degree h)) @ put_be16 (he_bo E) (of_int (y_degree h)) @
     [h_button h, 0xFF, 0xFF, 0xFF]"

definition btn_display_work_handler :: "'c hs_env \<Rightarrow> 'c air \<Rightarrow> nrf24_tx_result \<Rightarrow> u8 \<Rightarrow> u32 \<Rightarrow> 'c handset \<Rightarrow>
    'c handset" where
  "btn_display_work_handler E air junk pin now h =
     (let h = h\<lparr>btn_display_work := None\<rparr>
      in if sleeping h then h
         else
           let h = h\<lparr>h_button := pin, last_activity_time := now\<rparr>
           in snd (send_handler_state E air junk (state_report E h) h))"

section \<open>Sleeping and waking (gpio.c, main.c)\<close>

text \<open>system_sleep before and after its 100 ms pause; \<open>forced\<close> is the answer of pm_state_force.\<close>

definition sleep_begin :: "'c handset \<Rightarrow> 'c handset" where
  "sleep_begin h = h\<lparr>ev_wake := False, sleeping := True\<rparr>"

definition sleep_finish :: "'c hs_env \<Rightarrow> bool \<Rightarrow> 'c handset \<Rightarrow> 'c handset" where
  "sleep_finish E forced h =
     (let h = (if connect_type h = CAN_TYPE then can_power_enable False h else rf24_deinit E h);
          h = handler_power_enable False (dis_power_enable False h)
      in h\<lparr>stop_forced := forced\<rparr>)"

definition system_sleep :: "'c hs_env \<Rightarrow> bool \<Rightarrow> 'c handset \<Rightarrow> 'c handset" where
  "system_sleep E forced h = sleep_finish E forced (sleep_begin h)"

text \<open>Whether the idle thread is sent to STOP mode.\<close>

definition pm_policy_next_state :: "'c handset \<Rightarrow> bool" where
  "pm_policy_next_state h = (sleeping h \<and> \<not> waking h)"

text \<open>system_wake before and after its 200 ms pause.\<close>

definition wake_begin :: "'c hs_env \<Rightarrow> 'c handset \<Rightarrow> 'c handset" where
  "wake_begin E h =
     (let h = dis_power_enable True (handler_power_enable True (h\<lparr>waking := True\<rparr>))
      in if connect_type h = CAN_TYPE then can_power_enable True h else rf24_init E h)"

definition wake_finish :: "u32 \<Rightarrow> 'c handset \<Rightarrow> 'c handset" where
  "wake_finish now h =
     (let h = (draw Reinit h)\<lparr>sleeping := False\<rparr>;
          h = (draw Show_all h)\<lparr>waking := False\<rparr>
      in h\<lparr>last_activity_time := now, ev_wake := True\<rparr>)"

definition system_wake :: "'c hs_env \<Rightarrow> u32 \<Rightarrow> 'c handset \<Rightarrow> 'c handset" where
  "system_wake E now h = wake_finish now (wake_begin E h)"

definition sleep_work_handler :: "'c hs_env \<Rightarrow> int \<Rightarrow> u32 \<Rightarrow> 'c handset \<Rightarrow> 'c handset" where
  "sleep_work_handler E pin now h =
     (let h = h\<lparr>sleep_work := None\<rparr>
      in if pin = 0 then if sleeping h \<and> \<not> waking h then system_wake E now h else h else h)"

definition read_battery_status :: "int \<Rightarrow> int \<Rightarrow> battery_status" where
  "read_battery_status charge_full_pin charging_pin =
     (if charge_full_pin = 0 then BATTERY_STATUS_FULL
      else if charging_pin = 0 then BATTERY_STATUS_CHARGING
      else BATTERY_STATUS_DISCHARGING)"

section \<open>Interrupts (gpio.c)\<close>

text \<open>\<open>pw\<close> and \<open>hb\<close>: the pin of the power or handler button is among those that fired.\<close>

definition gpio_irq :: "bool \<Rightarrow> bool \<Rightarrow> 'c handset \<Rightarrow> 'c handset" where
  "gpio_irq pw hb h =
     (if pw then h\<lparr>sleep_work := Some 10\<rparr>
      else if hb then (if sleeping h then h else h\<lparr>btn_display_work := Some 10\<rparr>)
      else h)"

definition linksw_irq :: "'c handset \<Rightarrow> 'c handset" where
  "linksw_irq h = (if sleeping h then h else h\<lparr>linksw_work := Some 20\<rparr>)"

section \<open>Start-up (gpio.c, main.c)\<close>

text \<open>The CRC-32 of the device identifier.\<close>

fun crc_bits :: "nat \<Rightarrow> u32 \<Rightarrow> u32" where
  "crc_bits 0 crc = crc"
| "crc_bits (Suc n) crc = crc_bits n (drop_bit 1 crc XOR (0xEDB88320 AND - (crc AND 1)))"

definition uid_to_sn :: "bytes \<Rightarrow> bytes" where
  "uid_to_sn uid =
     (let crc = fold (\<lambda>i crc. crc_bits 8 (crc XOR ucast (uid ! i))) [0..<12] 0xFFFFFFFF;
          sn = [ucast crc, ucast (drop_bit 8 crc), ucast (drop_bit 16 crc), ucast (drop_bit 24 crc)]
      in sn @ [sn ! 0 XOR sn ! 1 XOR sn ! 2 XOR sn ! 3])"

text \<open>\<open>cfg\<close> are the results of configuring the three supply pins.\<close>

definition power_init :: "int \<times> int \<times> int \<Rightarrow> bytes \<Rightarrow> 'c handset \<Rightarrow> int \<times> 'c handset" where
  "power_init cfg uid h =
     (case cfg of (can_ret, dis_ret, handler_ret) \<Rightarrow>
        if can_ret < 0 then (can_ret, h)
        else if dis_ret < 0 then (dis_ret, h)
        else if handler_ret < 0 then (handler_ret, h)
        else
          let h = h\<lparr>report_period := REPORT_PERIOD_MS, connect_type := CAN_TYPE, hs_log := False,
                    hs_addr := uid_to_sn uid, ev_wake := False, ev_can := True, ev_rf24 := False\<rparr>;
              h = handler_power_enable True (can_power_enable True (dis_power_enable True h))
          in (0, h))"

text \<open>
  gpio_init: the five pins must be ready, then the configuration calls in order; \<open>pin\<close> is the level of the
  handler button.
\<close>

fun first_error :: "int list \<Rightarrow> int" where
  "first_error [] = 0"
| "first_error (r # rs) = (if r < 0 then r else first_error rs)"

definition gpio_init :: "bool list \<Rightarrow> int list \<Rightarrow> u8 \<Rightarrow> 'c handset \<Rightarrow> int \<times> 'c handset" where
  "gpio_init ready rets pin h =
     (if \<not> list_all id ready then (- NODEV, h)
      else if first_error rets < 0 then (first_error rets, h)
      else (0, h\<lparr>btn_display_work := None, linksw_work := None, sleep_work := None, h_button := pin\<rparr>))"

definition ACTIVITY_TIMEOUT_MS :: u32 where "ACTIVITY_TIMEOUT_MS = 10 * 60 * 1000"

definition hs_load_entry :: "'c hs_env \<Rightarrow> string \<times> bytes \<Rightarrow> 'c handset \<Rightarrow> 'c handset" where
  "hs_load_entry E = (\<lambda>(name, val) h.
     if take 8 name = ''persist/'' then snd (hs_persist_set E (drop 8 name) val h) else h)"

text \<open>main up to its loop, and a turn of the loop (without the pause of system_sleep).\<close>

definition hs_main :: "'c hs_env \<Rightarrow> (string \<times> bytes) list \<Rightarrow> bool list \<Rightarrow> int list \<Rightarrow> u8 \<Rightarrow> u32 \<Rightarrow> 'c handset \<Rightarrow>
    'c handset" where
  "hs_main E stored ready rets pin now h =
     (let h = snd (gpio_init ready rets pin (h\<lparr>last_activity_time := now\<rparr>));
          h = fold (hs_load_entry E) stored h
      in connect_switch E h)"

definition main_turn :: "'c hs_env \<Rightarrow> bool \<Rightarrow> u32 \<Rightarrow> 'c handset \<Rightarrow> 'c handset" where
  "main_turn E forced now h =
     (if sleeping h then h
      else if now - last_activity_time h > ACTIVITY_TIMEOUT_MS then system_sleep E forced h
      else h)"

section \<open>Shell commands (gpio.c)\<close>

definition cmd_link_log :: "int option \<Rightarrow> 'c handset \<Rightarrow> int \<times> 'c handset" where
  "cmd_link_log arg h = (0, case arg of None \<Rightarrow> h | Some v \<Rightarrow> h\<lparr>hs_log := (v \<noteq> 0)\<rparr>)"

definition cmd_link_can :: "'c hs_env \<Rightarrow> 'c handset \<Rightarrow> int \<times> 'c handset" where
  "cmd_link_can E h = (0, connect_switch E (h\<lparr>connect_type := CAN_TYPE\<rparr>))"

definition cmd_link_rf24 :: "'c hs_env \<Rightarrow> 'c handset \<Rightarrow> int \<times> 'c handset" where
  "cmd_link_rf24 E h = (0, connect_switch E (h\<lparr>connect_type := RF24_TYPE\<rparr>))"

fun link_test :: "'c hs_env \<Rightarrow> (nat \<Rightarrow> 'c air) \<Rightarrow> nrf24_tx_result \<Rightarrow> nat \<Rightarrow> nat \<Rightarrow> nat \<times> nat \<Rightarrow> 'c handset \<Rightarrow>
    (nat \<times> nat) \<times> 'c handset" where
  "link_test E air junk i 0 r h = (r, h)"
| "link_test E air junk i (Suc n) r h =
     (case (if connect_type h = CAN_TYPE then
              case mod_can_send E (data_frame E TEST_FRAME [of_nat i]) h of (ret, h) \<Rightarrow> (ret \<ge> 0, h)
            else rf24_data_send E (air i) junk TEST_FRAME [of_nat i] h)
      of (success, h) \<Rightarrow>
        link_test E air junk (i + 1) n (if success then (fst r + 1, snd r) else (fst r, snd r + 1)) h)"

definition cmd_link_test :: "'c hs_env \<Rightarrow> (nat \<Rightarrow> 'c air) \<Rightarrow> nrf24_tx_result \<Rightarrow> int option \<Rightarrow> 'c handset \<Rightarrow>
    (nat \<times> nat) \<times> 'c handset" where
  "cmd_link_test E air junk arg h =
     (let count = (case arg of None \<Rightarrow> 10 | Some c \<Rightarrow> if c < 1 then 1 else if c > 100 then 100 else c)
      in link_test E air junk 0 (nat count) (0, 0) h)"

definition cmd_sleep :: "'c hs_env \<Rightarrow> bool \<Rightarrow> 'c handset \<Rightarrow> 'c handset" where
  "cmd_sleep E forced h = (if sleeping h then h else system_sleep E forced h)"

section \<open>Analogue inputs (adc.c)\<close>

definition CAN_SLEEP_MS :: u32 where "CAN_SLEEP_MS = 20"
definition RF24_SLEEP_MS :: u32 where "RF24_SLEEP_MS = 60"
definition XY_SAMPLE_COUNT :: nat where "XY_SAMPLE_COUNT = 10"
definition POWER_SAMPLE_COUNT :: nat where "POWER_SAMPLE_COUNT = 10"

text \<open>\<open>chans\<close>: is the device of each channel ready, and the result of its set-up.\<close>

fun adc_init_channels :: "(bool \<times> int) list \<Rightarrow> int \<Rightarrow> int" where
  "adc_init_channels [] ret = ret"
| "adc_init_channels ((ready, r) # cs) ret =
     (if \<not> ready then - NODEV else if r < 0 then r else adc_init_channels cs r)"

text \<open>C division truncates towards zero.\<close>

definition trim_avg :: "int list \<Rightarrow> int" where
  "trim_avg samples =
     (let min_v = fold (\<lambda>v m. if v < m then v else m) samples (samples ! 0);
          max_v = fold (\<lambda>v m. if v > m then v else m) samples (samples ! 0);
          total = fold (\<lambda>v s. s + v) samples 0
      in (total - min_v - max_v) sdiv (int (length samples) - 2))"

definition clamp_mv :: "int \<Rightarrow> int" where
  "clamp_mv v = (if v < 500 then 500 else if v > 4500 then 4500 else v)"

definition axis_degree :: "int \<Rightarrow> int" where
  "axis_degree val_mv = (clamp_mv ((val_mv * 10) sdiv 6) - 500) * 40 sdiv 4000 - 20"

text \<open>
  The sampling loop for one axis: a reading that fails keeps the sample of the last round.  \<open>reads ! i\<close> is the
  i-th reading in millivolts (the raw value where the conversion fails), \<open>None\<close> when it failed.
\<close>

fun sample_axis :: "int option list \<Rightarrow> nat \<Rightarrow> int list \<Rightarrow> int list" where
  "sample_axis [] i samples = samples"
| "sample_axis (r # rs) i samples =
     sample_axis rs (i + 1) (case r of None \<Rightarrow> samples | Some mv \<Rightarrow> samples[i := axis_degree mv])"

text \<open>A turn of adc_read_thread: the samples of both axes are static arrays.\<close>

definition adc_read_turn :: "'c hs_env \<Rightarrow> 'c air \<Rightarrow> nrf24_tx_result \<Rightarrow> int option list \<Rightarrow> int option list \<Rightarrow> u32 \<Rightarrow>
    int list \<times> int list \<Rightarrow> 'c handset \<Rightarrow> (int list \<times> int list) \<times> 'c handset" where
  "adc_read_turn E air junk xs ys now = (\<lambda>(x_samples, y_samples) h.
     if sleeping h then ((x_samples, y_samples), h)
     else
       let x_samples = sample_axis xs 0 x_samples;
           y_samples = sample_axis ys 0 y_samples;
           x = trim_avg x_samples; y = trim_avg y_samples;
           h = (if x \<noteq> x_degree h \<or> y \<noteq> y_degree h
                then h\<lparr>last_activity_time := now, x_degree := x, y_degree := y\<rparr> else h)
       in ((x_samples, y_samples), snd (send_handler_state E air junk (state_report E h) h)))"

text \<open>How long adc_read_thread sleeps after a turn that took \<open>diff\<close> ms.\<close>

definition adc_pause :: "u32 \<Rightarrow> 'c handset \<Rightarrow> u32" where
  "adc_pause diff h =
     (let sleep_ms = (if connect_type h = CAN_TYPE then CAN_SLEEP_MS else RF24_SLEEP_MS)
      in if diff < sleep_ms then sleep_ms - diff else 0)"

text \<open>
  A turn of adc_power_thread: its samples, how many there are, and the last average.  \<open>reading\<close> is \<open>None\<close>
  when reading or conversion failed; \<open>status\<close> is read_battery_status.
\<close>

definition adc_power_turn :: "int option \<Rightarrow> battery_status \<Rightarrow> int list \<times> nat \<times> int \<Rightarrow> 'c handset \<Rightarrow>
    (int list \<times> nat \<times> int) \<times> 'c handset" where
  "adc_power_turn reading status = (\<lambda>(samples, idx, avg) h.
     if sleeping h then ((samples, idx, avg), h)
     else
       let (samples, idx) = (case reading of None \<Rightarrow> (samples, idx) | Some mv \<Rightarrow> (samples[idx := mv * 2], idx + 1))
       in if idx \<ge> POWER_SAMPLE_COUNT then
            let avg = trim_avg samples;
                h = (if of_int avg \<noteq> power_mv h \<or> battery h \<noteq> status
                     then (draw (Show_battery (of_int avg) status) h)\<lparr>power_mv := of_int avg, battery := status\<rparr> else h)
            in ((samples, 0, avg), h)
          else ((samples, idx, avg), h))"

end
