(* ===== verification/Handset_Angles.thy ===== *)
theory Handset_Angles
  imports Handset_Power
begin

text \<open>
  The angles of the handset: each is in the range of the mechanism whatever is read, and the report on the CAN bus
  carries it (the property is in theory Handset_Props).
\<close>

section \<open>Samples and their average\<close>

lemma sdiv_between:
  fixes n k a b :: int
  assumes "0 < k" and "k * a \<le> n" and "n \<le> k * b"
  shows "a \<le> n sdiv k \<and> n sdiv k \<le> b"
proof -
  have bound: "u \<le> m div k \<and> m div k \<le> v" if "k * u \<le> m" "m \<le> k * v" for u v m
    using zdiv_mono1 [OF that(1) assms(1)] zdiv_mono1 [OF that(2) assms(1)] assms(1) by simp
  show ?thesis
  proof (cases "0 \<le> n")
    case True
    then have "n sdiv k = n div k" using assms(1) by (cases "n = 0") (simp_all add: signed_divide_int_def)
    then show ?thesis using bound [OF assms(2,3)] by simp
  next
    case False
    then have "n sdiv k = - ((- n) div k)" using assms(1) by (simp add: signed_divide_int_def)
    then show ?thesis using bound [of "- b" "- n" "- a"] assms(2,3) by simp
  qed
qed

lemma trim_avg_between:
  assumes "3 \<le> length xs" and "\<forall>v \<in> set xs. lo \<le> v \<and> v \<le> hi"
  shows "lo \<le> trim_avg xs \<and> trim_avg xs \<le> hi"
proof -
  define mn where "mn = fold (\<lambda>v m. if v < m then v else m) xs (xs ! 0)"
  define mx where "mx = fold (\<lambda>v m. if v > m then v else m) xs (xs ! 0)"
  define k where "k = int (length xs) - 2"
  have 0: "xs ! 0 \<in> set xs" using assms(1) by (intro nth_mem) auto
  have "mn \<in> insert (xs ! 0) (set xs)" unfolding mn_def by (rule fold_pick) simp
  then have mn: "mn \<in> set xs" "\<forall>v \<in> set xs. mn \<le> v"
    using fold_min_le [of "xs ! 0" xs] 0 by (auto simp: mn_def)
  have "mx \<in> insert (xs ! 0) (set xs)" unfolding mx_def by (rule fold_pick) simp
  then have mx: "mx \<in> set xs" "\<forall>v \<in> set xs. v \<le> mx"
    using fold_max_ge [of "xs ! 0" xs] 0 by (auto simp: mx_def)
  have k: "0 < k" using assms(1) by (simp add: k_def)
  have "k * lo \<le> k * mn" "k * mx \<le> k * hi" using assms(2) mn(1) mx(1) k by (simp_all add: mult_left_mono)
  moreover have "sum_list xs \<le> mn + (k + 1) * mx" "mx + (k + 1) * mn \<le> sum_list xs"
    using sum_list_upper [OF mn(1) mx(2)] sum_list_lower [OF mx(1) mn(2)] by (simp_all add: k_def)
  ultimately have "k * lo \<le> sum_list xs - mn - mx" "sum_list xs - mn - mx \<le> k * hi" by (simp_all add: algebra_simps)
  then show ?thesis
    using sdiv_between [OF k] by (simp add: trim_avg_def Let_def fold_sum mn_def mx_def k_def)
qed

lemma axis_degree_range: "- 20 \<le> axis_degree v \<and> axis_degree v \<le> 20"
proof -
  have "500 \<le> clamp_mv x \<and> clamp_mv x \<le> 4500" for x by (simp add: clamp_mv_def)
  from this [of "(v * 10) sdiv 6"] have "0 \<le> (clamp_mv ((v * 10) sdiv 6) - 500) * 40 sdiv 4000"
    "(clamp_mv ((v * 10) sdiv 6) - 500) * 40 sdiv 4000 \<le> 40"
    using sdiv_between [of 4000 0 _ 40] by simp_all
  then show ?thesis by (simp add: axis_degree_def)
qed

lemma sample_axis_range:
  assumes "\<forall>v \<in> set xs. - 20 \<le> v \<and> v \<le> 20"
  shows "length (sample_axis rs i xs) = length xs \<and> (\<forall>v \<in> set (sample_axis rs i xs). - 20 \<le> v \<and> v \<le> 20)"
  using assms
proof (induction rs i xs rule: sample_axis.induct)
  case (2 r rs i xs)
  have "\<forall>v \<in> set (xs[i := axis_degree mv]). - 20 \<le> v \<and> v \<le> 20" for mv
    using set_update_subset_insert [of xs i "axis_degree mv"] 2(2) axis_degree_range [of mv] by blast
  then have "\<forall>v \<in> set (case r of None \<Rightarrow> xs | Some mv \<Rightarrow> xs[i := axis_degree mv]). - 20 \<le> v \<and> v \<le> 20"
    using 2(2) by (cases r) simp_all
  from 2(1) [OF this] show ?case by (cases r) simp_all
qed simp

lemma data_send_keeps_angles:
  "x_degree (snd (rf24_data_send E air junk cid data h)) = x_degree h"
  "y_degree (snd (rf24_data_send E air junk cid data h)) = y_degree h"
  by (auto simp: rf24_data_send_def rf24_update_rssi_def draw_def Let_def split: prod.splits option.splits)

lemma state_report_length: "byteorder_ok (he_bo E) \<Longrightarrow> length (state_report E h) = 8"
  using byteorder_okD(2) [of "he_bo E"] by (simp add: state_report_def)

definition angles_ok :: "int list \<Rightarrow> bool" where
  "angles_ok xs = (length xs = XY_SAMPLE_COUNT \<and> (\<forall>v \<in> set xs. - 20 \<le> v \<and> v \<le> 20))"

lemma angles_ok_sample: "angles_ok xs \<Longrightarrow> angles_ok (sample_axis rs i xs)"
  using sample_axis_range [of xs rs i] by (simp add: angles_ok_def)

lemma angles_ok_average: "angles_ok xs \<Longrightarrow> - 20 \<le> trim_avg xs \<and> trim_avg xs \<le> 20"
  using trim_avg_between [of xs "- 20" 20] by (simp add: angles_ok_def XY_SAMPLE_COUNT_def)

lemma angle_in_word: "- 20 \<le> v \<Longrightarrow> v \<le> 20 \<Longrightarrow> sint (of_int v :: u16) = v"
  by (simp add: signed_take_bit_int_eq_self signed_of_int)

lemma report_decodes:
  assumes "byteorder_ok (he_bo E)" and "- 20 \<le> x_degree h" "x_degree h \<le> 20" "- 20 \<le> y_degree h" "y_degree h \<le> 20"
  shows "sint (get_be16 (he_bo E) (state_report E h)) = x_degree h \<and>
    sint (get_be16 (he_bo E) (drop 2 (state_report E h))) = y_degree h \<and> state_report E h ! 4 = h_button h"
  using assms byteorder_okD(2,5) [OF assms(1)]
  by (simp add: state_report_def angle_in_word nth_append)

end
