(* ===== verification/Handset_Props.thy ===== *)
theory Handset_Props
  imports Handset_Angles Nrf24_Props Settings
begin

text \<open>
  What the handset achieves: signal quality, scanner frames from the gateway, angles and their report, and which
  supplies are on when it is awake and asleep.
\<close>

section \<open>A handset at rest\<close>

definition sim_scanner :: scanner_data where
  "sim_scanner = \<lparr>overbreak_valid = 0, overbreak_value = 0, laser_valid = 0, laser_distance = 0, coord_xy_valid = 0,
     coord_x = 0, coord_y = 0, coord_z_valid = 0, coord_z = 0\<rparr>"

text \<open>The static data of the handset around a radio.\<close>

definition hs_static :: "'c nrf24 \<Rightarrow> 'c handset" where
  "hs_static d = \<lparr>x_degree = 0, y_degree = 0, h_button = 0, power_mv = 0, connect_type = 0, report_period = 0,
     battery = BATTERY_STATUS_UNKNOWN, scanner = sim_scanner, rssi = 0, sleeping = False, ev_wake = False,
     ev_can = False, ev_rf24 = False, hs_log = False, hs_addr = replicate 5 0, rf24_quality = RF24_QUAL_INIT,
     can_dev = False, can_tx = [], disp = [], can_power = False, dis_power = False, handler_power = False,
     waking = False, btn_display_work = None, linksw_work = None, sleep_work = None, stop_forced = False,
     last_activity_time = 0, hs_store = Map.empty, hs_dev = d,
     hs_crypt = \<lparr>crypt_key = [], tx_counter = 0, rx_counter = 0, rx_initialized = False\<rparr>,
     hs_shell = test_shell_static\<rparr>"

text \<open>A handset around the simulated radio, and a gateway's scanner frame in its queue.\<close>

definition sim_hs_env :: "chip hs_env" where
  "sim_hs_env = \<lparr>he_bo = std_byteorder, he_crypt = True, he_ready = True, he_hw = sim_hw,
     he_dt = board_config\<lparr>nc_power_port := True\<rparr>, he_can_send = (\<lambda>_. 0), he_name_next = (\<lambda>s. (length s, None))\<rparr>"

definition sim_handset :: "chip handset" where
  "sim_handset = (hs_static (nrf24_static (sim_chip 0 [])))\<lparr>connect_type := CAN_TYPE, can_dev := True\<rparr>"

definition sim_air :: "chip air" where
  "sim_air = \<lparr>air_wait = (\<lambda>_ d. (True, 0, d)), air_uptime = (\<lambda>_. 0), air_now = 9\<rparr>"

section \<open>Signal quality\<close>

lemma tx_level_range: "0 \<le> uint (rf24_tx_level a r) \<and> uint (rf24_tx_level a r) \<le> 4 \<and> uint (rf24_tx_level False r) = 0"
  by (simp add: rf24_tx_level_def)

lemma average_range:
  fixes lv q n :: int
  assumes "0 \<le> lv" "lv \<le> 4" "0 \<le> q" "q \<le> n" "25 \<le> n"
  shows "0 \<le> (lv * 8 + q * 7) div 8" and "(lv * 8 + q * 7) div 8 \<le> n"
proof -
  show "0 \<le> (lv * 8 + q * 7) div 8" using assms(1,3) by simp
  have "(lv * 8 + q * 7) div 8 \<le> (n * 8 + 7) div 8" using assms by (intro zdiv_mono1) simp_all
  also have "\<dots> = n" by simp
  finally show "(lv * 8 + q * 7) div 8 \<le> n" .
qed

lemma next_quality_range:
  assumes "0 \<le> q" and "q \<le> n" and "25 \<le> n"
  shows "0 \<le> next_quality a r q \<and> next_quality a r q \<le> n"
  using average_range [OF _ _ assms, of "uint (rf24_tx_level a r)"] tx_level_range [of a r]
  by (auto simp: next_quality_def Let_def qual_defs)

lemma failed_quality: "0 \<le> q \<Longrightarrow> q \<le> 32 \<Longrightarrow> 0 \<le> next_quality False r q \<and> next_quality False r q \<le> 12"
  by (simp add: next_quality_def Let_def qual_defs rf24_tx_level_def) presburger

lemma update_rssi_fields:
  "rf24_quality (rf24_update_rssi a r h) = next_quality a r (rf24_quality h)"
  "rssi (rf24_update_rssi a r h) = quality_level (next_quality a r (rf24_quality h))"
  by (simp_all add: rf24_update_rssi_def Let_def draw_def)

lemma quality_level_below: "q \<le> 27 \<Longrightarrow> quality_level q \<le> 3"
  by (simp add: quality_level_def)

lemma updates_below:
  "0 \<le> rf24_quality h \<Longrightarrow> rf24_quality h \<le> 27 \<Longrightarrow> rssi h \<le> 3 \<Longrightarrow>
   let h' = fold (\<lambda>(a, r). rf24_update_rssi a r) results h
   in 0 \<le> rf24_quality h' \<and> rf24_quality h' \<le> 27 \<and> rssi h' \<le> 3"
proof (induction results arbitrary: h)
  case Nil
  then show ?case by (simp add: Let_def)
next
  case (Cons x results)
  obtain a r where x: "x = (a, r)" by (cases x)
  have "0 \<le> next_quality a r (rf24_quality h)" "next_quality a r (rf24_quality h) \<le> 27"
    using next_quality_range [of "rf24_quality h" 27 a r] Cons.prems by simp_all
  then show ?case
    using Cons.IH [of "rf24_update_rssi a r h"] by (simp add: x update_rssi_fields quality_level_below)
qed

text \<open>
  one failed transmission takes the full signal bar away until the radio is started again: from any quality
  the variable can have, after a failure the level shown stays at most 3 however many transmissions follow and
  however well they go, because the average, rounded down, is stuck below 28 (25, 26 and 27 are its fixed points
  under perfect transmissions).
\<close>

theorem failure_costs_full_bar:
  assumes "0 \<le> rf24_quality h" and "rf24_quality h \<le> RF24_QUAL_INIT"
  shows "let h' = fold (\<lambda>(a, r). rf24_update_rssi a r) ((False, n) # results) h
    in 0 \<le> rf24_quality h' \<and> rf24_quality h' < 28 \<and> rssi h' \<le> 3"
proof -
  have "0 \<le> next_quality False n (rf24_quality h)" "next_quality False n (rf24_quality h) \<le> 27"
    using failed_quality [of "rf24_quality h" n] assms by (simp_all add: qual_defs)
  then have "let h' = fold (\<lambda>(a, r). rf24_update_rssi a r) results (rf24_update_rssi False n h)
      in 0 \<le> rf24_quality h' \<and> rf24_quality h' \<le> 27 \<and> rssi h' \<le> 3"
    by (intro updates_below) (simp_all add: update_rssi_fields quality_level_below)
  then show ?thesis by (simp add: Let_def)
qed

theorem failure_costs_full_bar_witness:
  "rf24_quality (hs_static (nrf24_static ())) = 32 \<and>
   rssi (fold (\<lambda>(a, r). rf24_update_rssi a r) ((False, 15) # replicate 1000 (True, 0)) (hs_static (nrf24_static ()))) \<le> 3"
  using failure_costs_full_bar [of "hs_static (nrf24_static ())" 15 "replicate 1000 (True, 0)"]
  by (simp add: Let_def hs_static_def qual_defs)

section \<open>Scanner frames\<close>

text \<open>
  scanner data from the gateway: a frame the gateway's framing accepts, received while fewer than 32 frames
  were lost, sets the coordinates to the signed values sent when it has the eight bytes of the protocol; but any
  payload of 9 to 29 bytes, which the gateway forwards from its UDP data port unchecked, makes the receive
  thread copy past the eight data bytes of a frame on its stack.
\<close>

theorem scanner_frame_received:
  assumes "byteorder_ok (he_bo E)" and "he_ready E" and "\<not> sleeping h" and "ev_rf24 h"
    and "crypt_lag t (hs_crypt h) d" and "d < 32" and "length data \<le> 29"
    and "rf24_pack (he_crypt E) (he_bo E) cid data t = (Some f, t')"
    and "nd_rx_msgq (hs_dev h) = Some q" and "mq_items q = f # fs"
    and "cid = OVERBREAK_LASER \<or> cid = COORD_XY \<or> cid = COORD_Z"
  shows "(8 < length data \<longrightarrow> rf24_rx E air junk h = Inl (length data - 8)) \<and>
    (\<forall>x y. cid = COORD_XY \<and> data = put_be32 (he_bo E) x @ put_be32 (he_bo E) y \<longrightarrow>
      (\<exists>h'. rf24_rx E air junk h = Inr h' \<and> coord_x (scanner h') = sint x \<and> coord_y (scanner h') = sint y \<and>
        coord_xy_valid (scanner h') = 1 \<and> nd_rx_msgq (hs_dev h') = Some (q\<lparr>mq_items := fs\<rparr>)))"
proof -
  let ?p = "put_be16 (he_bo E) cid @ data"
  have f: "f = on_air (he_crypt E) (he_bo E) t ?p"
    using assms(8) rf24_pack_on_air [OF assms(1,7), of "he_crypt E" cid t] by simp
  obtain r where u: "rf24_unpack (he_crypt E) (he_bo E) f (hs_crypt h) = (Some ?p, r)"
    using unpack_on_air [OF assms(5,6) frame_ok_payload [OF assms(1,7), of cid]] unfolding f by blast
  have l2: "length (put_be16 (he_bo E) c) = 2" for c using byteorder_okD(2) [OF assms(1)] by simp
  have id: "get_be16 (he_bo E) ?p = cid" by (rule byteorder_okD(5) [OF assms(1)])
  have t: "cid \<noteq> TEST_FRAME" using assms(11) by (auto simp: rf24_consts)
  have data: "drop RF24_ID_SIZE ?p = data" using l2 by (simp add: rf24_consts)
  define h1 where "h1 = h\<lparr>hs_dev := (hs_dev h)\<lparr>nd_rx_msgq := Some (q\<lparr>mq_items := fs\<rparr>)\<rparr>, hs_crypt := r\<rparr>"
  have rx: "rf24_rx E air junk h =
      (if length data > 8 then Inl (length data - 8)
       else Inr (mod_can_parse_scanner E \<lparr>can_id = ucast cid, can_dlc = bytes_to_dlc (he_bo E) (of_nat (length data)),
         can_data = mem_put 0 data (replicate 8 0)\<rparr> h1))"
    using assms(2-4,9-11) t
    by (auto simp: rf24_rx_def Let_def rf24_rx_msgq_def u id data l2 rf24_consts h1_def)
  show ?thesis
  proof (intro conjI allI impI)
    assume "8 < length data"
    then show "rf24_rx E air junk h = Inl (length data - 8)" by (simp add: rx)
  next
    fix x y assume xy: "cid = COORD_XY \<and> data = put_be32 (he_bo E) x @ put_be32 (he_bo E) y"
    have l4: "length (put_be32 (he_bo E) z) = 4" for z using byteorder_okD(3) [OF assms(1)] by simp
    have g: "get_be32 (he_bo E) (put_be32 (he_bo E) z @ rest) = z" for z rest by (rule byteorder_okD(6) [OF assms(1)])
    have m: "mem_put 0 (put_be32 (he_bo E) x @ put_be32 (he_bo E) y) (replicate 8 0) =
        put_be32 (he_bo E) x @ put_be32 (he_bo E) y" using l4 by (simp add: mem_put_def)
    show "\<exists>h'. rf24_rx E air junk h = Inr h' \<and> coord_x (scanner h') = sint x \<and> coord_y (scanner h') = sint y \<and>
        coord_xy_valid (scanner h') = 1 \<and> nd_rx_msgq (hs_dev h') = Some (q\<lparr>mq_items := fs\<rparr>)"
      using xy l4 g [of y "[]"] by (simp add: rx m mod_can_parse_scanner_def Let_def rf24_consts g h1_def)
  qed
qed

theorem scanner_frame_received_witness:
  "\<exists>h'. rf24_rx sim_hs_env sim_air \<lparr>tx_acked = False, tx_elapsed_ms = 0, tx_retransmits = 0\<rparr>
     (sim_handset\<lparr>ev_rf24 := True, hs_dev := nrf24_add_rx_msgq \<lparr>mq_max = 8, mq_items =
        [on_air True std_byteorder (hs_crypt sim_handset)
          (put_be16 std_byteorder COORD_XY @ put_be32 std_byteorder 7 @ put_be32 std_byteorder (- 7))]\<rparr>
        (hs_dev sim_handset)\<rparr>) = Inr h' \<and>
     coord_x (scanner h') = 7 \<and> coord_y (scanner h') = - 7"
proof -
  define data where "data = put_be32 std_byteorder 7 @ put_be32 std_byteorder (- 7)"
  define f where "f = on_air True std_byteorder (hs_crypt sim_handset) (put_be16 std_byteorder COORD_XY @ data)"
  define q where "q = \<lparr>mq_max = 8, mq_items = [f]\<rparr>"
  define h where "h = sim_handset\<lparr>ev_rf24 := True, hs_dev := nrf24_add_rx_msgq q (hs_dev sim_handset)\<rparr>"
  define junk where "junk = \<lparr>tx_acked = False, tx_elapsed_ms = 0, tx_retransmits = 0\<rparr>"
  have l: "length data \<le> 29" using byteorder_okD(3) [OF std_byteorder_ok] by (simp add: data_def)
  have E: "he_bo sim_hs_env = std_byteorder" "he_crypt sim_hs_env" "he_ready sim_hs_env"
    by (simp_all add: sim_hs_env_def)
  have h: "\<not> sleeping h" "ev_rf24 h" "crypt_lag (hs_crypt sim_handset) (hs_crypt h) 0"
    "nd_rx_msgq (hs_dev h) = Some q" "mq_items q = f # []"
    by (simp_all add: h_def q_def sim_handset_def hs_static_def nrf24_add_rx_msgq_def crypt_lag_def)
  have bo: "byteorder_ok (he_bo sim_hs_env)" by (simp add: E std_byteorder_ok)
  have pack: "rf24_pack (he_crypt sim_hs_env) (he_bo sim_hs_env) COORD_XY data (hs_crypt sim_handset) =
      (Some f, after_air True std_byteorder (hs_crypt sim_handset) (put_be16 std_byteorder COORD_XY @ data))"
    using rf24_pack_on_air [OF std_byteorder_ok l, of True] by (simp add: E f_def)
  have "(0 :: nat) < 32" "COORD_XY = OVERBREAK_LASER \<or> COORD_XY = COORD_XY \<or> COORD_XY = COORD_Z"
    "COORD_XY = COORD_XY \<and> data = put_be32 (he_bo sim_hs_env) 7 @ put_be32 (he_bo sim_hs_env) (- 7)"
    by (simp_all add: E data_def)
  from scanner_frame_received [OF bo E(3) h(1-3) this(1) l pack h(4,5) this(2), THEN conjunct2, rule_format, OF this(3)]
  obtain h' where "rf24_rx sim_hs_env sim_air junk h = Inr h'" "coord_x (scanner h') = sint (7 :: u32)"
      "coord_y (scanner h') = sint (- 7 :: u32)"
    by blast
  then show ?thesis unfolding h_def q_def f_def data_def junk_def by (intro exI [of _ h']) simp
qed

section \<open>Angles\<close>



section \<open>Stored settings\<close>

definition hs_params_ok :: "'c handset \<Rightarrow> bool" where
  "hs_params_ok h \<longleftrightarrow> length (hs_addr h) = 5 \<and> (connect_type h = CAN_TYPE \<or> connect_type h = RF24_TYPE)"

lemma hs_load_entries:
  assumes "names_ok (he_name_next E)"
  shows "hs_load_entry E (''persist/connect_type'', v) h =
      (if length v = 1 \<and> (v ! 0 = CAN_TYPE \<or> v ! 0 = RF24_TYPE) then h\<lparr>connect_type := v ! 0\<rparr> else h)"
    "hs_load_entry E (''persist/rf24_addr'', v) h = (if length v = 5 then h\<lparr>hs_addr := v\<rparr> else h)"
  using assms by (simp_all add: hs_load_entry_def hs_persist_set_def names_ok_def rf24_consts)

interpretation hs_settings: settings hs_persist_export "hs_load_entry E"
    "\<lambda>g. names_ok (he_name_next E) \<and> hs_params_ok g"
    "\<lambda>g h. h\<lparr>connect_type := connect_type g, hs_addr := hs_addr g\<rparr>" for E
proof
  fix g h :: "'a handset" and x y
  assume v: "names_ok (he_name_next E) \<and> hs_params_ok g"
  note load = hs_load_entries [OF conjunct1 [OF v]]
  show "x \<in> set (hs_persist_export g) \<Longrightarrow> y \<in> set (hs_persist_export g) \<Longrightarrow>
      hs_load_entry E x (hs_load_entry E y h) = hs_load_entry E y (hs_load_entry E x h)"
    by (auto simp: hs_persist_export_def load)
  show "fold (hs_load_entry E) (hs_persist_export g) h = h\<lparr>connect_type := connect_type g, hs_addr := hs_addr g\<rparr>"
    using v by (simp add: hs_persist_export_def load hs_params_ok_def)
qed

text \<open>The link that was selected and the address come back after a restart.\<close>

lemma hs_settings_restored:
  fixes g h :: "'c handset"
  assumes "names_ok (he_name_next E)" and "hs_params_ok g" and "mset stored = mset (hs_persist_export g)"
  shows "fold (hs_load_entry E) stored h = h\<lparr>connect_type := connect_type g, hs_addr := hs_addr g\<rparr>"
  using assms hs_settings.load_restores [of E g stored h] by simp

end
