(* ===== verification/Posix.thy ===== *)
theory Posix
  imports Prelude
begin

text \<open>
  The POSIX calls of the kernel that the data collector's programs use (files, directories, sockets): a
  parameter of the model.  \<open>'w\<close> is everything behind the calls.  opendir, readdir and closedir are one call that
  answers the names in the order of readdir.
\<close>

datatype open_mode = Rdonly | Wronly | Creat_wronly | Creat_trunc

record file_stat =
  st_mode :: u32
  st_is_reg :: bool
  st_is_dir :: bool
  st_nlink :: int
  st_size :: int
  st_mtime :: int

record 'w posix =
  px_list :: "string \<Rightarrow> 'w \<Rightarrow> string list option \<times> 'w"
  px_stat :: "string \<Rightarrow> 'w \<Rightarrow> file_stat option \<times> 'w"
  px_mkdir :: "string \<Rightarrow> 'w \<Rightarrow> int \<times> 'w"
  px_unlink :: "string \<Rightarrow> 'w \<Rightarrow> int \<times> 'w"
  px_open :: "open_mode \<Rightarrow> string \<Rightarrow> 'w \<Rightarrow> int \<times> 'w"
  px_seek_end :: "int \<Rightarrow> 'w \<Rightarrow> int \<times> 'w"
  px_seek_set :: "int \<Rightarrow> int \<Rightarrow> 'w \<Rightarrow> int \<times> 'w"
  px_read :: "int \<Rightarrow> nat \<Rightarrow> 'w \<Rightarrow> int \<times> bytes \<times> 'w"
  px_write :: "int \<Rightarrow> bytes \<Rightarrow> 'w \<Rightarrow> int \<times> 'w"
  px_sync :: "int \<Rightarrow> 'w \<Rightarrow> 'w"
  px_close :: "int \<Rightarrow> 'w \<Rightarrow> 'w"
  px_socket :: "'w \<Rightarrow> int \<times> 'w"
  px_bind :: "int \<Rightarrow> u16 \<Rightarrow> 'w \<Rightarrow> int \<times> 'w"
  px_sockname :: "int \<Rightarrow> 'w \<Rightarrow> u16 \<times> 'w"
  px_listen :: "int \<Rightarrow> 'w \<Rightarrow> int \<times> 'w"
  px_sndtimeo :: "int \<Rightarrow> 'w \<Rightarrow> int \<times> 'w"
  px_connect :: "int \<Rightarrow> string \<Rightarrow> u16 \<Rightarrow> 'w \<Rightarrow> int \<times> 'w"
  px_accept :: "int \<Rightarrow> 'w \<Rightarrow> int \<times> 'w"
  px_send :: "int \<Rightarrow> bytes \<Rightarrow> 'w \<Rightarrow> int \<times> 'w"
  px_select :: "int \<Rightarrow> nat \<Rightarrow> 'w \<Rightarrow> int \<times> 'w"
  px_recv :: "int \<Rightarrow> nat \<Rightarrow> 'w \<Rightarrow> int \<times> bytes \<times> 'w"

end
