(* ===== verification/History.thy ===== *)
theory History
  imports Posix
begin

text \<open>
  The history files of the data collector, \<open>modbus/history.c\<close>: records of the sampling threads go through a
  queue and the system work queue into files of at most 1 MiB named after their creation time; when there are
  ten, the oldest is deleted.
\<close>

definition MAX_FILE_SIZE :: nat where "MAX_FILE_SIZE = 1024 * 1024"
definition MAX_FILE_NUM :: nat where "MAX_FILE_NUM = 10 * 1024 * 1024 div MAX_FILE_SIZE"

definition DI_TYPE :: u16 where "DI_TYPE = 1"
definition AI_TYPE :: u16 where "AI_TYPE = 2"

text \<open>struct his_data is packed; its union (six or ten bytes) is kept as memory.\<close>

record his_data =
  his_type :: u16
  timestamps :: u32
  his_union :: bytes

definition his_bytes :: "his_data \<Rightarrow> bytes" where
  "his_bytes d = u16_mem (his_type d) @ le32_bytes (timestamps d) @ his_union d"

text \<open>
  The queue holds pointers to the \<open>data\<close> variables of the two sampling threads.  The mutex remembers its owner
  and how often it was locked; threads are numbers.
\<close>

datatype his_addr = Di_data | Ai_data

record 'w history =
  his_fd :: int
  fd_offset :: int
  enable_write :: bool
  h_lock :: "(nat \<times> nat) option"
  his_rx_fifo :: "his_addr list"
  his_mem :: "his_addr \<Rightarrow> his_data"
  his_world :: 'w

section \<open>The kernel's mutex\<close>

text \<open>A thread may lock again what it owns; \<open>None\<close>: the call does not return while the owner keeps it.\<close>

definition k_mutex_lock :: "nat \<Rightarrow> 'w history \<Rightarrow> 'w history option" where
  "k_mutex_lock t s =
     (case h_lock s of
        None \<Rightarrow> Some (s\<lparr>h_lock := Some (t, 1)\<rparr>)
      | Some (u, n) \<Rightarrow> if u = t then Some (s\<lparr>h_lock := Some (t, n + 1)\<rparr>) else None)"

definition k_mutex_unlock :: "nat \<Rightarrow> 'w history \<Rightarrow> 'w history" where
  "k_mutex_unlock t s =
     (case h_lock s of
        None \<Rightarrow> s
      | Some (u, n) \<Rightarrow> if u = t then s\<lparr>h_lock := (if n > 1 then Some (t, n - 1) else None)\<rparr> else s)"

section \<open>Choosing a file\<close>

text \<open>sscanf(name, "data_%u.raw", &tmp): the number, when the prefix matches and a number follows.\<close>

definition is_space :: "char \<Rightarrow> bool" where
  "is_space c = (c = CHR '' '' \<or> (9 \<le> (of_char c :: nat) \<and> (of_char c :: nat) \<le> 13))"

definition is_digit :: "char \<Rightarrow> bool" where
  "is_digit c = (48 \<le> (of_char c :: nat) \<and> (of_char c :: nat) \<le> 57)"

definition digits_val :: "string \<Rightarrow> nat" where
  "digits_val s = fold (\<lambda>c v. 10 * v + (of_char c - 48)) s 0"

definition scan_data :: "string \<Rightarrow> u32 option" where
  "scan_data name =
     (if take 5 name \<noteq> ''data_'' then None
      else
        let s = dropWhile is_space (drop 5 name);
            neg = (take 1 s = ''-'');
            s = (if neg \<or> take 1 s = ''+'' then drop 1 s else s);
            ds = takeWhile is_digit s;
            v = of_nat (digits_val ds)
        in if ds = [] then None else Some (if neg then - v else v))"

text \<open>
  get_file: the best entry so far is its number (0: none), size and name.  The buffers hold 127 characters of a
  path and 63 of a name.  \<open>Inr\<close> is the size with the path and the number of files; in the error case the number
  stays unassigned.
\<close>

definition his_path :: "string \<Rightarrow> string \<Rightarrow> string" where
  "his_path root name = take 127 (root @ ''/'' @ name)"

definition pick_file :: "'w posix \<Rightarrow> string \<Rightarrow> bool \<Rightarrow> string \<Rightarrow> u32 \<times> int \<times> nat \<times> string \<Rightarrow> 'w \<Rightarrow>
    (u32 \<times> int \<times> nat \<times> string) \<times> 'w" where
  "pick_file px root latest name = (\<lambda>(val, sz, num, best) w.
     if take 5 name \<noteq> ''data_'' then ((val, sz, num, best), w)
     else case scan_data name of
            None \<Rightarrow> ((val, sz, num, best), w)
          | Some tmp \<Rightarrow>
              (case px_stat px (his_path root name) w of
                 (None, w) \<Rightarrow> ((val, sz, num, best), w)
               | (Some st, w) \<Rightarrow>
                   if \<not> st_is_reg st then ((val, sz, num, best), w)
                   else if val = 0 \<or> (if latest then val < tmp else val > tmp)
                   then ((tmp, st_size st, num + 1, take 63 name), w)
                   else ((val, sz, num + 1, best), w)))"

fun pick_files :: "'w posix \<Rightarrow> string \<Rightarrow> bool \<Rightarrow> string list \<Rightarrow> u32 \<times> int \<times> nat \<times> string \<Rightarrow> 'w \<Rightarrow>
    (u32 \<times> int \<times> nat \<times> string) \<times> 'w" where
  "pick_files px root latest [] b w = (b, w)"
| "pick_files px root latest (n # ns) b w =
     (case pick_file px root latest n b w of (b, w) \<Rightarrow> pick_files px root latest ns b w)"

definition get_file :: "'w posix \<Rightarrow> string \<Rightarrow> bool \<Rightarrow> 'w \<Rightarrow> (unit + int \<times> string \<times> nat) \<times> 'w" where
  "get_file px root latest w =
     (case px_list px root w of
        (None, w) \<Rightarrow> (Inl (), w)
      | (Some names, w) \<Rightarrow>
          (case pick_files px root latest names (0, 0, 0, []) w of
             ((val, sz, num, best), w) \<Rightarrow>
               (if val = 0 then Inl () else Inr (sz, his_path root best, num), w)))"

text \<open>
  \<open>junk\<close> is the uninitialised number of files; \<open>path\<close> keeps the path of the first search when the second fails.
\<close>

definition data_name :: "string \<Rightarrow> u32 \<Rightarrow> string" where
  "data_name root t = take 127 (root @ ''/data_'' @ dec_string (unat t) @ ''.raw'')"

definition open_latest_file :: "'w posix \<Rightarrow> string \<Rightarrow> nat \<Rightarrow> u32 \<Rightarrow> bool \<Rightarrow> 'w history \<Rightarrow> 'w history" where
  "open_latest_file px root junk now create s =
     (case get_file px root True (his_world s) of (r, w) \<Rightarrow>
        let off = (case r of Inl _ \<Rightarrow> - 1 | Inr (sz, _) \<Rightarrow> sz);
            path = (case r of Inl _ \<Rightarrow> [] | Inr (_, p, _) \<Rightarrow> p);
            file_n = (case r of Inl _ \<Rightarrow> junk | Inr (_, _, n) \<Rightarrow> n);
            s = s\<lparr>fd_offset := off, his_world := w\<rparr>
        in if \<not> file_n > MAX_FILE_NUM \<and> \<not> create \<and> off \<ge> 0 then
             case px_open px Wronly path w of (f, w) \<Rightarrow>
               s\<lparr>his_fd := f, his_world := snd (px_seek_end px f w)\<rparr>
           else
             let w = (if file_n \<ge> MAX_FILE_NUM
                      then case get_file px root False w of
                             (Inl _, w) \<Rightarrow> w
                           | (Inr (_, p, _), w) \<Rightarrow> snd (px_unlink px p w)
                      else w)
             in case px_open px Creat_wronly (data_name root now) w of (f, w) \<Rightarrow>
                  s\<lparr>his_fd := f, fd_offset := 0, his_world := w\<rparr>)"

section \<open>Writing\<close>

text \<open>The comparison is of unsigned numbers; the early return keeps the mutex.\<close>

definition write_history_data :: "'w posix \<Rightarrow> string \<Rightarrow> nat \<Rightarrow> u32 \<Rightarrow> nat \<Rightarrow> bytes \<Rightarrow> 'w history \<Rightarrow>
    (int \<times> 'w history) option" where
  "write_history_data px root junk now t bs s =
     (case k_mutex_lock t s of
        None \<Rightarrow> None
      | Some s \<Rightarrow>
          if \<not> enable_write s then Some (- 1, s)
          else
            let full = (of_int (fd_offset s) + of_nat (length bs) > (of_nat MAX_FILE_SIZE :: u32));
                s = (if full then s\<lparr>his_world := px_close px (his_fd s) (his_world s), his_fd := - 1\<rparr> else s);
                s = (if his_fd s < 0 then open_latest_file px root junk now full s else s)
            in if his_fd s < 0 then Some (- 1, k_mutex_unlock t s)
               else
                 case px_write px (his_fd s) bs (his_world s) of (ret, w) \<Rightarrow>
                   let s = s\<lparr>his_world := w\<rparr>
                   in if ret < 0 then Some (- 1, k_mutex_unlock t s)
                      else
                        let s = s\<lparr>fd_offset := fd_offset s + int (length bs)\<rparr>;
                            s = (if fd_offset s mod 4096 = 0
                                 then s\<lparr>his_world := px_sync px (his_fd s) (his_world s)\<rparr> else s)
                        in Some (0, k_mutex_unlock t s))"

definition history_enable_write :: "'w posix \<Rightarrow> nat \<Rightarrow> bool \<Rightarrow> 'w history \<Rightarrow> 'w history option" where
  "history_enable_write px t enable s =
     (case k_mutex_lock t s of
        None \<Rightarrow> None
      | Some s \<Rightarrow>
          let s = (if \<not> enable \<and> his_fd s \<ge> 0
                   then s\<lparr>his_world := px_close px (his_fd s) (his_world s), his_fd := - 1\<rparr> else s)
          in Some (k_mutex_unlock t (s\<lparr>enable_write := enable\<rparr>)))"

text \<open>The work item, on the system work queue (thread 0), and a producer; \<open>mem\<close>: the kernel had memory for the
  queue's node (the result is ignored).\<close>

fun his_process :: "'w posix \<Rightarrow> string \<Rightarrow> nat \<Rightarrow> u32 \<Rightarrow> his_addr list \<Rightarrow> 'w history \<Rightarrow> 'w history option" where
  "his_process px root junk now [] s = Some s"
| "his_process px root junk now (a # q) s =
     (let s = s\<lparr>his_rx_fifo := q, his_mem := (his_mem s)(a := (his_mem s a)\<lparr>timestamps := now\<rparr>)\<rparr>
      in case write_history_data px root junk now 0 (his_bytes (his_mem s a)) s of
           None \<Rightarrow> None
         | Some (_, s) \<Rightarrow> his_process px root junk now q s)"

definition his_process_save :: "'w posix \<Rightarrow> string \<Rightarrow> nat \<Rightarrow> u32 \<Rightarrow> 'w history \<Rightarrow> 'w history option" where
  "his_process_save px root junk now s = his_process px root junk now (his_rx_fifo s) s"

definition send_history_data :: "bool \<Rightarrow> his_addr \<Rightarrow> 'w history \<Rightarrow> 'w history" where
  "send_history_data mem a s = (if mem then s\<lparr>his_rx_fifo := his_rx_fifo s @ [a]\<rparr> else s)"

definition his_static :: "(his_addr \<Rightarrow> his_data) \<Rightarrow> 'w \<Rightarrow> 'w history" where
  "his_static mem w = \<lparr>his_fd = - 1, fd_offset = 0, enable_write = False, h_lock = None, his_rx_fifo = [],
     his_mem = mem, his_world = w\<rparr>"

end
