(* ===== verification/Collector.thy ===== *)
theory Collector
  imports History Can_Fw Udp_Fw
begin

text \<open>
  The data collector's registers, \<open>applications/data_collect\<close>: the Modbus register map and its callbacks
  (function.c), start-up and the heart timer (init.c), digital outputs and inputs (dio.c), analogue inputs
  (adc.c), the configuration commands shared by UDP and CAN (udp.c, can.c).  A call that takes the history
  mutex may not return: such operations answer an option.  Threads are numbers, see theory History.
\<close>

section \<open>Register map\<close>

definition INPUT_VER_IDX :: nat where "INPUT_VER_IDX = 0"
definition INPUT_AI0_IDX :: nat where "INPUT_AI0_IDX = 1"
definition INPUT_DI_IDX :: nat where "INPUT_DI_IDX = 5"

definition HOLDING_DO_IDX :: nat where "HOLDING_DO_IDX = 0"
definition HOLDING_DI_EN_IDX :: nat where "HOLDING_DI_EN_IDX = 1"
definition HOLDING_AI_EN_IDX :: nat where "HOLDING_AI_EN_IDX = 2"
definition HOLDING_DI_SI_IDX :: nat where "HOLDING_DI_SI_IDX = 3"
definition HOLDING_AI_SI_IDX :: nat where "HOLDING_AI_SI_IDX = 4"
definition HOLDING_HIS_SAVE_IDX :: nat where "HOLDING_HIS_SAVE_IDX = 5"
definition HOLDING_CAN_ID_IDX :: nat where "HOLDING_CAN_ID_IDX = 6"
definition HOLDING_CAN_BPS_IDX :: nat where "HOLDING_CAN_BPS_IDX = 7"
definition HOLDING_RS485_BPS_IDX :: nat where "HOLDING_RS485_BPS_IDX = 8"
definition HOLDING_SLAVE_ID_IDX :: nat where "HOLDING_SLAVE_ID_IDX = 9"
definition HOLDING_IP_ADDR_1_IDX :: nat where "HOLDING_IP_ADDR_1_IDX = 10"
definition HOLDING_IP_ADDR_2_IDX :: nat where "HOLDING_IP_ADDR_2_IDX = 11"
definition HOLDING_IP_ADDR_3_IDX :: nat where "HOLDING_IP_ADDR_3_IDX = 12"
definition HOLDING_IP_ADDR_4_IDX :: nat where "HOLDING_IP_ADDR_4_IDX = 13"
definition HOLDING_TIMESTAMPH_IDX :: nat where "HOLDING_TIMESTAMPH_IDX = 14"
definition HOLDING_TIMESTAMPL_IDX :: nat where "HOLDING_TIMESTAMPL_IDX = 15"
definition HOLDING_CFG_SAVE_IDX :: nat where "HOLDING_CFG_SAVE_IDX = 16"
definition HOLDING_REBOOT_IDX :: nat where "HOLDING_REBOOT_IDX = 17"
definition HOLDING_HEART_EN_IDX :: nat where "HOLDING_HEART_EN_IDX = 18"
definition HOLDING_HEART_TIMEOUT_IDX :: nat where "HOLDING_HEART_TIMEOUT_IDX = 19"
definition HOLDING_HEART_IDX :: nat where "HOLDING_HEART_IDX = 20"
definition HOLDING_TCP_PORT_IDX :: nat where "HOLDING_TCP_PORT_IDX = 21"
definition HOLDING_NET_MODE_IDX :: nat where "HOLDING_NET_MODE_IDX = 22"

text \<open>The sizes of the arrays are the defaults of the project's Kconfig.\<close>

definition MODBUS_HOLDING_REGISTER_NUMBERS :: nat where "MODBUS_HOLDING_REGISTER_NUMBERS = 23"
definition MODBUS_INPUT_REGISTER_NUMBERS :: nat where "MODBUS_INPUT_REGISTER_NUMBERS = 6"
definition MODBUS_COLS_REGISTER_NUMBERS :: nat where "MODBUS_COLS_REGISTER_NUMBERS = 8"

lemmas idx_defs = INPUT_VER_IDX_def INPUT_AI0_IDX_def INPUT_DI_IDX_def HOLDING_DO_IDX_def HOLDING_DI_EN_IDX_def
  HOLDING_AI_EN_IDX_def HOLDING_DI_SI_IDX_def HOLDING_AI_SI_IDX_def HOLDING_HIS_SAVE_IDX_def HOLDING_CAN_ID_IDX_def
  HOLDING_CAN_BPS_IDX_def HOLDING_RS485_BPS_IDX_def HOLDING_SLAVE_ID_IDX_def HOLDING_IP_ADDR_1_IDX_def
  HOLDING_IP_ADDR_2_IDX_def HOLDING_IP_ADDR_3_IDX_def HOLDING_IP_ADDR_4_IDX_def HOLDING_TIMESTAMPH_IDX_def
  HOLDING_TIMESTAMPL_IDX_def HOLDING_CFG_SAVE_IDX_def HOLDING_REBOOT_IDX_def HOLDING_HEART_EN_IDX_def
  HOLDING_HEART_TIMEOUT_IDX_def HOLDING_HEART_IDX_def HOLDING_TCP_PORT_IDX_def HOLDING_NET_MODE_IDX_def
  MODBUS_HOLDING_REGISTER_NUMBERS_def MODBUS_INPUT_REGISTER_NUMBERS_def MODBUS_COLS_REGISTER_NUMBERS_def

definition NOTSUP :: int where "NOTSUP = 134"
definition NOENT :: int where "NOENT = 2"

section \<open>State\<close>

text \<open>
  \<open>do_pins\<close> and \<open>doled_pins\<close> are the levels of the outputs and their lamps, \<open>dc_clock\<close> the last time handed to
  set_timestamp, \<open>dc_rebooted\<close> a call of sys_reboot.
\<close>

record 'w collector =
  holding_reg :: "u16 list"
  input_reg :: "u16 list"
  coils_state :: bytes
  do_pins :: "bool list"
  doled_pins :: "bool list"
  sync_sem :: nat
  dc_clock :: "u32 option"
  dc_rebooted :: bool
  dc_store :: "string \<rightharpoonup> bytes"
  dc_his :: "'w history"
  dc_can_dev :: bool
  dc_can_tx :: "can_frame list"

record 'w dc_env =
  de_bo :: byteorder
  de_px :: "'w posix"
  de_root :: string
  de_name_next :: "string \<Rightarrow> nat \<times> string option"
  de_version :: u32
  de_major :: u16
  de_minor :: u16
  de_can_send :: "can_frame \<Rightarrow> int"

section \<open>Access to the registers (function.c)\<close>

text \<open>Addresses are the numbers of a uint16_t.\<close>

definition coil_rd :: "nat \<Rightarrow> 'w collector \<Rightarrow> int + bool" where
  "coil_rd addr s =
     (if addr \<ge> length (coils_state s) then Inl (- NOTSUP)
      else Inr (bit (coils_state s ! (addr div 8)) (addr mod 8)))"

definition coil_wr :: "nat \<Rightarrow> bool \<Rightarrow> 'w collector \<Rightarrow> int \<times> 'w collector" where
  "coil_wr addr state s =
     (if addr \<ge> length (coils_state s) then (- NOTSUP, s)
      else
        let b = coils_state s ! (addr div 8);
            b = (if state then b OR push_bit (addr mod 8) 1 else b AND NOT (push_bit (addr mod 8) 1))
        in (0, s\<lparr>coils_state := (coils_state s)[addr div 8 := b]\<rparr>))"

definition holding_reg_rd :: "nat \<Rightarrow> 'w collector \<Rightarrow> int + u16" where
  "holding_reg_rd addr s =
     (if addr \<ge> length (holding_reg s) then Inl (- NOTSUP) else Inr (holding_reg s ! addr))"

definition get_holding_reg :: "nat \<Rightarrow> 'w collector \<Rightarrow> u16" where
  "get_holding_reg addr s = (if addr \<ge> length (holding_reg s) then 0 else holding_reg s ! addr)"

definition update_holding_reg :: "nat \<Rightarrow> u16 \<Rightarrow> 'w collector \<Rightarrow> 'w collector" where
  "update_holding_reg addr reg s =
     (if addr \<ge> length (holding_reg s) then s else s\<lparr>holding_reg := (holding_reg s)[addr := reg]\<rparr>)"

definition update_input_reg :: "nat \<Rightarrow> u16 \<Rightarrow> 'w collector \<Rightarrow> 'w collector" where
  "update_input_reg addr reg s =
     (if addr \<ge> length (input_reg s) then s else s\<lparr>input_reg := (input_reg s)[addr := reg]\<rparr>)"

definition input_reg_rd :: "nat \<Rightarrow> 'w collector \<Rightarrow> int + u16" where
  "input_reg_rd addr s =
     (if addr \<ge> length (input_reg s) then Inl (- NOTSUP) else Inr (input_reg s ! addr))"

definition get_input_reg :: "nat \<Rightarrow> 'w collector \<Rightarrow> u16" where
  "get_input_reg index s = (if index < length (input_reg s) then input_reg s ! index else 0)"

section \<open>Digital outputs and inputs (dio.c)\<close>

definition mb_set_do :: "u16 \<Rightarrow> 'w collector \<Rightarrow> 'w collector" where
  "mb_set_do reg s =
     (let n = length (do_pins s)
      in s\<lparr>do_pins := map (\<lambda>i. bit reg i) [0..<n],
           doled_pins := map (\<lambda>i. if i < n then bit reg i else doled_pins s ! i) [0..<length (doled_pins s)]\<rparr>)"

text \<open>dio_init runs over the lamps; an output beyond them is not configured.\<close>

definition dio_init :: "'w collector \<Rightarrow> 'w collector" where
  "dio_init s =
     (let n = length (doled_pins s)
      in s\<lparr>do_pins := map (\<lambda>i. if i < n then False else do_pins s ! i) [0..<length (do_pins s)],
           doled_pins := replicate n False\<rparr>)"

text \<open>A turn of the sampling thread of the inputs; \<open>pins\<close> are their levels.\<close>

definition di_process :: "bool \<Rightarrow> bool list \<Rightarrow> 'w collector \<Rightarrow> 'w collector" where
  "di_process mem pins s =
     (let en = get_holding_reg HOLDING_DI_EN_IDX s;
          val = fold (\<lambda>i v. if bit en i \<and> pins ! i then v OR push_bit i 1 else v) [0..<length pins] (0 :: u16);
          s = update_input_reg INPUT_DI_IDX val s
      in if get_holding_reg HOLDING_HIS_SAVE_IDX s \<noteq> 0 then
           let h = dc_his s;
               d = his_mem h Di_data;
               u = mem_put 2 (u16_mem (get_input_reg INPUT_DI_IDX s)) (his_union d);
               u = mem_put 0 (u16_mem (get_holding_reg HOLDING_DI_EN_IDX s)) u;
               d = d\<lparr>his_type := DI_TYPE, his_union := u\<rparr>
           in s\<lparr>dc_his := send_history_data mem Di_data (h\<lparr>his_mem := (his_mem h)(Di_data := d)\<rparr>)\<rparr>
         else s)"

section \<open>Analogue inputs (adc.c)\<close>

text \<open>
  A turn of adc_handler: \<open>reads ! i\<close> is the i-th channel's value in millivolts, \<open>None\<close> when reading or converting
  failed.  The scaling for the board named DAQ_F407VET6 is not compiled in, no board has this name.
\<close>

fun ai_scan :: "int option list \<Rightarrow> nat \<Rightarrow> 'w collector \<Rightarrow> 'w collector" where
  "ai_scan [] i s = s"
| "ai_scan (r # rs) i s =
     ai_scan rs (i + 1)
       (if bit (get_holding_reg HOLDING_AI_EN_IDX s) i
        then case r of None \<Rightarrow> s | Some mv \<Rightarrow> update_input_reg (INPUT_AI0_IDX + i) (of_int mv) s
        else update_input_reg (INPUT_AI0_IDX + i) 0 s)"

definition adc_process :: "bool \<Rightarrow> int option list \<Rightarrow> 'w collector \<Rightarrow> 'w collector" where
  "adc_process mem reads s =
     (let s = ai_scan reads 0 s
      in if get_holding_reg HOLDING_HIS_SAVE_IDX s \<noteq> 0 then
           let h = dc_his s;
               d = his_mem h Ai_data;
               u = fold (\<lambda>i u. mem_put (2 + 2 * i) (u16_mem (get_input_reg (INPUT_AI0_IDX + i) s)) u)
                     [0..<length reads] (his_union d);
               u = mem_put 0 (u16_mem (get_holding_reg HOLDING_AI_EN_IDX s)) u;
               d = d\<lparr>his_type := AI_TYPE, his_union := u\<rparr>
           in s\<lparr>dc_his := send_history_data mem Ai_data (h\<lparr>his_mem := (his_mem h)(Ai_data := d)\<rparr>)\<rparr>
         else s)"

section \<open>Stored settings (function.c)\<close>

definition reg_value :: "nat \<Rightarrow> nat \<Rightarrow> 'w collector \<Rightarrow> bytes" where
  "reg_value idx n s = take n (drop (2 * idx) (concat (map u16_mem (holding_reg s))))"

text \<open>The name of a setting with its register and the bytes it takes.\<close>

definition mb_keys :: "(string \<times> nat \<times> nat) list" where
  "mb_keys =
     [(''modbus/ai/enable'', HOLDING_AI_EN_IDX, 2), (''modbus/ai/time'', HOLDING_AI_SI_IDX, 2),
      (''modbus/di/enable'', HOLDING_DI_EN_IDX, 2), (''modbus/di/time'', HOLDING_DI_SI_IDX, 2),
      (''modbus/history'', HOLDING_HIS_SAVE_IDX, 2), (''modbus/can/id'', HOLDING_CAN_ID_IDX, 2),
      (''modbus/can/bps'', HOLDING_CAN_BPS_IDX, 2), (''modbus/rs485_bps'', HOLDING_RS485_BPS_IDX, 2),
      (''modbus/slave_id'', HOLDING_SLAVE_ID_IDX, 2), (''modbus/tcp_port'', HOLDING_TCP_PORT_IDX, 2),
      (''modbus/net_mode'', HOLDING_NET_MODE_IDX, 2), (''modbus/ip'', HOLDING_IP_ADDR_1_IDX, 8),
      (''modbus/heart/enable'', HOLDING_HEART_EN_IDX, 2), (''modbus/heart/time'', HOLDING_HEART_TIMEOUT_IDX, 2)]"

definition ip_exported :: "'w collector \<Rightarrow> bool" where
  "ip_exported s = (get_holding_reg HOLDING_IP_ADDR_4_IDX s \<noteq> 0xff \<and> get_holding_reg HOLDING_IP_ADDR_4_IDX s \<noteq> 0 \<and>
     \<not> (224 \<le> get_holding_reg HOLDING_IP_ADDR_1_IDX s \<and> get_holding_reg HOLDING_IP_ADDR_1_IDX s \<le> 239))"

definition mb_handle_export :: "'w collector \<Rightarrow> (string \<times> bytes) list" where
  "mb_handle_export s =
     map (\<lambda>(name, idx, n). (name, reg_value idx n s))
       (filter (\<lambda>(name, _). name = ''modbus/ip'' \<longrightarrow> ip_exported s) mb_keys)"

text \<open>settings_save of the kernel stores what the handler exports.\<close>

definition settings_save :: "'w collector \<Rightarrow> 'w collector" where
  "settings_save s = s\<lparr>dc_store := fold (\<lambda>(k, v) m. m(k \<mapsto> v)) (mb_handle_export s) (dc_store s)\<rparr>"

text \<open>read_cb copies at most \<open>n\<close> bytes of the stored value over the memory of the registers.\<close>

fun mem_u16s :: "bytes \<Rightarrow> u16 list" where
  "mem_u16s (a # b # r) = mem_u16 [a, b] # mem_u16s r"
| "mem_u16s _ = []"

definition read_cb :: "nat \<Rightarrow> nat \<Rightarrow> bytes \<Rightarrow> 'w collector \<Rightarrow> 'w collector" where
  "read_cb idx n val s =
     s\<lparr>holding_reg := mem_u16s (mem_put (2 * idx) (take n val) (concat (map u16_mem (holding_reg s))))\<rparr>"

text \<open>
  The register a name selects, compared over the length of each part.  mb_handle_get and mb_handle_set share it;
  the former copies as many bytes as it is asked for, and answers 0.
\<close>

definition mb_key :: "(string \<Rightarrow> nat \<times> string option) \<Rightarrow> string \<Rightarrow> (nat \<times> nat) option" where
  "mb_key name_next name =
     (case name_next name of (name_len, nxt) \<Rightarrow>
        let is = (\<lambda>key. take name_len name = take name_len key);
            sub = drop (name_len + 1) name;
            second = (\<lambda>opts. case name_next sub of (len, nxt) \<Rightarrow>
              if nxt \<noteq> None then None
              else map_option (\<lambda>(key, idx). (idx, 2 :: nat)) (find (\<lambda>(key, idx). take len sub = take len key) opts))
        in if nxt = None then
             if is ''history'' then Some (HOLDING_HIS_SAVE_IDX, 2)
             else if is ''rs485_bps'' then Some (HOLDING_RS485_BPS_IDX, 2)
             else if is ''slave_id'' then Some (HOLDING_SLAVE_ID_IDX, 2)
             else if is ''tcp_port'' then Some (HOLDING_TCP_PORT_IDX, 2)
             else if is ''net_mode'' then Some (HOLDING_NET_MODE_IDX, 2)
             else if is ''ip'' then Some (HOLDING_IP_ADDR_1_IDX, 8)
             else None
           else if is ''ai'' then second [(''enable'', HOLDING_AI_EN_IDX), (''time'', HOLDING_AI_SI_IDX)]
           else if is ''di'' then second [(''enable'', HOLDING_DI_EN_IDX), (''time'', HOLDING_DI_SI_IDX)]
           else if is ''can'' then second [(''id'', HOLDING_CAN_ID_IDX), (''bps'', HOLDING_CAN_BPS_IDX)]
           else if is ''heart'' then second [(''enable'', HOLDING_HEART_EN_IDX), (''time'', HOLDING_HEART_TIMEOUT_IDX)]
           else None)"

definition mb_handle_get :: "'w dc_env \<Rightarrow> string \<Rightarrow> nat \<Rightarrow> 'w collector \<Rightarrow> int \<times> bytes" where
  "mb_handle_get E name val_len_max s =
     (case mb_key (de_name_next E) name of
        Some (idx, n) \<Rightarrow> (0, reg_value idx val_len_max s)
      | None \<Rightarrow>
          (case de_name_next E name of (name_len, nxt) \<Rightarrow>
             let is = (\<lambda>key. take name_len name = take name_len key)
             in (if nxt = None \<or> is ''ai'' \<or> is ''di'' \<or> is ''can'' \<or> is ''heart'' then 0 else - NOENT, [])))"

definition mb_handle_set :: "'w dc_env \<Rightarrow> string \<Rightarrow> bytes \<Rightarrow> 'w collector \<Rightarrow> int \<times> 'w collector" where
  "mb_handle_set E name val s =
     (case mb_key (de_name_next E) name of
        None \<Rightarrow> (- NOENT, s)
      | Some (idx, n) \<Rightarrow> (0, read_cb idx n val s))"

text \<open>settings_load of the kernel hands the stored entries to the handler of their subtree.\<close>

definition dc_load_entry :: "'w dc_env \<Rightarrow> string \<times> bytes \<Rightarrow> 'w collector \<Rightarrow> 'w collector" where
  "dc_load_entry E = (\<lambda>(name, val) s.
     if take 7 name = ''modbus/'' then snd (mb_handle_set E (drop 7 name) val s) else s)"

section \<open>Register writes (function.c)\<close>

definition set_timestamp :: "u32 \<Rightarrow> 'w collector \<Rightarrow> 'w collector" where
  "set_timestamp t s = s\<lparr>dc_clock := Some t\<rparr>"

definition his_enable :: "'w dc_env \<Rightarrow> nat \<Rightarrow> bool \<Rightarrow> 'w collector \<Rightarrow> 'w collector option" where
  "his_enable E t enable s = map_option (\<lambda>h. s\<lparr>dc_his := h\<rparr>) (history_enable_write (de_px E) t enable (dc_his s))"

definition holding_reg_wr :: "'w dc_env \<Rightarrow> nat \<Rightarrow> nat \<Rightarrow> u16 \<Rightarrow> 'w collector \<Rightarrow> (int \<times> 'w collector) option" where
  "holding_reg_wr E t addr reg s =
     (if addr \<ge> length (holding_reg s) then Some (- NOTSUP, s)
      else
        let s = s\<lparr>holding_reg := (holding_reg s)[addr := reg]\<rparr>
        in if addr = HOLDING_DO_IDX then Some (0, mb_set_do (reg AND 0xff) s)
           else if addr = HOLDING_HIS_SAVE_IDX then map_option (\<lambda>s. (0, s)) (his_enable E t (reg \<noteq> 0) s)
           else if addr = HOLDING_TIMESTAMPH_IDX \<or> addr = HOLDING_TIMESTAMPL_IDX then
             Some (0, set_timestamp (push_bit 16 (ucast (holding_reg s ! HOLDING_TIMESTAMPH_IDX))
                        OR ucast (holding_reg s ! HOLDING_TIMESTAMPL_IDX)) s)
           else if addr = HOLDING_CFG_SAVE_IDX then
             Some (0, settings_save (s\<lparr>holding_reg := (holding_reg s)[addr := 0]\<rparr>))
           else if addr = HOLDING_REBOOT_IDX then Some (0, s\<lparr>dc_rebooted := True\<rparr>)
           else Some (0, s))"

section \<open>Start-up and the heart timer (init.c)\<close>

definition holding_regs :: "u16 list" where
  "holding_regs = (replicate MODBUS_HOLDING_REGISTER_NUMBERS 0)
     [HOLDING_DI_EN_IDX := 0xffff, HOLDING_AI_EN_IDX := 0xf, HOLDING_DI_SI_IDX := 200, HOLDING_AI_SI_IDX := 200,
      HOLDING_HIS_SAVE_IDX := 0, HOLDING_CAN_ID_IDX := 0x111, HOLDING_CAN_BPS_IDX := 10,
      HOLDING_RS485_BPS_IDX := 9600, HOLDING_SLAVE_ID_IDX := 1, HOLDING_IP_ADDR_1_IDX := 192,
      HOLDING_IP_ADDR_2_IDX := 168, HOLDING_IP_ADDR_3_IDX := 12, HOLDING_IP_ADDR_4_IDX := 101,
      HOLDING_HEART_TIMEOUT_IDX := 2000, HOLDING_TCP_PORT_IDX := 502, HOLDING_NET_MODE_IDX := 0]"

definition modbus_init :: "'w dc_env \<Rightarrow> nat \<Rightarrow> u32 \<Rightarrow> (string \<times> bytes) list \<Rightarrow> 'w collector \<Rightarrow> 'w collector option" where
  "modbus_init E t now stored s =
     (let s = update_input_reg INPUT_VER_IDX (push_bit 8 (de_major E) OR de_minor E) s;
          s = fold (\<lambda>i s. if holding_regs ! i \<noteq> 0 then update_holding_reg i (holding_regs ! i) s else s)
                [0..<length holding_regs] s;
          s = update_holding_reg HOLDING_TIMESTAMPH_IDX (ucast (drop_bit 16 now)) s;
          s = update_holding_reg HOLDING_TIMESTAMPL_IDX (ucast now) s;
          s = fold (dc_load_entry E) stored s
      in his_enable E t (get_holding_reg HOLDING_HIS_SAVE_IDX s \<noteq> 0) s)"

definition dc_static :: "nat \<Rightarrow> nat \<Rightarrow> 'w history \<Rightarrow> 'w collector" where
  "dc_static n_do n_led h = \<lparr>holding_reg = replicate MODBUS_HOLDING_REGISTER_NUMBERS 0,
     input_reg = replicate MODBUS_INPUT_REGISTER_NUMBERS 0, coils_state = replicate MODBUS_COLS_REGISTER_NUMBERS 0,
     do_pins = replicate n_do False, doled_pins = replicate n_led False, sync_sem = 0, dc_clock = None,
     dc_rebooted = False, dc_store = Map.empty, dc_his = h, dc_can_dev = False, dc_can_tx = []\<rparr>"

text \<open>The timeout of the heart thread's wait, and its turn; the semaphore holds at most one.\<close>

definition heart_timeout :: "'w collector \<Rightarrow> nat" where
  "heart_timeout s = max (unat (get_holding_reg HOLDING_HEART_TIMEOUT_IDX s)) 500"

definition heart_event_send :: "'w collector \<Rightarrow> 'w collector" where
  "heart_event_send s = s\<lparr>sync_sem := 1\<rparr>"

definition heart_poll :: "'w collector \<Rightarrow> 'w collector" where
  "heart_poll s =
     (if sync_sem s > 0 then s\<lparr>sync_sem := sync_sem s - 1\<rparr>
      else if get_holding_reg HOLDING_HEART_EN_IDX s \<noteq> 0
      then mb_set_do 0 (update_holding_reg HOLDING_DO_IDX 0 (update_holding_reg HOLDING_HEART_IDX 0 s))
      else s)"

end
