(* ===== verification/Collector_Cmd.thy ===== *)
theory Collector_Cmd
  imports Collector
begin

text \<open>
  The configuration commands of the data collector over UDP (udp.c) and CAN (can.c), and its
  heartbeat frame.
\<close>

section \<open>Commands (data_collect.h)\<close>

definition DC_CMD_SET_NET :: u8 where "DC_CMD_SET_NET = 0x12"
definition DC_CMD_GET_NET :: u8 where "DC_CMD_GET_NET = 0x13"
definition DC_CMD_SET_NET_MODE :: u8 where "DC_CMD_SET_NET_MODE = 0x16"
definition DC_CMD_GET_NET_MODE :: u8 where "DC_CMD_GET_NET_MODE = 0x17"
definition DC_CMD_SET_MODBUS :: u8 where "DC_CMD_SET_MODBUS = 0x18"
definition DC_CMD_GET_MODBUS :: u8 where "DC_CMD_GET_MODBUS = 0x19"
definition DC_CMD_SET_SAMPLE :: u8 where "DC_CMD_SET_SAMPLE = 0x1A"
definition DC_CMD_GET_SAMPLE :: u8 where "DC_CMD_GET_SAMPLE = 0x1B"
definition DC_CMD_SET_CAN :: u8 where "DC_CMD_SET_CAN = 0x1C"
definition DC_CMD_GET_CAN :: u8 where "DC_CMD_GET_CAN = 0x1D"
definition DC_CMD_SET_HEART :: u8 where "DC_CMD_SET_HEART = 0x1E"
definition DC_CMD_GET_HEART :: u8 where "DC_CMD_GET_HEART = 0x1F"
definition DC_CMD_SET_TIME :: u8 where "DC_CMD_SET_TIME = 0x20"
definition DC_CMD_GET_INFO :: u8 where "DC_CMD_GET_INFO = 0x21"

definition DC_CAN_HEARTBEAT :: u32 where "DC_CAN_HEARTBEAT = 0x763"
definition DC_CAN_CFG_CMD :: u32 where "DC_CAN_CFG_CMD = 0x1A0"
definition DC_CAN_CFG_RESP :: u32 where "DC_CAN_CFG_RESP = 0x1A1"

definition DC_NET_MODE_STATIC :: u16 where "DC_NET_MODE_STATIC = 0"
definition DC_NET_MODE_DHCP :: u16 where "DC_NET_MODE_DHCP = 1"

lemmas dc_cmd_defs = DC_CMD_SET_NET_def DC_CMD_GET_NET_def DC_CMD_SET_NET_MODE_def DC_CMD_GET_NET_MODE_def
  DC_CMD_SET_MODBUS_def DC_CMD_GET_MODBUS_def DC_CMD_SET_SAMPLE_def DC_CMD_GET_SAMPLE_def DC_CMD_SET_CAN_def
  DC_CMD_GET_CAN_def DC_CMD_SET_HEART_def DC_CMD_GET_HEART_def DC_CMD_SET_TIME_def DC_CMD_GET_INFO_def

text \<open>What the kernel answers while a command runs: the live address, time and uptime in milliseconds.\<close>

record dc_now =
  now_live :: "bytes option"
  now_time :: u32
  now_uptime :: int

section \<open>Executing a command (udp.c)\<close>

text \<open>
  Each case: what the set command does (with whether it asks to save), then what set and get answer; \<open>None\<close> is
  the length -1.
\<close>

definition set_net :: "'w dc_env \<Rightarrow> bytes \<Rightarrow> 'w collector \<Rightarrow> bool \<times> 'w collector" where
  "set_net E req s =
     (if length req \<ge> 6 then
        let s = (if get_holding_reg HOLDING_NET_MODE_IDX s = DC_NET_MODE_STATIC then
                   let s = update_holding_reg HOLDING_IP_ADDR_1_IDX (ucast (req ! 0)) s;
                       s = update_holding_reg HOLDING_IP_ADDR_2_IDX (ucast (req ! 1)) s;
                       s = update_holding_reg HOLDING_IP_ADDR_3_IDX (ucast (req ! 2)) s
                   in update_holding_reg HOLDING_IP_ADDR_4_IDX (ucast (req ! 3)) s
                 else s)
        in (True, update_holding_reg HOLDING_TCP_PORT_IDX (get_be16 (de_bo E) (drop 4 req)) s)
      else (False, s))"

definition get_net :: "'w dc_env \<Rightarrow> dc_now \<Rightarrow> 'w collector \<Rightarrow> bytes" where
  "get_net E N s =
     (case now_live N of
        Some live \<Rightarrow> take 4 live
      | None \<Rightarrow> [ucast (get_holding_reg HOLDING_IP_ADDR_1_IDX s), ucast (get_holding_reg HOLDING_IP_ADDR_2_IDX s),
          ucast (get_holding_reg HOLDING_IP_ADDR_3_IDX s), ucast (get_holding_reg HOLDING_IP_ADDR_4_IDX s)]) @
     put_be16 (de_bo E) (get_holding_reg HOLDING_TCP_PORT_IDX s)"

definition set_modbus :: "'w dc_env \<Rightarrow> bytes \<Rightarrow> 'w collector \<Rightarrow> bool \<times> 'w collector" where
  "set_modbus E req s =
     (if length req \<ge> 6 then
        let slave_id = get_be16 (de_bo E) req;
            bps = get_be32 (de_bo E) (drop 2 req);
            bps_ok = (bps > 0 \<and> bps \<le> 0xffff);
            id_ok = (slave_id > 0 \<and> slave_id < 0x100);
            s = (if bps_ok then update_holding_reg HOLDING_RS485_BPS_IDX (ucast bps) s else s);
            s = (if id_ok then update_holding_reg HOLDING_SLAVE_ID_IDX slave_id s else s)
        in (bps_ok \<or> id_ok, s)
      else (False, s))"

definition set_heart :: "'w dc_env \<Rightarrow> bytes \<Rightarrow> 'w collector \<Rightarrow> bool \<times> 'w collector" where
  "set_heart E req s =
     (if length req \<ge> 3 then
        let s = update_holding_reg HOLDING_HEART_EN_IDX (if req ! 0 \<noteq> 0 then 1 else 0) s
        in (True, update_holding_reg HOLDING_HEART_TIMEOUT_IDX (max (get_be16 (de_bo E) (drop 1 req)) 500) s)
      else (False, s))"

definition set_time :: "'w dc_env \<Rightarrow> dc_now \<Rightarrow> bytes \<Rightarrow> 'w collector \<Rightarrow> u32 \<times> 'w collector" where
  "set_time E N req s =
     (let t = (if length req \<ge> 4 then get_be32 (de_bo E) req else 0)
      in if t \<noteq> 0 then
           let s = set_timestamp t s;
               s = update_holding_reg HOLDING_TIMESTAMPH_IDX (ucast (drop_bit 16 t)) s
           in (t, update_holding_reg HOLDING_TIMESTAMPL_IDX (ucast t) s)
         else (now_time N, s))"

text \<open>SET_SAMPLE switches the history and may therefore block.\<close>

definition set_sample :: "'w dc_env \<Rightarrow> nat \<Rightarrow> bytes \<Rightarrow> 'w collector \<Rightarrow> (bool \<times> 'w collector) option" where
  "set_sample E t req s =
     (if length req \<ge> 5 then
        let s = update_holding_reg HOLDING_DI_SI_IDX (get_be16 (de_bo E) req) s;
            s = update_holding_reg HOLDING_AI_SI_IDX (get_be16 (de_bo E) (drop 2 req)) s;
            s = update_holding_reg HOLDING_HIS_SAVE_IDX (ucast (req ! 4)) s
        in map_option (\<lambda>s. (True, s)) (his_enable E t (req ! 4 \<noteq> 0) s)
      else Some (False, s))"

definition get_sample :: "'w dc_env \<Rightarrow> 'w collector \<Rightarrow> bytes" where
  "get_sample E s = put_be16 (de_bo E) (get_holding_reg HOLDING_DI_SI_IDX s) @
     put_be16 (de_bo E) (get_holding_reg HOLDING_AI_SI_IDX s) @ [ucast (get_holding_reg HOLDING_HIS_SAVE_IDX s)]"

definition set_can :: "'w dc_env \<Rightarrow> bytes \<Rightarrow> 'w collector \<Rightarrow> bool \<times> 'w collector" where
  "set_can E req s =
     (if length req \<ge> 4 then
        let s = update_holding_reg HOLDING_CAN_ID_IDX (get_be16 (de_bo E) req) s
        in (True, update_holding_reg HOLDING_CAN_BPS_IDX (get_be16 (de_bo E) (drop 2 req)) s)
      else (False, s))"

definition set_net_mode :: "bytes \<Rightarrow> 'w collector \<Rightarrow> bool \<times> 'w collector" where
  "set_net_mode req s =
     (if length req \<ge> 1 \<and> req ! 0 \<le> 1 then (True, update_holding_reg HOLDING_NET_MODE_IDX (ucast (req ! 0)) s)
      else (False, s))"

definition get_pair :: "'w dc_env \<Rightarrow> nat \<Rightarrow> nat \<Rightarrow> 'w collector \<Rightarrow> bytes" where
  "get_pair E i j s = put_be16 (de_bo E) (get_holding_reg i s) @ put_be16 (de_bo E) (get_holding_reg j s)"

definition get_modbus :: "'w dc_env \<Rightarrow> 'w collector \<Rightarrow> bytes" where
  "get_modbus E s = put_be16 (de_bo E) (get_holding_reg HOLDING_SLAVE_ID_IDX s) @
     put_be32 (de_bo E) (ucast (get_holding_reg HOLDING_RS485_BPS_IDX s))"

definition get_heart :: "'w dc_env \<Rightarrow> 'w collector \<Rightarrow> bytes" where
  "get_heart E s = ucast (get_holding_reg HOLDING_HEART_EN_IDX s) #
     put_be16 (de_bo E) (get_holding_reg HOLDING_HEART_TIMEOUT_IDX s)"

definition dc_build_config_payload :: "'w dc_env \<Rightarrow> dc_now \<Rightarrow> nat \<Rightarrow> u8 \<Rightarrow> bytes \<Rightarrow> nat \<Rightarrow> 'w collector \<Rightarrow>
    (bytes option \<times> 'w collector) option" where
  "dc_build_config_payload E N t cmd req out_len s =
     (let answer = (\<lambda>n out (saved, s). Some (if out_len \<ge> n then Some (out s) else None, if saved then settings_save s else s))
      in if cmd = DC_CMD_SET_NET then answer 6 (get_net E N) (set_net E req s)
         else if cmd = DC_CMD_GET_NET then answer 6 (get_net E N) (False, s)
         else if cmd = DC_CMD_SET_NET_MODE then
           answer 1 (\<lambda>s. [ucast (get_holding_reg HOLDING_NET_MODE_IDX s)]) (set_net_mode req s)
         else if cmd = DC_CMD_GET_NET_MODE then
           answer 1 (\<lambda>s. [ucast (get_holding_reg HOLDING_NET_MODE_IDX s)]) (False, s)
         else if cmd = DC_CMD_SET_MODBUS then answer 6 (get_modbus E) (set_modbus E req s)
         else if cmd = DC_CMD_GET_MODBUS then answer 6 (get_modbus E) (False, s)
         else if cmd = DC_CMD_SET_SAMPLE then Option.bind (set_sample E t req s) (answer 5 (get_sample E))
         else if cmd = DC_CMD_GET_SAMPLE then answer 5 (get_sample E) (False, s)
         else if cmd = DC_CMD_SET_CAN then
           answer 4 (get_pair E HOLDING_CAN_ID_IDX HOLDING_CAN_BPS_IDX) (set_can E req s)
         else if cmd = DC_CMD_GET_CAN then
           answer 4 (get_pair E HOLDING_CAN_ID_IDX HOLDING_CAN_BPS_IDX) (False, s)
         else if cmd = DC_CMD_SET_HEART then answer 3 (get_heart E) (set_heart E req s)
         else if cmd = DC_CMD_GET_HEART then answer 3 (get_heart E) (False, s)
         else if cmd = DC_CMD_SET_TIME then
           (case set_time E N req s of (now, s) \<Rightarrow> answer 4 (\<lambda>s. put_be32 (de_bo E) now) (False, s))
         else if cmd = DC_CMD_GET_INFO then
           answer 8 (\<lambda>s. put_be32 (de_bo E) (de_version E) @ put_be32 (de_bo E) (of_int (now_uptime N div 1000))) (False, s)
         else Some (None, s))"

text \<open>
  The callback registered with the UDP upgrade library; its application state is \<open>None\<close> once its thread waits for
  a mutex that is not released.
\<close>

definition dc_app_cmd_handler :: "'w dc_env \<Rightarrow> dc_now \<Rightarrow> nat \<Rightarrow> u8 \<times> bytes \<Rightarrow>
    'w collector option \<times> (u8 \<times> bytes \<times> u8) list \<Rightarrow> bool \<times> 'w collector option \<times> (u8 \<times> bytes \<times> u8) list" where
  "dc_app_cmd_handler E N t = (\<lambda>(cmd, data) (s, replies).
     case Option.bind s (dc_build_config_payload E N t cmd data 8) of
       None \<Rightarrow> (True, None, replies)
     | Some (None, s) \<Rightarrow> (False, Some s, replies)
     | Some (Some resp, s) \<Rightarrow> (True, Some s, replies @ [(cmd, resp, of_nat (length resp))]))"

section \<open>CAN (can.c)\<close>

definition dc_can_send :: "'w dc_env \<Rightarrow> can_frame \<Rightarrow> 'w collector \<Rightarrow> int \<times> 'w collector" where
  "dc_can_send E f s =
     (if \<not> dc_can_dev s then (- ENODEV, s)
      else let ret = de_can_send E f in (ret, if ret = 0 then s\<lparr>dc_can_tx := dc_can_tx s @ [f]\<rparr> else s))"

text \<open>One turn of the heartbeat thread.\<close>

definition dc_can_heart :: "'w dc_env \<Rightarrow> 'w collector \<Rightarrow> 'w collector" where
  "dc_can_heart E s =
     snd (dc_can_send E \<lparr>can_id = DC_CAN_HEARTBEAT, can_dlc = bytes_to_dlc (de_bo E) 8,
       can_data = put_be16 (de_bo E) (push_bit 8 (de_major E) OR de_minor E) @
         put_be16 (de_bo E) (get_input_reg INPUT_DI_IDX s) @
         [ucast (get_holding_reg HOLDING_DO_IDX s AND 0xff), 0, 0, 0]\<rparr> s)"

text \<open>The do-while loop over the answer, from sequence number \<open>seq\<close> on.\<close>

function can_send_config_resp :: "'w dc_env \<Rightarrow> u8 \<Rightarrow> u8 \<Rightarrow> bytes \<Rightarrow> 'w collector \<Rightarrow> 'w collector" where
  "can_send_config_resp E sub seq resp s =
     (let chunk = take 6 resp;
          s = snd (dc_can_send E \<lparr>can_id = DC_CAN_CFG_RESP, can_dlc = bytes_to_dlc (de_bo E) 8,
                     can_data = [sub, seq] @ chunk @ replicate (6 - length chunk) 0\<rparr> s)
      in if length resp > 6 then can_send_config_resp E sub (seq + 1) (drop 6 resp) s else s)"
  by pat_completeness auto
termination
  by (relation "measure (\<lambda>(E, sub, seq, resp, s). length resp)") auto

declare can_send_config_resp.simps [simp del]

definition dc_can_app_rx :: "'w dc_env \<Rightarrow> dc_now \<Rightarrow> nat \<Rightarrow> can_frame \<Rightarrow> 'w collector \<Rightarrow> (bool \<times> 'w collector) option" where
  "dc_can_app_rx E N t f s =
     (if can_id f = DC_CAN_CFG_CMD then
        let n = unat (dlc_to_bytes (de_bo E) (can_dlc f))
        in if n < 2 then Some (True, s)
           else
             let sub = can_data f ! 0;
                 req = take (min (n - 1) 7) (drop 1 (can_data f))
             in case dc_build_config_payload E N t sub req 8 s of
                  None \<Rightarrow> None
                | Some (Some resp, s) \<Rightarrow> Some (True, can_send_config_resp E sub 0 resp s)
                | Some (None, s) \<Rightarrow> Some (True, s)
      else Some (False, s))"

definition dc_can_init :: "bool \<Rightarrow> 'w collector \<Rightarrow> 'w collector" where
  "dc_can_init dev s = s\<lparr>dc_can_dev := dev\<rparr>"

end
