(* ===== verification/Collector_Net.thy ===== *)
theory Collector_Net
  imports Collector_Cmd
begin

text \<open>
  The network of the data collector: interface and address set-up with its events (net.c) and the Modbus TCP
  server (tcp.c), which serves one client at a time.  The answers of the network stack are arguments; the Modbus
  stack of the kernel, which calls the register callbacks, is the parameter \<open>mb_submit\<close>.
\<close>

section \<open>Network start-up (net.c)\<close>

text \<open>
  \<open>dn_iface\<close> is the address with netmask and gateway given to the interface; the semaphores hold at most one.
\<close>

record dc_net =
  dn_link_up :: bool
  dn_link_sem :: nat
  dn_addr_sem :: nat
  dn_ready :: bool
  dn_dhcp_starts :: nat
  dn_iface :: "(bytes \<times> bytes \<times> bytes) option"
  dn_iface_up :: bool

datatype net_event = If_up | If_down | Other_event

definition dc_if_event_handler :: "net_event \<Rightarrow> 'w collector \<Rightarrow> dc_net \<Rightarrow> dc_net" where
  "dc_if_event_handler ev c n =
     (case ev of
        If_up \<Rightarrow>
          let n = n\<lparr>dn_link_up := True, dn_link_sem := 1\<rparr>
          in if get_holding_reg HOLDING_NET_MODE_IDX c = DC_NET_MODE_DHCP
             then n\<lparr>dn_dhcp_starts := dn_dhcp_starts n + 1\<rparr> else n
      | If_down \<Rightarrow> n\<lparr>dn_link_up := False\<rparr>
      | Other_event \<Rightarrow> n)"

text \<open>\<open>assigned\<close>: for each address of the interface, whether DHCP or the program assigned it.\<close>

definition dc_ipv4_event_handler :: "bool \<Rightarrow> bool list \<Rightarrow> dc_net \<Rightarrow> dc_net" where
  "dc_ipv4_event_handler addr_add assigned n =
     (if \<not> addr_add then n else if list_ex id assigned then n\<lparr>dn_addr_sem := 1\<rparr> else n)"

text \<open>Polling for the interface: at most a hundred looks.\<close>

fun wait_for_eth_iface :: "nat \<Rightarrow> bool list \<Rightarrow> bool" where
  "wait_for_eth_iface 0 _ = False"
| "wait_for_eth_iface (Suc n) [] = False"
| "wait_for_eth_iface (Suc n) (found # fs) = (found \<or> wait_for_eth_iface n fs)"

definition net_setup_static :: "bool \<Rightarrow> 'w collector \<Rightarrow> dc_net \<Rightarrow> int \<times> dc_net" where
  "net_setup_static added c n =
     (let addr = map (\<lambda>i. ucast (get_holding_reg i c)) [HOLDING_IP_ADDR_1_IDX, HOLDING_IP_ADDR_2_IDX,
            HOLDING_IP_ADDR_3_IDX, HOLDING_IP_ADDR_4_IDX]
      in if \<not> added then (- 1, n)
         else (0, n\<lparr>dn_iface := Some (addr, [255, 255, 255, 0], addr[3 := 1]), dn_iface_up := True\<rparr>))"

text \<open>Waiting for a semaphore with a timeout: the flag says whether it was there in time.\<close>

definition k_sem_take :: "bool \<Rightarrow> nat \<Rightarrow> nat" where
  "k_sem_take taken sem = (if taken then sem - 1 else sem)"

definition dc_net_thread :: "bool list \<Rightarrow> bool \<Rightarrow> bool \<Rightarrow> bool \<Rightarrow> bool \<Rightarrow> 'w collector \<Rightarrow> dc_net \<Rightarrow> dc_net" where
  "dc_net_thread looks added oper_up link lease c n =
     (if \<not> wait_for_eth_iface 100 looks then n
      else
        let dhcp = (get_holding_reg HOLDING_NET_MODE_IDX c = DC_NET_MODE_DHCP)
        in case (if dhcp then (0, n) else net_setup_static added c n) of (ret, n) \<Rightarrow>
             let n = (if ret = 0 then
                        let n = (if oper_up then n else n\<lparr>dn_link_sem := k_sem_take link (dn_link_sem n)\<rparr>)
                        in if dhcp then n\<lparr>dn_addr_sem := k_sem_take lease (dn_addr_sem n)\<rparr> else n
                      else n)
             in n\<lparr>dn_ready := True\<rparr>)"

section \<open>The Modbus TCP server (tcp.c)\<close>

record mb_client =
  mc_fd :: int
  mc_time :: int

record adu =
  trans_id :: u16
  proto_id :: u16
  adu_length :: u16
  unit_id :: u8
  adu_fc :: u8
  adu_data :: bytes

record 'w tcp =
  mb_clients :: "mb_client list"
  data_buf :: bytes
  tmp_adu :: adu
  tcp_link_down :: bool
  tcp_closed :: "int list"
  tcp_sent :: "(int \<times> bytes) list"
  tcp_col :: "'w collector"

definition TCP_MAX_CLIENTS :: nat where "TCP_MAX_CLIENTS = 3"
definition MBAP_AND_FC_LENGTH :: nat where "MBAP_AND_FC_LENGTH = 8"
definition MODBUS_BUFFER_SIZE :: nat where "MODBUS_BUFFER_SIZE = 256"

text \<open>
  Parameters: the header functions of the Modbus stack and its server, which answers an error code and the answer
  it hands to the callback within a second, if any.
\<close>

record 'w mb_stack =
  raw_get_header :: "bytes \<Rightarrow> adu \<Rightarrow> adu"
  raw_put_header :: "adu \<Rightarrow> bytes"
  raw_set_server_failure :: "adu \<Rightarrow> adu"
  mb_submit :: "adu \<Rightarrow> 'w collector \<Rightarrow> int \<times> adu option \<times> 'w collector"

definition net_event_handler :: "net_event \<Rightarrow> 'w tcp \<Rightarrow> 'w tcp" where
  "net_event_handler ev s =
     (case ev of
        If_down \<Rightarrow> s\<lparr>tcp_col := mb_set_do 0 (update_holding_reg HOLDING_DO_IDX 0 (tcp_col s)), tcp_link_down := True\<rparr>
      | If_up \<Rightarrow> s\<lparr>tcp_link_down := False\<rparr>
      | Other_event \<Rightarrow> s)"

definition server_raw_cb :: "adu \<Rightarrow> adu \<Rightarrow> adu" where
  "server_raw_cb answer tmp = answer\<lparr>adu_data :=
     mem_put 0 (take (min (unat (adu_length answer)) MODBUS_BUFFER_SIZE) (adu_data answer)) (adu_data tmp)\<rparr>"

definition init_modbus_server :: "int \<Rightarrow> int \<Rightarrow> 'w tcp \<Rightarrow> int \<times> u8" where
  "init_modbus_server iface err s =
     (if iface < 0 then (- ENODEV, 1) else (err, ucast (get_holding_reg HOLDING_SLAVE_ID_IDX (tcp_col s))))"

definition free_client :: mb_client where "free_client = \<lparr>mc_fd = 0, mc_time = 0\<rparr>"

definition expired :: "bool \<Rightarrow> int \<Rightarrow> mb_client \<Rightarrow> bool" where
  "expired down uptime c = (mc_time c \<noteq> 0 \<and> mc_time c + 30000 < uptime \<or> down)"

text \<open>The first free slot takes the client; \<open>None\<close> when there is none.\<close>

fun take_slot :: "mb_client \<Rightarrow> mb_client list \<Rightarrow> mb_client list option" where
  "take_slot c [] = None"
| "take_slot c (x # xs) = (if mc_fd x = 0 then Some (c # xs) else map_option ((#) x) (take_slot c xs))"

definition tcp_accept :: "int \<Rightarrow> int \<Rightarrow> 'w tcp \<Rightarrow> 'w tcp" where
  "tcp_accept client uptime s =
     (if client < 0 then s
      else
        let old = mb_clients s;
            gone = filter (expired (tcp_link_down s) uptime) old;
            had_connect = (list_ex (\<lambda>c. mc_fd c > 0) old \<and> gone = []);
            s = s\<lparr>tcp_closed := tcp_closed s @ map mc_fd gone,
                  mb_clients := map (\<lambda>c. if expired (tcp_link_down s) uptime c then free_client else c) old\<rparr>
        in if had_connect then s\<lparr>tcp_closed := tcp_closed s @ [client]\<rparr>
           else case take_slot \<lparr>mc_fd = client, mc_time = uptime\<rparr> (mb_clients s) of
                  None \<Rightarrow> s\<lparr>tcp_closed := tcp_closed s @ [client]\<rparr>
                | Some cs \<Rightarrow> s\<lparr>mb_clients := cs\<rparr>)"

text \<open>
  What the calls for a readable client return: the header and the rest.  A negative result for the header is not
  an error for the code: the old header is used again.  The flag says that the loop over the clients goes on.
\<close>

record tcp_input =
  hdr_rc :: int
  hdr_bytes :: bytes
  body_rc :: int
  body_bytes :: bytes

definition tcp_serve :: "'w mb_stack \<Rightarrow> tcp_input \<Rightarrow> int \<Rightarrow> nat \<Rightarrow> 'w tcp \<Rightarrow> bool \<times> 'w tcp" where
  "tcp_serve M I uptime i s =
     (let c = mb_clients s ! i;
          s = s\<lparr>data_buf := mem_put 0 (hdr_bytes I) (data_buf s)\<rparr>
      in if hdr_rc I = 0
         then (True, s\<lparr>tcp_closed := tcp_closed s @ [mc_fd c], mb_clients := (mb_clients s)[i := free_client]\<rparr>)
         else
           let s = s\<lparr>mb_clients := (mb_clients s)[i := c\<lparr>mc_time := uptime\<rparr>],
                     tmp_adu := raw_get_header M (data_buf s) (tmp_adu s), tcp_col := heart_event_send (tcp_col s)\<rparr>;
               tmp = (tmp_adu s)\<lparr>adu_data := mem_put 0 (body_bytes I) (adu_data (tmp_adu s))\<rparr>;
               s = s\<lparr>tmp_adu := tmp\<rparr>
           in if body_rc I < 0 then (False, s)
              else case mb_submit M tmp (tcp_col s) of (err, answer, col) \<Rightarrow>
                     let s = s\<lparr>tcp_col := col\<rparr>
                     in if err \<noteq> 0 then (True, s)
                        else
                          let tmp = (case answer of Some a \<Rightarrow> server_raw_cb a tmp | None \<Rightarrow> raw_set_server_failure M tmp);
                              n = unat (adu_length tmp);
                              buf = mem_put MBAP_AND_FC_LENGTH (take n (adu_data tmp)) (mem_put 0 (raw_put_header M tmp) (data_buf s))
                          in (True, s\<lparr>tmp_adu := tmp, data_buf := buf,
                               tcp_sent := tcp_sent s @ [(mc_fd c, take (MBAP_AND_FC_LENGTH + n) buf)]\<rparr>))"

fun tcp_clients :: "'w mb_stack \<Rightarrow> (int \<Rightarrow> tcp_input option) \<Rightarrow> int \<Rightarrow> nat list \<Rightarrow> 'w tcp \<Rightarrow> 'w tcp" where
  "tcp_clients M input uptime [] s = s"
| "tcp_clients M input uptime (i # is) s =
     (let fd = mc_fd (mb_clients s ! i)
      in case (if fd > 0 then input fd else None) of
           None \<Rightarrow> tcp_clients M input uptime is s
         | Some I \<Rightarrow>
             (case tcp_serve M I uptime i s of
                (True, s) \<Rightarrow> tcp_clients M input uptime is s
              | (False, s) \<Rightarrow> s))"

text \<open>A turn after select: a new connection, or readable clients.\<close>

definition tcp_turn :: "'w mb_stack \<Rightarrow> int option \<Rightarrow> (int \<Rightarrow> tcp_input option) \<Rightarrow> int \<Rightarrow> 'w tcp \<Rightarrow> 'w tcp" where
  "tcp_turn M new input uptime s =
     (case new of
        Some client \<Rightarrow> tcp_accept client uptime s
      | None \<Rightarrow> tcp_clients M input uptime [0..<TCP_MAX_CLIENTS] s)"

definition tcp_static :: "adu \<Rightarrow> 'w collector \<Rightarrow> 'w tcp" where
  "tcp_static a c = \<lparr>mb_clients = replicate TCP_MAX_CLIENTS free_client, data_buf = replicate 256 0, tmp_adu = a,
     tcp_link_down = False, tcp_closed = [], tcp_sent = [], tcp_col = c\<rparr>"

end
