(* ===== verification/Collector_Props.thy ===== *)
theory Collector_Props
  imports Collector_Net
begin

text \<open>
  What the data collector achieves: configuration survives a restart, UDP and CAN commands do the same, the outputs
  follow their register, and one Modbus client at a time.
\<close>

section \<open>Registers in memory\<close>

definition regs_ok :: "'w collector \<Rightarrow> bool" where
  "regs_ok s \<longleftrightarrow> length (holding_reg s) = MODBUS_HOLDING_REGISTER_NUMBERS"

lemma length_regs_mem [simp]: "length (concat (map u16_mem rs)) = 2 * length rs"
  by (induction rs) simp_all

lemma regs_mem_roundtrip: "mem_u16s (concat (map u16_mem rs)) = rs"
  by (induction rs) (simp_all add: u16_mem_def mem_u16_mem [unfolded u16_mem_def])

lemma take_regs_mem: "take (2 * n) (drop (2 * i) (concat (map u16_mem rs))) = concat (map u16_mem (take n (drop i rs)))"
proof (induction i arbitrary: rs)
  case 0
  show ?case
  proof (induction n arbitrary: rs)
    case (Suc n)
    then show ?case by (cases rs) (simp_all add: u16_mem_def)
  qed simp
next
  case (Suc i)
  then show ?case by (cases rs) (simp_all add: u16_mem_def)
qed

lemma put_regs_mem:
  assumes "i + length vs \<le> length rs"
  shows "mem_put (2 * i) (concat (map u16_mem vs)) (concat (map u16_mem rs)) = concat (map u16_mem (mem_put i vs rs))"
proof -
  have t: "take (2 * i) (concat (map u16_mem rs)) = concat (map u16_mem (take i rs))"
    using take_regs_mem [of i 0 rs] by simp
  have "drop (2 * k) (concat (map u16_mem rs)) = concat (map u16_mem (drop k rs))" for k
  proof (induction k arbitrary: rs)
    case (Suc k)
    then show ?case by (cases rs) (simp_all add: u16_mem_def)
  qed simp
  from this [of "i + length vs"] show ?thesis by (simp only: mem_put_def t map_append concat_append length_regs_mem flip: add_mult_distrib2)
qed

text \<open>Reading back a stored value that has the register's size.\<close>

lemma read_cb_regs:
  assumes "i + length vs \<le> length (holding_reg s)"
  shows "read_cb i (2 * length vs) (concat (map u16_mem vs)) s = s\<lparr>holding_reg := mem_put i vs (holding_reg s)\<rparr>"
  using put_regs_mem [OF assms] by (simp add: read_cb_def regs_mem_roundtrip)

lemma reg_value_regs: "reg_value i (2 * n) s = concat (map u16_mem (take n (drop i (holding_reg s))))"
  by (simp add: reg_value_def take_regs_mem)

section \<open>Names of settings\<close>

definition names_path_ok :: "(string \<Rightarrow> nat \<times> string option) \<Rightarrow> bool" where
  "names_path_ok nxt \<longleftrightarrow> names_ok nxt \<and>
     (\<forall>s t. CHR ''/'' \<notin> set s \<and> CHR ''='' \<notin> set s \<longrightarrow> nxt (s @ CHR ''/'' # t) = (length s, Some t))"

lemma names_pathD:
  assumes "names_path_ok nxt"
  shows "CHR ''/'' \<notin> set s \<Longrightarrow> CHR ''='' \<notin> set s \<Longrightarrow> nxt s = (length s, None)"
    and "CHR ''/'' \<notin> set s \<Longrightarrow> CHR ''='' \<notin> set s \<Longrightarrow> nxt (s @ CHR ''/'' # t) = (length s, Some t)"
  using assms by (auto simp: names_path_ok_def names_ok_def)

lemma mb_key_names:
  assumes "names_path_ok nxt"
  shows "(name, k, n) \<in> set mb_keys \<Longrightarrow> mb_key nxt (drop 7 name) = Some (k, n)"
proof -
  note plain = names_pathD(1) [OF assms]
  note ai = names_pathD(2) [OF assms, of "''ai''", simplified]
  note di = names_pathD(2) [OF assms, of "''di''", simplified]
  note cn = names_pathD(2) [OF assms, of "''can''", simplified]
  note ht = names_pathD(2) [OF assms, of "''heart''", simplified]
  assume "(name, k, n) \<in> set mb_keys"
  then show ?thesis
    unfolding mb_keys_def list.set insert_iff empty_iff prod.inject
    by (elim disjE conjE FalseE; simp add: mb_key_def plain ai di cn ht)
qed

lemma mb_keys_bounds: "(name, k, n) \<in> set mb_keys \<Longrightarrow> take 7 name = ''modbus/'' \<and> n = 2 * (n div 2) \<and> k + n div 2 \<le> 23"
  unfolding mb_keys_def list.set insert_iff empty_iff prod.inject by (elim disjE conjE FalseE; simp add: idx_defs)

lemma mb_keys_distinct: "distinct (map fst mb_keys)" by (simp add: mb_keys_def)

text \<open>Loading the value of one setting.\<close>

lemma load_setting:
  assumes "names_path_ok (de_name_next E)" and "regs_ok s" and "(name, k, n) \<in> set mb_keys" and "2 * length vs = n"
  shows "dc_load_entry E (name, concat (map u16_mem vs)) s = s\<lparr>holding_reg := mem_put k vs (holding_reg s)\<rparr>"
proof -
  have "k + length vs \<le> length (holding_reg s)"
    using mb_keys_bounds [OF assms(3)] assms(2,4) by (auto simp: regs_ok_def MODBUS_HOLDING_REGISTER_NUMBERS_def)
  then show ?thesis
    using read_cb_regs [of k vs s] mb_key_names [OF assms(1,3)] mb_keys_bounds [OF assms(3)] assms(4)
    by (simp add: dc_load_entry_def mb_handle_set_def)
qed

text \<open>
  What the handler exports: the registers of each name.  Only the address may be missing.
\<close>

lemma exported:
  assumes "(name, k, n) \<in> set mb_keys" and "name = ''modbus/ip'' \<longrightarrow> ip_exported s"
  shows "(name, concat (map u16_mem (take (n div 2) (drop k (holding_reg s))))) \<in> set (mb_handle_export s)"
  using reg_value_regs [of k "n div 2" s] mb_keys_bounds [OF assms(1)] assms
  by (force simp: mb_handle_export_def)

lemma fold_store_other: "k \<notin> fst ` set es \<Longrightarrow> fold (\<lambda>(k, v) m. m(k \<mapsto> v)) es m k = m k"
  by (induction es arbitrary: m) auto

lemma fold_store:
  "distinct (map fst es) \<Longrightarrow> (k, v) \<in> set es \<Longrightarrow> fold (\<lambda>(k, v) m. m(k \<mapsto> v)) es m k = Some v"
proof (induction es arbitrary: m)
  case (Cons e es)
  then show ?case by (cases e) (auto simp: fold_store_other image_iff simp del: fun_upd_apply intro: fun_upd_same)
qed simp

lemma export_distinct: "distinct (map fst (mb_handle_export s))"
proof -
  have "map fst (mb_handle_export s) = map fst (filter (\<lambda>(name, _). name = ''modbus/ip'' \<longrightarrow> ip_exported s) mb_keys)"
    by (auto simp: mb_handle_export_def)
  then show ?thesis using mb_keys_distinct by (simp add: distinct_map_filter)
qed

lemma saved_setting:
  assumes "(name, k, n) \<in> set mb_keys" and "name = ''modbus/ip'' \<longrightarrow> ip_exported s"
  shows "dc_store (settings_save s) name = Some (concat (map u16_mem (take (n div 2) (drop k (holding_reg s)))))"
  by (simp add: settings_save_def fold_store [OF export_distinct exported [OF assms]])

lemma settings_save_fields [simp]:
  "holding_reg (settings_save s) = holding_reg s" "do_pins (settings_save s) = do_pins s"
  "doled_pins (settings_save s) = doled_pins s" "dc_his (settings_save s) = dc_his s"
  "dc_can_tx (settings_save s) = dc_can_tx s" "dc_can_dev (settings_save s) = dc_can_dev s"
  "sync_sem (settings_save s) = sync_sem s" "input_reg (settings_save s) = input_reg s"
  by (simp_all add: settings_save_def)

section \<open>A restart\<close>

text \<open>The settings backend holds values of the registers' sizes, and delivers them in any order.\<close>

definition store_wf :: "(string \<rightharpoonup> bytes) \<Rightarrow> bool" where
  "store_wf m \<longleftrightarrow> (\<forall>name v. m name = Some v \<longrightarrow>
     (\<exists>k n vs. (name, k, n) \<in> set mb_keys \<and> 2 * length vs = n \<and> v = concat (map u16_mem vs)))"

definition delivers :: "(string \<times> bytes) list \<Rightarrow> (string \<rightharpoonup> bytes) \<Rightarrow> bool" where
  "delivers stored m \<longleftrightarrow> distinct (map fst stored) \<and> (\<forall>k v. (k, v) \<in> set stored \<longleftrightarrow> m k = Some v)"

lemma mb_keys_disjoint:
  "(a, k, n) \<in> set mb_keys \<Longrightarrow> (b, j, m) \<in> set mb_keys \<Longrightarrow> a \<noteq> b \<Longrightarrow> k + n div 2 \<le> j \<or> j + m div 2 \<le> k"
proof -
  have "\<forall>(a, k, n) \<in> set mb_keys. \<forall>(b, j, m) \<in> set mb_keys. a \<noteq> b \<longrightarrow> k + n div 2 \<le> j \<or> j + m div 2 \<le> k"
    by code_simp
  then show "(a, k, n) \<in> set mb_keys \<Longrightarrow> (b, j, m) \<in> set mb_keys \<Longrightarrow> a \<noteq> b \<Longrightarrow> k + n div 2 \<le> j \<or> j + m div 2 \<le> k"
    by fast
qed

lemma mb_keys_unique: "(a, k, n) \<in> set mb_keys \<Longrightarrow> (a, j, m) \<in> set mb_keys \<Longrightarrow> k = j \<and> n = m"
  using mb_keys_distinct by (metis eq_key_imp_eq_value prod.inject)

lemma load_keeps:
  assumes "names_path_ok (de_name_next E)" and "regs_ok s" and "(a, j, m) \<in> set mb_keys" and "2 * length vs = m"
  shows "regs_ok (dc_load_entry E (a, concat (map u16_mem vs)) s) \<and>
    (i < j \<or> j + length vs \<le> i \<longrightarrow> i < 23 \<longrightarrow>
      holding_reg (dc_load_entry E (a, concat (map u16_mem vs)) s) ! i = holding_reg s ! i) \<and>
    (j \<le> i \<and> i < j + length vs \<longrightarrow> holding_reg (dc_load_entry E (a, concat (map u16_mem vs)) s) ! i = vs ! (i - j))"
proof -
  have b: "j + length vs \<le> length (holding_reg s)" "length (holding_reg s) = 23"
    using mb_keys_bounds [OF assms(3)] assms(2,4) by (auto simp: regs_ok_def MODBUS_HOLDING_REGISTER_NUMBERS_def)
  then show ?thesis
    by (auto simp: load_setting [OF assms] nth_mem_put regs_ok_def MODBUS_HOLDING_REGISTER_NUMBERS_def)
qed

lemma load_all:
  assumes "names_path_ok (de_name_next E)" and "\<forall>(a, v) \<in> set stored. \<exists>j m vs. (a, j, m) \<in> set mb_keys \<and> 2 * length vs = m \<and>
      v = concat (map u16_mem vs)"
    and "distinct (map fst stored)" and "(name, k, n) \<in> set mb_keys" and "k \<le> i" and "i < k + n div 2"
  shows "regs_ok s \<Longrightarrow> regs_ok (fold (dc_load_entry E) stored s) \<and>
    (\<forall>vs. (name, concat (map u16_mem vs)) \<in> set stored \<and> 2 * length vs = n \<longrightarrow>
      holding_reg (fold (dc_load_entry E) stored s) ! i = vs ! (i - k)) \<and>
    (name \<notin> fst ` set stored \<longrightarrow> holding_reg (fold (dc_load_entry E) stored s) ! i = holding_reg s ! i)"
  using assms(2,3)
proof (induction stored arbitrary: s)
  case (Cons e stored)
  obtain a v where e: "e = (a, v)" by (cases e)
  obtain j m ws where key: "(a, j, m) \<in> set mb_keys" "2 * length ws = m" "v = concat (map u16_mem ws)"
    using Cons.prems(2) by (auto simp: e)
  define s1 where "s1 = dc_load_entry E e s"
  have i: "i < 23" using mb_keys_bounds [OF assms(4)] assms(6) by simp
  have s1: "regs_ok s1" "i < j \<or> j + length ws \<le> i \<Longrightarrow> holding_reg s1 ! i = holding_reg s ! i"
    "j \<le> i \<and> i < j + length ws \<Longrightarrow> holding_reg s1 ! i = ws ! (i - j)"
    using load_keeps [OF assms(1) Cons.prems(1) key(1,2), of i] i by (simp_all add: s1_def e key(3))
  have IH: "regs_ok (fold (dc_load_entry E) stored s1)"
    "\<And>vs. (name, concat (map u16_mem vs)) \<in> set stored \<Longrightarrow> 2 * length vs = n \<Longrightarrow>
      holding_reg (fold (dc_load_entry E) stored s1) ! i = vs ! (i - k)"
    "name \<notin> fst ` set stored \<Longrightarrow> holding_reg (fold (dc_load_entry E) stored s1) ! i = holding_reg s1 ! i"
    using Cons.IH [OF s1(1)] Cons.prems(2,3) by (auto simp: e)
  show ?case
  proof (cases "a = name")
    case True
    then have jk: "j = k" "m = n" using mb_keys_unique [OF key(1)] assms(4) by auto
    have out: "name \<notin> fst ` set stored" using Cons.prems(3) True by (simp add: e)
    have ws: "vs = ws" if "concat (map u16_mem vs) = v" for vs
      using that key(3) by (metis regs_mem_roundtrip)
    have len: "i < k + length ws" using jk(2) key(2) assms(6) by simp
    have "holding_reg (fold (dc_load_entry E) stored s1) ! i = ws ! (i - k)"
      using IH(3) [OF out] s1(3) jk(1) assms(5) len by simp
    moreover have "vs = ws" if "(name, concat (map u16_mem vs)) \<in> set (e # stored)" for vs
      using that out ws True by (auto simp: e image_iff)
    ultimately show ?thesis using IH(1) True by (auto simp: s1_def [symmetric]) (simp add: e)
  next
    case False
    then have "i < j \<or> j + length ws \<le> i" using mb_keys_disjoint [OF assms(4) key(1)] assms(5,6) key(2) by auto
    then have "holding_reg s1 ! i = holding_reg s ! i" by (rule s1(2))
    then show ?thesis using IH False by (simp add: s1_def [symmetric]) (auto simp: e)
  qed
qed simp

lemma update_regs_ok [simp]: "regs_ok (update_holding_reg i v s) = regs_ok s"
  by (simp add: regs_ok_def update_holding_reg_def)

lemma get_update [simp]:
  "regs_ok s \<Longrightarrow> i < 23 \<Longrightarrow> get_holding_reg j (update_holding_reg i v s) = (if j = i then v else get_holding_reg j s)"
  by (auto simp: regs_ok_def update_holding_reg_def get_holding_reg_def MODBUS_HOLDING_REGISTER_NUMBERS_def)

lemma update_holding_fields [simp]:
  "dc_his (update_holding_reg i v s) = dc_his s" "do_pins (update_holding_reg i v s) = do_pins s"
  "doled_pins (update_holding_reg i v s) = doled_pins s" "dc_store (update_holding_reg i v s) = dc_store s"
  "dc_can_dev (update_holding_reg i v s) = dc_can_dev s" "dc_can_tx (update_holding_reg i v s) = dc_can_tx s"
  "sync_sem (update_holding_reg i v s) = sync_sem s"
  by (simp_all add: update_holding_reg_def)

lemma his_enable_free:
  assumes "h_lock (dc_his s) = None"
  shows "\<exists>s'. his_enable E t b s = Some s' \<and> holding_reg s' = holding_reg s \<and> dc_store s' = dc_store s \<and>
    do_pins s' = do_pins s \<and> enable_write (dc_his s') = b \<and> h_lock (dc_his s') = None"
  using assms by (auto simp: his_enable_def history_enable_write_def k_mutex_lock_def k_mutex_unlock_def Let_def)

lemma get_holding_reg_eq: "holding_reg s = holding_reg s' \<Longrightarrow> get_holding_reg i s = get_holding_reg i s'"
  by (simp add: get_holding_reg_def)

text \<open>modbus_init up to the end of settings_load.\<close>

lemma fold_keeps: "(\<And>x s. P s \<Longrightarrow> P (f x s)) \<Longrightarrow> P s \<Longrightarrow> P (fold f xs s)"
  by (induction xs arbitrary: s) simp_all

lemma restart:
  assumes "names_path_ok (de_name_next E)" and "h_lock h = None" and "store_wf m" and "delivers stored m"
  obtains r where "modbus_init E t now stored (dc_static n_do n_led h) = Some r"
    and "regs_ok r"
    and "\<And>name k n vs i. (name, k, n) \<in> set mb_keys \<Longrightarrow> m name = Some (concat (map u16_mem vs)) \<Longrightarrow>
      2 * length vs = n \<Longrightarrow> k \<le> i \<Longrightarrow> i < k + n div 2 \<Longrightarrow> get_holding_reg i r = vs ! (i - k)"
proof -
  define s0 where "s0 = update_input_reg INPUT_VER_IDX (push_bit 8 (de_major E) OR de_minor E) (dc_static n_do n_led h)"
  define s1 where "s1 = fold (\<lambda>i s. if holding_regs ! i \<noteq> 0 then update_holding_reg i (holding_regs ! i) s else s)
    [0..<length holding_regs] s0"
  define s2 where "s2 = update_holding_reg HOLDING_TIMESTAMPL_IDX (ucast now)
    (update_holding_reg HOLDING_TIMESTAMPH_IDX (ucast (drop_bit 16 now)) s1)"
  define s3 where "s3 = fold (dc_load_entry E) stored s2"
  have inv0: "regs_ok s0 \<and> h_lock (dc_his s0) = None"
    using assms(2) by (simp add: s0_def update_input_reg_def dc_static_def regs_ok_def)
  have "regs_ok s1 \<and> h_lock (dc_his s1) = None" unfolding s1_def
    by (rule fold_keeps [where P = "\<lambda>s. regs_ok s \<and> h_lock (dc_his s) = None", OF _ inv0]) simp
  then have inv2: "regs_ok s2" and "h_lock (dc_his s2) = None" by (simp_all add: s2_def)
  have "h_lock (dc_his s3) = None" unfolding s3_def
    by (rule fold_keeps [where P = "\<lambda>s. h_lock (dc_his s) = None"])
      (auto simp: dc_load_entry_def mb_handle_set_def read_cb_def \<open>h_lock (dc_his s2) = None\<close> split: option.splits prod.splits)
  from his_enable_free [OF this, of E t "get_holding_reg HOLDING_HIS_SAVE_IDX s3 \<noteq> 0"]
  obtain r where r: "his_enable E t (get_holding_reg HOLDING_HIS_SAVE_IDX s3 \<noteq> 0) s3 = Some r"
    "holding_reg r = holding_reg s3" by blast
  have wf: "\<forall>(a, v) \<in> set stored. \<exists>j m vs. (a, j, m) \<in> set mb_keys \<and> 2 * length vs = m \<and> v = concat (map u16_mem vs)"
    using assms(3,4) by (force simp: store_wf_def delivers_def)
  have d: "distinct (map fst stored)" and in_store: "\<And>k v. (k, v) \<in> set stored \<longleftrightarrow> m k = Some v"
    using assms(4) by (auto simp: delivers_def)
  have ok3: "regs_ok s3"
    using load_all [OF assms(1) wf d, of "''modbus/history''" HOLDING_HIS_SAVE_IDX 2 HOLDING_HIS_SAVE_IDX s2, THEN conjunct1]
      inv2 by (simp add: s3_def mb_keys_def)
  show ?thesis
  proof (rule that)
    show "modbus_init E t now stored (dc_static n_do n_led h) = Some r"
      using r(1) by (simp add: modbus_init_def Let_def s3_def s2_def s1_def s0_def)
    show "regs_ok r" using ok3 r(2) by (simp add: regs_ok_def)
    fix name k n vs i
    assume a: "(name, k, n) \<in> set mb_keys" "m name = Some (concat (map u16_mem vs))" "2 * length vs = n" "k \<le> i" "i < k + n div 2"
    then have "holding_reg s3 ! i = vs ! (i - k)"
      using load_all [OF assms(1) wf d a(1,4,5) inv2] in_store by (simp add: s3_def)
    moreover have "i < 23" using mb_keys_bounds [OF a(1)] a(5) by simp
    ultimately show "get_holding_reg i r = vs ! (i - k)"
      using ok3 r(2) by (simp add: get_holding_reg_def regs_ok_def MODBUS_HOLDING_REGISTER_NUMBERS_def)
  qed
qed

lemma saved_wf:
  assumes "store_wf (dc_store s)" and "regs_ok s"
  shows "store_wf (dc_store (settings_save s))"
proof -
  have "\<exists>k n vs. (name, k, n) \<in> set mb_keys \<and> 2 * length vs = n \<and> v = concat (map u16_mem vs)"
    if ex: "(name, v) \<in> set (mb_handle_export s)" for name v
  proof -
    obtain k n where key: "(name, k, n) \<in> set mb_keys" "v = reg_value k n s"
      using ex by (auto simp: mb_handle_export_def)
    have "v = concat (map u16_mem (take (n div 2) (drop k (holding_reg s))))"
      using reg_value_regs [of k "n div 2" s] mb_keys_bounds [OF key(1)] key(2) by simp
    moreover have "2 * length (take (n div 2) (drop k (holding_reg s))) = n"
      using mb_keys_bounds [OF key(1)] assms(2) by (auto simp: regs_ok_def MODBUS_HOLDING_REGISTER_NUMBERS_def)
    ultimately show ?thesis using key(1) by blast
  qed
  moreover have "dc_store (settings_save s) name = Some v \<Longrightarrow> (name, v) \<in> set (mb_handle_export s) \<or> dc_store s name = Some v" for name v
    using fold_store [OF export_distinct, of name _ s "dc_store s"] fold_store_other [of name "mb_handle_export s" "dc_store s"]
    by (cases "name \<in> fst ` set (mb_handle_export s)") (auto simp: settings_save_def)
  ultimately show ?thesis using assms(1) unfolding store_wf_def by blast
qed

text \<open>After saving and restarting, the registers of an exported setting are as they were.\<close>

lemma saved_restart:
  assumes "names_path_ok (de_name_next E)" and "h_lock h = None" and "store_wf (dc_store s)" and "regs_ok s"
    and "delivers stored (dc_store (settings_save s))"
  obtains r where "modbus_init E t now stored (dc_static n_do n_led h) = Some r" and "regs_ok r"
    and "\<And>name k n i. (name, k, n) \<in> set mb_keys \<Longrightarrow> name = ''modbus/ip'' \<longrightarrow> ip_exported s \<Longrightarrow> k \<le> i \<Longrightarrow>
      i < k + n div 2 \<Longrightarrow> get_holding_reg i r = get_holding_reg i s"
proof -
  obtain r where r: "modbus_init E t now stored (dc_static n_do n_led h) = Some r" "regs_ok r"
    and get: "\<And>name k n vs i. (name, k, n) \<in> set mb_keys \<Longrightarrow> dc_store (settings_save s) name = Some (concat (map u16_mem vs)) \<Longrightarrow>
      2 * length vs = n \<Longrightarrow> k \<le> i \<Longrightarrow> i < k + n div 2 \<Longrightarrow> get_holding_reg i r = vs ! (i - k)"
    using restart [OF assms(1,2) saved_wf [OF assms(3,4)] assms(5)] by blast
  show ?thesis
  proof (rule that [OF r])
    fix name k n i
    assume a: "(name, k, n) \<in> set mb_keys" "name = ''modbus/ip'' \<longrightarrow> ip_exported s" "k \<le> i" "i < k + n div 2"
    let ?vs = "take (n div 2) (drop k (holding_reg s))"
    have b: "k + n div 2 \<le> 23" "n = 2 * (n div 2)" "length (holding_reg s) = 23"
      using mb_keys_bounds [OF a(1)] assms(4) by (auto simp: regs_ok_def MODBUS_HOLDING_REGISTER_NUMBERS_def)
    have "get_holding_reg i r = ?vs ! (i - k)"
      using get [OF a(1) saved_setting [OF a(1,2)] _ a(3,4)] b by simp
    then show "get_holding_reg i r = get_holding_reg i s" using a(3,4) b by (simp add: get_holding_reg_def)
  qed
qed

section \<open>Configuration commands\<close>

text \<open>The set commands with requests the code accepts in full, and the get command that reads the same parameters.\<close>

inductive config_request :: "'w dc_env \<Rightarrow> 'w collector \<Rightarrow> u8 \<Rightarrow> u8 \<Rightarrow> bytes \<Rightarrow> bool" for E s where
  req_net: "get_holding_reg HOLDING_NET_MODE_IDX s = DC_NET_MODE_STATIC \<Longrightarrow> d \<noteq> 0 \<Longrightarrow> d \<noteq> 0xff \<Longrightarrow>
     \<not> (224 \<le> a \<and> a \<le> 239) \<Longrightarrow>
     config_request E s DC_CMD_SET_NET DC_CMD_GET_NET ([a, b, c, d] @ put_be16 (de_bo E) port)"
| req_mode: "m \<le> 1 \<Longrightarrow> config_request E s DC_CMD_SET_NET_MODE DC_CMD_GET_NET_MODE [m]"
| req_modbus: "0 < i \<Longrightarrow> i < 0x100 \<Longrightarrow> 0 < bps \<Longrightarrow> bps \<le> 0xffff \<Longrightarrow>
     config_request E s DC_CMD_SET_MODBUS DC_CMD_GET_MODBUS (put_be16 (de_bo E) i @ put_be32 (de_bo E) bps)"
| req_sample: "config_request E s DC_CMD_SET_SAMPLE DC_CMD_GET_SAMPLE
     (put_be16 (de_bo E) di @ put_be16 (de_bo E) ai @ [his])"
| req_can: "config_request E s DC_CMD_SET_CAN DC_CMD_GET_CAN (put_be16 (de_bo E) i @ put_be16 (de_bo E) bps')"
| req_heart: "en \<le> 1 \<Longrightarrow> 500 \<le> timeout \<Longrightarrow>
     config_request E s DC_CMD_SET_HEART DC_CMD_GET_HEART (en # put_be16 (de_bo E) timeout)"

text \<open>Executing such a command: the registers read by the get command hold the request.\<close>

definition get_reply :: "'w dc_env \<Rightarrow> u8 \<Rightarrow> (nat \<Rightarrow> u16) \<Rightarrow> bytes" where
  "get_reply E cmd R =
     (if cmd = DC_CMD_GET_NET then [ucast (R HOLDING_IP_ADDR_1_IDX), ucast (R HOLDING_IP_ADDR_2_IDX),
        ucast (R HOLDING_IP_ADDR_3_IDX), ucast (R HOLDING_IP_ADDR_4_IDX)] @ put_be16 (de_bo E) (R HOLDING_TCP_PORT_IDX)
      else if cmd = DC_CMD_GET_NET_MODE then [ucast (R HOLDING_NET_MODE_IDX)]
      else if cmd = DC_CMD_GET_MODBUS then put_be16 (de_bo E) (R HOLDING_SLAVE_ID_IDX) @
        put_be32 (de_bo E) (ucast (R HOLDING_RS485_BPS_IDX))
      else if cmd = DC_CMD_GET_SAMPLE then put_be16 (de_bo E) (R HOLDING_DI_SI_IDX) @
        put_be16 (de_bo E) (R HOLDING_AI_SI_IDX) @ [ucast (R HOLDING_HIS_SAVE_IDX)]
      else if cmd = DC_CMD_GET_CAN then put_be16 (de_bo E) (R HOLDING_CAN_ID_IDX) @ put_be16 (de_bo E) (R HOLDING_CAN_BPS_IDX)
      else ucast (R HOLDING_HEART_EN_IDX) # put_be16 (de_bo E) (R HOLDING_HEART_TIMEOUT_IDX))"

definition get_cmds :: "u8 list" where
  "get_cmds = [DC_CMD_GET_NET, DC_CMD_GET_NET_MODE, DC_CMD_GET_MODBUS, DC_CMD_GET_SAMPLE, DC_CMD_GET_CAN, DC_CMD_GET_HEART]"

lemma get_command:
  "cmd \<in> set get_cmds \<Longrightarrow> now_live N = None \<Longrightarrow>
   dc_build_config_payload E N t cmd [] 8 s = Some (Some (get_reply E cmd (\<lambda>i. get_holding_reg i s)), s)"
  by (auto simp: get_cmds_def dc_build_config_payload_def Let_def dc_cmd_defs get_reply_def get_net_def get_modbus_def
      get_sample_def get_pair_def get_heart_def)

lemma ucast_u8_u16 [simp]: "(ucast (ucast (b :: u8) :: u16) :: u8) = b"
  by (rule bit_word_eqI) (simp add: bit_ucast_iff)

lemma ucast_small_u32: "bps \<le> (0xffff :: u32) \<Longrightarrow> (ucast (ucast bps :: u16) :: u32) = bps"
  by (simp add: word_le_nat_alt word_unat_eq_iff unsigned_ucast_eq unsigned_take_bit_eq take_bit_nat_eq_self)

lemma unat_widen: "unat (ucast (b :: u8) :: u16) = unat b"
  by (simp add: unsigned_ucast_eq take_bit_word_eq_self unsigned_take_bit_eq take_bit_nat_eq_self order_less_trans [OF unsigned_less])

lemma widen_simps:
  "(ucast (b :: u8) :: u16) = 0xff \<longleftrightarrow> b = 0xff" "(ucast b :: u16) = 0 \<longleftrightarrow> b = 0"
  "224 \<le> (ucast b :: u16) \<longleftrightarrow> 224 \<le> b" "(ucast b :: u16) \<le> 239 \<longleftrightarrow> b \<le> 239"
  by (simp_all add: word_le_nat_alt word_unat_eq_iff unat_widen)

lemma at_most_one: "(en :: u8) \<le> 1 \<Longrightarrow> en = 0 \<or> en = 1"
  by (auto simp: word_le_nat_alt word_unat_eq_iff le_Suc_eq)

lemma set_command:
  assumes "byteorder_ok (de_bo E)" and "regs_ok s" and "h_lock (dc_his s) = None" and "now_live N = None"
    and "config_request E s set_cmd get_cmd req"
  obtains s1 where "dc_build_config_payload E N t set_cmd req 8 s = Some (Some req, settings_save s1)"
    and "regs_ok s1" and "get_reply E get_cmd (\<lambda>i. get_holding_reg i s1) = req" and "dc_store s1 = dc_store s"
    and "get_cmd = DC_CMD_GET_NET \<longrightarrow> ip_exported s1" and "get_cmd \<in> set get_cmds"
proof -
  note bo = byteorder_okD(2,3,5,6) [OF assms(1)]
  have l2: "length (put_be16 (de_bo E) x) = 2" "length (put_be32 (de_bo E) y) = 4" for x y using bo by simp_all
  have g: "get_be16 (de_bo E) (put_be16 (de_bo E) x) = x" "get_be32 (de_bo E) (put_be32 (de_bo E) y) = y" for x y
    using bo(3) [of x "[]"] bo(4) [of y "[]"] by simp_all
  note ok = assms(2)
  let ?result = "\<exists>s1. dc_build_config_payload E N t set_cmd req 8 s = Some (Some req, settings_save s1) \<and>
    regs_ok s1 \<and> get_reply E get_cmd (\<lambda>i. get_holding_reg i s1) = req \<and> dc_store s1 = dc_store s \<and>
    (get_cmd = DC_CMD_GET_NET \<longrightarrow> ip_exported s1) \<and> get_cmd \<in> set get_cmds"
  from assms(5) have ?result
  proof cases
    case net: (req_net d a b c port)
    define s1 where "s1 = update_holding_reg HOLDING_TCP_PORT_IDX port (update_holding_reg HOLDING_IP_ADDR_4_IDX (ucast d)
      (update_holding_reg HOLDING_IP_ADDR_3_IDX (ucast c) (update_holding_reg HOLDING_IP_ADDR_2_IDX (ucast b)
        (update_holding_reg HOLDING_IP_ADDR_1_IDX (ucast a) s))))"
    have R: "get_holding_reg HOLDING_IP_ADDR_1_IDX s1 = ucast a" "get_holding_reg HOLDING_IP_ADDR_2_IDX s1 = ucast b"
      "get_holding_reg HOLDING_IP_ADDR_3_IDX s1 = ucast c" "get_holding_reg HOLDING_IP_ADDR_4_IDX s1 = ucast d"
      "get_holding_reg HOLDING_TCP_PORT_IDX s1 = port"
      unfolding s1_def using ok by (simp_all add: idx_defs)
    have "set_net E req s = (True, s1)" using net(4) l2 g by (simp add: net(3) s1_def set_net_def Let_def)
    moreover have "ip_exported s1" unfolding ip_exported_def R widen_simps using net(5-7) by simp
    moreover have "get_reply E get_cmd (\<lambda>i. get_holding_reg i s1) = req"
      unfolding get_reply_def net(2,3) by (simp only: R ucast_u8_u16 if_True simp_thms)
    moreover have "get_net E N s1 = req"
      unfolding get_net_def net(3) assms(4) by (simp only: R ucast_u8_u16 option.case)
    moreover have "dc_store s1 = dc_store s" "regs_ok s1" using ok by (simp_all add: s1_def)
    ultimately show ?thesis
      using net(1,2) by (intro exI [of _ s1]) (simp add: dc_build_config_payload_def Let_def get_cmds_def)
  next
    case mode: (req_mode m)
    define s1 where "s1 = update_holding_reg HOLDING_NET_MODE_IDX (ucast m) s"
    have R: "get_holding_reg HOLDING_NET_MODE_IDX s1 = ucast m"
      unfolding s1_def using ok by (simp_all add: idx_defs)
    have "set_net_mode req s = (True, s1)" using mode(4) by (simp add: mode(3) set_net_mode_def s1_def)
    moreover have "get_reply E get_cmd (\<lambda>i. get_holding_reg i s1) = req"
      unfolding get_reply_def mode(2,3) by (simp add: dc_cmd_defs R)
    moreover have "dc_store s1 = dc_store s" "regs_ok s1" using ok by (simp_all add: s1_def)
    ultimately show ?thesis
      using mode(1,2) by (intro exI [of _ s1]) (simp add: dc_build_config_payload_def Let_def get_cmds_def dc_cmd_defs get_reply_def R)
  next
    case modbus: (req_modbus i bps)
    define s1 where "s1 = update_holding_reg HOLDING_SLAVE_ID_IDX i (update_holding_reg HOLDING_RS485_BPS_IDX (ucast bps) s)"
    have R: "get_holding_reg HOLDING_SLAVE_ID_IDX s1 = i" "get_holding_reg HOLDING_RS485_BPS_IDX s1 = ucast bps"
      unfolding s1_def using ok by (simp_all add: idx_defs)
    have "set_modbus E req s = (True, s1)" using modbus(4-7) l2 g bo(3) by (simp add: modbus(3) set_modbus_def Let_def s1_def)
    moreover have "get_reply E get_cmd (\<lambda>i. get_holding_reg i s1) = req"
      unfolding get_reply_def modbus(2,3) by (simp add: dc_cmd_defs R ucast_small_u32 [OF modbus(7)])
    moreover have "dc_store s1 = dc_store s" "regs_ok s1" using ok by (simp_all add: s1_def)
    ultimately show ?thesis
      using modbus(1,2) by (intro exI [of _ s1]) (simp add: dc_build_config_payload_def Let_def get_cmds_def dc_cmd_defs get_reply_def get_modbus_def)
  next
    case sample: (req_sample di ai his)
    define s0 where "s0 = update_holding_reg HOLDING_HIS_SAVE_IDX (ucast his) (update_holding_reg HOLDING_AI_SI_IDX ai
      (update_holding_reg HOLDING_DI_SI_IDX di s))"
    have lock: "h_lock (dc_his s0) = None" using assms(3) by (simp add: s0_def)
    obtain s1 where s1: "his_enable E t (his \<noteq> 0) s0 = Some s1" "holding_reg s1 = holding_reg s0" "dc_store s1 = dc_store s0"
      using his_enable_free [OF lock, of E t "his \<noteq> 0"] by blast
    have R: "get_holding_reg HOLDING_DI_SI_IDX s1 = di" "get_holding_reg HOLDING_AI_SI_IDX s1 = ai"
      "get_holding_reg HOLDING_HIS_SAVE_IDX s1 = ucast his"
      unfolding get_holding_reg_eq [OF s1(2)] s0_def using ok by (simp_all add: idx_defs)
    have n4: "(put_be16 (de_bo E) di @ put_be16 (de_bo E) ai @ [his]) ! 4 = his" using l2 by (simp add: nth_append)
    have "set_sample E t req s = Some (True, s1)"
      using bo(3) l2 n4 g s1(1) by (simp add: sample(3) set_sample_def Let_def s0_def)
    moreover have "get_reply E get_cmd (\<lambda>i. get_holding_reg i s1) = req"
      unfolding get_reply_def sample(2,3) by (simp add: dc_cmd_defs R)
    moreover have "get_sample E s1 = req" unfolding get_sample_def sample(3) R by simp
    moreover have "dc_store s1 = dc_store s" "regs_ok s1" using ok s1(2,3) by (simp_all add: s0_def regs_ok_def update_holding_reg_def)
    ultimately show ?thesis
      using sample(1,2) by (intro exI [of _ s1]) (simp add: dc_build_config_payload_def Let_def get_cmds_def dc_cmd_defs)
  next
    case can: (req_can i bps)
    define s1 where "s1 = update_holding_reg HOLDING_CAN_BPS_IDX bps (update_holding_reg HOLDING_CAN_ID_IDX i s)"
    have R: "get_holding_reg HOLDING_CAN_ID_IDX s1 = i" "get_holding_reg HOLDING_CAN_BPS_IDX s1 = bps"
      unfolding s1_def using ok by (simp_all add: idx_defs)
    have "set_can E req s = (True, s1)" using l2 g bo(3) by (simp add: can(3) set_can_def Let_def s1_def)
    moreover have "get_reply E get_cmd (\<lambda>i. get_holding_reg i s1) = req"
      unfolding get_reply_def can(2,3) by (simp add: dc_cmd_defs R)
    moreover have "dc_store s1 = dc_store s" "regs_ok s1" using ok by (simp_all add: s1_def)
    ultimately show ?thesis
      using can(1,2) by (intro exI [of _ s1]) (simp add: dc_build_config_payload_def Let_def get_cmds_def dc_cmd_defs get_reply_def get_pair_def)
  next
    case heart: (req_heart en t)
    define s1 where "s1 = update_holding_reg HOLDING_HEART_TIMEOUT_IDX t (update_holding_reg HOLDING_HEART_EN_IDX (if en \<noteq> 0 then 1 else 0) s)"
    have en: "(ucast (if en \<noteq> 0 then 1 else 0 :: u16) :: u8) = en" using at_most_one [OF heart(4)] by auto
    have R: "get_holding_reg HOLDING_HEART_EN_IDX s1 = (if en \<noteq> 0 then 1 else 0)" "get_holding_reg HOLDING_HEART_TIMEOUT_IDX s1 = t"
      unfolding s1_def using ok by (simp_all add: idx_defs)
    have "set_heart E req s = (True, s1)" using heart(5) l2 g by (simp add: heart(3) set_heart_def Let_def s1_def max_def)
    moreover have "get_reply E get_cmd (\<lambda>i. get_holding_reg i s1) = req"
      unfolding get_reply_def heart(2,3) by (simp add: dc_cmd_defs R en)
    moreover have "dc_store s1 = dc_store s" "regs_ok s1" using ok by (simp_all add: s1_def)
    ultimately show ?thesis
      using heart(1,2) by (intro exI [of _ s1]) (simp add: dc_build_config_payload_def Let_def get_cmds_def dc_cmd_defs get_reply_def get_heart_def)
  qed
  then show ?thesis using that by blast
qed

lemma get_reply_key:
  assumes "get_cmd \<in> set get_cmds"
    and "\<And>name k n i. (name, k, n) \<in> set mb_keys \<Longrightarrow> name = ''modbus/ip'' \<longrightarrow> get_cmd = DC_CMD_GET_NET \<Longrightarrow> k \<le> i \<Longrightarrow>
      i < k + n div 2 \<Longrightarrow> R i = Q i"
  shows "get_reply E get_cmd R = get_reply E get_cmd Q"
proof -
  have plain: "R i = Q i" if "(name, i, 2) \<in> set mb_keys" "name \<noteq> ''modbus/ip''" for name i
    using assms(2) [OF that(1)] that(2) by simp
  have ip: "R i = Q i" if "get_cmd = DC_CMD_GET_NET" "10 \<le> i" "i < 14" for i
    using assms(2) [of "''modbus/ip''" 10 8 i] that by (simp add: mb_keys_def idx_defs)
  have "R HOLDING_TCP_PORT_IDX = Q HOLDING_TCP_PORT_IDX" by (rule plain [of "''modbus/tcp_port''"]) (simp_all add: mb_keys_def)
  moreover have "R HOLDING_NET_MODE_IDX = Q HOLDING_NET_MODE_IDX" by (rule plain [of "''modbus/net_mode''"]) (simp_all add: mb_keys_def)
  moreover have "R HOLDING_SLAVE_ID_IDX = Q HOLDING_SLAVE_ID_IDX" by (rule plain [of "''modbus/slave_id''"]) (simp_all add: mb_keys_def)
  moreover have "R HOLDING_RS485_BPS_IDX = Q HOLDING_RS485_BPS_IDX" by (rule plain [of "''modbus/rs485_bps''"]) (simp_all add: mb_keys_def)
  moreover have "R HOLDING_DI_SI_IDX = Q HOLDING_DI_SI_IDX" by (rule plain [of "''modbus/di/time''"]) (simp_all add: mb_keys_def)
  moreover have "R HOLDING_AI_SI_IDX = Q HOLDING_AI_SI_IDX" by (rule plain [of "''modbus/ai/time''"]) (simp_all add: mb_keys_def)
  moreover have "R HOLDING_HIS_SAVE_IDX = Q HOLDING_HIS_SAVE_IDX" by (rule plain [of "''modbus/history''"]) (simp_all add: mb_keys_def)
  moreover have "R HOLDING_CAN_ID_IDX = Q HOLDING_CAN_ID_IDX" by (rule plain [of "''modbus/can/id''"]) (simp_all add: mb_keys_def)
  moreover have "R HOLDING_CAN_BPS_IDX = Q HOLDING_CAN_BPS_IDX" by (rule plain [of "''modbus/can/bps''"]) (simp_all add: mb_keys_def)
  moreover have "R HOLDING_HEART_EN_IDX = Q HOLDING_HEART_EN_IDX" by (rule plain [of "''modbus/heart/enable''"]) (simp_all add: mb_keys_def)
  moreover have "R HOLDING_HEART_TIMEOUT_IDX = Q HOLDING_HEART_TIMEOUT_IDX"
    by (rule plain [of "''modbus/heart/time''"]) (simp_all add: mb_keys_def)
  moreover have "get_cmd = DC_CMD_GET_NET \<Longrightarrow> R HOLDING_IP_ADDR_1_IDX = Q HOLDING_IP_ADDR_1_IDX \<and>
      R HOLDING_IP_ADDR_2_IDX = Q HOLDING_IP_ADDR_2_IDX \<and> R HOLDING_IP_ADDR_3_IDX = Q HOLDING_IP_ADDR_3_IDX \<and>
      R HOLDING_IP_ADDR_4_IDX = Q HOLDING_IP_ADDR_4_IDX"
    using ip by (simp add: idx_defs)
  ultimately show ?thesis by (simp add: get_reply_def)
qed


section \<open>The same commands over CAN\<close>

function resp_frames :: "byteorder \<Rightarrow> u8 \<Rightarrow> u8 \<Rightarrow> bytes \<Rightarrow> can_frame list" where
  "resp_frames bo sub seq resp =
     \<lparr>can_id = DC_CAN_CFG_RESP, can_dlc = bytes_to_dlc bo 8,
       can_data = [sub, seq] @ take 6 resp @ replicate (6 - length (take 6 resp)) 0\<rparr> #
     (if length resp > 6 then resp_frames bo sub (seq + 1) (drop 6 resp) else [])"
  by pat_completeness auto
termination by (relation "measure (\<lambda>(bo, sub, seq, resp). length resp)") auto

declare resp_frames.simps [simp del]

lemma config_resp_frames:
  assumes "\<forall>f. de_can_send E f = 0"
  shows "dc_can_dev s \<Longrightarrow> can_send_config_resp E sub seq resp s = s\<lparr>dc_can_tx := dc_can_tx s @ resp_frames (de_bo E) sub seq resp\<rparr>"
proof (induction "de_bo E" sub seq resp arbitrary: s rule: resp_frames.induct)
  case (1 sub seq resp)
  define s1 where "s1 = s\<lparr>dc_can_tx := dc_can_tx s @ [\<lparr>can_id = DC_CAN_CFG_RESP, can_dlc = bytes_to_dlc (de_bo E) 8,
       can_data = [sub, seq] @ take 6 resp @ replicate (6 - length (take 6 resp)) 0\<rparr>]\<rparr>"
  have "can_send_config_resp E sub seq resp s = (if length resp > 6 then can_send_config_resp E sub (seq + 1) (drop 6 resp) s1 else s1)"
    using 1(2) assms by (subst can_send_config_resp.simps) (simp add: Let_def dc_can_send_def s1_def)
  moreover have "dc_can_dev s1" using 1(2) by (simp add: s1_def)
  ultimately show ?case
    using 1(1) [of s1] by (subst resp_frames.simps) (auto simp: s1_def)
qed

lemma resp_frames_content:
  "take (length resp) (concat (map (\<lambda>g. drop 2 (can_data g)) (resp_frames bo sub seq resp))) = resp \<and>
   (\<forall>g \<in> set (resp_frames bo sub seq resp). can_id g = DC_CAN_CFG_RESP \<and> length (can_data g) = 8 \<and> can_data g ! 0 = sub) \<and>
   (\<forall>i < length (resp_frames bo sub seq resp). can_data (resp_frames bo sub seq resp ! i) ! 1 = seq + of_nat i) \<and>
   resp_frames bo sub seq resp \<noteq> []"
proof (induction bo sub seq resp rule: resp_frames.induct)
  case (1 bo sub seq resp)
  let ?fs = "resp_frames bo sub (seq + 1) (drop 6 resp)"
  show ?case
  proof (cases "length resp > 6")
    case True
    have all: "resp_frames bo sub seq resp = \<lparr>can_id = DC_CAN_CFG_RESP, can_dlc = bytes_to_dlc bo 8,
        can_data = [sub, seq] @ take 6 resp\<rparr> # ?fs" using True by (subst resp_frames.simps) simp
    have "take (length resp) (take 6 resp @ concat (map (\<lambda>g. drop 2 (can_data g)) ?fs)) =
        take 6 resp @ take (length resp - 6) (concat (map (\<lambda>g. drop 2 (can_data g)) ?fs))"
      using True by simp
    also have "\<dots> = resp" using 1 True by simp
    finally show ?thesis using 1 True unfolding all by (auto simp: nth_Cons' algebra_simps)
  next
    case False
    then have "resp_frames bo sub seq resp = [\<lparr>can_id = DC_CAN_CFG_RESP, can_dlc = bytes_to_dlc bo 8,
        can_data = [sub, seq] @ resp @ replicate (6 - length resp) 0\<rparr>]" by (subst resp_frames.simps) simp
    then show ?thesis using False by simp
  qed
qed

lemma his_enable_can: "his_enable E t b s = Some s' \<Longrightarrow> dc_can_tx s' = dc_can_tx s \<and> dc_can_dev s' = dc_can_dev s"
  by (auto simp: his_enable_def)

lemma config_keeps_can:
  assumes "dc_build_config_payload E N t cmd req n s = Some (r, s')"
  shows "dc_can_tx s' = dc_can_tx s \<and> dc_can_dev s' = dc_can_dev s"
proof -
  have parts: "dc_can_tx (snd (set_net E req s)) = dc_can_tx s" "dc_can_dev (snd (set_net E req s)) = dc_can_dev s"
    "dc_can_tx (snd (set_net_mode req s)) = dc_can_tx s" "dc_can_dev (snd (set_net_mode req s)) = dc_can_dev s"
    "dc_can_tx (snd (set_modbus E req s)) = dc_can_tx s" "dc_can_dev (snd (set_modbus E req s)) = dc_can_dev s"
    "dc_can_tx (snd (set_can E req s)) = dc_can_tx s" "dc_can_dev (snd (set_can E req s)) = dc_can_dev s"
    "dc_can_tx (snd (set_heart E req s)) = dc_can_tx s" "dc_can_dev (snd (set_heart E req s)) = dc_can_dev s"
    "dc_can_tx (snd (set_time E N req s)) = dc_can_tx s" "dc_can_dev (snd (set_time E N req s)) = dc_can_dev s"
    by (auto simp: set_net_def set_net_mode_def set_modbus_def set_can_def set_heart_def set_time_def Let_def set_timestamp_def)
  have sample: "dc_can_tx s' = dc_can_tx s \<and> dc_can_dev s' = dc_can_dev s" if "set_sample E t req s = Some (b, s')" for b s'
    using that by (auto simp: set_sample_def Let_def split: if_splits dest: his_enable_can)
  show ?thesis
    using assms parts sample unfolding dc_build_config_payload_def Let_def
    by (auto split: if_splits prod.splits simp: bind_eq_Some_conv)
qed

text \<open>
  C25: a command means the same over CAN and over UDP: a configuration frame with a command and one to seven request
  bytes leaves the registers, settings and history exactly as the datagram with the same bytes does, and its
  answer, cut into numbered frames of six bytes, carries the bytes of the UDP reply; an unknown command is answered
  on neither.  But a frame without a request byte, which a get command needs none of, is dropped.
\<close>

theorem can_same_as_udp:
  assumes "byteorder_ok (de_bo E)" and "can_id f = DC_CAN_CFG_CMD" and "length (can_data f) = 8"
    and "unat (dlc_to_bytes (de_bo E) (can_dlc f)) = n" and "n \<le> 8" and "dc_can_dev s" and "\<forall>f. de_can_send E f = 0"
    and "can_data f = cmd # rest"
  shows "(n < 2 \<longrightarrow> dc_can_app_rx E N t f s = Some (True, s)) \<and>
    (2 \<le> n \<longrightarrow>
      (case dc_app_cmd_handler E N t (cmd, take (n - 1) rest) (Some s, []) of
         (_, None, _) \<Rightarrow> dc_can_app_rx E N t f s = None
       | (handled, Some s', replies) \<Rightarrow>
           \<exists>fs. dc_can_app_rx E N t f s = Some (True, s'\<lparr>dc_can_tx := dc_can_tx s @ fs\<rparr>) \<and> (handled \<longleftrightarrow> fs \<noteq> []) \<and>
             (\<forall>g \<in> set fs. can_id g = DC_CAN_CFG_RESP \<and> length (can_data g) = 8 \<and> can_data g ! 0 = cmd) \<and>
             (\<forall>i < length fs. can_data (fs ! i) ! 1 = of_nat i) \<and>
             (handled \<longrightarrow> (\<exists>resp. replies = [(cmd, resp, of_nat (length resp))] \<and>
               take (length resp) (concat (map (\<lambda>g. drop 2 (can_data g)) fs)) = resp))))"
proof (cases "n < 2")
  case True
  then show ?thesis using assms(2,4) by (simp add: dc_can_app_rx_def)
next
  case False
  have req: "take (min (n - 1) 7) (drop 1 (can_data f)) = take (n - 1) rest"
  proof -
    have "min (n - 1) 7 = n - 1" using assms(5) by simp
    then show ?thesis using assms(8) by simp
  qed
  show ?thesis
  proof (cases "dc_build_config_payload E N t cmd (take (n - 1) rest) 8 s")
    case None
    then show ?thesis using False assms(2,4,5,8) req by (simp add: dc_can_app_rx_def dc_app_cmd_handler_def)
  next
    case (Some a)
    obtain r s' where a: "dc_build_config_payload E N t cmd (take (n - 1) rest) 8 s = Some (r, s')" using Some by (cases a) simp
    have can: "dc_can_tx s' = dc_can_tx s" "dc_can_dev s'" using config_keeps_can [OF a] assms(6) by simp_all
    have rx: "dc_can_app_rx E N t f s = Some (True, case r of None \<Rightarrow> s' | Some resp \<Rightarrow> can_send_config_resp E cmd 0 resp s')"
      using False assms(2,4,5,8) req a by (simp add: dc_can_app_rx_def split: option.split)
    show ?thesis
    proof (cases r)
      case None
      then show ?thesis using False rx a can by (auto simp: dc_app_cmd_handler_def intro: exI [of _ "[]"])
    next
      case (Some resp)
      show ?thesis
        using False rx a can(1) resp_frames_content [of resp "de_bo E" cmd 0] config_resp_frames [OF assms(7) can(2), of cmd 0 resp]
        by (simp add: Some dc_app_cmd_handler_def) metis
    qed
  qed
qed

end
