(* ===== verification/Posix_Mem.thy ===== *)
theory Posix_Mem
  imports Posix
begin

text \<open>
  Files in memory: an instance of the POSIX calls that behaves as documented for files, with which the theorems
  about the data collector are applied to concrete inputs.  It has no sockets and no directories.
\<close>

record mem_disk =
  md_files :: "(string \<times> bytes) list"
  md_open :: "(int \<times> string \<times> nat) list"
  md_next :: int

definition md_get :: "string \<Rightarrow> mem_disk \<Rightarrow> bytes option" where "md_get p w = map_of (md_files w) p"

definition md_set :: "string \<Rightarrow> bytes \<Rightarrow> mem_disk \<Rightarrow> mem_disk" where
  "md_set p bs w = w\<lparr>md_files := (p, bs) # filter (\<lambda>(q, _). q \<noteq> p) (md_files w)\<rparr>"

definition md_open_file :: "open_mode \<Rightarrow> string \<Rightarrow> mem_disk \<Rightarrow> int \<times> mem_disk" where
  "md_open_file m p w =
     (if md_get p w = None \<and> (m = Rdonly \<or> m = Wronly) then (- 1, w)
      else
        let w = (if md_get p w = None \<or> m = Creat_trunc then md_set p [] w else w)
        in (md_next w, w\<lparr>md_open := (md_next w, p, 0) # md_open w, md_next := md_next w + 1\<rparr>))"

definition md_seek :: "(bytes \<Rightarrow> nat) \<Rightarrow> int \<Rightarrow> mem_disk \<Rightarrow> int \<times> mem_disk" where
  "md_seek pos f w =
     (case map_of (md_open w) f of
        None \<Rightarrow> (- 1, w)
      | Some (p, _) \<Rightarrow>
          (case md_get p w of
             None \<Rightarrow> (- 1, w)
           | Some bs \<Rightarrow> (int (pos bs), w\<lparr>md_open := (f, p, pos bs) # filter (\<lambda>(g, _). g \<noteq> f) (md_open w)\<rparr>)))"

definition md_read :: "int \<Rightarrow> nat \<Rightarrow> mem_disk \<Rightarrow> int \<times> bytes \<times> mem_disk" where
  "md_read f n w =
     (case map_of (md_open w) f of
        None \<Rightarrow> (- 1, [], w)
      | Some (p, i) \<Rightarrow>
          let bs = take n (drop i (the (md_get p w)))
          in (int (length bs), bs, snd (md_seek (\<lambda>_. i + length bs) f w)))"

definition md_write :: "int \<Rightarrow> bytes \<Rightarrow> mem_disk \<Rightarrow> int \<times> mem_disk" where
  "md_write f bs w =
     (case map_of (md_open w) f of
        None \<Rightarrow> (- 1, w)
      | Some (p, i) \<Rightarrow>
          (int (length bs), snd (md_seek (\<lambda>_. i + length bs) f (md_set p (mem_put i bs (the (md_get p w))) w))))"

definition mem_px :: "mem_disk posix" where
  "mem_px = \<lparr>
     px_list = (\<lambda>p w. (Some (map (drop (length p + 1) \<circ> fst) (filter (\<lambda>(q, _). take (length p + 1) q = p @ ''/'') (md_files w))), w)),
     px_stat = (\<lambda>p w. (map_option (\<lambda>bs. \<lparr>st_mode = 0x8180, st_is_reg = True, st_is_dir = False, st_nlink = 1,
         st_size = int (length bs), st_mtime = 0\<rparr>) (md_get p w), w)),
     px_mkdir = (\<lambda>p w. (- 1, w)),
     px_unlink = (\<lambda>p w. if md_get p w = None then (- 1, w) else (0, w\<lparr>md_files := filter (\<lambda>(q, _). q \<noteq> p) (md_files w)\<rparr>)),
     px_open = md_open_file,
     px_seek_end = md_seek length,
     px_seek_set = (\<lambda>f i. md_seek (\<lambda>_. nat i) f),
     px_read = md_read,
     px_write = md_write,
     px_sync = (\<lambda>f w. w),
     px_close = (\<lambda>f w. w\<lparr>md_open := filter (\<lambda>(g, _). g \<noteq> f) (md_open w)\<rparr>),
     px_socket = (\<lambda>w. (- 1, w)), px_bind = (\<lambda>f p w. (- 1, w)), px_sockname = (\<lambda>f w. (0, w)), px_listen = (\<lambda>f w. (- 1, w)),
     px_sndtimeo = (\<lambda>f w. (- 1, w)), px_connect = (\<lambda>f a p w. (- 1, w)), px_accept = (\<lambda>f w. (- 1, w)),
     px_send = (\<lambda>f bs w. (int (length bs), w)), px_select = (\<lambda>f n w. (- 1, w)), px_recv = (\<lambda>f n w. (- 1, [], w))\<rparr>"

definition mem_disk0 :: mem_disk where "mem_disk0 = \<lparr>md_files = [], md_open = [], md_next = 3\<rparr>"

end
