(* ===== verification/Collector_Out.thy ===== *)
theory Collector_Out
  imports Collector_Props Posix_Mem
begin

text \<open>
  The outputs of the data collector over every run of its threads.
\<close>

section \<open>Outputs\<close>

text \<open>What runs on the data collector after its start-up, in any order.\<close>

inductive dc_run :: "'w dc_env \<Rightarrow> 'w collector \<Rightarrow> bool" for E where
  run_boot: "modbus_init E t now stored (dc_static n_do n_led h) = Some s \<Longrightarrow> dc_run E (dio_init s)"
| run_coil: "dc_run E s \<Longrightarrow> dc_run E (snd (coil_wr addr b s))"
| run_holding: "dc_run E s \<Longrightarrow> holding_reg_wr E t addr reg s = Some (ret, s') \<Longrightarrow> dc_run E s'"
| run_di: "dc_run E s \<Longrightarrow> dc_run E (di_process mem pins s)"
| run_ai: "dc_run E s \<Longrightarrow> dc_run E (adc_process mem reads s)"
| run_heart: "dc_run E s \<Longrightarrow> dc_run E (heart_poll s)"
| run_event: "dc_run E s \<Longrightarrow> dc_run E (heart_event_send s)"
| run_cmd: "dc_run E s \<Longrightarrow> dc_build_config_payload E N t cmd req n s = Some (r, s') \<Longrightarrow> dc_run E s'"
| run_can: "dc_run E s \<Longrightarrow> dc_run E (snd (dc_can_send E f s))"
| run_link_down: "dc_run E s \<Longrightarrow> dc_run E (mb_set_do 0 (update_holding_reg HOLDING_DO_IDX 0 s))"
| run_history: "dc_run E s \<Longrightarrow> his_process_save (de_px E) (de_root E) junk now (dc_his s) = Some h \<Longrightarrow> dc_run E (s\<lparr>dc_his := h\<rparr>)"

text \<open>The arrays that nothing resizes, and the semaphore that counts to one.\<close>

definition tables_ok :: "'w collector \<Rightarrow> bool" where
  "tables_ok s \<longleftrightarrow> length (input_reg s) = MODBUS_INPUT_REGISTER_NUMBERS \<and>
     length (coils_state s) = MODBUS_COLS_REGISTER_NUMBERS \<and> sync_sem s \<le> 1"

definition outputs_ok :: "'w collector \<Rightarrow> bool" where
  "outputs_ok s \<longleftrightarrow> regs_ok s \<and> tables_ok s \<and>
     (\<forall>i < length (do_pins s). do_pins s ! i = (i < 8 \<and> bit (get_holding_reg HOLDING_DO_IDX s) i)) \<and>
     (\<forall>i < length (doled_pins s). i < length (do_pins s) \<longrightarrow> doled_pins s ! i = do_pins s ! i)"

definition do_frame :: "'w collector \<Rightarrow> 'w collector \<Rightarrow> bool" where
  "do_frame s s' \<longleftrightarrow> (regs_ok s \<longrightarrow> regs_ok s' \<and> get_holding_reg HOLDING_DO_IDX s' = get_holding_reg HOLDING_DO_IDX s) \<and>
     (tables_ok s \<longrightarrow> tables_ok s') \<and> do_pins s' = do_pins s \<and> doled_pins s' = doled_pins s"

lemma tables_same [simp]:
  "tables_ok (update_holding_reg i v s) = tables_ok s" "tables_ok (mb_set_do w s) = tables_ok s"
  "tables_ok (dio_init s) = tables_ok s" "tables_ok (settings_save s) = tables_ok s"
  "tables_ok (read_cb k n val s) = tables_ok s" "tables_ok (update_input_reg i v s) = tables_ok s"
  "tables_ok (s\<lparr>holding_reg := rs\<rparr>) = tables_ok s" "tables_ok (s\<lparr>dc_his := h\<rparr>) = tables_ok s"
  "tables_ok (s\<lparr>do_pins := ps\<rparr>) = tables_ok s" "tables_ok (s\<lparr>doled_pins := ps\<rparr>) = tables_ok s"
  "tables_ok (s\<lparr>dc_clock := c\<rparr>) = tables_ok s" "tables_ok (s\<lparr>dc_rebooted := b\<rparr>) = tables_ok s"
  "tables_ok (s\<lparr>dc_can_tx := fs\<rparr>) = tables_ok s"
  "tables_ok (s\<lparr>input_reg := (input_reg s)[i := v]\<rparr>) = tables_ok s"
  "tables_ok (s\<lparr>coils_state := (coils_state s)[i := w8]\<rparr>) = tables_ok s"
  "tables_ok (dc_static n_do n_led h)"
  by (simp_all add: tables_ok_def update_holding_reg_def mb_set_do_def dio_init_def settings_save_def read_cb_def
      update_input_reg_def dc_static_def Let_def)

lemma do_frame_ok: "do_frame s s' \<Longrightarrow> outputs_ok s \<Longrightarrow> outputs_ok s'"
  by (simp add: do_frame_def outputs_ok_def)

lemma do_frame_trans: "do_frame s s' \<Longrightarrow> do_frame s' s'' \<Longrightarrow> do_frame s s''"
  by (simp add: do_frame_def)

lemma do_frame_update: "i \<noteq> HOLDING_DO_IDX \<Longrightarrow> do_frame s (update_holding_reg i v s)"
  by (simp add: do_frame_def) (simp add: update_holding_reg_def regs_ok_def get_holding_reg_def)

lemma do_frame_same: "holding_reg s' = holding_reg s \<Longrightarrow> do_pins s' = do_pins s \<Longrightarrow> doled_pins s' = doled_pins s \<Longrightarrow>
    (tables_ok s \<Longrightarrow> tables_ok s') \<Longrightarrow> do_frame s s'"
  by (simp add: do_frame_def regs_ok_def get_holding_reg_def)

lemma do_frame_refl: "do_frame s s" by (simp add: do_frame_same)

lemma do_frame_then: "do_frame s s1 \<Longrightarrow> i \<noteq> HOLDING_DO_IDX \<Longrightarrow> do_frame s (update_holding_reg i v s1)"
  by (rule do_frame_trans [OF _ do_frame_update])

lemma do_frame_time: "do_frame s s1 \<Longrightarrow> do_frame s (set_timestamp v s1)"
  by (erule do_frame_trans) (rule do_frame_same; simp add: set_timestamp_def)

lemma do_frame_save: "do_frame s s1 \<Longrightarrow> do_frame s (settings_save s1)"
  by (erule do_frame_trans) (rule do_frame_same; simp)

lemma his_enable_frame: "his_enable E t b s = Some s' \<Longrightarrow> do_frame s s'"
  by (auto simp: his_enable_def intro!: do_frame_same)

lemmas do_frames = do_frame_refl do_frame_then do_frame_time do_frame_save

lemma other_idx [simp]:
  "HOLDING_DI_EN_IDX \<noteq> HOLDING_DO_IDX" "HOLDING_AI_EN_IDX \<noteq> HOLDING_DO_IDX" "HOLDING_DI_SI_IDX \<noteq> HOLDING_DO_IDX"
  "HOLDING_AI_SI_IDX \<noteq> HOLDING_DO_IDX" "HOLDING_HIS_SAVE_IDX \<noteq> HOLDING_DO_IDX" "HOLDING_CAN_ID_IDX \<noteq> HOLDING_DO_IDX"
  "HOLDING_CAN_BPS_IDX \<noteq> HOLDING_DO_IDX" "HOLDING_RS485_BPS_IDX \<noteq> HOLDING_DO_IDX" "HOLDING_SLAVE_ID_IDX \<noteq> HOLDING_DO_IDX"
  "HOLDING_IP_ADDR_1_IDX \<noteq> HOLDING_DO_IDX" "HOLDING_IP_ADDR_2_IDX \<noteq> HOLDING_DO_IDX" "HOLDING_IP_ADDR_3_IDX \<noteq> HOLDING_DO_IDX"
  "HOLDING_IP_ADDR_4_IDX \<noteq> HOLDING_DO_IDX" "HOLDING_TIMESTAMPH_IDX \<noteq> HOLDING_DO_IDX" "HOLDING_TIMESTAMPL_IDX \<noteq> HOLDING_DO_IDX"
  "HOLDING_HEART_EN_IDX \<noteq> HOLDING_DO_IDX" "HOLDING_HEART_TIMEOUT_IDX \<noteq> HOLDING_DO_IDX" "HOLDING_HEART_IDX \<noteq> HOLDING_DO_IDX"
  "HOLDING_TCP_PORT_IDX \<noteq> HOLDING_DO_IDX" "HOLDING_NET_MODE_IDX \<noteq> HOLDING_DO_IDX"
  by (simp_all add: idx_defs)

lemma setters_frame:
  "do_frame s (snd (set_net E req s))" "do_frame s (snd (set_net_mode req s))" "do_frame s (snd (set_modbus E req s))"
  "do_frame s (snd (set_can E req s))" "do_frame s (snd (set_heart E req s))" "do_frame s (snd (set_time E N req s))"
  by (simp_all add: set_net_def set_net_mode_def set_modbus_def set_can_def set_heart_def set_time_def Let_def do_frames)

lemma set_sample_frame:
  assumes "set_sample E t req s = Some (b, s')"
  shows "do_frame s s'"
proof (cases "length req \<ge> 5")
  case True
  let ?s1 = "update_holding_reg HOLDING_HIS_SAVE_IDX (ucast (req ! 4)) (update_holding_reg HOLDING_AI_SI_IDX
    (get_be16 (de_bo E) (drop 2 req)) (update_holding_reg HOLDING_DI_SI_IDX (get_be16 (de_bo E) req) s))"
  have "do_frame s ?s1" by (simp add: do_frames)
  moreover have "his_enable E t (req ! 4 \<noteq> 0) ?s1 = Some s'" using assms True by (simp add: set_sample_def)
  ultimately show ?thesis using do_frame_trans his_enable_frame by blast
next
  case False
  then show ?thesis using assms by (simp add: set_sample_def do_frame_refl)
qed

lemma answer_frame:
  assumes "(case p of (saved, s) \<Rightarrow> Some (f s, if saved then settings_save s else s)) = Some (r, s')"
    and "do_frame s (snd p)"
  shows "do_frame s s'"
  using assms by (cases p) (auto simp: do_frame_save split: if_splits)

lemma if_eqE: "(if c then a else b) = x \<Longrightarrow> (a = x \<Longrightarrow> P) \<Longrightarrow> (b = x \<Longrightarrow> P) \<Longrightarrow> P"
  by (simp split: if_splits)

lemma config_frame: "dc_build_config_payload E N t cmd req n s = Some (r, s') \<Longrightarrow> do_frame s s'"
  unfolding dc_build_config_payload_def Let_def
proof (elim if_eqE, goal_cases)
  case 7
  then obtain b s1 where h: "set_sample E t req s = Some (b, s1)"
    "(case (b, s1) of (saved, s) \<Rightarrow> Some (if 5 \<le> n then Some (get_sample E s) else None, if saved then settings_save s else s)) = Some (r, s')"
    by (auto simp: bind_eq_Some_conv)
  show ?case by (rule answer_frame [OF h(2)]) (simp add: set_sample_frame [OF h(1)])
next
  case 13
  then show ?case using setters_frame(6) [of s E N req] by (auto split: prod.splits)
next
  case 15
  then show ?case by (simp add: do_frame_refl)
qed (erule answer_frame, simp add: setters_frame do_frame_refl)+

lemma set_do_ok:
  assumes "regs_ok s" and "tables_ok s" and "reg AND 0xff = get_holding_reg HOLDING_DO_IDX s AND 0xff"
  shows "outputs_ok (mb_set_do (reg AND 0xff) s)"
proof -
  have m: "bit (0xff :: u16) i \<longleftrightarrow> i < 8" for i
    using bit_mask_iff [of 8 i, where ?'a = u16] by (auto simp: mask_eq_exp_minus_1)
  have "bit (reg AND 0xff) i \<longleftrightarrow> i < 8 \<and> bit (get_holding_reg HOLDING_DO_IDX s) i" for i
    unfolding assms(3) bit_and_iff m by auto
  then show ?thesis
    using assms(1,2) tables_same(2) [of "reg AND 0xff" s]
    by (auto simp del: tables_same simp: outputs_ok_def mb_set_do_def Let_def regs_ok_def get_holding_reg_def)
qed

text \<open>Loading a stored setting leaves the register of the outputs alone.\<close>

lemma mb_key_range: "mb_key nxt name = Some (k, n) \<Longrightarrow> 1 \<le> k \<and> 2 * k + n \<le> 46"
  by (auto simp: mb_key_def Let_def idx_defs split: if_splits prod.splits)

lemma mem_u16s_first: "length xs = length ys \<Longrightarrow> take 2 xs = take 2 ys \<Longrightarrow>
    length (mem_u16s xs) = length (mem_u16s ys) \<and> (mem_u16s xs = [] \<or> mem_u16s xs ! 0 = mem_u16s ys ! 0)"
proof -
  have len: "length (mem_u16s zs) = length zs div 2" for zs by (induction zs rule: mem_u16s.induct) simp_all
  assume "length xs = length ys" "take 2 xs = take 2 ys"
  then show ?thesis
    by (cases xs rule: mem_u16s.cases; cases ys rule: mem_u16s.cases) (auto simp: len)
qed

lemma read_cb_frame:
  assumes "1 \<le> k" and "2 * k + length (take n val) \<le> 46"
  shows "do_frame s (read_cb k n val s)"
proof -
  let ?m = "concat (map u16_mem (holding_reg s))"
  let ?m' = "mem_put (2 * k) (take n val) ?m"
  have "do_frame s (read_cb k n val s)" if "regs_ok s"
  proof -
    have len: "length ?m' = length ?m" using that assms(2) by (simp add: regs_ok_def MODBUS_HOLDING_REGISTER_NUMBERS_def)
    have "take 2 ?m' = take 2 ?m" using that assms by (simp add: mem_put_def regs_ok_def MODBUS_HOLDING_REGISTER_NUMBERS_def)
    from mem_u16s_first [OF len this] have "length (mem_u16s ?m') = length (holding_reg s)"
      "mem_u16s ?m' = [] \<or> mem_u16s ?m' ! 0 = holding_reg s ! 0"
      by (simp_all add: regs_mem_roundtrip)
    then show ?thesis
      using that by (auto simp: do_frame_def read_cb_def regs_ok_def get_holding_reg_def HOLDING_DO_IDX_def MODBUS_HOLDING_REGISTER_NUMBERS_def)
  qed
  moreover have "do_frame s (read_cb k n val s)" if "\<not> regs_ok s" using that by (simp add: do_frame_def read_cb_def)
  ultimately show ?thesis by blast
qed

lemma load_frame: "do_frame s (dc_load_entry E e s)"
proof -
  have "do_frame s (snd (mb_handle_set E name val s))" for name val
  proof (cases "mb_key (de_name_next E) name")
    case None
    then show ?thesis by (simp add: mb_handle_set_def do_frame_refl)
  next
    case (Some kn)
    obtain k n where kn: "kn = (k, n)" by (cases kn)
    have "do_frame s (read_cb k n val s)"
      by (rule read_cb_frame) (use mb_key_range [of "de_name_next E" name k n] Some kn in auto)
    then show ?thesis by (simp add: mb_handle_set_def Some kn)
  qed
  then show ?thesis by (cases e) (simp add: dc_load_entry_def do_frame_refl)
qed

lemma fold_frame: "do_frame s s1 \<Longrightarrow> (\<And>x s. do_frame s (f x s)) \<Longrightarrow> do_frame s (fold f xs s1)"
  by (induction xs arbitrary: s1) (simp_all, blast intro: do_frame_trans)

lemma update_input_frame [simp]: "do_frame s s1 \<Longrightarrow> do_frame s (update_input_reg i v s1)"
  by (erule do_frame_trans) (rule do_frame_same; simp add: update_input_reg_def)

lemma start_frame: "modbus_init E t now stored s = Some s' \<Longrightarrow> do_frame s s'"
proof -
  let ?s1 = "update_input_reg INPUT_VER_IDX (push_bit 8 (de_major E) OR de_minor E) s"
  let ?s2 = "fold (\<lambda>i s. if holding_regs ! i \<noteq> 0 then update_holding_reg i (holding_regs ! i) s else s)
                [0..<length holding_regs] ?s1"
  let ?s3 = "update_holding_reg HOLDING_TIMESTAMPL_IDX (ucast now) (update_holding_reg HOLDING_TIMESTAMPH_IDX (ucast (drop_bit 16 now)) ?s2)"
  have "holding_regs ! 0 = 0" by code_simp
  then have step: "do_frame s (if holding_regs ! i \<noteq> 0 then update_holding_reg i (holding_regs ! i) s else s)" for i s
    by (cases "i = 0") (simp_all add: do_frame_refl do_frame_update HOLDING_DO_IDX_def)
  have "do_frame s ?s2" by (rule fold_frame [OF _ step]) (simp add: do_frame_refl)
  then have "do_frame s ?s3" by (simp add: do_frames)
  then have "do_frame s (fold (dc_load_entry E) stored ?s3)" by (rule fold_frame [OF _ load_frame])
  moreover assume "modbus_init E t now stored s = Some s'"
  ultimately show ?thesis using do_frame_trans his_enable_frame by (fastforce simp: modbus_init_def Let_def)
qed

lemma boot_outputs:
  assumes "modbus_init E t now stored (dc_static n_do n_led h) = Some s"
  shows "outputs_ok (dio_init s)"
proof -
  have "regs_ok (dc_static n_do n_led h)" "get_holding_reg HOLDING_DO_IDX (dc_static n_do n_led h) = 0"
    by (simp_all add: regs_ok_def get_holding_reg_def dc_static_def idx_defs)
  moreover have "tables_ok (dc_static n_do n_led h)" by simp
  then have "tables_ok (dio_init s)" using start_frame [OF assms] by (simp only: do_frame_def tables_same)
  ultimately show ?thesis
    using start_frame [OF assms]
    by (auto simp del: tables_same simp: outputs_ok_def do_frame_def dio_init_def regs_ok_def get_holding_reg_def dc_static_def Let_def)
qed

lemma switch_ok:
  assumes "outputs_ok s"
  shows "outputs_ok (mb_set_do (reg AND 0xff) (update_holding_reg HOLDING_DO_IDX reg s))"
proof (rule set_do_ok)
  show "regs_ok (update_holding_reg HOLDING_DO_IDX reg s)" "tables_ok (update_holding_reg HOLDING_DO_IDX reg s)"
    using assms by (simp_all add: outputs_ok_def)
  show "reg AND 0xff = get_holding_reg HOLDING_DO_IDX (update_holding_reg HOLDING_DO_IDX reg s) AND 0xff"
    using assms by (simp add: outputs_ok_def regs_ok_def get_holding_reg_def update_holding_reg_def idx_defs)
qed

lemma off_ok: "outputs_ok s \<Longrightarrow> outputs_ok (mb_set_do 0 (update_holding_reg HOLDING_DO_IDX 0 s))"
  using switch_ok [of s 0] by simp

lemma write_ok:
  assumes "outputs_ok s" and "holding_reg_wr E t addr reg s = Some (ret, s')"
  shows "outputs_ok s'"
proof (cases "addr < length (holding_reg s)")
  case True
  let ?s = "update_holding_reg addr reg s"
  have s: "?s = s\<lparr>holding_reg := (holding_reg s)[addr := reg]\<rparr>" using True by (simp add: update_holding_reg_def)
  show ?thesis
  proof (cases "addr = HOLDING_DO_IDX")
    case True
    then show ?thesis using assms switch_ok [OF assms(1), of reg] \<open>addr < _\<close> by (simp add: holding_reg_wr_def update_holding_reg_def)
  next
    case False
    have base: "do_frame s ?s" by (rule do_frame_update [OF False])
    have zero: "?s\<lparr>holding_reg := (holding_reg ?s)[addr := 0]\<rparr> = update_holding_reg addr 0 ?s"
      using True by (simp add: update_holding_reg_def)
    have zeroed: "do_frame s (settings_save (?s\<lparr>holding_reg := (holding_reg ?s)[addr := 0]\<rparr>))"
      unfolding zero by (simp add: do_frames False)
    have reboot: "do_frame s (?s\<lparr>dc_rebooted := True\<rparr>)"
      by (rule do_frame_trans [OF base do_frame_same]) simp_all
    have his: "do_frame s s''" if "his_enable E t b ?s = Some s''" for b s''
      by (rule do_frame_trans [OF base his_enable_frame [OF that]])
    have "do_frame s s'"
      using assms(2) True False base zeroed reboot his
      by (auto simp: holding_reg_wr_def Let_def s [symmetric] do_frame_time split: if_splits)
    then show ?thesis by (rule do_frame_ok [OF _ assms(1)])
  qed
next
  case False
  then show ?thesis using assms by (simp add: holding_reg_wr_def)
qed

lemma di_frame: "do_frame s (di_process mem pins s)"
  by (rule do_frame_same) (simp_all add: di_process_def Let_def update_input_reg_def)

lemma ai_scan_fields: "holding_reg (ai_scan rs i s) = holding_reg s \<and> do_pins (ai_scan rs i s) = do_pins s \<and>
    doled_pins (ai_scan rs i s) = doled_pins s \<and> tables_ok (ai_scan rs i s) = tables_ok s"
  by (induction rs arbitrary: i s) (auto simp: update_input_reg_def split: option.split)

lemma ai_frame: "do_frame s (adc_process mem reads s)"
  by (rule do_frame_same) (simp_all add: adc_process_def Let_def ai_scan_fields)

lemma run_outputs: "dc_run E s \<Longrightarrow> outputs_ok s"
proof (induction rule: dc_run.induct)
  case (run_boot t now stored n_do n_led h s)
  then show ?case by (rule boot_outputs)
next
  case (run_coil s addr b)
  have "do_frame s (snd (coil_wr addr b s))" by (rule do_frame_same) (simp_all add: coil_wr_def Let_def)
  then show ?case using run_coil(2) by (rule do_frame_ok)
next
  case (run_heart s)
  show ?case
  proof (cases "sync_sem s > 0 \<or> get_holding_reg HOLDING_HEART_EN_IDX s = 0")
    case True
    then have "do_frame s (heart_poll s)" by (intro do_frame_same) (auto simp: heart_poll_def tables_ok_def)
    then show ?thesis using run_heart(2) by (rule do_frame_ok)
  next
    case False
    have "outputs_ok (update_holding_reg HOLDING_HEART_IDX 0 s)" by (rule do_frame_ok [OF do_frame_update run_heart(2)]) simp
    then show ?thesis using False by (simp add: heart_poll_def off_ok)
  qed
next
  case (run_can s f)
  have "do_frame s (snd (dc_can_send E f s))" by (rule do_frame_same) (simp_all add: dc_can_send_def Let_def)
  then show ?case using run_can(2) by (rule do_frame_ok)
next
  case (run_event s)
  have "do_frame s (heart_event_send s)" by (rule do_frame_same) (simp_all add: heart_event_send_def tables_ok_def)
  then show ?case using run_event(2) by (rule do_frame_ok)
next
  case (run_history s junk now h)
  have "do_frame s (s\<lparr>dc_his := h\<rparr>)" by (rule do_frame_same) simp_all
  then show ?case using run_history(3) by (rule do_frame_ok)
qed (auto intro: write_ok off_ok do_frame_ok [OF di_frame] do_frame_ok [OF ai_frame] do_frame_ok [OF config_frame])



section \<open>A collector on a file system in memory\<close>

definition demo_name_next :: "string \<Rightarrow> nat \<times> string option" where
  "demo_name_next s =
     (let n = length (takeWhile (\<lambda>c. c \<noteq> CHR ''/'' \<and> c \<noteq> CHR ''='') s)
      in (n, if n < length s \<and> s ! n = CHR ''/'' then Some (drop (n + 1) s) else None))"

definition demo_dc :: "mem_disk dc_env" where
  "demo_dc = \<lparr>de_bo = std_byteorder, de_px = mem_px, de_root = ''/lfs'', de_name_next = demo_name_next,
     de_version = 0x01020300, de_major = 1, de_minor = 2, de_can_send = (\<lambda>_. 0)\<rparr>"

definition demo_his :: "mem_disk history" where
  "demo_his = his_static (\<lambda>_. \<lparr>his_type = 0, timestamps = 0, his_union = replicate 10 0\<rparr>) mem_disk0"

definition demo_now :: dc_now where "demo_now = \<lparr>now_live = None, now_time = 0, now_uptime = 5000\<rparr>"

definition demo_collector :: "mem_disk collector" where
  "demo_collector = (dc_static 8 8 demo_his)\<lparr>dc_can_dev := True\<rparr>"

lemma demo_names: "names_path_ok demo_name_next"
proof -
  have t: "CHR ''/'' \<notin> set s \<and> CHR ''='' \<notin> set s \<Longrightarrow> takeWhile (\<lambda>c. c \<noteq> CHR ''/'' \<and> c \<noteq> CHR ''='') s = s" for s
    by (auto simp: takeWhile_eq_all_conv)
  have "takeWhile (\<lambda>c. c \<noteq> CHR ''/'' \<and> c \<noteq> CHR ''='') (s @ CHR ''/'' # r) = s" if "CHR ''/'' \<notin> set s \<and> CHR ''='' \<notin> set s" for s r
    using that by (subst takeWhile_append2) auto
  then show ?thesis by (simp add: names_path_ok_def names_ok_def demo_name_next_def t)
qed

lemma demo_collector_ok: "regs_ok demo_collector" "h_lock (dc_his demo_collector) = None" "store_wf (dc_store demo_collector)"
  "h_lock demo_his = None" "dc_can_dev demo_collector"
  by (simp_all add: demo_collector_def dc_static_def regs_ok_def demo_his_def his_static_def store_wf_def)


theorem can_same_as_udp_witness:
  "\<exists>s'. dc_app_cmd_handler demo_dc demo_now 1 (DC_CMD_GET_INFO, [0]) (Some demo_collector, []) =
      (True, Some s', [(DC_CMD_GET_INFO, [1, 2, 3, 0, 0, 0, 0, 5], 8)]) \<and>
    (\<exists>fs. dc_can_app_rx demo_dc demo_now 1 \<lparr>can_id = 0x1A0, can_dlc = 2, can_data = [0x21, 0, 9, 9, 9, 9, 9, 9]\<rparr> demo_collector =
        Some (True, s'\<lparr>dc_can_tx := dc_can_tx demo_collector @ fs\<rparr>) \<and>
      (\<forall>i < length fs. can_data (fs ! i) ! 1 = of_nat i) \<and>
      take 8 (concat (map (\<lambda>g. drop 2 (can_data g)) fs)) = [1, 2, 3, 0, 0, 0, 0, 5])"
proof -
  let ?f = "\<lparr>can_id = 0x1A0, can_dlc = 2, can_data = [0x21, 0, 9, 9, 9, 9, 9, 9]\<rparr>"
  have udp: "dc_app_cmd_handler demo_dc demo_now 1 (DC_CMD_GET_INFO, [0]) (Some demo_collector, []) =
      (True, Some demo_collector, [(DC_CMD_GET_INFO, [1, 2, 3, 0, 0, 0, 0, 5], 8)])"
    by (simp add: dc_app_cmd_handler_def dc_build_config_payload_def dc_cmd_defs demo_now_def demo_dc_def std_byteorder_def le32_bytes_def)
  have "unat (dlc_to_bytes (de_bo demo_dc) (can_dlc ?f)) = 2" "\<forall>f. de_can_send demo_dc f = 0" "byteorder_ok (de_bo demo_dc)"
    by (simp_all add: demo_dc_def std_byteorder_ok)
  from can_same_as_udp [OF this(3) _ _ this(1) _ demo_collector_ok(5) this(2), of DC_CMD_GET_INFO "[0, 9, 9, 9, 9, 9, 9]" demo_now 1]
  obtain fs where "dc_can_app_rx demo_dc demo_now 1 ?f demo_collector = Some (True, demo_collector\<lparr>dc_can_tx := dc_can_tx demo_collector @ fs\<rparr>)"
      "\<forall>i < length fs. can_data (fs ! i) ! 1 = of_nat i"
      "take (length [1, 2, 3, 0, 0, 0, 0, 5 :: u8]) (concat (map (\<lambda>g. drop 2 (can_data g)) fs)) = [1, 2, 3, 0, 0, 0, 0, 5]"
    using udp by (simp add: DC_CAN_CFG_CMD_def DC_CMD_GET_INFO_def) metis
  then show ?thesis using udp by (intro exI [of _ demo_collector] exI [of _ fs] conjI) (simp_all add: eval_nat_numeral)
qed

lemma demo_boot: "\<exists>s. modbus_init demo_dc 1 7 [] (dc_static 4 4 demo_his) = Some s"
proof -
  have d: "delivers [] Map.empty" by (simp add: delivers_def)
  from restart [OF _ demo_collector_ok(4) _ d, of demo_dc] show ?thesis
    using demo_names by (metis demo_dc_def dc_env.select_convs(4) store_wf_def option.distinct(1))
qed



end
