(* ===== verification/Collector_Tcp.thy ===== *)
theory Collector_Tcp
  imports Collector_Net
begin

text \<open>
  The Modbus TCP server of the data collector over every run: connections come and go, clients are served, the
  link goes down and up.
\<close>

inductive tcp_run :: "'w mb_stack \<Rightarrow> 'w tcp \<Rightarrow> bool" for M where
  tcp_start: "tcp_run M (tcp_static a c)"
| tcp_event: "tcp_run M s \<Longrightarrow> tcp_run M (net_event_handler ev s)"
| tcp_new: "tcp_run M s \<Longrightarrow> client \<noteq> 0 \<Longrightarrow> 0 < uptime \<Longrightarrow> tcp_run M (tcp_turn M (Some client) input uptime s)"
| tcp_work: "tcp_run M s \<Longrightarrow> 0 < uptime \<Longrightarrow> tcp_run M (tcp_turn M None input uptime s)"

text \<open>A slot is free or holds a client with the time it was last heard of; at most one is taken.\<close>

definition slot_ok :: "mb_client \<Rightarrow> bool" where
  "slot_ok c \<longleftrightarrow> c = free_client \<or> 0 < mc_fd c \<and> 0 < mc_time c"

definition busy :: "mb_client list \<Rightarrow> mb_client list" where "busy cs = filter (\<lambda>c. mc_fd c > 0) cs"

definition slots_ok :: "mb_client list \<Rightarrow> bool" where
  "slots_ok cs \<longleftrightarrow> length cs = TCP_MAX_CLIENTS \<and> (\<forall>c \<in> set cs. slot_ok c) \<and> length (busy cs) \<le> 1"

lemma free_fields [simp]: "mc_fd free_client = 0" "mc_time free_client = 0" by (simp_all add: free_client_def)

lemma busy_none: "\<forall>c \<in> set cs. slot_ok c \<Longrightarrow> busy cs = [] \<Longrightarrow> cs = replicate (length cs) free_client"
  by (induction cs) (auto simp: busy_def slot_ok_def split: if_splits)

lemma replace_slot:
  assumes "slots_ok cs" and "i < length cs" and "slot_ok c" and "mc_fd c = mc_fd (cs ! i) \<or> c = free_client"
  shows "slots_ok (cs[i := c])"
proof -
  have "length (filter (\<lambda>c. mc_fd c > 0) (cs[i := c])) \<le> length (filter (\<lambda>c. mc_fd c > 0) cs)"
    using assms(2,4) by (subst (2) id_take_nth_drop [OF assms(2)]) (auto simp: upd_conv_take_nth_drop)
  then show ?thesis using assms by (auto simp: slots_ok_def busy_def dest: set_update_subset_insert [THEN subsetD])
qed

lemma serve_slots:
  assumes "tcp_serve M I uptime i s = (go, s')" and "slots_ok (mb_clients s)" and "i < TCP_MAX_CLIENTS"
    and "mc_fd (mb_clients s ! i) > 0" and "0 < uptime"
  shows "slots_ok (mb_clients s')"
  using assms replace_slot [OF assms(2), of i free_client]
    replace_slot [OF assms(2), of i "(mb_clients s ! i)\<lparr>mc_time := uptime\<rparr>"]
  by (auto simp: tcp_serve_def Let_def slots_ok_def slot_ok_def split: if_splits prod.splits)

lemma clients_slots:
  "slots_ok (mb_clients s) \<Longrightarrow> 0 < uptime \<Longrightarrow> \<forall>i \<in> set is. i < TCP_MAX_CLIENTS \<Longrightarrow>
   slots_ok (mb_clients (tcp_clients M input uptime is s))"
proof (induction "is" arbitrary: s)
  case (Cons i "is")
  show ?case
  proof (cases "if mc_fd (mb_clients s ! i) > 0 then input (mc_fd (mb_clients s ! i)) else None")
    case None
    then show ?thesis using Cons by (simp add: Let_def)
  next
    case (Some I)
    obtain go s' where served: "tcp_serve M I uptime i s = (go, s')" by (cases "tcp_serve M I uptime i s")
    have "slots_ok (mb_clients s')"
      by (rule serve_slots [OF served]) (use Cons.prems Some in \<open>auto split: if_splits\<close>)
    then show ?thesis using Cons Some served by (simp add: Let_def split: bool.split)
  qed
qed simp

text \<open>A new connection: expired clients go first, then it is refused or takes the first slot.\<close>

definition terminate :: "bool \<Rightarrow> int \<Rightarrow> mb_client list \<Rightarrow> mb_client list" where
  "terminate down uptime cs = map (\<lambda>c. if expired down uptime c then free_client else c) cs"

lemma slots_ok_all_free: "slots_ok (replicate TCP_MAX_CLIENTS free_client)"
  by (simp add: slots_ok_def busy_def slot_ok_def)

lemma take_free_slot: "take_slot c (replicate TCP_MAX_CLIENTS free_client) = Some [c, free_client, free_client]"
  by (simp add: TCP_MAX_CLIENTS_def eval_nat_numeral)

lemma terminate_alive:
  assumes "slots_ok cs" and "c \<in> set cs" and "mc_fd c > 0" and "\<not> expired down uptime c"
  shows "\<not> down \<and> filter (expired down uptime) cs = [] \<and> terminate down uptime cs = cs"
proof -
  have up: "\<not> down" using assms(4) by (simp add: expired_def)
  have "\<not> expired down uptime d" if d: "d \<in> set cs" for d
  proof (cases "mc_fd d > 0")
    case True
    have "d = c"
    proof -
      have "c \<in> set (busy cs)" "d \<in> set (busy cs)" using assms(2,3) d True by (simp_all add: busy_def)
      then show ?thesis using assms(1) by (cases "busy cs") (auto simp: slots_ok_def)
    qed
    then show ?thesis using assms(4) by simp
  next
    case False
    then have "d = free_client" using assms(1) d by (auto simp: slots_ok_def slot_ok_def)
    then show ?thesis using up by (simp add: expired_def)
  qed
  then show ?thesis using up by (auto simp: terminate_def filter_empty_conv intro: map_idI)
qed

lemma terminate_all:
  assumes "slots_ok cs" and "\<forall>c \<in> set cs. mc_fd c > 0 \<longrightarrow> expired down uptime c"
  shows "terminate down uptime cs = replicate TCP_MAX_CLIENTS free_client"
proof -
  have "\<forall>c \<in> set cs. (if expired down uptime c then free_client else c) = free_client"
    using assms by (auto simp: slots_ok_def slot_ok_def)
  then have "terminate down uptime cs = map (\<lambda>_. free_client) cs" by (simp add: terminate_def)
  then show ?thesis using assms(1) by (simp add: slots_ok_def map_replicate_const)
qed

lemma accept_alive:
  assumes "slots_ok (mb_clients s)" and "c \<in> set (mb_clients s)" and "mc_fd c > 0"
    and "\<not> expired (tcp_link_down s) uptime c" and "client \<ge> 0"
  shows "tcp_accept client uptime s = s\<lparr>tcp_closed := tcp_closed s @ [client]\<rparr>"
  using terminate_alive [OF assms(1-4)] assms(2,3,5)
  by (auto simp: tcp_accept_def Let_def terminate_def list_ex_iff)

lemma accept_free:
  assumes "slots_ok (mb_clients s)" and "\<forall>c \<in> set (mb_clients s). mc_fd c > 0 \<longrightarrow> expired (tcp_link_down s) uptime c"
    and "client \<ge> 0"
  shows "mb_clients (tcp_accept client uptime s) = [\<lparr>mc_fd = client, mc_time = uptime\<rparr>, free_client, free_client] \<and>
    tcp_closed (tcp_accept client uptime s) = tcp_closed s @ map mc_fd (filter (expired (tcp_link_down s) uptime) (mb_clients s))"
proof -
  have "\<not> (list_ex (\<lambda>c. mc_fd c > 0) (mb_clients s) \<and> filter (expired (tcp_link_down s) uptime) (mb_clients s) = [])"
    using assms(2) by (auto simp: list_ex_iff filter_empty_conv)
  then show ?thesis
    using assms(3) terminate_all [OF assms(1,2)] take_free_slot by (simp add: tcp_accept_def Let_def terminate_def)
qed

lemma run_slots: "tcp_run M s \<Longrightarrow> slots_ok (mb_clients s)"
proof (induction rule: tcp_run.induct)
  case (tcp_start a c)
  then show ?case by (simp add: tcp_static_def slots_ok_all_free)
next
  case (tcp_event s ev)
  then show ?case by (simp add: net_event_handler_def split: net_event.split)
next
  case (tcp_new s client uptime input)
  consider "client < 0" | "client > 0" "\<exists>c \<in> set (mb_clients s). mc_fd c > 0 \<and> \<not> expired (tcp_link_down s) uptime c"
    | "client > 0" "\<forall>c \<in> set (mb_clients s). mc_fd c > 0 \<longrightarrow> expired (tcp_link_down s) uptime c"
    using tcp_new(2) by force
  then show ?case
  proof cases
    case 1
    then show ?thesis using tcp_new by (simp add: tcp_turn_def tcp_accept_def)
  next
    case 2
    then show ?thesis using tcp_new accept_alive [OF tcp_new(4)] by (auto simp: tcp_turn_def)
  next
    case 3
    then show ?thesis using tcp_new accept_free [OF tcp_new(4) 3(2), of client]
      by (simp add: tcp_turn_def slots_ok_def TCP_MAX_CLIENTS_def slot_ok_def busy_def)
  qed
next
  case (tcp_work s uptime input)
  then show ?case by (simp add: tcp_turn_def clients_slots)
qed

text \<open>
  C27: the data collector serves one Modbus TCP client at a time: whatever connects, sends and is lost, at most one
  of the three slots is taken; while its client was heard of in the last 30 seconds and the link is up, a new
  connection is closed at once and changes nothing else; otherwise the old client is closed and the new one takes
  its place.
\<close>

theorem one_modbus_client:
  assumes "tcp_run M s" and "client \<ge> 0"
  shows "length (filter (\<lambda>c. mc_fd c \<noteq> 0) (mb_clients s)) \<le> 1 \<and>
    (\<forall>c \<in> set (mb_clients s). mc_fd c \<noteq> 0 \<longrightarrow>
      (if uptime \<le> mc_time c + 30000 \<and> \<not> tcp_link_down s
       then tcp_accept client uptime s = s\<lparr>tcp_closed := tcp_closed s @ [client]\<rparr>
       else mc_fd c \<in> set (drop (length (tcp_closed s)) (tcp_closed (tcp_accept client uptime s))) \<and>
         mb_clients (tcp_accept client uptime s) = [\<lparr>mc_fd = client, mc_time = uptime\<rparr>, free_client, free_client]))"
proof -
  have ok: "slots_ok (mb_clients s)" by (rule run_slots [OF assms(1)])
  then have taken: "mc_fd c \<noteq> 0 \<longleftrightarrow> mc_fd c > 0" "mc_fd c \<noteq> 0 \<longrightarrow> mc_time c > 0" if "c \<in> set (mb_clients s)" for c
    using that by (auto simp: slots_ok_def slot_ok_def)
  have "filter (\<lambda>c. mc_fd c \<noteq> 0) (mb_clients s) = busy (mb_clients s)"
    using taken by (auto simp: busy_def intro: filter_cong)
  then have one: "length (filter (\<lambda>c. mc_fd c \<noteq> 0) (mb_clients s)) \<le> 1" using ok by (simp add: slots_ok_def)
  have "mc_fd c \<in> set (drop (length (tcp_closed s)) (tcp_closed (tcp_accept client uptime s))) \<and>
      mb_clients (tcp_accept client uptime s) = [\<lparr>mc_fd = client, mc_time = uptime\<rparr>, free_client, free_client]"
    if c: "c \<in> set (mb_clients s)" "mc_fd c \<noteq> 0" and old: "\<not> (uptime \<le> mc_time c + 30000 \<and> \<not> tcp_link_down s)" for c
  proof -
    have exp: "expired (tcp_link_down s) uptime c" using old taken [OF c(1)] c(2) by (auto simp: expired_def)
    have "d = c" if "d \<in> set (mb_clients s)" "mc_fd d > 0" for d
    proof -
      have "c \<in> set (busy (mb_clients s))" "d \<in> set (busy (mb_clients s))" using that c taken by (auto simp: busy_def)
      then show ?thesis using ok by (cases "busy (mb_clients s)") (auto simp: slots_ok_def)
    qed
    then have "\<forall>d \<in> set (mb_clients s). mc_fd d > 0 \<longrightarrow> expired (tcp_link_down s) uptime d" using exp by blast
    from accept_free [OF ok this assms(2)] show ?thesis using c exp by auto
  qed
  moreover have "tcp_accept client uptime s = s\<lparr>tcp_closed := tcp_closed s @ [client]\<rparr>"
    if c: "c \<in> set (mb_clients s)" "mc_fd c \<noteq> 0" and live: "uptime \<le> mc_time c + 30000 \<and> \<not> tcp_link_down s" for c
    by (rule accept_alive [OF ok c(1) _ _ assms(2)]) (use live c taken in \<open>auto simp: expired_def\<close>)
  ultimately show ?thesis using one by auto
qed

definition demo_adu :: adu where
  "demo_adu = \<lparr>trans_id = 0, proto_id = 0, adu_length = 0, unit_id = 1, adu_fc = 0, adu_data = replicate 256 0\<rparr>"

definition demo_stack :: "unit mb_stack" where
  "demo_stack = \<lparr>raw_get_header = (\<lambda>h a. a\<lparr>unit_id := h ! 6, adu_fc := h ! 7\<rparr>), raw_put_header = (\<lambda>a. [0, 0, 0, 0, 0, 2, unit_id a, adu_fc a]),
     raw_set_server_failure = (\<lambda>a. a\<lparr>adu_length := 1\<rparr>), mb_submit = (\<lambda>a c. (0, Some a, c))\<rparr>"

definition demo_tcp :: "unit tcp" where
  "demo_tcp = tcp_static demo_adu (dc_static 8 8 (his_static (\<lambda>_. \<lparr>his_type = 0, timestamps = 0, his_union = []\<rparr>) ()))"

theorem one_modbus_client_witness:
  "let s = tcp_turn demo_stack (Some 5) (\<lambda>_. None) 1000 demo_tcp
   in mb_clients s = [\<lparr>mc_fd = 5, mc_time = 1000\<rparr>, free_client, free_client] \<and>
     tcp_closed (tcp_accept 6 2000 s) = tcp_closed s @ [6] \<and>
     mb_clients (tcp_accept 6 40000 s) = [\<lparr>mc_fd = 6, mc_time = 40000\<rparr>, free_client, free_client]"
proof -
  define s where "s = tcp_turn demo_stack (Some 5) (\<lambda>_. None) 1000 demo_tcp"
  have run: "tcp_run demo_stack s" unfolding s_def demo_tcp_def by (rule tcp_new [OF tcp_start]) simp_all
  have cs: "mb_clients s = [\<lparr>mc_fd = 5, mc_time = 1000\<rparr>, free_client, free_client]" "\<not> tcp_link_down s"
    by (simp_all add: s_def tcp_turn_def tcp_accept_def demo_tcp_def tcp_static_def expired_def TCP_MAX_CLIENTS_def eval_nat_numeral)
  have "tcp_accept 6 2000 s = s\<lparr>tcp_closed := tcp_closed s @ [6]\<rparr>"
    using one_modbus_client [OF run, of 6 2000] cs by simp
  moreover have "mb_clients (tcp_accept 6 40000 s) = [\<lparr>mc_fd = 6, mc_time = 40000\<rparr>, free_client, free_client]"
    using one_modbus_client [OF run, of 6 40000] cs by simp
  ultimately show ?thesis using cs(1) by (simp add: s_def [symmetric] Let_def)
qed

section \<open>History\<close>

text \<open>
  A record that is still queued when the history is switched off blocks it for good: the work queue finds the
  history disabled and returns with the mutex locked; nobody can switch it on again.
\<close>

lemma history_deadlock:
  assumes "\<not> enable_write h" and "h_lock h = None" and "his_rx_fifo h \<noteq> []"
  shows "\<exists>h'. his_process_save px root junk now h = Some h' \<and> h_lock h' \<noteq> None \<and>
    (\<forall>t. t \<noteq> 0 \<longrightarrow> history_enable_write px t b h' = None)"
proof -
  have "\<exists>h'. his_process px root junk now q h = Some h' \<and> (\<exists>n'. h_lock h' = Some (0, n'))"
    if "\<not> enable_write h" "h_lock h = None \<and> q \<noteq> [] \<or> (\<exists>n. h_lock h = Some (0, n))" for q h
    using that
  proof (induction q arbitrary: h)
    case (Cons a q)
    define h1 where "h1 = h\<lparr>his_rx_fifo := q, his_mem := (his_mem h)(a := (his_mem h a)\<lparr>timestamps := now\<rparr>)\<rparr>"
    obtain n where n: "k_mutex_lock 0 h1 = Some (h1\<lparr>h_lock := Some (0, n)\<rparr>)"
      using Cons.prems(2) by (auto simp: k_mutex_lock_def h1_def)
    have "write_history_data px root junk now 0 (his_bytes (his_mem h1 a)) h1 = Some (- 1, h1\<lparr>h_lock := Some (0, n)\<rparr>)"
      using Cons.prems(1) by (simp add: write_history_data_def n) (simp add: h1_def)
    moreover have "\<exists>h'. his_process px root junk now q (h1\<lparr>h_lock := Some (0, n)\<rparr>) = Some h' \<and> (\<exists>n'. h_lock h' = Some (0, n'))"
      by (rule Cons.IH) (use Cons.prems(1) in \<open>auto simp: h1_def\<close>)
    ultimately show ?case by (simp add: h1_def [symmetric] Let_def)
  qed auto
  from this [of h "his_rx_fifo h"] assms obtain h' n' where h': "his_process_save px root junk now h = Some h'" "h_lock h' = Some (0, n')"
    unfolding his_process_save_def by blast
  moreover have "history_enable_write px t b h' = None" if "t \<noteq> 0" for t
    using that h'(2) by (simp add: history_enable_write_def k_mutex_lock_def)
  ultimately show ?thesis by auto
qed

end
