(* ===== verification/Ftp_Path.thy ===== *)
theory Ftp_Path
  imports Prelude
begin

text \<open>
  Paths of the data collector's FTP server, \<open>ftp_server/ftp_cmds.c\<close>: ftp_normalize_path works in place with a
  reading and a writing index; the reference is a stack of segments.
\<close>

section \<open>The code\<close>

abbreviation NUL :: char where "NUL \<equiv> CHR 0x00"

definition cstr :: "char list \<Rightarrow> string" where "cstr m = takeWhile (\<lambda>c. c \<noteq> NUL) m"

text \<open>Copying up to the next slash or the end, which is read but not written; \<open>None\<close>: beyond the buffer.\<close>

function copy_seg :: "char list \<Rightarrow> nat \<Rightarrow> nat \<Rightarrow> (char list \<times> nat \<times> nat \<times> char) option" where
  "copy_seg mem src dst =
     (if src \<ge> length mem then None
      else if mem ! src = NUL \<or> mem ! src = CHR ''/'' then Some (mem, src + 1, dst, mem ! src)
      else copy_seg (mem[dst := mem ! src]) (src + 1) (dst + 1))"
  by pat_completeness auto
termination by (relation "measure (\<lambda>(mem, src, dst). length mem - src)") auto

function skip_slash :: "char list \<Rightarrow> nat \<Rightarrow> nat" where
  "skip_slash mem src = (if src < length mem \<and> mem ! src = CHR ''/'' then skip_slash mem (src + 1) else src)"
  by pat_completeness auto
termination by (relation "measure (\<lambda>(mem, src). length mem - src)") auto

declare copy_seg.simps [simp del] skip_slash.simps [simp del]

text \<open>Going back to just behind a slash, or to the start.\<close>

fun up_one :: "char list \<Rightarrow> nat \<Rightarrow> nat" where
  "up_one mem 0 = 0"
| "up_one mem (Suc d) = (if mem ! d = CHR ''/'' then Suc d else up_one mem d)"

text \<open>The end: with nothing written the code looks at the byte before the buffer, \<open>None\<close>.\<close>

definition norm_finish :: "char list \<Rightarrow> nat \<Rightarrow> (bool \<times> char list) option" where
  "norm_finish mem dst =
     (let mem = mem[dst := NUL]
      in if dst = 0 then None
         else if dst - 1 \<noteq> 0 \<and> mem ! (dst - 1) = CHR ''/'' then Some (True, mem[dst - 1 := NUL])
         else Some (True, mem))"

lemma copy_seg_bounds:
  "copy_seg mem src dst = Some (m, s, d, c) \<Longrightarrow> src < s \<and> s \<le> length mem \<and> length m = length mem"
proof (induction mem src dst rule: copy_seg.induct)
  case (1 mem src dst)
  show ?case
  proof (cases "src \<ge> length mem \<or> mem ! src = NUL \<or> mem ! src = CHR ''/''")
    case True
    then show ?thesis using 1(2) by (auto simp: copy_seg.simps [of mem src dst] split: if_splits)
  next
    case False
    then show ?thesis using 1 by (fastforce simp: copy_seg.simps [of mem src dst])
  qed
qed

lemma skip_slash_bounds: "src \<le> skip_slash mem src"
  by (induction mem src rule: skip_slash.induct) (subst skip_slash.simps, auto intro: Suc_leD)

text \<open>
  The loop.  \<open>(False, mem)\<close> is the result NULL, with what the buffer then holds; the buffer ends in a NUL.
\<close>

function norm_loop :: "char list \<Rightarrow> nat \<Rightarrow> nat \<Rightarrow> (bool \<times> char list) option" where
  "norm_loop mem src dst =
     (if src \<ge> length mem then None
      else
        let c = mem ! src; c1 = mem ! (src + 1); c2 = mem ! (src + 2)
        in if c = CHR ''.'' \<and> c1 = CHR ''/'' then norm_loop mem (skip_slash mem (src + 2)) dst
           else if c = CHR ''.'' \<and> c1 = CHR ''.'' \<and> (c2 = NUL \<or> c2 = CHR ''/'') then
             let src' = (if c2 = NUL then src + 2 else skip_slash mem (src + 3))
             in if dst = 0 then Some (False, mem) else norm_loop mem src' (up_one mem (dst - 1))
           else
             let src' = (if c = CHR ''.'' \<and> c1 = NUL then src + 1 else src)
             in case copy_seg mem src' dst of
                  None \<Rightarrow> None
                | Some (mem', src'', dst', c') \<Rightarrow>
                    if c' = CHR ''/'' then norm_loop (mem'[dst' := CHR ''/'']) (skip_slash (mem'[dst' := CHR ''/'']) src'') (dst' + 1)
                    else norm_finish mem' dst')"
  by pat_completeness auto
termination
proof (relation "measure (\<lambda>(mem, src, dst). length mem - src)", goal_cases)
  case (2 mem src dst)
  then show ?case using skip_slash_bounds [of "src + 2" mem] by simp
next
  case (3 mem src dst x xa xb xc)
  have "src < xc" using 3 skip_slash_bounds [of "src + 3" mem] by (simp split: if_splits)
  then show ?case using 3(1) by (simp add: diff_less_mono2)
next
  case (4 mem src dst c c1 c2 src' t mem' t1 src'' t2 dst' c')
  then have "copy_seg mem src' dst = Some (mem', src'', dst', c')" "src \<le> src'" by auto
  then have "src < src''" "length mem' = length mem" using copy_seg_bounds by fastforce+
  moreover have "src'' \<le> skip_slash (mem'[dst' := CHR ''/'']) src''" by (rule skip_slash_bounds)
  ultimately show ?case using 4(1) by simp
qed simp

declare norm_loop.simps [simp del]

definition ftp_normalize_path :: "char list \<Rightarrow> (bool \<times> char list) option" where
  "ftp_normalize_path mem = norm_loop mem 0 0"

text \<open>
  build_full_path on a buffer of 256 characters: \<open>None\<close> also where strcat writes past its end.
\<close>

definition build_full_path :: "string \<Rightarrow> string \<Rightarrow> (int \<times> string) option" where
  "build_full_path buf path =
     (let r = (if take 1 path = ''/'' then Some (take 255 path)
               else if length buf + 1 > 255 then None
               else Some (buf @ ''/'' @ take (256 - (length buf + 1) - 1) path))
      in case r of
           None \<Rightarrow> None
         | Some full \<Rightarrow> map_option (\<lambda>(ok, mem). (if ok then 0 else - 1, cstr mem)) (ftp_normalize_path (full @ [NUL])))"

section \<open>The reference\<close>

fun split_slash :: "string \<Rightarrow> string list" where
  "split_slash [] = [[]]"
| "split_slash (c # cs) =
     (if c = CHR ''/'' then [] # split_slash cs
      else case split_slash cs of [] \<Rightarrow> [[c]] | x # xs \<Rightarrow> (c # x) # xs)"

text \<open>The stack has the last segment first; the empty segment in front of a leading slash is its bottom.\<close>

fun resolve :: "string list \<Rightarrow> string list \<Rightarrow> string list option" where
  "resolve st [] = Some st"
| "resolve st (x # xs) =
     (if x = '''' \<or> x = ''.'' then resolve st xs
      else if x = ''..'' then (case st of [] \<Rightarrow> None | _ # st' \<Rightarrow> resolve st' xs)
      else resolve (x # st) xs)"

fun join_slash :: "string list \<Rightarrow> string" where
  "join_slash [] = ''''"
| "join_slash [x] = x"
| "join_slash (x # xs) = x @ ''/'' @ join_slash xs"

definition norm_segs :: "string \<Rightarrow> string list option" where
  "norm_segs p = map_option rev (resolve (if take 1 p = ''/'' then [''''] else []) (split_slash p))"

definition path_of :: "string list \<Rightarrow> string" where
  "path_of segs = (if segs = [''''] then ''/'' else join_slash segs)"

section \<open>The pieces of the loop\<close>

abbreviation slashes :: "string list \<Rightarrow> string" where "slashes segs \<equiv> concat (map (\<lambda>x. x @ ''/'') segs)"

lemma copy_seg_copies:
  "drop src mem = x @ c # r \<Longrightarrow> CHR ''/'' \<notin> set x \<Longrightarrow> NUL \<notin> set x \<Longrightarrow> c = NUL \<or> c = CHR ''/'' \<Longrightarrow> dst \<le> src \<Longrightarrow>
   \<exists>m. copy_seg mem src dst = Some (m, src + length x + 1, dst + length x, c) \<and> length m = length mem \<and>
     take (dst + length x) m = take dst mem @ x \<and> drop (src + length x) m = c # r"
proof (induction x arbitrary: mem src dst)
  case Nil
  have "src < length mem" using Nil(1) by (cases "src < length mem") auto
  moreover have "mem ! src = c" using Nil(1) by (metis append_Nil calculation hd_drop_conv_nth list.sel(1))
  ultimately show ?case using Nil by (subst copy_seg.simps) auto
next
  case (Cons y ys)
  have lt: "src < length mem" using Cons(2) by (cases "src < length mem") auto
  have y: "mem ! src = y" using Cons(2) lt by (metis append_Cons hd_drop_conv_nth list.sel(1))
  let ?m = "mem[dst := y]"
  have "drop (src + 1) mem = ys @ c # r" using Cons(2) by (metis Suc_eq_plus1 append_Cons drop_Suc list.sel(3) tl_drop)
  then have d: "drop (src + 1) ?m = ys @ c # r" using Cons(6) by simp
  have "\<exists>m. copy_seg ?m (src + 1) (dst + 1) = Some (m, src + 1 + length ys + 1, dst + 1 + length ys, c) \<and>
      length m = length ?m \<and> take (dst + 1 + length ys) m = take (dst + 1) ?m @ ys \<and> drop (src + 1 + length ys) m = c # r"
    by (rule Cons.IH [OF d]) (use Cons.prems in auto)
  then obtain m where m: "copy_seg ?m (src + 1) (dst + 1) = Some (m, src + 1 + length ys + 1, dst + 1 + length ys, c)"
    "length m = length ?m" "take (dst + 1 + length ys) m = take (dst + 1) ?m @ ys" "drop (src + 1 + length ys) m = c # r"
    by blast
  have "take (dst + 1) ?m = take dst mem @ [y]" using lt Cons(6) by (simp add: take_Suc_conv_app_nth)
  moreover have "copy_seg mem src dst = copy_seg ?m (src + 1) (dst + 1)"
    using lt y Cons.prems(2,3) by (subst copy_seg.simps) auto
  ultimately show ?case using m by (intro exI [of _ m]) simp
qed

lemma skip_slash_skips:
  "src \<le> length mem \<Longrightarrow> skip_slash mem src = src + length (takeWhile (\<lambda>c. c = CHR ''/'') (drop src mem))"
proof (induction mem src rule: skip_slash.induct)
  case (1 mem src)
  show ?case
  proof (cases "src < length mem \<and> mem ! src = CHR ''/''")
    case True
    then show ?thesis using 1 by (subst skip_slash.simps) (simp add: Cons_nth_drop_Suc [symmetric])
  next
    case False
    then show ?thesis using 1(2) by (subst skip_slash.simps) (auto simp: Cons_nth_drop_Suc [symmetric] le_eq_less_or_eq)
  qed
qed

lemma skip_rest:
  assumes "drop src mem = r @ [NUL]"
  shows "drop (skip_slash mem src) mem = dropWhile (\<lambda>c. c = CHR ''/'') r @ [NUL]"
proof -
  have "src \<le> length mem" using assms by (cases "src \<le> length mem") auto
  then have "drop (skip_slash mem src) mem = dropWhile (\<lambda>c. c = CHR ''/'') (drop src mem)"
    by (simp add: skip_slash_skips dropWhile_eq_drop add.commute)
  also have "\<dots> = dropWhile (\<lambda>c. c = CHR ''/'') r @ [NUL]"
    unfolding assms by (cases "\<forall>c \<in> set r. c = CHR ''/''") (auto simp: dropWhile_append)
  finally show ?thesis .
qed

lemma up_one_back:
  "take d mem = pre @ x \<Longrightarrow> d \<le> length mem \<Longrightarrow> CHR ''/'' \<notin> set x \<Longrightarrow> pre = [] \<or> last pre = CHR ''/'' \<Longrightarrow>
   up_one mem d = length pre"
proof (induction d arbitrary: x)
  case (Suc d)
  have t: "take (Suc d) mem = take d mem @ [mem ! d]" using Suc(3) by (simp add: take_Suc_conv_app_nth)
  show ?case
  proof (cases x rule: rev_cases)
    case Nil
    then have "pre = take d mem @ [mem ! d]" using Suc(2) t by simp
    then show ?thesis using Suc(3,5) by simp
  next
    case (snoc ys y)
    then have "mem ! d = y" "take d mem = pre @ ys" using Suc(2) t by simp_all
    then show ?thesis using Suc snoc by auto
  qed
qed simp

lemma cstr_at:
  assumes "take d m = xs" and "d < length m" and "m ! d = NUL" and "NUL \<notin> set xs"
  shows "cstr m = xs"
proof -
  have "m = xs @ NUL # drop (Suc d) m" using assms(1-3) by (metis id_take_nth_drop)
  then have "cstr m = takeWhile (\<lambda>c. c \<noteq> NUL) (xs @ NUL # drop (Suc d) m)" by (simp add: cstr_def)
  also have "\<dots> = xs" using assms(4) by (subst takeWhile_append2) auto
  finally show ?thesis .
qed

lemma join_slashes: "join_slash (segs @ [x]) = slashes segs @ x"
proof (induction segs)
  case (Cons a segs)
  then show ?case by (cases "segs @ [x]") auto
qed simp

text \<open>What the end of the loop makes of the segments written so far, with and without a slash behind the last.\<close>

definition norm_result :: "string list \<Rightarrow> (bool \<times> char list) option \<Rightarrow> bool" where
  "norm_result segs res \<longleftrightarrow> (if segs = [] then res = None else \<exists>m. res = Some (True, m) \<and> cstr m = path_of segs)"

definition seg_stack :: "string list \<Rightarrow> bool" where
  "seg_stack segs \<longleftrightarrow> (\<forall>x \<in> set segs. CHR ''/'' \<notin> set x \<and> NUL \<notin> set x) \<and> (segs = [] \<or> '''' \<notin> set (tl segs))"

lemma slashes_clean: "seg_stack segs \<Longrightarrow> NUL \<notin> set (slashes segs)"
  by (auto simp: seg_stack_def)

lemma finish_slash:
  assumes "take dst mem = slashes segs" and "dst < length mem" and "seg_stack segs"
  shows "norm_result segs (norm_finish mem dst)"
proof (cases segs rule: rev_cases)
  case Nil
  then have "dst = 0" using assms(1,2) by auto
  then show ?thesis using Nil by (simp add: norm_finish_def norm_result_def)
next
  case (snoc ys y)
  define p where "p = slashes ys @ y"
  have e: "take dst mem = p @ ''/''" using assms(1) snoc by (simp add: p_def)
  have len: "dst = length p + 1" using arg_cong [OF e, of length] assms(2) by simp
  let ?m = "mem[dst := NUL]"
  have t: "take dst ?m = p @ ''/''" using e by simp
  have sl: "?m ! (dst - 1) = CHR ''/''"
    using t len assms(2) by (metis Suc_eq_plus1 add_diff_cancel_right' length_list_update lessI nth_append_length nth_take)
  have clean: "NUL \<notin> set p" using slashes_clean [OF assms(3)] snoc by (auto simp: p_def)
  show ?thesis
  proof (cases "p = []")
    case True
    then have "y = []" "slashes ys = []" by (simp_all add: p_def)
    moreover from this(2) have "ys = []" by (cases ys) auto
    ultimately have "segs = [[]]" using snoc by simp
    moreover have "cstr ?m = ''/''" by (rule cstr_at [of dst]) (use t True assms(2) in auto)
    ultimately show ?thesis using len True by (simp add: norm_result_def norm_finish_def path_of_def)
  next
    case False
    have "segs \<noteq> [[]]" using False snoc by (auto simp: p_def append_eq_Cons_conv)
    moreover have "join_slash segs = p" using snoc by (simp add: join_slashes p_def)
    moreover have "take (dst - 1) ?m = p" using arg_cong [OF t, of "take (dst - 1)"] len by simp
    then have "cstr (?m[dst - 1 := NUL]) = p"
      by (intro cstr_at [of "dst - 1"]) (use len assms(2) clean in auto)
    ultimately show ?thesis using len False snoc sl by (auto simp: norm_result_def norm_finish_def path_of_def Let_def)
  qed
qed

lemma finish_seg:
  assumes "take dst mem = slashes segs @ x" and "dst < length mem" and "seg_stack (segs @ [x])" and "x \<noteq> []"
  shows "norm_result (segs @ [x]) (norm_finish mem dst)"
proof -
  let ?m = "mem[dst := NUL]"
  have len: "dst = length (slashes segs @ x)" using assms(1,2) by (metis length_take less_imp_le_nat min.absorb2)
  have t: "take dst ?m = slashes segs @ x" using assms(1) by simp
  have "?m ! (dst - 1) = last x"
    using t len assms(2,4) by (metis append_is_Nil_conv diff_less last_appendR last_conv_nth length_greater_0_conv length_list_update less_or_eq_imp_le
        nth_take zero_less_one)
  moreover have "last x \<noteq> CHR ''/''" using assms(3,4) last_in_set by (force simp: seg_stack_def)
  moreover have "cstr ?m = slashes segs @ x"
    by (rule cstr_at [OF t]) (use assms(2,3) slashes_clean in \<open>auto simp: seg_stack_def\<close>)
  ultimately show ?thesis
    using assms(4) len by (auto simp: norm_result_def norm_finish_def Let_def path_of_def join_slashes append_eq_Cons_conv)
qed

lemma drop_slashes_first: "take 1 (dropWhile (\<lambda>c. c = CHR ''/'') r) \<noteq> ''/''"
  by (induction r) auto

lemma drop_behind: "drop src mem = a @ b \<Longrightarrow> drop (src + length a) mem = b"
  by (metis add.commute append_eq_conv_conj drop_drop)

lemma split_seg: "CHR ''/'' \<notin> set x \<Longrightarrow> split_slash x = [x]"
  by (induction x) auto

lemma split_seg_slash: "CHR ''/'' \<notin> set x \<Longrightarrow> split_slash (x @ CHR ''/'' # r) = x # split_slash r"
  by (induction x) auto

lemma resolve_skip: "resolve st (split_slash (dropWhile (\<lambda>c. c = CHR ''/'') r)) = resolve st (split_slash r)"
  by (induction r) auto

text \<open>A stretch of the loop: dots are left out, two dots go up, anything else is copied.\<close>

lemma loop_last:
  assumes "drop src mem = x @ [NUL]" and "CHR ''/'' \<notin> set x" and "NUL \<notin> set x" and "x \<noteq> ''.''" and "x \<noteq> ''..''" and "dst \<le> src"
  shows "\<exists>m. norm_loop mem src dst = norm_finish m (dst + length x) \<and> length m = length mem \<and>
    take (dst + length x) m = take dst mem @ x"
proof -
  obtain m where m: "copy_seg mem src dst = Some (m, src + length x + 1, dst + length x, NUL)" "length m = length mem"
    "take (dst + length x) m = take dst mem @ x"
    using copy_seg_copies [of src mem x NUL "[]" dst] assms by auto
  have src: "src < length mem" using assms(1) by (cases "src < length mem") auto
  have peek: "mem ! (src + i) = (x @ [NUL]) ! i" for i using src assms(1) by (metis less_imp_le_nat nth_drop)
  have "norm_loop mem src dst = norm_finish m (dst + length x)"
    using src m(1) assms(2-5) peek [of 0] peek [of 1] peek [of 2]
    by (subst norm_loop.simps, cases x; cases "tl x"; cases "tl (tl x)") (auto simp: Let_def)
  then show ?thesis using m by blast
qed

lemma loop_dot:
  assumes "drop src mem = ''.'' @ [NUL]" and "dst \<le> src"
  shows "\<exists>m. norm_loop mem src dst = norm_finish m dst \<and> length m = length mem \<and> take dst m = take dst mem"
proof -
  have src: "src < length mem" using assms(1) by (cases "src < length mem") auto
  have peek: "mem ! (src + i) = (''.'' @ [NUL]) ! i" for i using src assms(1) by (metis less_imp_le_nat nth_drop)
  have "drop (src + 1) mem = [] @ NUL # []" using assms(1) by (metis Suc_eq_plus1 append_Nil drop_Suc append_Cons list.sel(3) tl_drop)
  from copy_seg_copies [OF this, of dst] assms(2) obtain m where m: "copy_seg mem (src + 1) dst = Some (m, src + 1 + 1, dst, NUL)"
    "length m = length mem" "take dst m = take dst mem" by auto
  have "norm_loop mem src dst = norm_finish m dst"
    using src m(1) peek [of 0] peek [of 1] by (subst norm_loop.simps) (simp add: Let_def)
  then show ?thesis using m by blast
qed

lemma loop_seg:
  assumes "drop src mem = x @ CHR ''/'' # r @ [NUL]" and "CHR ''/'' \<notin> set x" and "NUL \<notin> set x" and "x \<noteq> ''.''" and "x \<noteq> ''..''"
    and "dst \<le> src"
  shows "\<exists>m. norm_loop mem src dst = norm_loop m (skip_slash m (src + length x + 1)) (dst + length x + 1) \<and>
    take (dst + length x + 1) m = take dst mem @ x @ ''/'' \<and> length m = length mem \<and> drop (src + length x + 1) m = r @ [NUL]"
proof -
  obtain m where m: "copy_seg mem src dst = Some (m, src + length x + 1, dst + length x, CHR ''/'')" "length m = length mem"
    "take (dst + length x) m = take dst mem @ x" "drop (src + length x) m = CHR ''/'' # r @ [NUL]"
    using copy_seg_copies [OF assms(1-3), of dst] assms(6) by auto
  let ?m = "m[dst + length x := CHR ''/'']"
  have src: "src < length mem" using assms(1) by (cases "src < length mem") auto
  have peek: "mem ! (src + i) = (x @ CHR ''/'' # r @ [NUL]) ! i" for i using src assms(1) by (metis less_imp_le_nat nth_drop)
  have lt: "dst + length x < length m" using m(4) assms(6) by (cases "src + length x < length m") auto
  have "norm_loop mem src dst = norm_loop ?m (skip_slash ?m (src + length x + 1)) (dst + length x + 1)"
    using src m(1) assms(2-5) peek [of 0] peek [of 1] peek [of 2]
    by (subst norm_loop.simps, cases x; cases "tl x"; cases "tl (tl x)") (auto simp: Let_def)
  moreover have "take (dst + length x + 1) ?m = take dst mem @ x @ ''/''" using lt m(3) by (simp add: take_Suc_conv_app_nth)
  moreover have "drop (src + length x + 1) m = r @ [NUL]" using m(4) by (metis Suc_eq_plus1 drop_Suc list.sel(3) tl_drop)
  ultimately show ?thesis using m(2) assms(6) by (intro exI [of _ ?m]) simp
qed

lemma loop_up:
  assumes "drop src mem = ''..'' @ r" and "r = [NUL] \<or> (\<exists>r'. r = CHR ''/'' # r' @ [NUL])"
  shows "norm_loop mem src dst =
    (if dst = 0 then Some (False, mem)
     else norm_loop mem (if r = [NUL] then src + 2 else skip_slash mem (src + 3)) (up_one mem (dst - 1)))"
proof -
  have src: "src < length mem" using assms(1) by (cases "src < length mem") auto
  have peek: "mem ! (src + i) = (''..'' @ r) ! i" for i using src assms(1) by (metis less_imp_le_nat nth_drop)
  show ?thesis
    using src assms(2) peek [of 0] peek [of 1] peek [of 2] by (subst norm_loop.simps) (auto simp: Let_def)
qed

lemma loop_here:
  assumes "drop src mem = ''./'' @ r"
  shows "norm_loop mem src dst = norm_loop mem (skip_slash mem (src + 2)) dst"
proof -
  have src: "src < length mem" using assms(1) by (cases "src < length mem") auto
  have peek: "mem ! (src + i) = (''./'' @ r) ! i" for i using src assms(1) by (metis less_imp_le_nat nth_drop)
  show ?thesis using src peek [of 0] peek [of 1] by (subst norm_loop.simps) (auto simp: Let_def)
qed

lemma up_segment:
  assumes "take dst mem = slashes (segs @ [y])" and "dst < length mem" and "CHR ''/'' \<notin> set y"
  shows "dst \<noteq> 0 \<and> up_one mem (dst - 1) \<le> dst \<and> take (up_one mem (dst - 1)) mem = slashes segs \<and>
    up_one mem (dst - 1) = length (slashes segs)"
proof -
  have len: "dst = length (slashes segs) + length y + 1" using arg_cong [OF assms(1), of length] assms(2) by simp
  have t: "take (dst - 1) mem = slashes segs @ y" using arg_cong [OF assms(1), of "take (dst - 1)"] len assms(2) by simp
  have last: "slashes segs = [] \<or> last (slashes segs) = CHR ''/''" by (cases segs rule: rev_cases) auto
  have up: "up_one mem (dst - 1) = length (slashes segs)"
    by (rule up_one_back [OF t _ assms(3) last]) (use assms(2) in simp)
  have "take (length (slashes segs)) mem = slashes segs" using arg_cong [OF t, of "take (length (slashes segs))"] len by simp
  then show ?thesis using up len by simp
qed

definition loop_agrees :: "string list option \<Rightarrow> (bool \<times> char list) option \<Rightarrow> bool" where
  "loop_agrees st res \<longleftrightarrow> (case st of None \<Rightarrow> \<exists>m. res = Some (False, m) | Some segs \<Rightarrow> norm_result (rev segs) res)"

lemma first_seg: obtains x r where "rest = x @ r" and "CHR ''/'' \<notin> set x" and "r = [] \<or> (\<exists>r'. r = CHR ''/'' # r')"
proof
  show "rest = takeWhile (\<lambda>c. c \<noteq> CHR ''/'') rest @ dropWhile (\<lambda>c. c \<noteq> CHR ''/'') rest" by simp
  show "CHR ''/'' \<notin> set (takeWhile (\<lambda>c. c \<noteq> CHR ''/'') rest)" using set_takeWhileD by fastforce
  show "dropWhile (\<lambda>c. c \<noteq> CHR ''/'') rest = [] \<or> (\<exists>r'. dropWhile (\<lambda>c. c \<noteq> CHR ''/'') rest = CHR ''/'' # r')"
    using hd_dropWhile [of "\<lambda>c. c \<noteq> CHR ''/''" rest] by (cases "dropWhile (\<lambda>c. c \<noteq> CHR ''/'') rest") auto
qed

lemma loop_resolves:
  "drop src mem = rest @ [NUL] \<Longrightarrow> take dst mem = slashes (rev st) \<Longrightarrow> dst \<le> src \<Longrightarrow> seg_stack (rev st) \<Longrightarrow> NUL \<notin> set rest \<Longrightarrow>
   take 1 rest \<noteq> ''/'' \<Longrightarrow> loop_agrees (resolve st (split_slash rest)) (norm_loop mem src dst)"
proof (induction "length rest" arbitrary: mem src dst st rest rule: less_induct)
  case less
  note d = less.prems(1) and t = less.prems(2) and le = less.prems(3) and st = less.prems(4) and nul = less.prems(5)
  have lt: "dst < length mem" using d le by (cases "src < length mem") auto
  obtain x r where x: "rest = x @ r" "CHR ''/'' \<notin> set x" and r: "r = [] \<or> (\<exists>r'. r = CHR ''/'' # r')" by (rule first_seg)
  have clean: "NUL \<notin> set x" using nul x(1) by simp
  have push: "seg_stack (rev (x # st))" if "x \<noteq> []" using st that x(2) clean by (cases st rule: rev_cases) (auto simp: seg_stack_def)
  have go: "loop_agrees (resolve st' (split_slash r')) (norm_loop m (skip_slash m s) d')"
    if "drop s m = r' @ [NUL]" "take d' m = slashes (rev st')" "d' \<le> s" "seg_stack (rev st')" "length r' < length rest" "NUL \<notin> set r'"
    for m s d' st' r'
  proof -
    let ?r = "dropWhile (\<lambda>c. c = CHR ''/'') r'"
    have "loop_agrees (resolve st' (split_slash ?r)) (norm_loop m (skip_slash m s) d')"
    proof (rule less.hyps)
      show "length ?r < length rest" using that(5) length_dropWhile_le [of "\<lambda>c. c = CHR ''/''" r'] by simp
      show "drop (skip_slash m s) m = ?r @ [NUL]" by (rule skip_rest [OF that(1)])
      show "d' \<le> skip_slash m s" using that(3) skip_slash_bounds [of s m] by simp
      show "NUL \<notin> set ?r" using that(6) set_dropWhileD by fastforce
      show "take 1 ?r \<noteq> ''/''" by (rule drop_slashes_first)
    qed (use that in auto)
    then show ?thesis by (simp only: resolve_skip)
  qed
  consider (up) "x = ''..''" | (here) "x = ''.''" | (last) "x \<noteq> ''..''" "x \<noteq> ''.''" "r = []" | (seg) r' where "x \<noteq> ''..''" "x \<noteq> ''.''" "r = CHR ''/'' # r'"
    using r by blast
  then show ?case
  proof cases
    case up
    have res: "resolve st (split_slash rest) =
        (case st of [] \<Rightarrow> None | _ # st' \<Rightarrow> resolve st' (split_slash (drop 1 r)))"
      using x r up by (auto simp: split_seg split_seg_slash split: list.split)
    have loop: "norm_loop mem src dst = (if dst = 0 then Some (False, mem)
        else norm_loop mem (if r = [] then src + 2 else skip_slash mem (src + 3)) (up_one mem (dst - 1)))"
      using loop_up [of src mem "r @ [NUL]" dst] d x r up by auto
    show ?thesis
    proof (cases st)
      case Nil
      then have "dst = 0" using t lt by auto
      then show ?thesis using res loop Nil by (simp add: loop_agrees_def)
    next
      case (Cons y st')
      have "take dst mem = slashes (rev st' @ [y])" "CHR ''/'' \<notin> set y" using t st Cons by (auto simp: seg_stack_def)
      from up_segment [OF this(1) lt this(2)]
      have u: "dst \<noteq> 0" "up_one mem (dst - 1) \<le> src" "take (up_one mem (dst - 1)) mem = slashes (rev st')" using le by auto
      have st': "seg_stack (rev st')" using st Cons by (cases "rev st'") (auto simp: seg_stack_def)
      have "drop 2 (drop src mem) = r @ [NUL]" using d x up by simp
      then have d2: "drop (src + 2) mem = r @ [NUL]" by (simp add: add.commute)
      show ?thesis
      proof (cases r)
        case Nil
        have "loop_agrees (resolve st' (split_slash [])) (norm_loop mem (src + 2) (up_one mem (dst - 1)))"
          by (rule less.hyps) (use d2 Nil u st' x up in auto)
        then show ?thesis using res loop u(1) Cons Nil by simp
      next
        case (Cons c r')
        have "drop 1 (drop (src + 2) mem) = r' @ [NUL]" using d2 Cons by simp
        then have "drop (src + 3) mem = r' @ [NUL]" by (simp add: eval_nat_numeral)
        then have "loop_agrees (resolve st' (split_slash r')) (norm_loop mem (skip_slash mem (src + 3)) (up_one mem (dst - 1)))"
          by (rule go) (use u st' x Cons nul in auto)
        then show ?thesis using res loop u(1) \<open>st = y # st'\<close> Cons by simp
      qed
    qed
  next
    case here
    show ?thesis
    proof (cases r)
      case Nil
      then have "drop src mem = ''.'' @ [NUL]" using d x here by simp
      from loop_dot [OF this le] obtain m where m: "norm_loop mem src dst = norm_finish m dst" "length m = length mem"
        "take dst m = take dst mem" by blast
      have "norm_result (rev st) (norm_finish m dst)" by (rule finish_slash) (use m t lt st in auto)
      then show ?thesis using m(1) Nil x here by (simp add: loop_agrees_def)
    next
      case (Cons c r')
      then have c: "r = CHR ''/'' # r'" using r by auto
      have d1: "drop src mem = ''./'' @ r' @ [NUL]" using d x here c by simp
      have "drop (src + 2) mem = r' @ [NUL]" using drop_behind [OF d1] by simp
      moreover have "norm_loop mem src dst = norm_loop mem (skip_slash mem (src + 2)) dst" by (rule loop_here [OF d1])
      moreover from calculation(1) have "loop_agrees (resolve st (split_slash r')) (norm_loop mem (skip_slash mem (src + 2)) dst)"
        by (rule go) (use t le st x c nul in auto)
      ultimately show ?thesis using x here c split_seg_slash [of "''.''" r'] by simp
    qed
  next
    case last
    have "drop src mem = x @ [NUL]" using d x last by simp
    from loop_last [OF this x(2) clean last(2,1) le] obtain m where m: "norm_loop mem src dst = norm_finish m (dst + length x)"
      "length m = length mem" "take (dst + length x) m = take dst mem @ x" by blast
    have lt': "dst + length x < length m" using arg_cong [OF d, of length] le x(1) m(2) by simp
    show ?thesis
    proof (cases "x = []")
      case True
      have "norm_result (rev st) (norm_finish m dst)" by (rule finish_slash) (use m t lt st True in auto)
      then show ?thesis using m(1) True x last by (simp add: loop_agrees_def)
    next
      case False
      have "norm_result (rev st @ [x]) (norm_finish m (dst + length x))"
        by (rule finish_seg) (use m t lt' push False in auto)
      then show ?thesis using m(1) False x last by (simp add: loop_agrees_def split_seg)
    qed
  next
    case seg
    have ne: "x \<noteq> []" using less.prems(6) x(1) seg(3) by auto
    have "drop src mem = x @ CHR ''/'' # r' @ [NUL]" using d x seg by simp
    from loop_seg [OF this x(2) clean seg(2,1) le] obtain m where m:
      "norm_loop mem src dst = norm_loop m (skip_slash m (src + length x + 1)) (dst + length x + 1)"
      "take (dst + length x + 1) m = take dst mem @ x @ ''/''" "drop (src + length x + 1) m = r' @ [NUL]" by blast
    have "loop_agrees (resolve (x # st) (split_slash r')) (norm_loop m (skip_slash m (src + length x + 1)) (dst + length x + 1))"
      by (rule go [OF m(3)]) (use m(2) t le push ne x seg nul in auto)
    then show ?thesis using m(1) x seg ne by (simp add: split_seg_slash)
  qed
qed

text \<open>
  C30: ftp_normalize_path, which works in place with two indices, computes the path of its segments: empty segments
  and single dots are dropped, two dots remove the segment in front of them, the leading slash counting as one; it
  answers NULL when there is nothing left to remove, and the only path on which it leaves its buffer is one that
  resolves to nothing.
\<close>

theorem normalize_segments:
  assumes "NUL \<notin> set p"
  shows "case norm_segs p of
      None \<Rightarrow> \<exists>m. ftp_normalize_path (p @ [NUL]) = Some (False, m)
    | Some [] \<Rightarrow> ftp_normalize_path (p @ [NUL]) = None
    | Some segs \<Rightarrow> \<exists>m. ftp_normalize_path (p @ [NUL]) = Some (True, m) \<and> cstr m = path_of segs"
proof -
  have "loop_agrees (resolve (if take 1 p = ''/'' then [''''] else []) (split_slash p)) (norm_loop (p @ [NUL]) 0 0)"
  proof (cases "take 1 p = ''/''")
    case False
    then show ?thesis using loop_resolves [of 0 "p @ [NUL]" p 0 "[]"] assms by (simp add: seg_stack_def)
  next
    case True
    then obtain r where r: "p = CHR ''/'' # r" by (cases p) auto
    from loop_seg [of 0 "p @ [NUL]" "[]" r 0] r obtain m where m:
      "norm_loop (p @ [NUL]) 0 0 = norm_loop m (skip_slash m 1) 1" "take 1 m = ''/''" "drop 1 m = r @ [NUL]" by auto
    let ?r = "dropWhile (\<lambda>c. c = CHR ''/'') r"
    have "loop_agrees (resolve [''''] (split_slash ?r)) (norm_loop m (skip_slash m 1) 1)"
    proof (rule loop_resolves)
      show "drop (skip_slash m 1) m = ?r @ [NUL]" by (rule skip_rest [OF m(3)])
      show "1 \<le> skip_slash m 1" by (rule skip_slash_bounds)
      show "NUL \<notin> set ?r" using assms r set_dropWhileD by fastforce
      show "take 1 ?r \<noteq> ''/''" by (rule drop_slashes_first)
    qed (use m(2) in \<open>auto simp: seg_stack_def\<close>)
    then show ?thesis using True r m(1) by (simp only: resolve_skip) simp
  qed
  moreover have "(case map_option rev R of None \<Rightarrow> \<exists>m. res = Some (False, m) | Some [] \<Rightarrow> res = None
      | Some segs \<Rightarrow> \<exists>m. res = Some (True, m) \<and> cstr m = path_of segs)" if "loop_agrees R res" for R res
    using that by (cases R; cases "rev (the R)") (auto simp: loop_agrees_def norm_result_def)
  ultimately show ?thesis unfolding ftp_normalize_path_def norm_segs_def by blast
qed

lemma normalize_segments_witness:
  "\<exists>m. ftp_normalize_path (''/SD://a/./b/../c/'' @ [NUL]) = Some (True, m) \<and> cstr m = ''/SD:/a/c''"
proof -
  have "norm_segs ''/SD://a/./b/../c/'' = Some ['''', ''SD:'', ''a'', ''c'']" by code_simp
  moreover have "path_of ['''', ''SD:'', ''a'', ''c''] = ''/SD:/a/c''" by code_simp
  ultimately show ?thesis using normalize_segments [of "''/SD://a/./b/../c/''"] by simp
qed

end
