(* ===== verification/Ftp.thy ===== *)
theory Ftp
  imports Ftp_Path History
begin

text \<open>
  The FTP server of the data collector, \<open>ftp_server/ftp_cmds.c\<close>, \<open>ftp_handler.c\<close> and \<open>ftpd.c\<close>: the commands of
  a session, login, and the server's turns over its four sessions.  Sockets and files are the POSIX calls of theory
  Posix.  A command answers \<open>None\<close> when it accesses memory outside of an object, through a null pointer or before
  it is written, or when it does not return.
\<close>

section \<open>State\<close>

datatype ftp_state = State_user | State_passwd | State_ok

record ftp_session =
  fs_fd :: int
  is_anonymous :: bool
  port_pasv_fd :: int
  pasvs_fd :: int
  fs_offset :: int
  fs_type :: nat
  fs_time :: int
  fs_state :: ftp_state
  currentdir :: string

text \<open>\<open>ft_slab\<close> is the number of free blocks of the buffer pool.\<close>

record 'w ftp =
  ft_sess :: ftp_session
  ft_slab :: nat
  ft_w :: 'w

record 'w ftp_env =
  fe_px :: "'w posix"
  fe_root :: string
  fe_iface :: "bytes option"
  fe_time :: "'w \<Rightarrow> int"

definition USER_NAME :: string where "USER_NAME = ''admin''"
definition USER_PAWD :: string where "USER_PAWD = ''admin''"
definition FTP_PORT :: u16 where "FTP_PORT = 21"
definition FTP_DATA_PORT :: u16 where "FTP_DATA_PORT = 20"
definition FTP_SESSION_TIMEOUT :: int where "FTP_SESSION_TIMEOUT = 120 * 1000"
definition FTP_BLOCKS :: nat where "FTP_BLOCKS = 2"

section \<open>Buffers, sockets and text\<close>

definition ftp_buf_alloc :: "'w ftp \<Rightarrow> 'w ftp option" where
  "ftp_buf_alloc s = (if ft_slab s = 0 then None else Some (s\<lparr>ft_slab := ft_slab s - 1\<rparr>))"

definition ftp_buf_free :: "'w ftp \<Rightarrow> 'w ftp" where
  "ftp_buf_free s = s\<lparr>ft_slab := ft_slab s + 1\<rparr>"

definition crlf :: string where "crlf = [CHR 0x0D, CHR 0x0A]"

definition quoted :: "string \<Rightarrow> string" where "quoted s = CHR 0x22 # s @ [CHR 0x22]"

definition send_to :: "'w ftp_env \<Rightarrow> int \<Rightarrow> bytes \<Rightarrow> 'w ftp \<Rightarrow> 'w ftp" where
  "send_to E fd bs s = s\<lparr>ft_w := snd (px_send (fe_px E) fd bs (ft_w s))\<rparr>"

definition reply :: "'w ftp_env \<Rightarrow> string \<Rightarrow> 'w ftp \<Rightarrow> 'w ftp" where
  "reply E msg s = send_to E (fs_fd (ft_sess s)) (char_bytes (msg @ crlf)) s"

definition close_fd :: "'w ftp_env \<Rightarrow> int \<Rightarrow> 'w ftp \<Rightarrow> 'w ftp" where
  "close_fd E fd s = s\<lparr>ft_w := px_close (fe_px E) fd (ft_w s)\<rparr>"

definition upd_sess :: "(ftp_session \<Rightarrow> ftp_session) \<Rightarrow> 'w ftp \<Rightarrow> 'w ftp" where
  "upd_sess f s = s\<lparr>ft_sess := f (ft_sess s)\<rparr>"

text \<open>A reply formatted in a block of the pool, and the result that the command then returns.\<close>

definition reply_buf :: "'w ftp_env \<Rightarrow> string \<Rightarrow> 'w ftp \<Rightarrow> int \<times> 'w ftp" where
  "reply_buf E msg s =
     (case ftp_buf_alloc s of
        None \<Rightarrow> (- 1, s)
      | Some s \<Rightarrow> (0, ftp_buf_free (send_to E (fs_fd (ft_sess s)) (char_bytes (take 1023 (msg @ crlf))) s)))"

text \<open>In pieces of at most 256 bytes; a failed send ends it with its result.\<close>

function ftp_data_send :: "'w ftp_env \<Rightarrow> int \<Rightarrow> bytes \<Rightarrow> 'w \<Rightarrow> int \<Rightarrow> int \<times> 'w" where
  "ftp_data_send E fd data w len =
     (if data = [] then (len, w)
      else case px_send (fe_px E) fd (take 256 data) w of (result, w) \<Rightarrow>
        if result \<le> 0 then (result, w) else ftp_data_send E fd (drop (nat result) data) w len)"
  by pat_completeness auto
termination by (relation "measure (\<lambda>(E, fd, data, w, len). length data)") auto

declare ftp_data_send.simps [simp del]

definition atoi :: "string \<Rightarrow> int" where
  "atoi s =
     (let s = dropWhile is_space s;
          neg = (take 1 s = ''-'');
          s = (if neg \<or> take 1 s = ''+'' then drop 1 s else s);
          v = int (digits_val (takeWhile is_digit s))
      in if neg then - v else v)"

text \<open>The port as the 16-bit number in network order that the socket address holds, on a little-endian processor.\<close>

definition htons :: "u16 \<Rightarrow> u16" where
  "htons x = push_bit 8 x OR drop_bit 8 x"

definition ftp_create_dir :: "'w ftp_env \<Rightarrow> string \<Rightarrow> 'w ftp \<Rightarrow> int \<times> 'w ftp" where
  "ftp_create_dir E path s =
     (case px_list (fe_px E) path (ft_w s) of
        (Some _, w) \<Rightarrow> (0, s\<lparr>ft_w := w\<rparr>)
      | (None, w) \<Rightarrow>
          (case px_mkdir (fe_px E) path w of (ret, w) \<Rightarrow> (if ret \<noteq> 0 then - 1 else 0, s\<lparr>ft_w := w\<rparr>)))"

section \<open>Data connections\<close>

text \<open>
  A command's parameter is the memory behind the space in the receive buffer, \<open>None\<close> when there is no space; what
  is read as a string ends at the first NUL.
\<close>

definition close_pasv :: "'w ftp_env \<Rightarrow> 'w ftp \<Rightarrow> 'w ftp" where
  "close_pasv E s =
     (let s = upd_sess (\<lambda>x. x\<lparr>port_pasv_fd := - 1\<rparr>) (close_fd E (port_pasv_fd (ft_sess s)) s)
      in if pasvs_fd (ft_sess s) > 0
         then upd_sess (\<lambda>x. x\<lparr>pasvs_fd := - 1\<rparr>) (close_fd E (pasvs_fd (ft_sess s)) s)
         else s)"

text \<open>The six numbers of PORT; the list so far has the last first.\<close>

function port_numbers :: "string option \<Rightarrow> int list \<Rightarrow> int list" where
  "port_numbers None acc = rev acc"
| "port_numbers (Some ptr) acc =
     (let ptr = (if take 1 ptr = '','' then drop 1 ptr else ptr);
          n = atoi ptr
      in if n < 0 \<or> n > 255 then rev acc
         else if length acc + 1 = 6 then rev (n # acc)
         else let rest = dropWhile (\<lambda>c. c \<noteq> CHR '','') ptr
              in port_numbers (if rest = [] then None else Some rest) (n # acc))"
  by pat_completeness auto
termination
proof (relation "measure (\<lambda>(p, acc). case p of None \<Rightarrow> 0 | Some ptr \<Rightarrow> length ptr + 1)", goal_cases)
  case (2 ptr acc p n rest)
  have "length rest < length ptr" if "rest \<noteq> []"
  proof (cases "take 1 ptr = '',''")
    case True
    then have "length p < length ptr" using 2(1) by (cases ptr) auto
    then show ?thesis using 2(5) length_dropWhile_le [of "\<lambda>c. c \<noteq> CHR '',''" p] by simp
  next
    case False
    then show ?thesis using 2(1,5) that length_dropWhile_le [of "\<lambda>c. c \<noteq> CHR '',''" "tl p"] by (cases ptr) auto
  qed
  then show ?case by simp
qed simp

text \<open>What PORT and EPRT say: an error to answer, or the address and port to connect to.\<close>

definition port_target :: "string \<Rightarrow> string option \<Rightarrow> (string + string \<times> int) option" where
  "port_target cmd param =
     (if cmd = ''PORT'' then
        let ns = port_numbers (map_option cstr param) []
        in if length ns < 6 then Some (Inl ''504 invalid parameter.'')
           else Some (Inr (int_string (ns ! 0) @ ''.'' @ int_string (ns ! 1) @ ''.'' @ int_string (ns ! 2) @ ''.'' @ int_string (ns ! 3),
                  ns ! 4 * 256 + ns ! 5))
      else if cmd = ''EPRT'' then
        (case param of
           None \<Rightarrow> None
         | Some mem \<Rightarrow>
             let ptr = drop 1 mem
             in if ptr = [] then None
                else if hd ptr \<noteq> CHR ''1'' then Some (Inl ''425 Only support IPv4.'')
                else
                  let s = cstr (drop 2 ptr);
                      ip = takeWhile (\<lambda>c. c \<noteq> CHR ''|'') s;
                      s2 = drop (length ip + 1) s;
                      port = takeWhile (\<lambda>c. c \<noteq> CHR ''|'') s2
                  in if ip = s \<or> port = s2 then None
                     else Some (Inr (take 99 ip, atoi port)))
      else None)"

definition port_connect :: "'w ftp_env \<Rightarrow> string \<Rightarrow> int \<Rightarrow> 'w ftp \<Rightarrow> int \<times> 'w ftp" where
  "port_connect E ip port s =
     (let px = fe_px E
      in case px_socket px (ft_w s) of (fd, w) \<Rightarrow>
           let s = upd_sess (\<lambda>x. x\<lparr>port_pasv_fd := fd\<rparr>) (s\<lparr>ft_w := w\<rparr>)
           in if fd < 0 then (- 1, s)
              else case px_bind px fd (htons FTP_DATA_PORT) (ft_w s) of (r, w) \<Rightarrow>
                let s = s\<lparr>ft_w := w\<rparr>
                in if r < 0 then (- 1, s)
                   else case px_sndtimeo px fd (ft_w s) of (r, w) \<Rightarrow>
                     let s = s\<lparr>ft_w := w\<rparr>
                     in if r < 0 then (- 1, s)
                        else case px_connect px fd ip (htons (of_int port)) (ft_w s) of (r, w) \<Rightarrow>
                          (if r < 0 then - 1 else 0, s\<lparr>ft_w := w\<rparr>))"

definition port_cmd_fn :: "'w ftp_env \<Rightarrow> string \<Rightarrow> string option \<Rightarrow> 'w ftp \<Rightarrow> (int \<times> 'w ftp) option" where
  "port_cmd_fn E cmd param s =
     (let s = (if port_pasv_fd (ft_sess s) \<ge> 0 then close_pasv E s else s)
      in case port_target cmd param of
           None \<Rightarrow> None
         | Some (Inl msg) \<Rightarrow> Some (0, reply E msg s)
         | Some (Inr (ip, port)) \<Rightarrow>
             (case port_connect E ip port s of (rc, s) \<Rightarrow>
                if rc \<noteq> 0 then
                  let s = reply E ''425 Can't open data connection.'' s
                  in Some (0, if port_pasv_fd (ft_sess s) \<ge> 0 then close_pasv E s else s)
                else Some (0, reply E ''200 Port Command Successful.'' s)))"

text \<open>The reply of PASV; \<open>None\<close>: the block is sent as it was, without being written.\<close>

definition pasv_open :: "'w ftp_env \<Rightarrow> string \<Rightarrow> 'w ftp \<Rightarrow> string option \<times> 'w ftp" where
  "pasv_open E cmd s =
     (let px = fe_px E
      in case px_socket px (ft_w s) of (fd, w) \<Rightarrow>
           let s = upd_sess (\<lambda>x. x\<lparr>pasvs_fd := fd\<rparr>) (s\<lparr>ft_w := w\<rparr>)
           in if fd < 0 then (Some ''504 socket create error.'', s)
              else case px_bind px fd 0 (ft_w s) of (r, w) \<Rightarrow>
                let s = s\<lparr>ft_w := w\<rparr>
                in if r < 0 then (Some ''504 socket bind error.'', s)
                   else case px_sockname px fd (ft_w s) of (sin_port, w) \<Rightarrow>
                     case px_listen px fd w of (r, w) \<Rightarrow>
                     let s = s\<lparr>ft_w := w\<rparr>
                     in if r < 0 then (Some ''504 socket listen error.'', s)
                        else if cmd = ''PASV'' then
                          (map_option (\<lambda>a. ''227 Entering Passive Mode ('' @ dec_string (unat (a ! 0)) @ '','' @
                             dec_string (unat (a ! 1)) @ '','' @ dec_string (unat (a ! 2)) @ '','' @ dec_string (unat (a ! 3)) @ '','' @
                             dec_string (unat (sin_port AND 0xff)) @ '','' @ dec_string (unat (drop_bit 8 sin_port)) @ '').'')
                             (fe_iface E), s)
                        else if cmd = ''EPSV'' then
                          (Some (''229 Entering Extended Passive Mode (|||'' @ dec_string (unat (htons sin_port)) @ ''|).''), s)
                        else (None, s))"

definition pasv_cmd_fn :: "'w ftp_env \<Rightarrow> string \<Rightarrow> string option \<Rightarrow> 'w ftp \<Rightarrow> (int \<times> 'w ftp) option" where
  "pasv_cmd_fn E cmd param s =
     (case ftp_buf_alloc s of
        None \<Rightarrow> Some (- 1, s)
      | Some s \<Rightarrow>
          (case pasv_open E cmd s of
             (None, s) \<Rightarrow> None
           | (Some msg, s) \<Rightarrow> Some (0, ftp_buf_free (send_to E (fs_fd (ft_sess s)) (char_bytes (take 1023 (msg @ crlf))) s))))"

definition pasv_accept :: "'w ftp_env \<Rightarrow> 'w ftp \<Rightarrow> 'w ftp" where
  "pasv_accept E s =
     (case px_accept (fe_px E) (pasvs_fd (ft_sess s)) (ft_w s) of (fd, w) \<Rightarrow>
        upd_sess (\<lambda>x. x\<lparr>port_pasv_fd := fd\<rparr>) (s\<lparr>ft_w := w\<rparr>))"

section \<open>Small commands\<close>

definition pwd_cmd_fn :: "'w ftp_env \<Rightarrow> string \<Rightarrow> string option \<Rightarrow> 'w ftp \<Rightarrow> (int \<times> 'w ftp) option" where
  "pwd_cmd_fn E cmd param s =
     Some (reply_buf E (''257 '' @ quoted (currentdir (ft_sess s)) @ '' is current directory.'') s)"

definition type_cmd_fn :: "'w ftp_env \<Rightarrow> string \<Rightarrow> string option \<Rightarrow> 'w ftp \<Rightarrow> (int \<times> 'w ftp) option" where
  "type_cmd_fn E cmd param s =
     (case param of
        None \<Rightarrow> None
      | Some p \<Rightarrow>
          Some (0, if cstr p = ''I''
                   then reply E ''200 Type set to binary.'' (upd_sess (\<lambda>x. x\<lparr>fs_type := 1\<rparr>) s)
                   else reply E ''200 Type set to ascii.'' (upd_sess (\<lambda>x. x\<lparr>fs_type := 0\<rparr>) s)))"

definition syst_cmd_fn :: "'w ftp_env \<Rightarrow> string \<Rightarrow> string option \<Rightarrow> 'w ftp \<Rightarrow> (int \<times> 'w ftp) option" where
  "syst_cmd_fn E cmd param s = Some (0, reply E ''215 Zephyr RTOS'' s)"

definition quit_cmd_fn :: "'w ftp_env \<Rightarrow> string \<Rightarrow> string option \<Rightarrow> 'w ftp \<Rightarrow> (int \<times> 'w ftp) option" where
  "quit_cmd_fn E cmd param s = Some (- 1, reply E ''221 Bye!'' s)"

definition rest_cmd_fn :: "'w ftp_env \<Rightarrow> string \<Rightarrow> string option \<Rightarrow> 'w ftp \<Rightarrow> (int \<times> 'w ftp) option" where
  "rest_cmd_fn E cmd param s =
     (case param of
        None \<Rightarrow> None
      | Some p \<Rightarrow>
          let offset = atoi (cstr p)
          in Some (0, if offset < 0
                      then upd_sess (\<lambda>x. x\<lparr>fs_offset := 0\<rparr>) (reply E ''504 invalid parameter.'' s)
                      else upd_sess (\<lambda>x. x\<lparr>fs_offset := offset\<rparr>) (reply E ''350 Send RETR or STOR to start transfert.'' s)))"

definition login_cmd_fn :: "'w ftp_env \<Rightarrow> string \<Rightarrow> string option \<Rightarrow> 'w ftp \<Rightarrow> (int \<times> 'w ftp) option" where
  "login_cmd_fn E cmd param s =
     (case param of
        None \<Rightarrow> None
      | Some p \<Rightarrow>
          if cstr p = USER_NAME then
            Some (0, upd_sess (\<lambda>x. x\<lparr>fs_state := State_passwd\<rparr>)
                       (reply E ''331 Password required.'' (upd_sess (\<lambda>x. x\<lparr>is_anonymous := False\<rparr>) s)))
          else if cstr p = ''anonymous'' then
            Some (0, upd_sess (\<lambda>x. x\<lparr>fs_state := State_ok, currentdir := fe_root E\<rparr>)
                       (reply E ''331 anonymous login OK send e-mail address for password.''
                         (upd_sess (\<lambda>x. x\<lparr>is_anonymous := True\<rparr>) s)))
          else Some (- 1, reply E ''530 Login incorrect. Bye.'' s))"

definition pass_cmd_fn :: "'w ftp_env \<Rightarrow> string \<Rightarrow> string option \<Rightarrow> 'w ftp \<Rightarrow> (int \<times> 'w ftp) option" where
  "pass_cmd_fn E cmd param s =
     Some (0, upd_sess (\<lambda>x. x\<lparr>currentdir := fe_root E\<rparr>) (reply E ''230 User logged in'' s))"

section \<open>Listing a directory\<close>

text \<open>gmtime of the C library, from the days since 1970: year, month from 1, day; then hour and minute.\<close>

definition civil :: "int \<Rightarrow> int \<times> int \<times> int" where
  "civil days =
     (let z = days + 719468; era = z div 146097; doe = z mod 146097;
          yoe = (doe - doe div 1460 + doe div 36524 - doe div 146096) div 365;
          doy = doe - (365 * yoe + yoe div 4 - yoe div 100);
          mp = (5 * doy + 2) div 153;
          m = (if mp < 10 then mp + 3 else mp - 9)
      in (yoe + era * 400 + (if m \<le> 2 then 1 else 0), m, doy - (153 * mp + 2) div 5 + 1))"

definition two_digits :: "int \<Rightarrow> string" where
  "two_digits n = (if n < 10 then ''0'' @ int_string n else int_string n)"

definition file_date :: "int \<Rightarrow> int \<Rightarrow> string" where
  "file_date mtime now =
     (case civil (mtime div 86400) of (y, m, d) \<Rightarrow>
        [''Jan'', ''Feb'', ''Mar'', ''Apr'', ''May'', ''Jun'', ''Jul'', ''Aug'', ''Sep'', ''Oct'', ''Nov'', ''Dec''] ! nat (m - 1)
          @ '' '' @ two_digits d @ '' '' @
        (if y = fst (civil (now div 86400))
         then two_digits (mtime div 3600 mod 24) @ '':'' @ two_digits (mtime div 60 mod 60)
         else int_string y))"

definition list_statbuf_get :: "string \<Rightarrow> file_stat \<Rightarrow> int \<Rightarrow> string" where
  "list_statbuf_get name st now =
     (let flag = (\<lambda>m c. if st_mode st AND m \<noteq> 0 then c else CHR ''-'')
      in [if st_is_dir st then CHR ''d'' else CHR ''-'',
          flag 0x100 (CHR ''r''), flag 0x80 (CHR ''w''), flag 0x40 (CHR ''x''),
          flag 0x20 (CHR ''r''), flag 0x10 (CHR ''w''), flag 0x8 (CHR ''x''),
          flag 0x4 (CHR ''r''), flag 0x2 (CHR ''w''), flag 0x1 (CHR ''x''), CHR '' ''] @
         int_string (st_nlink st) @ '' admin admin '' @ int_string (st_size st) @ '' '' @
         file_date (st_mtime st) now @ '' '' @ name @ crlf)"

text \<open>
  The entries: a line that does not fit its 256 bytes is copied with what lies behind the block.  The lines are
  gathered in the first 768 bytes; what is there when the directory ends is the second component.
\<close>

fun list_entries :: "'w ftp_env \<Rightarrow> string \<Rightarrow> int \<Rightarrow> string list \<Rightarrow> bytes \<Rightarrow> 'w \<Rightarrow> (bytes \<times> 'w) option" where
  "list_entries E dir fd [] out w = Some (out, w)"
| "list_entries E dir fd (name # names) out w =
     (case px_stat (fe_px E) (take 255 (dir @ ''/'' @ name)) w of
        (None, w) \<Rightarrow> list_entries E dir fd names out w
      | (Some st, w) \<Rightarrow>
          let line = list_statbuf_get name st (fe_time E w); n = length line
          in if n > 256 then None
             else
               let (out, w) = (if length out + n > 1024 - 256 then ([], snd (ftp_data_send E fd out w (int (length out)))) else (out, w));
                   bs = char_bytes (if n = 256 then take 255 line @ [NUL] else line)
               in list_entries E dir fd names (out @ bs) w)"

definition list_opening :: "'w ftp_env \<Rightarrow> 'w ftp \<Rightarrow> 'w ftp" where
  "list_opening E s =
     (if fs_type (ft_sess s) = 1 then reply E ''150 Opening binary mode connection for file list.'' s
      else reply E ''150 Opening ascii mode connection for file list.'' s)"

definition cant_open :: "'w ftp_env \<Rightarrow> 'w ftp \<Rightarrow> int \<times> 'w ftp" where
  "cant_open E s = reply_buf E (''550 directory '' @ quoted (currentdir (ft_sess s)) @ '' can't open.'') s"

definition list_cmd_fn :: "'w ftp_env \<Rightarrow> string \<Rightarrow> string option \<Rightarrow> 'w ftp \<Rightarrow> (int \<times> 'w ftp) option" where
  "list_cmd_fn E cmd param s =
     (let s = (if pasvs_fd (ft_sess s) > 0 then pasv_accept E s else s)
      in if port_pasv_fd (ft_sess s) < 0 then Some (0, reply E ''502 Not Implemented.'' s)
         else case px_list (fe_px E) (currentdir (ft_sess s)) (ft_w s) of
                (None, w) \<Rightarrow> Some (cant_open E (s\<lparr>ft_w := w\<rparr>))
              | (Some names, w) \<Rightarrow>
                  let s = list_opening E (s\<lparr>ft_w := w\<rparr>)
                  in case ftp_buf_alloc s of
                       None \<Rightarrow> None
                     | Some s \<Rightarrow>
                         (case list_entries E (currentdir (ft_sess s)) (port_pasv_fd (ft_sess s)) names [] (ft_w s) of
                            None \<Rightarrow> None
                          | Some (out, w) \<Rightarrow>
                              let s = close_pasv E (ftp_buf_free (s\<lparr>ft_w := w\<rparr>))
                              in Some (0, reply E ''226 Transfert Complete.'' s)))"

fun nlist_entries :: "'w ftp_env \<Rightarrow> int \<Rightarrow> string list \<Rightarrow> 'w \<Rightarrow> 'w" where
  "nlist_entries E fd [] w = w"
| "nlist_entries E fd (name # names) w =
     nlist_entries E fd names (snd (px_send (fe_px E) fd (char_bytes (take 255 (name @ crlf))) w))"

definition nlist_cmd_fn :: "'w ftp_env \<Rightarrow> string \<Rightarrow> string option \<Rightarrow> 'w ftp \<Rightarrow> (int \<times> 'w ftp) option" where
  "nlist_cmd_fn E cmd param s =
     (let s = (if pasvs_fd (ft_sess s) > 0 then pasv_accept E s else s)
      in if port_pasv_fd (ft_sess s) < 0 then Some (0, reply E ''502 Not Implemented.'' s)
         else case px_list (fe_px E) (currentdir (ft_sess s)) (ft_w s) of
                (None, w) \<Rightarrow> Some (cant_open E (s\<lparr>ft_w := w\<rparr>))
              | (Some names, w) \<Rightarrow>
                  let s = list_opening E (s\<lparr>ft_w := w\<rparr>);
                      s = s\<lparr>ft_w := nlist_entries E (port_pasv_fd (ft_sess s)) names (ft_w s)\<rparr>
                  in Some (0, reply E ''226 Transfert Complete.'' (close_pasv E s)))"

section \<open>Directories and files\<close>

text \<open>CWD and CDUP, which change the session's directory before they look at it.\<close>

definition change_dir :: "'w ftp_env \<Rightarrow> string \<Rightarrow> 'w ftp \<Rightarrow> (int \<times> 'w ftp) option" where
  "change_dir E path s =
     (case build_full_path (currentdir (ft_sess s)) path of
        None \<Rightarrow> None
      | Some (ret, dir) \<Rightarrow>
          let s = upd_sess (\<lambda>x. x\<lparr>currentdir := dir\<rparr>) s
          in if ret \<noteq> 0 then Some (- 1, s)
             else case px_list (fe_px E) dir (ft_w s) of
                    (None, w) \<Rightarrow> Some (cant_open E (s\<lparr>ft_w := w\<rparr>))
                  | (Some _, w) \<Rightarrow> Some (reply_buf E (''250 Changed to directory '' @ quoted dir) (s\<lparr>ft_w := w\<rparr>)))"

definition cwd_cmd_fn :: "'w ftp_env \<Rightarrow> string \<Rightarrow> string option \<Rightarrow> 'w ftp \<Rightarrow> (int \<times> 'w ftp) option" where
  "cwd_cmd_fn E cmd param s = (case param of None \<Rightarrow> None | Some p \<Rightarrow> change_dir E (cstr p) s)"

definition cdup_cmd_fn :: "'w ftp_env \<Rightarrow> string \<Rightarrow> string option \<Rightarrow> 'w ftp \<Rightarrow> (int \<times> 'w ftp) option" where
  "cdup_cmd_fn E cmd param s = change_dir E ''..'' s"

text \<open>The full path of a parameter, for the commands that work on a copy of the directory's name.\<close>

definition param_path :: "string option \<Rightarrow> 'w ftp \<Rightarrow> (int \<times> string) option" where
  "param_path param s =
     (case param of None \<Rightarrow> None | Some p \<Rightarrow> build_full_path (take 255 (currentdir (ft_sess s))) (cstr p))"

text \<open>Acting on the path with a block in hand, and answering what the action says.\<close>

definition path_action :: "'w ftp_env \<Rightarrow> string option \<Rightarrow> (string \<Rightarrow> 'w ftp \<Rightarrow> string \<times> 'w ftp) \<Rightarrow> 'w ftp \<Rightarrow> (int \<times> 'w ftp) option" where
  "path_action E param act s =
     (if is_anonymous (ft_sess s) then Some (0, reply E ''550 Permission denied.'' s)
      else case param_path param s of
             None \<Rightarrow> None
           | Some (ret, path) \<Rightarrow>
               if ret \<noteq> 0 then Some (- 1, s)
               else case ftp_buf_alloc s of
                      None \<Rightarrow> Some (- 1, s)
                    | Some s \<Rightarrow>
                        (case act path s of (msg, s) \<Rightarrow>
                           Some (0, ftp_buf_free (send_to E (fs_fd (ft_sess s)) (char_bytes (take 1023 (msg @ crlf))) s))))"

definition mkd_cmd_fn :: "'w ftp_env \<Rightarrow> string \<Rightarrow> string option \<Rightarrow> 'w ftp \<Rightarrow> (int \<times> 'w ftp) option" where
  "mkd_cmd_fn E cmd param = path_action E param (\<lambda>path s.
     case ftp_create_dir E path s of (ret, s) \<Rightarrow>
       (if ret \<noteq> 0 then ''550 directory '' @ quoted path @ '' create error.''
        else ''257 directory '' @ quoted path @ '' successfully created.'', s))"

text \<open>RMD and DELE: the error's noun, and the reply of success.\<close>

definition unlink_action :: "'w ftp_env \<Rightarrow> string \<Rightarrow> string \<Rightarrow> string \<Rightarrow> 'w ftp \<Rightarrow> string \<times> 'w ftp" where
  "unlink_action E noun code path s =
     (case px_unlink (fe_px E) path (ft_w s) of (ret, w) \<Rightarrow>
        (if ret \<noteq> 0 then ''550 '' @ noun @ quoted path @ '' delete error.''
         else code @ '' '' @ noun @ quoted path @ '' successfully deleted.'', s\<lparr>ft_w := w\<rparr>))"

definition rmd_cmd_fn :: "'w ftp_env \<Rightarrow> string \<Rightarrow> string option \<Rightarrow> 'w ftp \<Rightarrow> (int \<times> 'w ftp) option" where
  "rmd_cmd_fn E cmd param = path_action E param (unlink_action E ''directory '' ''257'')"

definition dele_cmd_fn :: "'w ftp_env \<Rightarrow> string \<Rightarrow> string option \<Rightarrow> 'w ftp \<Rightarrow> (int \<times> 'w ftp) option" where
  "dele_cmd_fn E cmd param = path_action E param (unlink_action E ''file '' ''250'')"

definition not_regular :: "'w ftp_env \<Rightarrow> string \<Rightarrow> 'w ftp \<Rightarrow> int \<times> 'w ftp" where
  "not_regular E path s = reply_buf E (''550 '' @ quoted path @ '' : not a regular file'') s"

definition size_cmd_fn :: "'w ftp_env \<Rightarrow> string \<Rightarrow> string option \<Rightarrow> 'w ftp \<Rightarrow> (int \<times> 'w ftp) option" where
  "size_cmd_fn E cmd param s =
     (case param_path param s of
        None \<Rightarrow> None
      | Some (ret, path) \<Rightarrow>
          if ret \<noteq> 0 then Some (- 1, s)
          else case px_stat (fe_px E) path (ft_w s) of
                 (None, w) \<Rightarrow> Some (not_regular E path (s\<lparr>ft_w := w\<rparr>))
               | (Some st, w) \<Rightarrow>
                   if \<not> st_is_reg st then Some (not_regular E path (s\<lparr>ft_w := w\<rparr>))
                   else Some (reply_buf E (''213 '' @ int_string (st_size st)) (s\<lparr>ft_w := w\<rparr>)))"

section \<open>Transfers\<close>

text \<open>Reading the file in blocks of 1024 bytes and sending each; 0, or -1 when a send failed.\<close>

partial_function (option) retr_loop :: "'w ftp_env \<Rightarrow> int \<Rightarrow> int \<Rightarrow> 'w \<Rightarrow> (int \<times> 'w) option" where
  "retr_loop E fd sock w =
     (case px_read (fe_px E) fd 1024 w of (n, bs, w) \<Rightarrow>
        if n \<le> 0 then Some (0, w)
        else case ftp_data_send E sock (take (nat n) bs) w n of (r, w) \<Rightarrow>
          if r \<noteq> n then Some (- 1, w) else retr_loop E fd sock w)"

definition transfer_end :: "'w ftp_env \<Rightarrow> int \<Rightarrow> int \<Rightarrow> 'w ftp \<Rightarrow> int \<times> 'w ftp" where
  "transfer_end E fd result s =
     (let s = close_pasv E (close_fd E fd (ftp_buf_free s))
      in (0, reply E (if result \<noteq> 0 then ''426 Connection closed, transfer aborted.'' else ''226 Transfert Complete.'') s))"

text \<open>A 550 reply that also clears the offset, when there is a block for it.\<close>

definition retr_refuse :: "'w ftp_env \<Rightarrow> string \<Rightarrow> 'w ftp \<Rightarrow> int \<times> 'w ftp" where
  "retr_refuse E path s =
     (case not_regular E path s of (ret, s) \<Rightarrow> (ret, if ret = 0 then upd_sess (\<lambda>x. x\<lparr>fs_offset := 0\<rparr>) s else s))"

definition retr_opening :: "string \<Rightarrow> int \<Rightarrow> ftp_session \<Rightarrow> string" where
  "retr_opening path file_size x =
     ''150 Opening '' @ (if fs_type x = 1 then ''binary'' else ''ascii'') @ '' mode data connection for '' @ quoted path @
     (if fs_offset x > 0 \<and> fs_offset x < file_size
      then '' ('' @ int_string (file_size - fs_offset x) @ ''/'' @ int_string file_size @ '' bytes).''
      else '' ('' @ int_string file_size @ '' bytes).'')"

definition retr_cmd_fn :: "'w ftp_env \<Rightarrow> string \<Rightarrow> string option \<Rightarrow> 'w ftp \<Rightarrow> (int \<times> 'w ftp) option" where
  "retr_cmd_fn E cmd param s =
     (let px = fe_px E; s = (if pasvs_fd (ft_sess s) > 0 then pasv_accept E s else s)
      in if port_pasv_fd (ft_sess s) < 0
         then Some (0, upd_sess (\<lambda>x. x\<lparr>fs_offset := 0\<rparr>) (reply E ''502 Not Implemented.'' s))
         else case param_path param s of
                None \<Rightarrow> None
              | Some (ret, path) \<Rightarrow>
                  if ret \<noteq> 0 then Some (- 1, s)
                  else case px_open px Rdonly path (ft_w s) of (fd, w) \<Rightarrow>
                    let s = s\<lparr>ft_w := w\<rparr>
                    in if fd < 0 then Some (retr_refuse E path s)
                       else case px_seek_end px fd (ft_w s) of (file_size, w) \<Rightarrow>
                         let s = s\<lparr>ft_w := snd (px_seek_set px fd 0 w)\<rparr>
                         in if file_size \<le> 0 then Some (retr_refuse E path (close_fd E fd s))
                            else case ftp_buf_alloc s of
                                   None \<Rightarrow> Some (- 1, close_fd E fd s)
                                 | Some s \<Rightarrow>
                                     let x = ft_sess s;
                                         s = (if fs_offset x > 0 \<and> fs_offset x < file_size
                                              then s\<lparr>ft_w := snd (px_seek_set px fd (fs_offset x) (ft_w s))\<rparr> else s);
                                         s = send_to E (fs_fd x) (char_bytes (take 1023 (retr_opening path file_size x @ crlf))) s
                                     in case retr_loop E fd (port_pasv_fd x) (ft_w s) of
                                          None \<Rightarrow> None
                                        | Some (result, w) \<Rightarrow>
                                            (case transfer_end E fd result (s\<lparr>ft_w := w\<rparr>) of
                                               (ret, s) \<Rightarrow> Some (ret, upd_sess (\<lambda>x. x\<lparr>fs_offset := 0\<rparr>) s)))"

text \<open>
  A block of an upload: it waits three seconds for each piece, and what came before a silence or the end is the
  block; an error loses it.
\<close>

function stor_receive :: "'w ftp_env \<Rightarrow> int \<Rightarrow> nat \<Rightarrow> bytes \<Rightarrow> 'w \<Rightarrow> int \<times> bytes \<times> 'w" where
  "stor_receive E sock bufsz got w =
     (if bufsz = 0 then (int (length got), got, w)
      else case px_select (fe_px E) sock 3000 w of (rc, w) \<Rightarrow>
        if rc < 0 then (rc, got, w)
        else if rc = 0 then (int (length got), got, w)
        else case px_recv (fe_px E) sock bufsz w of (rc, bs, w) \<Rightarrow>
          if rc < 0 then (rc, got, w)
          else if rc = 0 then (int (length got), got, w)
          else stor_receive E sock (bufsz - nat rc) (got @ take (nat rc) bs) w)"
  by pat_completeness auto
termination by (relation "measure (\<lambda>(E, sock, bufsz, got, w). bufsz)") auto

declare stor_receive.simps [simp del]

definition stor_cmd_receive :: "'w ftp_env \<Rightarrow> int \<Rightarrow> nat \<Rightarrow> 'w \<Rightarrow> int \<times> bytes \<times> 'w" where
  "stor_cmd_receive E sock bufsz w =
     (if sock < 0 \<or> bufsz = 0 then (- 1, [], w) else stor_receive E sock bufsz [] w)"

partial_function (option) stor_loop :: "'w ftp_env \<Rightarrow> int \<Rightarrow> int \<Rightarrow> 'w \<Rightarrow> (int \<times> 'w) option" where
  "stor_loop E fd sock w =
     (case stor_cmd_receive E sock 1024 w of (n, bs, w) \<Rightarrow>
        if n < 0 then Some (- 1, w)
        else if n = 0 then Some (0, w)
        else case px_write (fe_px E) fd bs w of (r, w) \<Rightarrow>
          if r \<noteq> n then Some (- 1, w) else stor_loop E fd sock (px_sync (fe_px E) fd w))"

definition stor_cmd_fn :: "'w ftp_env \<Rightarrow> string \<Rightarrow> string option \<Rightarrow> 'w ftp \<Rightarrow> (int \<times> 'w ftp) option" where
  "stor_cmd_fn E cmd param s =
     (let px = fe_px E; s = upd_sess (\<lambda>x. x\<lparr>fs_offset := 0\<rparr>) s
      in if is_anonymous (ft_sess s) then Some (0, reply E ''550 Permission denied.'' s)
         else
           let s = (if pasvs_fd (ft_sess s) > 0 then pasv_accept E s else s)
           in if port_pasv_fd (ft_sess s) < 0 then Some (0, reply E ''502 Not Implemented.'' s)
              else case param_path param s of
                     None \<Rightarrow> None
                   | Some (ret, path) \<Rightarrow>
                       if ret \<noteq> 0 then Some (- 1, s)
                       else case px_open px Creat_trunc path (ft_w s) of (fd, w) \<Rightarrow>
                         let s = s\<lparr>ft_w := w\<rparr>
                         in if fd < 0 then Some (reply_buf E (''550 Cannot open '' @ quoted path @ '' for writing.'') s)
                            else case ftp_buf_alloc s of
                                   None \<Rightarrow> Some (- 1, close_fd E fd s)
                                 | Some s \<Rightarrow>
                                     let s = send_to E (fs_fd (ft_sess s)) (char_bytes (take 1023
                                               (''150 Opening binary mode data connection for '' @ quoted path @ ''.'' @ crlf))) s
                                     in case stor_loop E fd (port_pasv_fd (ft_sess s)) (ft_w s) of
                                          None \<Rightarrow> None
                                        | Some (result, w) \<Rightarrow> Some (transfer_end E fd result (s\<lparr>ft_w := w\<rparr>)))"

section \<open>Commands and login (ftp_handler.c)\<close>

definition session_cmds :: "'w ftp_env \<Rightarrow> (string \<times> (string \<Rightarrow> string option \<Rightarrow> 'w ftp \<Rightarrow> (int \<times> 'w ftp) option)) list" where
  "session_cmds E =
     [(''PORT'', port_cmd_fn E), (''EPRT'', port_cmd_fn E), (''PASV'', pasv_cmd_fn E), (''EPSV'', pasv_cmd_fn E),
      (''PWD'', pwd_cmd_fn E), (''XPWD'', pwd_cmd_fn E), (''TYPE'', type_cmd_fn E), (''SYST'', syst_cmd_fn E),
      (''QUIT'', quit_cmd_fn E), (''LIST'', list_cmd_fn E), (''NLST'', nlist_cmd_fn E), (''CWD'', cwd_cmd_fn E),
      (''CDUP'', cdup_cmd_fn E), (''MKD'', mkd_cmd_fn E), (''RMD'', rmd_cmd_fn E), (''DELE'', dele_cmd_fn E),
      (''SIZE'', size_cmd_fn E), (''REST'', rest_cmd_fn E), (''RETR'', retr_cmd_fn E), (''STOR'', stor_cmd_fn E),
      (''USER'', login_cmd_fn E), (''PASS'', pass_cmd_fn E)]"

definition starts :: "string \<Rightarrow> string \<Rightarrow> bool" where "starts cmd name = (take (length name) cmd = name)"

definition ftp_session_cmd_process :: "'w ftp_env \<Rightarrow> string \<Rightarrow> string option \<Rightarrow> 'w ftp \<Rightarrow> (int \<times> 'w ftp) option" where
  "ftp_session_cmd_process E cmd param s =
     (case find (\<lambda>(name, _). starts cmd name) (session_cmds E) of
        None \<Rightarrow> Some (0, reply E ''502 Not Implemented.'' s)
      | Some (_, f) \<Rightarrow> f cmd param s)"

text \<open>ftp_proccess answers 0 in every case: the results of the commands are not used.\<close>

definition split_command :: "char list \<Rightarrow> string \<times> string option" where
  "split_command buf =
     (let line = cstr buf; cmd = takeWhile (\<lambda>c. c \<noteq> CHR '' '') line
      in (cmd, if cmd = line then None else Some (drop (length cmd + 1) buf)))"

definition ftp_proccess :: "'w ftp_env \<Rightarrow> char list \<Rightarrow> 'w ftp \<Rightarrow> (int \<times> 'w ftp) option" where
  "ftp_proccess E buf s =
     (case split_command buf of (cmd, param) \<Rightarrow>
        case fs_state (ft_sess s) of
          State_user \<Rightarrow>
            if \<not> starts cmd ''USER'' then Some (0, reply E ''502 Not Implemented.'' s)
            else (case param of
                    None \<Rightarrow> None
                  | Some p \<Rightarrow>
                      if cstr p = ''anonymous'' then
                        Some (0, upd_sess (\<lambda>x. x\<lparr>fs_state := State_ok\<rparr>)
                                   (reply E ''331 anonymous login OK send e-mail address for password.''
                                     (upd_sess (\<lambda>x. x\<lparr>is_anonymous := True\<rparr>) s)))
                      else if cstr p = USER_NAME then
                        Some (0, upd_sess (\<lambda>x. x\<lparr>fs_state := State_passwd\<rparr>)
                                   (reply E ''331 Password required.'' (upd_sess (\<lambda>x. x\<lparr>is_anonymous := False\<rparr>) s)))
                      else Some (0, reply E ''530 Login incorrect. Bye.'' s))
        | State_passwd \<Rightarrow>
            if \<not> starts cmd ''PASS'' then Some (0, reply E ''502 Not Implemented.'' s)
            else if \<not> is_anonymous (ft_sess s) \<and> param = None then None
            else if is_anonymous (ft_sess s) \<or> cstr (the param) = USER_PAWD then
              Some (0, upd_sess (\<lambda>x. x\<lparr>currentdir := fe_root E, fs_state := State_ok\<rparr>) (reply E ''230 User logged in'' s))
            else Some (0, reply E ''530 Login incorrect. Bye.'' s)
        | State_ok \<Rightarrow> map_option (\<lambda>(_, s). (0, s)) (ftp_session_cmd_process E cmd param s))"

section \<open>The server (ftpd.c)\<close>

text \<open>Sessions start as static memory: all zero, also the sockets.\<close>

record 'w ftpd =
  fd_sessions :: "ftp_session list"
  fd_slab :: nat
  fd_buf :: "char list"
  fd_w :: 'w

definition FTP_MAX_CLIENTS :: nat where "FTP_MAX_CLIENTS = 4"

definition zero_session :: ftp_session where
  "zero_session = \<lparr>fs_fd = 0, is_anonymous = False, port_pasv_fd = 0, pasvs_fd = 0, fs_offset = 0, fs_type = 0,
     fs_time = 0, fs_state = State_user, currentdir = []\<rparr>"

definition ftp_session_reset :: ftp_session where
  "ftp_session_reset = zero_session\<lparr>port_pasv_fd := - 1, pasvs_fd := - 1\<rparr>"

definition ftp_session_release :: "'w ftp_env \<Rightarrow> nat \<Rightarrow> 'w ftpd \<Rightarrow> 'w ftpd" where
  "ftp_session_release E i s =
     (let px = fe_px E; x = fd_sessions s ! i;
          w = px_close px (fs_fd x) (fd_w s);
          w = (if port_pasv_fd x \<noteq> - 1 then px_close px (port_pasv_fd x) w else w);
          w = (if pasvs_fd x \<noteq> - 1 then px_close px (pasvs_fd x) w else w)
      in s\<lparr>fd_sessions := (fd_sessions s)[i := ftp_session_reset], fd_w := w\<rparr>)"

text \<open>select failed: sessions that were silent for two minutes are released.\<close>

fun release_expired :: "'w ftp_env \<Rightarrow> int \<Rightarrow> nat list \<Rightarrow> 'w ftpd \<Rightarrow> 'w ftpd" where
  "release_expired E uptime [] s = s"
| "release_expired E uptime (i # is) s =
     release_expired E uptime is
       (let t = fs_time (fd_sessions s ! i)
        in if t \<noteq> 0 \<and> t + FTP_SESSION_TIMEOUT < uptime then ftp_session_release E i s else s)"

fun free_session :: "ftp_session list \<Rightarrow> nat option" where
  "free_session [] = None"
| "free_session (x # xs) = (if fs_fd x = 0 then Some 0 else map_option Suc (free_session xs))"

definition ftpd_send :: "'w ftp_env \<Rightarrow> int \<Rightarrow> string \<Rightarrow> 'w ftpd \<Rightarrow> 'w ftpd" where
  "ftpd_send E fd msg s = s\<lparr>fd_w := snd (px_send (fe_px E) fd (char_bytes (msg @ crlf)) (fd_w s))\<rparr>"

definition ftpd_accept :: "'w ftp_env \<Rightarrow> int \<Rightarrow> int \<Rightarrow> 'w ftpd \<Rightarrow> 'w ftpd" where
  "ftpd_accept E client uptime s =
     (let connect_num = length (filter (\<lambda>x. fs_fd x > 0) (fd_sessions s))
      in if client < 0 then s
         else if connect_num > 2 then
           let s = ftpd_send E client ''Only 3 connections is allowed, please close other one and retry'' s
           in s\<lparr>fd_w := px_close (fe_px E) client (fd_w s)\<rparr>
         else case free_session (fd_sessions s) of
                None \<Rightarrow> s\<lparr>fd_w := px_close (fe_px E) client (fd_w s)\<rparr>
              | Some i \<Rightarrow>
                  let x = (fd_sessions s ! i)\<lparr>fs_fd := client, port_pasv_fd := - 1, pasvs_fd := - 1, fs_time := uptime\<rparr>
                  in ftpd_send E client ''220 Light FTP Server'' (s\<lparr>fd_sessions := (fd_sessions s)[i := x]\<rparr>))"

text \<open>A readable session; fewer than two bytes write in front of the receive buffer.\<close>

definition ftpd_ready :: "'w ftp_env \<Rightarrow> int \<Rightarrow> nat \<Rightarrow> 'w ftpd \<Rightarrow> 'w ftpd option" where
  "ftpd_ready E uptime i s =
     (case px_recv (fe_px E) (fs_fd (fd_sessions s ! i)) 256 (fd_w s) of (rc, bs, w) \<Rightarrow>
        let s = s\<lparr>fd_w := w\<rparr>
        in if rc = 0 then Some (ftp_session_release E i s)
           else if rc < 2 then None
           else
             let buf = (mem_put 0 (map (\<lambda>b. char_of (unat b)) (take (nat rc) bs)) (fd_buf s))[nat rc - 2 := NUL];
                 x = (fd_sessions s ! i)\<lparr>fs_time := uptime\<rparr>
             in case ftp_proccess E buf \<lparr>ft_sess = x, ft_slab = fd_slab s, ft_w = fd_w s\<rparr> of
                  None \<Rightarrow> None
                | Some (_, t) \<Rightarrow> Some (s\<lparr>fd_sessions := (fd_sessions s)[i := ft_sess t], fd_slab := ft_slab t,
                                         fd_buf := buf, fd_w := ft_w t\<rparr>))"

fun ftpd_clients :: "'w ftp_env \<Rightarrow> (int \<Rightarrow> bool) \<Rightarrow> int \<Rightarrow> nat list \<Rightarrow> 'w ftpd \<Rightarrow> 'w ftpd option" where
  "ftpd_clients E readable uptime [] s = Some s"
| "ftpd_clients E readable uptime (i # is) s =
     (if fs_fd (fd_sessions s ! i) > 0 \<and> readable (fs_fd (fd_sessions s ! i))
      then Option.bind (ftpd_ready E uptime i s) (ftpd_clients E readable uptime is)
      else ftpd_clients E readable uptime is s)"

text \<open>What select reports: an error, a timeout, a new connection, or readable sessions.\<close>

datatype ftp_event = Select_error | Select_timeout | Connection int | Readable "int \<Rightarrow> bool"

definition ftpd_turn :: "'w ftp_env \<Rightarrow> ftp_event \<Rightarrow> int \<Rightarrow> 'w ftpd \<Rightarrow> 'w ftpd option" where
  "ftpd_turn E ev uptime s =
     (case ev of
        Select_error \<Rightarrow> Some (release_expired E uptime [0..<FTP_MAX_CLIENTS] s)
      | Select_timeout \<Rightarrow> Some s
      | Connection client \<Rightarrow> Some (ftpd_accept E client uptime s)
      | Readable r \<Rightarrow> ftpd_clients E r uptime [0..<FTP_MAX_CLIENTS] s)"

definition ftpd_static :: "'w \<Rightarrow> 'w ftpd" where
  "ftpd_static w = \<lparr>fd_sessions = replicate FTP_MAX_CLIENTS zero_session, fd_slab = FTP_BLOCKS,
     fd_buf = replicate 256 NUL, fd_w = w\<rparr>"

end
