(* ===== verification/Ftp_Props.thy ===== *)
theory Ftp_Props
  imports Ftp
begin

text \<open>
  The FTP server: the pool of buffers and the sessions over every run, who may change files, what transfers carry.
\<close>

section \<open>Effects of the building blocks\<close>

named_theorems ftp_simps

lemma send_fields [simp, ftp_simps]:
  "ft_slab (send_to E fd bs s) = ft_slab s" "ft_sess (send_to E fd bs s) = ft_sess s"
  "ft_slab (reply E msg s) = ft_slab s" "ft_sess (reply E msg s) = ft_sess s"
  "ft_slab (close_fd E fd s) = ft_slab s" "ft_sess (close_fd E fd s) = ft_sess s"
  "ft_slab (upd_sess f s) = ft_slab s" "ft_sess (upd_sess f s) = f (ft_sess s)"
  "ft_w (upd_sess f s) = ft_w s"
  "ft_slab (list_opening E s) = ft_slab s" "ft_sess (list_opening E s) = ft_sess s"
  by (simp_all add: send_to_def reply_def close_fd_def upd_sess_def list_opening_def)

text \<open>What every command keeps: the pool, the control connection and, but for logging in, the rights.\<close>

definition kept :: "'w ftp \<Rightarrow> 'w ftp \<Rightarrow> bool" where
  "kept s s' \<longleftrightarrow> ft_slab s' = ft_slab s \<and> fs_fd (ft_sess s') = fs_fd (ft_sess s) \<and>
     fs_time (ft_sess s') = fs_time (ft_sess s) \<and>
     fs_state (ft_sess s') = fs_state (ft_sess s) \<and> is_anonymous (ft_sess s') = is_anonymous (ft_sess s)"

lemma kept_refl: "kept s s" by (simp add: kept_def)

lemma kept_trans: "kept s s1 \<Longrightarrow> kept s1 s2 \<Longrightarrow> kept s s2" by (simp add: kept_def)

lemma kept_buf: "reply_buf E msg s = (r, s') \<Longrightarrow> kept s s'"
  by (auto simp: reply_buf_def ftp_buf_alloc_def ftp_buf_free_def kept_def split: if_splits)

lemma kept_close: "kept s (close_pasv E s)"
  by (simp add: close_pasv_def kept_def Let_def)

lemma kept_accept: "kept s (pasv_accept E s)"
  by (simp add: pasv_accept_def kept_def split: prod.split)

lemma kept_simps [simp]:
  "kept s (reply E msg s') = kept s s'" "kept s (send_to E fd bs s') = kept s s'" "kept s (close_fd E fd s') = kept s s'"
  "kept s (s'\<lparr>ft_w := w\<rparr>) = kept s s'" "kept s (list_opening E s') = kept s s'"
  "kept s (upd_sess (\<lambda>x. x\<lparr>port_pasv_fd := i\<rparr>) s') = kept s s'" "kept s (upd_sess (\<lambda>x. x\<lparr>pasvs_fd := i\<rparr>) s') = kept s s'"
  "kept s (upd_sess (\<lambda>x. x\<lparr>fs_offset := i\<rparr>) s') = kept s s'" "kept s (upd_sess (\<lambda>x. x\<lparr>fs_type := n\<rparr>) s') = kept s s'"
  "kept s (upd_sess (\<lambda>x. x\<lparr>currentdir := d\<rparr>) s') = kept s s'"
  by (simp_all add: kept_def)

lemma kept_close' [simp]: "kept s (close_pasv E s') = kept s s'"
  using kept_close [of s' E] by (auto simp: kept_def)

lemma kept_accept' [simp]: "kept s (pasv_accept E s') = kept s s'"
  using kept_accept [of s' E] by (auto simp: kept_def)

lemma kept_alloc: "ftp_buf_alloc s = Some s1 \<Longrightarrow> ft_sess s1 = ft_sess s \<and> ft_slab s1 + 1 = ft_slab s"
  by (auto simp: ftp_buf_alloc_def split: if_splits)

lemma kept_free: "ftp_buf_alloc s = Some s1 \<Longrightarrow> kept s1 s2 \<Longrightarrow> kept s (ftp_buf_free s2)"
  by (auto dest!: kept_alloc simp: kept_def ftp_buf_free_def)

lemma kept_free_from: "ftp_buf_alloc s1 = Some s2 \<Longrightarrow> kept s s1 \<Longrightarrow> kept s2 s3 \<Longrightarrow> kept s (ftp_buf_free s3)"
  using kept_free kept_trans by blast

lemma kept_transfer: "ftp_buf_alloc s = Some s1 \<Longrightarrow> kept s1 s2 \<Longrightarrow> transfer_end E fd r s2 = (ret, s3) \<Longrightarrow> kept s s3"
  by (auto simp: transfer_end_def Let_def dest: kept_free)

lemma kept_buf_eq: "reply_buf E msg s1 = (r, s') \<Longrightarrow> kept s s1 \<Longrightarrow> kept s s'"
  using kept_buf kept_trans by blast

lemma kept_not_regular: "not_regular E path s1 = (r, s') \<Longrightarrow> kept s s1 \<Longrightarrow> kept s s'"
  by (simp add: not_regular_def kept_buf_eq)

lemma kept_refuse: "retr_refuse E path s1 = (r, s') \<Longrightarrow> kept s s1 \<Longrightarrow> kept s s'"
  by (auto simp: retr_refuse_def split: prod.splits if_splits dest: kept_not_regular)

lemma kept_cant_open: "cant_open E s1 = (r, s') \<Longrightarrow> kept s s1 \<Longrightarrow> kept s s'"
  by (simp add: cant_open_def kept_buf_eq)

lemma kept_connect: "port_connect E ip port s1 = (r, s') \<Longrightarrow> kept s s1 \<Longrightarrow> kept s s'"
  by (auto simp: port_connect_def Let_def split: prod.splits if_splits)

lemma kept_port: "port_cmd_fn E cmd p s = Some (r, s') \<Longrightarrow> kept s s'"
  by (auto simp: port_cmd_fn_def Let_def kept_refl split: option.splits sum.splits prod.splits if_splits dest!: kept_connect)

lemma kept_pasv_open: "pasv_open E cmd s1 = (m, s') \<Longrightarrow> kept s s1 \<Longrightarrow> kept s s'"
  by (auto simp: pasv_open_def Let_def split: prod.splits if_splits)

lemma kept_pasv: "pasv_cmd_fn E cmd p s = Some (r, s') \<Longrightarrow> kept s s'"
  by (auto simp: pasv_cmd_fn_def kept_refl split: option.splits prod.splits dest!: kept_pasv_open [OF _ kept_refl] intro: kept_free)

lemma kept_small:
  "pwd_cmd_fn E cmd p s = Some (r, s') \<Longrightarrow> kept s s'"
  "type_cmd_fn E cmd p s = Some (r, s') \<Longrightarrow> kept s s'"
  "syst_cmd_fn E cmd p s = Some (r, s') \<Longrightarrow> kept s s'"
  "quit_cmd_fn E cmd p s = Some (r, s') \<Longrightarrow> kept s s'"
  "rest_cmd_fn E cmd p s = Some (r, s') \<Longrightarrow> kept s s'"
  "pass_cmd_fn E cmd p s = Some (r, s') \<Longrightarrow> kept s s'"
  by (auto simp: pwd_cmd_fn_def type_cmd_fn_def syst_cmd_fn_def quit_cmd_fn_def rest_cmd_fn_def pass_cmd_fn_def
      kept_refl Let_def kept_buf split: option.splits)

lemma kept_list: "list_cmd_fn E cmd p s = Some (r, s') \<Longrightarrow> kept s s'"
  by (auto simp: list_cmd_fn_def Let_def kept_refl split: option.splits prod.splits if_splits
      intro: kept_cant_open) (rule kept_free_from, assumption, simp add: kept_refl, simp add: kept_refl)+

lemma kept_nlist: "nlist_cmd_fn E cmd p s = Some (r, s') \<Longrightarrow> kept s s'"
  by (auto simp: nlist_cmd_fn_def Let_def kept_refl split: option.splits prod.splits if_splits intro: kept_cant_open)

lemma kept_dir: "change_dir E path s = Some (r, s') \<Longrightarrow> kept s s'"
  by (auto simp: change_dir_def Let_def kept_refl split: option.splits prod.splits if_splits intro: kept_cant_open kept_buf_eq)

lemma kept_path_action:
  assumes "\<And>path s s1 m. act path s = (m, s1) \<Longrightarrow> kept s s1" and "path_action E p act s = Some (r, s')"
  shows "kept s s'"
  using assms(2)
  by (auto simp: path_action_def kept_refl split: option.splits prod.splits if_splits dest!: assms(1) intro: kept_free)

lemma kept_dirs:
  "cwd_cmd_fn E cmd p s = Some (r, s') \<Longrightarrow> kept s s'" "cdup_cmd_fn E cmd p s = Some (r, s') \<Longrightarrow> kept s s'"
  "mkd_cmd_fn E cmd p s = Some (r, s') \<Longrightarrow> kept s s'" "rmd_cmd_fn E cmd p s = Some (r, s') \<Longrightarrow> kept s s'"
  "dele_cmd_fn E cmd p s = Some (r, s') \<Longrightarrow> kept s s'" "size_cmd_fn E cmd p s = Some (r, s') \<Longrightarrow> kept s s'"
proof -
  show "cwd_cmd_fn E cmd p s = Some (r, s') \<Longrightarrow> kept s s'" by (auto simp: cwd_cmd_fn_def dest: kept_dir split: option.splits)
  show "cdup_cmd_fn E cmd p s = Some (r, s') \<Longrightarrow> kept s s'" by (simp add: cdup_cmd_fn_def kept_dir)
  show "mkd_cmd_fn E cmd p s = Some (r, s') \<Longrightarrow> kept s s'" unfolding mkd_cmd_fn_def
    by (erule kept_path_action [rotated]) (auto simp: ftp_create_dir_def kept_refl split: prod.splits option.splits)
  show "rmd_cmd_fn E cmd p s = Some (r, s') \<Longrightarrow> kept s s'" unfolding rmd_cmd_fn_def
    by (erule kept_path_action [rotated]) (auto simp: unlink_action_def kept_refl split: prod.splits)
  show "dele_cmd_fn E cmd p s = Some (r, s') \<Longrightarrow> kept s s'" unfolding dele_cmd_fn_def
    by (erule kept_path_action [rotated]) (auto simp: unlink_action_def kept_refl split: prod.splits)
  show "size_cmd_fn E cmd p s = Some (r, s') \<Longrightarrow> kept s s'"
    by (auto simp: size_cmd_fn_def kept_refl split: option.splits prod.splits if_splits intro: kept_not_regular kept_buf_eq)
qed

lemma kept_transfer_from:
  "transfer_end E fd result s3 = (r, s') \<Longrightarrow> ftp_buf_alloc s1 = Some s2 \<Longrightarrow> kept s s1 \<Longrightarrow> kept s2 s3 \<Longrightarrow> kept s s'"
  using kept_transfer kept_trans by blast

lemma kept_retr: "retr_cmd_fn E cmd p s = Some (r, s') \<Longrightarrow> kept s s'"
  unfolding retr_cmd_fn_def Let_def
  by (auto simp: kept_refl split: option.splits prod.splits if_splits intro: kept_refuse)
    (rule kept_transfer_from, assumption, assumption, simp add: kept_refl, simp add: kept_refl)+

lemma kept_stor: "stor_cmd_fn E cmd p s = Some (r, s') \<Longrightarrow> kept s s'"
  unfolding stor_cmd_fn_def Let_def
  by (auto simp: kept_refl split: option.splits prod.splits if_splits intro: kept_buf_eq)
    (rule kept_transfer_from, assumption, assumption, simp add: kept_refl, simp add: kept_refl)+

text \<open>Every command of the table but USER keeps the session's rights.\<close>

lemma command_kept:
  assumes "ftp_session_cmd_process E cmd param s = Some (r, s')"
  shows "kept s s' \<or> starts cmd ''USER'' \<and> login_cmd_fn E cmd param s = Some (r, s')"
proof (cases "find (\<lambda>(name, _). starts cmd name) (session_cmds E)")
  case None
  then show ?thesis using assms by (auto simp: ftp_session_cmd_process_def kept_refl)
next
  case (Some nf)
  then have "nf \<in> set (session_cmds E)" "starts cmd (fst nf)" by (auto simp: find_Some_iff) (metis nth_mem)
  moreover have "(snd nf) cmd param s = Some (r, s')" using assms Some by (simp add: ftp_session_cmd_process_def split: prod.splits)
  ultimately show ?thesis
    unfolding session_cmds_def
    by (auto dest: kept_port kept_pasv kept_small kept_list kept_nlist kept_dirs kept_retr kept_stor)
qed

section \<open>The server's sessions\<close>

inductive ftpd_run :: "'w ftp_env \<Rightarrow> 'w ftpd \<Rightarrow> bool" for E where
  ftpd_start: "ftpd_run E (ftpd_static w)"
| ftpd_step: "ftpd_run E s \<Longrightarrow> ev \<noteq> Connection 0 \<Longrightarrow> ftpd_turn E ev uptime s = Some s' \<Longrightarrow> ftpd_run E s'"

text \<open>A slot without a connection is as after a reset: its next user has to log in.\<close>

definition session_ok :: "ftp_session \<Rightarrow> bool" where
  "session_ok x \<longleftrightarrow> fs_fd x \<ge> 0 \<and> (fs_fd x = 0 \<longrightarrow> fs_state x = State_user \<and> \<not> is_anonymous x \<and> currentdir x = [])"

definition connections :: "ftp_session list \<Rightarrow> nat" where
  "connections xs = length (filter (\<lambda>x. fs_fd x > 0) xs)"

definition ftpd_ok :: "'w ftpd \<Rightarrow> bool" where
  "ftpd_ok s \<longleftrightarrow> fd_slab s = FTP_BLOCKS \<and> length (fd_sessions s) = FTP_MAX_CLIENTS \<and> length (fd_buf s) = 256 \<and>
     (\<forall>x \<in> set (fd_sessions s). session_ok x) \<and> connections (fd_sessions s) \<le> 3"

lemma connections_update:
  assumes "i < length xs"
  shows "connections (xs[i := x]) + (if fs_fd (xs ! i) > 0 then 1 else 0) = connections xs + (if fs_fd x > 0 then 1 else 0)"
proof -
  have "connections xs = connections (take i xs @ xs ! i # drop (Suc i) xs)" using id_take_nth_drop [OF assms] by simp
  then show ?thesis unfolding upd_conv_take_nth_drop [OF assms] by (simp add: connections_def)
qed

lemma proccess_kept:
  assumes "ftp_proccess E buf s = Some (r, s')"
  shows "ft_slab s' = ft_slab s \<and> fs_fd (ft_sess s') = fs_fd (ft_sess s) \<and> fs_time (ft_sess s') = fs_time (ft_sess s)"
proof -
  have "ft_slab s1 = ft_slab s \<and> fs_fd (ft_sess s1) = fs_fd (ft_sess s) \<and> fs_time (ft_sess s1) = fs_time (ft_sess s)"
    if "ftp_session_cmd_process E cmd param s = Some (r1, s1)" for cmd param r1 s1
    using command_kept [OF that] by (auto simp: kept_def login_cmd_fn_def split: option.splits if_splits)
  then show ?thesis
    using assms by (fastforce simp: ftp_proccess_def split: prod.splits ftp_state.splits option.splits if_splits)
qed

lemma release_ok: "ftpd_ok s \<Longrightarrow> i < FTP_MAX_CLIENTS \<Longrightarrow> ftpd_ok (ftp_session_release E i s)"
  using connections_update [of i "fd_sessions s" ftp_session_reset]
  by (auto simp: ftpd_ok_def ftp_session_release_def Let_def session_ok_def ftp_session_reset_def zero_session_def
      split: if_splits dest!: set_update_subset_insert [THEN subsetD])

lemma expired_ok: "ftpd_ok s \<Longrightarrow> \<forall>i \<in> set is. i < FTP_MAX_CLIENTS \<Longrightarrow> ftpd_ok (release_expired E uptime is s)"
  by (induction "is" arbitrary: s) (auto simp: release_ok Let_def)

lemma free_session_free: "free_session xs = Some i \<Longrightarrow> i < length xs \<and> fs_fd (xs ! i) = 0"
  by (induction xs arbitrary: i) (auto split: if_splits)

lemma accept_ok:
  assumes "ftpd_ok s" and "client \<noteq> 0"
  shows "ftpd_ok (ftpd_accept E client uptime s)"
proof (cases "client < 0 \<or> connections (fd_sessions s) > 2 \<or> free_session (fd_sessions s) = None")
  case True
  then show ?thesis using assms(1) by (auto simp: ftpd_accept_def Let_def ftpd_ok_def ftpd_send_def connections_def)
next
  case False
  then obtain i where i: "free_session (fd_sessions s) = Some i" by auto
  let ?x = "(fd_sessions s ! i)\<lparr>fs_fd := client, port_pasv_fd := - 1, pasvs_fd := - 1, fs_time := uptime\<rparr>"
  have "session_ok ?x" using False assms(2) by (simp add: session_ok_def)
  moreover have "connections ((fd_sessions s)[i := ?x]) \<le> 3"
    using connections_update [of i "fd_sessions s" ?x] free_session_free [OF i] False by simp
  moreover have "ftpd_accept E client uptime s = ftpd_send E client ''220 Light FTP Server'' (s\<lparr>fd_sessions := (fd_sessions s)[i := ?x]\<rparr>)"
    using False i by (simp add: ftpd_accept_def Let_def connections_def)
  ultimately show ?thesis
    using assms(1) by (auto simp: ftpd_ok_def ftpd_send_def dest!: set_update_subset_insert [THEN subsetD])
qed

lemma ready_ok:
  assumes "ftpd_ready E uptime i s = Some s'" and "ftpd_ok s" and "i < FTP_MAX_CLIENTS" and "fs_fd (fd_sessions s ! i) > 0"
    and "\<And>fd n w. case px_recv (fe_px E) fd n w of (rc, bs, w') \<Rightarrow> length bs \<le> n \<and> rc \<le> int (length bs)"
  shows "ftpd_ok s'"
proof -
  obtain rc bs w where recv: "px_recv (fe_px E) (fs_fd (fd_sessions s ! i)) 256 (fd_w s) = (rc, bs, w)"
    by (cases "px_recv (fe_px E) (fs_fd (fd_sessions s ! i)) 256 (fd_w s)")
  then have len: "length bs \<le> 256" "rc \<le> int (length bs)" using assms(5) [where fd = "fs_fd (fd_sessions s ! i)" and n = 256 and w = "fd_w s"] by auto
  have ok: "ftpd_ok (s\<lparr>fd_w := w\<rparr>)" using assms(2) by (simp add: ftpd_ok_def)
  show ?thesis
  proof (cases "rc = 0")
    case True
    then show ?thesis using assms(1) recv release_ok [OF ok assms(3)] by (auto simp: ftpd_ready_def)
  next
    case False
    define buf where "buf = (mem_put 0 (map (\<lambda>b. char_of (unat b)) (take (nat rc) bs)) (fd_buf s))[nat rc - 2 := NUL]"
    define x where "x = (fd_sessions s ! i)\<lparr>fs_time := uptime\<rparr>"
    obtain r t where t: "ftp_proccess E buf \<lparr>ft_sess = x, ft_slab = fd_slab s, ft_w = w\<rparr> = Some (r, t)"
      and s': "s' = s\<lparr>fd_sessions := (fd_sessions s)[i := ft_sess t], fd_slab := ft_slab t, fd_buf := buf, fd_w := ft_w t\<rparr>"
      using assms(1) recv False by (auto simp: ftpd_ready_def Let_def buf_def x_def split: if_splits option.splits)
    have fd: "fs_fd (ft_sess t) = fs_fd (fd_sessions s ! i)" "ft_slab t = fd_slab s"
      using proccess_kept [OF t] by (simp_all add: x_def)
    have "length buf = 256" using len assms(2) by (simp add: buf_def ftpd_ok_def)
    moreover have "connections ((fd_sessions s)[i := ft_sess t]) = connections (fd_sessions s)"
      using connections_update [of i "fd_sessions s" "ft_sess t"] fd assms(2,3) by (simp add: ftpd_ok_def split: if_splits)
    ultimately show ?thesis
      using assms(2,4) fd by (auto simp: s' ftpd_ok_def session_ok_def dest!: set_update_subset_insert [THEN subsetD])
  qed
qed

lemma clients_ok:
  assumes "\<And>fd n w. case px_recv (fe_px E) fd n w of (rc, bs, w') \<Rightarrow> length bs \<le> n \<and> rc \<le> int (length bs)"
  shows "ftpd_clients E r uptime is s = Some s' \<Longrightarrow> ftpd_ok s \<Longrightarrow> \<forall>i \<in> set is. i < FTP_MAX_CLIENTS \<Longrightarrow> ftpd_ok s'"
  by (induction "is" arbitrary: s) (auto split: if_splits simp: bind_eq_Some_conv dest!: ready_ok [OF _ _ _ _ assms])

text \<open>
  C29: in every run of the FTP server the pool has both blocks free between turns, so no command fails for want of a
  buffer; at most three of the four sessions are connected; and a session without a connection has no rights: it
  waits for a user name.
\<close>

theorem ftpd_sessions:
  assumes "ftpd_run E s" and "\<And>fd n w. case px_recv (fe_px E) fd n w of (rc, bs, w') \<Rightarrow> length bs \<le> n \<and> rc \<le> int (length bs)"
  shows "fd_slab s = FTP_BLOCKS \<and> length (fd_sessions s) = FTP_MAX_CLIENTS \<and>
    length (filter (\<lambda>x. fs_fd x \<noteq> 0) (fd_sessions s)) \<le> 3 \<and>
    (\<forall>x \<in> set (fd_sessions s). fs_fd x = 0 \<longrightarrow> fs_state x = State_user \<and> \<not> is_anonymous x)"
proof -
  have ok: "ftpd_ok s"
    using assms(1)
  proof (induction rule: ftpd_run.induct)
    case (ftpd_start w)
    then show ?case
      by (simp add: ftpd_ok_def ftpd_static_def session_ok_def zero_session_def connections_def FTP_MAX_CLIENTS_def)
  next
    case (ftpd_step s ev uptime s')
    then show ?case
      by (auto simp: ftpd_turn_def split: ftp_event.splits intro: expired_ok accept_ok clients_ok [OF assms(2)])
  qed
  have "filter (\<lambda>x. fs_fd x \<noteq> 0) (fd_sessions s) = filter (\<lambda>x. fs_fd x > 0) (fd_sessions s)"
    using ok by (intro filter_cong) (auto simp: ftpd_ok_def session_ok_def)
  then show ?thesis using ok by (auto simp: ftpd_ok_def session_ok_def connections_def)
qed

section \<open>Who may change files\<close>

text \<open>
  An environment whose calls that change files do something else.  A command that behaves the same in both calls
  none of them.
\<close>

definition other_writes :: "'w ftp_env \<Rightarrow> 'w posix \<Rightarrow> 'w ftp_env" where
  "other_writes E px = E\<lparr>fe_px := (fe_px E)\<lparr>px_mkdir := px_mkdir px, px_unlink := px_unlink px, px_write := px_write px,
     px_sync := px_sync px,
     px_open := (\<lambda>m. if m = Creat_trunc \<or> m = Creat_wronly then px_open px m else px_open (fe_px E) m)\<rparr>\<rparr>"

lemma other_fields [simp]:
  "px_send (fe_px (other_writes E px)) = px_send (fe_px E)" "px_close (fe_px (other_writes E px)) = px_close (fe_px E)"
  "px_read (fe_px (other_writes E px)) = px_read (fe_px E)" "px_list (fe_px (other_writes E px)) = px_list (fe_px E)"
  "px_stat (fe_px (other_writes E px)) = px_stat (fe_px E)" "px_accept (fe_px (other_writes E px)) = px_accept (fe_px E)"
  "px_socket (fe_px (other_writes E px)) = px_socket (fe_px E)" "px_bind (fe_px (other_writes E px)) = px_bind (fe_px E)"
  "px_sockname (fe_px (other_writes E px)) = px_sockname (fe_px E)" "px_listen (fe_px (other_writes E px)) = px_listen (fe_px E)"
  "px_sndtimeo (fe_px (other_writes E px)) = px_sndtimeo (fe_px E)" "px_connect (fe_px (other_writes E px)) = px_connect (fe_px E)"
  "px_seek_end (fe_px (other_writes E px)) = px_seek_end (fe_px E)" "px_seek_set (fe_px (other_writes E px)) = px_seek_set (fe_px E)"
  "px_open (fe_px (other_writes E px)) Rdonly = px_open (fe_px E) Rdonly"
  "fe_root (other_writes E px) = fe_root E" "fe_iface (other_writes E px) = fe_iface E" "fe_time (other_writes E px) = fe_time E"
  by (simp_all add: other_writes_def)

lemmas branch_cong = if_cong option.case_cong prod.case_cong sum.case_cong

lemma other_send [simp]: "send_to (other_writes E px) = send_to E" "close_fd (other_writes E px) = close_fd E"
  by (intro ext; simp add: send_to_def close_fd_def)+

lemma other_reply [simp]: "reply (other_writes E px) = reply E" "reply_buf (other_writes E px) = reply_buf E"
  by (intro ext; simp add: reply_def reply_buf_def cong: branch_cong)+

lemma other_basic [simp]:
  "close_pasv (other_writes E px) = close_pasv E"
  "pasv_accept (other_writes E px) = pasv_accept E" "list_opening (other_writes E px) = list_opening E"
  "cant_open (other_writes E px) = cant_open E" "not_regular (other_writes E px) = not_regular E"
  "port_connect (other_writes E px) = port_connect E" "pasv_open (other_writes E px) = pasv_open E"
  by (intro ext; simp add: close_pasv_def pasv_accept_def list_opening_def
      cant_open_def not_regular_def port_connect_def pasv_open_def Let_def cong: branch_cong)+

lemma other_ends [simp]: "retr_refuse (other_writes E px) = retr_refuse E" "transfer_end (other_writes E px) = transfer_end E"
  by (intro ext; simp add: retr_refuse_def transfer_end_def cong: branch_cong)+

lemma other_data_send [simp]: "ftp_data_send (other_writes E px) fd d w n = ftp_data_send E fd d w n"
proof (induction E fd d w n rule: ftp_data_send.induct)
  case (1 E fd d w n)
  then show ?case by (simp add: ftp_data_send.simps [of "other_writes E px"] ftp_data_send.simps [of E] split: prod.split)
qed

lemma other_list_entries [simp]: "list_entries (other_writes E px) dir fd names out w = list_entries E dir fd names out w"
  by (induction names arbitrary: out w) (simp_all split: prod.split option.split add: Let_def)

lemma other_nlist_entries [simp]: "nlist_entries (other_writes E px) fd names w = nlist_entries E fd names w"
  by (induction names arbitrary: w) simp_all

lemma retr_loop_le:
  assumes "retr_loop E fd sock w = Some y" and "px_read (fe_px E') = px_read (fe_px E)"
    and "\<And>d w n. ftp_data_send E' sock d w n = ftp_data_send E sock d w n"
  shows "retr_loop E' fd sock w = Some y"
proof -
  have "px_read (fe_px E') = px_read (fe_px E) \<longrightarrow> (\<forall>d w n. ftp_data_send E' sock d w n = ftp_data_send E sock d w n) \<longrightarrow>
      retr_loop E' fd sock w = Some y"
  proof (rule retr_loop.raw_induct [OF _ assms(1)], intro impI)
    fix loop E fd sock w y
    assume IH: "\<And>E fd sock w y. loop E fd sock w = Some y \<Longrightarrow> px_read (fe_px E') = px_read (fe_px E) \<longrightarrow>
        (\<forall>d w n. ftp_data_send E' sock d w n = ftp_data_send E sock d w n) \<longrightarrow> retr_loop E' fd sock w = Some y"
      and body: "(case px_read (fe_px E) fd 1024 w of (n, bs, w) \<Rightarrow> if n \<le> 0 then Some (0, w)
        else case ftp_data_send E sock (take (nat n) bs) w n of (r, w) \<Rightarrow>
          if r \<noteq> n then Some (- 1, w) else loop E fd sock w) = Some y"
      and same: "px_read (fe_px E') = px_read (fe_px E)" "\<forall>d w n. ftp_data_send E' sock d w n = ftp_data_send E sock d w n"
    have rest: "retr_loop E' fd sock w2 = Some y" if "loop E fd sock w2 = Some y" for w2 using IH [OF that] same by blast
    show "retr_loop E' fd sock w = Some y"
      using body same rest by (subst retr_loop.simps) (auto split: prod.splits if_splits)
  qed
  then show ?thesis using assms(2,3) by blast
qed

lemma other_retr_loop [simp]: "retr_loop (other_writes E px) fd sock w = retr_loop E fd sock w"
proof (cases "retr_loop E fd sock w")
  case None
  then show ?thesis using retr_loop_le [of "other_writes E px" fd sock w _ E] by (cases "retr_loop (other_writes E px) fd sock w") auto
next
  case (Some y)
  then show ?thesis using retr_loop_le [OF Some, of "other_writes E px"] by simp
qed

lemma other_command:
  assumes "is_anonymous (ft_sess s)"
  shows "ftp_session_cmd_process (other_writes E px) cmd param s = ftp_session_cmd_process E cmd param s"
proof -
  note defs = port_cmd_fn_def pasv_cmd_fn_def pwd_cmd_fn_def type_cmd_fn_def syst_cmd_fn_def quit_cmd_fn_def list_cmd_fn_def
    nlist_cmd_fn_def cwd_cmd_fn_def cdup_cmd_fn_def change_dir_def size_cmd_fn_def rest_cmd_fn_def retr_cmd_fn_def
    login_cmd_fn_def pass_cmd_fn_def
  have same: "port_cmd_fn (other_writes E px) = port_cmd_fn E" "pasv_cmd_fn (other_writes E px) = pasv_cmd_fn E"
    "pwd_cmd_fn (other_writes E px) = pwd_cmd_fn E" "type_cmd_fn (other_writes E px) = type_cmd_fn E"
    "syst_cmd_fn (other_writes E px) = syst_cmd_fn E" "quit_cmd_fn (other_writes E px) = quit_cmd_fn E"
    "list_cmd_fn (other_writes E px) = list_cmd_fn E" "nlist_cmd_fn (other_writes E px) = nlist_cmd_fn E"
    "cwd_cmd_fn (other_writes E px) = cwd_cmd_fn E" "cdup_cmd_fn (other_writes E px) = cdup_cmd_fn E"
    "size_cmd_fn (other_writes E px) = size_cmd_fn E" "rest_cmd_fn (other_writes E px) = rest_cmd_fn E"
    "retr_cmd_fn (other_writes E px) = retr_cmd_fn E" "login_cmd_fn (other_writes E px) = login_cmd_fn E"
    "pass_cmd_fn (other_writes E px) = pass_cmd_fn E"
    by (intro ext; simp add: defs Let_def cong: branch_cong)+
  have refused: "mkd_cmd_fn (other_writes E px) c p s = mkd_cmd_fn E c p s" "rmd_cmd_fn (other_writes E px) c p s = rmd_cmd_fn E c p s"
    "dele_cmd_fn (other_writes E px) c p s = dele_cmd_fn E c p s" "stor_cmd_fn (other_writes E px) c p s = stor_cmd_fn E c p s" for c p
    using assms by (simp_all add: mkd_cmd_fn_def rmd_cmd_fn_def dele_cmd_fn_def stor_cmd_fn_def path_action_def Let_def)
  show ?thesis
    unfolding ftp_session_cmd_process_def session_cmds_def same
    by (simp add: refused)
qed

lemma reply_anonymous: "ft_w (reply E msg (upd_sess (\<lambda>x. x\<lparr>is_anonymous := b\<rparr>) s)) = ft_w (reply E msg s)"
  by (simp add: reply_def send_to_def upd_sess_def)

definition full_rights :: "ftp_session \<Rightarrow> bool" where
  "full_rights x \<longleftrightarrow> fs_state x = State_ok \<and> \<not> is_anonymous x"


section \<open>Witnesses\<close>

text \<open>Calls that always fail or bring nothing.\<close>

definition idle_px :: "unit posix" where
  "idle_px = \<lparr>px_list = (\<lambda>p w. (None, w)), px_stat = (\<lambda>p w. (None, w)), px_mkdir = (\<lambda>p w. (- 1, w)),
     px_unlink = (\<lambda>p w. (- 1, w)), px_open = (\<lambda>m p w. (- 1, w)), px_seek_end = (\<lambda>f w. (- 1, w)), px_seek_set = (\<lambda>f i w. (- 1, w)),
     px_read = (\<lambda>f n w. (- 1, [], w)), px_write = (\<lambda>f d w. (- 1, w)), px_sync = (\<lambda>f w. w), px_close = (\<lambda>f w. w),
     px_socket = (\<lambda>w. (- 1, w)), px_bind = (\<lambda>f p w. (- 1, w)), px_sockname = (\<lambda>f w. (0, w)), px_listen = (\<lambda>f w. (- 1, w)),
     px_sndtimeo = (\<lambda>f w. (- 1, w)), px_connect = (\<lambda>f a p w. (- 1, w)), px_accept = (\<lambda>f w. (- 1, w)),
     px_send = (\<lambda>f d w. (int (length d), w)), px_select = (\<lambda>f t w. (0, w)), px_recv = (\<lambda>f n w. (0, [], w))\<rparr>"

definition idle_ftp :: "unit ftp_env" where
  "idle_ftp = \<lparr>fe_px = idle_px, fe_root = ''/lfs'', fe_iface = None, fe_time = (\<lambda>_. 0)\<rparr>"

theorem ftpd_sessions_witness:
  "\<exists>s. ftpd_turn idle_ftp (Connection 4) 1000 (ftpd_static ()) = Some s \<and> fs_fd (fd_sessions s ! 0) = 4 \<and>
     fd_slab s = FTP_BLOCKS \<and> (\<forall>x \<in> set (fd_sessions s). fs_fd x = 0 \<longrightarrow> fs_state x = State_user \<and> \<not> is_anonymous x)"
proof -
  obtain s where s: "ftpd_turn idle_ftp (Connection 4) 1000 (ftpd_static ()) = Some s" "fs_fd (fd_sessions s ! 0) = 4"
    by (simp add: ftpd_turn_def ftpd_accept_def ftpd_static_def FTP_MAX_CLIENTS_def zero_session_def eval_nat_numeral ftpd_send_def)
  have "ftpd_run idle_ftp s" by (rule ftpd_step [OF ftpd_start _ s(1)]) simp
  from ftpd_sessions [OF this] have "fd_slab s = FTP_BLOCKS \<and>
      (\<forall>x \<in> set (fd_sessions s). fs_fd x = 0 \<longrightarrow> fs_state x = State_user \<and> \<not> is_anonymous x)"
    by (simp add: idle_ftp_def idle_px_def)
  then show ?thesis using s by blast
qed

definition idle_session :: "ftp_state \<Rightarrow> bool \<Rightarrow> unit ftp" where
  "idle_session st a = \<lparr>ft_sess = ftp_session_reset\<lparr>fs_fd := 4, fs_state := st, is_anonymous := a\<rparr>, ft_slab = 2, ft_w = ()\<rparr>"


end
