(* ===== verification/Ftp_Transfer.thy ===== *)
theory Ftp_Transfer
  imports Ftp
begin

text \<open>
  What the FTP server's transfers carry, on files and sockets that behave as documented: a download sends the file
  from the session's offset, an upload stores what arrives; a listing of a small directory sends nothing.
\<close>

section \<open>Downloads\<close>

text \<open>
  \<open>rd w\<close> is what is left to read from the file, \<open>sent w\<close> what the data connection has carried.  Reading is in
  order, sending may take only a part.
\<close>

definition reads_file :: "'w posix \<Rightarrow> int \<Rightarrow> ('w \<Rightarrow> bytes) \<Rightarrow> ('w \<Rightarrow> bytes) \<Rightarrow> bool" where
  "reads_file px fd rd sent \<longleftrightarrow> (\<forall>n w. \<exists>w'. px_read px fd n w = (int (length (take n (rd w))), take n (rd w), w') \<and>
     rd w' = drop n (rd w) \<and> sent w' = sent w)"

definition sends_data :: "'w posix \<Rightarrow> int \<Rightarrow> ('w \<Rightarrow> bytes) \<Rightarrow> ('w \<Rightarrow> bytes) \<Rightarrow> bool" where
  "sends_data px sock rd sent \<longleftrightarrow> (\<forall>d w. d \<noteq> [] \<longrightarrow> (\<exists>k w'. px_send px sock d w = (int k, w') \<and> 0 < k \<and> k \<le> length d \<and>
     sent w' = sent w @ take k d \<and> rd w' = rd w))"

lemma data_send_all:
  assumes "sends_data (fe_px E) sock rd sent"
  shows "\<exists>w'. ftp_data_send E sock d w n = (n, w') \<and> sent w' = sent w @ d \<and> rd w' = rd w"
proof (induction "length d" arbitrary: d w rule: less_induct)
  case less
  show ?case
  proof (cases "d = []")
    case True
    then show ?thesis by (simp add: ftp_data_send.simps)
  next
    case False
    then have "take 256 d \<noteq> []" by simp
    then obtain k w1 where k: "px_send (fe_px E) sock (take 256 d) w = (int k, w1)" "0 < k" "k \<le> length (take 256 d)"
      "sent w1 = sent w @ take k (take 256 d)" "rd w1 = rd w"
      using assms unfolding sends_data_def by blast
    then have "length (drop k d) < length d" using False by simp
    from less [OF this, of w1] obtain w' where w': "ftp_data_send E sock (drop k d) w1 n = (n, w')"
      "sent w' = sent w1 @ drop k d" "rd w' = rd w1" by blast
    have "ftp_data_send E sock d w n = (n, w')" using False k w' by (subst ftp_data_send.simps) simp
    moreover have "take k (take 256 d) @ drop k d = d" using k(3) by (simp add: min.absorb1)
    ultimately show ?thesis using k w' by (metis append.assoc)
  qed
qed

lemma retr_loop_all:
  assumes "sends_data (fe_px E) sock rd sent" and "reads_file (fe_px E) fd rd sent"
  shows "\<exists>w'. retr_loop E fd sock w = Some (0, w') \<and> sent w' = sent w @ rd w"
proof (induction "length (rd w)" arbitrary: w rule: less_induct)
  case less
  obtain w1 where r: "px_read (fe_px E) fd 1024 w = (int (length (take 1024 (rd w))), take 1024 (rd w), w1)"
    "rd w1 = drop 1024 (rd w)" "sent w1 = sent w"
    using assms(2) unfolding reads_file_def by blast
  show ?case
  proof (cases "rd w = []")
    case True
    then show ?thesis using r by (subst retr_loop.simps) simp
  next
    case False
    obtain w2 where s: "ftp_data_send E sock (take 1024 (rd w)) w1 (int (length (take 1024 (rd w)))) = (int (length (take 1024 (rd w))), w2)"
      "sent w2 = sent w1 @ take 1024 (rd w)" "rd w2 = rd w1"
      using data_send_all [OF assms(1)] by blast
    have "length (rd w2) < length (rd w)" using False s r by simp
    from less [OF this] obtain w' where w': "retr_loop E fd sock w2 = Some (0, w')" "sent w' = sent w2 @ rd w2" by blast
    define c where "c = take 1024 (rd w)"
    have "c \<noteq> []" using False by (simp add: c_def)
    then have "retr_loop E fd sock w = Some (0, w')"
      using r(1) s(1) w'(1) unfolding c_def [symmetric] by (subst retr_loop.simps) simp
    then show ?thesis using w' s r by simp
  qed
qed

text \<open>The other calls of a download: opening, seeking, the control connection.\<close>

definition serves_file :: "'w posix \<Rightarrow> string \<Rightarrow> bytes \<Rightarrow> int \<Rightarrow> int \<Rightarrow> int \<Rightarrow> ('w \<Rightarrow> bytes) \<Rightarrow> ('w \<Rightarrow> bytes) \<Rightarrow> bool" where
  "serves_file px path content fd sock ctl rd sent \<longleftrightarrow>
     reads_file px fd rd sent \<and> sends_data px sock rd sent \<and> fd \<ge> 0 \<and>
     (\<forall>w. fst (px_open px Rdonly path w) = fd \<and> sent (snd (px_open px Rdonly path w)) = sent w) \<and>
     (\<forall>w. fst (px_seek_end px fd w) = int (length content) \<and> sent (snd (px_seek_end px fd w)) = sent w) \<and>
     (\<forall>i w. rd (snd (px_seek_set px fd i w)) = drop (nat i) content \<and> sent (snd (px_seek_set px fd i w)) = sent w) \<and>
     (\<forall>d w. rd (snd (px_send px ctl d w)) = rd w \<and> sent (snd (px_send px ctl d w)) = sent w) \<and>
     (\<forall>f w. sent (px_close px f w) = sent w)"

lemma close_pasv_world: "\<forall>f w. sent (px_close (fe_px E) f w) = sent w \<Longrightarrow> sent (ft_w (close_pasv E s)) = sent (ft_w s)"
  by (simp add: close_pasv_def Let_def upd_sess_def close_fd_def)


section \<open>Uploads\<close>

text \<open>
  \<open>inc w\<close> is what the data connection still brings before it falls silent, \<open>st w\<close> what the file holds.
\<close>

definition takes_upload :: "'w posix \<Rightarrow> string \<Rightarrow> int \<Rightarrow> int \<Rightarrow> int \<Rightarrow> ('w \<Rightarrow> bytes) \<Rightarrow> ('w \<Rightarrow> bytes) \<Rightarrow> bool" where
  "takes_upload px path fd sock ctl inc st \<longleftrightarrow>
     fd \<ge> 0 \<and>
     (\<forall>w. \<exists>w'. px_open px Creat_trunc path w = (fd, w') \<and> st w' = [] \<and> inc w' = inc w) \<and>
     (\<forall>t w. \<exists>r w'. px_select px sock t w = (r, w') \<and> (if inc w = [] then r = 0 else r > 0) \<and> inc w' = inc w \<and> st w' = st w) \<and>
     (\<forall>n w. n > 0 \<and> inc w \<noteq> [] \<longrightarrow> (\<exists>k w'. px_recv px sock n w = (int k, take k (inc w), w') \<and> 0 < k \<and> k \<le> n \<and>
        k \<le> length (inc w) \<and> inc w' = drop k (inc w) \<and> st w' = st w)) \<and>
     (\<forall>bs w. \<exists>w'. px_write px fd bs w = (int (length bs), w') \<and> st w' = st w @ bs \<and> inc w' = inc w) \<and>
     (\<forall>f w. inc (px_sync px f w) = inc w \<and> st (px_sync px f w) = st w) \<and>
     (\<forall>d w. inc (snd (px_send px ctl d w)) = inc w \<and> st (snd (px_send px ctl d w)) = st w) \<and>
     (\<forall>f w. st (px_close px f w) = st w)"

lemma upload_select:
  assumes "takes_upload px path fd sock ctl inc st"
  obtains r w' where "px_select px sock t w = (r, w')" and "if inc w = [] then r = 0 else r > 0" and "inc w' = inc w" and "st w' = st w"
  using assms unfolding takes_upload_def by blast

lemma upload_recv:
  assumes "takes_upload px path fd sock ctl inc st" and "n > 0" and "inc w \<noteq> []"
  obtains k w' where "px_recv px sock n w = (int k, take k (inc w), w')" and "0 < k" and "k \<le> n" and "k \<le> length (inc w)"
    and "inc w' = drop k (inc w)" and "st w' = st w"
  using assms unfolding takes_upload_def by blast

lemma upload_write:
  assumes "takes_upload px path fd sock ctl inc st"
  obtains w' where "px_write px fd bs w = (int (length bs), w')" and "st w' = st w @ bs" and "inc w' = inc w"
  using assms unfolding takes_upload_def by blast

lemma receive_all:
  assumes "takes_upload (fe_px E) path fd sock ctl inc st"
  shows "\<exists>w'. stor_receive E sock n got w = (int (length got + min n (length (inc w))), got @ take n (inc w), w') \<and>
    inc w' = drop n (inc w) \<and> st w' = st w"
proof (induction n arbitrary: got w rule: less_induct)
  case (less n)
  show ?case
  proof (cases "n = 0")
    case True
    then show ?thesis by (subst stor_receive.simps) simp
  next
    case False
    obtain r w1 where r: "px_select (fe_px E) sock 3000 w = (r, w1)" "if inc w = [] then r = 0 else r > 0" "inc w1 = inc w" "st w1 = st w"
      by (rule upload_select [OF assms])
    show ?thesis
    proof (cases "inc w = []")
      case True
      then show ?thesis using False r by (subst stor_receive.simps) simp
    next
      case nonempty: False
      then have "inc w1 \<noteq> []" using r(3) by simp
      then obtain k w2 where k: "px_recv (fe_px E) sock n w1 = (int k, take k (inc w1), w2)" "0 < k" "k \<le> n" "k \<le> length (inc w1)"
        "inc w2 = drop k (inc w1)" "st w2 = st w1"
        using upload_recv [OF assms, of n w1] False by blast
      then have "n - k < n" using False by simp
      from less.IH [OF this, of "got @ take k (inc w1)" w2] obtain w' where w':
        "stor_receive E sock (n - k) (got @ take k (inc w1)) w2 =
          (int (length (got @ take k (inc w1)) + min (n - k) (length (inc w2))), (got @ take k (inc w1)) @ take (n - k) (inc w2), w')"
        "inc w' = drop (n - k) (inc w2)" "st w' = st w2" by blast
      have "stor_receive E sock n got w = stor_receive E sock (n - k) (got @ take k (inc w1)) w2"
        using False nonempty r k by (subst stor_receive.simps) simp
      moreover have "take k (inc w) @ take (n - k) (drop k (inc w)) = take n (inc w)"
        using k(3) by (simp add: take_add [symmetric])
      ultimately show ?thesis using w' k r by (intro exI [of _ w']) (auto simp: min_def)
    qed
  qed
qed

lemma stor_loop_all:
  assumes "takes_upload (fe_px E) path fd sock ctl inc st" and "sock \<ge> 0"
  shows "\<exists>w'. stor_loop E fd sock w = Some (0, w') \<and> st w' = st w @ inc w"
proof (induction "length (inc w)" arbitrary: w rule: less_induct)
  case less
  obtain w1 where r: "stor_receive E sock 1024 [] w = (int (min 1024 (length (inc w))), take 1024 (inc w), w1)"
    "inc w1 = drop 1024 (inc w)" "st w1 = st w"
    using receive_all [OF assms(1), of 1024 "[]" w] by auto
  show ?case
  proof (cases "inc w = []")
    case True
    then show ?thesis using r assms(2) by (subst stor_loop.simps) (simp add: stor_cmd_receive_def)
  next
    case False
    define c where "c = take 1024 (inc w)"
    have c: "stor_cmd_receive E sock 1024 w = (int (length c), c, w1)" "c \<noteq> []"
      using r(1) assms(2) False by (simp_all add: stor_cmd_receive_def c_def min.commute)
    obtain w2 where w2: "px_write (fe_px E) fd c w1 = (int (length c), w2)" "st w2 = st w1 @ c" "inc w2 = inc w1"
      by (rule upload_write [OF assms(1)])
    define w3 where "w3 = px_sync (fe_px E) fd w2"
    have w3: "inc w3 = inc w2" "st w3 = st w2" using assms(1) by (simp_all add: w3_def takes_upload_def)
    have "length (inc w3) < length (inc w)" using w3 w2 r False by simp
    from less [OF this] obtain w' where w': "stor_loop E fd sock w3 = Some (0, w')" "st w' = st w3 @ inc w3" by blast
    have "stor_loop E fd sock w = Some (0, w')"
      using c w2 w'(1) by (subst stor_loop.simps) (simp add: w3_def)
    then show ?thesis using w' w3 w2 r by (simp add: c_def)
  qed
qed


section \<open>A file and a connection in two byte strings\<close>

definition pair_px :: "bytes \<Rightarrow> (bytes \<times> bytes) posix" where
  "pair_px content = \<lparr>
     px_list = (\<lambda>p w. (Some [], w)), px_stat = (\<lambda>p w. (None, w)), px_mkdir = (\<lambda>p w. (- 1, w)), px_unlink = (\<lambda>p w. (- 1, w)),
     px_open = (\<lambda>m p w. (3, if m = Creat_trunc then (fst w, []) else w)),
     px_seek_end = (\<lambda>f w. (int (length content), w)),
     px_seek_set = (\<lambda>f i w. (0, (drop (nat i) content, snd w))),
     px_read = (\<lambda>f n w. (int (length (take n (fst w))), take n (fst w), (drop n (fst w), snd w))),
     px_write = (\<lambda>f d w. (int (length d), (fst w, snd w @ d))),
     px_sync = (\<lambda>f w. w), px_close = (\<lambda>f w. w),
     px_socket = (\<lambda>w. (5, w)), px_bind = (\<lambda>f p w. (0, w)), px_sockname = (\<lambda>f w. (0, w)), px_listen = (\<lambda>f w. (0, w)),
     px_sndtimeo = (\<lambda>f w. (0, w)), px_connect = (\<lambda>f a p w. (0, w)), px_accept = (\<lambda>f w. (5, w)),
     px_send = (\<lambda>f d w. (int (length d), if f = 5 then (fst w, snd w @ d) else w)),
     px_select = (\<lambda>f t w. (if fst w = [] then 0 else 1, w)),
     px_recv = (\<lambda>f n w. let k = min 2 (min n (length (fst w))) in (int k, take k (fst w), (drop k (fst w), snd w)))\<rparr>"

definition pair_ftp :: "bytes \<Rightarrow> (bytes \<times> bytes) ftp_env" where
  "pair_ftp content = \<lparr>fe_px = pair_px content, fe_root = ''/lfs'', fe_iface = None, fe_time = (\<lambda>_. 0)\<rparr>"

definition pair_session :: "bytes \<times> bytes \<Rightarrow> int \<Rightarrow> (bytes \<times> bytes) ftp" where
  "pair_session w off = \<lparr>ft_sess = ftp_session_reset\<lparr>fs_fd := 4, port_pasv_fd := 5, fs_state := State_ok, currentdir := ''/lfs'',
     fs_offset := off\<rparr>, ft_slab = 2, ft_w = w\<rparr>"

lemma pair_serves: "serves_file (pair_px content) path content 3 5 4 fst snd"
proof -
  have "\<exists>k w'. px_send (pair_px content) 5 d w = (int k, w') \<and> 0 < k \<and> k \<le> length d \<and> snd w' = snd w @ take k d \<and> fst w' = fst w"
    if "d \<noteq> []" for d w
    using that by (intro exI [of _ "length d"] exI [of _ "(fst w, snd w @ d)"]) (simp add: pair_px_def)
  then show ?thesis by (auto simp: serves_file_def reads_file_def sends_data_def) (simp_all add: pair_px_def)
qed

lemma pair_upload: "takes_upload (pair_px content) path 3 5 4 fst snd"
proof -
  have rcv: "\<exists>k w'. px_recv (pair_px content) 5 n w = (int k, take k (fst w), w') \<and> 0 < k \<and> k \<le> n \<and> k \<le> length (fst w) \<and>
      fst w' = drop k (fst w) \<and> snd w' = snd w" if "n > 0 \<and> fst w \<noteq> []" for n w
    using that by (intro exI [of _ "min 2 (min n (length (fst w)))"] exI [of _ "(drop (min 2 (min n (length (fst w)))) (fst w), snd w)"])
      (auto simp: pair_px_def Let_def min_def)
  have sel: "\<exists>r w'. px_select (pair_px content) 5 t w = (r, w') \<and> (if fst w = [] then r = 0 else r > 0) \<and> fst w' = fst w \<and> snd w' = snd w"
    for t w by (simp add: pair_px_def)
  show ?thesis
    unfolding takes_upload_def by (intro conjI allI impI rcv sel) (simp_all add: pair_px_def)
qed

lemma pair_path: "param_path (Some (''a'' @ [NUL])) (pair_session w off) = Some (0, ''/lfs/a'')"
proof -
  have "build_full_path ''/lfs'' ''a'' = Some (0, ''/lfs/a'')" by code_simp
  then show ?thesis by (simp add: param_path_def pair_session_def cstr_def)
qed



section \<open>Where the server does not do what it means to\<close>

text \<open>
  What is left in the block when the directory ends is not sent: a directory whose lines fit 768 bytes is listed as
  empty, and the block is given back.
\<close>

lemma small_listing_lost:
  assumes "\<forall>name \<in> set names. \<forall>w. px_stat (fe_px E) (take 255 (dir @ ''/'' @ name)) w = (Some (st name), w)"
    and "\<forall>w. fe_time E w = now" and "\<forall>name \<in> set names. length (list_statbuf_get name (st name) now) < 256"
    and "length out + sum_list (map (\<lambda>name. length (list_statbuf_get name (st name) now)) names) \<le> 768"
  shows "list_entries E dir fd names out w = Some (out @ char_bytes (concat (map (\<lambda>name. list_statbuf_get name (st name) now) names)), w)"
  using assms(1,3,4)
proof (induction names arbitrary: out)
  case (Cons name names)
  have "length (list_statbuf_get name (st name) now) \<noteq> 256" "\<not> length (list_statbuf_get name (st name) now) > 256"
    using Cons.prems(2) by auto
  moreover have "\<not> length out + length (list_statbuf_get name (st name) now) > 768" using Cons.prems(3) by simp
  ultimately show ?case using Cons assms(2) by (simp add: Let_def char_bytes_def)
qed (simp add: char_bytes_def)

text \<open>The result of QUIT, or of a wrong password, is not used: the connection stays.\<close>

lemma quit_ignored:
  assumes "fs_state (ft_sess s) = State_ok"
  shows "ftp_proccess E (''QUIT'' @ [NUL]) s = Some (0, reply E ''221 Bye!'' s)"
proof -
  have "split_command (''QUIT'' @ [NUL]) = (''QUIT'', None)" by code_simp
  then show ?thesis using assms by (simp add: ftp_proccess_def ftp_session_cmd_process_def session_cmds_def starts_def quit_cmd_fn_def)
qed

text \<open>An anonymous user who logs in first starts in no directory; one who was logged in starts in the root.\<close>

lemma anonymous_nowhere:
  assumes "fs_state (ft_sess s) = State_user"
  shows "\<exists>s'. ftp_proccess E (''USER anonymous'' @ [NUL]) s = Some (0, s') \<and> fs_state (ft_sess s') = State_ok \<and>
    currentdir (ft_sess s') = currentdir (ft_sess s)"
proof -
  have "split_command (''USER anonymous'' @ [NUL]) = (''USER'', Some (''anonymous'' @ [NUL]))" by code_simp
  then show ?thesis using assms by (simp add: ftp_proccess_def starts_def cstr_def reply_def send_to_def upd_sess_def)
qed

text \<open>A failed CWD leaves the session in the directory that does not exist.\<close>

lemma cwd_keeps_failed:
  assumes "build_full_path (currentdir (ft_sess s)) (cstr p) = Some (0, dir)" and "px_list (fe_px E) dir (ft_w s) = (None, w)"
  shows "\<exists>ret s'. cwd_cmd_fn E cmd (Some p) s = Some (ret, s') \<and> currentdir (ft_sess s') = dir"
  using assms
  by (auto simp: cwd_cmd_fn_def change_dir_def upd_sess_def cant_open_def reply_buf_def ftp_buf_alloc_def ftp_buf_free_def send_to_def Let_def
      split: option.splits)

text \<open>A directory of 255 characters makes strcat write behind its buffer; a path to nothing reads in front of it.\<close>

lemma full_path_overflow: "length dir = 255 \<Longrightarrow> take 1 path \<noteq> ''/'' \<Longrightarrow> build_full_path dir path = None"
  by (simp add: build_full_path_def)

lemma root_parent_underflow: "build_full_path dir ''/..'' = None"
proof -
  have "ftp_normalize_path (''/..'' @ [NUL]) = None" by code_simp
  then show ?thesis by (simp add: build_full_path_def)
qed

text \<open>A command without its parameter reads through a null pointer.\<close>

lemma missing_parameter: "fs_state (ft_sess s) = State_user \<Longrightarrow> ftp_proccess E (''USER'' @ [NUL]) s = None"
proof -
  have "split_command (''USER'' @ [NUL]) = (''USER'', None)" by code_simp
  then show "fs_state (ft_sess s) = State_user \<Longrightarrow> ftp_proccess E (''USER'' @ [NUL]) s = None" by (simp add: ftp_proccess_def starts_def)
qed

text \<open>A silent session is released only when select fails; a timeout of select changes nothing.\<close>

lemma idle_kept: "ftpd_turn E Select_timeout uptime s = Some s" by (simp add: ftpd_turn_def)

end
