(* ===== verification/Flash_Fs.thy ===== *)
theory Flash_Fs
  imports Prelude
begin

text \<open>
  A flash device kept in a file, \<open>drivers/flash/flashfs.c\<close>: reading and writing through the file, the semaphore
  around them, the page layout.  The file system is a parameter; \<open>'w\<close> is everything behind its calls.  off_t and
  size_t are 32 bits wide.
\<close>

section \<open>The driver\<close>

record 'w fs_file_api =
  fa_open :: "'w \<Rightarrow> int \<times> 'w"
  fa_seek :: "int \<Rightarrow> 'w \<Rightarrow> int \<times> 'w"
  fa_read :: "nat \<Rightarrow> 'w \<Rightarrow> int \<times> bytes \<times> 'w"
  fa_write :: "bytes \<Rightarrow> 'w \<Rightarrow> int \<times> 'w"
  fa_close :: "'w \<Rightarrow> 'w"

definition FS_EIO :: int where "FS_EIO = 5"
definition K_SEM_MAX_LIMIT :: nat where "K_SEM_MAX_LIMIT = 4294967295"

record flash_pages_layout =
  pages_count :: nat
  pages_size :: nat

record 'w flashfs_config =
  flash_size :: u32
  ff_sem :: nat
  ff_open :: bool
  ff_layout :: flash_pages_layout
  ff_w :: 'w

record flash_parameters =
  write_block_size :: nat
  erase_value :: u8

definition flash_fs_parameters :: flash_parameters where
  "flash_fs_parameters = \<lparr>write_block_size = 1, erase_value = 0xFF\<rparr>"

definition read_write_init :: "'w fs_file_api \<Rightarrow> 'w flashfs_config \<Rightarrow> int \<times> 'w flashfs_config" where
  "read_write_init F s =
     (if \<not> ff_open s then
        case fa_open F (ff_w s) of (ret, w) \<Rightarrow>
          if ret \<noteq> 0 then (ret, s\<lparr>ff_w := w\<rparr>) else (0, s\<lparr>ff_open := True, ff_w := w\<rparr>)
      else (0, s))"

text \<open>k_sem_take waits for ever when the count is zero: \<open>None\<close>.\<close>

definition acquire_device :: "'w flashfs_config \<Rightarrow> 'w flashfs_config option" where
  "acquire_device s = (if ff_sem s > 0 then Some (s\<lparr>ff_sem := ff_sem s - 1\<rparr>) else None)"

definition release_device :: "'w flashfs_config \<Rightarrow> 'w flashfs_config" where
  "release_device s = s\<lparr>ff_sem := min (ff_sem s + 1) K_SEM_MAX_LIMIT\<rparr>"

text \<open>
  The loops run until \<open>len_left\<close> is zero.  A file system that answers more than was asked for breaks the reader's
  assertion, and makes the writer leave its buffer: \<open>None\<close>.
\<close>

function read_loop :: "'w fs_file_api \<Rightarrow> nat \<Rightarrow> bytes \<Rightarrow> 'w \<Rightarrow> (int \<times> bytes \<times> 'w) option" where
  "read_loop F len_left got w =
     (if len_left = 0 then Some (0, got, w)
      else case fa_read F len_left w of (ret, bs, w) \<Rightarrow>
        if ret \<le> 0 then Some (- FS_EIO, got, w)
        else if ret > int len_left then None
        else read_loop F (len_left - nat ret) (got @ take (nat ret) bs) w)"
  by pat_completeness auto
termination by (relation "measure (\<lambda>(F, n, got, w). n)") auto

function write_loop :: "'w fs_file_api \<Rightarrow> bytes \<Rightarrow> 'w \<Rightarrow> (int \<times> 'w) option" where
  "write_loop F src w =
     (if src = [] then Some (0, w)
      else case fa_write F src w of (ret, w) \<Rightarrow>
        if ret < 0 then Some (ret, w)
        else if ret = 0 then Some (- FS_EIO, w)
        else if ret > int (length src) then None
        else write_loop F (drop (nat ret) src) w)"
  by pat_completeness auto
termination by (relation "measure (\<lambda>(F, src, w). length src)") auto

declare read_loop.simps [simp del] write_loop.simps [simp del]

definition flash_fs_read :: "'w fs_file_api \<Rightarrow> u32 \<Rightarrow> u32 \<Rightarrow> 'w flashfs_config \<Rightarrow> (int \<times> bytes \<times> 'w flashfs_config) option" where
  "flash_fs_read F addr len s =
     (if addr + len > flash_size s then Some (- FS_EIO, [], release_device s)
      else case acquire_device s of
             None \<Rightarrow> None
           | Some s \<Rightarrow>
               (case read_write_init F s of (err, s) \<Rightarrow>
                  if err \<noteq> 0 then Some (- FS_EIO, [], release_device s)
                  else case fa_seek F (sint addr) (ff_w s) of (ret, w) \<Rightarrow>
                    if ret \<noteq> 0 then Some (ret, [], release_device (s\<lparr>ff_w := w\<rparr>))
                    else map_option (\<lambda>(ret, bs, w). (ret, bs, release_device (s\<lparr>ff_w := w\<rparr>))) (read_loop F (unat len) [] w)))"

definition flash_fs_write :: "'w fs_file_api \<Rightarrow> u32 \<Rightarrow> bytes \<Rightarrow> 'w flashfs_config \<Rightarrow> (int \<times> 'w flashfs_config) option" where
  "flash_fs_write F addr src s =
     (if addr + of_nat (length src) > flash_size s then Some (- FS_EIO, release_device s)
      else case acquire_device s of
             None \<Rightarrow> None
           | Some s \<Rightarrow>
               (case read_write_init F s of (err, s) \<Rightarrow>
                  if err \<noteq> 0 then Some (- FS_EIO, release_device s)
                  else case fa_seek F (sint addr) (ff_w s) of (ret, w) \<Rightarrow>
                    if ret \<noteq> 0 then Some (ret, release_device (s\<lparr>ff_w := w\<rparr>))
                    else map_option (\<lambda>(ret, w). (ret, release_device (s\<lparr>ff_w := w\<rparr>))) (write_loop F src w)))"

definition flash_fs_erase :: "u32 \<Rightarrow> u32 \<Rightarrow> 'w flashfs_config \<Rightarrow> int \<times> 'w flashfs_config" where
  "flash_fs_erase addr len s = (0, s)"

definition flash_fs_init :: "'w fs_file_api \<Rightarrow> 'w flashfs_config \<Rightarrow> int \<times> 'w flashfs_config" where
  "flash_fs_init F s =
     (case fa_open F (ff_w s) of (ret, w) \<Rightarrow>
        (ret, s\<lparr>ff_sem := 1, ff_w := (if ret \<noteq> 0 then w else fa_close F w)\<rparr>))"

definition flash_fs_pages_layout :: "'w flashfs_config \<Rightarrow> flash_pages_layout list" where
  "flash_fs_pages_layout s = [ff_layout s]"

definition flash_fs_get_parameters :: "'w flashfs_config \<Rightarrow> flash_parameters" where
  "flash_fs_get_parameters s = flash_fs_parameters"

definition flash_fs_get_size :: "'w flashfs_config \<Rightarrow> int \<times> u64" where
  "flash_fs_get_size s = (0, ucast (flash_size s))"

text \<open>The static data: the second value for \<open>pages_count\<close> overrides the first, and \<open>pages_size\<close> has none.\<close>

definition GENERATE_CONFIG_STRUCT :: "nat \<Rightarrow> nat \<Rightarrow> 'w \<Rightarrow> 'w flashfs_config" where
  "GENERATE_CONFIG_STRUCT sz page_size w =
     \<lparr>flash_size = of_nat sz, ff_sem = 0, ff_open = False,
      ff_layout = \<lparr>pages_count = page_size, pages_size = 0\<rparr>, ff_w = w\<rparr>"

end
