(* ===== verification/Flash_Fs_Props.thy ===== *)
theory Flash_Fs_Props
  imports Flash_Fs
begin

text \<open>
  The flash on a file is a byte array: what a file system promises, the driver's loops under it, and a refinement of
  an abstract array for any sequence of reads and writes; and what the driver does to its semaphore.
\<close>

section \<open>What the driver relies on\<close>

text \<open>
  A file that is open, of \<open>content w\<close> and position \<open>pos w\<close>: seeking inside works; reading and writing inside take at
  least one byte, at most what was asked for, and advance the position.
\<close>

definition backs :: "'w fs_file_api \<Rightarrow> ('w \<Rightarrow> bytes) \<Rightarrow> ('w \<Rightarrow> nat) \<Rightarrow> bool" where
  "backs F content pos \<longleftrightarrow>
     (\<forall>w. fst (fa_open F w) = 0 \<and> content (snd (fa_open F w)) = content w) \<and>
     (\<forall>w i. 0 \<le> i \<and> i \<le> int (length (content w)) \<longrightarrow>
        (\<exists>w'. fa_seek F i w = (0, w') \<and> content w' = content w \<and> pos w' = nat i)) \<and>
     (\<forall>w n. 0 < n \<and> pos w + n \<le> length (content w) \<longrightarrow>
        (\<exists>r bs w'. fa_read F n w = (int r, bs, w') \<and> 0 < r \<and> r \<le> n \<and>
           take r bs = take r (drop (pos w) (content w)) \<and> content w' = content w \<and> pos w' = pos w + r)) \<and>
     (\<forall>w src. src \<noteq> [] \<and> pos w + length src \<le> length (content w) \<longrightarrow>
        (\<exists>r w'. fa_write F src w = (int r, w') \<and> 0 < r \<and> r \<le> length src \<and>
           content w' = mem_put (pos w) (take r src) (content w) \<and> pos w' = pos w + r))"

lemma backsD:
  assumes "backs F content pos"
  shows "fa_open F w = (r, w') \<Longrightarrow> r = 0 \<and> content w' = content w"
    and "0 \<le> i \<Longrightarrow> i \<le> int (length (content w)) \<Longrightarrow>
      \<exists>w'. fa_seek F i w = (0, w') \<and> content w' = content w \<and> pos w' = nat i"
    and "0 < n \<Longrightarrow> pos w + n \<le> length (content w) \<Longrightarrow>
      \<exists>r bs w'. fa_read F n w = (int r, bs, w') \<and> 0 < r \<and> r \<le> n \<and>
        take r bs = take r (drop (pos w) (content w)) \<and> content w' = content w \<and> pos w' = pos w + r"
    and "src \<noteq> [] \<Longrightarrow> pos w + length src \<le> length (content w) \<Longrightarrow>
      \<exists>r w'. fa_write F src w = (int r, w') \<and> 0 < r \<and> r \<le> length src \<and>
        content w' = mem_put (pos w) (take r src) (content w) \<and> pos w' = pos w + r"
proof -
  note laws = assms [unfolded backs_def]
  show "r = 0 \<and> content w' = content w" if "fa_open F w = (r, w')" using laws that by (metis fst_conv snd_conv)
  show "\<exists>w'. fa_seek F i w = (0, w') \<and> content w' = content w \<and> pos w' = nat i"
    if "0 \<le> i" "i \<le> int (length (content w))" using laws that by blast
  show "\<exists>r bs w'. fa_read F n w = (int r, bs, w') \<and> 0 < r \<and> r \<le> n \<and>
        take r bs = take r (drop (pos w) (content w)) \<and> content w' = content w \<and> pos w' = pos w + r"
    if "0 < n" "pos w + n \<le> length (content w)" using laws that by blast
  show "\<exists>r w'. fa_write F src w = (int r, w') \<and> 0 < r \<and> r \<le> length src \<and>
        content w' = mem_put (pos w) (take r src) (content w) \<and> pos w' = pos w + r"
    if "src \<noteq> []" "pos w + length src \<le> length (content w)" using laws that by blast
qed

lemma read_loop_all:
  assumes "backs F content pos"
  shows "pos w + n \<le> length (content w) \<Longrightarrow>
    \<exists>w'. read_loop F n got w = Some (0, got @ take n (drop (pos w) (content w)), w') \<and> content w' = content w"
proof (induction n arbitrary: got w rule: less_induct)
  case (less n)
  show ?case
  proof (cases "n = 0")
    case True
    then show ?thesis by (simp add: read_loop.simps)
  next
    case False
    then obtain r bs w' where r: "fa_read F n w = (int r, bs, w')" "0 < r" "r \<le> n"
        "take r bs = take r (drop (pos w) (content w))" "content w' = content w" "pos w' = pos w + r"
      using backsD(3) [OF assms, of n w] less.prems by auto
    have "n - r < n" "pos w' + (n - r) \<le> length (content w')" using r less.prems by simp_all
    then obtain w'' where "content w'' = content w"
        "read_loop F (n - r) (got @ take r bs) w' = Some (0, (got @ take r bs) @ take (n - r) (drop (pos w') (content w')), w'')"
      using less.IH [of "n - r" w' "got @ take r bs"] r by auto
    moreover have "take r bs @ take (n - r) (drop (pos w') (content w')) = take n (drop (pos w) (content w))"
      using r take_add [of r "n - r" "drop (pos w) (content w)"] by (simp add: add.commute)
    ultimately have "read_loop F (n - r) (got @ take r bs) w' = Some (0, got @ take n (drop (pos w) (content w)), w'')" by simp
    note this \<open>content w'' = content w\<close>
    then show ?thesis using r False by (simp add: read_loop.simps [of F n])
  qed
qed

lemma write_loop_all:
  assumes "backs F content pos"
  shows "pos w + length src \<le> length (content w) \<Longrightarrow>
    \<exists>w'. write_loop F src w = Some (0, w') \<and> content w' = mem_put (pos w) src (content w)"
proof (induction src arbitrary: w rule: length_induct)
  case (1 src)
  show ?case
  proof (cases "src = []")
    case True
    then show ?thesis by (simp add: write_loop.simps)
  next
    case False
    then obtain r w' where r: "fa_write F src w = (int r, w')" "0 < r" "r \<le> length src"
        "content w' = mem_put (pos w) (take r src) (content w)" "pos w' = pos w + r"
      using backsD(4) [OF assms, of src w] 1(2) by auto
    have "length (drop r src) < length src" "pos w' + length (drop r src) \<le> length (content w')"
      using r 1(2) False by simp_all
    then obtain w'' where "write_loop F (drop r src) w' = Some (0, w'')" "content w'' = mem_put (pos w') (drop r src) (content w')"
      using 1(1) by blast
    moreover have "mem_put (pos w') (drop r src) (content w') = mem_put (pos w) src (content w)"
      using r 1(2) mem_put_twice [of "pos w" "take r src" "content w" "drop r src"] by (simp add: min_absorb2)
    ultimately show ?thesis using r False by (simp add: write_loop.simps [of F src])
  qed
qed

section \<open>A byte array\<close>

datatype flash_op = Flash_read u32 u32 | Flash_write u32 bytes

fun flash_step :: "'w fs_file_api \<Rightarrow> flash_op \<Rightarrow> 'w flashfs_config \<Rightarrow> (int \<times> bytes \<times> 'w flashfs_config) option" where
  "flash_step F (Flash_read addr len) s = flash_fs_read F addr len s"
| "flash_step F (Flash_write addr src) s = map_option (\<lambda>(ret, s). (ret, [], s)) (flash_fs_write F addr src s)"

fun flash_run :: "'w fs_file_api \<Rightarrow> flash_op list \<Rightarrow> 'w flashfs_config \<Rightarrow> ((int \<times> bytes) list \<times> 'w flashfs_config) option" where
  "flash_run F [] s = Some ([], s)"
| "flash_run F (x # xs) s =
     (case flash_step F x s of
        None \<Rightarrow> None
      | Some (ret, bs, s) \<Rightarrow> map_option (\<lambda>(rs, s). ((ret, bs) # rs, s)) (flash_run F xs s))"

text \<open>The array: an operation outside it is refused and changes nothing.\<close>

fun array_step :: "flash_op \<Rightarrow> bytes \<Rightarrow> (int \<times> bytes) \<times> bytes" where
  "array_step (Flash_read addr len) c =
     (if unat addr + unat len > length c then ((- FS_EIO, []), c) else ((0, take (unat len) (drop (unat addr) c)), c))"
| "array_step (Flash_write addr src) c =
     (if unat addr + length src > length c then ((- FS_EIO, []), c) else ((0, []), mem_put (unat addr) src c))"

fun array_run :: "flash_op list \<Rightarrow> bytes \<Rightarrow> (int \<times> bytes) list \<times> bytes" where
  "array_run [] c = ([], c)"
| "array_run (x # xs) c = (case array_step x c of (r, c) \<Rightarrow> case array_run xs c of (rs, c) \<Rightarrow> (r # rs, c))"

text \<open>The code adds address and size in 32 bits; an operation whose end does not fit is outside the claim.\<close>

fun op_fits :: "flash_op \<Rightarrow> bool" where
  "op_fits (Flash_read addr len) \<longleftrightarrow> unat addr + unat len < 2 ^ 32"
| "op_fits (Flash_write addr src) \<longleftrightarrow> unat addr + length src < 2 ^ 32"

definition flash_ok :: "('w \<Rightarrow> bytes) \<Rightarrow> 'w flashfs_config \<Rightarrow> bool" where
  "flash_ok content s \<longleftrightarrow> length (content (ff_w s)) = unat (flash_size s) \<and> unat (flash_size s) \<le> 2 ^ 31 - 1 \<and> ff_sem s > 0"

lemma unat_add_fits: "unat (a :: u32) + unat b < 2 ^ 32 \<Longrightarrow> unat (a + b) = unat a + unat b"
  by (simp add: unat_word_ariths)

lemma in_range: "unat (a :: u32) + unat b < 2 ^ 32 \<Longrightarrow> a + b > sz \<longleftrightarrow> unat a + unat b > unat sz"
  by (simp add: word_less_nat_alt unat_add_fits)

lemma sint_small:
  fixes a :: u32
  assumes "unat a \<le> 2 ^ 31 - 1"
  shows "sint a = int (unat a)"
proof -
  have "int (unat a) \<le> int (2 ^ 31 - 1)" using assms by (simp only: of_nat_le_iff)
  then have "uint a < 2 ^ 31" by simp
  then show ?thesis by (simp add: sint_uint signed_take_bit_int_eq_self_iff order.trans [OF _ uint_ge_0])
qed

lemma seek_inside:
  assumes "backs F content pos" and "unat (addr :: u32) \<le> length (content w)" and "unat addr \<le> 2 ^ 31 - 1"
  obtains w' where "fa_seek F (sint addr) w = (0, w')" "content w' = content w" "pos w' = unat addr"
  using backsD(2) [OF assms(1), of "int (unat addr)" w] assms(2) sint_small [OF assms(3)] by (metis nat_int of_nat_0_le_iff of_nat_le_iff)

lemma sem_given: "0 < K_SEM_MAX_LIMIT" by (simp add: K_SEM_MAX_LIMIT_def)

lemma flash_release_ok: "flash_ok content s \<Longrightarrow> flash_ok content (release_device s)"
  by (simp add: flash_ok_def release_device_def K_SEM_MAX_LIMIT_def)

lemma opened:
  assumes "backs F content pos" and "flash_ok content s"
  obtains s1 where "acquire_device s = Some (s\<lparr>ff_sem := ff_sem s - 1\<rparr>)" "read_write_init F (s\<lparr>ff_sem := ff_sem s - 1\<rparr>) = (0, s1)"
    "content (ff_w s1) = content (ff_w s)" "flash_size s1 = flash_size s" "ff_sem s1 = ff_sem s - 1"
proof -
  obtain r w where o: "fa_open F (ff_w s) = (r, w)" by (cases "fa_open F (ff_w s)")
  with backsD(1) [OF assms(1) this] assms(2) show thesis
    by (intro that [of "if ff_open s then s\<lparr>ff_sem := ff_sem s - 1\<rparr> else s\<lparr>ff_sem := ff_sem s - 1, ff_open := True, ff_w := w\<rparr>"])
      (auto simp: acquire_device_def read_write_init_def flash_ok_def)
qed

lemma read_refines:
  assumes "backs F content pos" and "flash_ok content s" and "unat addr + unat len < 2 ^ 32"
  shows "\<exists>s'. flash_fs_read F addr len s = Some (fst (fst (array_step (Flash_read addr len) (content (ff_w s)))),
      snd (fst (array_step (Flash_read addr len) (content (ff_w s)))), s') \<and>
    content (ff_w s') = content (ff_w s) \<and> flash_ok content s'"
proof (cases "unat addr + unat len > unat (flash_size s)")
  case True
  then show ?thesis using assms flash_release_ok [OF assms(2)]
    by (simp add: flash_fs_read_def in_range flash_ok_def) (simp add: release_device_def sem_given)
next
  case False
  have sz: "length (content (ff_w s)) = unat (flash_size s)" using assms(2) by (simp add: flash_ok_def)
  obtain s1 where s1: "acquire_device s = Some (s\<lparr>ff_sem := ff_sem s - 1\<rparr>)" "read_write_init F (s\<lparr>ff_sem := ff_sem s - 1\<rparr>) = (0, s1)"
      "content (ff_w s1) = content (ff_w s)" "flash_size s1 = flash_size s" "ff_sem s1 = ff_sem s - 1"
    by (rule opened [OF assms(1,2)])
  have small: "unat addr \<le> 2 ^ 31 - 1" using False assms(2) by (simp add: flash_ok_def)
  then obtain w where w: "fa_seek F (sint addr) (ff_w s1) = (0, w)" "content w = content (ff_w s)" "pos w = unat addr"
    using seek_inside [OF assms(1), of addr "ff_w s1"] s1 sz False by (metis add_leD1 not_less)
  then obtain w' where "read_loop F (unat len) [] w = Some (0, take (unat len) (drop (unat addr) (content (ff_w s))), w')"
      "content w' = content (ff_w s)"
    using read_loop_all [OF assms(1), of w "unat len" "[]"] False sz by auto
  then show ?thesis using s1 w False sz assms(2,3)
    by (simp add: flash_fs_read_def in_range flash_ok_def release_device_def sem_given)
qed

lemma write_refines:
  assumes "backs F content pos" and "flash_ok content s" and "unat addr + length src < 2 ^ 32"
  shows "\<exists>s'. flash_fs_write F addr src s = Some (fst (fst (array_step (Flash_write addr src) (content (ff_w s)))), s') \<and>
    content (ff_w s') = snd (array_step (Flash_write addr src) (content (ff_w s))) \<and> flash_ok content s'"
proof -
  have len: "unat (of_nat (length src) :: u32) = length src"
    using assms(3) by (simp add: unat_of_nat)
  then have fits: "unat addr + unat (of_nat (length src) :: u32) < 2 ^ 32" using assms(3) by simp
  have sz: "length (content (ff_w s)) = unat (flash_size s)" using assms(2) by (simp add: flash_ok_def)
  show ?thesis
  proof (cases "unat addr + length src > unat (flash_size s)")
    case True
    then show ?thesis using assms flash_release_ok [OF assms(2)] sz
      by (simp add: flash_fs_write_def in_range [OF fits] len) (simp add: release_device_def sem_given)
  next
    case False
    obtain s1 where s1: "acquire_device s = Some (s\<lparr>ff_sem := ff_sem s - 1\<rparr>)" "read_write_init F (s\<lparr>ff_sem := ff_sem s - 1\<rparr>) = (0, s1)"
        "content (ff_w s1) = content (ff_w s)" "flash_size s1 = flash_size s" "ff_sem s1 = ff_sem s - 1"
      by (rule opened [OF assms(1,2)])
    have small: "unat addr \<le> 2 ^ 31 - 1" using False assms(2) by (simp add: flash_ok_def)
    then obtain w where w: "fa_seek F (sint addr) (ff_w s1) = (0, w)" "content w = content (ff_w s)" "pos w = unat addr"
      using seek_inside [OF assms(1), of addr "ff_w s1"] s1 sz False by (metis add_leD1 not_less)
    then obtain w' where "write_loop F src w = Some (0, w')" "content w' = mem_put (unat addr) src (content (ff_w s))"
      using write_loop_all [OF assms(1), of w src] False sz by auto
    then show ?thesis using s1 w False sz assms(2)
      by (simp add: flash_fs_write_def in_range [OF fits] len flash_ok_def release_device_def sem_given)
  qed
qed

text \<open>
  C33: the flash on a file is a byte array: any sequence of reads and writes of one thread answers what the same
  sequence on an array of the file's bytes answers, errors included, and leaves the file as the array, however few
  bytes the file system takes at a time.
\<close>

theorem flash_refines_array:
  assumes "backs F content pos" and "flash_ok content s" and "\<forall>x \<in> set xs. op_fits x"
  shows "\<exists>s'. flash_run F xs s = Some (fst (array_run xs (content (ff_w s))), s') \<and>
    content (ff_w s') = snd (array_run xs (content (ff_w s))) \<and> flash_ok content s'"
  using assms(2,3)
proof (induction xs arbitrary: s)
  case (Cons x xs)
  obtain r bs c where step: "array_step x (content (ff_w s)) = ((r, bs), c)" by (metis prod.exhaust)
  have "\<exists>s1. flash_step F x s = Some (r, bs, s1) \<and> content (ff_w s1) = c \<and> flash_ok content s1"
  proof (cases x)
    case (Flash_read addr len)
    then show ?thesis
      using read_refines [OF assms(1) Cons.prems(1), of addr len] Cons.prems(2) step by (auto split: if_splits)
  next
    case (Flash_write addr src)
    then show ?thesis
      using write_refines [OF assms(1) Cons.prems(1), of addr src] Cons.prems(2) step by (auto split: if_splits)
  qed
  then obtain s1 where s1: "flash_step F x s = Some (r, bs, s1)" "content (ff_w s1) = c" "flash_ok content s1" by blast
  then obtain s2 where "flash_run F xs s1 = Some (fst (array_run xs c), s2)" "content (ff_w s2) = snd (array_run xs c)"
      "flash_ok content s2"
    using Cons.IH [of s1] Cons.prems(2) by auto
  then show ?case using s1 step by (cases "array_run xs c") simp
qed simp

section \<open>A file in memory\<close>

text \<open>It takes at most three bytes at a time.\<close>

definition mem_file :: "(bytes \<times> nat) fs_file_api" where
  "mem_file =
     \<lparr>fa_open = (\<lambda>(c, p). (0, c, 0)), fa_seek = (\<lambda>i (c, p). (0, c, nat i)),
      fa_read = (\<lambda>n (c, p). let bs = take (min n 3) (drop p c) in (int (length bs), bs, c, p + length bs)),
      fa_write = (\<lambda>src (c, p). let bs = take 3 src in (int (length bs), mem_put p bs c, p + length bs)),
      fa_close = (\<lambda>w. w)\<rparr>"

lemma take_min_length: "take (min (length xs) n) xs = take n xs" by (simp add: min_def)

lemma mem_file_backs: "backs mem_file fst snd"
proof -
  have "\<exists>r bs w'. fa_read mem_file n w = (int r, bs, w') \<and> 0 < r \<and> r \<le> n \<and>
      take r bs = take r (drop (snd w) (fst w)) \<and> fst w' = fst w \<and> snd w' = snd w + r"
    if "0 < n" "snd w + n \<le> length (fst w)" for n and w :: "bytes \<times> nat"
  proof (cases w)
    case (Pair c p)
    then have "length (take (min n 3) (drop p c)) = min n 3" using that by simp
    then show ?thesis using Pair that by (intro exI [of _ "min n 3"]) (simp add: mem_file_def Let_def take_drop)
  qed
  moreover have "\<exists>r w'. fa_write mem_file src w = (int r, w') \<and> 0 < r \<and> r \<le> length src \<and>
      fst w' = mem_put (snd w) (take r src) (fst w) \<and> snd w' = snd w + r"
    if "src \<noteq> []" "snd w + length src \<le> length (fst w)" for src and w :: "bytes \<times> nat"
    using that by (cases w, intro exI [of _ "min (length src) 3"]) (simp add: mem_file_def Let_def take_min_length)
  moreover have "fst (fa_open mem_file w) = 0 \<and> fst (snd (fa_open mem_file w)) = fst w" for w
    by (simp add: mem_file_def split: prod.split)
  moreover have "\<exists>w'. fa_seek mem_file i w = (0, w') \<and> fst w' = fst w \<and> snd w' = nat i" for i w
    by (simp add: mem_file_def split: prod.split)
  ultimately show ?thesis unfolding backs_def by blast
qed

definition demo_flash :: "(bytes \<times> nat) flashfs_config" where
  "demo_flash = snd (flash_fs_init mem_file (GENERATE_CONFIG_STRUCT 16 4 (replicate 16 0xFF, 0)))"

lemma flash_refines_array_witness:
  "\<exists>s'. flash_run mem_file [Flash_write 4 [1, 2, 3, 4, 5], Flash_read 3 7, Flash_read 12 5] demo_flash =
      Some ([(0, []), (0, [0xFF, 1, 2, 3, 4, 5, 0xFF]), (- FS_EIO, [])], s')"
proof -
  have "flash_ok fst demo_flash"
    by (simp add: flash_ok_def demo_flash_def flash_fs_init_def GENERATE_CONFIG_STRUCT_def mem_file_def)
  from flash_refines_array [OF mem_file_backs this, of "[Flash_write 4 [1, 2, 3, 4, 5], Flash_read 3 7, Flash_read 12 5]"]
  obtain s' where "flash_run mem_file [Flash_write 4 [1, 2, 3, 4, 5], Flash_read 3 7, Flash_read 12 5] demo_flash =
      Some (fst (array_run [Flash_write 4 [1, 2, 3, 4, 5], Flash_read 3 7, Flash_read 12 5] (fst (ff_w demo_flash))), s')"
    by auto
  moreover have "fst (array_run [Flash_write 4 [1, 2, 3, 4, 5], Flash_read 3 7, Flash_read 12 5] (fst (ff_w demo_flash))) =
      [(0, []), (0, [0xFF, 1, 2, 3, 4, 5, 0xFF]), (- FS_EIO, [])]" by code_simp
  ultimately show ?thesis by simp
qed

section \<open>Where the driver does not do what it means to\<close>

text \<open>A refused operation gives the semaphore it has not taken: two threads can then be inside at once.\<close>

lemma range_error_releases:
  assumes "addr + len > flash_size s" and "ff_sem s = 1"
  shows "\<exists>s1 s2. flash_fs_read F addr len s = Some (- FS_EIO, [], s1) \<and> acquire_device s1 = Some s2 \<and>
    acquire_device s2 \<noteq> None"
  using assms by (auto simp: flash_fs_read_def release_device_def acquire_device_def K_SEM_MAX_LIMIT_def)

text \<open>Erasing succeeds and changes nothing, although the parameters say that erased bytes read as 0xFF.\<close>

lemma erase_does_nothing:
  assumes "backs F content pos" and "flash_ok content s" and "unat addr + 1 \<le> unat (flash_size s)"
    and "content (ff_w s) ! unat addr = 0"
  shows "\<exists>s'. flash_fs_read F addr 1 (snd (flash_fs_erase addr 1 s)) = Some (0, [0], s') \<and>
    erase_value (flash_fs_get_parameters s) = 0xFF"
proof -
  have fits: "unat addr + unat (1 :: u32) < 2 ^ 32" using assms(2,3) by (simp add: flash_ok_def)
  have sz: "length (content (ff_w s)) = unat (flash_size s)" using assms(2) by (simp add: flash_ok_def)
  then have "take 1 (drop (unat addr) (content (ff_w s))) = [0]"
    using assms(3,4) Cons_nth_drop_Suc [of "unat addr" "content (ff_w s)", symmetric] by simp
  then show ?thesis using read_refines [OF assms(1,2) fits] assms(3) sz
    by (auto simp: flash_fs_erase_def flash_fs_get_parameters_def flash_fs_parameters_def)
qed

end
