(* ===== verification/Collector_Http.thy ===== *)
theory Collector_Http
  imports Posix
begin

text \<open>
  The data collector's HTTP handlers (\<open>http_server/http_server.c\<close>: firmware upload, version, list of files), the
  reboot request of \<open>main.c\<close> and the file time of \<open>fs.c\<close>.  The kernel's HTTP server calls a handler with pieces of
  the request; it and the flash area are parameters.
\<close>

section \<open>Firmware upload\<close>

text \<open>
  A piece of a request: the server's buffer and how many bytes of it are data.  strstr reads a buffer up to a zero
  byte; without one it leaves the buffer, \<open>None\<close> at the outer option.
\<close>

datatype transaction_status = HTTP_SERVER_TRANSACTION_ABORTED | HTTP_SERVER_REQUEST_DATA_MORE | HTTP_SERVER_REQUEST_DATA_FINAL

record http_request =
  rq_data :: bytes
  rq_len :: nat

record http_response =
  rs_body :: string
  rs_status :: "int option"
  rs_final :: bool

definition HTTP_400_BAD_REQUEST :: int where "HTTP_400_BAD_REQUEST = 400"
definition CRLF :: bytes where "CRLF = [0x0D, 0x0A]"

definition FLASH_SUCCESS :: string where "FLASH_SUCCESS = ''{\"status\": \"success\"}'' @ [CHR 0x0D, CHR 0x0A]"
definition FLASH_FAILED :: string where "FLASH_FAILED = ''{\"status\": \"failed\"}'' @ [CHR 0x0D, CHR 0x0A]"

record 'w area_api =
  ar_open :: "'w \<Rightarrow> int \<times> 'w"
  ar_erase :: "u32 \<Rightarrow> u32 \<Rightarrow> 'w \<Rightarrow> 'w"
  ar_write :: "u32 \<Rightarrow> u32 \<Rightarrow> bytes \<Rightarrow> 'w \<Rightarrow> int \<times> 'w"
  ar_size :: u32

record fw_data =
  fw_found :: bool
  had_first :: bool
  first_line :: bytes
  fw_offset :: u32
  fw_fa :: bool

record 'w http =
  fw_d :: fw_data
  need_reboot :: bool
  ht_w :: 'w

definition zero_fw :: fw_data where
  "zero_fw = \<lparr>fw_found = False, had_first = False, first_line = replicate 64 0, fw_offset = 0, fw_fa = False\<rparr>"

fun find_bytes :: "bytes \<Rightarrow> bytes \<Rightarrow> nat option" where
  "find_bytes needle [] = (if needle = [] then Some 0 else None)"
| "find_bytes needle (x # xs) =
     (if take (length needle) (x # xs) = needle then Some 0 else map_option Suc (find_bytes needle xs))"

definition strstr :: "bytes \<Rightarrow> bytes \<Rightarrow> nat option option" where
  "strstr hay needle =
     (if 0 \<in> set hay \<and> 0 \<in> set needle
      then Some (find_bytes (takeWhile (\<lambda>c. c \<noteq> 0) needle) (takeWhile (\<lambda>c. c \<noteq> 0) hay)) else None)"

definition set_reboot_status :: "bool \<Rightarrow> 'w http \<Rightarrow> 'w http" where
  "set_reboot_status val s = s\<lparr>need_reboot := True\<rparr>"

text \<open>The first line ends at its first CRLF; it is kept, up to 64 bytes, to be found again at the end.\<close>

definition keep_first_line :: "http_request \<Rightarrow> fw_data \<Rightarrow> (bytes \<times> fw_data) option" where
  "keep_first_line rq d =
     (if had_first d then Some (rq_data rq, d)
      else case strstr (rq_data rq) (CRLF @ [0]) of
             None \<Rightarrow> None
           | Some None \<Rightarrow> Some (rq_data rq, d)
           | Some (Some _) \<Rightarrow>
               if rq_len rq \<ge> length (rq_data rq) then None
               else let mem = (rq_data rq)[rq_len rq := 0]
                    in case strstr mem (CRLF @ [0]) of
                         Some (Some i) \<Rightarrow> Some (mem, d\<lparr>first_line := mem_put 0 (take (min i 64) mem) (first_line d), had_first := True\<rparr>)
                       | _ \<Rightarrow> None)"

definition fw_first :: "'w area_api \<Rightarrow> http_request \<Rightarrow> 'w http \<Rightarrow> (int \<times> 'w http) option" where
  "fw_first A rq s =
     (case keep_first_line rq (fw_d s) of
        None \<Rightarrow> None
      | Some (mem, d) \<Rightarrow>
          (case strstr mem (CRLF @ CRLF @ [0]) of
             None \<Rightarrow> None
           | Some None \<Rightarrow> Some (0, s\<lparr>fw_d := d\<rparr>)
           | Some (Some i) \<Rightarrow>
               let n = of_nat (rq_len rq) - of_nat (i + 4)
               in case ar_open A (ht_w s) of (err, w) \<Rightarrow>
                    if err \<noteq> 0 then Some (- 1, s\<lparr>fw_d := zero_fw, ht_w := w\<rparr>)
                    else case ar_write A (fw_offset d) n (drop (i + 4) mem) (ar_erase A 0 (ar_size A) w) of (err, w) \<Rightarrow>
                      if err \<noteq> 0 then Some (- 1, s\<lparr>fw_d := zero_fw, ht_w := w\<rparr>)
                      else Some (0, s\<lparr>fw_d := d\<lparr>fw_found := True, fw_offset := n, fw_fa := True\<rparr>, ht_w := w\<rparr>)))"

text \<open>
  A later piece: only when it goes past the end of the area is the closing line looked for, and only then does the
  offset advance.
\<close>

definition fw_more :: "'w area_api \<Rightarrow> http_request \<Rightarrow> 'w http \<Rightarrow> (int \<times> 'w http) option" where
  "fw_more A rq s =
     (let d = fw_d s;
          over = sint (fw_offset d + of_nat (rq_len rq) - ar_size A);
          start = int (rq_len rq) - over;
          found = (if over \<le> 0 then Some None
                   else if start < 0 then None
                   else strstr (drop (nat start) (rq_data rq)) (first_line d));
          len = (case found of Some (Some i) \<Rightarrow> start + int i - 2 | _ \<Rightarrow> 0)
      in if found = None then None
         else case ar_write A (fw_offset d) (of_nat (rq_len rq)) (rq_data rq) (ht_w s) of (err, w) \<Rightarrow>
           if err \<noteq> 0 then Some (- 1, s\<lparr>fw_d := zero_fw, ht_w := w\<rparr>)
           else Some (0, s\<lparr>fw_d := d\<lparr>fw_offset := fw_offset d + of_int len\<rparr>, ht_w := w\<rparr>))"

text \<open>At the end the size of the area is read through \<open>fa\<close>, a null pointer when no header was found.\<close>

definition fw_final :: "'w area_api \<Rightarrow> 'w http \<Rightarrow> (http_response \<times> 'w http) option" where
  "fw_final A s =
     (if \<not> fw_fa (fw_d s) then None
      else if fw_offset (fw_d s) \<noteq> ar_size A
      then Some (\<lparr>rs_body = FLASH_FAILED, rs_status = Some HTTP_400_BAD_REQUEST, rs_final = True\<rparr>, s\<lparr>fw_d := zero_fw\<rparr>)
      else Some (\<lparr>rs_body = FLASH_SUCCESS, rs_status = None, rs_final = True\<rparr>,
             (set_reboot_status True s)\<lparr>fw_d := zero_fw\<rparr>))"

definition fw_upgrade_handler ::
  "'w area_api \<Rightarrow> transaction_status \<Rightarrow> http_request \<Rightarrow> 'w http \<Rightarrow> (int \<times> http_response option \<times> 'w http) option" where
  "fw_upgrade_handler A status rq s =
     (if status = HTTP_SERVER_TRANSACTION_ABORTED then Some (0, None, s\<lparr>fw_d := zero_fw\<rparr>)
      else case (if \<not> fw_found (fw_d s) then fw_first A rq s else fw_more A rq s) of
             None \<Rightarrow> None
           | Some (ret, s) \<Rightarrow>
               if ret \<noteq> 0 then Some (ret, None, s)
               else if status = HTTP_SERVER_REQUEST_DATA_FINAL
               then map_option (\<lambda>(rs, s). (0, Some rs, s)) (fw_final A s)
               else Some (0, None, s))"

section \<open>Version and files\<close>

text \<open>The build's date, time and version are parameters; the text is cut at 63 characters, its length is not.\<close>

definition get_version_handler :: "string \<Rightarrow> string \<Rightarrow> string \<Rightarrow> transaction_status \<Rightarrow> (bytes \<times> nat) option" where
  "get_version_handler date time version status =
     (if status = HTTP_SERVER_REQUEST_DATA_FINAL
      then let txt = ''build time: '' @ date @ ''-'' @ time @ '', version: '' @ version
           in Some (snprintf_buf 64 txt, length txt)
      else None)"

text \<open>
  The buffer of 2048 bytes as the text put into it so far; snprintf with the remaining size cuts, and answers the
  uncut length, by which \<open>offset\<close> grows.  Past the end the remaining size wraps: \<open>None\<close>.
\<close>

definition file_entry :: "string \<Rightarrow> file_stat \<Rightarrow> string" where
  "file_entry path st = ''{\"name\": \"'' @ path @ ''\", \"size\": '' @ int_string (st_size st) @ ''},''"

fun files_loop :: "'w posix \<Rightarrow> string \<Rightarrow> string list \<Rightarrow> string \<times> nat \<Rightarrow> 'w \<Rightarrow> ((string \<times> nat) \<times> 'w) option" where
  "files_loop px root [] acc w = Some (acc, w)"
| "files_loop px root (name # names) (buf, offset) w =
     (let path = take 127 (root @ ''/'' @ name)
      in case px_stat px path w of
           (None, w) \<Rightarrow> files_loop px root names (buf, offset) w
         | (Some st, w) \<Rightarrow>
             if \<not> st_is_reg st then files_loop px root names (buf, offset) w
             else if offset > 2048 then None
             else files_loop px root names
                    (buf @ take (2047 - offset) (file_entry path st), offset + length (file_entry path st)) w)"

text \<open>The last byte is overwritten by the closing bracket, in the buffer only when \<open>offset\<close> is at most 2048.\<close>

definition files_handler :: "'w posix \<Rightarrow> string \<Rightarrow> transaction_status \<Rightarrow> 'w \<Rightarrow> ((string \<times> bool) \<times> 'w) option" where
  "files_handler px root status w =
     (if status = HTTP_SERVER_REQUEST_DATA_FINAL
      then case (case px_list px root w of
                   (None, w) \<Rightarrow> Some ((''[ '', 2), w)
                 | (Some names, w) \<Rightarrow> files_loop px root names (''[ '', 2) w) of
             None \<Rightarrow> None
           | Some ((buf, offset), w) \<Rightarrow>
               if offset > 2048 then None else Some ((take (offset - 1) buf @ '']'', True), w)
      else Some (('''', False), w))"

section \<open>The main loop and the file time\<close>

text \<open>A turn of the main loop: the lamp goes off and on; the outcome is whether the program reboots.\<close>

definition collector_main_turn :: "'w http \<Rightarrow> bool list \<times> bool" where
  "collector_main_turn s = ([False, True], need_reboot s)"

text \<open>Year from 1900 and month from 0, as the C library counts, packed as FAT does.\<close>

definition get_fattime :: "int \<Rightarrow> int \<Rightarrow> int \<Rightarrow> int \<Rightarrow> int \<Rightarrow> int \<Rightarrow> u32" where
  "get_fattime year mon mday hour minute sec =
     or (or (or (or (or (push_bit 25 (of_int (year - 80))) (push_bit 21 (of_int (mon + 1))))
       (push_bit 16 (of_int mday))) (push_bit 11 (of_int hour))) (push_bit 5 (of_int minute))) (drop_bit 1 (of_int sec))"

end
