(* ===== verification/Collector_Http_Props.thy ===== *)
theory Collector_Http_Props
  imports Collector_Http Posix_Mem
begin

text \<open>
  What the HTTP handlers of the data collector achieve: when a firmware upload can end well, the list of files, and
  the requests that end in a null pointer or behind the buffer.
\<close>

section \<open>Searching\<close>

lemma find_bytes_at: "find_bytes needle hay = Some i \<Longrightarrow> take (length needle) (drop i hay) = needle \<and> i + length needle \<le> length hay"
proof (induction hay arbitrary: i)
  case (Cons x xs)
  show ?case
  proof (cases "take (length needle) (x # xs) = needle")
    case True
    then have "length needle \<le> length (x # xs)" by (metis length_take min.cobounded1)
    then show ?thesis using True Cons.prems by simp
  next
    case False
    then show ?thesis using Cons by auto
  qed
qed (simp split: if_splits)

lemma strstr_at:
  assumes "strstr hay (needle @ [0]) = Some (Some i)" and "0 \<notin> set needle"
  shows "take (length needle) (drop i hay) = needle \<and> i + length needle \<le> length (takeWhile (\<lambda>c. c \<noteq> 0) hay)"
proof -
  have tw: "takeWhile (\<lambda>c. c \<noteq> 0) (needle @ [0]) = needle" using assms(2) by (induction needle) auto
  obtain r where r: "hay = takeWhile (\<lambda>c. c \<noteq> 0) hay @ r" by (metis takeWhile_dropWhile_id)
  have f: "find_bytes needle (takeWhile (\<lambda>c. c \<noteq> 0) hay) = Some i" using assms(1) tw by (auto simp: strstr_def split: if_splits)
  from find_bytes_at [OF f] have at: "take (length needle) (drop i (takeWhile (\<lambda>c. c \<noteq> 0) hay)) = needle"
    "i + length needle \<le> length (takeWhile (\<lambda>c. c \<noteq> 0) hay)" by auto
  have "take (length needle) (drop i (takeWhile (\<lambda>c. c \<noteq> 0) hay @ r)) = needle"
    using at by simp
  then show ?thesis using at r by simp
qed

section \<open>Firmware upload\<close>

fun http_run :: "'w area_api \<Rightarrow> (transaction_status \<times> http_request) list \<Rightarrow> 'w http \<Rightarrow> 'w http option" where
  "http_run A [] s = Some s"
| "http_run A ((status, rq) # xs) s =
     (case fw_upgrade_handler A status rq s of None \<Rightarrow> None | Some (_, _, s) \<Rightarrow> http_run A xs s)"

text \<open>A piece that holds the end of a header and exactly \<open>n\<close> bytes after it.\<close>

definition carries :: "nat \<Rightarrow> http_request \<Rightarrow> bool" where
  "carries n rq \<longleftrightarrow> (\<exists>i. take 4 (drop i (rq_data rq)) = CRLF @ CRLF \<and> i + 4 + n = rq_len rq)"

definition fits :: "http_request \<Rightarrow> bool" where
  "fits rq \<longleftrightarrow> rq_len rq \<le> length (rq_data rq) \<and> length (rq_data rq) < 2 ^ 31"

definition area_checks :: "'w area_api \<Rightarrow> bool" where
  "area_checks A \<longleftrightarrow> unat (ar_size A) < 2 ^ 31 \<and>
     (\<forall>off n bs w. fst (ar_write A off n bs w) = 0 \<longrightarrow> unat off + unat n \<le> unat (ar_size A))"

definition upload_inv :: "'w area_api \<Rightarrow> http_request list \<Rightarrow> 'w http \<Rightarrow> bool" where
  "upload_inv A seen s \<longleftrightarrow>
     (fw_found (fw_d s) \<longrightarrow> unat (fw_offset (fw_d s)) \<le> unat (ar_size A) \<and>
        (\<exists>rq \<in> set seen. carries (unat (fw_offset (fw_d s))) rq)) \<and>
     (\<not> fw_found (fw_d s) \<longrightarrow> fw_offset (fw_d s) = 0) \<and> (fw_fa (fw_d s) \<longrightarrow> fw_found (fw_d s)) \<and>
     (need_reboot s \<longrightarrow> (\<exists>rq \<in> set seen. carries (unat (ar_size A)) rq))"

lemma keep_first_line_frame:
  assumes "keep_first_line rq d = Some (mem, d')"
  shows "fw_offset d' = fw_offset d \<and> fw_found d' = fw_found d \<and> fw_fa d' = fw_fa d \<and>
    (mem = rq_data rq \<or> rq_len rq < length (rq_data rq) \<and> mem = (rq_data rq)[rq_len rq := 0])"
  using assms by (auto simp: keep_first_line_def Let_def split: if_splits option.splits)

lemma header_end: "0 \<notin> set (CRLF @ CRLF)" "length (CRLF @ CRLF) = 4" by (simp_all add: CRLF_def)

lemma body_at:
  assumes "mem = rq_data rq \<or> rq_len rq < length (rq_data rq) \<and> mem = (rq_data rq)[rq_len rq := 0]"
    and "strstr mem (CRLF @ CRLF @ [0]) = Some (Some i)"
  shows "take 4 (drop i (rq_data rq)) = CRLF @ CRLF \<and> i + 4 \<le> length (rq_data rq)"
proof -
  have at: "take 4 (drop i mem) = CRLF @ CRLF" "i + 4 \<le> length (takeWhile (\<lambda>c. c \<noteq> 0) mem)"
    using strstr_at [of mem "CRLF @ CRLF" i] assms(2) header_end by simp_all
  show ?thesis
  proof (cases "mem = rq_data rq")
    case True
    then show ?thesis using at length_takeWhile_le [of "\<lambda>c. c \<noteq> 0" mem] by simp
  next
    case False
    then have m: "rq_len rq < length (rq_data rq)" "mem = (rq_data rq)[rq_len rq := 0]" using assms(1) by auto
    have "length (takeWhile (\<lambda>c. c \<noteq> 0) mem) \<le> rq_len rq"
    proof (rule ccontr)
      assume "\<not> ?thesis"
      then have "rq_len rq < length (takeWhile (\<lambda>c. c \<noteq> 0) mem)" by simp
      then have "mem ! rq_len rq = takeWhile (\<lambda>c. c \<noteq> 0) mem ! rq_len rq"
          "takeWhile (\<lambda>c. c \<noteq> 0) mem ! rq_len rq \<in> set (takeWhile (\<lambda>c. c \<noteq> 0) mem)"
        using takeWhile_nth [of "rq_len rq" "\<lambda>c. c \<noteq> 0" mem] nth_mem [of "rq_len rq" "takeWhile (\<lambda>c. c \<noteq> 0) mem"] by simp_all
      then have "mem ! rq_len rq \<noteq> 0" by (auto dest: set_takeWhileD)
      then show False using m by simp
    qed
    then have "i + 4 \<le> rq_len rq" using at by simp
    then show ?thesis using at m by (simp add: drop_update_swap)
  qed
qed

lemma sub_length:
  assumes "i \<le> m" and "l \<le> m" and "m < 2 ^ 31" and "unat (of_nat l - of_nat i :: u32) < 2 ^ 31"
  shows "i + unat (of_nat l - of_nat i :: u32) = l"
proof -
  have u: "unat (of_nat l :: u32) = l" "unat (of_nat i :: u32) = i" using assms(1-3) by (auto simp: unat_of_nat)
  show ?thesis
  proof (cases "i \<le> l")
    case True
    then have "(of_nat i :: u32) \<le> of_nat l" by (simp add: word_le_nat_alt u)
    then show ?thesis using True by (simp add: unat_sub u)
  next
    case False
    then have "unat (of_nat l - of_nat i :: u32) = 2 ^ 32 + l - i"
      using assms(1,3) unat_sub_if' [of "of_nat l :: u32" "of_nat i"] by (simp add: u)
    then show ?thesis using assms False by simp
  qed
qed

lemma sint_diff_le:
  fixes a b c :: u32
  assumes "unat a + unat b \<le> unat c" and "unat c < 2 ^ 31"
  shows "sint (a + b - c) \<le> 0"
proof -
  define k where "k = int (unat a) + int (unat b) - int (unat c)"
  have "- 2147483648 \<le> int x + int y - int z \<and> int x + int y - int z \<le> 0"
    if "x + y \<le> z" "z < 2147483648" for x y z :: nat using that by linarith
  from this [of "unat a" "unat b" "unat c"] have k: "- (2 ^ 31) \<le> k" "k \<le> 0" using assms by (simp_all add: k_def)
  have "a + b - c = of_int k" by (simp add: k_def)
  then have "sint (a + b - c) = signed_take_bit 31 k" by (simp add: signed_of_int)
  also have "\<dots> = k" by (rule signed_take_bit_int_eq_self) (use k in simp_all)
  finally show ?thesis using k by simp
qed

lemma first_keeps:
  assumes "fw_first A rq s = Some (ret, s')" and "upload_inv A seen s" and "area_checks A" and "fits rq" and "\<not> fw_found (fw_d s)"
  shows "upload_inv A (rq # seen) s'"
proof -
  obtain mem d where k: "keep_first_line rq (fw_d s) = Some (mem, d)" using assms(1) by (auto simp: fw_first_def split: option.splits)
  note kf = keep_first_line_frame [OF k]
  have no: "fw_offset d = 0" "\<not> fw_found d" "\<not> fw_fa d" using kf assms(2,5) by (auto simp: upload_inv_def)
  have boot: "need_reboot s \<longrightarrow> (\<exists>rq \<in> set (rq # seen). carries (unat (ar_size A)) rq)" using assms(2) by (auto simp: upload_inv_def)
  show ?thesis
  proof (cases "strstr mem (CRLF @ CRLF @ [0])")
    case None
    then show ?thesis using assms(1) k by (simp add: fw_first_def)
  next
    case (Some f)
    show ?thesis
    proof (cases f)
      case None
      then show ?thesis using assms(1) k Some no boot by (auto simp: fw_first_def upload_inv_def)
    next
      case (Some i)
      define n :: u32 where "n = of_nat (rq_len rq) - of_nat (i + 4)"
      obtain e1 w1 where o: "ar_open A (ht_w s) = (e1, w1)" by (cases "ar_open A (ht_w s)")
      obtain e2 w2 where w: "ar_write A 0 n (drop (i + 4) mem) (ar_erase A 0 (ar_size A) w1) = (e2, w2)"
        by (cases "ar_write A 0 n (drop (i + 4) mem) (ar_erase A 0 (ar_size A) w1)")
      have run: "fw_first A rq s = (if e1 \<noteq> 0 then Some (- 1, s\<lparr>fw_d := zero_fw, ht_w := w1\<rparr>)
          else if e2 \<noteq> 0 then Some (- 1, s\<lparr>fw_d := zero_fw, ht_w := w2\<rparr>)
          else Some (0, s\<lparr>fw_d := d\<lparr>fw_found := True, fw_offset := n, fw_fa := True\<rparr>, ht_w := w2\<rparr>))"
        using k Some \<open>strstr mem _ = Some f\<close> o w no by (simp add: fw_first_def n_def)
      show ?thesis
      proof (cases "e1 = 0 \<and> e2 = 0")
        case False
        then show ?thesis using assms(1) boot unfolding run by (auto simp: upload_inv_def zero_fw_def split: if_splits)
      next
        case True
        have small: "unat n \<le> unat (ar_size A)" using assms(3) w True unfolding area_checks_def by (metis add_0 fst_conv unat_0)
        have at: "take 4 (drop i (rq_data rq)) = CRLF @ CRLF" "i + 4 \<le> length (rq_data rq)"
          using body_at [of mem rq i] kf Some \<open>strstr mem _ = Some f\<close> by auto
        have "i + 4 + unat n = rq_len rq" unfolding n_def
          by (rule sub_length) (use assms(3,4) at small in \<open>auto simp: area_checks_def fits_def n_def\<close>)
        then have "carries (unat n) rq" using at by (auto simp: carries_def)
        then show ?thesis using assms(1) True boot small no unfolding run by (auto simp: upload_inv_def)
      qed
    qed
  qed
qed

lemma more_keeps:
  assumes "fw_more A rq s = Some (ret, s')" and "upload_inv A seen s" and "area_checks A" and "fits rq" and "fw_found (fw_d s)"
  shows "upload_inv A (rq # seen) s'"
proof -
  let ?o = "fw_offset (fw_d s)" and ?n = "of_nat (rq_len rq) :: u32"
  have off: "unat ?o \<le> unat (ar_size A)" "unat (ar_size A) < 2 ^ 31" using assms(2,3,5) by (auto simp: upload_inv_def area_checks_def)
  have n: "unat ?n = rq_len rq" "rq_len rq < 2 ^ 31" using assms(4) by (auto simp: fits_def unat_of_nat)
  obtain e w where wr: "ar_write A ?o ?n (rq_data rq) (ht_w s) = (e, w)" by (cases "ar_write A ?o ?n (rq_data rq) (ht_w s)")
  show ?thesis
  proof (cases "e = 0")
    case False
    then show ?thesis using assms(1,2) wr
      by (auto simp: fw_more_def Let_def upload_inv_def zero_fw_def split: if_splits)
  next
    case True
    then have "unat ?o + rq_len rq \<le> unat (ar_size A)"
      using assms(3) wr n unfolding area_checks_def by (metis fst_conv)
    then have "sint (?o + ?n - ar_size A) \<le> 0" using sint_diff_le [of ?o ?n "ar_size A"] off n by simp
    then have "fw_more A rq s = Some (0, s\<lparr>fw_d := fw_d s, ht_w := w\<rparr>)" using True wr by (simp add: fw_more_def Let_def)
    then show ?thesis using assms(1,2) by (auto simp: upload_inv_def)
  qed
qed

lemma final_keeps:
  assumes "fw_final A s = Some (rs, s')" and "upload_inv A seen s"
  shows "upload_inv A seen s'"
  using assms by (auto simp: fw_final_def upload_inv_def zero_fw_def set_reboot_status_def split: if_splits)

lemma handler_keeps:
  assumes "fw_upgrade_handler A status rq s = Some (ret, rs, s')" and "upload_inv A seen s" and "area_checks A" and "fits rq"
  shows "upload_inv A (rq # seen) s'"
proof (cases "status = HTTP_SERVER_TRANSACTION_ABORTED")
  case True
  then show ?thesis using assms(1,2) by (auto simp: fw_upgrade_handler_def upload_inv_def zero_fw_def)
next
  case False
  then obtain ret1 s1 where s1: "(if \<not> fw_found (fw_d s) then fw_first A rq s else fw_more A rq s) = Some (ret1, s1)"
    using assms(1) by (auto simp: fw_upgrade_handler_def split: option.splits)
  then have "upload_inv A (rq # seen) s1"
    using first_keeps [OF _ assms(2-4)] more_keeps [OF _ assms(2-4)] by (auto split: if_splits)
  then show ?thesis using assms(1) False s1 final_keeps
    by (auto simp: fw_upgrade_handler_def split: if_splits)
qed

lemma http_run_keeps:
  assumes "area_checks A"
  shows "http_run A xs s = Some s' \<Longrightarrow> \<forall>(_, rq) \<in> set xs. fits rq \<Longrightarrow> upload_inv A seen s \<Longrightarrow> upload_inv A (rev (map snd xs) @ seen) s'"
proof (induction xs arbitrary: s seen)
  case (Cons x xs)
  obtain status rq where x: "x = (status, rq)" by (cases x)
  then obtain ret rs s1 where s1: "fw_upgrade_handler A status rq s = Some (ret, rs, s1)" "http_run A xs s1 = Some s'"
    using Cons.prems(1) by (auto split: option.splits)
  then show ?case using Cons.IH [of s1 "rq # seen"] handler_keeps [OF s1(1) Cons.prems(3) assms] Cons.prems(2) x by auto
qed simp

text \<open>
  C34: an HTTP firmware upload ends well, and asks for the reboot, only if one piece of the request brings the end of
  the header and the whole image: as the flash area refuses writes behind its end, the pieces after the one with the
  header are written over each other without moving the offset, and an image in several pieces is always refused.
\<close>

theorem http_upload_one_piece:
  assumes "area_checks A" and "http_run A xs s = Some s'" and "\<forall>(_, rq) \<in> set xs. fits rq"
    and "fw_d s = zero_fw" and "\<not> need_reboot s" and "need_reboot s'"
  shows "\<exists>(_, rq) \<in> set xs. carries (unat (ar_size A)) rq"
proof -
  have "upload_inv A [] s" using assms(4,5) by (simp add: upload_inv_def zero_fw_def)
  from http_run_keeps [OF assms(1-3) this] assms(6) show ?thesis by (auto simp: upload_inv_def)
qed

text \<open>An area of eight bytes, and a request that holds a header and the image.\<close>

definition mem_area :: "bytes area_api" where
  "mem_area = \<lparr>ar_open = (\<lambda>w. (0, w)), ar_erase = (\<lambda>off n w. replicate (length w) 0xFF),
     ar_write = (\<lambda>off n bs w. if unat off + unat n \<le> 8 then (0, mem_put (unat off) (take (unat n) bs) w) else (- 22, w)),
     ar_size = 8\<rparr>"

definition demo_upload :: "bytes \<Rightarrow> http_request" where
  "demo_upload img = \<lparr>rq_data = [0x2D, 0x2D] @ CRLF @ CRLF @ img @ replicate 8 0, rq_len = 6 + length img\<rparr>"

definition demo_http :: "bytes http" where
  "demo_http = \<lparr>fw_d = zero_fw, need_reboot = False, ht_w = replicate 8 0\<rparr>"

lemma http_upload_one_piece_witness:
  "\<exists>s'. http_run mem_area [(HTTP_SERVER_REQUEST_DATA_FINAL, demo_upload [1, 2, 3, 4, 5, 6, 7, 8])] demo_http = Some s' \<and>
    need_reboot s' \<and> ht_w s' = [1, 2, 3, 4, 5, 6, 7, 8] \<and>
    (\<exists>(_, rq) \<in> set [(HTTP_SERVER_REQUEST_DATA_FINAL, demo_upload [1, 2, 3, 4, 5, 6, 7, 8])]. carries (unat (ar_size mem_area)) rq)"
proof -
  let ?xs = "[(HTTP_SERVER_REQUEST_DATA_FINAL, demo_upload [1, 2, 3, 4, 5, 6, 7, 8])]"
  have checks: "area_checks mem_area" by (auto simp: area_checks_def mem_area_def)
  have run: "http_run mem_area ?xs demo_http =
      Some \<lparr>fw_d = zero_fw, need_reboot = True, ht_w = [1, 2, 3, 4, 5, 6, 7, 8]\<rparr>" by code_simp
  have "\<forall>(_, rq) \<in> set ?xs. fits rq" by (simp add: fits_def demo_upload_def CRLF_def)
  with http_upload_one_piece [OF checks run this] show ?thesis using run by (simp add: demo_http_def)
qed

text \<open>The same image in two pieces is refused, and the second piece is put where its first bytes already are.\<close>

lemma two_pieces_refused:
  "fw_upgrade_handler mem_area HTTP_SERVER_REQUEST_DATA_MORE (demo_upload [1, 2, 3, 4]) demo_http =
     Some (0, None, \<lparr>fw_d = zero_fw\<lparr>fw_found := True, had_first := True, first_line := [0x2D, 0x2D] @ replicate 62 0,
       fw_offset := 4, fw_fa := True\<rparr>, need_reboot = False, ht_w = [1, 2, 3, 4] @ replicate 4 0xFF\<rparr>)"
  "fw_upgrade_handler mem_area HTTP_SERVER_REQUEST_DATA_FINAL \<lparr>rq_data = [5, 6, 7, 8, 0], rq_len = 4\<rparr>
     \<lparr>fw_d = zero_fw\<lparr>fw_found := True, had_first := True, first_line := [0x2D, 0x2D] @ replicate 62 0,
       fw_offset := 4, fw_fa := True\<rparr>, need_reboot = False, ht_w = [1, 2, 3, 4] @ replicate 4 0xFF\<rparr> =
     Some (0, Some \<lparr>rs_body = FLASH_FAILED, rs_status = Some HTTP_400_BAD_REQUEST, rs_final = True\<rparr>,
       \<lparr>fw_d = zero_fw, need_reboot = False, ht_w = [1, 2, 3, 4, 5, 6, 7, 8]\<rparr>)"
  by code_simp+

text \<open>A request without a header end, such as a GET, reads the size of the area through a null pointer.\<close>

lemma get_upgrade_null:
  "fw_upgrade_handler A HTTP_SERVER_REQUEST_DATA_FINAL \<lparr>rq_data = [0], rq_len = 0\<rparr> (s\<lparr>fw_d := zero_fw\<rparr>) = None"
  by (simp add: fw_upgrade_handler_def zero_fw_def fw_first_def keep_first_line_def strstr_def CRLF_def fw_final_def)

section \<open>The list of files\<close>

lemma files_loop_entries:
  assumes "\<forall>name \<in> set names. \<forall>w. px_stat px (take 127 (root @ ''/'' @ name)) w = (Some (st name), w) \<and> st_is_reg (st name)"
    and "length buf + sum_list (map (\<lambda>name. length (file_entry (take 127 (root @ ''/'' @ name)) (st name))) names) \<le> 2047"
  shows "files_loop px root names (buf, length buf) w =
    (let buf' = buf @ concat (map (\<lambda>name. file_entry (take 127 (root @ ''/'' @ name)) (st name)) names)
     in Some ((buf', length buf'), w))"
  using assms
proof (induction names arbitrary: buf)
  case (Cons name names)
  let ?e = "file_entry (take 127 (root @ ''/'' @ name)) (st name)"
  have "files_loop px root names (buf @ ?e, length (buf @ ?e)) w = (let buf' = (buf @ ?e) @
      concat (map (\<lambda>name. file_entry (take 127 (root @ ''/'' @ name)) (st name)) names) in Some ((buf', length buf'), w))"
    using Cons.IH [of "buf @ ?e"] Cons.prems by (simp add: add.assoc)
  then show ?case using Cons.prems by (simp add: Let_def)
qed (simp add: Let_def)

text \<open>The list of a directory of regular files that fits the buffer: the entries, the last comma the closing bracket.\<close>

lemma files_listed:
  assumes "\<forall>name \<in> set names. \<forall>w. px_stat px (take 127 (root @ ''/'' @ name)) w = (Some (st name), w) \<and> st_is_reg (st name)"
    and "px_list px root w = (Some names, w')"
    and "2 + sum_list (map (\<lambda>name. length (file_entry (take 127 (root @ ''/'' @ name)) (st name))) names) \<le> 2047"
  shows "files_handler px root HTTP_SERVER_REQUEST_DATA_FINAL w =
    Some ((butlast (''[ '' @ concat (map (\<lambda>name. file_entry (take 127 (root @ ''/'' @ name)) (st name)) names)) @ '']'', True), w')"
proof -
  define listing where "listing = ''[ '' @ concat (map (\<lambda>name. file_entry (take 127 (root @ ''/'' @ name)) (st name)) names)"
  have two: "length ''[ '' = 2" by simp
  have len: "length listing \<le> 2047" using assms(3) by (simp add: listing_def length_concat comp_def)
  have "files_loop px root names (''[ '', 2) w' = Some ((listing, length listing), w')"
    using files_loop_entries [of names px root st "''[ ''" w'] assms(1,3) unfolding two by (simp only: Let_def listing_def)
  then have "files_handler px root HTTP_SERVER_REQUEST_DATA_FINAL w = Some ((take (length listing - 1) listing @ '']'', True), w')"
    using assms(2) len by (simp add: files_handler_def)
  then show ?thesis by (simp only: listing_def butlast_conv_take)
qed

text \<open>A directory of a few dozen files leaves the buffer of 2048 bytes.\<close>

lemma files_overflow:
  assumes "\<forall>w. px_stat px (take 127 (root @ ''/'' @ name)) w = (Some st, w)" and "st_is_reg st" and "offset > 2048"
  shows "files_loop px root (name # names) (buf, offset) w = None"
  using assms by simp

end
