(* ===== verification/Display_Tables.thy ===== *)
theory Display_Tables
  imports Prelude
begin

text \<open>
  The glyphs and icons of the handset's display: \<open>font_5x8.c\<close>, \<open>font_8x16.c\<close> and the headers \<open>label_icons.h\<close>,
  \<open>battery_icons.h\<close>, \<open>signal_icons.h\<close> under \<open>applications/mod_handler\<close>.  A byte is a column of eight pixels; taller
  glyphs have their upper half first.
\<close>

definition FONT_FIRST :: nat where "FONT_FIRST = 0x20"
definition FONT_LAST :: nat where "FONT_LAST = 0x7E"

definition font_5x8 :: "bytes list" where
  "font_5x8 = [
    [0x00, 0x00, 0x00, 0x00, 0x00, 0x00],
    [0x00, 0x00, 0x5F, 0x00, 0x00, 0x00],
    [0x00, 0x07, 0x00, 0x07, 0x00, 0x00],
    [0x14, 0x7F, 0x14, 0x7F, 0x14, 0x00],
    [0x24, 0x2A, 0x7F, 0x2A, 0x12, 0x00],
    [0x23, 0x13, 0x08, 0x64, 0x62, 0x00],
    [0x36, 0x49, 0x55, 0x22, 0x50, 0x00],
    [0x00, 0x05, 0x03, 0x00, 0x00, 0x00],
    [0x00, 0x1C, 0x22, 0x41, 0x00, 0x00],
    [0x00, 0x41, 0x22, 0x1C, 0x00, 0x00],
    [0x14, 0x08, 0x3E, 0x08, 0x14, 0x00],
    [0x08, 0x08, 0x3E, 0x08, 0x08, 0x00],
    [0x00, 0x50, 0x30, 0x00, 0x00, 0x00],
    [0x08, 0x08, 0x08, 0x08, 0x08, 0x00],
    [0x00, 0x60, 0x60, 0x00, 0x00, 0x00],
    [0x20, 0x10, 0x08, 0x04, 0x02, 0x00],
    [0x3E, 0x51, 0x49, 0x45, 0x3E, 0x00],
    [0x00, 0x42, 0x7F, 0x40, 0x00, 0x00],
    [0x42, 0x61, 0x51, 0x49, 0x46, 0x00],
    [0x21, 0x41, 0x45, 0x4B, 0x31, 0x00],
    [0x18, 0x14, 0x12, 0x7F, 0x10, 0x00],
    [0x27, 0x45, 0x45, 0x45, 0x39, 0x00],
    [0x3C, 0x4A, 0x49, 0x49, 0x30, 0x00],
    [0x01, 0x71, 0x09, 0x05, 0x03, 0x00],
    [0x36, 0x49, 0x49, 0x49, 0x36, 0x00],
    [0x06, 0x49, 0x49, 0x29, 0x1E, 0x00],
    [0x00, 0x36, 0x36, 0x00, 0x00, 0x00],
    [0x00, 0x56, 0x36, 0x00, 0x00, 0x00],
    [0x08, 0x14, 0x22, 0x41, 0x00, 0x00],
    [0x14, 0x14, 0x14, 0x14, 0x14, 0x00],
    [0x00, 0x41, 0x22, 0x14, 0x08, 0x00],
    [0x02, 0x01, 0x51, 0x09, 0x06, 0x00],
    [0x32, 0x49, 0x79, 0x41, 0x3E, 0x00],
    [0x7E, 0x11, 0x11, 0x11, 0x7E, 0x00],
    [0x7F, 0x49, 0x49, 0x49, 0x36, 0x00],
    [0x3E, 0x41, 0x41, 0x41, 0x22, 0x00],
    [0x7F, 0x41, 0x41, 0x22, 0x1C, 0x00],
    [0x7F, 0x49, 0x49, 0x49, 0x41, 0x00],
    [0x7F, 0x09, 0x09, 0x09, 0x01, 0x00],
    [0x3E, 0x41, 0x49, 0x49, 0x7A, 0x00],
    [0x7F, 0x08, 0x08, 0x08, 0x7F, 0x00],
    [0x00, 0x41, 0x7F, 0x41, 0x00, 0x00],
    [0x20, 0x40, 0x41, 0x3F, 0x01, 0x00],
    [0x7F, 0x08, 0x14, 0x22, 0x41, 0x00],
    [0x7F, 0x40, 0x40, 0x40, 0x40, 0x00],
    [0x7F, 0x02, 0x0C, 0x02, 0x7F, 0x00],
    [0x7F, 0x04, 0x08, 0x10, 0x7F, 0x00],
    [0x3E, 0x41, 0x41, 0x41, 0x3E, 0x00],
    [0x7F, 0x09, 0x09, 0x09, 0x06, 0x00],
    [0x3E, 0x41, 0x51, 0x21, 0x5E, 0x00],
    [0x7F, 0x09, 0x19, 0x29, 0x46, 0x00],
    [0x46, 0x49, 0x49, 0x49, 0x31, 0x00],
    [0x01, 0x01, 0x7F, 0x01, 0x01, 0x00],
    [0x3F, 0x40, 0x40, 0x40, 0x3F, 0x00],
    [0x1F, 0x20, 0x40, 0x20, 0x1F, 0x00],
    [0x3F, 0x40, 0x38, 0x40, 0x3F, 0x00],
    [0x63, 0x14, 0x08, 0x14, 0x63, 0x00],
    [0x07, 0x08, 0x70, 0x08, 0x07, 0x00],
    [0x61, 0x51, 0x49, 0x45, 0x43, 0x00],
    [0x00, 0x7F, 0x41, 0x41, 0x00, 0x00],
    [0x02, 0x04, 0x08, 0x10, 0x20, 0x00],
    [0x00, 0x41, 0x41, 0x7F, 0x00, 0x00],
    [0x04, 0x02, 0x01, 0x02, 0x04, 0x00],
    [0x40, 0x40, 0x40, 0x40, 0x40, 0x00],
    [0x00, 0x01, 0x02, 0x04, 0x00, 0x00],
    [0x20, 0x54, 0x54, 0x54, 0x78, 0x00],
    [0x7F, 0x48, 0x44, 0x44, 0x38, 0x00],
    [0x38, 0x44, 0x44, 0x44, 0x20, 0x00],
    [0x38, 0x44, 0x44, 0x48, 0x7F, 0x00],
    [0x38, 0x54, 0x54, 0x54, 0x18, 0x00],
    [0x08, 0x7E, 0x09, 0x01, 0x02, 0x00],
    [0x0C, 0x52, 0x52, 0x52, 0x3E, 0x00],
    [0x7F, 0x08, 0x04, 0x04, 0x78, 0x00],
    [0x00, 0x44, 0x7D, 0x40, 0x00, 0x00],
    [0x20, 0x40, 0x44, 0x3D, 0x00, 0x00],
    [0x7F, 0x10, 0x28, 0x44, 0x00, 0x00],
    [0x00, 0x41, 0x7F, 0x40, 0x00, 0x00],
    [0x7C, 0x04, 0x18, 0x04, 0x78, 0x00],
    [0x7C, 0x08, 0x04, 0x04, 0x78, 0x00],
    [0x38, 0x44, 0x44, 0x44, 0x38, 0x00],
    [0x7C, 0x14, 0x14, 0x14, 0x08, 0x00],
    [0x08, 0x14, 0x14, 0x18, 0x7C, 0x00],
    [0x7C, 0x08, 0x04, 0x04, 0x08, 0x00],
    [0x48, 0x54, 0x54, 0x54, 0x20, 0x00],
    [0x04, 0x3F, 0x44, 0x40, 0x20, 0x00],
    [0x3C, 0x40, 0x40, 0x20, 0x7C, 0x00],
    [0x1C, 0x20, 0x40, 0x20, 0x1C, 0x00],
    [0x3C, 0x40, 0x30, 0x40, 0x3C, 0x00],
    [0x44, 0x28, 0x10, 0x28, 0x44, 0x00],
    [0x0C, 0x50, 0x50, 0x50, 0x3C, 0x00],
    [0x44, 0x64, 0x54, 0x4C, 0x44, 0x00],
    [0x00, 0x08, 0x36, 0x41, 0x00, 0x00],
    [0x00, 0x00, 0x7F, 0x00, 0x00, 0x00],
    [0x00, 0x41, 0x36, 0x08, 0x00, 0x00],
    [0x10, 0x08, 0x08, 0x10, 0x08, 0x00]]"

definition font_8x16 :: "bytes list" where
  "font_8x16 = [
    [0x00, 0x00, 0x00, 0x00, 0x00, 0x00, 0x00, 0x00, 0x00, 0x00, 0x00, 0x00, 0x00, 0x00, 0x00, 0x00],
    [0x00, 0x00, 0x00, 0xF8, 0x10, 0x00, 0x00, 0x00, 0x00, 0x00, 0x00, 0x23, 0x20, 0x00, 0x00, 0x00],
    [0x00, 0x00, 0x1C, 0x0C, 0x00, 0x1C, 0x00, 0x00, 0x00, 0x00, 0x00, 0x00, 0x00, 0x00, 0x00, 0x00],
    [0x40, 0x40, 0xF8, 0x40, 0x40, 0xF0, 0x40, 0x00, 0x04, 0x3F, 0x04, 0x04, 0x04, 0x3F, 0x04, 0x00],
    [0x00, 0x70, 0xD0, 0xF8, 0x08, 0x30, 0x00, 0x00, 0x00, 0x18, 0x20, 0x7F, 0x41, 0x36, 0x0C, 0x00],
    [0xF0, 0x08, 0xF8, 0x40, 0xE0, 0x10, 0x00, 0x00, 0x00, 0x31, 0x0D, 0x03, 0x3E, 0x21, 0x32, 0x0C],
    [0x00, 0x70, 0x88, 0x88, 0x70, 0x00, 0x00, 0x00, 0x1E, 0x21, 0x23, 0x2C, 0x19, 0x27, 0x20, 0x10],
    [0x00, 0x00, 0x00, 0x3E, 0x00, 0x00, 0x00, 0x00, 0x00, 0x00, 0x00, 0x00, 0x00, 0x00, 0x00, 0x00],
    [0x00, 0x00, 0x00, 0x80, 0x70, 0x0C, 0x04, 0x00, 0x00, 0x00, 0x00, 0x03, 0x1C, 0x60, 0x80, 0x00],
    [0x00, 0x04, 0x18, 0xE0, 0x00, 0x00, 0x00, 0x00, 0x00, 0x40, 0x30, 0x0F, 0x00, 0x00, 0x00, 0x00],
    [0x00, 0xC0, 0x80, 0x20, 0xE0, 0x80, 0xC0, 0x00, 0x00, 0x06, 0x02, 0x09, 0x0F, 0x02, 0x06, 0x04],
    [0x00, 0x00, 0x00, 0xC0, 0x00, 0x00, 0x00, 0x00, 0x00, 0x01, 0x01, 0x07, 0x01, 0x01, 0x01, 0x00],
    [0x00, 0x00, 0x00, 0x00, 0x00, 0x00, 0x00, 0x00, 0x00, 0x00, 0xB0, 0x70, 0x00, 0x00, 0x00, 0x00],
    [0x00, 0x00, 0x00, 0x00, 0x00, 0x00, 0x00, 0x00, 0x01, 0x01, 0x01, 0x01, 0x01, 0x01, 0x01, 0x00],
    [0x00, 0x00, 0x00, 0x00, 0x00, 0x00, 0x00, 0x00, 0x00, 0x20, 0x20, 0x00, 0x00, 0x00, 0x00, 0x00],
    [0x00, 0x00, 0x00, 0x00, 0xC0, 0x30, 0x08, 0x00, 0x40, 0x30, 0x0C, 0x03, 0x00, 0x00, 0x00, 0x00],
    [0x00, 0xE0, 0x10, 0x08, 0x08, 0x10, 0xE0, 0x00, 0x00, 0x0F, 0x30, 0x20, 0x20, 0x30, 0x0F, 0x00],
    [0x00, 0x00, 0x10, 0xF0, 0xF8, 0x00, 0x00, 0x00, 0x00, 0x00, 0x00, 0x3F, 0x3F, 0x00, 0x00, 0x00],
    [0x00, 0x70, 0x08, 0x08, 0x08, 0x90, 0x70, 0x00, 0x00, 0x30, 0x28, 0x24, 0x22, 0x21, 0x30, 0x00],
    [0x00, 0x30, 0x08, 0x08, 0x08, 0xF0, 0x00, 0x00, 0x00, 0x18, 0x20, 0x21, 0x21, 0x22, 0x1C, 0x00],
    [0x00, 0x00, 0x80, 0x60, 0x10, 0xF8, 0x00, 0x00, 0x04, 0x07, 0x04, 0x04, 0x24, 0x3F, 0x04, 0x00],
    [0x00, 0xF0, 0x08, 0x88, 0x88, 0x88, 0x08, 0x00, 0x00, 0x19, 0x21, 0x20, 0x20, 0x21, 0x1F, 0x00],
    [0x00, 0xE0, 0x10, 0x88, 0x88, 0x98, 0x10, 0x00, 0x00, 0x1F, 0x21, 0x20, 0x20, 0x20, 0x1F, 0x00],
    [0x00, 0x18, 0x08, 0x08, 0x88, 0x68, 0x18, 0x00, 0x00, 0x00, 0x00, 0x3E, 0x01, 0x00, 0x00, 0x00],
    [0x00, 0x70, 0x88, 0x08, 0x08, 0x90, 0x70, 0x00, 0x00, 0x1E, 0x21, 0x21, 0x21, 0x22, 0x1C, 0x00],
    [0x00, 0xF0, 0x08, 0x08, 0x08, 0x10, 0xE0, 0x00, 0x00, 0x31, 0x22, 0x22, 0x22, 0x19, 0x07, 0x00],
    [0x00, 0x00, 0x00, 0x00, 0x00, 0x00, 0x00, 0x00, 0x00, 0x00, 0x23, 0x23, 0x00, 0x00, 0x00, 0x00],
    [0x00, 0x00, 0x00, 0x00, 0x00, 0x00, 0x00, 0x00, 0x00, 0x00, 0x33, 0x73, 0x00, 0x00, 0x00, 0x00],
    [0x00, 0x00, 0x80, 0x40, 0x20, 0x10, 0x08, 0x00, 0x00, 0x01, 0x02, 0x04, 0x08, 0x10, 0x20, 0x00],
    [0x00, 0x80, 0x80, 0x80, 0x80, 0x80, 0x00, 0x00, 0x00, 0x02, 0x02, 0x02, 0x02, 0x02, 0x00, 0x00],
    [0x00, 0x08, 0x10, 0x20, 0x40, 0x80, 0x00, 0x00, 0x00, 0x20, 0x10, 0x08, 0x04, 0x02, 0x01, 0x00],
    [0x00, 0x70, 0x08, 0x08, 0x08, 0x88, 0xF0, 0x00, 0x00, 0x00, 0x00, 0x36, 0x21, 0x00, 0x00, 0x00],
    [0x00, 0xE0, 0x90, 0x48, 0x28, 0xE8, 0x70, 0x80, 0x00, 0x1F, 0x27, 0x28, 0x24, 0x2B, 0x16, 0x01],
    [0x00, 0x00, 0xE0, 0x18, 0xF0, 0x00, 0x00, 0x00, 0x00, 0x3E, 0x05, 0x04, 0x04, 0x0F, 0x30, 0x00],
    [0x08, 0xF8, 0x08, 0x08, 0x08, 0x90, 0x70, 0x00, 0x00, 0x3F, 0x21, 0x21, 0x21, 0x21, 0x1E, 0x00],
    [0x00, 0xE0, 0x10, 0x08, 0x08, 0x08, 0x10, 0x00, 0x03, 0x1F, 0x20, 0x20, 0x20, 0x20, 0x10, 0x00],
    [0x08, 0xF8, 0x08, 0x08, 0x08, 0x10, 0xE0, 0x00, 0x00, 0x3F, 0x20, 0x20, 0x20, 0x10, 0x0F, 0x00],
    [0x08, 0xF8, 0x08, 0x08, 0x08, 0xC8, 0x18, 0x00, 0x00, 0x3F, 0x21, 0x21, 0x21, 0x23, 0x30, 0x00],
    [0x08, 0xF8, 0x08, 0x08, 0x08, 0x08, 0x18, 0x20, 0x00, 0x3F, 0x01, 0x01, 0x01, 0x01, 0x00, 0x00],
    [0x80, 0xE0, 0x10, 0x08, 0x08, 0x10, 0x20, 0x00, 0x03, 0x1F, 0x20, 0x20, 0x22, 0x22, 0x1E, 0x02],
    [0x08, 0xF8, 0x08, 0x00, 0x00, 0x08, 0xF8, 0x08, 0x00, 0x3F, 0x01, 0x01, 0x01, 0x01, 0x3F, 0x00],
    [0x00, 0x08, 0x08, 0xF8, 0x08, 0x08, 0x00, 0x00, 0x00, 0x00, 0x20, 0x3F, 0x20, 0x00, 0x00, 0x00],
    [0x00, 0x00, 0x08, 0x08, 0x08, 0xF8, 0x08, 0x08, 0x00, 0x30, 0x20, 0x20, 0x10, 0x0F, 0x00, 0x00],
    [0x08, 0xF8, 0x08, 0xC0, 0x20, 0x18, 0x08, 0x00, 0x00, 0x3F, 0x01, 0x01, 0x06, 0x38, 0x20, 0x00],
    [0x08, 0xF8, 0x08, 0x00, 0x00, 0x00, 0x00, 0x00, 0x00, 0x3F, 0x20, 0x20, 0x20, 0x20, 0x30, 0x00],
    [0xC8, 0x38, 0xC0, 0x00, 0xC0, 0x30, 0xF8, 0x08, 0x3F, 0x00, 0x07, 0x38, 0x07, 0x00, 0x3F, 0x00],
    [0x08, 0xF8, 0x30, 0xC0, 0x00, 0x08, 0xF8, 0x08, 0x00, 0x3F, 0x00, 0x00, 0x03, 0x0C, 0x3F, 0x00],
    [0x00, 0xE0, 0x10, 0x08, 0x08, 0x10, 0xE0, 0x00, 0x00, 0x1F, 0x20, 0x20, 0x20, 0x20, 0x1F, 0x00],
    [0x08, 0xF8, 0x08, 0x08, 0x08, 0x10, 0xF0, 0x00, 0x00, 0x3F, 0x02, 0x02, 0x02, 0x01, 0x00, 0x00],
    [0x80, 0xF0, 0x10, 0x08, 0x08, 0x10, 0xE0, 0x00, 0x03, 0x1F, 0x28, 0x48, 0x58, 0x60, 0x5F, 0x00],
    [0x08, 0xF8, 0x08, 0x08, 0x08, 0x90, 0xF0, 0x00, 0x00, 0x3F, 0x21, 0x01, 0x03, 0x1C, 0x20, 0x00],
    [0x00, 0xF0, 0x88, 0x08, 0x08, 0x10, 0x30, 0x00, 0x00, 0x30, 0x20, 0x21, 0x21, 0x22, 0x1C, 0x00],
    [0x30, 0x08, 0x08, 0xF8, 0x08, 0x08, 0x18, 0x00, 0x00, 0x00, 0x00, 0x3F, 0x20, 0x00, 0x00, 0x00],
    [0x08, 0xF8, 0x08, 0x00, 0x00, 0x08, 0xF8, 0x08, 0x00, 0x1F, 0x20, 0x20, 0x20, 0x30, 0x0F, 0x00],
    [0x08, 0x38, 0xC8, 0x00, 0x00, 0xF8, 0x08, 0x08, 0x00, 0x00, 0x03, 0x3C, 0x0F, 0x00, 0x00, 0x00],
    [0x08, 0xF8, 0x00, 0x98, 0xE8, 0x00, 0xF8, 0x08, 0x00, 0x07, 0x3E, 0x01, 0x07, 0x1F, 0x00, 0x00],
    [0x00, 0x08, 0x78, 0x80, 0xC0, 0x38, 0x08, 0x00, 0x00, 0x30, 0x0C, 0x03, 0x06, 0x18, 0x20, 0x00],
    [0x08, 0x18, 0xE8, 0x00, 0x80, 0x78, 0x08, 0x08, 0x00, 0x00, 0x00, 0x3F, 0x21, 0x00, 0x00, 0x00],
    [0x00, 0x18, 0x08, 0x08, 0xC8, 0x68, 0x18, 0x00, 0x00, 0x30, 0x2C, 0x23, 0x20, 0x20, 0x30, 0x00],
    [0x00, 0x00, 0x00, 0xFE, 0x02, 0x02, 0x02, 0x00, 0x00, 0x00, 0x00, 0x7F, 0x40, 0x40, 0x00, 0x00],
    [0x00, 0x04, 0x38, 0xC0, 0x00, 0x00, 0x00, 0x00, 0x00, 0x00, 0x00, 0x00, 0x07, 0x18, 0x60, 0x00],
    [0x00, 0x02, 0x02, 0x02, 0xFE, 0x00, 0x00, 0x00, 0x00, 0x00, 0x40, 0x40, 0x7F, 0x00, 0x00, 0x00],
    [0x00, 0x00, 0x04, 0x02, 0x02, 0x04, 0x00, 0x00, 0x00, 0x00, 0x00, 0x00, 0x00, 0x00, 0x00, 0x00],
    [0x00, 0x00, 0x00, 0x00, 0x00, 0x00, 0x00, 0x00, 0x80, 0x80, 0x80, 0x80, 0x80, 0x80, 0x80, 0x80],
    [0x00, 0x02, 0x02, 0x04, 0x00, 0x00, 0x00, 0x00, 0x00, 0x00, 0x00, 0x00, 0x00, 0x00, 0x00, 0x00],
    [0x00, 0x00, 0x80, 0x80, 0x80, 0x80, 0x00, 0x00, 0x00, 0x39, 0x24, 0x24, 0x24, 0x1F, 0x20, 0x10],
    [0x08, 0xF8, 0x00, 0x80, 0x80, 0x80, 0x00, 0x00, 0x00, 0x3F, 0x21, 0x20, 0x20, 0x20, 0x1F, 0x00],
    [0x00, 0x00, 0x80, 0x80, 0x80, 0x80, 0x00, 0x00, 0x00, 0x1F, 0x20, 0x20, 0x20, 0x21, 0x10, 0x00],
    [0x00, 0x00, 0x80, 0x80, 0x80, 0x08, 0xF8, 0x00, 0x00, 0x1F, 0x20, 0x20, 0x20, 0x11, 0x3F, 0x20],
    [0x00, 0x00, 0x80, 0x80, 0x80, 0x80, 0x00, 0x00, 0x00, 0x1F, 0x24, 0x24, 0x24, 0x24, 0x17, 0x00],
    [0x00, 0x00, 0x80, 0xF0, 0x88, 0x08, 0x18, 0x00, 0x00, 0x00, 0x20, 0x3F, 0x20, 0x00, 0x00, 0x00],
    [0x00, 0x00, 0x80, 0x80, 0x80, 0x80, 0x80, 0x00, 0x00, 0xFF, 0x98, 0x98, 0xA8, 0xA7, 0xE0, 0x00],
    [0x08, 0xF8, 0x00, 0x80, 0x80, 0x80, 0x00, 0x00, 0x00, 0x3F, 0x01, 0x00, 0x00, 0x00, 0x3F, 0x00],
    [0x00, 0x00, 0x00, 0x98, 0x18, 0x00, 0x00, 0x00, 0x00, 0x00, 0x00, 0x3F, 0x20, 0x00, 0x00, 0x00],
    [0x00, 0x00, 0x00, 0x00, 0x80, 0x98, 0x00, 0x00, 0x00, 0x80, 0x80, 0x80, 0x80, 0x7F, 0x00, 0x00],
    [0x08, 0xF8, 0x00, 0x00, 0x00, 0x80, 0x00, 0x00, 0x00, 0x3F, 0x04, 0x02, 0x0D, 0x10, 0x20, 0x00],
    [0x00, 0x00, 0x08, 0xF8, 0x00, 0x00, 0x00, 0x00, 0x00, 0x00, 0x20, 0x3F, 0x20, 0x00, 0x00, 0x00],
    [0x00, 0x80, 0x80, 0x80, 0x80, 0x80, 0x80, 0x00, 0x00, 0x3F, 0x00, 0x3F, 0x20, 0x00, 0x3F, 0x00],
    [0x00, 0x80, 0x00, 0x80, 0x80, 0x80, 0x00, 0x00, 0x00, 0x3F, 0x01, 0x00, 0x00, 0x00, 0x3F, 0x00],
    [0x00, 0x00, 0x80, 0x80, 0x80, 0x80, 0x00, 0x00, 0x00, 0x1F, 0x20, 0x20, 0x20, 0x20, 0x1F, 0x00],
    [0x00, 0x80, 0x00, 0x80, 0x80, 0x80, 0x00, 0x00, 0x00, 0xFF, 0x21, 0x40, 0x40, 0x20, 0x1F, 0x00],
    [0x00, 0x00, 0x80, 0x80, 0x80, 0x00, 0x80, 0x00, 0x00, 0x1F, 0x20, 0x40, 0x20, 0x11, 0xFF, 0x00],
    [0x00, 0x80, 0x80, 0x00, 0x80, 0x80, 0x80, 0x00, 0x00, 0x20, 0x3F, 0x21, 0x00, 0x00, 0x00, 0x00],
    [0x00, 0x00, 0x80, 0x80, 0x80, 0x80, 0x00, 0x00, 0x00, 0x31, 0x22, 0x24, 0x24, 0x24, 0x19, 0x00],
    [0x00, 0x00, 0x80, 0xE0, 0x80, 0x00, 0x00, 0x00, 0x00, 0x00, 0x00, 0x3F, 0x20, 0x20, 0x10, 0x00],
    [0x00, 0x80, 0x00, 0x00, 0x00, 0x80, 0x80, 0x00, 0x00, 0x1F, 0x20, 0x20, 0x20, 0x10, 0x3F, 0x00],
    [0x00, 0x80, 0x80, 0x00, 0x00, 0x00, 0x80, 0x00, 0x00, 0x00, 0x07, 0x38, 0x1C, 0x03, 0x00, 0x00],
    [0x00, 0x80, 0x00, 0x80, 0x00, 0x00, 0x80, 0x00, 0x00, 0x0F, 0x38, 0x06, 0x0F, 0x3C, 0x03, 0x00],
    [0x00, 0x00, 0x80, 0x00, 0x00, 0x80, 0x00, 0x00, 0x00, 0x20, 0x19, 0x0A, 0x0F, 0x30, 0x20, 0x00],
    [0x00, 0x80, 0x80, 0x00, 0x00, 0x80, 0x80, 0x00, 0x00, 0x80, 0x87, 0x78, 0x1C, 0x03, 0x00, 0x00],
    [0x00, 0x80, 0x80, 0x80, 0x80, 0x80, 0x00, 0x00, 0x00, 0x21, 0x38, 0x2C, 0x22, 0x21, 0x10, 0x00],
    [0x00, 0x00, 0x00, 0x00, 0xFC, 0x02, 0x02, 0x00, 0x00, 0x00, 0x00, 0x00, 0x3F, 0x40, 0x00, 0x00],
    [0x00, 0x00, 0x00, 0x00, 0xFF, 0x00, 0x00, 0x00, 0x00, 0x00, 0x00, 0x00, 0xFF, 0x00, 0x00, 0x00],
    [0x00, 0x02, 0xFC, 0x00, 0x00, 0x00, 0x00, 0x00, 0x00, 0x00, 0x7E, 0x01, 0x00, 0x00, 0x00, 0x00],
    [0x00, 0x02, 0x02, 0x02, 0x04, 0x08, 0x04, 0x00, 0x00, 0x00, 0x00, 0x00, 0x00, 0x00, 0x00, 0x00]]"

definition label_can :: bytes where
  "label_can =
    [0xF8, 0x18, 0xE8, 0xE8, 0xE8, 0xD8, 0xF8, 0xF8, 0x1F, 0x1C, 0x1B, 0x1B, 0x1B, 0x1D, 0x1F, 0x1F]"

definition label_rf24 :: bytes where
  "label_rf24 =
    [0xF8, 0x08, 0xF8, 0xF8, 0xF8, 0xF8, 0xF8, 0xF8, 0x1F, 0x18, 0x1B, 0x1B, 0x1B, 0x1B, 0x1F, 0x1F]"

definition signal_levels :: "bytes list" where
  "signal_levels = [
    [0x00, 0x00, 0x00, 0x00, 0x10, 0x30, 0x60, 0xC0, 0x60, 0x30, 0x10, 0x00, 0x00, 0x00, 0x00, 0x00, 0x00, 0x00, 0x00, 0x00, 0x04, 0x06, 0x03, 0x01, 0x03, 0x06, 0x04, 0x00, 0x00, 0x00, 0x00, 0x00],
    [0x00, 0x00, 0x00, 0x00, 0x00, 0x00, 0x00, 0x00, 0x00, 0x00, 0x00, 0x00, 0x00, 0x00, 0x00, 0x00, 0x00, 0x00, 0x18, 0x18, 0x00, 0x00, 0x00, 0x00, 0x00, 0x00, 0x00, 0x00, 0x00, 0x00, 0x00, 0x00],
    [0x00, 0x00, 0x00, 0x00, 0x00, 0x00, 0x00, 0x00, 0x00, 0x00, 0x00, 0x00, 0x00, 0x00, 0x00, 0x00, 0x00, 0x00, 0x18, 0x18, 0x00, 0x1E, 0x1E, 0x00, 0x00, 0x00, 0x00, 0x00, 0x00, 0x00, 0x00, 0x00],
    [0x00, 0x00, 0x00, 0x00, 0x00, 0x00, 0x00, 0x00, 0x80, 0x80, 0x00, 0x00, 0x00, 0x00, 0x00, 0x00, 0x00, 0x00, 0x18, 0x18, 0x00, 0x1E, 0x1E, 0x00, 0x1F, 0x1F, 0x00, 0x00, 0x00, 0x00, 0x00, 0x00],
    [0x00, 0x00, 0x00, 0x00, 0x00, 0x00, 0x00, 0x00, 0x80, 0x80, 0x00, 0xE0, 0xE0, 0x00, 0x00, 0x00, 0x00, 0x00, 0x18, 0x18, 0x00, 0x1E, 0x1E, 0x00, 0x1F, 0x1F, 0x00, 0x1F, 0x1F, 0x00, 0x00, 0x00]]"

definition battery_levels :: "bytes list" where
  "battery_levels = [
    [0xF8, 0x08, 0x08, 0x08, 0x08, 0x08, 0x08, 0x08, 0x08, 0x08, 0x08, 0x08, 0x08, 0x08, 0x08, 0x08, 0x08, 0x08, 0x08, 0x08, 0x08, 0xF8, 0xE0, 0xE0, 0x1F, 0x10, 0x10, 0x10, 0x10, 0x10, 0x10, 0x10, 0x10, 0x10, 0x10, 0x10, 0x10, 0x10, 0x10, 0x10, 0x10, 0x10, 0x10, 0x10, 0x10, 0x1F, 0x07, 0x07],
    [0xF8, 0xF8, 0xF8, 0xF8, 0xF8, 0x08, 0x08, 0x08, 0x08, 0x08, 0x08, 0x08, 0x08, 0x08, 0x08, 0x08, 0x08, 0x08, 0x08, 0x08, 0x08, 0xF8, 0xE0, 0xE0, 0x1F, 0x1F, 0x1F, 0x1F, 0x1F, 0x10, 0x10, 0x10, 0x10, 0x10, 0x10, 0x10, 0x10, 0x10, 0x10, 0x10, 0x10, 0x10, 0x10, 0x10, 0x10, 0x1F, 0x07, 0x07],
    [0xF8, 0xF8, 0xF8, 0xF8, 0xF8, 0x08, 0xF8, 0xF8, 0xF8, 0xF8, 0x08, 0x08, 0x08, 0x08, 0x08, 0x08, 0x08, 0x08, 0x08, 0x08, 0x08, 0xF8, 0xE0, 0xE0, 0x1F, 0x1F, 0x1F, 0x1F, 0x1F, 0x10, 0x1F, 0x1F, 0x1F, 0x1F, 0x10, 0x10, 0x10, 0x10, 0x10, 0x10, 0x10, 0x10, 0x10, 0x10, 0x10, 0x1F, 0x07, 0x07],
    [0xF8, 0xF8, 0xF8, 0xF8, 0xF8, 0x08, 0xF8, 0xF8, 0xF8, 0xF8, 0x08, 0xF8, 0xF8, 0xF8, 0xF8, 0x08, 0x08, 0x08, 0x08, 0x08, 0x08, 0xF8, 0xE0, 0xE0, 0x1F, 0x1F, 0x1F, 0x1F, 0x1F, 0x10, 0x1F, 0x1F, 0x1F, 0x1F, 0x10, 0x1F, 0x1F, 0x1F, 0x1F, 0x10, 0x10, 0x10, 0x10, 0x10, 0x10, 0x1F, 0x07, 0x07],
    [0xF8, 0xF8, 0xF8, 0xF8, 0xF8, 0x08, 0xF8, 0xF8, 0xF8, 0xF8, 0x08, 0xF8, 0xF8, 0xF8, 0xF8, 0x08, 0xF8, 0xF8, 0xF8, 0xF8, 0x08, 0xF8, 0xE0, 0xE0, 0x1F, 0x1F, 0x1F, 0x1F, 0x1F, 0x10, 0x1F, 0x1F, 0x1F, 0x1F, 0x10, 0x1F, 0x1F, 0x1F, 0x1F, 0x10, 0x1F, 0x1F, 0x1F, 0x1F, 0x10, 0x1F, 0x07, 0x07]]"

definition icon_charging :: bytes where
  "icon_charging =
    [0x00, 0x00, 0x00, 0x00, 0x80, 0xC0, 0xE0, 0xB0, 0x90, 0x80, 0x00, 0x00, 0x00, 0x00, 0x00, 0x00, 0x00, 0x00, 0x00, 0x00, 0x00, 0x08, 0x0C, 0x06, 0x03, 0x01, 0x00, 0x00, 0x00, 0x00, 0x00, 0x00]"

section \<open>Shapes\<close>

lemma table_lengths: "length font_5x8 = 95" "length font_8x16 = 95" "length signal_levels = 5" "length battery_levels = 5"
  by (simp_all add: font_5x8_def font_8x16_def signal_levels_def battery_levels_def)

lemma table_rows:
  "list_all (\<lambda>r. length r = 6) font_5x8" "list_all (\<lambda>r. length r = 16) font_8x16"
  "list_all (\<lambda>r. length r = 32) signal_levels" "list_all (\<lambda>r. length r = 48) battery_levels"
  by (simp_all add: font_5x8_def font_8x16_def signal_levels_def battery_levels_def)

lemma table_row_lengths [simp]:
  "i < 95 \<Longrightarrow> length (font_5x8 ! i) = 6" "i < 95 \<Longrightarrow> length (font_8x16 ! i) = 16"
  "i < 5 \<Longrightarrow> length (signal_levels ! i) = 32" "i < 5 \<Longrightarrow> length (battery_levels ! i) = 48"
  using table_rows table_lengths by (simp_all add: list_all_length)

lemma icon_lengths [simp]: "length label_can = 16" "length label_rf24 = 16" "length icon_charging = 32"
  by (simp_all add: label_can_def label_rf24_def icon_charging_def)

end
