(* ===== verification/Display.thy ===== *)
theory Display
  imports Handset Display_Tables "HOL-Library.Signed_Division"
begin

text \<open>
  The handset's display, \<open>applications/mod_handler/src/display.c\<close>: blocks of pixels for a panel of 128 by 64 that
  the kernel's display driver takes, the text and number formats, and what each drawing call of theory Handset
  puts on the panel.  The mutex is held through each call, so a call is one step.
\<close>

section \<open>Blocks and the panel\<close>

record display_block =
  bk_x :: nat
  bk_y :: nat
  bk_w :: nat
  bk_h :: nat
  bk_data :: bytes

record display_config =
  ROW0_ASCII :: bool
  SCANNER_USE_8x16 :: bool
  SHOW_XYZ :: bool

definition display_write_buf :: "bool \<Rightarrow> nat \<Rightarrow> nat \<Rightarrow> nat \<Rightarrow> nat \<Rightarrow> bytes \<Rightarrow> display_block list" where
  "display_write_buf asleep x y w h data =
     (if asleep then [] else [\<lparr>bk_x = x, bk_y = y, bk_w = w, bk_h = h, bk_data = data\<rparr>])"

definition printable :: "char \<Rightarrow> char" where
  "printable ch = (if of_char ch < FONT_FIRST \<or> of_char ch > FONT_LAST then CHR ''?'' else ch)"

definition glyph_8x16 :: "char \<Rightarrow> bytes" where
  "glyph_8x16 ch = font_8x16 ! (of_char (printable ch) - FONT_FIRST)"

definition glyph_5x8 :: "char \<Rightarrow> bytes" where
  "glyph_5x8 ch = font_5x8 ! (of_char (printable ch) - FONT_FIRST)"

definition display_8x16_char :: "bool \<Rightarrow> char \<Rightarrow> nat \<Rightarrow> nat \<Rightarrow> display_block list" where
  "display_8x16_char asleep ch x y = display_write_buf asleep x y 8 16 (glyph_8x16 ch)"

definition display_5x8_char :: "bool \<Rightarrow> char \<Rightarrow> nat \<Rightarrow> nat \<Rightarrow> display_block list" where
  "display_5x8_char asleep ch x y = display_write_buf asleep x y 6 8 (glyph_5x8 ch)"

text \<open>
  The two loops of the padded strings: characters of width \<open>w\<close> while they fit before \<open>stop\<close> and the right edge,
  then blanks.  They answer the next column.
\<close>

fun text_loop :: "(char \<Rightarrow> nat \<Rightarrow> display_block list) \<Rightarrow> nat \<Rightarrow> nat \<Rightarrow> string \<Rightarrow> nat \<Rightarrow> display_block list \<times> nat" where
  "text_loop put w stop [] x = ([], x)"
| "text_loop put w stop (c # s) x =
     (if x + w \<le> stop \<and> x + w \<le> 128
      then case text_loop put w stop s (x + w) of (bs, x') \<Rightarrow> (put c x @ bs, x')
      else ([], x))"

function blank_loop :: "(char \<Rightarrow> nat \<Rightarrow> display_block list) \<Rightarrow> nat \<Rightarrow> nat \<Rightarrow> nat \<Rightarrow> display_block list \<times> nat" where
  "blank_loop put w stop x =
     (if 0 < w \<and> x + w \<le> stop \<and> x + w \<le> 128
      then case blank_loop put w stop (x + w) of (bs, x') \<Rightarrow> (put CHR '' '' x @ bs, x')
      else ([], x))"
  by pat_completeness auto
termination by (relation "measure (\<lambda>(d, w, e, x). 128 - x)") auto

declare blank_loop.simps [simp del]

definition display_8x16_str_pad :: "bool \<Rightarrow> string \<Rightarrow> nat \<Rightarrow> nat \<Rightarrow> nat \<Rightarrow> display_block list" where
  "display_8x16_str_pad asleep s x y width =
     (let put = (\<lambda>c x. display_8x16_char asleep c x y); stop = x + width
      in case text_loop put 8 stop s x of (bs, x) \<Rightarrow> bs @ fst (blank_loop put 8 stop x))"

definition display_5x8_str_pad :: "bool \<Rightarrow> string \<Rightarrow> nat \<Rightarrow> nat \<Rightarrow> nat \<Rightarrow> display_block list" where
  "display_5x8_str_pad asleep s x y width =
     (let put = (\<lambda>c x. display_5x8_char asleep c x y); stop = x + width
      in case text_loop put 6 stop s x of (bs, x) \<Rightarrow>
         case blank_loop put 6 stop x of (bs', x) \<Rightarrow>
           bs @ bs' @ (if stop > 126 \<and> x < 128 then display_write_buf asleep x y (128 - x) 8 (replicate (128 - x) 0) else []))"

section \<open>Numbers\<close>

text \<open>The difference of two's complement numbers of 32 bits: negating the least one gives itself.\<close>

definition neg32 :: "int \<Rightarrow> int" where
  "neg32 v = (if v = - (2 ^ 31) then v else - v)"

definition pad3 :: "int \<Rightarrow> string" where
  "pad3 i =
     (let s = int_string i
      in if i < 0 then (if length s < 3 then ''-0'' @ drop 1 s else s) else replicate (3 - length s) CHR ''0'' @ s)"

text \<open>C divides and takes remainders towards zero.\<close>

definition int_to_decimal_str :: "int \<Rightarrow> int \<Rightarrow> nat \<Rightarrow> string \<Rightarrow> string" where
  "int_to_decimal_str val valid len prefix =
     take (len - 1)
       (if valid = 0 then prefix @ '' --------''
        else if val < 0
        then prefix @ int_string (neg32 (neg32 val sdiv 1000)) @ ''.'' @ pad3 (neg32 val smod 1000) @ '' m''
        else prefix @ int_string (val sdiv 1000) @ ''.'' @ pad3 (val smod 1000) @ '' m'')"

section \<open>The drawing calls\<close>

text \<open>The panel is cleared line by line over the height the driver reports.\<close>

function clear_lines :: "bool \<Rightarrow> nat \<Rightarrow> nat \<Rightarrow> display_block list" where
  "clear_lines asleep height j =
     (if j < height then display_8x16_str_pad asleep '' '' 0 j 128 @ clear_lines asleep height (j + 16) else [])"
  by pat_completeness auto
termination by (relation "measure (\<lambda>(a, h, j). h - j)") auto

declare clear_lines.simps [simp del]

definition mod_display_clear :: "bool \<Rightarrow> nat \<Rightarrow> display_block list" where
  "mod_display_clear asleep y_resolution = clear_lines asleep y_resolution 0"

definition mod_display_rf24 :: "display_config \<Rightarrow> 'c handset \<Rightarrow> u8 \<Rightarrow> display_block list" where
  "mod_display_rf24 C h level =
     (let asleep = sleeping h; n = (if level > 4 then 4 else unat level)
      in if connect_type h \<noteq> RF24_TYPE then []
         else if ROW0_ASCII C
         then display_8x16_str_pad asleep ''24G'' 0 0 40 @ display_write_buf asleep 40 0 16 16 (signal_levels ! n) @
           display_8x16_char asleep CHR '' '' 56 0
         else display_write_buf asleep 0 0 8 16 label_rf24 @ display_write_buf asleep 8 0 16 16 (signal_levels ! n) @
           display_8x16_str_pad asleep '' '' 24 0 40)"

definition mod_display_can :: "display_config \<Rightarrow> 'c handset \<Rightarrow> display_block list" where
  "mod_display_can C h =
     (let asleep = sleeping h
      in if connect_type h \<noteq> CAN_TYPE then []
         else if ROW0_ASCII C then display_8x16_str_pad asleep ''CAN'' 0 0 64
         else display_write_buf asleep 0 0 8 16 label_can @ display_8x16_str_pad asleep '' '' 8 0 64)"

definition battery_index :: "u32 \<Rightarrow> nat" where
  "battery_index mv = (if mv \<ge> 3850 then 4 else if mv \<ge> 3750 then 3 else if mv \<ge> 3550 then 2 else if mv \<ge> 3400 then 1 else 0)"

definition mod_display_battery :: "'c handset \<Rightarrow> u32 \<Rightarrow> battery_status \<Rightarrow> display_block list" where
  "mod_display_battery h mv status =
     (let asleep = sleeping h; idx = battery_index mv
      in if status = BATTERY_STATUS_CHARGING
         then display_8x16_str_pad asleep '' '' 64 0 24 @ display_write_buf asleep 88 0 24 16 (battery_levels ! idx) @
           display_write_buf asleep 112 0 16 16 icon_charging
         else display_8x16_str_pad asleep '' '' 64 0 40 @ display_write_buf asleep 104 0 24 16 (battery_levels ! idx))"

definition mod_display_scanner :: "display_config \<Rightarrow> 'c handset \<Rightarrow> scanner_data \<Rightarrow> display_block list" where
  "mod_display_scanner C h s =
     (let asleep = sleeping h; line = (\<lambda>val valid prefix. int_to_decimal_str val valid 32 prefix);
          distance = line (laser_distance s) (laser_valid s) (if SCANNER_USE_8x16 C then ''Dis:'' else ''Distance:  '')
      in (if SCANNER_USE_8x16 C
          then display_5x8_str_pad asleep '' '' 0 16 128 @
            display_8x16_str_pad asleep (line (overbreak_value s) (overbreak_valid s) ''OB: '') 0 24 128 @
            display_8x16_str_pad asleep distance 0 40 128
          else display_5x8_str_pad asleep '' '' 0 16 128 @
            display_5x8_str_pad asleep (line (overbreak_value s) (overbreak_valid s) ''OverBreak: '') 0 24 128 @
            display_5x8_str_pad asleep distance 0 32 128) @
         (if SHOW_XYZ C
          then if SCANNER_USE_8x16 C
            then display_8x16_str_pad asleep (line (coord_x s) (coord_xy_valid s) ''X:'') 0 32 64 @
              display_8x16_str_pad asleep (line (coord_y s) (coord_xy_valid s) ''Y:'') 64 32 64 @
              display_8x16_str_pad asleep (line (coord_z s) (coord_z_valid s) ''Z:'') 0 48 128
            else display_5x8_str_pad asleep (line (coord_x s) (coord_xy_valid s) ''X axis:    '') 0 40 128 @
              display_5x8_str_pad asleep (line (coord_y s) (coord_xy_valid s) ''Y axis:    '') 0 48 128 @
              display_5x8_str_pad asleep (line (coord_z s) (coord_z_valid s) ''Z axis:    '') 0 56 128
          else if SCANNER_USE_8x16 C then display_5x8_str_pad asleep '' '' 0 56 128
            else display_5x8_str_pad asleep distance 0 40 128 @ display_8x16_str_pad asleep distance 0 48 128))"

definition mod_display_all :: "display_config \<Rightarrow> 'c handset \<Rightarrow> display_block list" where
  "mod_display_all C h =
     (if connect_type h = CAN_TYPE then mod_display_can C h else mod_display_rf24 C h (rssi h)) @
     mod_display_battery h (power_mv h) (battery h) @ mod_display_scanner C h (scanner h)"

text \<open>At start-up the button is read and everything drawn, if the display is there.\<close>

definition mod_display_init :: "display_config \<Rightarrow> bool \<Rightarrow> u8 \<Rightarrow> 'c handset \<Rightarrow> int \<times> 'c handset \<times> display_block list" where
  "mod_display_init C ready btn h =
     (if \<not> ready then (- 1, h, []) else (0, h\<lparr>h_button := btn\<rparr>, mod_display_all C (h\<lparr>h_button := btn\<rparr>)))"

text \<open>The drawing calls the handset's model records, drawn in the state of the moment.\<close>

fun draw_call :: "display_config \<Rightarrow> 'c handset \<Rightarrow> display_call \<Rightarrow> display_block list" where
  "draw_call C h (Show_rf24 level) = mod_display_rf24 C h level"
| "draw_call C h Show_can = mod_display_can C h"
| "draw_call C h (Show_battery mv status) = mod_display_battery h mv status"
| "draw_call C h (Show_scanner s) = mod_display_scanner C h s"
| "draw_call C h Show_all = mod_display_all C h"
| "draw_call C h Reinit = []"

end
