(* ===== verification/Display_Props.thy ===== *)
theory Display_Props
  imports Display Handset_Props
begin

text \<open>
  What the handset shows: every block lies on the panel; the lines of the scanner's data appear whole, padded with
  blanks over what was there; and the numbers read back as the millimetres they came from.
\<close>

section \<open>Text lines\<close>

text \<open>The blocks of a row of characters, and the characters a padded string of \<open>n\<close> cells shows.\<close>

fun row_blocks :: "(char \<Rightarrow> nat \<Rightarrow> display_block list) \<Rightarrow> nat \<Rightarrow> nat \<Rightarrow> string \<Rightarrow> display_block list" where
  "row_blocks put w x [] = []"
| "row_blocks put w x (c # cs) = put c x @ row_blocks put w (x + w) cs"

definition padded :: "nat \<Rightarrow> string \<Rightarrow> string" where
  "padded n s = take n (s @ replicate n CHR '' '')"

lemma length_padded [simp]: "length (padded n s) = n" by (simp add: padded_def)

lemma padded_simps [simp]: "padded 0 s = []" "padded (Suc n) (c # s) = c # padded n s" "padded n [] = replicate n CHR '' ''"
  by (simp_all add: padded_def replicate_append_same [symmetric] del: replicate_Suc)

text \<open>The cells from \<open>x\<close> on that end before \<open>stop\<close> and the right edge.\<close>

definition cells :: "nat \<Rightarrow> nat \<Rightarrow> nat \<Rightarrow> nat" where
  "cells w stop x = (min stop 128 - x) div w"

lemma cells_Suc: "0 < w \<Longrightarrow> x + w \<le> stop \<Longrightarrow> x + w \<le> 128 \<Longrightarrow> cells w stop x = Suc (cells w stop (x + w))"
proof -
  assume h: "0 < w" "x + w \<le> stop" "x + w \<le> 128"
  then have "min stop 128 - x = (min stop 128 - (x + w)) + w" by simp
  moreover have "(n + w) div w = Suc (n div w)" for n
    using div_add_self2 [of w n] h(1) by (metis Suc_eq_plus1 less_not_refl)
  ultimately show ?thesis by (simp only: cells_def)
qed

lemma cells_0: "0 < w \<Longrightarrow> \<not> (x + w \<le> stop \<and> x + w \<le> 128) \<Longrightarrow> cells w stop x = 0"
  by (auto simp: cells_def)

lemma blank_loop_row:
  assumes "0 < w"
  shows "blank_loop put w stop x = (row_blocks put w x (replicate (cells w stop x) CHR '' ''), x + cells w stop x * w)"
proof (induction "128 - x" arbitrary: x rule: less_induct)
  case less
  show ?case
  proof (cases "x + w \<le> stop \<and> x + w \<le> 128")
    case True
    then have "blank_loop put w stop (x + w) = (row_blocks put w (x + w) (replicate (cells w stop (x + w)) CHR '' ''),
        x + w + cells w stop (x + w) * w)" using less [of "x + w"] assms by auto
    then show ?thesis using True assms cells_Suc [of w x stop] by (simp add: blank_loop.simps [of put w stop x])
  next
    case False
    then have "blank_loop put w stop x = ([], x)" by (subst blank_loop.simps) auto
    then show ?thesis using cells_0 [OF assms False] by simp
  qed
qed

lemma text_blank_row:
  assumes "0 < w"
  shows "text_loop put w stop s x = (bs, x1) \<Longrightarrow> blank_loop put w stop x1 = (bs', x2) \<Longrightarrow>
    bs @ bs' = row_blocks put w x (padded (cells w stop x) s) \<and> x2 = x + cells w stop x * w"
proof (induction s arbitrary: x bs)
  case Nil
  then show ?case using blank_loop_row [OF assms, of put stop x] by auto
next
  case (Cons c s)
  show ?case
  proof (cases "x + w \<le> stop \<and> x + w \<le> 128")
    case True
    obtain b y where t: "text_loop put w stop s (x + w) = (b, y)" by (cases "text_loop put w stop s (x + w)")
    then have "bs = put c x @ b" "y = x1" using Cons.prems(1) True by auto
    then show ?thesis using Cons.IH [of "x + w" b] Cons.prems(2) t cells_Suc [OF assms] True by auto
  next
    case False
    then show ?thesis using Cons.prems cells_0 [OF assms False] blank_loop_row [OF assms, of put stop x] by auto
  qed
qed

lemma pad_8x16:
  "display_8x16_str_pad asleep s x y width =
     row_blocks (\<lambda>c x. display_8x16_char asleep c x y) 8 x (padded (cells 8 (x + width) x) s)"
proof -
  let ?put = "\<lambda>c x. display_8x16_char asleep c x y"
  obtain bs x1 bs' x2 where r: "text_loop ?put 8 (x + width) s x = (bs, x1)" "blank_loop ?put 8 (x + width) x1 = (bs', x2)"
    by (metis prod.exhaust)
  then show ?thesis using text_blank_row [OF _ r] by (simp add: display_8x16_str_pad_def Let_def)
qed

lemma pad_5x8:
  "display_5x8_str_pad asleep s x y width =
     row_blocks (\<lambda>c x. display_5x8_char asleep c x y) 6 x (padded (cells 6 (x + width) x) s) @
     (let e = x + cells 6 (x + width) x * 6
      in if x + width > 126 \<and> e < 128 then display_write_buf asleep e y (128 - e) 8 (replicate (128 - e) 0) else [])"
proof -
  let ?put = "\<lambda>c x. display_5x8_char asleep c x y"
  obtain bs x1 bs' x2 where r: "text_loop ?put 6 (x + width) s x = (bs, x1)" "blank_loop ?put 6 (x + width) x1 = (bs', x2)"
    by (metis prod.exhaust)
  then show ?thesis using text_blank_row [OF _ r] by (simp add: display_5x8_str_pad_def Let_def flip: append_assoc)
qed

section \<open>Every block lies on the panel\<close>

definition on_panel :: "display_block \<Rightarrow> bool" where
  "on_panel b \<longleftrightarrow> bk_x b + bk_w b \<le> 128 \<and> bk_y b + bk_h b \<le> 64 \<and> 8 dvd bk_y b \<and> 8 dvd bk_h b \<and>
     length (bk_data b) = bk_w b * (bk_h b div 8)"

definition all_on :: "display_block list \<Rightarrow> bool" where
  "all_on bs \<longleftrightarrow> (\<forall>b \<in> set bs. on_panel b)"

lemma all_on_simps [simp]: "all_on []" "all_on (xs @ ys) = (all_on xs \<and> all_on ys)" by (auto simp: all_on_def)

lemma printable_glyph: "of_char (printable c) - FONT_FIRST < 95"
  by (auto simp: printable_def FONT_FIRST_def FONT_LAST_def)

lemma row_blocks_all:
  assumes "\<And>c x'. c \<in> set cs \<Longrightarrow> x' + w \<le> x + w * length cs \<Longrightarrow> all_on (put c x')"
  shows "all_on (row_blocks put w x cs)"
  using assms
proof (induction cs arbitrary: x)
  case (Cons c cs)
  have "all_on (row_blocks put w (x + w) cs)" using Cons.prems by (intro Cons.IH) (auto simp: add.assoc)
  then show ?case using Cons.prems [of c x] by simp
qed simp

lemma cells_fit: "x \<le> 128 \<Longrightarrow> x + w * cells w stop x \<le> 128"
proof -
  have "w * cells w stop x \<le> min stop 128 - x" using div_times_less_eq_dividend [of "min stop 128 - x" w] by (simp add: cells_def mult.commute)
  also have "\<dots> \<le> 128 - x" by simp
  finally show "x \<le> 128 \<Longrightarrow> ?thesis" by simp
qed

lemma write_on_panel [simp]:
  "x + w \<le> 128 \<Longrightarrow> y + h \<le> 64 \<Longrightarrow> 8 dvd y \<Longrightarrow> 8 dvd h \<Longrightarrow> length data = w * (h div 8) \<Longrightarrow>
   all_on (display_write_buf asleep x y w h data)"
  by (simp add: display_write_buf_def on_panel_def all_on_def)

lemma glyph_lengths [simp]: "length (glyph_8x16 c) = 16" "length (glyph_5x8 c) = 6"
  using printable_glyph [of c] by (simp_all add: glyph_8x16_def glyph_5x8_def)

lemma pad8_on_panel [simp]:
  assumes "x \<le> 128" and "y + 16 \<le> 64" and "8 dvd y"
  shows "all_on (display_8x16_str_pad asleep s x y width)"
  unfolding pad_8x16
proof (rule row_blocks_all)
  fix c x' assume "x' + 8 \<le> x + 8 * length (padded (cells 8 (x + width) x) s)"
  then have "x' + 8 \<le> 128" using cells_fit [OF assms(1), of 8 "x + width"] by simp
  then show "all_on (display_8x16_char asleep c x' y)"
    using assms by (simp add: display_8x16_char_def)
qed

lemma pad5_on_panel [simp]:
  assumes "x \<le> 128" and "y + 8 \<le> 64" and "8 dvd y"
  shows "all_on (display_5x8_str_pad asleep s x y width)"
proof -
  have "all_on (row_blocks (\<lambda>c x. display_5x8_char asleep c x y) 6 x (padded (cells 6 (x + width) x) s))"
  proof (rule row_blocks_all)
    fix c x' assume "x' + 6 \<le> x + 6 * length (padded (cells 6 (x + width) x) s)"
    then have "x' + 6 \<le> 128" using cells_fit [OF assms(1), of 6 "x + width"] by simp
    then show "all_on (display_5x8_char asleep c x' y)"
      using assms by (simp add: display_5x8_char_def)
  qed
  then show ?thesis using assms by (simp add: pad_5x8 Let_def)
qed

lemma calls_on_panel:
  "all_on (mod_display_rf24 C h l)" "all_on (mod_display_can C h)" "all_on (mod_display_battery h mv st)"
    "all_on (mod_display_scanner C h d)"
proof -
  have level: "(if l > 4 then 4 else unat l) < 5" by (simp add: not_less word_le_nat_alt)
  have idx: "battery_index mv < 5" by (simp add: battery_index_def)
  show "all_on (mod_display_rf24 C h l)" using level by (simp add: mod_display_rf24_def Let_def display_8x16_char_def)
  show "all_on (mod_display_can C h)" by (simp add: mod_display_can_def Let_def)
  show "all_on (mod_display_battery h mv st)" using idx by (simp add: mod_display_battery_def Let_def)
  show "all_on (mod_display_scanner C h d)" by (simp add: mod_display_scanner_def Let_def)
qed

text \<open>
  whatever is drawn, in every configuration and state, each block lies inside the panel of 128 by 64, starts and
  ends at a multiple of eight lines, and brings exactly the bytes of its size.
\<close>

theorem display_inside:
  "\<forall>b \<in> set (draw_call C h c). on_panel b"
  unfolding all_on_def [symmetric] by (cases c) (simp_all add: calls_on_panel mod_display_all_def)

section \<open>What is seen\<close>

text \<open>The panel is eight pages of 128 columns of eight pixels; a block replaces its columns in each of its pages.\<close>

definition put_block :: "display_block \<Rightarrow> bytes list \<Rightarrow> bytes list" where
  "put_block b fb = fold (\<lambda>j fb. fb[bk_y b div 8 + j :=
       mem_put (bk_x b) (take (bk_w b) (drop (j * bk_w b) (bk_data b))) (fb ! (bk_y b div 8 + j))]) [0..<bk_h b div 8] fb"

definition shown :: "display_block list \<Rightarrow> bytes list \<Rightarrow> bytes list" where
  "shown bs fb = fold put_block bs fb"

lemma shown_append [simp]: "shown (xs @ ys) fb = shown ys (shown xs fb)" by (simp add: shown_def)

text \<open>A line of 21 characters of six columns and two empty columns.\<close>

definition line_5x8 :: "string \<Rightarrow> bytes" where
  "line_5x8 s = concat (map (glyph_5x8) (padded 21 s)) @ [0, 0]"

lemma shown_row:
  assumes "p < length fb"
  shows "x + 6 * length cs \<le> length (fb ! p) \<Longrightarrow>
    shown (row_blocks (\<lambda>c x. display_5x8_char False c x (8 * p)) 6 x cs) fb =
      fb[p := mem_put x (concat (map (glyph_5x8) cs)) (fb ! p)]"
  using assms(1)
proof (induction cs arbitrary: x fb)
  case Nil
  then show ?case by (simp add: shown_def)
next
  case (Cons c cs)
  let ?g = "glyph_5x8 c"
  have g: "length ?g = 6" by simp
  have one: "shown (display_5x8_char False c x (8 * p)) fb = fb[p := mem_put x ?g (fb ! p)]"
    using g by (simp add: shown_def display_5x8_char_def display_write_buf_def put_block_def)
  have "shown (row_blocks (\<lambda>c x. display_5x8_char False c x (8 * p)) 6 (x + 6) cs) (fb[p := mem_put x ?g (fb ! p)]) =
      fb[p := mem_put (x + 6) (concat (map (glyph_5x8) cs)) (mem_put x ?g (fb ! p))]"
    using Cons.IH [of "x + 6" "fb[p := mem_put x ?g (fb ! p)]"] Cons.prems g by simp
  then show ?case using one Cons.prems g mem_put_twice [of x ?g "fb ! p" "concat (map (glyph_5x8) cs)"] by simp
qed

lemma length_glyphs: "length (concat (map (glyph_5x8) cs)) = 6 * length cs"
  by (induction cs) simp_all

lemma shown_line:
  assumes "p < length fb" and "length (fb ! p) = 128"
  shows "shown (display_5x8_str_pad False s 0 (8 * p) 128) fb = fb[p := line_5x8 s]"
proof -
  let ?cs = "padded 21 s" let ?g = "concat (map (glyph_5x8) ?cs)"
  have n: "cells 6 128 0 = 21" by (simp add: cells_def)
  have tail: "shown (display_write_buf False 126 (8 * p) 2 8 [0, 0]) (fb[p := r]) = fb[p := mem_put 126 [0, 0] r]" for r
    using assms(1) by (simp add: shown_def display_write_buf_def put_block_def)
  have two: "replicate (Suc (Suc 0)) (0 :: u8) = [0, 0]" by simp
  have len: "length ?g = 126" using length_glyphs [of ?cs] by simp
  have "shown (display_5x8_str_pad False s 0 (8 * p) 128) fb = fb[p := mem_put 126 [0, 0] (mem_put 0 ?g (fb ! p))]"
    using shown_row [OF assms(1), of 0 ?cs] assms(2) tail by (simp add: pad_5x8 n numeral_2_eq_2)
  also have "mem_put 126 [0, 0] (mem_put 0 ?g (fb ! p)) = line_5x8 s"
    using len assms(2) by (simp add: mem_put_def line_5x8_def)
  finally show ?thesis .
qed

text \<open>
  C35: in the configuration with small letters and coordinates, the scanner's data fill the lower six pages, whatever
  was there: a blank line and the five labelled values, each padded with blanks to the edge; the status line is left
  alone.  Asleep, nothing is drawn.
\<close>

theorem scanner_lines_shown:
  assumes "length fb = 8" and "\<forall>r \<in> set fb. length r = 128" and "\<not> SCANNER_USE_8x16 C" and "SHOW_XYZ C"
  shows "shown (mod_display_scanner C h s) fb =
    (if sleeping h then fb
     else take 2 fb @ map (line_5x8)
       ['' '', int_to_decimal_str (overbreak_value s) (overbreak_valid s) 32 ''OverBreak: '',
        int_to_decimal_str (laser_distance s) (laser_valid s) 32 ''Distance:  '',
        int_to_decimal_str (coord_x s) (coord_xy_valid s) 32 ''X axis:    '',
        int_to_decimal_str (coord_y s) (coord_xy_valid s) 32 ''Y axis:    '',
        int_to_decimal_str (coord_z s) (coord_z_valid s) 32 ''Z axis:    ''])"
proof (cases "sleeping h")
  case True
  have none: "row_blocks (\<lambda>c x. display_5x8_char True c x y) w x cs = []" for y w x cs
    by (induction cs arbitrary: x) (simp_all add: display_5x8_char_def display_write_buf_def)
  then have "display_5x8_str_pad True t x y w = []" for t x y w
    by (simp add: pad_5x8 none display_write_buf_def Let_def)
  then show ?thesis using True assms(3,4) by (simp add: mod_display_scanner_def Let_def shown_def)
next
  case False
  obtain r0 r1 r2 r3 r4 r5 r6 r7 where fb: "fb = [r0, r1, r2, r3, r4, r5, r6, r7]"
    using assms(1) by (auto simp: length_Suc_conv eval_nat_numeral)
  have line: "shown (display_5x8_str_pad False t 0 y 128) f = f[y div 8 := line_5x8 t]"
    if "y div 8 < length f" "length (f ! (y div 8)) = 128" "8 dvd y" for t y f
    using shown_line [OF that(1,2), of t] that(3) by simp
  show ?thesis using False assms(2-4) by (simp add: mod_display_scanner_def Let_def fb line)
qed

section \<open>Numbers\<close>

text \<open>Reading a shown number: its sign, and its digits as thousandths.\<close>

definition read_digit :: "char \<Rightarrow> nat \<Rightarrow> nat" where
  "read_digit c n = (if 48 \<le> (of_char c :: nat) \<and> (of_char c :: nat) \<le> 57 then 10 * n + (of_char c - 48) else n)"

definition read_number :: "string \<Rightarrow> int" where
  "read_number s = (if take 1 s = ''-'' then - int (fold read_digit s 0) else int (fold read_digit s 0))"

lemma read_digit_dig [simp]: "d < 10 \<Longrightarrow> read_digit (char_of (48 + d)) n = 10 * n + d"
  by (simp add: read_digit_def)

lemma read_dec: "fold read_digit (dec_string n) 0 = n"
proof (induction n rule: less_induct)
  case (less n)
  then show ?case by (cases "n < 10") (simp_all add: dec_string.simps [of n])
qed

lemma dec_first: "take 1 (dec_string n @ s) \<noteq> ''-''"
proof -
  have "\<exists>d r. d < (10 :: nat) \<and> dec_string n = char_of (48 + d) # r"
  proof (induction n rule: less_induct)
    case (less n)
    show ?case
    proof (cases "n < 10")
      case True
      then show ?thesis by (auto simp: dec_string.simps [of n])
    next
      case False
      then obtain d :: nat and r where "d < 10" "dec_string (n div 10) = char_of (48 + d) # r" using less [of "n div 10"] by auto
      then show ?thesis using False by (intro exI [of _ d]) (simp add: dec_string.simps [of n])
    qed
  qed
  then obtain d :: nat and r where d: "d < 10" "dec_string n = char_of (48 + d) # r" by blast
  have "char_of (48 + d) \<noteq> CHR ''-''"
  proof
    assume "char_of (48 + d) = CHR ''-''"
    then have "of_char (char_of (48 + d)) = (of_char CHR ''-'' :: nat)" by simp
    then show False using d(1) by simp
  qed
  then show ?thesis using d(2) by simp
qed

lemma read_pad3:
  assumes "0 \<le> i" and "i < 1000"
  shows "fold read_digit (pad3 i) n = 1000 * n + nat i"
proof -
  define k where "k = nat i"
  have k: "i = int k" "k < 1000" using assms by (simp_all add: k_def)
  have z: "read_digit CHR ''0'' m = 10 * m" for m by (simp add: read_digit_def)
  have three: "pad3 i = [char_of (48 + k div 100), char_of (48 + k div 10 mod 10), char_of (48 + k mod 10)]"
  proof -
    have zero: "char_of (48 :: nat) = CHR ''0''" by code_simp
    have one: "dec_string m = [char_of (48 + m)]" if "m < 10" for m using that by (simp add: dec_string.simps [of m])
    have more: "dec_string m = dec_string (m div 10) @ [char_of (48 + m mod 10)]" if "\<not> m < 10" for m
      using that by (simp add: dec_string.simps [of m])
    consider "k < 10" | "\<not> k < 10" "k div 10 < 10" | "\<not> k < 10" "\<not> k div 10 < 10" "k div 10 div 10 < 10" using k(2) by linarith
    then show ?thesis
    proof cases
      case 1
      then show ?thesis by (simp add: pad3_def int_string_def k(1) one zero numeral_2_eq_2)
    next
      case 2
      moreover have "k div 100 = 0" using 2 by simp
      ultimately show ?thesis by (simp add: pad3_def int_string_def k(1) one more zero numeral_2_eq_2)
    next
      case 3
      then show ?thesis
        by (simp add: pad3_def int_string_def k(1) more [of k] more [of "k div 10"] one [of "k div 100"] flip: div_mult2_eq)
    qed
  qed
  have "10 * (10 * (k div 100) + k div 10 mod 10) + k mod 10 = k"
  proof -
    have "k div 100 = k div 10 div 10" by (simp flip: div_mult2_eq)
    then show ?thesis by presburger
  qed
  then have "100 * (k div 100) + 10 * (k div 10 mod 10) + k mod 10 = nat i" using k(1) by simp
  moreover have "k div 100 < 10" using k(2) by simp
  ultimately show ?thesis unfolding three by simp
qed

lemma length_dec: "n < 10 ^ k \<Longrightarrow> 0 < k \<Longrightarrow> length (dec_string n) \<le> k"
proof (induction k arbitrary: n)
  case (Suc k)
  show ?case
  proof (cases "n < 10")
    case True
    then show ?thesis by (simp add: dec_string.simps [of n])
  next
    case False
    then have "n div 10 < 10 ^ k" "0 < k" using Suc.prems by (auto intro: gr0I)
    then show ?thesis using Suc.IH [of "n div 10"] False by (simp add: dec_string.simps [of n])
  qed
qed simp

lemma decimal_text:
  assumes "0 \<le> n" and "n \<le> 2147483648"
  shows "fold read_digit (int_string (n div 1000) @ ''.'' @ pad3 (n mod 1000) @ '' m'') 0 = nat n"
    and "length (int_string (n div 1000) @ ''.'' @ pad3 (n mod 1000) @ '' m'') \<le> 13"
proof -
  have skip: "read_digit CHR ''.'' m = m" "read_digit CHR '' '' m = m" "read_digit CHR ''m'' m = m" for m
    by (simp_all add: read_digit_def)
  have q: "int_string (n div 1000) = dec_string (nat n div 1000)" using assms by (simp add: int_string_def nat_div_distrib)
  have "1000 * (nat n div 1000) + nat (n mod 1000) = nat n" using assms(1) by (simp add: nat_mod_distrib)
  then show "fold read_digit (int_string (n div 1000) @ ''.'' @ pad3 (n mod 1000) @ '' m'') 0 = nat n"
    by (simp add: q read_dec read_pad3 skip)
  have "nat n div 1000 < 10 ^ 7" using assms by simp
  then have "length (dec_string (nat n div 1000)) \<le> 7" by (rule length_dec) simp
  moreover have "length (pad3 (n mod 1000)) = 3"
  proof -
    have "0 \<le> n mod 1000" "n mod 1000 < 1000" by simp_all
    then have "int_string (n mod 1000) = dec_string (nat (n mod 1000))" "nat (n mod 1000) < 10 ^ 3" by (simp_all add: int_string_def)
    then have "length (int_string (n mod 1000)) \<le> 3" using length_dec [of "nat (n mod 1000)" 3] by simp
    moreover have neg: "\<not> n mod 1000 < 0" by (simp add: not_less)
    ultimately show ?thesis unfolding pad3_def Let_def if_not_P [OF neg] by simp
  qed
  ultimately show "length (int_string (n div 1000) @ ''.'' @ pad3 (n mod 1000) @ '' m'') \<le> 13" by (simp add: q)
qed

lemma towards_zero: "0 \<le> i \<Longrightarrow> i sdiv 1000 = i div 1000 \<and> i smod 1000 = i mod (1000 :: int)"
  by (cases "i = 0") (simp_all add: signed_divide_int_def signed_modulo_int_def minus_div_mult_eq_mod)

text \<open>
  a valid value is shown so that it reads back: sign, metres and three decimals, whole in the line's buffer, for
  every value that is not negative or at least a metre below zero, but the least.
\<close>

theorem shown_number:
  assumes "valid \<noteq> 0" and "- (2 ^ 31) < val" and "val < 2 ^ 31" and "val \<le> - 1000 \<or> 0 \<le> val" and "length prefix \<le> 16"
  shows "\<exists>t. int_to_decimal_str val valid 32 prefix = prefix @ t @ '' m'' \<and> read_number t = val"
proof -
  define n where "n = \<bar>val\<bar>"
  have n: "0 \<le> n" "n \<le> 2147483648" using assms(2,3) by (simp_all add: n_def)
  let ?t = "int_string (n div 1000) @ ''.'' @ pad3 (n mod 1000)"
  have skip: "read_digit CHR '' '' m = m" "read_digit CHR ''m'' m = m" "read_digit CHR ''-'' m = m" for m
    by (simp_all add: read_digit_def)
  have reads: "fold read_digit ?t 0 = nat n" using decimal_text(1) [OF n] by (simp add: skip)
  have len: "length ?t \<le> 11" using decimal_text(2) [OF n] by simp
  have first: "take 1 ?t \<noteq> ''-''" using n dec_first [of "nat (n div 1000)"] by (simp add: int_string_def)
  show ?thesis
  proof (cases "val < 0")
    case False
    then have v: "val = n" "int_to_decimal_str val valid 32 prefix = take 31 (prefix @ ?t @ '' m'')"
      using assms(1) by (simp_all add: n_def int_to_decimal_str_def towards_zero)
    moreover have "length (prefix @ ?t @ '' m'') \<le> 31" using len assms(5) by simp
    ultimately show ?thesis using reads first n False by (intro exI [of _ ?t]) (simp add: read_number_def)
  next
    case True
    then have v: "val = - n" "neg32 val = n" using assms(2) by (simp_all add: n_def neg32_def)
    have big: "1000 \<le> n" using assms(4) True by (simp add: n_def)
    then have "1 \<le> n div 1000" "n div 1000 \<le> n" using zdiv_mono1 [of 1000 n 1000] zdiv_mono2 [of n 1 1000] n by simp_all
    then have "int_string (neg32 (n div 1000)) = ''-'' @ int_string (n div 1000)"
      using n by (simp add: neg32_def int_string_def)
    then have "int_to_decimal_str val valid 32 prefix = take 31 (prefix @ (''-'' @ ?t) @ '' m'')"
      using assms(1) True v(2) n by (simp add: int_to_decimal_str_def towards_zero)
    moreover have "length (prefix @ (''-'' @ ?t) @ '' m'') \<le> 31" using len assms(5) by simp
    ultimately show ?thesis using reads v n by (intro exI [of _ "''-'' @ ?t"]) (simp add: read_number_def skip)
  qed
qed

section \<open>Concrete drawings\<close>

definition demo_panel :: "unit handset" where
  "demo_panel = (hs_static (nrf24_static ()))\<lparr>connect_type := RF24_TYPE, power_mv := 3800\<rparr>"

lemma display_inside_witness:
  "\<forall>b \<in> set (draw_call \<lparr>ROW0_ASCII = False, SCANNER_USE_8x16 = True, SHOW_XYZ = True\<rparr> demo_panel Show_all). on_panel b"
  by (rule display_inside)

definition demo_scan :: scanner_data where
  "demo_scan = \<lparr>overbreak_valid = 1, overbreak_value = - 1250, laser_valid = 1, laser_distance = 12345,
     coord_xy_valid = 1, coord_x = 5, coord_y = 60, coord_z_valid = 0, coord_z = 7\<rparr>"

lemma demo_texts:
  "int_to_decimal_str (- 1250) 1 32 ''OverBreak: '' = ''OverBreak: -1.250 m''"
  "int_to_decimal_str 12345 1 32 ''Distance:  '' = ''Distance:  12.345 m''"
  "int_to_decimal_str 5 1 32 ''X axis:    '' = ''X axis:    0.005 m''"
  "int_to_decimal_str 60 1 32 ''Y axis:    '' = ''Y axis:    0.060 m''"
  "int_to_decimal_str 7 0 32 ''Z axis:    '' = ''Z axis:     --------''"
  by code_simp+

lemma scanner_lines_shown_witness:
  "shown (mod_display_scanner \<lparr>ROW0_ASCII = False, SCANNER_USE_8x16 = False, SHOW_XYZ = True\<rparr>
      demo_panel demo_scan) (replicate 8 (replicate 128 0xAA)) =
    replicate 2 (replicate 128 0xAA) @ map (line_5x8)
      ['' '', ''OverBreak: -1.250 m'', ''Distance:  12.345 m'', ''X axis:    0.005 m'', ''Y axis:    0.060 m'', ''Z axis:     --------'']"
proof -
  have "take 2 (replicate 8 (replicate 128 (0xAA :: u8))) = replicate 2 (replicate 128 0xAA)" by simp
  then show ?thesis
    using scanner_lines_shown [of "replicate 8 (replicate 128 0xAA)"
        "\<lparr>ROW0_ASCII = False, SCANNER_USE_8x16 = False, SHOW_XYZ = True\<rparr>" demo_panel demo_scan]
    by (simp add: demo_panel_def hs_static_def demo_scan_def demo_texts)
qed

lemma shown_number_witness:
  "\<exists>t. int_to_decimal_str (- 1250) 1 32 ''OverBreak: '' = ''OverBreak: '' @ t @ '' m'' \<and> read_number t = - 1250"
  using shown_number [of 1 "- 1250" "''OverBreak: ''"] by simp

section \<open>Where the display misleads\<close>

text \<open>Less than a metre below zero the sign is lost.\<close>

lemma sign_lost:
  assumes "- 1000 < val" and "val < 0" and "valid \<noteq> 0"
  shows "int_to_decimal_str val valid n prefix = int_to_decimal_str (- val) valid n prefix"
proof -
  obtain m where m: "val = - m" "0 < m" "m < 1000" using assms(1,2) by (metis minus_less_iff neg_less_0_iff_less minus_minus)
  then have "m sdiv 1000 = 0" by (simp add: towards_zero)
  then show ?thesis using m assms(3) by (simp add: int_to_decimal_str_def neg32_def)
qed

text \<open>The least value, which the comment claims is safe, shows a sign inside its decimals.\<close>

lemma least_number: "int_to_decimal_str (- (2 ^ 31)) 1 32 ''X:'' = ''X:2147483.-648 m''"
proof -
  have "dec_string 2147483 = ''2147483''" "dec_string 648 = ''648''" by (simp_all add: dec_string.simps char_of_def bit_Suc_0_iff)
  then show ?thesis
    by (simp add: int_to_decimal_str_def neg32_def signed_divide_int_def signed_modulo_int_def pad3_def int_string_def Let_def)
qed

text \<open>With large letters and coordinates the lines overlap: X and Y are drawn over the lower half of the first line.\<close>

lemma large_lines_overlap:
  assumes "SCANNER_USE_8x16 C" and "SHOW_XYZ C" and "\<not> sleeping h"
  shows "\<exists>a \<in> set (mod_display_scanner C h s). \<exists>b \<in> set (mod_display_scanner C h s).
    bk_x a = bk_x b \<and> bk_y a = 24 \<and> bk_h a = 16 \<and> bk_y b = 32"
proof -
  have cells: "cells 8 128 0 = Suc 15" "cells 8 64 0 = Suc 7" by (simp_all add: cells_def)
  have first: "\<exists>bl \<in> set (display_8x16_str_pad False t 0 y w). bk_x bl = 0 \<and> bk_y bl = y \<and> bk_h bl = 16"
    if "w = 128 \<or> w = 64" for t y w
  proof -
    have "cells 8 w 0 = Suc (cells 8 w 0 - 1)" using that cells by auto
    then obtain c cs where "padded (cells 8 w 0) t = c # cs" by (metis length_Suc_conv length_padded)
    then show ?thesis by (simp add: pad_8x16 display_8x16_char_def display_write_buf_def)
  qed
  have "\<exists>a \<in> set (mod_display_scanner C h s). bk_x a = 0 \<and> bk_y a = 24 \<and> bk_h a = 16"
    using first [of 128 "int_to_decimal_str (overbreak_value s) (overbreak_valid s) 32 ''OB: ''" 24] assms
    by (auto simp: mod_display_scanner_def Let_def)
  moreover have "\<exists>b \<in> set (mod_display_scanner C h s). bk_x b = 0 \<and> bk_y b = 32 \<and> bk_h b = 16"
    using first [of 64 "int_to_decimal_str (coord_x s) (coord_xy_valid s) 32 ''X:''" 32] assms
    by (auto simp: mod_display_scanner_def Let_def)
  ultimately show ?thesis by metis
qed

end
