(* ===== verification/Lcd.thy ===== *)
theory Lcd
  imports Lcd_Fonts
begin

text \<open>
  The display library, \<open>libs/LCD/lcd.c\<close>, for an ILI9341 on a parallel bus: its state and the words written to the
  controller's command and data addresses.  \<open>lcd_in\<close> gives the words read from the data address, in order.
\<close>

section \<open>State and registers\<close>

datatype lcd_write = Lcd_cmd u16 | Lcd_data u16

record lcd =
  BRUSH_COLOR :: u16
  BACK_COLOR :: u16
  dir_flag :: bool
  lcd_width :: u16
  lcd_height :: u16
  lcd_bus :: "lcd_write list"
  lcd_in :: "u16 list"

definition WHITE :: u16 where "WHITE = 0xFFFF"
definition BLACK :: u16 where "BLACK = 0x0000"
definition ILI9341_W :: u16 where "ILI9341_W = 0x240"
definition ILI9341_H :: u16 where "ILI9341_H = 0x320"
definition ILI9XXX_SLPOUT :: u16 where "ILI9XXX_SLPOUT = 0x11"
definition ILI9XXX_DISPOFF :: u16 where "ILI9XXX_DISPOFF = 0x28"
definition ILI9XXX_DISPON :: u16 where "ILI9XXX_DISPON = 0x29"
definition ILI9XXX_CASET :: u16 where "ILI9XXX_CASET = 0x2A"
definition ILI9XXX_PASET :: u16 where "ILI9XXX_PASET = 0x2B"
definition ILI9XXX_RAMWR :: u16 where "ILI9XXX_RAMWR = 0x2C"
definition ILI9XXX_RAMRD :: u16 where "ILI9XXX_RAMRD = 0x2E"
definition INIT_SCAN_DIR :: u8 where "INIT_SCAN_DIR = 0"

text \<open>The start-up table: a register and its values.\<close>

definition lcd_regs :: "(u16 \<times> u16 list) list" where
  "lcd_regs = [
    (0xCF, [0x00, 0xC1, 0x30]), (0xED, [0x64, 0x03, 0x12, 0x81]), (0xE8, [0x85, 0x10, 0x7A]),
    (0xCB, [0x39, 0x2C, 0x00, 0x34, 0x02]), (0xF7, [0x20]), (0xEA, [0x00, 0x00]), (0xC0, [0x1B]), (0xC1, [0x01]),
    (0xC5, [0x30, 0x30]), (0xC7, [0xB7]), (0x36, [0x48]), (0x3A, [0x55]), (0xB1, [0x00, 0x1A]), (0xB6, [0x0A, 0xA2]),
    (0xF2, [0x00]), (0x26, [0x01]),
    (0xE0, [0x0F, 0x2A, 0x28, 0x08, 0x0E, 0x08, 0x54, 0xA9, 0x43, 0x0A, 0x0F, 0x00, 0x00, 0x00, 0x00]),
    (0xE1, [0x00, 0x15, 0x17, 0x07, 0x11, 0x06, 0x2B, 0x56, 0x3C, 0x05, 0x10, 0x0F, 0x3F, 0x3F, 0x0F]),
    (0x2A, [0x00, 0x00, 0x00, 0xEF]), (0x2B, [0x00, 0x00, 0x01, 0x3F])]"

definition lcd_write :: "lcd_write list \<Rightarrow> lcd \<Rightarrow> lcd" where
  "lcd_write ws s = s\<lparr>lcd_bus := lcd_bus s @ ws\<rparr>"

definition LCD_WriteReg :: "u16 \<Rightarrow> u16 \<Rightarrow> lcd \<Rightarrow> lcd" where
  "LCD_WriteReg r v = lcd_write [Lcd_cmd r, Lcd_data v]"

definition LCD_WriteRegs :: "u16 \<times> u16 list \<Rightarrow> lcd \<Rightarrow> lcd" where
  "LCD_WriteRegs r = lcd_write (Lcd_cmd (fst r) # map Lcd_data (snd r))"

definition lcd_read :: "lcd \<Rightarrow> u16 \<times> lcd" where
  "lcd_read s = (if lcd_in s = [] then 0 else hd (lcd_in s), s\<lparr>lcd_in := tl (lcd_in s)\<rparr>)"

definition LCD_ReadReg :: "u16 \<Rightarrow> lcd \<Rightarrow> u16 \<times> lcd" where
  "LCD_ReadReg r s = lcd_read (lcd_write [Lcd_cmd r] s)"

definition LCD_BGRtoRGB :: "u16 \<Rightarrow> u16" where
  "LCD_BGRtoRGB bgr =
     (let b = bgr AND 0x1F; g = drop_bit 5 bgr AND 0x3F; r = drop_bit 11 bgr AND 0x1F
      in push_bit 11 b + push_bit 5 g + r)"

definition byte_data :: "u16 \<Rightarrow> lcd_write list" where
  "byte_data v = [Lcd_data (drop_bit 8 v), Lcd_data (v AND 0xFF)]"

definition LCD_SetCursor :: "u16 \<Rightarrow> u16 \<Rightarrow> lcd \<Rightarrow> lcd" where
  "LCD_SetCursor x y = lcd_write (Lcd_cmd ILI9XXX_CASET # byte_data x @ Lcd_cmd ILI9XXX_PASET # byte_data y)"

definition LCD_GetPoint :: "u16 \<Rightarrow> u16 \<Rightarrow> lcd \<Rightarrow> u16 \<times> lcd" where
  "LCD_GetPoint x y s =
     (if x \<ge> lcd_width s \<or> y \<ge> lcd_height s then (0, s)
      else case lcd_read (lcd_write [Lcd_cmd ILI9XXX_RAMRD] (LCD_SetCursor x y s)) of (_, s) \<Rightarrow>
           case lcd_read s of (r, s) \<Rightarrow>
           case lcd_read s of (b, s) \<Rightarrow>
             let g = push_bit 8 (r AND 0xFF)
             in (or (or (push_bit 11 (drop_bit 11 r)) (push_bit 5 (drop_bit 10 g))) (drop_bit 11 b), s))"

definition LCD_DisplayOn :: "lcd \<Rightarrow> lcd" where "LCD_DisplayOn = lcd_write [Lcd_cmd ILI9XXX_DISPON]"
definition LCD_DisplayOff :: "lcd \<Rightarrow> lcd" where "LCD_DisplayOff = lcd_write [Lcd_cmd ILI9XXX_DISPOFF]"

section \<open>Direction, window, filling\<close>

text \<open>With \<open>dir_flag\<close> the eight directions are turned by a quarter.\<close>

definition scan_dir :: "bool \<Rightarrow> u8 \<Rightarrow> u8" where
  "scan_dir turned dir =
     (if turned \<and> dir < 8 then [6, 7, 4, 5, 1, 0, 3, 2] ! unat dir else dir)"

definition scan_regval :: "u8 \<Rightarrow> u16" where
  "scan_regval dir = (if dir < 8 then [0x00, 0x80, 0x40, 0xC0, 0x20, 0x60, 0xA0, 0xE0] ! unat dir else 0)"

definition LCD_AUTOScan_Dir :: "u8 \<Rightarrow> lcd \<Rightarrow> lcd" where
  "LCD_AUTOScan_Dir dir s =
     (let regval = or (scan_regval (scan_dir (dir_flag s) dir)) 0x08;
          s = LCD_WriteReg 0x36 regval s;
          s = (if regval AND 0x20 \<noteq> 0 \<and> lcd_width s < lcd_height s
               then s\<lparr>lcd_width := lcd_height s, lcd_height := lcd_width s\<rparr> else s)
      in lcd_write (Lcd_cmd ILI9XXX_CASET # byte_data 0 @ byte_data (lcd_width s - 1) @
           Lcd_cmd ILI9XXX_PASET # byte_data 0 @ byte_data (lcd_height s - 1)) s)"

definition LCD_Display_Dir :: "u8 \<Rightarrow> lcd \<Rightarrow> lcd" where
  "LCD_Display_Dir dir s =
     LCD_AUTOScan_Dir INIT_SCAN_DIR (s\<lparr>dir_flag := (dir \<noteq> 0), lcd_width := ILI9341_W, lcd_height := ILI9341_H\<rparr>)"

definition LCD_Color_DrawPoint :: "u16 \<Rightarrow> u16 \<Rightarrow> u16 \<Rightarrow> lcd \<Rightarrow> lcd" where
  "LCD_Color_DrawPoint x y color =
     lcd_write (Lcd_cmd ILI9XXX_CASET # byte_data x @ Lcd_cmd ILI9XXX_PASET # byte_data y @
       [Lcd_cmd ILI9XXX_RAMWR, Lcd_data color])"

definition LCD_DrawPoint :: "u16 \<Rightarrow> u16 \<Rightarrow> lcd \<Rightarrow> lcd" where
  "LCD_DrawPoint x y s = lcd_write [Lcd_cmd ILI9XXX_RAMWR, Lcd_data (BRUSH_COLOR s)] (LCD_SetCursor x y s)"

definition LCD_Set_Window :: "u16 \<Rightarrow> u16 \<Rightarrow> u16 \<Rightarrow> u16 \<Rightarrow> lcd \<Rightarrow> lcd" where
  "LCD_Set_Window sx sy width height =
     (let ex = sx + width - 1; ey = sy + height - 1
      in lcd_write (Lcd_cmd ILI9XXX_CASET # byte_data sx @ byte_data ex @ Lcd_cmd ILI9XXX_PASET # byte_data sy @ byte_data ey))"

text \<open>The product of the sizes is computed as int: at most 65535 squared, as 32 bits.\<close>

definition LCD_Clear :: "u16 \<Rightarrow> lcd \<Rightarrow> lcd" where
  "LCD_Clear color s =
     lcd_write (replicate (unat (lcd_width s) * unat (lcd_height s)) (Lcd_data color))
       (lcd_write [Lcd_cmd ILI9XXX_RAMWR] (LCD_SetCursor 0 0 s))"

definition LCD_Init :: "lcd \<Rightarrow> lcd" where
  "LCD_Init s =
     LCD_Clear WHITE (LCD_Display_Dir 0
       (lcd_write [Lcd_cmd ILI9XXX_SLPOUT, Lcd_cmd ILI9XXX_DISPON] (fold LCD_WriteRegs lcd_regs (LCD_WriteReg 0 1 s))))"

text \<open>The rows are counted in 16 bits: with \<open>ey = 0xFFFF\<close> the loop has no end, \<open>None\<close>.\<close>

partial_function (option) fill_rows :: "u16 \<Rightarrow> u16 \<Rightarrow> u16 \<Rightarrow> u16 \<Rightarrow> u16 \<Rightarrow> lcd \<Rightarrow> lcd option" where
  "fill_rows sx nlen i ey color s =
     (if i \<le> ey
      then fill_rows sx nlen (i + 1) ey color
             (lcd_write (Lcd_cmd ILI9XXX_RAMWR # replicate (unat nlen) (Lcd_data color)) (LCD_SetCursor sx i s))
      else Some s)"

definition LCD_Fill_onecolor :: "u16 \<Rightarrow> u16 \<Rightarrow> u16 \<Rightarrow> u16 \<Rightarrow> u16 \<Rightarrow> lcd \<Rightarrow> lcd option" where
  "LCD_Fill_onecolor sx sy ex ey color s = fill_rows sx (ex - sx + 1) sy ey color s"

section \<open>Characters\<close>

text \<open>
  The bits of a byte, from the high one down the column; a column ends after \<open>size\<close> pixels, the rest of its byte
  unused.  The outcome is the next position, or \<open>None\<close> when an edge ended the character.
\<close>

fun char_bits :: "nat \<Rightarrow> u8 \<Rightarrow> u16 \<Rightarrow> nat \<Rightarrow> u16 \<Rightarrow> u16 \<Rightarrow> lcd \<Rightarrow> (u16 \<times> u16) option \<times> lcd" where
  "char_bits 0 b ymid sz x y s = (Some (x, y), s)"
| "char_bits (Suc a) b ymid sz x y s =
     (let s = LCD_Color_DrawPoint x y (if b AND 0x80 \<noteq> 0 then BRUSH_COLOR s else BACK_COLOR s) s;
          y = y + 1
      in if y \<ge> lcd_height s then (None, s)
         else if uint y - uint ymid = int sz
         then if x + 1 \<ge> lcd_width s then (None, s) else (Some (x + 1, ymid), s)
         else char_bits a (push_bit 1 b) ymid sz x y s)"

fun char_rows :: "bytes \<Rightarrow> u16 \<Rightarrow> nat \<Rightarrow> u16 \<Rightarrow> u16 \<Rightarrow> lcd \<Rightarrow> lcd" where
  "char_rows [] ymid sz x y s = s"
| "char_rows (b # bs) ymid sz x y s =
     (case char_bits 8 b ymid sz x y s of
        (None, s) \<Rightarrow> s
      | (Some (x, y), s) \<Rightarrow> char_rows bs ymid sz x y s)"

text \<open>A character outside the tables reads behind them: \<open>None\<close>.\<close>

definition LCD_DisplayChar :: "u16 \<Rightarrow> u16 \<Rightarrow> u8 \<Rightarrow> u8 \<Rightarrow> lcd \<Rightarrow> lcd option" where
  "LCD_DisplayChar x y ch sz s =
     (if sz \<noteq> 12 \<and> sz \<noteq> 16 \<and> sz \<noteq> 24 then Some s
      else
        let i = unat (ch - 0x20);
            font = (if sz = 12 then char_1206 else if sz = 16 then char_1608 else char_2412)
        in if i < length font then Some (char_rows (font ! i) y (unat sz) x y s) else None)"

fun LCD_Pow :: "u8 \<Rightarrow> nat \<Rightarrow> u32" where
  "LCD_Pow m 0 = 1"
| "LCD_Pow m (Suc n) = LCD_Pow m n * ucast m"

text \<open>A digit of \<open>num\<close>; the power wraps, and dividing by zero is \<open>None\<close>.\<close>

definition num_digit :: "u32 \<Rightarrow> nat \<Rightarrow> u8 option" where
  "num_digit num k = (if LCD_Pow 10 k = 0 then None else Some (ucast (num div LCD_Pow 10 k mod 10)))"

fun num_loop :: "u16 \<Rightarrow> u16 \<Rightarrow> u32 \<Rightarrow> nat \<Rightarrow> u8 \<Rightarrow> u8 \<Rightarrow> nat \<Rightarrow> nat \<Rightarrow> bool \<Rightarrow> lcd \<Rightarrow> lcd option" where
  "num_loop x y num len sz mode 0 t end0 s = Some s"
| "num_loop x y num len sz mode (Suc k) t end0 s =
     (let at = x + of_nat (unat sz div 2 * t)
      in case num_digit num (len - t - 1) of
           None \<Rightarrow> None
         | Some d \<Rightarrow>
             if \<not> end0 \<and> t < len - 1 \<and> d = 0
             then (case LCD_DisplayChar at y (if mode \<noteq> 0 then 0x30 else 0x20) sz s of
                     None \<Rightarrow> None
                   | Some s \<Rightarrow> num_loop x y num len sz mode k (t + 1) end0 s)
             else (case LCD_DisplayChar at y (d + 0x30) sz s of
                     None \<Rightarrow> None
                   | Some s \<Rightarrow> num_loop x y num len sz mode k (t + 1) (end0 \<or> t < len - 1) s))"

definition LCD_DisplayNum :: "u16 \<Rightarrow> u16 \<Rightarrow> u32 \<Rightarrow> u8 \<Rightarrow> u8 \<Rightarrow> u8 \<Rightarrow> lcd \<Rightarrow> lcd option" where
  "LCD_DisplayNum x y num len sz mode s = num_loop x y num (unat len) sz mode (unat len) 0 False s"

definition in_colors :: "u16 \<Rightarrow> u16 \<Rightarrow> (lcd \<Rightarrow> lcd option) \<Rightarrow> lcd \<Rightarrow> lcd option" where
  "in_colors brush back f s =
     map_option (\<lambda>s'. s'\<lparr>BRUSH_COLOR := BRUSH_COLOR s, BACK_COLOR := BACK_COLOR s\<rparr>)
       (f (s\<lparr>BRUSH_COLOR := brush, BACK_COLOR := back\<rparr>))"

definition LCD_DisplayNum_color :: "u16 \<Rightarrow> u16 \<Rightarrow> u32 \<Rightarrow> u8 \<Rightarrow> u8 \<Rightarrow> u8 \<Rightarrow> u16 \<Rightarrow> u16 \<Rightarrow> lcd \<Rightarrow> lcd option" where
  "LCD_DisplayNum_color x y num len sz mode brush back = in_colors brush back (LCD_DisplayNum x y num len sz mode)"

text \<open>The text ends at its first byte that is not printable; without one the loop leaves it, \<open>None\<close>.\<close>

fun LCD_DisplayString :: "u16 \<Rightarrow> u16 \<Rightarrow> u8 \<Rightarrow> bytes \<Rightarrow> lcd \<Rightarrow> lcd option" where
  "LCD_DisplayString x y sz [] s = None"
| "LCD_DisplayString x y sz (c # p) s =
     (if c \<le> 0x7E \<and> c \<ge> 0x20
      then case LCD_DisplayChar x y c sz s of
             None \<Rightarrow> None
           | Some s \<Rightarrow>
               let x = x + of_nat (unat sz div 2)
               in if x \<ge> lcd_width s then Some s else LCD_DisplayString x y sz p s
      else Some s)"

definition LCD_DisplayString_color :: "u16 \<Rightarrow> u16 \<Rightarrow> u8 \<Rightarrow> bytes \<Rightarrow> u16 \<Rightarrow> u16 \<Rightarrow> lcd \<Rightarrow> lcd option" where
  "LCD_DisplayString_color x y sz p brush back = in_colors brush back (LCD_DisplayString x y sz p)"

end
