(* ===== verification/Lcd_Props.thy ===== *)
theory Lcd_Props
  imports Lcd
begin

text \<open>
  What the display library draws: a character is its glyph, pixel by pixel; a number's digits; and the arguments on
  which the library goes wrong.
\<close>

section \<open>Characters\<close>

definition draw_point :: "u16 \<times> u16 \<times> u16 \<Rightarrow> lcd \<Rightarrow> lcd" where
  "draw_point = (\<lambda>(x, y, c). LCD_Color_DrawPoint x y c)"

definition ink :: "lcd \<Rightarrow> bool \<Rightarrow> u16" where
  "ink s on = (if on then BRUSH_COLOR s else BACK_COLOR s)"

lemma draw_point_fields [simp]:
  "BRUSH_COLOR (draw_point p s) = BRUSH_COLOR s" "BACK_COLOR (draw_point p s) = BACK_COLOR s"
  "lcd_width (draw_point p s) = lcd_width s" "lcd_height (draw_point p s) = lcd_height s"
  by (simp_all add: draw_point_def LCD_Color_DrawPoint_def lcd_write_def split: prod.split)

lemma draw_points_fields [simp]:
  "BRUSH_COLOR (fold draw_point ps s) = BRUSH_COLOR s" "BACK_COLOR (fold draw_point ps s) = BACK_COLOR s"
  "lcd_width (fold draw_point ps s) = lcd_width s" "lcd_height (fold draw_point ps s) = lcd_height s"
  "ink (fold draw_point ps s) = ink s"
  by (induction ps arbitrary: s) (simp_all add: ink_def fun_eq_iff)

lemma ink_draw [simp]: "ink (draw_point p s) = ink s" by (simp add: ink_def fun_eq_iff)

text \<open>The pixels of \<open>n\<close> rows from row \<open>r\<close> on in column \<open>x\<close>, of which \<open>on\<close> says whether they are set.\<close>

definition column :: "lcd \<Rightarrow> (nat \<Rightarrow> bool) \<Rightarrow> u16 \<Rightarrow> u16 \<Rightarrow> nat \<Rightarrow> nat \<Rightarrow> (u16 \<times> u16 \<times> u16) list" where
  "column s on x ymid r n = map (\<lambda>i. (x, ymid + of_nat (r + i), ink s (on i))) [0..<n]"

lemma column_Suc: "column s on x ymid r (Suc n) = (x, ymid + of_nat r, ink s (on 0)) # column s (\<lambda>i. on (Suc i)) x ymid (Suc r) n"
  by (simp add: column_def map_upt_Suc del: upt_Suc)

lemma column_ink: "ink s = ink s' \<Longrightarrow> column s on = column s' on"
  by (simp add: column_def fun_eq_iff)

lemma row_word:
  fixes ymid h :: u16
  assumes "unat ymid + sz < unat h" and "r < sz"
  shows "unat (ymid + of_nat (Suc r)) = unat ymid + Suc r" and "\<not> ymid + of_nat (Suc r) \<ge> h"
    and "uint (ymid + of_nat (Suc r)) - uint ymid = int (Suc r)"
proof -
  have "unat h < 2 ^ 16" using unsigned_less [of h] by simp
  then show u: "unat (ymid + of_nat (Suc r)) = unat ymid + Suc r"
    using assms by (simp add: unat_word_ariths unat_of_nat)
  then show "\<not> ymid + of_nat (Suc r) \<ge> h" using assms by (simp add: word_le_nat_alt)
  show "uint (ymid + of_nat (Suc r)) - uint ymid = int (Suc r)" using arg_cong [OF u, of int] by simp
qed

lemma char_bits_column:
  assumes "unat ymid + sz < unat (lcd_height s)"
  shows "r < sz \<Longrightarrow> j + a = 8 \<Longrightarrow>
    char_bits a (push_bit j b) ymid sz x (ymid + of_nat r) s =
      (if sz - r \<le> a then if x + 1 \<ge> lcd_width s then None else Some (x + 1, ymid) else Some (x, ymid + of_nat (r + a)),
       fold draw_point (column s (\<lambda>i. bit b (7 - (j + i))) x ymid r (min a (sz - r))) s)"
  using assms
proof (induction a arbitrary: j r s)
  case 0
  then have "\<not> sz - r \<le> 0" by linarith
  then show ?case by (simp add: column_def)
next
  case (Suc a)
  let ?on = "\<lambda>i. bit b (7 - (j + i))"
  have j: "j < 8" using Suc.prems(2) by simp
  define s1 where "s1 = draw_point (x, ymid + of_nat r, ink s (?on 0)) s"
  have s1: "LCD_Color_DrawPoint x (ymid + of_nat r) (if push_bit j b AND 0x80 \<noteq> 0 then BRUSH_COLOR s else BACK_COLOR s) s = s1"
    using high_bit [OF j, of b] by (simp add: s1_def draw_point_def ink_def)
  have f: "lcd_height s1 = lcd_height s" "lcd_width s1 = lcd_width s" "ink s1 = ink s" by (simp_all add: s1_def)
  note w = row_word [OF Suc.prems(3) Suc.prems(1)]
  have y: "ymid + of_nat r + 1 = ymid + of_nat (Suc r)" by simp
  show ?case
  proof (cases "Suc r = sz")
    case True
    then have "min (Suc a) (sz - r) = Suc 0" "sz - r \<le> Suc a" by simp_all
    moreover have "fold draw_point (column s ?on x ymid r (Suc 0)) s = s1"
      by (simp add: column_Suc s1_def) (simp add: column_def)
    ultimately show ?thesis using w True by (simp only: char_bits.simps Let_def s1 y f) simp
  next
    case False
    have m: "min (Suc a) (sz - r) = Suc (min a (sz - Suc r))" using Suc.prems(1) by simp
    have shift: "push_bit 1 (push_bit j b) = push_bit (Suc j) b" by simp
    have ih: "char_bits a (push_bit (Suc j) b) ymid sz x (ymid + of_nat (Suc r)) s1 =
      (if sz - Suc r \<le> a then if x + 1 \<ge> lcd_width s then None else Some (x + 1, ymid) else Some (x, ymid + of_nat (Suc r + a)),
       fold draw_point (column s (\<lambda>i. bit b (7 - (Suc j + i))) x ymid (Suc r) (min a (sz - Suc r))) s1)"
      using Suc.IH [of "Suc r" "Suc j" s1] Suc.prems False f column_ink [OF f(3)] by simp
    have "\<not> uint (ymid + of_nat (Suc r)) - uint ymid = int sz" using w(3) False by simp
    then have "char_bits (Suc a) (push_bit j b) ymid sz x (ymid + of_nat r) s =
        char_bits a (push_bit (Suc j) b) ymid sz x (ymid + of_nat (Suc r)) s1"
      using w(2) by (simp only: char_bits.simps Let_def s1 y f shift if_False)
    then show ?thesis unfolding ih m column_Suc using Suc.prems(1) False
      by (auto simp: s1_def)
  qed
qed

text \<open>A column: its bytes, the last of them perhaps used in part.\<close>

definition column_bit :: "bytes \<Rightarrow> nat \<Rightarrow> bool" where
  "column_bit bs i = bit (bs ! (i div 8)) (7 - i mod 8)"

lemma column_append:
  "column s on x ymid r (m + n) = column s on x ymid r m @ column s (\<lambda>i. on (m + i)) x ymid (r + m) n"
  by (induction m arbitrary: on r) (simp_all add: column_Suc, simp add: column_def)

lemma char_rows_column:
  assumes "unat ymid + sz < unat (lcd_height s)"
  shows "r < sz \<Longrightarrow> sz - r \<le> 8 * length bs \<Longrightarrow> 8 * (length bs - 1) < sz - r \<Longrightarrow>
    char_rows (bs @ rest) ymid sz x (ymid + of_nat r) s =
      (let s' = fold draw_point (column s (column_bit bs) x ymid r (sz - r)) s
       in if x + 1 \<ge> lcd_width s then s' else char_rows rest ymid sz (x + 1) ymid s')"
  using assms
proof (induction bs arbitrary: r s)
  case (Cons b bs)
  have first: "char_bits 8 b ymid sz x (ymid + of_nat r) s =
      (if sz - r \<le> 8 then if x + 1 \<ge> lcd_width s then None else Some (x + 1, ymid) else Some (x, ymid + of_nat (r + 8)),
       fold draw_point (column s (\<lambda>i. bit b (7 - i)) x ymid r (min 8 (sz - r))) s)"
    using char_bits_column [OF Cons.prems(4) Cons.prems(1), of 0 8 b x] by simp
  show ?case
  proof (cases "bs = []")
    case True
    then have small: "sz - r \<le> 8" using Cons.prems(2) by simp
    have "column s (column_bit [b]) x ymid r (sz - r) = column s (\<lambda>i. bit b (7 - i)) x ymid r (sz - r)"
      using small by (simp add: column_def column_bit_def)
    then show ?thesis using small True first by (simp add: Let_def min_absorb2)
  next
    case False
    then have big: "8 < sz - r" using Cons.prems(3) by (cases bs) auto
    define s1 where "s1 = fold draw_point (column s (\<lambda>i. bit b (7 - i)) x ymid r 8) s"
    have f: "lcd_height s1 = lcd_height s" "lcd_width s1 = lcd_width s" "ink s1 = ink s" by (simp_all add: s1_def)
    have "char_rows ((b # bs) @ rest) ymid sz x (ymid + of_nat r) s = char_rows (bs @ rest) ymid sz x (ymid + of_nat (r + 8)) s1"
      using big first by (simp add: s1_def min_absorb1)
    also have "\<dots> = (let s' = fold draw_point (column s1 (column_bit bs) x ymid (r + 8) (sz - (r + 8))) s1
       in if x + 1 \<ge> lcd_width s then s' else char_rows rest ymid sz (x + 1) ymid s')"
      using Cons.IH [of "r + 8" s1] Cons.prems big False f by (cases bs) auto
    also have "fold draw_point (column s1 (column_bit bs) x ymid (r + 8) (sz - (r + 8))) s1 =
      fold draw_point (column s (column_bit (b # bs)) x ymid r (sz - r)) s"
    proof -
      have n: "sz - r = 8 + (sz - (r + 8))" using big by simp
      have "column s (column_bit (b # bs)) x ymid r 8 = column s (\<lambda>i. bit b (7 - i)) x ymid r 8"
        by (simp add: column_def column_bit_def)
      moreover have "(\<lambda>i. column_bit (b # bs) (8 + i)) = column_bit bs" 
      proof
        fix i :: nat
        have "(8 + i) div 8 = Suc (i div 8)" by simp
        then show "column_bit (b # bs) (8 + i) = column_bit bs i" unfolding column_bit_def by simp
      qed
      ultimately have "column s (column_bit (b # bs)) x ymid r (8 + (sz - (r + 8))) =
          column s (\<lambda>i. bit b (7 - i)) x ymid r 8 @ column s (column_bit bs) x ymid (r + 8) (sz - (r + 8))"
        by (simp only: column_append)
      then show ?thesis unfolding column_ink [OF f(3)] n [symmetric] by (simp only: fold_append comp_apply s1_def)
    qed
    finally show ?thesis .
  qed
qed simp

text \<open>The pixels of a glyph given by its columns.\<close>

definition glyph_points :: "lcd \<Rightarrow> u16 \<Rightarrow> u16 \<Rightarrow> nat \<Rightarrow> bytes list \<Rightarrow> (u16 \<times> u16 \<times> u16) list" where
  "glyph_points s x y sz cols =
     concat (map (\<lambda>c. map (\<lambda>r. (x + of_nat c, y + of_nat r, ink s (column_bit (cols ! c) r))) [0..<sz]) [0..<length cols])"

lemma glyph_points_Cons:
  "glyph_points s x y sz (bs # cols) = column s (column_bit bs) x y 0 sz @ glyph_points s (x + 1) y sz cols"
  by (simp add: glyph_points_def column_def map_upt_Suc comp_def del: upt_Suc) (simp add: add.assoc)

lemma glyph_points_ink: "ink s = ink s' \<Longrightarrow> glyph_points s x y sz cols = glyph_points s' x y sz cols"
  by (simp add: glyph_points_def)

lemma char_rows_glyph:
  assumes "0 < sz" and "\<forall>bs \<in> set cols. sz \<le> 8 * length bs \<and> 8 * (length bs - 1) < sz"
  shows "unat y + sz < unat (lcd_height s) \<Longrightarrow> unat x + length cols \<le> unat (lcd_width s) \<Longrightarrow>
    char_rows (concat cols) y sz x y s = fold draw_point (glyph_points s x y sz cols) s"
  using assms(2)
proof (induction cols arbitrary: x s)
  case Nil
  then show ?case by (simp add: glyph_points_def)
next
  case (Cons bs cols)
  define s1 where "s1 = fold draw_point (column s (column_bit bs) x y 0 sz) s"
  have f: "lcd_height s1 = lcd_height s" "lcd_width s1 = lcd_width s" "ink s1 = ink s" by (simp_all add: s1_def)
  have step: "char_rows (concat (bs # cols)) y sz x y s =
      (if x + 1 \<ge> lcd_width s then s1 else char_rows (concat cols) y sz (x + 1) y s1)"
    using char_rows_column [OF Cons.prems(1), of 0 bs "concat cols" x] Cons.prems(3) assms(1) by (simp add: s1_def Let_def)
  show ?case
  proof (cases "cols = []")
    case True
    then show ?thesis using step by (simp add: glyph_points_Cons s1_def) (simp add: glyph_points_def)
  next
    case False
    then have "0 < length cols" by blast
    then have lt: "Suc (unat x) < unat (lcd_width s)" using Cons.prems(2) unfolding length_Cons by linarith
    moreover have "unat (lcd_width s) < 2 ^ 16" using unsigned_less [of "lcd_width s"] by simp
    ultimately have "unat x + 1 < 2 ^ 16" by linarith
    then have u: "unat (x + 1) = Suc (unat x)" by (simp add: unat_word_ariths)
    then have "\<not> x + 1 \<ge> lcd_width s" using lt by (simp add: word_le_nat_alt)
    then show ?thesis using step Cons.IH [of s1 "x + 1"] Cons.prems u f glyph_points_ink [OF f(3)]
      by (simp add: glyph_points_Cons s1_def)
  qed
qed

text \<open>The columns of a glyph of the tables, \<open>k\<close> bytes each.\<close>

definition glyph_columns :: "nat \<Rightarrow> bytes \<Rightarrow> bytes list" where
  "glyph_columns k g = map (\<lambda>c. take k (drop (c * k) g)) [0..<length g div k]"

lemma concat_columns: "length g = n * k \<Longrightarrow> concat (map (\<lambda>c. take k (drop (c * k) g)) [0..<n]) = g"
proof -
  have "concat (map (\<lambda>c. take k (drop (c * k) g)) [0..<m]) = take (m * k) g" for m
    by (induction m) (simp_all add: take_add [symmetric] add.commute [of k])
  then show "length g = n * k \<Longrightarrow> ?thesis" by simp
qed

text \<open>The glyph of a printable character: its table, its pixels' height and the bytes of a column.\<close>

definition lcd_glyph :: "u8 \<Rightarrow> u8 \<Rightarrow> bytes" where
  "lcd_glyph sz ch = (if sz = 12 then char_1206 else if sz = 16 then char_1608 else char_2412) ! (unat ch - 0x20)"

text \<open>
  C37: a printable character in one of the three sizes that ends above the last line and inside the right edge is
  drawn as its glyph: each pixel of its box once, set pixels in the brush colour and the others in the background
  colour, column by column.
\<close>

theorem lcd_char_drawn:
  assumes "sz \<in> {12, 16, 24}" and "0x20 \<le> ch" and "ch \<le> 0x7E"
    and "unat x + unat sz div 2 \<le> unat (lcd_width s)" and "unat y + unat sz < unat (lcd_height s)"
  shows "LCD_DisplayChar x y ch sz s =
    Some (fold draw_point (glyph_points s x y (unat sz) (glyph_columns ((unat sz + 7) div 8) (lcd_glyph sz ch))) s)"
proof -
  have i: "unat (ch - 0x20) = unat ch - 0x20" "unat ch - 0x20 < 95" using assms(2,3) by (simp_all add: unat_sub word_le_nat_alt)
  have draw: "LCD_DisplayChar x y ch sz s = Some (char_rows (lcd_glyph sz ch) y (unat sz) x y s)"
    using assms(1) i by (auto simp: LCD_DisplayChar_def lcd_glyph_def Let_def)
  define k where "k = (unat sz + 7) div 8"
  have k: "length (lcd_glyph sz ch) = unat sz div 2 * k" "0 < k" "unat sz \<le> 8 * k" "8 * (k - 1) < unat sz"
    using assms(1) i by (auto simp: lcd_glyph_def k_def)
  let ?cols = "glyph_columns k (lcd_glyph sz ch)"
  have n: "length ?cols = unat sz div 2" using k by (simp add: glyph_columns_def)
  have "concat ?cols = lcd_glyph sz ch" using concat_columns [OF k(1)] k by (simp add: glyph_columns_def)
  moreover have "length bs = k" if "bs \<in> set ?cols" for bs
  proof -
    obtain c where c: "c < unat sz div 2" "bs = take k (drop (c * k) (lcd_glyph sz ch))"
      using \<open>bs \<in> set ?cols\<close> k by (auto simp: glyph_columns_def)
    have "Suc c * k \<le> unat sz div 2 * k" using c(1) by (intro mult_le_mono1) simp
    then show ?thesis using c(2) k(1) by simp
  qed
  ultimately show ?thesis
    using draw char_rows_glyph [of "unat sz" ?cols y s x] k n assms(4,5) unfolding k_def [symmetric] by simp
qed

definition demo_lcd :: lcd where
  "demo_lcd = \<lparr>BRUSH_COLOR = BLACK, BACK_COLOR = WHITE, dir_flag = False, lcd_width = 20, lcd_height = 30, lcd_bus = [], lcd_in = []\<rparr>"

lemma lcd_char_drawn_witness:
  "LCD_DisplayChar 14 17 0x41 12 demo_lcd =
     Some (fold draw_point (glyph_points demo_lcd 14 17 12 (glyph_columns 2 (lcd_glyph 12 0x41))) demo_lcd)"
proof -
  have "(unat (12 :: u8) + 7) div 8 = 2" by simp
  then show ?thesis using lcd_char_drawn [of 12 "0x41" 14 demo_lcd 17] by (simp add: demo_lcd_def)
qed

section \<open>Where the library goes wrong\<close>

text \<open>A character whose last line is the last line of the screen: only its first column is drawn.\<close>

lemma bottom_line_cut:
  assumes "unat y + sz = unat (lcd_height s)" and "0 < sz" and "sz \<le> 8"
  shows "char_rows (b # bs) y sz x y s = fold draw_point (column s (\<lambda>i. bit b (7 - i)) x y 0 sz) s"
proof -
  have rows: "char_bits a (push_bit j b) y sz x (y + of_nat r) s =
      (None, fold draw_point (column s (\<lambda>i. bit b (7 - (j + i))) x y r (sz - r)) s)"
    if "r < sz" "sz - r \<le> a" "j + a = 8" "unat y + sz = unat (lcd_height s)" for a j r and s :: lcd
    using that
  proof (induction a arbitrary: j r s)
    case (Suc a)
    define s1 where "s1 = draw_point (x, y + of_nat r, ink s (bit b (7 - j))) s"
    have s1: "LCD_Color_DrawPoint x (y + of_nat r) (if push_bit j b AND 0x80 \<noteq> 0 then BRUSH_COLOR s else BACK_COLOR s) s = s1"
      using high_bit [of j b] Suc.prems(3) by (simp add: s1_def draw_point_def ink_def)
    have f: "lcd_height s1 = lcd_height s" "ink s1 = ink s" by (simp_all add: s1_def)
    have y: "y + of_nat r + 1 = y + of_nat (Suc r)" by simp
    have h: "unat (lcd_height s) < 2 ^ 16" using unsigned_less [of "lcd_height s"] by simp
    then have u: "unat (y + of_nat (Suc r)) = unat y + Suc r" using Suc.prems(1,4) by (simp add: unat_word_ariths unat_of_nat)
    show ?case
    proof (cases "Suc r = sz")
      case True
      then have "lcd_height s \<le> y + of_nat (Suc r)" using u Suc.prems(4) by (simp add: word_le_nat_alt)
      moreover have "sz - r = Suc 0" using True by simp
      ultimately show ?thesis
        by (simp only: char_bits.simps Let_def s1 y f column_Suc) (simp add: s1_def column_def)
    next
      case False
      then have lt: "Suc r < sz" using Suc.prems(1) by simp
      then have "\<not> lcd_height s \<le> y + of_nat (Suc r)" using u Suc.prems(4) by (simp add: word_le_nat_alt)
      moreover have "uint (y + of_nat (Suc r)) - uint y \<noteq> int sz" using arg_cong [OF u, of int] lt by simp
      ultimately have "char_bits (Suc a) (push_bit j b) y sz x (y + of_nat r) s =
          char_bits a (push_bit (Suc j) b) y sz x (y + of_nat (Suc r)) s1"
        by (simp only: char_bits.simps Let_def s1 y f if_False) simp
      also have "\<dots> = (None, fold draw_point (column s (\<lambda>i. bit b (7 - (Suc j + i))) x y (Suc r) (sz - Suc r)) s1)"
        using Suc.IH [of "Suc r" "Suc j" s1] Suc.prems lt f column_ink [OF f(2)] by simp
      moreover have "sz - r = Suc (sz - Suc r)" using lt by simp
      ultimately show ?thesis by (simp add: column_Suc s1_def)
    qed
  qed simp
  show ?thesis using rows [of 0 8 0 s] assms by simp
qed

text \<open>Filling down to row 0xFFFF never ends.\<close>

lemma lcd_fill_endless: "LCD_Fill_onecolor sx sy ex 0xFFFF color s = None"
proof -
  have "False" if "fill_rows sx n i 0xFFFF color s = Some r" for n i s r
  proof -
    have "ey = 0xFFFF \<longrightarrow> False" if "fill_rows sx n i ey color s = Some r" for ey
    proof (rule fill_rows.raw_induct [OF _ that], goal_cases)
      case (1 f sx n i ey color s r)
      show ?case
      proof
        assume "ey = 0xFFFF"
        moreover have "(0xFFFF :: u16) = - 1" by simp
        then have "i \<le> (0xFFFF :: u16)" by (metis word_n1_ge)
        ultimately show False using 1(1) 1(2) by (metis (no_types, lifting))
      qed
    qed
    then show False using \<open>fill_rows sx n i 0xFFFF color s = Some r\<close> by blast
  qed
  then show ?thesis unfolding LCD_Fill_onecolor_def by (metis option.exhaust)
qed

text \<open>The powers of ten wrap: the eleventh digit is wrong, and a number of 33 digits divides by zero.\<close>

lemma pow_ten: "LCD_Pow m n = ucast m ^ n" by (induction n) (simp_all add: mult.commute)

lemma wide_number_fails: "num_digit 0 32 = None" "num_digit 4000000000 10 = Some 2"
  by (simp_all add: num_digit_def pow_ten)

text \<open>The sizes are written as hexadecimal numbers: a panel of 240 by 320 is driven as 576 by 800.\<close>

lemma lcd_size_in_hex: "uint (lcd_width (LCD_Display_Dir 0 s)) = 576 \<and> uint (lcd_height (LCD_Display_Dir 0 s)) = 800"
  by (simp add: LCD_Display_Dir_def LCD_AUTOScan_Dir_def INIT_SCAN_DIR_def scan_dir_def scan_regval_def LCD_WriteReg_def
      lcd_write_def ILI9341_W_def ILI9341_H_def Let_def)

end
