(* ===== verification/Eeprom.thy ===== *)
theory Eeprom
  imports Lcd
begin

text \<open>
  The driver of the EEPROM 24C02 (\<open>libs/24C02/24c02.c\<close>), which drives the two wires of an I2C bus itself, and the
  shell commands of the libraries (\<open>libs/lib_shell.c\<close>).  The device on the bus is a parameter: it sees every
  level the program sets and decides what the released data wire reads.  Delays are left out.
\<close>

section \<open>The wires\<close>

record 'd i2c_device =
  dv_edge :: "bool \<Rightarrow> bool \<Rightarrow> 'd \<Rightarrow> 'd"
  dv_read :: "'d \<Rightarrow> bool \<times> 'd"

text \<open>\<open>wires\<close> are the levels of clock and data after each setting, \<open>iic_reads\<close> the levels read.\<close>

record 'd iic =
  scl :: bool
  sda :: bool
  wires :: "(bool \<times> bool) list"
  iic_reads :: "bool list"
  iic_dev :: 'd

definition IIC_SCL :: "'d i2c_device \<Rightarrow> bool \<Rightarrow> 'd iic \<Rightarrow> 'd iic" where
  "IIC_SCL D v s = s\<lparr>scl := v, wires := wires s @ [(v, sda s)], iic_dev := dv_edge D v (sda s) (iic_dev s)\<rparr>"

definition IIC_SDAOUT :: "'d i2c_device \<Rightarrow> bool \<Rightarrow> 'd iic \<Rightarrow> 'd iic" where
  "IIC_SDAOUT D v s = s\<lparr>sda := v, wires := wires s @ [(scl s, v)], iic_dev := dv_edge D (scl s) v (iic_dev s)\<rparr>"

text \<open>The wire is an open drain: low as soon as one side pulls it.\<close>

definition IIC_SDAIN :: "'d i2c_device \<Rightarrow> 'd iic \<Rightarrow> bool \<times> 'd iic" where
  "IIC_SDAIN D s =
     (case dv_read D (iic_dev s) of (b, d) \<Rightarrow>
        (sda s \<and> b, s\<lparr>iic_dev := d, iic_reads := iic_reads s @ [sda s \<and> b]\<rparr>))"

definition IIC_Init :: "'d i2c_device \<Rightarrow> 'd iic \<Rightarrow> 'd iic" where
  "IIC_Init D s = IIC_SDAOUT D True (IIC_SCL D True s)"

definition IIC_Start :: "'d i2c_device \<Rightarrow> 'd iic \<Rightarrow> 'd iic" where
  "IIC_Start D s = IIC_SCL D False (IIC_SDAOUT D False (IIC_SCL D True (IIC_SDAOUT D True s)))"

definition IIC_Stop :: "'d i2c_device \<Rightarrow> 'd iic \<Rightarrow> 'd iic" where
  "IIC_Stop D s = IIC_SDAOUT D True (IIC_SCL D True (IIC_SDAOUT D False (IIC_SCL D False s)))"

text \<open>The acknowledge is polled until \<open>WaitTime\<close> exceeds 250; \<open>k\<close> polls are left.\<close>

fun wait_low :: "'d i2c_device \<Rightarrow> nat \<Rightarrow> 'd iic \<Rightarrow> bool \<times> 'd iic" where
  "wait_low D k s =
     (case IIC_SDAIN D s of (high, s) \<Rightarrow>
        if \<not> high then (True, s) else case k of 0 \<Rightarrow> (False, s) | Suc k \<Rightarrow> wait_low D k s)"

declare wait_low.simps [simp del]

definition MCU_Wait_Ack :: "'d i2c_device \<Rightarrow> 'd iic \<Rightarrow> u8 \<times> 'd iic" where
  "MCU_Wait_Ack D s =
     (case wait_low D 250 (IIC_SCL D True (IIC_SDAOUT D True s)) of
        (False, s) \<Rightarrow> (1, IIC_Stop D s)
      | (True, s) \<Rightarrow> (0, IIC_SCL D False s))"

definition MCU_Send_Ack :: "'d i2c_device \<Rightarrow> 'd iic \<Rightarrow> 'd iic" where
  "MCU_Send_Ack D s = IIC_SCL D False (IIC_SCL D True (IIC_SDAOUT D False (IIC_SCL D False s)))"

definition MCU_NOAck :: "'d i2c_device \<Rightarrow> 'd iic \<Rightarrow> 'd iic" where
  "MCU_NOAck D s = IIC_SCL D False (IIC_SCL D True (IIC_SDAOUT D True (IIC_SCL D False s)))"

fun write_bits :: "'d i2c_device \<Rightarrow> nat \<Rightarrow> u8 \<Rightarrow> 'd iic \<Rightarrow> 'd iic" where
  "write_bits D 0 b s = s"
| "write_bits D (Suc k) b s =
     write_bits D k (push_bit 1 b) (IIC_SCL D False (IIC_SCL D True (IIC_SDAOUT D (b AND 0x80 \<noteq> 0) s)))"

definition IIC_write_OneByte :: "'d i2c_device \<Rightarrow> u8 \<Rightarrow> 'd iic \<Rightarrow> 'd iic" where
  "IIC_write_OneByte D b s = write_bits D 8 b (IIC_SCL D False s)"

text \<open>A bit read is shifted in from the right.\<close>

definition shift_in :: "bool \<Rightarrow> u8 \<Rightarrow> u8" where
  "shift_in high b = push_bit 1 b + (if high then 1 else 0)"

fun read_bits :: "'d i2c_device \<Rightarrow> nat \<Rightarrow> u8 \<Rightarrow> 'd iic \<Rightarrow> u8 \<times> 'd iic" where
  "read_bits D 0 b s = (b, s)"
| "read_bits D (Suc k) b s =
     (case IIC_SDAIN D (IIC_SCL D True (IIC_SCL D False s)) of (high, s) \<Rightarrow>
        read_bits D k (shift_in high b) s)"

definition IIC_Read_OneByte :: "'d i2c_device \<Rightarrow> u8 \<Rightarrow> 'd iic \<Rightarrow> u8 \<times> 'd iic" where
  "IIC_Read_OneByte D ack s =
     (case read_bits D 8 0 s of (b, s) \<Rightarrow> (b, if ack = 0 then MCU_NOAck D s else MCU_Send_Ack D s))"

section \<open>The EEPROM\<close>

definition send_acked :: "'d i2c_device \<Rightarrow> u8 \<Rightarrow> 'd iic \<Rightarrow> 'd iic" where
  "send_acked D b s = snd (MCU_Wait_Ack D (IIC_write_OneByte D b s))"

definition AT24C02_Init :: "'d i2c_device \<Rightarrow> 'd iic \<Rightarrow> 'd iic" where
  "AT24C02_Init D s = IIC_Init D s"

definition AT24C02_ReadByte :: "'d i2c_device \<Rightarrow> u8 \<Rightarrow> 'd iic \<Rightarrow> u8 \<times> 'd iic" where
  "AT24C02_ReadByte D a s =
     (let s = send_acked D a (send_acked D 0xA0 (IIC_Start D s));
          s = send_acked D 0xA1 (IIC_Start D s)
      in case IIC_Read_OneByte D 0 s of (b, s) \<Rightarrow> (b, IIC_Stop D s))"

definition AT24C02_WriteByte :: "'d i2c_device \<Rightarrow> u8 \<Rightarrow> u8 \<Rightarrow> 'd iic \<Rightarrow> 'd iic" where
  "AT24C02_WriteByte D a v s =
     IIC_Stop D (send_acked D v (send_acked D a (send_acked D 0xA0 (IIC_Start D s))))"

definition AT24C02_Test :: "'d i2c_device \<Rightarrow> 'd iic \<Rightarrow> u8 \<times> 'd iic" where
  "AT24C02_Test D s =
     (case AT24C02_ReadByte D 255 s of (v, s) \<Rightarrow>
        if v = 0xAB then (0, s)
        else case AT24C02_ReadByte D 255 (AT24C02_WriteByte D 255 0xAB s) of (v, s) \<Rightarrow>
          (if v = 0xAB then 0 else 1, s))"

text \<open>Numbers of up to four bytes, the low byte first; the shift by \<open>8 * i\<close> is defined for four bytes only.\<close>

definition buf_write :: "u32 \<Rightarrow> nat \<Rightarrow> bytes" where
  "buf_write v n = map (\<lambda>i. ucast (drop_bit (8 * i) v)) [0..<n]"

definition buf_read :: "bytes \<Rightarrow> u32" where
  "buf_read bs = fold (\<lambda>b v. push_bit 8 v + ucast b) (rev bs) 0"

definition Buf_4Byte :: "bytes \<Rightarrow> u32 \<Rightarrow> u8 \<Rightarrow> u8 \<Rightarrow> (u32 \<times> bytes) option" where
  "Buf_4Byte buf v n mode =
     (if unat n > length buf \<or> unat n > 4 then None
      else if mode \<noteq> 0 then Some (0, mem_put 0 (buf_write v (unat n)) buf)
      else Some (buf_read (take (unat n) buf), buf))"

fun AT24C02_Read :: "'d i2c_device \<Rightarrow> u8 \<Rightarrow> nat \<Rightarrow> 'd iic \<Rightarrow> bytes \<times> 'd iic" where
  "AT24C02_Read D a 0 s = ([], s)"
| "AT24C02_Read D a (Suc n) s =
     (case AT24C02_ReadByte D a s of (b, s) \<Rightarrow> case AT24C02_Read D (a + 1) n s of (bs, s) \<Rightarrow> (b # bs, s))"

fun AT24C02_Write :: "'d i2c_device \<Rightarrow> u8 \<Rightarrow> bytes \<Rightarrow> 'd iic \<Rightarrow> 'd iic" where
  "AT24C02_Write D a [] s = s"
| "AT24C02_Write D a (b # bs) s = AT24C02_Write D (a + 1) bs (AT24C02_WriteByte D a b s)"

section \<open>The shell of the libraries\<close>

definition i2c_init :: "'d i2c_device \<Rightarrow> 'd iic \<Rightarrow> 'd iic" where
  "i2c_init D s = AT24C02_Init D s"

text \<open>The bytes read are printed.\<close>

definition i2c_read :: "'d i2c_device \<Rightarrow> 'd iic \<Rightarrow> bytes \<times> 'd iic" where
  "i2c_read D s = AT24C02_Read D 0 16 s"

text \<open>The number of bytes is a byte: a text of 256 characters or more is cut at its length modulo 256.\<close>

definition i2c_write :: "'d i2c_device \<Rightarrow> bytes \<Rightarrow> 'd iic \<Rightarrow> 'd iic" where
  "i2c_write D arg s = AT24C02_Write D 0 (take (unat (of_nat (length arg) :: u8)) arg) s"

definition shell_lcd_init :: "lcd \<Rightarrow> lcd" where
  "shell_lcd_init s = LCD_Init s"

definition LCD_RED :: u16 where "LCD_RED = 0xF800"

text \<open>The length of the text is passed where the function expects the size of its letters.\<close>

definition lcd_write_str :: "bytes \<Rightarrow> lcd \<Rightarrow> lcd option" where
  "lcd_write_str arg s = LCD_DisplayString 0 0 (of_nat (length arg)) (arg @ [0]) (s\<lparr>BRUSH_COLOR := LCD_RED\<rparr>)"

end
