(* ===== verification/Eeprom_Props.thy ===== *)
theory Eeprom_Props
  imports Eeprom
begin

text \<open>
  What a device sees on the wires when the driver talks to it: a decoder of start, stop and data bits, the exact
  sequence of each transfer, and what happens when nothing acknowledges.
\<close>

section \<open>Reading the wires\<close>

datatype i2c_event = I2c_start | I2c_stop | I2c_bit bool

text \<open>
  The decoder keeps the last levels and whether a bit is pending: a bit begins when the clock rises, counts when it
  falls, and is void when the data wire changes meanwhile, which is a start (falling) or a stop (rising).
\<close>

record decoder =
  dc_scl :: bool
  dc_sda :: bool
  dc_pending :: bool
  dc_events :: "i2c_event list"

fun feed :: "bool \<times> bool \<Rightarrow> decoder \<Rightarrow> decoder" where
  "feed (c, d) t =
     (if \<not> dc_scl t \<and> c then t\<lparr>dc_scl := c, dc_sda := d, dc_pending := True\<rparr>
      else if dc_scl t \<and> \<not> c
      then t\<lparr>dc_scl := c, dc_sda := d, dc_pending := False,
             dc_events := dc_events t @ (if dc_pending t then [I2c_bit (dc_sda t)] else [])\<rparr>
      else if c \<and> dc_sda t \<noteq> d
      then t\<lparr>dc_sda := d, dc_pending := False, dc_events := dc_events t @ [if d then I2c_stop else I2c_start]\<rparr>
      else t\<lparr>dc_scl := c, dc_sda := d\<rparr>)"

definition idle_decoder :: decoder where
  "idle_decoder = \<lparr>dc_scl = True, dc_sda = True, dc_pending = False, dc_events = []\<rparr>"

definition decoded :: "'d iic \<Rightarrow> decoder" where
  "decoded s = fold feed (wires s) idle_decoder"

definition iic_events :: "'d iic \<Rightarrow> i2c_event list" where
  "iic_events s = dc_events (decoded s)"

text \<open>The levels are those last set, and the clock is \<open>c\<close>, with a bit pending or not.\<close>

definition at_levels :: "bool \<Rightarrow> bool \<Rightarrow> bool \<Rightarrow> i2c_event list \<Rightarrow> 'd iic \<Rightarrow> bool" where
  "at_levels c d p ev s \<longleftrightarrow> scl s = c \<and> sda s = d \<and> decoded s = \<lparr>dc_scl = c, dc_sda = d, dc_pending = p, dc_events = ev\<rparr>"

lemma decoded_step [simp]:
  "decoded (IIC_SCL D v s) = feed (v, sda s) (decoded s)" "decoded (IIC_SDAOUT D v s) = feed (scl s, v) (decoded s)"
  "scl (IIC_SCL D v s) = v" "sda (IIC_SCL D v s) = sda s" "scl (IIC_SDAOUT D v s) = scl s" "sda (IIC_SDAOUT D v s) = v"
  "iic_reads (IIC_SCL D v s) = iic_reads s" "iic_reads (IIC_SDAOUT D v s) = iic_reads s"
  by (simp_all add: decoded_def IIC_SCL_def IIC_SDAOUT_def)

lemma decoded_read:
  "IIC_SDAIN D s = (b, s') \<Longrightarrow> decoded s' = decoded s \<and> scl s' = scl s \<and> sda s' = sda s \<and> iic_reads s' = iic_reads s @ [b]"
  by (auto simp: decoded_def IIC_SDAIN_def split: prod.splits)

lemma at_read: "IIC_SDAIN D s = (b, s') \<Longrightarrow> at_levels c d p ev s' = at_levels c d p ev s"
  using decoded_read [of D s b s'] by (simp add: at_levels_def)

lemma start_at: "at_levels True True False ev s \<Longrightarrow> at_levels False False False (ev @ [I2c_start]) (IIC_Start D s)"
  by (simp add: at_levels_def IIC_Start_def)

lemma restart_at: "at_levels False d False ev s \<Longrightarrow> at_levels False False False (ev @ [I2c_start]) (IIC_Start D s)"
  by (simp add: at_levels_def IIC_Start_def)

lemma stop_at: "at_levels False d False ev s \<Longrightarrow> at_levels True True False (ev @ [I2c_stop]) (IIC_Stop D s)"
  by (simp add: at_levels_def IIC_Stop_def)

lemma wait_low_at: "wait_low D k s = (r, s') \<Longrightarrow> at_levels c d p ev s' = at_levels c d p ev s"
proof (induction D k s rule: wait_low.induct)
  case (1 D k s)
  obtain b t where "IIC_SDAIN D s = (b, t)" by (cases "IIC_SDAIN D s")
  then show ?case using 1 at_read [of D s b t c d p ev]
    by (auto simp: wait_low.simps [of D k s] split: if_splits nat.splits)
qed

lemma ack_at:
  assumes "at_levels False d False ev s" and "MCU_Wait_Ack D s = (r, s')"
  shows "if r = 0 then at_levels False True False (ev @ [I2c_bit True]) s'
    else at_levels True True False (ev @ [I2c_bit True, I2c_stop]) s'"
proof -
  obtain b t where w: "wait_low D 250 (IIC_SCL D True (IIC_SDAOUT D True s)) = (b, t)"
    by (cases "wait_low D 250 (IIC_SCL D True (IIC_SDAOUT D True s))")
  have "at_levels True True True ev (IIC_SCL D True (IIC_SDAOUT D True s))" using assms(1) by (simp add: at_levels_def)
  then have "at_levels True True True ev t" using wait_low_at [OF w] by blast
  then show ?thesis using assms(2) w by (cases b) (auto simp: MCU_Wait_Ack_def at_levels_def IIC_Stop_def)
qed

text \<open>The bits of a byte, the high one first.\<close>

definition byte_bits :: "u8 \<Rightarrow> bool list" where
  "byte_bits b = map (\<lambda>i. bit b (7 - i)) [0..<8]"

lemma write_bits_at:
  "at_levels False d False ev s \<Longrightarrow> k + j = 8 \<Longrightarrow>
   \<exists>d'. at_levels False d' False (ev @ map I2c_bit (drop j (byte_bits b))) (write_bits D k (push_bit j b) s)"
proof (induction k arbitrary: d ev s j)
  case 0
  then show ?case by (auto simp: byte_bits_def)
next
  case (Suc k)
  have j: "j < 8" using Suc.prems(2) by simp
  let ?s = "IIC_SCL D False (IIC_SCL D True (IIC_SDAOUT D (push_bit j b AND 0x80 \<noteq> 0) s))"
  have at: "at_levels False (bit b (7 - j)) False (ev @ [I2c_bit (bit b (7 - j))]) ?s"
    using Suc.prems(1) unfolding high_bit [OF j] by (simp add: at_levels_def)
  have "k + Suc j = 8" using Suc.prems(2) by simp
  from Suc.IH [OF at this] obtain d' where "at_levels False d' False
      ((ev @ [I2c_bit (bit b (7 - j))]) @ map I2c_bit (drop (Suc j) (byte_bits b))) (write_bits D k (push_bit (Suc j) b) ?s)" by blast
  moreover have "push_bit (Suc j) b = push_bit 1 (push_bit j b)" by (simp only: push_bit_push_bit) simp
  moreover have "drop j (byte_bits b) = bit b (7 - j) # drop (Suc j) (byte_bits b)"
    using j Cons_nth_drop_Suc [of j "byte_bits b"] by (simp add: byte_bits_def)
  ultimately show ?case unfolding write_bits.simps by (metis append.assoc append_Cons append_Nil list.simps(9))
qed

lemma byte_at: "at_levels False d False ev s \<Longrightarrow> \<exists>d'. at_levels False d' False (ev @ map I2c_bit (byte_bits b)) (IIC_write_OneByte D b s)"
  using write_bits_at [of d ev "IIC_SCL D False s" 8 0 b D] by (simp add: IIC_write_OneByte_def at_levels_def)

lemma send_at:
  assumes "at_levels False d False ev s" and "MCU_Wait_Ack D (IIC_write_OneByte D b s) = (0, s')"
  shows "at_levels False True False (ev @ map I2c_bit (byte_bits b @ [True])) (send_acked D b s)"
proof -
  obtain d' where "at_levels False d' False (ev @ map I2c_bit (byte_bits b)) (IIC_write_OneByte D b s)"
    using byte_at [OF assms(1)] by blast
  from ack_at [OF this assms(2)] assms(2) show ?thesis by (simp add: send_acked_def)
qed

section \<open>A device that acknowledges\<close>

text \<open>A device that, wherever its state may have got to, pulls the wire within 250 polls.\<close>

fun polls_low :: "'d i2c_device \<Rightarrow> nat \<Rightarrow> 'd \<Rightarrow> bool" where
  "polls_low D k d = (case dv_read D d of (b, d) \<Rightarrow> \<not> b \<or> (case k of 0 \<Rightarrow> False | Suc k \<Rightarrow> polls_low D k d))"

declare polls_low.simps [simp del]

definition responsive :: "'d i2c_device \<Rightarrow> bool" where
  "responsive D \<longleftrightarrow> (\<forall>d. polls_low D 250 d)"

lemma wait_low_responds: "polls_low D k (iic_dev s) \<Longrightarrow> fst (wait_low D k s)"
proof (induction k arbitrary: s)
  case 0
  obtain b d where r: "dv_read D (iic_dev s) = (b, d)" by (cases "dv_read D (iic_dev s)")
  then have "\<not> b" using 0 by (subst (asm) polls_low.simps) simp
  then show ?case using r by (subst wait_low.simps) (simp add: IIC_SDAIN_def)
next
  case (Suc k)
  obtain b d where r: "dv_read D (iic_dev s) = (b, d)" by (cases "dv_read D (iic_dev s)")
  then have low: "\<not> b \<or> polls_low D k d" using Suc.prems by (subst (asm) polls_low.simps) simp
  show ?case
  proof (cases "sda s \<and> b")
    case True
    then have "fst (wait_low D k (s\<lparr>iic_dev := d, iic_reads := iic_reads s @ [sda s \<and> b]\<rparr>))" using Suc.IH low by simp
    then show ?thesis using r True by (subst wait_low.simps) (simp add: IIC_SDAIN_def)
  next
    case False
    then show ?thesis using r by (subst wait_low.simps) (auto simp: IIC_SDAIN_def)
  qed
qed

lemma acked:
  assumes "responsive D"
  shows "\<exists>s'. MCU_Wait_Ack D s = (0, s')"
proof -
  have "fst (wait_low D 250 (IIC_SCL D True (IIC_SDAOUT D True s)))"
    by (rule wait_low_responds) (use assms in \<open>simp only: responsive_def\<close>)
  then obtain t where "wait_low D 250 (IIC_SCL D True (IIC_SDAOUT D True s)) = (True, t)" by (metis prod.collapse)
  then show ?thesis by (simp add: MCU_Wait_Ack_def)
qed

lemma send_responsive:
  assumes "responsive D" and "at_levels False d False ev s"
  shows "at_levels False True False (ev @ map I2c_bit (byte_bits b @ [True])) (send_acked D b s)"
proof -
  obtain s' where "MCU_Wait_Ack D (IIC_write_OneByte D b s) = (0, s')" using acked [OF assms(1)] by blast
  then show ?thesis by (rule send_at [OF assms(2)])
qed

text \<open>Reading leaves the data wire released: eight bits that the device decides, and the byte they make.\<close>

definition bits_byte :: "bool list \<Rightarrow> u8" where
  "bits_byte bs = fold shift_in bs 0"

lemma read_bits_at:
  "sda s \<Longrightarrow> decoded s = \<lparr>dc_scl = scl s, dc_sda = True, dc_pending = p, dc_events = ev\<rparr> \<Longrightarrow> p = scl s \<Longrightarrow>
   \<exists>s'. read_bits D (Suc k) b s = (fold shift_in (drop (length (iic_reads s)) (iic_reads s')) b, s') \<and>
     at_levels True True True (ev @ replicate (k + (if p then 1 else 0)) (I2c_bit True)) s' \<and>
     take (length (iic_reads s)) (iic_reads s') = iic_reads s \<and> length (iic_reads s') = length (iic_reads s) + Suc k"
proof (induction k arbitrary: b s p ev)
  case 0
  obtain h t where r: "IIC_SDAIN D (IIC_SCL D True (IIC_SCL D False s)) = (h, t)" by (cases "IIC_SDAIN D (IIC_SCL D True (IIC_SCL D False s))")
  then show ?case using 0 decoded_read [OF r] by (cases p) (auto simp: at_levels_def)
next
  case (Suc k)
  obtain h t where r: "IIC_SDAIN D (IIC_SCL D True (IIC_SCL D False s)) = (h, t)" by (cases "IIC_SDAIN D (IIC_SCL D True (IIC_SCL D False s))")
  define ev' where "ev' = ev @ (if p then [I2c_bit True] else [])"
  have t: "sda t" "scl t" "decoded t = \<lparr>dc_scl = scl t, dc_sda = True, dc_pending = True, dc_events = ev'\<rparr>" "iic_reads t = iic_reads s @ [h]"
    using Suc.prems decoded_read [OF r] by (cases p; auto simp: ev'_def)+
  have "True = scl t" using t(2) by simp
  from Suc.IH [OF t(1,3) this, of "shift_in h b"] obtain s' where
    s': "read_bits D (Suc k) (shift_in h b) t = (fold shift_in (drop (length (iic_reads t)) (iic_reads s')) (shift_in h b), s')"
      "at_levels True True True (ev' @ replicate (k + 1) (I2c_bit True)) s'"
      "take (length (iic_reads t)) (iic_reads s') = iic_reads t" "length (iic_reads s') = length (iic_reads t) + Suc k"
    by (simp only: if_True) blast
  have d: "drop (length (iic_reads s)) (iic_reads s') = h # drop (length (iic_reads t)) (iic_reads s')"
    "take (length (iic_reads s)) (iic_reads s') = iic_reads s"
    using s'(3) t(4) append_take_drop_id [of "length (iic_reads t)" "iic_reads s'"] by (metis append.assoc append_Cons append_Nil append_eq_conv_conj)+
  have "ev' @ replicate (k + 1) (I2c_bit True) = ev @ replicate (Suc k + (if p then 1 else 0)) (I2c_bit True)"
    by (simp add: ev'_def)
  then show ?case using r s' d t(4) by (simp only: read_bits.simps prod.case) simp
qed

lemma nack_at:
  assumes "at_levels True True True ev s"
  shows "at_levels False True False (ev @ [I2c_bit True, I2c_bit True]) (MCU_NOAck D s)"
  using assms by (simp add: at_levels_def MCU_NOAck_def)


section \<open>Devices\<close>

text \<open>A device that lets the wire be high twice and pulls it every third time it is read.\<close>

definition third_low :: "nat i2c_device" where
  "third_low = \<lparr>dv_edge = (\<lambda>c d n. n), dv_read = (\<lambda>n. (n mod 3 \<noteq> 2, n + 1))\<rparr>"

definition idle_bus :: "'d \<Rightarrow> 'd iic" where
  "idle_bus d = \<lparr>scl = True, sda = True, wires = [], iic_reads = [], iic_dev = d\<rparr>"

lemma idle_bus_at: "at_levels True True False [] (idle_bus d)"
  by (simp add: at_levels_def idle_bus_def decoded_def idle_decoder_def)

lemma third_low_responsive: "responsive third_low"
proof -
  have "polls_low third_low (Suc (Suc (Suc k))) n" for k n
    by (subst polls_low.simps, simp add: third_low_def, subst polls_low.simps, simp, subst polls_low.simps, simp) presburger
  from this [of 247] show ?thesis by (simp add: responsive_def)
qed


section \<open>Bytes of a number\<close>

lemma buf_write_Suc: "buf_write v (Suc k) = ucast v # buf_write (drop_bit 8 v) k"
  by (simp add: buf_write_def map_upt_Suc add.commute del: upt_Suc)

lemma buf_read_Cons: "buf_read (b # bs) = push_bit 8 (buf_read bs) + ucast b" by (simp add: buf_read_def)

lemma buf_read_write: "buf_read (buf_write v k) = take_bit (8 * k) v"
proof (induction k arbitrary: v)
  case 0
  then show ?case by (simp add: buf_read_def buf_write_def)
next
  case (Suc k)
  have "push_bit 8 (take_bit (8 * k) (drop_bit 8 v)) + ucast (ucast v :: u8) = push_bit 8 (take_bit (8 * k) (drop_bit 8 v)) OR ucast (ucast v :: u8)"
    by (rule disjunctive_add_eq_or) (auto intro!: bit_word_eqI simp: bit_simps)
  also have "\<dots> = take_bit (8 * Suc k) v"
  proof (rule bit_word_eqI)
    fix n assume n: "n < LENGTH(32)"
    show "bit (push_bit 8 (take_bit (8 * k) (drop_bit 8 v)) OR ucast (ucast v :: u8)) n = bit (take_bit (8 * Suc k) v) n"
      using n by (cases "n < 8") (auto simp: bit_or_iff bit_push_bit_iff bit_take_bit_iff bit_drop_bit_eq bit_ucast_iff)
  qed
  finally show ?case using Suc.IH [of "drop_bit 8 v"] by (simp only: buf_write_Suc buf_read_Cons)
qed

text \<open>What Buf_4Byte stores in \<open>n\<close> bytes it reads back, cut to them.\<close>

lemma buf_roundtrip:
  assumes "unat n \<le> 4" and "unat n \<le> length buf" and "mode \<noteq> 0"
  shows "\<exists>buf'. Buf_4Byte buf v n mode = Some (0, buf') \<and> Buf_4Byte buf' 0 n 0 = Some (take_bit (8 * unat n) v, buf')"
proof -
  have "length (buf_write v (unat n)) = unat n" by (simp add: buf_write_def)
  then show ?thesis using assms by (simp add: Buf_4Byte_def mem_put_def buf_read_write)
qed

section \<open>Where the driver goes wrong\<close>

text \<open>Without an acknowledge the bus is stopped, but the transfer goes on without a start.\<close>

definition absent :: "unit i2c_device" where
  "absent = \<lparr>dv_edge = (\<lambda>c d n. n), dv_read = (\<lambda>n. (True, n))\<rparr>"

lemma missing_ack_ignored:
  "take 20 (iic_events (AT24C02_WriteByte absent 0x00 0x00 (idle_bus ()))) =
     [I2c_start] @ map I2c_bit (byte_bits 0xA0 @ [True]) @ [I2c_stop] @ map I2c_bit (byte_bits 0x00 @ [True])"
  by code_simp

text \<open>The shell passes the length of the text as the size of its letters: a text of five letters shows nothing.\<close>

lemma shell_text_as_size: "lcd_write_str [0x48, 0x65, 0x6C, 0x6C, 0x6F] s = Some (s\<lparr>BRUSH_COLOR := LCD_RED\<rparr>)"
  by (simp add: lcd_write_str_def LCD_DisplayChar_def Let_def word_le_nat_alt word_less_nat_alt)

end
