(* ===== verification/Gw_Shell.thy ===== *)
theory Gw_Shell
  imports Gateway_Props C_Strtol
begin

text \<open>
  The network commands of the gateway's shell, \<open>applications/gateway/src/net_shell.c\<close>.  The arguments are those
  behind the name of the command; the result is the command's with the state it leaves, or the printed lines where
  it prints only.
\<close>

section \<open>The commands\<close>

definition GW_SHELL_PAYLOAD_MAX :: nat where "GW_SHELL_PAYLOAD_MAX = 64"

text \<open>The loop of cmd_gw_send over the bytes, which ends when the buffer is full; \<open>None\<close> for a value that is no byte.\<close>

fun put_hex :: "string list \<Rightarrow> bytes \<Rightarrow> bytes option" where
  "put_hex [] buf = Some buf"
| "put_hex (s # ss) buf =
     (if length buf < GW_SHELL_PAYLOAD_MAX then
        let v = strtol 16 s
        in if v < 0 \<or> v > 0xFF then None else put_hex ss (buf @ [of_int v])
      else Some buf)"

definition cmd_gw_send :: "'c gw_env \<Rightarrow> string list \<Rightarrow> 'c gateway \<Rightarrow> int \<times> 'c gateway" where
  "cmd_gw_send E args g =
     (if length args < 2 then (- EINVAL, g)
      else
        let i = strtol 16 (args ! 0)
        in if i < 0 \<or> i > 0x7FF then (- EINVAL, g)
           else case put_hex (drop 1 args) (put_be16 (ge_bo E) (of_int i)) of
                  None \<Rightarrow> (- EINVAL, g)
                | Some buf \<Rightarrow> (0, gw_udp_send E buf g))"

text \<open>\<open>others i\<close> is what the other threads do in the 200 ms after round \<open>i\<close>.\<close>

fun gw_ping_loop :: "'c gw_env \<Rightarrow> (nat \<Rightarrow> 'c gateway \<Rightarrow> 'c gateway) \<Rightarrow> nat \<Rightarrow> nat \<Rightarrow> u8 \<Rightarrow> 'c gateway \<Rightarrow> 'c gateway" where
  "gw_ping_loop E others i 0 seq g = g"
| "gw_ping_loop E others i (Suc n) seq g =
     gw_ping_loop E others (i + 1) n (seq + 1) (others i (gw_udp_send E (put_be16 (ge_bo E) TEST_FRAME @ [seq]) g))"

definition ping_count :: "string list \<Rightarrow> int" where
  "ping_count args =
     (case args of [] \<Rightarrow> 5
      | s # _ \<Rightarrow> let n = strtol 10 s in if n < 1 then 1 else if n > 1000 then 1000 else n)"

definition cmd_gw_ping :: "'c gw_env \<Rightarrow> (nat \<Rightarrow> 'c gateway \<Rightarrow> 'c gateway) \<Rightarrow> string list \<Rightarrow> 'c gateway \<Rightarrow> int \<times> 'c gateway" where
  "cmd_gw_ping E others args g = (0, gw_ping_loop E others 0 (nat (ping_count args)) 0 g)"

text \<open>\<open>live\<close> is gw_get_live_ipv4; the lines of cmd_gw_info.\<close>

definition mode_text :: "u8 \<Rightarrow> string" where
  "mode_text dhcp = (if dhcp \<noteq> 0 then ''DHCP'' else ''static'')"

definition cmd_gw_info :: "'c gw_env \<Rightarrow> bytes option \<Rightarrow> 'c gateway \<Rightarrow> string list" where
  "cmd_gw_info E live g =
     (let ip = (case live of None \<Rightarrow> ''-'' | Some a \<Rightarrow> inet_ntop (ge_inet E) a);
          gw = (case inet_pton (ge_inet E) (gw_ip_addr g) of
                  None \<Rightarrow> ''-'' | Some a \<Rightarrow> inet_ntop (ge_inet E) (a[3 := 1]))
      in [''ip:        '' @ ip @ '' ('' @ mode_text (gw_use_dhcp g) @ '')''] @
         (if gw_use_dhcp g \<noteq> 0 then [''netmask:   (from DHCP)'', ''gateway:   (from DHCP)'']
          else [''netmask:   255.255.255.0 (fixed)'', ''gateway:   '' @ gw @ '' (derived)'']) @
         [''data port: '' @ dec_string (unat (gw_data_port g)), ''cfg port:  '' @ dec_string (unat (ge_config_port E)),
          ''running:   '' @ (if gw_running g then ''yes'' else ''no'')])"

definition cmd_gw_ip_show :: "'c gw_env \<Rightarrow> bytes option \<Rightarrow> 'c gateway \<Rightarrow> string" where
  "cmd_gw_ip_show E live g =
     (case live of
        Some a \<Rightarrow> ''ip: '' @ inet_ntop (ge_inet E) a @ '' ('' @ mode_text (gw_use_dhcp g) @ '')''
      | None \<Rightarrow> ''ip: (no address, stored='' @ gw_ip_addr g @ '')'')"

definition cmd_gw_ip :: "string list \<Rightarrow> 'c gateway \<Rightarrow> int \<times> 'c gateway" where
  "cmd_gw_ip args g =
     (case args of
        [] \<Rightarrow> (0, g)
      | s # _ \<Rightarrow>
          if gw_use_dhcp g \<noteq> 0 then (- EINVAL, g)
          else if length s \<ge> 16 then (- EINVAL, g)
          else (0, persist_save_network_config (g\<lparr>gw_ip_addr := s\<rparr>)))"

definition cmd_gw_port :: "string list \<Rightarrow> 'c gateway \<Rightarrow> int \<times> 'c gateway" where
  "cmd_gw_port args g =
     (case args of
        [] \<Rightarrow> (0, g)
      | s # _ \<Rightarrow>
          let p = strtol 10 s
          in if p < 1 \<or> p > 65535 then (- EINVAL, g)
             else (0, persist_save_network_config (g\<lparr>gw_data_port := of_int p\<rparr>)))"

text \<open>\<open>opened\<close> is flash_area_open's result and \<open>erase\<close> flash_area_erase on what the settings partition holds.\<close>

definition cmd_gw_reset :: "int \<Rightarrow> ((string \<rightharpoonup> bytes) \<Rightarrow> int \<times> (string \<rightharpoonup> bytes)) \<Rightarrow> 'c gateway \<Rightarrow> int \<times> 'c gateway" where
  "cmd_gw_reset opened erase g =
     (if opened \<noteq> 0 then (- EIO, g)
      else case erase (gw_store g) of (rc, store) \<Rightarrow> (if rc \<noteq> 0 then - EIO else 0, g\<lparr>gw_store := store\<rparr>))"

section \<open>What the commands do\<close>

lemma unat_u8: "unat b < 256" for b :: u8 using unsigned_less [of b, where ?'a = nat] by simp

lemma unat_u16: "unat w < 65536" for w :: u16 using unsigned_less [of w, where ?'a = nat] by simp

lemma strtol_hex_byte: "strtol 16 (base_text 16 (unat b)) = uint b" for b :: u8
  using strtol_base [of 16 "unat b"] unat_u8 [of b] by simp

lemma put_hex_bytes:
  "length buf + length bs \<le> GW_SHELL_PAYLOAD_MAX \<Longrightarrow> put_hex (map (\<lambda>b. base_text 16 (unat b)) bs) buf = Some (buf @ bs)"
proof (induction bs arbitrary: buf)
  case (Cons b bs)
  have "uint b \<le> 255" using uint_lt2p [of b] by simp
  then show ?case using Cons by (simp add: strtol_hex_byte Let_def not_less word_of_int_uint)
qed simp

text \<open>The loop keeps what is in the buffer and never fills more than its size.\<close>

lemma put_hex_length: "put_hex ss buf = Some r \<Longrightarrow> length buf \<le> GW_SHELL_PAYLOAD_MAX \<Longrightarrow>
    length r \<le> GW_SHELL_PAYLOAD_MAX \<and> take (length buf) r = buf"
proof (induction ss buf arbitrary: r rule: put_hex.induct)
  case (2 s ss buf)
  show ?case
  proof (cases "length buf < GW_SHELL_PAYLOAD_MAX")
    case True
    define v where "v = strtol 16 s"
    have v: "\<not> (v < 0 \<or> v > 0xFF)" "put_hex ss (buf @ [of_int v]) = Some r"
      using 2(2) True by (auto simp: v_def Let_def split: if_splits)
    from 2(1) [OF True v_def v(1) v(2)] True have "length r \<le> GW_SHELL_PAYLOAD_MAX" "take (Suc (length buf)) r = buf @ [of_int v]"
      by simp_all
    then show ?thesis by (metis append_eq_conv_conj take_Suc_conv_app_nth take_take min.absorb1 lessI less_imp_le_nat)
  next
    case False
    then show ?thesis using 2(2,3) by simp
  qed
qed simp

text \<open>A command that fails changes nothing.\<close>

lemma shell_failure_harmless:
  "fst (cmd_gw_send E args g) \<noteq> 0 \<Longrightarrow> snd (cmd_gw_send E args g) = g"
  "fst (cmd_gw_ip args g) \<noteq> 0 \<Longrightarrow> snd (cmd_gw_ip args g) = g"
  "fst (cmd_gw_port args g) \<noteq> 0 \<Longrightarrow> snd (cmd_gw_port args g) = g"
  by (auto simp: cmd_gw_send_def cmd_gw_ip_def cmd_gw_port_def Let_def split: list.splits option.splits if_splits)

text \<open>The pings of an undisturbed gateway: one frame a round, numbered from 0 and around.\<close>

lemma gw_udp_send_out:
  assumes "data_sock g \<ge> 0" and "gw_net_link_up g" and "inet_pton (ge_inet E) (gw_host_ip g) = Some a" and "bs \<noteq> []"
  shows "gw_udp_send E bs g = g\<lparr>gw_udp_out := gw_udp_out g @ [(a, gw_host_port g, bs)]\<rparr>"
  using assms by (simp add: gw_udp_send_def)

lemma gw_ping_frames:
  assumes "data_sock g \<ge> 0" and "gw_net_link_up g" and "inet_pton (ge_inet E) (gw_host_ip g) = Some a"
  shows "gw_ping_loop E (\<lambda>_ g. g) i n seq g =
    g\<lparr>gw_udp_out := gw_udp_out g @ map (\<lambda>k. (a, gw_host_port g, put_be16 (ge_bo E) TEST_FRAME @ [seq + of_nat k])) [0..<n]\<rparr>"
  using assms
proof (induction n arbitrary: i seq g)
  case (Suc n)
  show ?case
    by (simp add: gw_udp_send_out [OF Suc.prems] Suc.IH Suc.prems map_upt_Suc del: upt_Suc)
qed simp



section \<open>What is not looked at\<close>

text \<open>
  gw ip stores any text of up to 15 characters: with one that is no address the command succeeds, and at the next
  start net_init fails, so the gateway comes up without a network.
\<close>

lemma bad_address_stored:
  assumes "inet_pton (ge_inet E) s = None" and "length s < 16" and "gw_use_dhcp g = 0" and "gw_iface g = Some n"
  shows "fst (cmd_gw_ip [s] g) = 0 \<and> gw_store (snd (cmd_gw_ip [s] g)) ''gw/ip_addr'' = Some (char_bytes s) \<and>
    fst (net_init E uid set_mac (snd (cmd_gw_ip [s] g))) = - EINVAL"
  using assms by (simp add: cmd_gw_ip_def net_init_def persist_save_network_config_def save_one_def Let_def)

text \<open>A text that is no number at all is the byte 0, and what follows the digits is not looked at.\<close>

lemma text_as_byte: "put_hex [''hello'', ''12zz''] [] = Some [0, 0x12]"
  by code_simp

end
