(* ===== verification/Rf24_Commands.thy ===== *)
theory Rf24_Commands
  imports Gw_Shell Handset_Props
begin

text \<open>
  The commands of the link test in the two applications (rf24_shell.c of the gateway and of the handset), with the
  arguments as typed: the shared bodies of theory Rf24_Shell on the state and the radio of each, the address
  commands, in which the two differ, and what an address typed at both ends does to the link.
\<close>

section \<open>Arguments\<close>

text \<open>Five bytes in hexadecimal; \<open>None\<close> for a value that is no byte.\<close>

fun parse_addr :: "string list \<Rightarrow> bytes option" where
  "parse_addr [] = Some []"
| "parse_addr (s # ss) =
     (let v = strtol 16 s in if v < 0 \<or> v > 0xFF then None else map_option ((#) (of_int v)) (parse_addr ss))"

definition rf24_ping_count :: "string list \<Rightarrow> int option" where
  "rf24_ping_count args = (case args of [] \<Rightarrow> None | s # _ \<Rightarrow> Some (strtol 10 s))"

definition rf24_ping_interval :: "string list \<Rightarrow> int" where
  "rf24_ping_interval args =
     (case args of
        _ # s # _ \<Rightarrow> let n = strtol 10 s in if n < 10 then 10 else if n > 5000 then 5000 else n
      | _ \<Rightarrow> 200)"

text \<open>The address as the commands print it.\<close>

fun addr_text :: "bytes \<Rightarrow> string" where
  "addr_text [] = ''''"
| "addr_text [b] = [digit_char (unat b div 16), digit_char (unat b mod 16)]"
| "addr_text (b # bs) = [digit_char (unat b div 16), digit_char (unat b mod 16)] @ '' '' @ addr_text bs"

definition rf24_info_lines :: "bool \<Rightarrow> bytes \<Rightarrow> bool \<Rightarrow> string list" where
  "rf24_info_lines ready addr listening =
     [''device:  '' @ (if ready then ''ready'' else ''NOT ready''),
      ''channel: '' @ dec_string (unat RF24_FIXED_CH) @ '' (fixed)'',
      ''addr:    '' @ addr_text (take RF24_ADDR_LEN addr),
      ''listen:  '' @ (if listening then ''on'' else ''off'')]"

section \<open>The gateway's commands\<close>

definition gw_cmd_rf24_info :: "'c gw_env \<Rightarrow> 'c gateway \<Rightarrow> string list" where
  "gw_cmd_rf24_info E g = rf24_info_lines (ge_ready E) (gw_rf24_addr g) (listen_mode (gw_shell g))"

definition gw_cmd_rf24_addr :: "'c gw_env \<Rightarrow> string list \<Rightarrow> 'c gateway \<Rightarrow> int \<times> 'c gateway" where
  "gw_cmd_rf24_addr E args g =
     (if length args < 5 then (- EINVAL, g)
      else if \<not> ge_ready E then (- EIO, g)
      else case parse_addr (take RF24_ADDR_LEN args) of
             None \<Rightarrow> (- EINVAL, g)
           | Some addr \<Rightarrow> (0, persist_save_rf24_config (gw_rf24_set_config E addr g)))"

text \<open>A command on the link test's state and the gateway, put back into the gateway.\<close>

definition on_gw_shell :: "(test_shell \<times> 'c gateway \<Rightarrow> 'r \<times> test_shell \<times> 'c gateway) \<Rightarrow> 'c gateway \<Rightarrow> 'r \<times> 'c gateway" where
  "on_gw_shell f g = (case f (gw_shell g, g) of (r, sh, g) \<Rightarrow> (r, g\<lparr>gw_shell := sh\<rparr>))"

definition gw_cmd_rf24_send :: "'c gw_env \<Rightarrow> 'c air \<Rightarrow> string list \<Rightarrow> 'c gateway \<Rightarrow> int \<times> 'c gateway" where
  "gw_cmd_rf24_send E air args = on_gw_shell (cmd_rf24_send (ge_ready E) (gw_rf24_send E air) args)"

text \<open>\<open>wait interval i\<close> is the wait for the echo of round \<open>i\<close> and the pause after it.\<close>

definition gw_cmd_rf24_ping :: "'c gw_env \<Rightarrow> 'c air \<Rightarrow> (int \<Rightarrow> nat \<Rightarrow> test_shell \<times> 'c gateway \<Rightarrow> u32 \<times> test_shell \<times> 'c gateway) \<Rightarrow>
    string list \<Rightarrow> 'c gateway \<Rightarrow> (int \<times> ping_line list \<times> (nat \<times> u32 \<times> u32 \<times> u32)) \<times> 'c gateway" where
  "gw_cmd_rf24_ping E air wait args = on_gw_shell (\<lambda>s.
     case cmd_rf24_ping (ge_ready E) (gw_rf24_send E air) (wait (rf24_ping_interval args)) (rf24_ping_count args) s of
       (r, ls, st, sh, g) \<Rightarrow> ((r, ls, st), sh, g))"

definition gw_cmd_rf24_listen :: "string list \<Rightarrow> 'c gateway \<Rightarrow> int \<times> 'c gateway" where
  "gw_cmd_rf24_listen args g =
     (case cmd_rf24_listen (case args of [] \<Rightarrow> None | s # _ \<Rightarrow> Some s) (gw_shell g) of (r, sh) \<Rightarrow> (r, g\<lparr>gw_shell := sh\<rparr>))"

definition gw_cmd_rf24_log :: "string list \<Rightarrow> 'c gateway \<Rightarrow> int \<times> 'c gateway" where
  "gw_cmd_rf24_log args g = (0, case args of [] \<Rightarrow> g | s # _ \<Rightarrow> g\<lparr>gw_log := (strtol 10 s \<noteq> 0)\<rparr>)"

section \<open>The handset's commands\<close>

definition hs_rf24_test_handle_rx :: "'c hs_env \<Rightarrow> 'c air \<Rightarrow> nrf24_tx_result \<Rightarrow> bytes \<Rightarrow> 'c handset \<Rightarrow> 'c handset" where
  "hs_rf24_test_handle_rx E air junk data h =
     (case rf24_test_handle_rx (rf24_data_send E air junk) data (hs_shell h, h) of (sh, h) \<Rightarrow> h\<lparr>hs_shell := sh\<rparr>)"

definition hs_cmd_rf24_info :: "'c hs_env \<Rightarrow> 'c handset \<Rightarrow> string list" where
  "hs_cmd_rf24_info E h = rf24_info_lines (he_ready E) (hs_addr h) (listen_mode (hs_shell h))"

definition hs_cmd_rf24_addr_typed :: "'c hs_env \<Rightarrow> string list \<Rightarrow> 'c handset \<Rightarrow> int \<times> 'c handset" where
  "hs_cmd_rf24_addr_typed E args = hs_cmd_rf24_addr E (map (strtol 16) args)"

definition on_hs_shell :: "(test_shell \<times> 'c handset \<Rightarrow> 'r \<times> test_shell \<times> 'c handset) \<Rightarrow> 'c handset \<Rightarrow> 'r \<times> 'c handset" where
  "on_hs_shell f h = (case f (hs_shell h, h) of (r, sh, h) \<Rightarrow> (r, h\<lparr>hs_shell := sh\<rparr>))"

definition hs_cmd_rf24_send :: "'c hs_env \<Rightarrow> 'c air \<Rightarrow> nrf24_tx_result \<Rightarrow> string list \<Rightarrow> 'c handset \<Rightarrow> int \<times> 'c handset" where
  "hs_cmd_rf24_send E air junk args = on_hs_shell (cmd_rf24_send (he_ready E) (rf24_data_send E air junk) args)"

definition hs_cmd_rf24_ping :: "'c hs_env \<Rightarrow> 'c air \<Rightarrow> nrf24_tx_result \<Rightarrow>
    (int \<Rightarrow> nat \<Rightarrow> test_shell \<times> 'c handset \<Rightarrow> u32 \<times> test_shell \<times> 'c handset) \<Rightarrow> string list \<Rightarrow> 'c handset \<Rightarrow>
    (int \<times> ping_line list \<times> (nat \<times> u32 \<times> u32 \<times> u32)) \<times> 'c handset" where
  "hs_cmd_rf24_ping E air junk wait args = on_hs_shell (\<lambda>s.
     case cmd_rf24_ping (he_ready E) (rf24_data_send E air junk) (wait (rf24_ping_interval args)) (rf24_ping_count args) s of
       (r, ls, st, sh, h) \<Rightarrow> ((r, ls, st), sh, h))"

definition hs_cmd_rf24_listen :: "string list \<Rightarrow> 'c handset \<Rightarrow> int \<times> 'c handset" where
  "hs_cmd_rf24_listen args h =
     (case cmd_rf24_listen (case args of [] \<Rightarrow> None | s # _ \<Rightarrow> Some s) (hs_shell h) of (r, sh) \<Rightarrow> (r, h\<lparr>hs_shell := sh\<rparr>))"

text \<open>Two commands of gpio.c: the count of the link test as typed, and the address, which is printed without gaps.\<close>

definition hs_cmd_link_test :: "'c hs_env \<Rightarrow> (nat \<Rightarrow> 'c air) \<Rightarrow> nrf24_tx_result \<Rightarrow> string list \<Rightarrow> 'c handset \<Rightarrow>
    (nat \<times> nat) \<times> 'c handset" where
  "hs_cmd_link_test E air junk args = cmd_link_test E air junk (case args of [] \<Rightarrow> None | s # _ \<Rightarrow> Some (strtol 10 s))"

definition cmd_link_rf24_get :: "'c handset \<Rightarrow> string list" where
  "cmd_link_rf24_get h =
     [''rf24 channel: '' @ dec_string (unat RF24_FIXED_CH) @ '' (fixed)'',
      ''rf24 addr:   '' @ concat (map (\<lambda>b. [digit_char (unat b div 16), digit_char (unat b mod 16)]) (take RF24_ADDR_LEN (hs_addr h)))]"

section \<open>A new address\<close>

lemma parse_addr_typed: "parse_addr (map (\<lambda>b. base_text 16 (unat b)) bs) = Some bs"
proof (induction bs)
  case (Cons b bs)
  have "uint b \<le> 255" using uint_lt2p [of b] by simp
  then show ?case using Cons by (simp add: strtol_hex_byte Let_def not_less word_of_int_uint)
qed simp

lemma store_addr_typed:
  "length bs + i \<le> length a \<Longrightarrow> store_addr (map (\<lambda>b. uint b) bs) i a = (True, take i a @ bs @ drop (i + length bs) a)"
  for bs :: bytes
proof (induction bs arbitrary: i a)
  case (Cons b bs)
  have "uint b \<le> 255" using uint_lt2p [of b] by simp
  moreover have "take i (a[i := b]) = take i a" "a[i := b] ! i = b" using Cons.prems by simp_all
  ultimately show ?case using Cons by (simp add: not_less word_of_int_uint take_Suc_conv_app_nth)
qed simp

text \<open>
  Typed at both ends, the address is the radio address of both; only the gateway stores it and keys its cipher with
  it, the handset goes on with the key of the old address, see theory Crypt_Link for what such a link delivers.
\<close>

lemma address_at_both_ends:
  assumes "length bs = 5" and "ge_ready E" and "ge_crypt E" and "he_ready H" and "length (hs_addr h) = 5"
  defines "args \<equiv> map (\<lambda>b. base_text 16 (unat b)) bs"
  shows "fst (gw_cmd_rf24_addr E args g) = 0 \<and> gw_rf24_addr (snd (gw_cmd_rf24_addr E args g)) = bs \<and>
    gw_store (snd (gw_cmd_rf24_addr E args g)) ''gw/rf24_addr'' = Some bs \<and>
    gw_crypt (snd (gw_cmd_rf24_addr E args g)) = nrf24_crypt_set_key (ge_bo E) bs (gw_crypt g)"
    "fst (hs_cmd_rf24_addr_typed H args h) = 0 \<and> hs_addr (snd (hs_cmd_rf24_addr_typed H args h)) = bs \<and>
    hs_crypt (snd (hs_cmd_rf24_addr_typed H args h)) = hs_crypt h \<and> hs_store (snd (hs_cmd_rf24_addr_typed H args h)) = hs_store h"
proof -
  have t: "take RF24_ADDR_LEN args = args" using assms(1) by (simp add: args_def rf24_consts)
  have p: "parse_addr args = Some bs" by (simp add: args_def parse_addr_typed)
  show "fst (gw_cmd_rf24_addr E args g) = 0 \<and> gw_rf24_addr (snd (gw_cmd_rf24_addr E args g)) = bs \<and>
    gw_store (snd (gw_cmd_rf24_addr E args g)) ''gw/rf24_addr'' = Some bs \<and>
    gw_crypt (snd (gw_cmd_rf24_addr E args g)) = nrf24_crypt_set_key (ge_bo E) bs (gw_crypt g)"
    using assms(1-3) t p by (simp add: gw_cmd_rf24_addr_def gw_rf24_set_config_def persist_save_rf24_config_def save_one_def
        args_def rf24_consts Let_def)
  have "map (strtol 16) args = map (\<lambda>b. uint b) bs" by (simp add: args_def strtol_hex_byte)
  moreover have "take RF24_ADDR_LEN (map (\<lambda>b. uint b) bs) = map (\<lambda>b. uint b) bs" using assms(1) by (simp add: rf24_consts)
  ultimately show "fst (hs_cmd_rf24_addr_typed H args h) = 0 \<and> hs_addr (snd (hs_cmd_rf24_addr_typed H args h)) = bs \<and>
    hs_crypt (snd (hs_cmd_rf24_addr_typed H args h)) = hs_crypt h \<and> hs_store (snd (hs_cmd_rf24_addr_typed H args h)) = hs_store h"
    using assms(1,4,5) store_addr_typed [of bs 0 "hs_addr h"]
    by (simp add: hs_cmd_rf24_addr_typed_def hs_cmd_rf24_addr_def rf24_apply_config_def Let_def)
qed

end
