(* ===== verification/Start_Up.thy ===== *)
theory Start_Up
  imports Collector_Tcp Nrf24_Props
begin

text \<open>
  How the servers of the data collector come up (rtu.c, the beginnings of tcp_poll in tcp.c and ftp_poll in ftpd.c),
  its clock (time.c) and its fatal errors (main.c), and the register dump of the radio driver (nrf24_dump_regs in nrf24l01p.c).  The results of the
  kernel's calls are arguments.
\<close>

section \<open>Modbus over the serial line (rtu.c)\<close>

record serial_server =
  rs_unit_id :: u8
  rs_baud :: u32

text \<open>The parameters handed to the stack, \<open>None\<close> when there is no interface.\<close>

definition rtu_server :: "int \<Rightarrow> int \<Rightarrow> 'w collector \<Rightarrow> int \<times> serial_server option" where
  "rtu_server iface err s =
     (if iface < 0 then (iface, None)
      else (err, Some \<lparr>rs_unit_id = ucast (get_holding_reg HOLDING_SLAVE_ID_IDX s),
                       rs_baud = ucast (get_holding_reg HOLDING_RS485_BPS_IDX s)\<rparr>))"

definition rtu_init :: "int \<Rightarrow> int \<Rightarrow> 'w collector \<Rightarrow> int \<times> serial_server option" where
  "rtu_init iface err s = (0, snd (rtu_server iface err s))"

section \<open>The TCP servers\<close>

text \<open>socket, bind and listen of a server; the port it listens on, \<open>None\<close> when its thread ends.\<close>

definition server_listens :: "int \<Rightarrow> int \<Rightarrow> int \<Rightarrow> u16 \<Rightarrow> u16 option" where
  "server_listens sock bound listening port =
     (if sock < 0 then None else if bound < 0 then None else if listening < 0 then None else Some port)"

definition tcp_poll_start :: "int \<Rightarrow> int \<Rightarrow> int \<Rightarrow> int \<Rightarrow> int \<Rightarrow> 'w tcp \<Rightarrow> u16 option" where
  "tcp_poll_start iface err sock bound listening s =
     (if fst (init_modbus_server iface err s) \<noteq> 0 then None
      else server_listens sock bound listening (get_holding_reg HOLDING_TCP_PORT_IDX (tcp_col s)))"

definition ftp_poll_start :: "int \<Rightarrow> int \<Rightarrow> int \<Rightarrow> u16 option" where
  "ftp_poll_start sock bound listening = server_listens sock bound listening 21"

section \<open>The clock (time.c)\<close>

text \<open>\<open>rtc\<close> is the time of the clock chip in seconds, \<open>rc\<close> the result of clock_settime.\<close>

definition clock_init :: "u32 \<Rightarrow> int \<Rightarrow> 'w collector \<Rightarrow> int \<times> 'w collector" where
  "clock_init rtc rc s = (if rc < 0 then (- 1, s) else (0, s\<lparr>dc_clock := Some rtc\<rparr>))"

section \<open>A fatal error (main.c)\<close>

text \<open>The kernel's reasons; a stack overflow restarts the device, everything else stops it where it is.\<close>

datatype dc_fatal_reason = Cpu_exception | Spurious_irq | Stack_chk_fail | Kernel_oops | Kernel_panic

definition dc_fatal_error_handler :: "dc_fatal_reason \<Rightarrow> 'w collector \<Rightarrow> 'w collector" where
  "dc_fatal_error_handler reason s = (if reason = Stack_chk_fail then s\<lparr>dc_rebooted := True\<rparr> else s)"

section \<open>The register dump (nrf24l01p.c)\<close>

text \<open>A register that cannot be read is shown as the 0 its variable was set to.\<close>

definition L01REG_FIFO_STATUS :: u8 where "L01REG_FIFO_STATUS = 0x17"

definition dump_order :: "u8 list" where
  "dump_order = [L01REG_STATUS, L01REG_CONFIG, L01REG_RF_SETUP, L01REG_RF_CH, L01REG_OBSERVE_TX, L01REG_FIFO_STATUS,
     L01REG_FEATURE, L01REG_DYNPD, L01REG_ENAA, L01REG_EN_RXADDR, L01REG_SETUP_RETR, L01REG_SETUP_AW]"

fun dump_read :: "'c nrf24_hw \<Rightarrow> u8 list \<Rightarrow> 'c nrf24 \<Rightarrow> u8 list \<times> 'c nrf24" where
  "dump_read hw [] d = ([], d)"
| "dump_read hw (r # rs) d =
     (case reg_read_locked hw r 0 d of (_, v, d) \<Rightarrow> case dump_read hw rs d of (vs, d) \<Rightarrow> (v # vs, d))"

text \<open>The fields of the lines that take a register apart.\<close>

definition bit_at :: "u8 \<Rightarrow> nat \<Rightarrow> u8" where
  "bit_at v i = drop_bit i v AND 1"

definition status_fields :: "u8 \<Rightarrow> (string \<times> u8) list" where
  "status_fields v = [(''RX_DR'', bit_at v RX_DR), (''TX_DS'', bit_at v TX_DS), (''MAX_RT'', bit_at v MAX_RT)]"

definition config_fields :: "u8 \<Rightarrow> (string \<times> u8) list" where
  "config_fields v = [(''PWR_UP'', bit_at v PWR_UP), (''PRIM_RX'', bit_at v PRIM_RX), (''EN_CRC'', bit_at v EN_CRC),
     (''CRCO'', bit_at v CRCO)]"

definition observe_fields :: "u8 \<Rightarrow> (string \<times> u8) list" where
  "observe_fields v = [(''ARC'', v AND 0x0F), (''PLOS'', drop_bit 4 v AND 0x0F)]"

definition fifo_fields :: "u8 \<Rightarrow> (string \<times> u8) list" where
  "fifo_fields v = [(''TX_EMPTY'', bit_at v 5), (''TX_FULL'', bit_at v 5), (''RX_EMPTY'', v AND 1)]"

definition nrf24_dump_regs :: "'c nrf24_hw \<Rightarrow> 'c nrf24 \<Rightarrow> (u8 list \<times> (string \<times> u8) list \<times> bytes \<times> bytes) \<times> 'c nrf24" where
  "nrf24_dump_regs hw d =
     (case dump_read hw dump_order d of (vs, d) \<Rightarrow>
        case reg_read_multi_locked hw L01REG_TX_ADDR (replicate 5 0) 5 d of (_, tx, d) \<Rightarrow>
          case reg_read_multi_locked hw L01REG_RX_ADDR_P0 (replicate 5 0) 5 d of (_, rx, d) \<Rightarrow>
            ((vs, status_fields (vs ! 0) @ config_fields (vs ! 1) @ observe_fields (vs ! 4) @ fifo_fields (vs ! 5), tx, rx), d))"

text \<open>
  The flag of an empty transmit queue is bit 4 of FIFO_STATUS; the dump shows bit 5, that of a full queue, under both
  names: an empty queue is shown as not empty.
\<close>

lemma dump_hides_tx_empty: "\<not> bit v 5 \<Longrightarrow> bit v 4 \<Longrightarrow> map_of (fifo_fields v) ''TX_EMPTY'' = Some 0"
  by (auto simp: fifo_fields_def bit_at_def intro!: bit_word_eqI simp: bit_simps bit_1_iff)

text \<open>The dump only reads: what it leaves of the driver differs from before by transfers on the bus.\<close>

lemma dump_read_length: "length (fst (dump_read hw rs d)) = length rs"
  by (induction rs arbitrary: d) (simp_all split: prod.splits, metis fst_conv)

end
