(* ===== verification/Udp_Test.thy ===== *)
theory Udp_Test
  imports Gw_Shell
begin

text \<open>
  The UDP test program, \<open>applications/gateway_udp_test\<close>: the data port with its echo and the configuration
  commands (udp.c, a callback of the library of theory Udp_Fw), the stored settings (persist.c), the shell
  (shell.c) and the start (main.c).  gut_params and the static variables are the record \<open>gut\<close>; \<open>gut_env\<close> is what
  the platform fixes.  \<open>live\<close> is the address of the interface with its netmask, \<open>None\<close> without an interface or
  while it has none.
\<close>

section \<open>State\<close>

record gut_env =
  ue_bo :: byteorder
  ue_inet :: inet_api
  ue_config_port :: u16
  ue_name_next :: "string \<Rightarrow> nat \<times> string option"

type_synonym endpoint = "bytes \<times> u16"
type_synonym live_addr = "(bytes \<times> bytes) option"

text \<open>\<open>gut_event\<close> is the event bit the data thread waits for, \<open>gut_out\<close> what went to the data socket.\<close>

record gut =
  gut_rf24_channel :: u8
  gut_rf24_addr :: bytes
  gut_ip_addr :: string
  gut_data_port :: u16
  gut_use_dhcp :: u8
  gut_running :: bool
  gut_echo :: bool
  gut_log :: bool
  gut_event :: bool
  gut_net_link_up :: bool
  gut_link_sem :: nat
  gut_data_sock :: int
  gut_remote :: endpoint
  gut_out :: "(endpoint \<times> bytes) list"
  gut_store :: "string \<rightharpoonup> bytes"
  gut_iface :: "net_iface option"

definition RF24_ADDR_MAX_CH :: u8 where "RF24_ADDR_MAX_CH = 125"
definition RF24_DEFAULT_CH :: u8 where "RF24_DEFAULT_CH = 76"
definition GUT_DATA_PORT_DEFAULT :: u16 where "GUT_DATA_PORT_DEFAULT = 9600"
definition bcast_ip :: bytes where "bcast_ip = [255, 255, 255, 255]"

section \<open>The data port (udp.c)\<close>

definition gut_same_subnet :: "live_addr \<Rightarrow> bytes \<Rightarrow> bool" where
  "gut_same_subnet live ip =
     (case live of None \<Rightarrow> True | Some (local_ip, nm) \<Rightarrow> map2 (AND) ip nm = map2 (AND) local_ip nm)"

definition gut_udp_send :: "live_addr \<Rightarrow> bytes \<Rightarrow> gut \<Rightarrow> gut" where
  "gut_udp_send live data g =
     (if gut_data_sock g < 0 \<or> length data = 0 then g
      else if \<not> gut_net_link_up g then g
      else
        let dst = (if gut_same_subnet live (fst (gut_remote g)) then gut_remote g
                   else (bcast_ip, gut_data_port g + 1))
        in g\<lparr>gut_out := gut_out g @ [(dst, data)]\<rparr>)"

text \<open>Opening the socket once the event is there, and a datagram on it; the buffer holds 512 bytes.\<close>

definition gut_data_open :: "int \<Rightarrow> int \<Rightarrow> gut \<Rightarrow> gut" where
  "gut_data_open sock bound g =
     (if \<not> gut_event g then g
      else if sock < 0 then g\<lparr>gut_data_sock := sock\<rparr>
      else if bound < 0 then g\<lparr>gut_data_sock := -1\<rparr>
      else g\<lparr>gut_data_sock := sock, gut_remote := (bcast_ip, gut_data_port g)\<rparr>)"

definition gut_data_rx :: "live_addr \<Rightarrow> endpoint \<times> bytes \<Rightarrow> gut \<Rightarrow> gut" where
  "gut_data_rx live = (\<lambda>(src, dg) g.
     let buf = take 512 dg
     in if length buf = 0 then g
        else
          let g = (if gut_same_subnet live (fst src) then g\<lparr>gut_remote := src\<rparr> else g)
          in if length buf \<ge> 2 \<and> gut_echo g then gut_udp_send live buf g else g)"

section \<open>Stored settings (persist.c)\<close>

definition gut_save_one :: "string \<Rightarrow> bytes \<Rightarrow> gut \<Rightarrow> gut" where
  "gut_save_one name val g = g\<lparr>gut_store := (gut_store g)(name \<mapsto> val)\<rparr>"

definition gut_save_rf24_config :: "gut \<Rightarrow> gut" where
  "gut_save_rf24_config g =
     (let g = gut_save_one ''gut/rf24_channel'' [gut_rf24_channel g] g
      in gut_save_one ''gut/rf24_addr'' (gut_rf24_addr g) g)"

definition gut_save_network_config :: "gut \<Rightarrow> gut" where
  "gut_save_network_config g =
     (let g = gut_save_one ''gut/ip_addr'' (char_bytes (gut_ip_addr g)) g;
          g = gut_save_one ''gut/data_port'' (u16_mem (gut_data_port g)) g
      in gut_save_one ''gut/use_dhcp'' [gut_use_dhcp g] g)"

definition gut_persist_export :: "gut \<Rightarrow> (string \<times> bytes) list" where
  "gut_persist_export g =
     [(''gut/rf24_channel'', [gut_rf24_channel g]), (''gut/rf24_addr'', gut_rf24_addr g),
      (''gut/ip_addr'', char_bytes (gut_ip_addr g)), (''gut/data_port'', u16_mem (gut_data_port g)),
      (''gut/use_dhcp'', [gut_use_dhcp g])]"

definition gut_persist_set :: "gut_env \<Rightarrow> string \<Rightarrow> bytes \<Rightarrow> gut \<Rightarrow> int \<times> gut" where
  "gut_persist_set E name val g =
     (case ue_name_next E name of (name_len, nxt) \<Rightarrow>
        let is_key = (\<lambda>key. nxt = None \<and> take name_len name = take name_len key)
        in if is_key ''rf24_channel'' then
             (0, if length val = 1 \<and> val ! 0 \<le> RF24_ADDR_MAX_CH then g\<lparr>gut_rf24_channel := val ! 0\<rparr> else g)
           else if is_key ''rf24_addr'' then
             (0, if length val = RF24_ADDR_LEN then g\<lparr>gut_rf24_addr := val\<rparr> else g)
           else if is_key ''ip_addr'' then
             (0, if length val < 16 then g\<lparr>gut_ip_addr := c_string val\<rparr> else g)
           else if is_key ''data_port'' then
             (0, if length val = 2 then g\<lparr>gut_data_port := mem_u16 val\<rparr> else g)
           else if is_key ''use_dhcp'' then
             (0, if length val = 1 then g\<lparr>gut_use_dhcp := val ! 0\<rparr> else g)
           else (- 2, g))"

definition gut_load_entry :: "gut_env \<Rightarrow> string \<times> bytes \<Rightarrow> gut \<Rightarrow> gut" where
  "gut_load_entry E = (\<lambda>(name, val) g.
     if take 4 name = ''gut/'' then snd (gut_persist_set E (drop 4 name) val g) else g)"

definition gut_settings_backend_init :: "int \<Rightarrow> gut \<Rightarrow> int \<times> gut" where
  "gut_settings_backend_init rc g =
     (if rc \<noteq> 0 then (rc, g)
      else (rc, g\<lparr>gut_store := (gut_store g)(''gut/netmask'' := None, ''gut/gateway'' := None)\<rparr>))"

section \<open>Configuration commands (udp.c)\<close>

definition GUT_CMD_SET_NET :: u8 where "GUT_CMD_SET_NET = 0x12"
definition GUT_CMD_GET_NET :: u8 where "GUT_CMD_GET_NET = 0x13"
definition GUT_CMD_SET_RF24 :: u8 where "GUT_CMD_SET_RF24 = 0x14"
definition GUT_CMD_GET_RF24 :: u8 where "GUT_CMD_GET_RF24 = 0x15"
definition GUT_CMD_SET_NET_MODE :: u8 where "GUT_CMD_SET_NET_MODE = 0x16"
definition GUT_CMD_GET_NET_MODE :: u8 where "GUT_CMD_GET_NET_MODE = 0x17"

lemmas gut_cmd_defs = GUT_CMD_SET_NET_def GUT_CMD_GET_NET_def GUT_CMD_SET_RF24_def GUT_CMD_GET_RF24_def
  GUT_CMD_SET_NET_MODE_def GUT_CMD_GET_NET_MODE_def

text \<open>The six bytes both network commands answer: the live address, else the stored one, else zeros, and the port.\<close>

definition net_reply :: "gut_env \<Rightarrow> live_addr \<Rightarrow> gut \<Rightarrow> bytes" where
  "net_reply E live g =
     (case live of
        Some (a, _) \<Rightarrow> a
      | None \<Rightarrow> (case inet_pton (ue_inet E) (gut_ip_addr g) of Some a \<Rightarrow> a | None \<Rightarrow> [0, 0, 0, 0])) @
     put_be16 (ue_bo E) (gut_data_port g)"

definition gut_app_cmd_handler :: "gut_env \<Rightarrow> live_addr \<Rightarrow> u8 \<times> bytes \<Rightarrow> gut \<times> (u8 \<times> bytes \<times> u8) list \<Rightarrow>
    bool \<times> gut \<times> (u8 \<times> bytes \<times> u8) list" where
  "gut_app_cmd_handler E live = (\<lambda>(cmd, data) (g, replies).
     let reply = (\<lambda>bs. replies @ [(cmd, bs, of_nat (length bs))])
     in if cmd = GUT_CMD_SET_NET then
          (if length data \<ge> 6 then
             let g = (if gut_use_dhcp g = 0 then g\<lparr>gut_ip_addr := inet_ntop (ue_inet E) (take 4 data)\<rparr> else g);
                 g = g\<lparr>gut_data_port := get_be16 (ue_bo E) (drop 4 data)\<rparr>;
                 g = gut_save_network_config g
             in (True, g, reply (net_reply E live g))
           else (True, g, replies))
        else if cmd = GUT_CMD_GET_NET then (True, g, reply (net_reply E live g))
        else if cmd = GUT_CMD_SET_RF24 then
          (if length data \<ge> 6 then
             let g = (if data ! 0 \<le> RF24_ADDR_MAX_CH then g\<lparr>gut_rf24_channel := data ! 0\<rparr> else g);
                 g = g\<lparr>gut_rf24_addr := take RF24_ADDR_LEN (drop 1 data)\<rparr>;
                 g = gut_save_rf24_config g
             in (True, g, reply (gut_rf24_channel g # gut_rf24_addr g))
           else (True, g, replies))
        else if cmd = GUT_CMD_GET_RF24 then (True, g, reply (gut_rf24_channel g # gut_rf24_addr g))
        else if cmd = GUT_CMD_SET_NET_MODE then
          (if length data \<ge> 1 then
             let mode = data ! 0;
                 g = (if mode \<le> 1 then gut_save_network_config (g\<lparr>gut_use_dhcp := mode\<rparr>) else g)
             in (True, g, reply [gut_use_dhcp g])
           else (True, g, replies))
        else if cmd = GUT_CMD_GET_NET_MODE then (True, g, reply [gut_use_dhcp g])
        else (False, g, replies))"

section \<open>The shell (shell.c)\<close>

definition cmd_gut_send :: "gut_env \<Rightarrow> live_addr \<Rightarrow> string list \<Rightarrow> gut \<Rightarrow> int \<times> gut" where
  "cmd_gut_send E live args g =
     (if length args < 2 then (- EINVAL, g)
      else
        let i = strtol 16 (args ! 0)
        in if i < 0 \<or> i > 0x7FF then (- EINVAL, g)
           else case put_hex (drop 1 args) (put_be16 (ue_bo E) (of_int i)) of
                  None \<Rightarrow> (- EINVAL, g)
                | Some buf \<Rightarrow> (0, gut_udp_send live buf g))"

fun gut_ping_loop :: "gut_env \<Rightarrow> live_addr \<Rightarrow> (nat \<Rightarrow> gut \<Rightarrow> gut) \<Rightarrow> nat \<Rightarrow> nat \<Rightarrow> u8 \<Rightarrow> gut \<Rightarrow> gut" where
  "gut_ping_loop E live others i 0 seq g = g"
| "gut_ping_loop E live others i (Suc n) seq g =
     gut_ping_loop E live others (i + 1) n (seq + 1)
       (others i (gut_udp_send live (put_be16 (ue_bo E) TEST_FRAME @ [seq]) g))"

definition cmd_gut_ping :: "gut_env \<Rightarrow> live_addr \<Rightarrow> (nat \<Rightarrow> gut \<Rightarrow> gut) \<Rightarrow> string list \<Rightarrow> gut \<Rightarrow> int \<times> gut" where
  "cmd_gut_ping E live others args g = (0, gut_ping_loop E live others 0 (nat (ping_count args)) 0 g)"

definition cmd_gut_echo :: "string list \<Rightarrow> gut \<Rightarrow> int \<times> gut" where
  "cmd_gut_echo args g =
     (case args of
        [] \<Rightarrow> (0, g)
      | s # _ \<Rightarrow>
          if s = ''on'' then (0, g\<lparr>gut_echo := True\<rparr>)
          else if s = ''off'' then (0, g\<lparr>gut_echo := False\<rparr>)
          else (- EINVAL, g))"

definition cmd_gut_log :: "string list \<Rightarrow> gut \<Rightarrow> int \<times> gut" where
  "cmd_gut_log args g =
     (case args of
        [] \<Rightarrow> (0, g)
      | s # _ \<Rightarrow>
          if s = ''on'' then (0, g\<lparr>gut_log := True\<rparr>)
          else if s = ''off'' then (0, g\<lparr>gut_log := False\<rparr>)
          else (- EINVAL, g))"

definition cmd_gut_ip :: "string list \<Rightarrow> gut \<Rightarrow> int \<times> gut" where
  "cmd_gut_ip args g =
     (case args of
        [] \<Rightarrow> (0, g)
      | s # _ \<Rightarrow>
          if gut_use_dhcp g \<noteq> 0 then (- EINVAL, g)
          else if length s \<ge> 16 then (- EINVAL, g)
          else (0, gut_save_network_config (g\<lparr>gut_ip_addr := s\<rparr>)))"

definition cmd_gut_port :: "string list \<Rightarrow> gut \<Rightarrow> int \<times> gut" where
  "cmd_gut_port args g =
     (case args of
        [] \<Rightarrow> (0, g)
      | s # _ \<Rightarrow>
          let p = strtol 10 s
          in if p < 1 \<or> p > 65535 then (- EINVAL, g)
             else (0, gut_save_network_config (g\<lparr>gut_data_port := of_int p\<rparr>)))"

text \<open>The lines of cmd_gut_info; a byte as two hexadecimal digits.\<close>

definition hex2 :: "u8 \<Rightarrow> string" where
  "hex2 b = [digit_char (unat b div 16), digit_char (unat b mod 16)]"

definition on_off :: "bool \<Rightarrow> string" where
  "on_off b = (if b then ''on'' else ''off'')"

definition cmd_gut_info :: "gut_env \<Rightarrow> live_addr \<Rightarrow> gut \<Rightarrow> string list" where
  "cmd_gut_info E live g =
     (let ip = (case live of None \<Rightarrow> ''-'' | Some (a, _) \<Rightarrow> inet_ntop (ue_inet E) a);
          gw = (case inet_pton (ue_inet E) (gut_ip_addr g) of
                  None \<Rightarrow> ''-'' | Some a \<Rightarrow> inet_ntop (ue_inet E) (a[3 := 1]))
      in [''ip:        '' @ ip @ '' ('' @ mode_text (gut_use_dhcp g) @ '')''] @
         (if gut_use_dhcp g \<noteq> 0 then [''netmask:   (from DHCP)'', ''gateway:   (from DHCP)'']
          else [''netmask:   255.255.255.0 (fixed)'', ''gateway:   '' @ gw @ '' (derived)'']) @
         [''data port: '' @ dec_string (unat (gut_data_port g)), ''cfg port:  '' @ dec_string (unat (ue_config_port E)),
          ''rf24 ch:   '' @ dec_string (unat (gut_rf24_channel g)),
          ''rf24 addr:'' @ concat (map (\<lambda>b. '' '' @ hex2 b) (take 5 (gut_rf24_addr g))),
          ''echo:      '' @ on_off (gut_echo g), ''log:       '' @ on_off (gut_log g),
          ''running:   '' @ (if gut_running g then ''yes'' else ''no'')])"

definition cmd_gut_ip_show :: "gut_env \<Rightarrow> live_addr \<Rightarrow> gut \<Rightarrow> string" where
  "cmd_gut_ip_show E live g =
     (case live of
        Some (a, _) \<Rightarrow> ''ip: '' @ inet_ntop (ue_inet E) a @ '' ('' @ mode_text (gut_use_dhcp g) @ '')''
      | None \<Rightarrow> ''ip: (no address, stored='' @ gut_ip_addr g @ '')'')"

section \<open>Start (main.c)\<close>

definition gut_if_event :: "if_event \<Rightarrow> gut \<Rightarrow> gut" where
  "gut_if_event ev g =
     (case ev of
        NET_EVENT_IF_UP \<Rightarrow>
          let g = g\<lparr>gut_net_link_up := True, gut_link_sem := 1\<rparr>
          in if gut_use_dhcp g \<noteq> 0 then g\<lparr>gut_iface := map_option (\<lambda>i. i\<lparr>ni_dhcp := True\<rparr>) (gut_iface g)\<rparr> else g
      | NET_EVENT_IF_DOWN \<Rightarrow> g\<lparr>gut_net_link_up := False\<rparr>
      | Other_event \<Rightarrow> g)"

definition gut_net_init :: "gut_env \<Rightarrow> net_iface \<Rightarrow> gut \<Rightarrow> int \<times> gut" where
  "gut_net_init E i g =
     (if gut_use_dhcp g \<noteq> 0 then (0, g\<lparr>gut_iface := Some (i\<lparr>ni_up := True\<rparr>)\<rparr>)
      else
        case inet_pton (ue_inet E) (gut_ip_addr g) of
          None \<Rightarrow> (- EINVAL, g)
        | Some a \<Rightarrow> (0, g\<lparr>gut_iface := Some (i\<lparr>ni_addr := Some a, ni_mask := Some [0xFF, 0xFF, 0xFF, 0],
                        ni_gw := Some (a[3 := 1]), ni_up := True\<rparr>)\<rparr>))"

definition gut_defaults :: "gut \<Rightarrow> gut" where
  "gut_defaults g = g\<lparr>gut_rf24_channel := RF24_DEFAULT_CH, gut_rf24_addr := replicate RF24_ADDR_LEN 0,
     gut_ip_addr := ''192.168.11.220'', gut_data_port := GUT_DATA_PORT_DEFAULT, gut_use_dhcp := 0, gut_echo := False,
     gut_event := False\<rparr>"

text \<open>
  main: \<open>stored\<close> is what the settings hold, \<open>polls\<close> the results of the polls for an interface, \<open>oper_up\<close> whether the
  link is up when it is asked for, \<open>wait\<close> what the other threads do in the five seconds otherwise; the semaphore is
  taken if it is there then.
\<close>

definition gut_main :: "gut_env \<Rightarrow> (string \<times> bytes) list \<Rightarrow> net_iface option list \<Rightarrow> bool \<Rightarrow> (gut \<Rightarrow> gut) \<Rightarrow> gut \<Rightarrow> gut" where
  "gut_main E stored polls oper_up wait g =
     (let g = fold (gut_load_entry E) stored (gut_defaults g);
          g = (case find (\<lambda>p. p \<noteq> None) (take 100 polls) of
                 Some (Some i) \<Rightarrow>
                   (case gut_net_init E i g of (ret, g) \<Rightarrow>
                      if ret \<noteq> 0 then g
                      else
                        let g = (if oper_up then g else let g = wait g in g\<lparr>gut_link_sem := gut_link_sem g - 1\<rparr>)
                        in g\<lparr>gut_event := True\<rparr>)
               | _ \<Rightarrow> g)
      in g\<lparr>gut_running := True\<rparr>)"

end
