(* ===== verification/Udp_Test_Props.thy ===== *)
theory Udp_Test_Props
  imports Udp_Test
begin

text \<open>
  The test program at work: whom its echo reaches, its settings over a restart (the contract of theory Settings),
  and where it differs from the gateway it stands for.
\<close>

section \<open>The echo\<close>

definition echo_ready :: "gut \<Rightarrow> bool" where
  "echo_ready g \<longleftrightarrow> gut_echo g \<and> gut_data_sock g \<ge> 0 \<and> gut_net_link_up g"

text \<open>What may come of a datagram: its first 512 bytes, to its sender or, for a foreign sender, to somebody near.\<close>

definition echo_of :: "live_addr \<Rightarrow> u16 \<Rightarrow> endpoint \<times> bytes \<Rightarrow> endpoint \<times> bytes \<Rightarrow> bool" where
  "echo_of live port = (\<lambda>(src, dg) (dst, b). b = take 512 dg \<and>
     (if gut_same_subnet live (fst src) then dst = src
      else gut_same_subnet live (fst dst) \<or> dst = (bcast_ip, port + 1)))"

lemma data_rx_keeps:
  "echo_ready (gut_data_rx live d g) = echo_ready g" "gut_data_port (gut_data_rx live d g) = gut_data_port g"
  by (cases d, simp add: gut_data_rx_def gut_udp_send_def Let_def echo_ready_def)+

lemma data_rx_echo:
  assumes "echo_ready g"
  shows "if length dg \<ge> 2 then \<exists>e. echo_of live (gut_data_port g) (src, dg) e \<and> gut_out (gut_data_rx live (src, dg) g) = gut_out g @ [e]
    else gut_out (gut_data_rx live (src, dg) g) = gut_out g"
  using assms by (cases src, cases "gut_remote g") (auto simp: gut_data_rx_def gut_udp_send_def Let_def echo_ready_def echo_of_def)

text \<open>
  C39: with the echo on, every datagram of at least two bytes is answered by one datagram with its first 512 bytes, in
  order, and nothing else is sent; a sender in the own subnet gets back its own, and the echo of a foreign one stays in
  the own subnet or goes to the broadcast address.
\<close>

theorem echo_answers:
  assumes "echo_ready g"
  shows "\<exists>new. gut_out (fold (gut_data_rx live) ds g) = gut_out g @ new \<and>
    list_all2 (echo_of live (gut_data_port g)) (filter (\<lambda>d. length (snd d) \<ge> 2) ds) new"
  using assms
proof (induction ds arbitrary: g)
  case (Cons d ds)
  obtain src dg where d: "d = (src, dg)" by (cases d)
  let ?g = "gut_data_rx live d g"
  have "echo_ready ?g" using Cons.prems by (simp add: data_rx_keeps)
  from Cons.IH [OF this] obtain new where new: "gut_out (fold (gut_data_rx live) ds ?g) = gut_out ?g @ new"
    "list_all2 (echo_of live (gut_data_port g)) (filter (\<lambda>d. length (snd d) \<ge> 2) ds) new" by (auto simp: data_rx_keeps)
  show ?case
  proof (cases "length dg \<ge> 2")
    case True
    then obtain e where e: "echo_of live (gut_data_port g) d e" "gut_out ?g = gut_out g @ [e]"
      using data_rx_echo [OF Cons.prems, of dg live src] by (auto simp: d)
    show ?thesis by (rule exI [of _ "e # new"]) (use True e new in \<open>simp add: d\<close>)
  next
    case False
    then have "gut_out ?g = gut_out g" using data_rx_echo [OF Cons.prems, of dg live src] by (simp add: d)
    then show ?thesis using False new by (simp add: d)
  qed
qed simp

section \<open>A program at work\<close>

definition gut_static :: gut where
  "gut_static = \<lparr>gut_rf24_channel = 0, gut_rf24_addr = replicate 5 0, gut_ip_addr = '''', gut_data_port = 0,
     gut_use_dhcp = 0, gut_running = False, gut_echo = False, gut_log = False, gut_event = False,
     gut_net_link_up = False, gut_link_sem = 0, gut_data_sock = -1, gut_remote = ([0, 0, 0, 0], 0), gut_out = [],
     gut_store = Map.empty, gut_iface = None\<rparr>"

definition test_env :: gut_env where
  "test_env = \<lparr>ue_bo = std_byteorder, ue_inet = sim_inet, ue_config_port = 9200, ue_name_next = ge_name_next sim_env\<rparr>"

text \<open>Started with a stored address, link up, socket open, echo switched on at the shell.\<close>

definition test_started :: gut where
  "test_started =
     (let i = \<lparr>ni_mac = replicate 6 0, ni_addr = None, ni_mask = None, ni_gw = None, ni_up = False, ni_dhcp = False\<rparr>;
          g = gut_main test_env [(''gut/ip_addr'', char_bytes (inet_ntop sim_inet [10, 0, 0, 2]))] [None, Some i] True id gut_static;
          g = gut_data_open 4 0 (gut_if_event NET_EVENT_IF_UP g)
      in snd (cmd_gut_echo [''on''] g))"

theorem echo_answers_witness:
  "\<exists>e. gut_out (fold (gut_data_rx (Some ([10, 0, 0, 2], [255, 0, 0, 0])))
      [(([10, 0, 0, 9], 5000), [2, 0x63, 7]), (([10, 0, 0, 9], 5000), [1]), (([11, 0, 0, 1], 6000), [1, 2])] test_started)
      = [(([10, 0, 0, 9], 5000), [2, 0x63, 7]), e] \<and> snd e = [1, 2]"
proof -
  have r: "echo_ready test_started" "gut_out test_started = []" by code_simp+
  show ?thesis
    using echo_answers [OF r(1), of "Some ([10, 0, 0, 2], [255, 0, 0, 0])"
        "[(([10, 0, 0, 9], 5000), [2, 0x63, 7]), (([10, 0, 0, 9], 5000), [1]), (([11, 0, 0, 1], 6000), [1, 2])]"]
    by (auto simp: r(2) list_all2_Cons1 echo_of_def gut_same_subnet_def)
qed

section \<open>Settings\<close>

definition gut_params_ok :: "gut \<Rightarrow> bool" where
  "gut_params_ok g \<longleftrightarrow> gut_rf24_channel g \<le> RF24_ADDR_MAX_CH \<and> length (gut_rf24_addr g) = 5 \<and> text_ok (gut_ip_addr g)"

lemma gut_load_entries:
  assumes "names_ok (ue_name_next E)"
  shows "gut_load_entry E (''gut/rf24_channel'', v) g =
      (if length v = 1 \<and> v ! 0 \<le> RF24_ADDR_MAX_CH then g\<lparr>gut_rf24_channel := v ! 0\<rparr> else g)"
    "gut_load_entry E (''gut/rf24_addr'', v) g = (if length v = 5 then g\<lparr>gut_rf24_addr := v\<rparr> else g)"
    "gut_load_entry E (''gut/ip_addr'', v) g = (if length v < 16 then g\<lparr>gut_ip_addr := c_string v\<rparr> else g)"
    "gut_load_entry E (''gut/data_port'', v) g = (if length v = 2 then g\<lparr>gut_data_port := mem_u16 v\<rparr> else g)"
    "gut_load_entry E (''gut/use_dhcp'', v) g = (if length v = 1 then g\<lparr>gut_use_dhcp := v ! 0\<rparr> else g)"
  using assms by (simp_all add: gut_load_entry_def gut_persist_set_def names_ok_def rf24_consts)

definition gut_with_settings :: "gut \<Rightarrow> gut \<Rightarrow> gut" where
  "gut_with_settings g h = h\<lparr>gut_rf24_channel := gut_rf24_channel g, gut_rf24_addr := gut_rf24_addr g,
     gut_ip_addr := gut_ip_addr g, gut_data_port := gut_data_port g, gut_use_dhcp := gut_use_dhcp g\<rparr>"

interpretation gut_settings: settings gut_persist_export "gut_load_entry E"
    "\<lambda>g. names_ok (ue_name_next E) \<and> gut_params_ok g" gut_with_settings for E
proof
  fix g h x y
  assume v: "names_ok (ue_name_next E) \<and> gut_params_ok g"
  note load = gut_load_entries [OF conjunct1 [OF v]]
  show "x \<in> set (gut_persist_export g) \<Longrightarrow> y \<in> set (gut_persist_export g) \<Longrightarrow>
      gut_load_entry E x (gut_load_entry E y h) = gut_load_entry E y (gut_load_entry E x h)"
    unfolding gut_persist_export_def list.set insert_iff empty_iff simp_thms
    by (elim disjE; hypsubst; simp only: load; simp)
  show "fold (gut_load_entry E) (gut_persist_export g) h = gut_with_settings g h"
    using v by (simp add: gut_persist_export_def load gut_params_ok_def text_ok_def gut_with_settings_def
        u16_mem_def [THEN arg_cong, of length])
qed

text \<open>Both groups of parameters are stored by the commands that change them, and come back.\<close>

lemma gut_settings_restored:
  "names_ok (ue_name_next E) \<Longrightarrow> gut_params_ok g \<Longrightarrow> mset stored = mset (gut_persist_export g) \<Longrightarrow>
   fold (gut_load_entry E) stored h = gut_with_settings g h"
  using gut_settings.load_restores [of E g stored h] by simp

lemma gut_saved_entries:
  "(k, v) \<in> set (gut_persist_export g) \<Longrightarrow> gut_store (gut_save_network_config (gut_save_rf24_config g)) k = Some v"
  by (auto simp: gut_persist_export_def gut_save_network_config_def gut_save_rf24_config_def gut_save_one_def Let_def)

section \<open>Against the gateway\<close>

text \<open>
  The program is described as speaking the gateway's protocol; but the command that sets the radio here is, in the
  gateway, the one that redirects everything to another host.
\<close>

lemma test_protocol_differs:
  assumes "length data \<ge> 6"
  shows "gut_rf24_addr (fst (snd (gut_app_cmd_handler E live (GUT_CMD_SET_RF24, data) (t, rs)))) = take 5 (drop 1 data)"
    "gw_host_ip (fst (snd (app_cmd_handler G l (GUT_CMD_SET_RF24, data) (g, rs)))) = inet_ntop (ge_inet G) (take 4 data)"
  using assms
  by (simp_all add: gut_app_cmd_handler_def app_cmd_handler_def gut_cmd_defs gw_cmd_defs gut_save_rf24_config_def
      gut_save_one_def persist_save_network_config_def save_one_def rf24_consts Let_def)

text \<open>Port 0 is stored, and the gateway's check of the address is missing: the broadcast address is stored, too.\<close>

lemma test_accepts_anything:
  "let g = fst (snd (gut_app_cmd_handler test_env None (GUT_CMD_SET_NET, [255, 255, 255, 255, 0, 0]) (test_started, [])))
   in gut_data_port g = 0 \<and> inet_pton sim_inet (gut_ip_addr g) = Some bcast_ip \<and>
     gut_store g ''gut/data_port'' = Some [0, 0]"
  by code_simp

end
