(* ===== verification/Gw_Sim.thy ===== *)
theory Gw_Sim
  imports Udp_Test
begin

text \<open>
  The simulator of the gateway, \<open>applications/gw_sim\<close>: data and configuration port (udp.c), the radio as a stub
  (rf24_stub.c) and the start (main.c), with what its test script expects and how it compares with the gateway.
\<close>

section \<open>State\<close>

record simulator_env =
  se_bo :: byteorder
  se_inet :: inet_api
  se_version :: string

text \<open>
  \<open>sim_air\<close> are the frames handed to the radio stub, \<open>sim_radio\<close> the configurations; \<open>sim_data_out\<close> and
  \<open>sim_config_out\<close> what went to the sockets.  The sockets are the host's, where a size_t is counted in 32 bits.
\<close>

record gw_simulator =
  sim_rf24_channel :: u8
  sim_rf24_addr :: bytes
  sim_ip_addr :: string
  sim_netmask :: string
  sim_gw_addr :: string
  sim_data_port :: u16
  sim_running :: bool
  sim_data_sock :: int
  sim_data_remote :: endpoint
  sim_config_sock :: int
  sim_config_remote :: endpoint
  sim_fw_started :: bool
  sim_fw_total :: u32
  sim_rebooted :: bool
  sim_air :: "(u16 \<times> bytes) list"
  sim_radio :: "(u8 \<times> bytes) list"
  sim_data_out :: "(endpoint \<times> bytes) list"
  sim_config_out :: "(endpoint \<times> bytes) list"

definition SIM_CMD_SET_IP :: u8 where "SIM_CMD_SET_IP = 0x01"
definition SIM_CMD_SET_MASK :: u8 where "SIM_CMD_SET_MASK = 0x02"
definition SIM_CMD_SET_GW :: u8 where "SIM_CMD_SET_GW = 0x03"
definition SIM_CMD_SET_PORT :: u8 where "SIM_CMD_SET_PORT = 0x04"
definition SIM_CMD_GET_CONFIG :: u8 where "SIM_CMD_GET_CONFIG = 0x05"
definition SIM_CMD_GET_VERSION :: u8 where "SIM_CMD_GET_VERSION = 0x06"
definition SIM_CMD_SET_RF24_CH :: u8 where "SIM_CMD_SET_RF24_CH = 0x07"
definition SIM_CMD_SET_RF24_ADDR :: u8 where "SIM_CMD_SET_RF24_ADDR = 0x08"
definition SIM_CMD_REBOOT :: u8 where "SIM_CMD_REBOOT = 0x09"
definition SIM_CMD_FW_START :: u8 where "SIM_CMD_FW_START = 0x10"
definition SIM_CMD_FW_DATA :: u8 where "SIM_CMD_FW_DATA = 0x11"
definition SIM_CMD_FW_END :: u8 where "SIM_CMD_FW_END = 0x12"
definition GATEWAY_CONFIG_PORT :: u16 where "GATEWAY_CONFIG_PORT = 9200"

lemmas sim_cmd_defs = SIM_CMD_SET_IP_def SIM_CMD_SET_MASK_def SIM_CMD_SET_GW_def SIM_CMD_SET_PORT_def
  SIM_CMD_GET_CONFIG_def SIM_CMD_GET_VERSION_def SIM_CMD_SET_RF24_CH_def SIM_CMD_SET_RF24_ADDR_def SIM_CMD_REBOOT_def
  SIM_CMD_FW_START_def SIM_CMD_FW_DATA_def SIM_CMD_FW_END_def

section \<open>The radio stub (rf24_stub.c)\<close>

definition sim_rf24_set_config :: "u8 \<Rightarrow> bytes \<Rightarrow> gw_simulator \<Rightarrow> gw_simulator" where
  "sim_rf24_set_config channel addr s = s\<lparr>sim_radio := sim_radio s @ [(channel, addr)]\<rparr>"

definition sim_rf24_send :: "u16 \<Rightarrow> bytes \<Rightarrow> gw_simulator \<Rightarrow> bool \<times> gw_simulator" where
  "sim_rf24_send cid data s = (True, s\<lparr>sim_air := sim_air s @ [(cid, data)]\<rparr>)"

section \<open>Sending (udp.c)\<close>

text \<open>Here is_same_subnet is always true, so an answer goes to the last sender.\<close>

definition sim_same_subnet :: "bytes \<Rightarrow> bool" where
  "sim_same_subnet ip = True"

definition sim_udp_send :: "bytes \<Rightarrow> gw_simulator \<Rightarrow> gw_simulator" where
  "sim_udp_send data s =
     (if sim_data_sock s < 0 \<or> length data = 0 then s
      else
        let dst = (if sim_same_subnet (fst (sim_data_remote s)) then sim_data_remote s else (bcast_ip, sim_data_port s))
        in s\<lparr>sim_data_out := sim_data_out s @ [(dst, data)]\<rparr>)"

text \<open>\<open>n\<close> is the length as a byte; the reply buffer holds 64 bytes, more than 63 bytes of data are not sent.\<close>

definition config_send_resp :: "u8 \<Rightarrow> bytes \<Rightarrow> u8 \<Rightarrow> gw_simulator \<Rightarrow> gw_simulator" where
  "config_send_resp cmd data n s =
     (if sim_config_sock s < 0 then s
      else
        let buf = (if n > 0 \<and> n \<le> 63 then cmd # take (unat n) data else [cmd]);
            dst = (if sim_same_subnet (fst (sim_config_remote s)) then sim_config_remote s
                   else (bcast_ip, GATEWAY_CONFIG_PORT))
        in s\<lparr>sim_config_out := sim_config_out s @ [(dst, buf)]\<rparr>)"

definition sim_resp :: "u8 \<Rightarrow> bytes \<Rightarrow> gw_simulator \<Rightarrow> gw_simulator" where
  "sim_resp cmd data = config_send_resp cmd data (of_nat (length data))"

section \<open>The commands (udp.c)\<close>

definition sim_fw_reset :: "gw_simulator \<Rightarrow> gw_simulator" where
  "sim_fw_reset s = (if sim_fw_started s then s\<lparr>sim_fw_started := False\<rparr> else s)"

definition ok_text :: bytes where "ok_text = char_bytes ''ok''"

definition udp_cmd_handler :: "simulator_env \<Rightarrow> bytes \<Rightarrow> gw_simulator \<Rightarrow> gw_simulator" where
  "udp_cmd_handler E dg s =
     (case dg of
        [] \<Rightarrow> s
      | cmd # data \<Rightarrow>
          if cmd = SIM_CMD_SET_IP then
            if length data \<ge> 4 then
              let s = s\<lparr>sim_ip_addr := inet_ntop (se_inet E) (take 4 data)\<rparr> in sim_resp cmd (char_bytes (sim_ip_addr s)) s
            else s
          else if cmd = SIM_CMD_SET_MASK then
            if length data \<ge> 4 then
              let s = s\<lparr>sim_netmask := inet_ntop (se_inet E) (take 4 data)\<rparr> in sim_resp cmd (char_bytes (sim_netmask s)) s
            else s
          else if cmd = SIM_CMD_SET_GW then
            if length data \<ge> 4 then
              let s = s\<lparr>sim_gw_addr := inet_ntop (se_inet E) (take 4 data)\<rparr> in sim_resp cmd (char_bytes (sim_gw_addr s)) s
            else s
          else if cmd = SIM_CMD_SET_PORT then
            if length data \<ge> 2 then sim_resp cmd (take 2 data) (s\<lparr>sim_data_port := get_be16 (se_bo E) data\<rparr>) else s
          else if cmd = SIM_CMD_GET_CONFIG then
            sim_resp cmd (sim_rf24_channel s # take RF24_ADDR_LEN (sim_rf24_addr s) @
              put_be16 (se_bo E) (sim_data_port s) @ put_be16 (se_bo E) GATEWAY_CONFIG_PORT) s
          else if cmd = SIM_CMD_GET_VERSION then sim_resp cmd (char_bytes (se_version E)) s
          else if cmd = SIM_CMD_SET_RF24_CH then
            (let s = (if length data \<ge> 1 \<and> data ! 0 \<le> RF24_ADDR_MAX_CH
                      then sim_rf24_set_config (data ! 0) (sim_rf24_addr s) (s\<lparr>sim_rf24_channel := data ! 0\<rparr>) else s)
             in sim_resp cmd [sim_rf24_channel s] s)
          else if cmd = SIM_CMD_SET_RF24_ADDR then
            (let s = (if length data \<ge> RF24_ADDR_LEN
                      then sim_rf24_set_config (sim_rf24_channel s) (take RF24_ADDR_LEN data)
                             (s\<lparr>sim_rf24_addr := take RF24_ADDR_LEN data\<rparr>) else s)
             in sim_resp cmd (take RF24_ADDR_LEN (sim_rf24_addr s)) s)
          else if cmd = SIM_CMD_REBOOT then (sim_resp cmd [] s)\<lparr>sim_rebooted := True\<rparr>
          else if cmd = SIM_CMD_FW_START then
            sim_resp cmd ok_text (if sim_fw_started s then s else s\<lparr>sim_fw_started := True, sim_fw_total := 0\<rparr>)
          else if cmd = SIM_CMD_FW_DATA then
            if sim_fw_started s \<and> length data > 0 then
              sim_resp cmd ok_text (s\<lparr>sim_fw_total := sim_fw_total s + of_nat (length data)\<rparr>)
            else s
          else if cmd = SIM_CMD_FW_END then
            if sim_fw_started s then (sim_resp cmd ok_text (sim_fw_reset s))\<lparr>sim_rebooted := True\<rparr> else s
          else s)"

section \<open>The two ports (udp.c)\<close>

definition sim_data_open :: "int \<Rightarrow> int \<Rightarrow> gw_simulator \<Rightarrow> gw_simulator" where
  "sim_data_open sock bound s =
     (if sock < 0 then s\<lparr>sim_data_sock := sock\<rparr>
      else if bound < 0 then s\<lparr>sim_data_sock := -1\<rparr>
      else s\<lparr>sim_data_sock := sock, sim_data_remote := (bcast_ip, sim_data_port s)\<rparr>)"

definition sim_data_rx :: "simulator_env \<Rightarrow> endpoint \<times> bytes \<Rightarrow> gw_simulator \<Rightarrow> gw_simulator" where
  "sim_data_rx E = (\<lambda>(src, dg) s.
     let buf = take 512 dg
     in if length buf = 0 then s
        else
          let s = (if sim_same_subnet (fst src) then s\<lparr>sim_data_remote := src\<rparr> else s)
          in if length buf \<ge> 2 then
               let cid = get_be16 (se_bo E) buf
               in if cid = OVERBREAK_LASER \<or> cid = COORD_XY \<or> cid = COORD_Z
                  then snd (sim_rf24_send cid (drop 2 buf) s) else s
             else s)"

definition sim_config_open :: "int \<Rightarrow> int \<Rightarrow> gw_simulator \<Rightarrow> gw_simulator" where
  "sim_config_open sock bound s =
     (if sock < 0 then s\<lparr>sim_config_sock := sock\<rparr>
      else if bound < 0 then s\<lparr>sim_config_sock := -1\<rparr>
      else s\<lparr>sim_config_sock := sock\<rparr>)"

definition sim_config_rx :: "simulator_env \<Rightarrow> endpoint \<times> bytes \<Rightarrow> gw_simulator \<Rightarrow> gw_simulator" where
  "sim_config_rx E = (\<lambda>(src, dg) s.
     let buf = take 512 dg
     in if length buf = 0 then s else udp_cmd_handler E buf (s\<lparr>sim_config_remote := src\<rparr>))"

section \<open>Start (main.c)\<close>

definition sim_main :: "gw_simulator \<Rightarrow> gw_simulator" where
  "sim_main s = s\<lparr>sim_rf24_channel := RF24_DEFAULT_CH, sim_rf24_addr := replicate RF24_ADDR_LEN 0,
     sim_ip_addr := ''192.168.1.100'', sim_netmask := ''255.255.255.0'', sim_gw_addr := ''192.168.1.1'',
     sim_data_port := 9090, sim_running := True\<rparr>"

definition sim_static :: gw_simulator where
  "sim_static = \<lparr>sim_rf24_channel = 0, sim_rf24_addr = replicate 5 0, sim_ip_addr = '''', sim_netmask = '''',
     sim_gw_addr = '''', sim_data_port = 0, sim_running = False, sim_data_sock = -1, sim_data_remote = ([0, 0, 0, 0], 0),
     sim_config_sock = -1, sim_config_remote = ([0, 0, 0, 0], 0), sim_fw_started = False, sim_fw_total = 0,
     sim_rebooted = False, sim_air = [], sim_radio = [], sim_data_out = [], sim_config_out = []\<rparr>"

section \<open>Against the gateway\<close>

text \<open>
  On its data port the simulator hands to the radio exactly what the gateway does with the same datagram: both
  filter by the frame number and cut off the two bytes of it.
\<close>

definition forwarded :: "byteorder \<Rightarrow> bytes \<Rightarrow> (u16 \<times> bytes) list" where
  "forwarded bo dg =
     (let buf = take 512 dg; cid = get_be16 bo buf
      in if length buf \<ge> 2 \<and> (cid = OVERBREAK_LASER \<or> cid = COORD_XY \<or> cid = COORD_Z) then [(cid, drop 2 buf)] else [])"

lemma sim_forwards_as_gateway:
  "sim_data_rx E (src, dg) s =
      (if dg = [] then s else s\<lparr>sim_data_remote := src, sim_air := sim_air s @ forwarded (se_bo E) dg\<rparr>)"
  "udp_data_rx G air dg g = fold (\<lambda>(cid, p) g. snd (gw_rf24_send G air cid p g)) (forwarded (ge_bo G) dg) g"
  by (auto simp: forwarded_def sim_data_rx_def udp_data_rx_def sim_same_subnet_def sim_rf24_send_def Let_def)

text \<open>The upgrade counts the bytes of its pieces, all of them answered, and ends in a reboot.\<close>

definition sim_answering :: "gw_simulator \<Rightarrow> bool" where
  "sim_answering s \<longleftrightarrow> sim_config_sock s \<ge> 0"

lemma sim_chunk:
  assumes "sim_fw_started s" and "sim_answering s" and "p \<noteq> []" and "length p \<le> 511"
  shows "sim_config_rx E (src, SIM_CMD_FW_DATA # p) s =
    s\<lparr>sim_config_remote := src, sim_fw_total := sim_fw_total s + of_nat (length p),
      sim_config_out := sim_config_out s @ [(src, SIM_CMD_FW_DATA # ok_text)]\<rparr>"
proof -
  have o: "of_nat (length ok_text) = (2 :: u8)" "take 2 ok_text = ok_text" by (simp_all add: ok_text_def char_bytes_def)
  show ?thesis
    using assms by (simp add: sim_config_rx_def udp_cmd_handler_def sim_cmd_defs sim_resp_def config_send_resp_def
        sim_same_subnet_def sim_answering_def Let_def o)
qed

lemma sim_chunks:
  "sim_fw_started s \<Longrightarrow> sim_answering s \<Longrightarrow> \<forall>p \<in> set ps. p \<noteq> [] \<and> length p \<le> 511 \<Longrightarrow> ps \<noteq> [] \<Longrightarrow>
   fold (\<lambda>p. sim_config_rx E (src, SIM_CMD_FW_DATA # p)) ps s =
    s\<lparr>sim_config_remote := src, sim_fw_total := sim_fw_total s + of_nat (length (concat ps)),
      sim_config_out := sim_config_out s @ replicate (length ps) (src, SIM_CMD_FW_DATA # ok_text)\<rparr>"
proof (induction ps arbitrary: s)
  case (Cons p ps)
  show ?case
  proof (cases "ps = []")
    case True
    then show ?thesis using Cons.prems sim_chunk [of s p E src] by simp
  next
    case False
    let ?s = "s\<lparr>sim_config_remote := src, sim_fw_total := sim_fw_total s + of_nat (length p),
        sim_config_out := sim_config_out s @ [(src, SIM_CMD_FW_DATA # ok_text)]\<rparr>"
    have "sim_fw_started ?s" "sim_answering ?s" using Cons.prems by (simp_all add: sim_answering_def)
    then show ?thesis using Cons.IH [of ?s] Cons.prems False sim_chunk [of s p E src] by (simp add: add.assoc)
  qed
qed simp

lemma sim_upgrade:
  assumes "\<not> sim_fw_started s" and "sim_answering s" and "ps \<noteq> []" and "\<forall>p \<in> set ps. p \<noteq> [] \<and> length p \<le> 511"
  shows "let r = fold (\<lambda>d. sim_config_rx E (src, d)) ([SIM_CMD_FW_START] # map ((#) SIM_CMD_FW_DATA) ps @ [[SIM_CMD_FW_END]]) s
    in sim_fw_total r = of_nat (length (concat ps)) \<and> sim_rebooted r \<and> \<not> sim_fw_started r \<and>
      sim_config_out r = sim_config_out s @ (src, SIM_CMD_FW_START # ok_text) #
        replicate (length ps) (src, SIM_CMD_FW_DATA # ok_text) @ [(src, SIM_CMD_FW_END # ok_text)]"
proof -
  have o: "of_nat (length ok_text) = (2 :: u8)" "take 2 ok_text = ok_text" by (simp_all add: ok_text_def char_bytes_def)
  note resp = sim_config_rx_def udp_cmd_handler_def sim_cmd_defs sim_resp_def config_send_resp_def sim_same_subnet_def
    Let_def o sim_fw_reset_def
  let ?s = "s\<lparr>sim_config_remote := src, sim_fw_started := True, sim_fw_total := 0,
      sim_config_out := sim_config_out s @ [(src, SIM_CMD_FW_START # ok_text)]\<rparr>"
  have start: "sim_config_rx E (src, [SIM_CMD_FW_START]) s = ?s"
    using assms(1,2) by (simp add: resp sim_answering_def)
  have fold: "fold (\<lambda>d. sim_config_rx E (src, d)) (map ((#) SIM_CMD_FW_DATA) ps) ?s =
      fold (\<lambda>p. sim_config_rx E (src, SIM_CMD_FW_DATA # p)) ps ?s" by (simp add: fold_map comp_def)
  have "sim_fw_started ?s" "sim_answering ?s" using assms(2) by (simp_all add: sim_answering_def)
  from sim_chunks [OF this assms(4,3), of E src] show ?thesis
    unfolding fold_Cons fold_append comp_def start fold using assms(2)
    by (simp only: fold_simps comp_apply id_apply) (simp add: resp sim_answering_def)
qed

section \<open>Where it differs\<close>

text \<open>
  A host that starts an upgrade as the gateway's library expects it, 0x01 and the size, sets the simulator's address
  instead, and no upgrade has begun.
\<close>

lemma sim_start_sets_ip:
  assumes "sim_answering s" and "length d = 4"
  shows "sim_ip_addr (sim_config_rx E (src, 1 # d) s) = inet_ntop (se_inet E) d \<and>
    sim_fw_started (sim_config_rx E (src, 1 # d) s) = sim_fw_started s"
  using assms by (simp add: sim_config_rx_def udp_cmd_handler_def sim_cmd_defs sim_resp_def config_send_resp_def
      sim_same_subnet_def sim_answering_def Let_def)

text \<open>A start during an upgrade is answered with ok, but the count goes on.\<close>

lemma sim_restart_counts_on:
  assumes "sim_fw_started s" and "sim_answering s"
  shows "sim_fw_total (sim_config_rx E (src, [SIM_CMD_FW_START]) s) = sim_fw_total s \<and>
    sim_config_out (sim_config_rx E (src, [SIM_CMD_FW_START]) s) = sim_config_out s @ [(src, SIM_CMD_FW_START # ok_text)]"
proof -
  have o: "of_nat (length ok_text) = (2 :: u8)" "take 2 ok_text = ok_text" by (simp_all add: ok_text_def char_bytes_def)
  show ?thesis using assms by (simp add: sim_config_rx_def udp_cmd_handler_def sim_cmd_defs sim_resp_def config_send_resp_def
      sim_same_subnet_def sim_answering_def Let_def o)
qed

end
